(* ===== verification/Json.thy ===== *)
theory Json
  imports Ada_Prelude
begin

text \<open>
  JSON values and the canonical form every hash of the campaign kernel is taken over
  (\<open>canonical_bytes\<close> of \<open>campaign/records.py\<close>): \<open>json.dumps\<close> with sorted keys,
  the separators \<open>,\<close> and \<open>:\<close> and no ASCII escaping, encoded as UTF-8.  The second half
  is \<open>json.loads\<close> as the campaign uses it, and the round trip between the two, from which
  the canonical form is shown to be injective.

  A float is kept as the text of its literal (\<open>JFloat\<close>): no operation of the modelled code
  computes with one, every field of its records refuses it.
\<close>

section \<open>Values\<close>

datatype json =
    JNull
  | JBool bool
  | JInt int
  | JFloat str
  | JStr str
  | JArr "json list"
  | JObj "(str \<times> json) list"

type_synonym jobject = "(str \<times> json) list"

text \<open>\<open>d[k]\<close>: the last binding of a key wins, as in a Python dict built from pairs.\<close>

definition jget :: "jobject \<Rightarrow> str \<Rightarrow> json option" where
  "jget kvs k = map_of (rev kvs) k"

fun jstr_opt :: "str option \<Rightarrow> json" where
  "jstr_opt None = JNull"
| "jstr_opt (Some s) = JStr s"

fun jint_opt :: "int option \<Rightarrow> json" where
  "jint_opt None = JNull"
| "jint_opt (Some i) = JInt i"

definition jstrs :: "str list \<Rightarrow> json" where
  "jstrs xs = JArr (map JStr xs)"

lemma jstr_opt_inject [simp]: "jstr_opt a = jstr_opt b \<longleftrightarrow> a = b"
  by (cases a; cases b) auto

lemma jint_opt_inject [simp]: "jint_opt a = jint_opt b \<longleftrightarrow> a = b"
  by (cases a; cases b) auto

lemma jstrs_inject [simp]: "jstrs xs = jstrs ys \<longleftrightarrow> xs = ys"
  by (simp add: jstrs_def inj_map_eq_map inj_def)

section \<open>Canonical bytes\<close>

definition hex_digit :: "nat \<Rightarrow> char" where
  "hex_digit d = (if d < 10 then char_of (48 + d) else char_of (87 + d))"

text \<open>\<open>py_encode_basestring\<close>: only the quote, the backslash and the control characters.\<close>

definition escape_char :: "char \<Rightarrow> str" where
  "escape_char c =
     (if c = CHR 0x22 then [CHR 0x5C, CHR 0x22]
      else if c = CHR 0x5C then [CHR 0x5C, CHR 0x5C]
      else if c = CHR 0x0A then [CHR 0x5C, CHR ''n'']
      else if c = CHR 0x0D then [CHR 0x5C, CHR ''r'']
      else if c = CHR 0x09 then [CHR 0x5C, CHR ''t'']
      else if c = CHR 0x0C then [CHR 0x5C, CHR ''f'']
      else if c = CHR 0x08 then [CHR 0x5C, CHR ''b'']
      else if c < CHR 0x20 then
        [CHR 0x5C, CHR ''u'', CHR ''0'', CHR ''0'',
         hex_digit (of_char c div 16), hex_digit (of_char c mod 16)]
      else [c])"

text \<open>The same, with the common case first, for evaluation.\<close>

lemma escape_char_code [code]:
  "escape_char c =
     (if (digit5 c \<or> digit6 c \<or> digit7 c) \<and> c \<noteq> CHR 0x22 \<and> c \<noteq> CHR 0x5C then [c]
      else if c = CHR 0x22 then [CHR 0x5C, CHR 0x22]
      else if c = CHR 0x5C then [CHR 0x5C, CHR 0x5C]
      else if c = CHR 0x0A then [CHR 0x5C, CHR ''n'']
      else if c = CHR 0x0D then [CHR 0x5C, CHR ''r'']
      else if c = CHR 0x09 then [CHR 0x5C, CHR ''t'']
      else if c = CHR 0x0C then [CHR 0x5C, CHR ''f'']
      else if c = CHR 0x08 then [CHR 0x5C, CHR ''b'']
      else [CHR 0x5C, CHR ''u'', CHR ''0'', CHR ''0'',
         hex_digit (of_char c div 16), hex_digit (of_char c mod 16)])"
  by (cases c) (auto simp: escape_char_def)

definition quote :: "str \<Rightarrow> str" where
  "quote s = CHR 0x22 # concat (map escape_char s) @ [CHR 0x22]"

text \<open>\<open>sort_keys=True\<close>, at every level.\<close>

fun jsort :: "json \<Rightarrow> json" where
  "jsort (JArr vs) = JArr (map jsort vs)"
| "jsort (JObj kvs) = JObj (sort_key fst (map (\<lambda>(k, v). (k, jsort v)) kvs))"
| "jsort v = v"

fun jprint :: "json \<Rightarrow> str" where
  "jprint JNull = ''null''"
| "jprint (JBool b) = (if b then ''true'' else ''false'')"
| "jprint (JInt i) = int_str i"
| "jprint (JFloat lit) = lit"
| "jprint (JStr s) = quote s"
| "jprint (JArr vs) = CHR ''['' # join '','' (map jprint vs) @ '']''"
| "jprint (JObj kvs) =
     CHR ''{'' # join '','' (map (\<lambda>(k, v). quote k @ CHR '':'' # jprint v) kvs) @ ''}''"

definition canonical_bytes :: "json \<Rightarrow> bytes" where
  "canonical_bytes v = jprint (jsort v)"

text \<open>
  \<open>H\<close> is \<open>hashlib.sha256(...).hexdigest()\<close>; every definition that hashes takes it as
  its first argument, and the theorems hold for whatever function it is unless they say
  otherwise.
\<close>

type_synonym hexdigest = "bytes \<Rightarrow> str"

definition sha256_bytes :: "hexdigest \<Rightarrow> bytes \<Rightarrow> str" where
  "sha256_bytes H content = ''sha256:'' @ H content"

definition canonical_hash :: "hexdigest \<Rightarrow> json \<Rightarrow> str" where
  "canonical_hash H v = sha256_bytes H (canonical_bytes v)"

section \<open>json.loads\<close>

text \<open>
  The scanner of CPython.  A document that is not JSON raises \<open>JSONDecodeError\<close>; an integer
  literal of more than 4300 digits raises a plain \<open>ValueError\<close>, which is not one.  The
  scanner recurses on nested values: \<open>pvalue\<close> spends one unit of fuel per value, and
  \<open>json_loads\<close> gives it more than the document has characters.
\<close>

datatype jerror = JSONDecodeError | IntDigitsError | OutOfFuel

definition int_max_str_digits :: nat where
  "int_max_str_digits = 4300"

definition is_ws :: "char \<Rightarrow> bool" where
  "is_ws c \<longleftrightarrow> c = CHR '' '' \<or> c = CHR 0x09 \<or> c = CHR 0x0A \<or> c = CHR 0x0D"

definition skip_ws :: "str \<Rightarrow> str" where
  "skip_ws s = dropWhile is_ws s"

definition hex_val :: "char \<Rightarrow> nat option" where
  "hex_val c =
     (let n = of_char c in
      if 48 \<le> n \<and> n \<le> 57 then Some (n - 48)
      else if 97 \<le> n \<and> n \<le> 102 then Some (n - 87)
      else if 65 \<le> n \<and> n \<le> 70 then Some (n - 55)
      else None)"

fun hex4 :: "str \<Rightarrow> (nat \<times> str) option" where
  "hex4 (a # b # c # d # rest) =
     (case (hex_val a, hex_val b, hex_val c, hex_val d) of
        (Some x, Some y, Some z, Some w) \<Rightarrow> Some (((x * 16 + y) * 16 + z) * 16 + w, rest)
      | _ \<Rightarrow> None)"
| "hex4 _ = None"

text \<open>
  The bytes of one code point.  A lone surrogate is a legal element of a Python string; it is
  kept as the three bytes \<open>surrogatepass\<close> would give, which \<open>utf8_valid\<close> refuses.
\<close>

definition utf8_enc :: "nat \<Rightarrow> bytes" where
  "utf8_enc n =
     (if n < 128 then [char_of n]
      else if n < 2048 then [char_of (192 + n div 64), char_of (128 + n mod 64)]
      else if n < 65536 then
        [char_of (224 + n div 4096), char_of (128 + n div 64 mod 64), char_of (128 + n mod 64)]
      else
        [char_of (240 + n div 262144), char_of (128 + n div 4096 mod 64),
         char_of (128 + n div 64 mod 64), char_of (128 + n mod 64)])"

definition simple_escape :: "char \<Rightarrow> char option" where
  "simple_escape e =
     (if e = CHR 0x22 then Some (CHR 0x22)
      else if e = CHR 0x5C then Some (CHR 0x5C)
      else if e = CHR ''/'' then Some (CHR ''/'')
      else if e = CHR ''b'' then Some (CHR 0x08)
      else if e = CHR ''f'' then Some (CHR 0x0C)
      else if e = CHR ''n'' then Some (CHR 0x0A)
      else if e = CHR ''r'' then Some (CHR 0x0D)
      else if e = CHR ''t'' then Some (CHR 0x09)
      else None)"

text \<open>A \<open>\u\<close> escape after the backslash and the \<open>u\<close>: surrogate pairs are joined.\<close>

definition pescape_u :: "str \<Rightarrow> (bytes \<times> str) option" where
  "pescape_u s =
     (case hex4 s of
        None \<Rightarrow> None
      | Some (n, rest) \<Rightarrow>
          (if 0xD800 \<le> n \<and> n \<le> 0xDBFF \<and> take 2 rest = [CHR 0x5C, CHR ''u''] then
             (case hex4 (drop 2 rest) of
                None \<Rightarrow> None
              | Some (m, rest') \<Rightarrow>
                  (if 0xDC00 \<le> m \<and> m \<le> 0xDFFF
                   then Some (utf8_enc (65536 + (n - 0xD800) * 1024 + (m - 0xDC00)), rest')
                   else Some (utf8_enc n, rest)))
           else Some (utf8_enc n, rest)))"

lemma hex4_length: "hex4 s = Some (n, rest) \<Longrightarrow> length rest < length s"
  by (induction s rule: hex4.induct) (auto split: option.splits)

lemma pescape_u_length: "pescape_u s = Some (bs, rest) \<Longrightarrow> length rest < length s"
  by (auto simp: pescape_u_def split: option.splits if_splits dest!: hex4_length)

function pstring :: "str \<Rightarrow> (str \<times> str) option" where
  "pstring [] = None"
| "pstring (c # cs) =
     (if c = CHR 0x22 then Some ([], cs)
      else if c = CHR 0x5C then
        (case cs of
           [] \<Rightarrow> None
         | e # ds \<Rightarrow>
             (if e = CHR ''u'' then
                (case pescape_u ds of
                   None \<Rightarrow> None
                 | Some (bs, rest) \<Rightarrow> map_option (\<lambda>(s, r). (bs @ s, r)) (pstring rest))
              else
                (case simple_escape e of
                   None \<Rightarrow> None
                 | Some x \<Rightarrow> map_option (\<lambda>(s, r). (x # s, r)) (pstring ds))))
      else if c < CHR 0x20 then None
      else map_option (\<lambda>(s, r). (c # s, r)) (pstring cs))"
  by pat_completeness auto
termination
  by (relation "measure length") (auto dest!: pescape_u_length)

fun pdigits :: "str \<Rightarrow> str \<times> str" where
  "pdigits s = (takeWhile is_digit s, dropWhile is_digit s)"

text \<open>\<open>(-?(?:0|[1-9][0-9]*))(\.[0-9]+)?([eE][-+]?[0-9]+)?\<close>: integer part, fraction, exponent.\<close>

definition pint_part :: "str \<Rightarrow> (str \<times> str) option" where
  "pint_part s =
     (case s of
        [] \<Rightarrow> None
      | c # cs \<Rightarrow>
          (if c = CHR ''0'' then Some ([c], cs)
           else if is_digit c then Some (pdigits s)
           else None))"

definition pfraction :: "str \<Rightarrow> str \<times> str" where
  "pfraction s =
     (case s of
        c # cs \<Rightarrow>
          (if c = CHR ''.'' \<and> fst (pdigits cs) \<noteq> []
           then (c # fst (pdigits cs), snd (pdigits cs)) else ([], s))
      | [] \<Rightarrow> ([], s))"

definition pexponent :: "str \<Rightarrow> str \<times> str" where
  "pexponent s =
     (case s of
        c # cs \<Rightarrow>
          (if c = CHR ''e'' \<or> c = CHR ''E'' then
             (let (sign, ds) =
                (case cs of
                   d # ds \<Rightarrow> (if d = CHR ''+'' \<or> d = CHR ''-'' then ([d], ds) else ([], cs))
                 | [] \<Rightarrow> ([], cs))
              in if fst (pdigits ds) \<noteq> []
                 then (c # sign @ fst (pdigits ds), snd (pdigits ds)) else ([], s))
           else ([], s))
      | [] \<Rightarrow> ([], s))"

definition pnumber :: "str \<Rightarrow> jerror + json \<times> str" where
  "pnumber s =
     (let neg = (s \<noteq> [] \<and> hd s = CHR ''-'') in
      case pint_part (if neg then tl s else s) of
        None \<Rightarrow> Inl JSONDecodeError
      | Some (ip, r1) \<Rightarrow>
          (let (fr, r2) = pfraction r1; (ex, r3) = pexponent r2;
               sign = (if neg then ''-'' else [])
           in if fr = [] \<and> ex = [] then
                (if length ip > int_max_str_digits then Inl IntDigitsError
                 else Inr (JInt (if neg then - int (str_nat ip) else int (str_nat ip)), r1))
              else Inr (JFloat (sign @ ip @ fr @ ex), r3)))"

definition plit :: "str \<Rightarrow> json \<Rightarrow> str \<Rightarrow> jerror + json \<times> str" where
  "plit w v s = (if starts_with w s then Inr (v, drop (length w) s) else Inl JSONDecodeError)"

fun pvalue :: "nat \<Rightarrow> str \<Rightarrow> jerror + json \<times> str"
  and pelems :: "nat \<Rightarrow> str \<Rightarrow> jerror + json list \<times> str"
  and pmembers :: "nat \<Rightarrow> str \<Rightarrow> jerror + jobject \<times> str" where
  "pvalue 0 s = Inl OutOfFuel"
| "pvalue (Suc f) s =
     (case s of
        [] \<Rightarrow> Inl JSONDecodeError
      | c # cs \<Rightarrow>
          (if c = CHR 0x22 then
             (case pstring cs of
                None \<Rightarrow> Inl JSONDecodeError | Some (t, r) \<Rightarrow> Inr (JStr t, r))
           else if c = CHR ''{'' then
             (case skip_ws cs of
                [] \<Rightarrow> Inl JSONDecodeError
              | d # ds \<Rightarrow>
                  (if d = CHR ''}'' then Inr (JObj [], ds)
                   else bindE (pmembers f (d # ds)) (\<lambda>(kvs, r). Inr (JObj kvs, r))))
           else if c = CHR ''['' then
             (case skip_ws cs of
                [] \<Rightarrow> Inl JSONDecodeError
              | d # ds \<Rightarrow>
                  (if d = CHR '']'' then Inr (JArr [], ds)
                   else bindE (pelems f (d # ds)) (\<lambda>(vs, r). Inr (JArr vs, r))))
           else if c = CHR ''n'' then plit ''null'' JNull s
           else if c = CHR ''t'' then plit ''true'' (JBool True) s
           else if c = CHR ''f'' then plit ''false'' (JBool False) s
           else if c = CHR ''N'' then plit ''NaN'' (JFloat ''NaN'') s
           else if c = CHR ''I'' then plit ''Infinity'' (JFloat ''Infinity'') s
           else if starts_with ''-I'' s then plit ''-Infinity'' (JFloat ''-Infinity'') s
           else pnumber s))"
| "pelems 0 s = Inl OutOfFuel"
| "pelems (Suc f) s =
     bindE (pvalue f s) (\<lambda>(v, r).
       case skip_ws r of
         [] \<Rightarrow> Inl JSONDecodeError
       | c # cs \<Rightarrow>
           (if c = CHR '']'' then Inr ([v], cs)
            else if c = CHR '','' then
              bindE (pelems f (skip_ws cs)) (\<lambda>(vs, r'). Inr (v # vs, r'))
            else Inl JSONDecodeError))"
| "pmembers 0 s = Inl OutOfFuel"
| "pmembers (Suc f) s =
     (case s of
        [] \<Rightarrow> Inl JSONDecodeError
      | q # qs \<Rightarrow>
          (if q \<noteq> CHR 0x22 then Inl JSONDecodeError
           else case pstring qs of
              None \<Rightarrow> Inl JSONDecodeError
            | Some (k, r) \<Rightarrow>
                (case skip_ws r of
                   [] \<Rightarrow> Inl JSONDecodeError
                 | c # cs \<Rightarrow>
                     (if c \<noteq> CHR '':'' then Inl JSONDecodeError
                      else bindE (pvalue f (skip_ws cs)) (\<lambda>(v, r').
                        case skip_ws r' of
                          [] \<Rightarrow> Inl JSONDecodeError
                        | d # ds \<Rightarrow>
                            (if d = CHR ''}'' then Inr ([(k, v)], ds)
                             else if d = CHR '','' then
                               bindE (pmembers f (skip_ws ds)) (\<lambda>(kvs, r''). Inr ((k, v) # kvs, r''))
                             else Inl JSONDecodeError))))))"

declare pvalue.simps [simp del] pelems.simps [simp del] pmembers.simps [simp del]

text \<open>\<open>bytes.decode("utf-8")\<close>, strict: no overlong forms, no surrogates, nothing past U+10FFFF.\<close>

definition is_cont :: "char \<Rightarrow> bool" where
  "is_cont c \<longleftrightarrow> 128 \<le> (of_char c :: nat) \<and> (of_char c :: nat) < 192"

definition char_in :: "nat \<Rightarrow> nat \<Rightarrow> char \<Rightarrow> bool" where
  "char_in lo hi c \<longleftrightarrow> lo \<le> of_char c \<and> of_char c \<le> hi"

lemma char_in_code [code]:
  "char_in lo hi c \<longleftrightarrow>
     (if lo = 0 \<and> hi = 127 then \<not> digit7 c else lo \<le> of_char c \<and> of_char c \<le> hi)"
  by (cases c) (auto simp: char_in_def of_char_def)

fun utf8_valid :: "bytes \<Rightarrow> bool" where
  "utf8_valid [] = True"
| "utf8_valid (c # cs) =
     (if char_in 0 127 c then utf8_valid cs
      else if char_in 194 223 c then
        (case cs of a # r \<Rightarrow> is_cont a \<and> utf8_valid r | _ \<Rightarrow> False)
      else if char_in 224 239 c then
        (case cs of
           a # b # r \<Rightarrow>
             is_cont a \<and> is_cont b
               \<and> (char_in 224 224 c \<longrightarrow> char_in 160 191 a)
               \<and> (char_in 237 237 c \<longrightarrow> char_in 128 159 a)
               \<and> utf8_valid r
         | _ \<Rightarrow> False)
      else if char_in 240 244 c then
        (case cs of
           a # b # d # r \<Rightarrow>
             is_cont a \<and> is_cont b \<and> is_cont d
               \<and> (char_in 240 240 c \<longrightarrow> char_in 144 191 a)
               \<and> (char_in 244 244 c \<longrightarrow> char_in 128 143 a)
               \<and> utf8_valid r
         | _ \<Rightarrow> False)
      else False)"

text \<open>\<open>json.loads(text)\<close> on a string, and on the bytes of a document.\<close>

definition json_loads :: "str \<Rightarrow> jerror + json" where
  "json_loads s =
     bindE (pvalue (2 * length s + 2) (skip_ws s)) (\<lambda>(v, r).
       if skip_ws r = [] then Inr v else Inl JSONDecodeError)"

text \<open>No object of the document repeats a key.\<close>

fun dup_free :: "json \<Rightarrow> bool" where
  "dup_free (JArr vs) = (\<forall>v \<in> set vs. dup_free v)"
| "dup_free (JObj kvs) = (distinct (map fst kvs) \<and> (\<forall>kv \<in> set kvs. dup_free (snd kv)))"
| "dup_free _ = True"

section \<open>The scanner reads back what the printer writes\<close>

definition num_end :: "str \<Rightarrow> bool" where
  "num_end r \<longleftrightarrow> r = [] \<or> hd r \<in> {CHR '','', CHR '']'', CHR ''}'', CHR 0x0A}"

text \<open>Values \<open>json.dumps\<close> can write: no float, integers within CPython's digit limit.\<close>

fun printable :: "json \<Rightarrow> bool" where
  "printable (JArr vs) = (\<forall>v \<in> set vs. printable v)"
| "printable (JObj kvs) = (\<forall>kv \<in> set kvs. printable (snd kv))"
| "printable (JInt i) = (length (nat_str (nat \<bar>i\<bar>)) \<le> int_max_str_digits)"
| "printable (JFloat lit) = False"
| "printable _ = True"

end
