(* ===== verification/Json_Roundtrip.thy ===== *)
theory Json_Roundtrip
  imports Json
begin

text \<open>
  The scanner reads back what the printer writes, whatever follows the value; so the canonical
  form is injective on values in sorted form, and a content hash determines what was hashed up
  to a collision of the hash function.  The scanner never runs out of fuel.
\<close>

section \<open>Strings\<close>

lemma hex_val_hex_digit [simp]: "d < 16 \<Longrightarrow> hex_val (hex_digit d) = Some d"
  by (auto simp: hex_val_def hex_digit_def Let_def)

lemma hex_val_zero [simp]: "hex_val (CHR ''0'') = Some 0"
  by code_simp

lemma char_less_iff: "c < d \<longleftrightarrow> (of_char c :: nat) < of_char d"
  by (simp add: less_char_def)

lemma char_of_of_char [simp]: "char_of (of_char c :: nat) = c"
  by simp

lemma pescape_control:
  assumes "(of_char c :: nat) < 32"
  shows "pescape_u (CHR ''0'' # CHR ''0'' # hex_digit (of_char c div 16)
           # hex_digit (of_char c mod 16) # rest) = Some ([c], rest)"
proof -
  have d: "(of_char c :: nat) div 16 < 16" "(of_char c :: nat) mod 16 < 16"
    using assms by auto
  have e: "(of_char c :: nat) div 16 * 16 + of_char c mod 16 = of_char c"
    by (metis div_mult_mod_eq mult.commute)
  have "hex4 (CHR ''0'' # CHR ''0'' # hex_digit (of_char c div 16)
           # hex_digit (of_char c mod 16) # rest) = Some (of_char c, rest)"
    using d e by simp
  with assms show ?thesis
    by (simp add: pescape_u_def utf8_enc_def)
qed

lemma simple_escape_simps [simp]:
  "simple_escape (CHR 0x22) = Some (CHR 0x22)"
  "simple_escape (CHR 0x5C) = Some (CHR 0x5C)"
  "simple_escape (CHR ''b'') = Some (CHR 0x08)"
  "simple_escape (CHR ''f'') = Some (CHR 0x0C)"
  "simple_escape (CHR ''n'') = Some (CHR 0x0A)"
  "simple_escape (CHR ''r'') = Some (CHR 0x0D)"
  "simple_escape (CHR ''t'') = Some (CHR 0x09)"
  by (simp_all add: simple_escape_def)

lemma pstring_escape_char:
  assumes "pstring rest = Some (s, r)"
  shows "pstring (escape_char c @ rest) = Some (c # s, r)"
proof (cases "c \<in> {CHR 0x22, CHR 0x5C, CHR 0x0A, CHR 0x0D, CHR 0x09, CHR 0x0C, CHR 0x08}")
  case True
  with assms show ?thesis by (auto simp: escape_char_def)
next
  case False
  show ?thesis
  proof (cases "c < CHR 0x20")
    case True
    then have "(of_char c :: nat) < 32" by (simp add: char_less_iff)
    from pescape_control [OF this, of rest] False True assms show ?thesis
      by (simp add: escape_char_def)
  next
    case nc: False
    with False assms show ?thesis by (simp add: escape_char_def)
  qed
qed

lemma pstring_quoted:
  "pstring (concat (map escape_char s) @ CHR 0x22 # rest) = Some (s, rest)"
proof (induction s)
  case Nil
  show ?case by simp
next
  case (Cons c s)
  then show ?case by (simp add: pstring_escape_char)
qed

section \<open>Numbers\<close>

lemma num_end_not_digit: "num_end r \<Longrightarrow> r = [] \<or> \<not> is_digit (hd r)"
  by (auto simp: num_end_def is_digit_of_char)

lemma takeWhile_digits:
  assumes "num_end r" and "\<forall>c \<in> set s. is_digit c"
  shows "takeWhile is_digit (s @ r) = s" and "dropWhile is_digit (s @ r) = r"
  using assms num_end_not_digit [OF assms(1)]
  by (cases r; auto simp: takeWhile_append2 dropWhile_append2)+

lemma pint_part_nat:
  assumes "num_end r"
  shows "pint_part (nat_str n @ r) = Some (nat_str n, r)"
proof (cases "n = 0")
  case True
  have "nat_str 0 = ''0''" by code_simp
  with True show ?thesis by (simp add: pint_part_def)
next
  case False
  obtain c cs where c: "nat_str n = c # cs"
    by (cases "nat_str n") auto
  have "c \<noteq> CHR ''0''" using False nat_str_hd_zero [of n] c by simp
  moreover have "is_digit c" using nat_str_digits [of c n] c by simp
  moreover have "\<forall>d \<in> set (nat_str n). is_digit d" by (auto dest: nat_str_digits)
  ultimately show ?thesis
    using takeWhile_digits [OF assms, of "nat_str n"] c by (simp add: pint_part_def)
qed

lemma pfraction_end [simp]: "num_end r \<Longrightarrow> pfraction r = ([], r)"
  by (auto simp: pfraction_def num_end_def split: list.splits)

lemma pexponent_end [simp]: "num_end r \<Longrightarrow> pexponent r = ([], r)"
  by (auto simp: pexponent_def num_end_def split: list.splits)

lemma hd_nat_str_not_minus: "hd (nat_str n) \<noteq> CHR ''-''"
proof -
  have "is_digit (hd (nat_str n))" by (rule nat_str_digits [of _ n]) simp
  then show ?thesis by (auto simp: is_digit_of_char)
qed

lemma pnumber_int:
  assumes "num_end r" and "length (nat_str (nat \<bar>i\<bar>)) \<le> int_max_str_digits"
  shows "pnumber (int_str i @ r) = Inr (JInt i, r)"
proof (cases "i < 0")
  case True
  then have e: "nat \<bar>i\<bar> = nat (- i)" by simp
  with True assms pint_part_nat [OF assms(1), of "nat (- i)"] show ?thesis
    by (simp add: pnumber_def int_str_def Let_def)
next
  case False
  have "hd (nat_str (nat i) @ r) \<noteq> CHR ''-''"
    using hd_nat_str_not_minus by simp
  with False assms pint_part_nat [OF assms(1), of "nat i"] show ?thesis
    by (simp add: pnumber_def int_str_def Let_def)
qed

lemma int_str_start:
  obtains c cs where "int_str i = c # cs" and "c = CHR ''-'' \<or> is_digit c"
    and "\<not> starts_with ''-I'' (int_str i @ r)"
proof (cases "i < 0")
  case True
  obtain d ds where d: "nat_str (nat (- i)) = d # ds" by (cases "nat_str (nat (- i))") auto
  then have "is_digit d" using nat_str_digits [of d "nat (- i)"] by simp
  then have "d \<noteq> CHR ''I''" by (auto simp: is_digit_of_char)
  with True d that show thesis by (simp add: int_str_def starts_with_def)
next
  case False
  obtain d ds where d: "nat_str (nat i) = d # ds" by (cases "nat_str (nat i)") auto
  then have "is_digit d" using nat_str_digits [of d "nat i"] by simp
  moreover from this have "d \<noteq> CHR ''-''" by (auto simp: is_digit_of_char)
  ultimately show thesis using False d that by (simp add: int_str_def starts_with_def)
qed

section \<open>Values\<close>

lemma is_digit_not_special:
  assumes "is_digit c"
  shows "c \<noteq> CHR 0x22" "c \<noteq> CHR ''{''" "c \<noteq> CHR ''[''" "c \<noteq> CHR ''n''" "c \<noteq> CHR ''t''"
    "c \<noteq> CHR ''f''" "c \<noteq> CHR ''N''" "c \<noteq> CHR ''I''" "c \<noteq> CHR '']''" "\<not> is_ws c"
  using assms by (auto simp: is_digit_of_char is_ws_def)

lemma jprint_start:
  assumes "printable v"
  shows "\<exists>c cs. jprint v = c # cs \<and> \<not> is_ws c \<and> c \<noteq> CHR '']''"
proof (cases v)
  case (JInt i)
  obtain c cs where c: "int_str i = c # cs" "c = CHR ''-'' \<or> is_digit c"
    using int_str_start [of i] by metis
  then have "\<not> is_ws c \<and> c \<noteq> CHR '']''"
    using is_digit_not_special(9,10) [of c] by (auto simp: is_ws_def)
  with JInt c(1) show ?thesis by simp
next
  case (JBool b)
  then show ?thesis by (cases b) (simp_all add: is_ws_def)
qed (use assms in \<open>simp_all add: is_ws_def quote_def\<close>)

lemma skip_ws_jprint [simp]: "printable v \<Longrightarrow> skip_ws (jprint v @ r) = jprint v @ r"
  using jprint_start [of v] by (auto simp: skip_ws_def)

lemma skip_ws_id [simp]:
  "skip_ws (CHR '','' # r) = CHR '','' # r" "skip_ws (CHR '']'' # r) = CHR '']'' # r"
  "skip_ws (CHR ''}'' # r) = CHR ''}'' # r" "skip_ws (CHR '':'' # r) = CHR '':'' # r"
  "skip_ws (CHR 0x22 # r) = CHR 0x22 # r"
  by (simp_all add: skip_ws_def is_ws_def)

definition reads_back :: "json \<Rightarrow> bool" where
  "reads_back v \<longleftrightarrow>
     (\<forall>f r. num_end r \<longrightarrow> length (jprint v) < f \<longrightarrow> pvalue f (jprint v @ r) = Inr (v, r))"

lemma num_end_simps [simp]:
  "num_end (CHR '','' # r)" "num_end (CHR '']'' # r)" "num_end (CHR ''}'' # r)" "num_end (CHR 0x0A # r)"
  "num_end []"
  by (simp_all add: num_end_def)

lemma join_Cons: "ys \<noteq> [] \<Longrightarrow> join sep (x # ys) = x @ sep @ join sep ys"
  by (cases ys) auto

lemma join_hd: "xs \<noteq> [] \<Longrightarrow> \<exists>t. join sep xs = hd xs @ t"
  by (cases xs; cases "tl xs") auto

lemma skip_ws_elems:
  assumes "vs \<noteq> []" and "printable (hd vs)"
  shows "skip_ws (join '','' (map jprint vs) @ r) = join '','' (map jprint vs) @ r"
proof -
  obtain t where "join '','' (map jprint vs) = jprint (hd vs) @ t"
    using assms(1) join_hd [of "map jprint vs" "'',''"] by (auto simp: hd_map)
  with assms(2) show ?thesis by simp
qed

lemma pelems_print:
  assumes "vs \<noteq> []" and "\<forall>v \<in> set vs. printable v \<and> reads_back v"
    and "length (join '','' (map jprint vs)) + 2 \<le> f"
  shows "pelems f (join '','' (map jprint vs) @ CHR '']'' # r) = Inr (vs, r)"
  using assms
proof (induction vs arbitrary: f)
  case Nil
  then show ?case by simp
next
  case (Cons v vs)
  obtain g where f: "f = Suc g" using Cons.prems(3) by (cases f) auto
  show ?case
  proof (cases "vs = []")
    case True
    with Cons.prems f show ?thesis
      by (simp add: reads_back_def pelems.simps)
  next
    case False
    let ?rest = "join '','' (map jprint vs) @ CHR '']'' # r"
    have j: "join '','' (map jprint (v # vs)) = jprint v @ '','' @ join '','' (map jprint vs)"
      using False by (simp add: join_Cons)
    have "pvalue g (jprint v @ CHR '','' # ?rest) = Inr (v, CHR '','' # ?rest)"
      using Cons.prems f j by (simp add: reads_back_def)
    moreover have "pelems g ?rest = Inr (vs, r)"
      using Cons False f j by simp
    moreover have "skip_ws ?rest = ?rest"
      using False Cons.prems by (intro skip_ws_elems) auto
    ultimately show ?thesis using f j by (simp add: pelems.simps)
  qed
qed

definition jmember :: "str \<times> json \<Rightarrow> str" where
  "jmember kv = quote (fst kv) @ CHR '':'' # jprint (snd kv)"

lemma jprint_JObj: "jprint (JObj kvs) = CHR ''{'' # join '','' (map jmember kvs) @ ''}''"
  by (simp add: jmember_def [abs_def] case_prod_unfold)

lemma skip_ws_jmember: "skip_ws (join '','' (map jmember kvs) @ CHR ''}'' # r)
    = join '','' (map jmember kvs) @ CHR ''}'' # r"
  by (cases kvs; cases "tl kvs") (auto simp: jmember_def quote_def)

lemma pmembers_print:
  assumes "kvs \<noteq> []" and "\<forall>kv \<in> set kvs. printable (snd kv) \<and> reads_back (snd kv)"
    and "length (join '','' (map jmember kvs)) + 2 \<le> f"
  shows "pmembers f (join '','' (map jmember kvs) @ CHR ''}'' # r) = Inr (kvs, r)"
  using assms
proof (induction kvs arbitrary: f)
  case Nil
  then show ?case by simp
next
  case (Cons kv kvs)
  obtain k v where kv: "kv = (k, v)" by (cases kv)
  obtain g where f: "f = Suc g" using Cons.prems(3) by (cases f) auto
  show ?case
  proof (cases "kvs = []")
    case True
    with Cons.prems f kv show ?thesis
      by (simp add: reads_back_def pmembers.simps jmember_def quote_def pstring_quoted)
  next
    case False
    let ?rest = "join '','' (map jmember kvs) @ CHR ''}'' # r"
    have j: "join '','' (map jmember (kv # kvs)) = jmember kv @ '','' @ join '','' (map jmember kvs)"
      using False by (simp add: join_Cons)
    have m: "jmember kv = quote k @ CHR '':'' # jprint v"
      using kv by (simp add: jmember_def)
    have "length (jprint v) < g"
      using Cons.prems(3) f j m by simp
    then have "pvalue g (jprint v @ CHR '','' # ?rest) = Inr (v, CHR '','' # ?rest)"
      using Cons.prems(2) kv by (simp add: reads_back_def)
    moreover have "pmembers g ?rest = Inr (kvs, r)"
      using Cons False f j by simp
    ultimately show ?thesis using f j kv Cons.prems
      by (simp add: pmembers.simps m [unfolded kv] quote_def pstring_quoted skip_ws_jmember)
  qed
qed

lemma reads_back_JInt: "printable (JInt i) \<Longrightarrow> reads_back (JInt i)"
  unfolding reads_back_def
proof (intro allI impI)
  fix f r
  assume i: "printable (JInt i)" and r: "num_end r" and f: "length (jprint (JInt i)) < f"
  obtain g where g: "f = Suc g" using f by (cases f) auto
  obtain c cs where c: "int_str i = c # cs" "c = CHR ''-'' \<or> is_digit c"
    "\<not> starts_with ''-I'' (int_str i @ r)"
    using int_str_start [of i r] by metis
  have "pvalue f (int_str i @ r) = pnumber (int_str i @ r)"
    using c is_digit_not_special [of c]
    by (cases "c = CHR ''-''") (simp_all add: g pvalue.simps)
  also have "\<dots> = Inr (JInt i, r)"
    using i r by (simp add: pnumber_int)
  finally show "pvalue f (jprint (JInt i) @ r) = Inr (JInt i, r)" by simp
qed

lemma reads_back_JStr: "reads_back (JStr t)"
proof -
  have "pvalue (Suc g) (jprint (JStr t) @ r) = Inr (JStr t, r)" for g r
    by (simp add: pvalue.simps quote_def pstring_quoted)
  then show ?thesis unfolding reads_back_def by (metis gr0_conv_Suc gr_implies_not0 not_gr_zero)
qed

lemma reads_back_atom:
  assumes "v \<in> {JNull, JBool True, JBool False}"
  shows "reads_back v"
proof -
  have "pvalue (Suc g) (jprint v @ r) = Inr (v, r)" for g r
    using assms by (auto simp: pvalue.simps plit_def starts_with_def)
  then show ?thesis unfolding reads_back_def by (metis gr0_conv_Suc gr_implies_not0 not_gr_zero)
qed

lemma reads_back_JBool: "reads_back (JBool b)"
  by (cases b) (auto intro: reads_back_atom)

lemma reads_back_JArr:
  assumes "\<forall>v \<in> set vs. printable v \<and> reads_back v"
  shows "reads_back (JArr vs)"
  unfolding reads_back_def
proof (intro allI impI)
  fix f r
  assume f: "length (jprint (JArr vs)) < f"
  obtain g where g: "f = Suc g" using f by (cases f) auto
  show "pvalue f (jprint (JArr vs) @ r) = Inr (JArr vs, r)"
  proof (cases "vs = []")
    case True
    then show ?thesis by (simp add: g pvalue.simps)
  next
    case False
    then obtain v ws where vs: "vs = v # ws" by (cases vs) auto
    obtain c cs where c: "jprint v = c # cs" "c \<noteq> CHR '']''"
      using assms vs jprint_start [of v] by auto
    obtain t where t: "join '','' (map jprint vs) = c # t"
      using join_hd [of "map jprint vs" "'',''"] vs c by auto
    have "skip_ws (join '','' (map jprint vs) @ CHR '']'' # r)
        = join '','' (map jprint vs) @ CHR '']'' # r"
      using assms vs by (intro skip_ws_elems) auto
    moreover have "pelems g (join '','' (map jprint vs) @ CHR '']'' # r) = Inr (vs, r)"
      using False assms f g by (intro pelems_print) auto
    ultimately show ?thesis
      using c(2) by (simp add: g pvalue.simps t)
  qed
qed

lemma reads_back_JObj:
  assumes "\<forall>kv \<in> set kvs. printable (snd kv) \<and> reads_back (snd kv)"
  shows "reads_back (JObj kvs)"
  unfolding reads_back_def
proof (intro allI impI)
  fix f r
  assume f: "length (jprint (JObj kvs)) < f"
  obtain g where g: "f = Suc g" using f by (cases f) auto
  show "pvalue f (jprint (JObj kvs) @ r) = Inr (JObj kvs, r)"
  proof (cases "kvs = []")
    case True
    then show ?thesis by (simp add: g pvalue.simps)
  next
    case False
    then obtain kv ws where kvs: "kvs = kv # ws" by (cases kvs) auto
    obtain t where t: "join '','' (map jmember kvs) = CHR 0x22 # t"
      using join_hd [of "map jmember kvs" "'',''"] kvs
      by (auto simp: jmember_def quote_def)
    have l: "length (join '','' (map jmember kvs)) + 2 \<le> g"
      using f g unfolding jprint_JObj by simp
    have "pmembers g (join '','' (map jmember kvs) @ CHR ''}'' # r) = Inr (kvs, r)"
      by (rule pmembers_print [OF False assms l])
    then show ?thesis
      using skip_ws_jmember [of kvs r]
      unfolding jprint_JObj by (simp add: g pvalue.simps t)
  qed
qed

lemma printable_reads_back: "printable v \<Longrightarrow> reads_back v"
proof (induction v rule: printable.induct)
  case (1 vs)
  then show ?case by (auto intro: reads_back_JArr)
next
  case (2 kvs)
  then show ?case by (auto intro!: reads_back_JObj)
next
  case (3 i)
  then show ?case by (rule reads_back_JInt)
qed (auto intro: reads_back_JBool reads_back_atom reads_back_JStr)

section \<open>The round trip, and what it gives\<close>

lemma json_loads_jprint:
  assumes "printable v"
  shows "json_loads (jprint v) = Inr v" and "json_loads (jprint v @ [CHR 0x0A]) = Inr v"
proof -
  have r: "pvalue f (jprint v @ r) = Inr (v, r)" if "num_end r" "length (jprint v) < f" for f r
    using printable_reads_back [OF assms] that by (auto simp: reads_back_def)
  show "json_loads (jprint v) = Inr v"
    using r [of "[]"] skip_ws_jprint [OF assms, of "[]"]
    by (simp add: json_loads_def) (simp add: skip_ws_def)
  show "json_loads (jprint v @ [CHR 0x0A]) = Inr v"
    using r [of "[CHR 0x0A]"] skip_ws_jprint [OF assms, of "[CHR 0x0A]"]
    by (simp add: json_loads_def) (simp add: skip_ws_def is_ws_def)
qed

lemma printable_jsort [simp]: "printable (jsort v) \<longleftrightarrow> printable v"
  by (induction v rule: jsort.induct) force+

lemma canonical_loads:
  assumes "printable v"
  shows "json_loads (canonical_bytes v) = Inr (jsort v)"
    and "json_loads (canonical_bytes v @ [CHR 0x0A]) = Inr (jsort v)"
  using json_loads_jprint [of "jsort v"] assms by (simp_all add: canonical_bytes_def)

lemma canonical_bytes_eq_iff:
  assumes "printable v" and "printable w"
  shows "canonical_bytes v = canonical_bytes w \<longleftrightarrow> jsort v = jsort w"
proof
  assume "canonical_bytes v = canonical_bytes w"
  then have "(Inr (jsort v) :: jerror + json) = Inr (jsort w)"
    using canonical_loads(1) [OF assms(1)] canonical_loads(1) [OF assms(2)] by metis
  then show "jsort v = jsort w" by (rule sum.inject(2) [THEN iffD1])
qed (simp add: canonical_bytes_def)

text \<open>Sorting keys forgets the order of the fields of an object and nothing else.\<close>

lemma distinct_map_sort_key [simp]: "distinct (map f (sort_key f xs)) \<longleftrightarrow> distinct (map f xs)"
  by (induction xs) (auto simp: distinct_insort_key)

lemma map_of_sort_key_fst:
  assumes "distinct (map fst kvs)"
  shows "map_of (sort_key fst kvs) = map_of kvs"
  using assms by (subst map_of_inject_set) simp_all

lemma map_of_map_jsort:
  "map_of (map (\<lambda>(k, v). (k, jsort v)) kvs) k = map_option jsort (map_of kvs k)"
  by (induction kvs) auto

lemma jsort_JObj_eq:
  assumes "jsort (JObj a) = jsort (JObj b)" and "distinct (map fst a)" and "distinct (map fst b)"
  shows "map_option jsort (map_of a k) = map_option jsort (map_of b k)"
proof -
  let ?m = "map (\<lambda>(k, v). (k, jsort v))"
  have d: "distinct (map fst (?m c))" if "distinct (map fst c)" for c :: jobject
    using that by (simp add: case_prod_unfold comp_def)
  have "sort_key fst (?m a) = sort_key fst (?m b)"
    using assms(1) by (simp only: jsort.simps json.inject)
  then have "map_of (?m a) = map_of (?m b)"
    using map_of_sort_key_fst [OF d [OF assms(2)]] map_of_sort_key_fst [OF d [OF assms(3)]]
    by simp
  then show ?thesis by (simp only: map_of_map_jsort [symmetric])
qed

lemma sort_key_fst_idem: "sort_key fst (sort_key fst kvs) = sort_key fst kvs"
  by (simp add: sort_key_id_if_sorted)

section \<open>Hashes determine contents, up to a collision\<close>

definition collides :: "hexdigest \<Rightarrow> bytes \<Rightarrow> bytes \<Rightarrow> bool" where
  "collides H a b \<longleftrightarrow> a \<noteq> b \<and> H a = H b"

lemma sha256_bytes_eq: "sha256_bytes H a = sha256_bytes H b \<Longrightarrow> a = b \<or> collides H a b"
  by (auto simp: sha256_bytes_def collides_def)

lemma canonical_hash_eq:
  assumes "canonical_hash H v = canonical_hash H w" and "printable v" and "printable w"
  shows "jsort v = jsort w \<or> collides H (canonical_bytes v) (canonical_bytes w)"
  using assms sha256_bytes_eq canonical_bytes_eq_iff unfolding canonical_hash_def by blast

section \<open>UTF-8\<close>

fun utf8_strings :: "json \<Rightarrow> bool" where
  "utf8_strings (JArr vs) = (\<forall>v \<in> set vs. utf8_strings v)"
| "utf8_strings (JObj kvs) = (\<forall>kv \<in> set kvs. utf8_valid (fst kv) \<and> utf8_strings (snd kv))"
| "utf8_strings (JStr s) = utf8_valid s"
| "utf8_strings (JFloat lit) = utf8_valid lit"
| "utf8_strings _ = True"

lemma utf8_valid_append: "utf8_valid a \<Longrightarrow> utf8_valid b \<Longrightarrow> utf8_valid (a @ b)"
  by (induction a rule: utf8_valid.induct) (auto split: if_splits list.splits)

lemma utf8_valid_ascii: "\<forall>c \<in> set s. (of_char c :: nat) < 128 \<Longrightarrow> utf8_valid s"
  by (induction s) (auto simp: char_in_def)

section \<open>The scanner consumes input and never runs out of fuel\<close>

lemma pstring_length: "pstring s = Some (t, r) \<Longrightarrow> length r < length s"
proof (induction s arbitrary: t r rule: pstring.induct)
  case 1
  then show ?case by simp
next
  case (2 c cs)
  then show ?case
    by (fastforce split: if_splits list.splits option.splits dest: pescape_u_length)
qed

lemma skip_ws_length: "length (skip_ws s) \<le> length s"
  by (simp add: skip_ws_def length_dropWhile_le)

lemma pint_part_length: "pint_part s = Some (ip, r) \<Longrightarrow> length r < length s"
  by (auto simp: pint_part_def split: list.splits if_splits)
     (metis length_dropWhile_le less_Suc_eq_le)

lemma pfraction_length: "pfraction s = (fr, r) \<Longrightarrow> length r \<le> length s"
  by (auto simp: pfraction_def split: list.splits if_splits)
     (metis le_SucI length_dropWhile_le)

lemma pexponent_length: "pexponent s = (ex, r) \<Longrightarrow> length r \<le> length s"
  by (auto simp: pexponent_def Let_def split: list.splits if_splits)
     (metis le_SucI length_dropWhile_le)+

lemma pnumber_length: "pnumber s = Inr (v, r) \<Longrightarrow> length r < length s"
proof -
  assume p: "pnumber s = Inr (v, r)"
  let ?t = "if s \<noteq> [] \<and> hd s = CHR ''-'' then tl s else s"
  obtain ip r1 where i: "pint_part ?t = Some (ip, r1)"
    using p by (auto simp: pnumber_def Let_def split: option.splits)
  obtain fr r2 where f: "pfraction r1 = (fr, r2)" by (cases "pfraction r1")
  obtain ex r3 where e: "pexponent r2 = (ex, r3)" by (cases "pexponent r2")
  have "r = r1 \<or> r = r3"
    using p i f e by (auto simp: pnumber_def Let_def split: if_splits)
  moreover have "length ?t \<le> length s" by simp
  moreover note pint_part_length [OF i] pfraction_length [OF f] pexponent_length [OF e]
  ultimately show "length r < length s" by (elim disjE) simp_all
qed

lemma plit_length: "plit w v s = Inr (x, r) \<Longrightarrow> w \<noteq> [] \<Longrightarrow> s \<noteq> [] \<Longrightarrow> length r < length s"
  by (auto simp: plit_def split: if_splits)

lemma skip_ws_Cons_length: "skip_ws s = c # cs \<Longrightarrow> length cs < length s"
  using skip_ws_length [of s] by simp

lemma pvalue_Suc_cases:
  assumes "pvalue (Suc f) s = Inr (v, r)"
  obtains (scalar) "length r < length s"
    | (obj) c d ds kvs where "s = c # tl s" "skip_ws (tl s) = d # ds"
        "pmembers f (d # ds) = Inr (kvs, r)"
    | (arr) c d ds vs where "s = c # tl s" "skip_ws (tl s) = d # ds"
        "pelems f (d # ds) = Inr (vs, r)"
proof -
  obtain c cs where s: "s = c # cs"
    using assms by (auto simp: pvalue.simps split: list.splits)
  consider "c = CHR 0x22" | "c = CHR ''{''" | "c = CHR ''[''"
    | "c \<noteq> CHR 0x22" "c \<noteq> CHR ''{''" "c \<noteq> CHR ''[''" by blast
  then show thesis
  proof cases
    case 1
    with assms s have "length r < length s"
      by (auto simp: pvalue.simps split: option.splits dest: pstring_length)
    then show thesis by (rule scalar)
  next
    case 2
    with assms s obtain d ds where d: "skip_ws cs = d # ds"
      by (auto simp: pvalue.simps split: list.splits)
    show thesis
    proof (cases "d = CHR ''}''")
      case True
      with assms s 2 d skip_ws_Cons_length [OF d] show thesis
        by (intro scalar) (simp add: pvalue.simps)
    next
      case False
      with assms s 2 d that(2) show thesis
        by (auto simp: pvalue.simps bindE_eq_Inr)
    qed
  next
    case 3
    with assms s obtain d ds where d: "skip_ws cs = d # ds"
      by (auto simp: pvalue.simps split: list.splits)
    show thesis
    proof (cases "d = CHR '']''")
      case True
      with assms s 3 d skip_ws_Cons_length [OF d] show thesis
        by (intro scalar) (simp add: pvalue.simps)
    next
      case False
      with assms s 3 d that(3) show thesis
        by (auto simp: pvalue.simps bindE_eq_Inr)
    qed
  next
    case 4
    with assms s show thesis
      by (intro scalar) (auto simp: pvalue.simps split: if_splits
          dest!: pnumber_length plit_length)
  qed
qed

lemma pelems_Suc_cases:
  assumes "pelems (Suc f) s = Inr (vs, r)"
  obtains v r1 c cs where "pvalue f s = Inr (v, r1)" "skip_ws r1 = c # cs"
    "r = cs \<or> (\<exists>ws. pelems f (skip_ws cs) = Inr (ws, r))"
proof -
  obtain v r1 where v: "pvalue f s = Inr (v, r1)"
    using assms by (auto simp: pelems.simps bindE_eq_Inr)
  with assms obtain c cs where c: "skip_ws r1 = c # cs"
    by (auto simp: pelems.simps split: list.splits)
  have "r = cs \<or> (\<exists>ws. pelems f (skip_ws cs) = Inr (ws, r))"
    using assms v c by (auto simp: pelems.simps bindE_eq_Inr split: if_splits)
  with v c show thesis by (rule that)
qed

lemma pmembers_Suc_cases:
  assumes "pmembers (Suc f) s = Inr (kvs, r)"
  obtains q qs k r0 c cs v r1 d ds where "s = q # qs" "pstring qs = Some (k, r0)"
    "skip_ws r0 = c # cs" "pvalue f (skip_ws cs) = Inr (v, r1)" "skip_ws r1 = d # ds"
    "r = ds \<or> (\<exists>ws. pmembers f (skip_ws ds) = Inr (ws, r))"
proof -
  obtain q qs where s: "s = q # qs" "q = CHR 0x22"
    using assms by (auto simp: pmembers.simps split: list.splits if_splits)
  with assms obtain k r0 where k: "pstring qs = Some (k, r0)"
    by (auto simp: pmembers.simps split: option.splits)
  with assms s obtain c cs where c: "skip_ws r0 = c # cs" "c = CHR '':''"
    by (auto simp: pmembers.simps split: list.splits if_splits)
  with assms s k obtain v r1 where v: "pvalue f (skip_ws cs) = Inr (v, r1)"
    by (auto simp: pmembers.simps bindE_eq_Inr)
  with assms s k c obtain d ds where d: "skip_ws r1 = d # ds"
    by (auto simp: pmembers.simps split: list.splits)
  have "r = ds \<or> (\<exists>ws. pmembers f (skip_ws ds) = Inr (ws, r))"
    using assms s k c v d by (auto simp: pmembers.simps bindE_eq_Inr split: if_splits)
  with s(1) k c(1) v d show thesis by (rule that)
qed

lemma scanner_consumes:
  shows "pvalue f s = Inr (v, r) \<Longrightarrow> length r < length s"
    and "pelems f s = Inr (vs, r) \<Longrightarrow> length r < length s"
    and "pmembers f s = Inr (kvs, r) \<Longrightarrow> length r < length s"
proof (induction f arbitrary: s v vs kvs r)
  case 0
  {
    case 1
    then show ?case by (simp add: pvalue.simps)
  next
    case 2
    then show ?case by (simp add: pelems.simps)
  next
    case 3
    then show ?case by (simp add: pmembers.simps)
  }
next
  case (Suc f)
  {
    case 1
    then show ?case
    proof (cases rule: pvalue_Suc_cases)
      case (obj c d ds kvs)
      with Suc.IH(3) [OF obj(3)] skip_ws_length [of "tl s"] show ?thesis
        by (metis length_Cons less_SucI less_le_trans)
    next
      case (arr c d ds vs)
      with Suc.IH(2) [OF arr(3)] skip_ws_length [of "tl s"] show ?thesis
        by (metis length_Cons less_SucI less_le_trans)
    qed
  next
    case 2
    then show ?case
    proof (cases rule: pelems_Suc_cases)
      case (1 v r1 c cs)
      have "length cs < length s"
        using Suc.IH(1) [OF 1(1)] skip_ws_Cons_length [OF 1(2)] by linarith
      then show ?thesis
        using 1(3) Suc.IH(2) skip_ws_length [of cs] by (auto dest!: Suc.IH(2))
    qed
  next
    case 3
    then show ?case
    proof (cases rule: pmembers_Suc_cases)
      case (1 q qs k r0 c cs v r1 d ds)
      have "length ds < length s"
        using 1(1) pstring_length [OF 1(2)] skip_ws_Cons_length [OF 1(3)]
          skip_ws_length [of cs] Suc.IH(1) [OF 1(4)] skip_ws_Cons_length [OF 1(5)]
        by simp
      then show ?thesis
        using 1(6) skip_ws_length [of ds] by (auto dest!: Suc.IH(3))
    qed
  }
qed

lemma pnumber_fuel: "pnumber s \<noteq> Inl OutOfFuel"
  by (auto simp: pnumber_def Let_def split: option.splits prod.splits)

lemma plit_fuel: "plit w v s \<noteq> Inl OutOfFuel"
  by (simp add: plit_def)

lemma pvalue_fuel_cases:
  assumes "pvalue (Suc f) s = Inl OutOfFuel"
  obtains (obj) c cs d ds where "s = c # cs" "skip_ws cs = d # ds"
      "pmembers f (d # ds) = Inl OutOfFuel"
    | (arr) c cs d ds where "s = c # cs" "skip_ws cs = d # ds"
      "pelems f (d # ds) = Inl OutOfFuel"
proof -
  obtain c cs where s: "s = c # cs"
    using assms by (auto simp: pvalue.simps split: list.splits)
  consider "c = CHR ''{''" | "c = CHR ''[''" | "c \<noteq> CHR ''{''" "c \<noteq> CHR ''[''" by blast
  then show thesis
  proof cases
    case 1
    with assms s obtain d ds where "skip_ws cs = d # ds"
      by (auto simp: pvalue.simps split: list.splits)
    with assms s 1 that(1) show thesis
      by (auto simp: pvalue.simps bindE_eq_Inl split: if_splits)
  next
    case 2
    with assms s obtain d ds where "skip_ws cs = d # ds"
      by (auto simp: pvalue.simps split: list.splits)
    with assms s 2 that(2) show thesis
      by (auto simp: pvalue.simps bindE_eq_Inl split: if_splits)
  next
    case 3
    with assms s show thesis
      by (auto simp: pvalue.simps pnumber_fuel plit_fuel split: if_splits option.splits)
  qed
qed

lemma pelems_fuel_cases:
  assumes "pelems (Suc f) s = Inl OutOfFuel"
  obtains "pvalue f s = Inl OutOfFuel"
    | v r c cs where "pvalue f s = Inr (v, r)" "skip_ws r = c # cs"
        "pelems f (skip_ws cs) = Inl OutOfFuel"
  using assms
proof (cases "pvalue f s")
  case (Inr vr)
  then obtain v r where v: "pvalue f s = Inr (v, r)" by (cases vr) simp
  with assms obtain c cs where "skip_ws r = c # cs"
    by (auto simp: pelems.simps split: list.splits)
  with assms v that(2) show thesis
    by (auto simp: pelems.simps bindE_eq_Inl split: if_splits)
qed (auto simp: pelems.simps)

lemma pmembers_fuel_cases:
  assumes "pmembers (Suc f) s = Inl OutOfFuel"
  obtains q qs k r0 c cs where "s = q # qs" "pstring qs = Some (k, r0)" "skip_ws r0 = c # cs"
      "pvalue f (skip_ws cs) = Inl OutOfFuel"
    | q qs k r0 c cs v r d ds where "s = q # qs" "pstring qs = Some (k, r0)"
        "skip_ws r0 = c # cs" "pvalue f (skip_ws cs) = Inr (v, r)" "skip_ws r = d # ds"
        "pmembers f (skip_ws ds) = Inl OutOfFuel"
proof -
  obtain q qs where s: "s = q # qs" "q = CHR 0x22"
    using assms by (auto simp: pmembers.simps split: list.splits if_splits)
  with assms obtain k r0 where k: "pstring qs = Some (k, r0)"
    by (auto simp: pmembers.simps split: option.splits)
  with assms s obtain c cs where c: "skip_ws r0 = c # cs" "c = CHR '':''"
    by (auto simp: pmembers.simps split: list.splits if_splits)
  show thesis
  proof (cases "pvalue f (skip_ws cs)")
    case (Inl e)
    with assms s k c have "e = OutOfFuel" by (simp add: pmembers.simps)
    with Inl s k c that(1) show thesis by simp
  next
    case (Inr vr)
    then obtain v r where v: "pvalue f (skip_ws cs) = Inr (v, r)" by (cases vr) simp
    with assms s k c obtain d ds where d: "skip_ws r = d # ds"
      by (auto simp: pmembers.simps split: list.splits)
    then have "pmembers f (skip_ws ds) = Inl OutOfFuel"
      using assms s k c v by (auto simp: pmembers.simps bindE_eq_Inl split: if_splits)
    with s(1) k c(1) v d show thesis by (rule that(2))
  qed
qed

lemma scanner_fuel:
  shows "2 * length s + 1 \<le> f \<Longrightarrow> pvalue f s \<noteq> Inl OutOfFuel"
    and "2 * length s + 2 \<le> f \<Longrightarrow> pelems f s \<noteq> Inl OutOfFuel"
    and "2 * length s + 2 \<le> f \<Longrightarrow> pmembers f s \<noteq> Inl OutOfFuel"
proof (induction f arbitrary: s)
  case (Suc f)
  {
    case 1
    show ?case
    proof
      assume "pvalue (Suc f) s = Inl OutOfFuel"
      then show False
      proof (cases rule: pvalue_fuel_cases)
        case (obj c cs d ds)
        with 1 Suc.IH(3) [of "d # ds"] skip_ws_Cons_length [OF obj(2)] show False by simp
      next
        case (arr c cs d ds)
        with 1 Suc.IH(2) [of "d # ds"] skip_ws_Cons_length [OF arr(2)] show False by simp
      qed
    qed
  next
    case 2
    show ?case
    proof
      assume "pelems (Suc f) s = Inl OutOfFuel"
      then show False
      proof (cases rule: pelems_fuel_cases)
        case 1
        with 2 Suc.IH(1) [of s] show False by simp
      next
        case (2 v r c cs)
        have "length cs + 1 < length s"
          using scanner_consumes(1) [OF 2(1)] skip_ws_Cons_length [OF 2(2)] by linarith
        with \<open>2 * length s + 2 \<le> Suc f\<close> 2(3) Suc.IH(2) [of "skip_ws cs"] skip_ws_length [of cs]
        show False by simp
      qed
    qed
  next
    case 3
    show ?case
    proof
      assume "pmembers (Suc f) s = Inl OutOfFuel"
      then show False
      proof (cases rule: pmembers_fuel_cases)
        case (1 q qs k r0 c cs)
        have "length cs + 1 < length s"
          using 1(1) pstring_length [OF 1(2)] skip_ws_Cons_length [OF 1(3)] by simp
        with 3 1(4) Suc.IH(1) [of "skip_ws cs"] skip_ws_length [of cs] show False by simp
      next
        case (2 q qs k r0 c cs v r d ds)
        have "length ds + 1 < length s"
          using 2(1) pstring_length [OF 2(2)] skip_ws_Cons_length [OF 2(3)] skip_ws_length [of cs]
            scanner_consumes(1) [OF 2(4)] skip_ws_Cons_length [OF 2(5)] by simp
        with 3 2(6) Suc.IH(3) [of "skip_ws ds"] skip_ws_length [of ds] show False by simp
      qed
    qed
  }
qed simp_all

lemma json_loads_total: "json_loads s \<noteq> Inl OutOfFuel"
proof -
  have "pvalue (2 * length s + 2) (skip_ws s) \<noteq> Inl OutOfFuel"
    using skip_ws_length [of s] by (intro scanner_fuel(1)) simp
  then show ?thesis by (auto simp: json_loads_def bindE_eq_Inl split: if_splits)
qed

section \<open>Canonical bytes are UTF-8\<close>

lemma escape_char_control:
  assumes "c < CHR 0x20" and "c \<notin> {CHR 0x22, CHR 0x5C, CHR 0x0A, CHR 0x0D, CHR 0x09, CHR 0x0C, CHR 0x08}"
  shows "escape_char c = [CHR 0x5C, CHR ''u'', CHR ''0'', CHR ''0'',
        hex_digit (of_char c div 16), hex_digit (of_char c mod 16)]"
  using assms by (simp add: escape_char_def)

lemma escape_char_short:
  assumes "c \<in> {CHR 0x22, CHR 0x5C, CHR 0x0A, CHR 0x0D, CHR 0x09, CHR 0x0C, CHR 0x08}"
  shows "\<exists>e \<in> {CHR 0x22, CHR 0x5C, CHR ''n'', CHR ''r'', CHR ''t'', CHR ''f'', CHR ''b''}. escape_char c = [CHR 0x5C, e]"
  using assms unfolding escape_char_def by (elim insertE emptyE) simp_all

lemma escape_char_plain:
  assumes "\<not> c < CHR 0x20" and "c \<notin> {CHR 0x22, CHR 0x5C, CHR 0x0A, CHR 0x0D, CHR 0x09, CHR 0x0C, CHR 0x08}"
  shows "escape_char c = [c]"
  using assms by (simp add: escape_char_def)

lemma escape_char_high:
  assumes "128 \<le> (of_char c :: nat)"
  shows "escape_char c = [c]"
proof (rule escape_char_plain)
  show "\<not> c < CHR 0x20" using assms by (simp add: char_less_iff)
  show "c \<notin> {CHR 0x22, CHR 0x5C, CHR 0x0A, CHR 0x0D, CHR 0x09, CHR 0x0C, CHR 0x08}"
  proof
    assume "c \<in> {CHR 0x22, CHR 0x5C, CHR 0x0A, CHR 0x0D, CHR 0x09, CHR 0x0C, CHR 0x08}"
    then have "(of_char c :: nat) < 128" by (elim insertE emptyE) simp_all
    with assms show False by simp
  qed
qed

lemma hex_digit_ascii: "d < 16 \<Longrightarrow> (of_char (hex_digit d) :: nat) < 128"
  by (simp add: hex_digit_def)

lemma escape_char_ascii:
  assumes "(of_char c :: nat) < 128" and "d \<in> set (escape_char c)"
  shows "(of_char d :: nat) < 128"
proof (cases "c \<in> {CHR 0x22, CHR 0x5C, CHR 0x0A, CHR 0x0D, CHR 0x09, CHR 0x0C, CHR 0x08}")
  case True
  from escape_char_short [OF this] assms(2) show ?thesis by auto
next
  case False
  show ?thesis
  proof (cases "c < CHR 0x20")
    case True
    have h: "(of_char (hex_digit (of_char c div 16)) :: nat) < 128"
      "(of_char (hex_digit (of_char c mod 16)) :: nat) < 128"
      by (rule hex_digit_ascii, use assms(1) in simp)+
    from escape_char_control [OF True False] assms(2) h show ?thesis by auto
  next
    case nc: False
    from escape_char_plain [OF nc False] assms show ?thesis by simp
  qed
qed

lemma escapes_high: "\<forall>c \<in> set s. 128 \<le> (of_char c :: nat) \<Longrightarrow> concat (map escape_char s) = s"
  by (induction s) (auto simp: escape_char_high)

lemma is_cont_high: "is_cont c \<Longrightarrow> 128 \<le> (of_char c :: nat)"
  by (simp add: is_cont_def)

lemma utf8_valid_escaped: "utf8_valid s \<Longrightarrow> utf8_valid (concat (map escape_char s))"
proof (induction s rule: utf8_valid.induct)
  case 1
  then show ?case by simp
next
  case (2 c cs)
  show ?case
  proof (cases "char_in 0 127 c")
    case True
    then have "utf8_valid (escape_char c)"
      by (auto simp: char_in_def intro!: utf8_valid_ascii dest: escape_char_ascii [rotated])
    with True 2 show ?thesis by (auto intro: utf8_valid_append)
  next
    case False
    then have "128 \<le> (of_char c :: nat)" by (simp add: char_in_def)
    with False 2 show ?thesis
      by (auto simp: escape_char_high is_cont_high split: if_splits list.splits)
  qed
qed

lemma utf8_valid_quote: "utf8_valid s \<Longrightarrow> utf8_valid (quote s)"
  unfolding quote_def
  by (auto intro!: utf8_valid_append [where b = "[CHR 0x22]"] utf8_valid_escaped simp: char_in_def)

lemma utf8_valid_join:
  "\<forall>x \<in> set xs. utf8_valid x \<Longrightarrow> utf8_valid sep \<Longrightarrow> utf8_valid (join sep xs)"
  by (induction sep xs rule: join.induct) (auto intro: utf8_valid_append)

lemma utf8_valid_int_str: "utf8_valid (int_str i)"
proof (rule utf8_valid_ascii, rule ballI)
  fix c assume "c \<in> set (int_str i)"
  then have "c = CHR ''-'' \<or> is_digit c"
    by (auto simp: int_str_def split: if_splits dest: nat_str_digits)
  then show "(of_char c :: nat) < 128" by (auto simp: is_digit_of_char)
qed

lemma utf8_valid_jprint: "utf8_strings v \<Longrightarrow> utf8_valid (jprint v)"
proof (induction v rule: jprint.induct)
  case (6 vs)
  then have "utf8_valid (join '','' (map jprint vs))"
    by (intro utf8_valid_join) (auto simp: char_in_def)
  then show ?case by (auto intro!: utf8_valid_append simp: char_in_def)
next
  case (7 kvs)
  then have "utf8_valid (join '','' (map (\<lambda>(k, v). quote k @ CHR '':'' # jprint v) kvs))"
    by (intro utf8_valid_join)
       (force intro!: utf8_valid_append utf8_valid_quote simp: char_in_def)+
  then show ?case by (auto intro!: utf8_valid_append simp: char_in_def)
qed (auto simp: utf8_valid_int_str utf8_valid_quote char_in_def)

lemma utf8_strings_jsort [simp]: "utf8_strings (jsort v) \<longleftrightarrow> utf8_strings v"
  by (induction v rule: jsort.induct) force+

lemma utf8_valid_canonical: "utf8_strings v \<Longrightarrow> utf8_valid (canonical_bytes v)"
  by (simp add: canonical_bytes_def utf8_valid_jprint)

end
