(* ===== verification/Sha256.thy ===== *)
theory Sha256
  imports Ada_Prelude "HOL-Library.Word"
begin

unbundle bit_operations_syntax

text \<open>
  \<open>hashlib.sha256(content).hexdigest()\<close> (FIPS 180-4), the one hash function the program
  uses.  The rest of the development takes the hash as an argument \<open>H\<close>; the interface
  \<open>digest\<close> states the shape of a digest the program's format checks rely on, and
  \<open>sha256_hex\<close> provides it.
\<close>

type_synonym word32 = "32 word"

text \<open>Eight words from one constant of 256 bits, most significant word first.\<close>

definition words8 :: "int \<Rightarrow> word32 list" where
  "words8 n = map (\<lambda>i. word_of_int (n div 2 ^ (32 * (7 - i)))) [0..<8]"

text \<open>The round constants, eight to a line, and the initial state.\<close>

definition K256 :: "word32 list" where
  "K256 = concat (map words8
    [0x428a2f9871374491b5c0fbcfe9b5dba53956c25b59f111f1923f82a4ab1c5ed5,
     0xd807aa9812835b01243185be550c7dc372be5d7480deb1fe9bdc06a7c19bf174,
     0xe49b69c1efbe47860fc19dc6240ca1cc2de92c6f4a7484aa5cb0a9dc76f988da,
     0x983e5152a831c66db00327c8bf597fc7c6e00bf3d5a7914706ca635114292967,
     0x27b70a852e1b21384d2c6dfc53380d13650a7354766a0abb81c2c92e92722c85,
     0xa2bfe8a1a81a664bc24b8b70c76c51a3d192e819d6990624f40e3585106aa070,
     0x19a4c1161e376c082748774c34b0bcb5391c0cb34ed8aa4a5b9cca4f682e6ff3,
     0x748f82ee78a5636f84c878148cc7020890befffaa4506cebbef9a3f7c67178f2])"

definition H256 :: "word32 list" where
  "H256 = words8 0x6a09e667bb67ae853c6ef372a54ff53a510e527f9b05688c1f83d9ab5be0cd19"

definition rotr :: "nat \<Rightarrow> word32 \<Rightarrow> word32" where
  "rotr n x = drop_bit n x OR push_bit (32 - n) x"

definition ssig0 :: "word32 \<Rightarrow> word32" where
  "ssig0 x = rotr 7 x XOR rotr 18 x XOR drop_bit 3 x"

definition ssig1 :: "word32 \<Rightarrow> word32" where
  "ssig1 x = rotr 17 x XOR rotr 19 x XOR drop_bit 10 x"

definition bsig0 :: "word32 \<Rightarrow> word32" where
  "bsig0 x = rotr 2 x XOR rotr 13 x XOR rotr 22 x"

definition bsig1 :: "word32 \<Rightarrow> word32" where
  "bsig1 x = rotr 6 x XOR rotr 11 x XOR rotr 25 x"

text \<open>The message schedule, newest word first: \<open>W(t)\<close> from the last sixteen.\<close>

fun schedule :: "nat \<Rightarrow> word32 list \<Rightarrow> word32 list" where
  "schedule 0 ws = ws"
| "schedule (Suc n) ws =
     schedule n ((ssig1 (ws ! 1) + ws ! 6 + ssig0 (ws ! 14) + ws ! 15) # ws)"

fun round256 :: "word32 list \<Rightarrow> word32 \<times> word32 \<Rightarrow> word32 list" where
  "round256 [a, b, c, d, e, f, g, h] (k, w) =
     (let t1 = h + bsig1 e + ((e AND f) XOR (NOT e AND g)) + k + w;
          t2 = bsig0 a + ((a AND b) XOR (a AND c) XOR (b AND c))
      in [t1 + t2, a, b, c, d + t1, e, f, g])"
| "round256 st _ = st"

definition block256 :: "word32 list \<Rightarrow> word32 list \<Rightarrow> word32 list" where
  "block256 st ws =
     map2 (+) st (foldl round256 st (zip K256 (rev (schedule 48 (rev ws)))))"

fun words_of :: "int list \<Rightarrow> word32 list" where
  "words_of (a # b # c # d # rest) =
     word_of_int (((a * 256 + b) * 256 + c) * 256 + d) # words_of rest"
| "words_of _ = []"

text \<open>The message, the byte 0x80, zeros up to 56 modulo 64, and the length in bits.\<close>

definition pad256 :: "bytes \<Rightarrow> int list" where
  "pad256 m =
     (let n = int (length m)
      in map of_char m @ [128] @ replicate (nat ((55 - n) mod 64)) 0
         @ map (\<lambda>i. (8 * n) div i mod 256)
             [0x100000000000000, 0x1000000000000, 0x10000000000, 0x100000000,
              0x1000000, 0x10000, 0x100, 1])"

fun blocks256 :: "nat \<Rightarrow> word32 list \<Rightarrow> word32 list \<Rightarrow> word32 list" where
  "blocks256 0 st ws = st"
| "blocks256 (Suc n) st ws = blocks256 n (block256 st (take 16 ws)) (drop 16 ws)"

definition hex_nibble :: "int \<Rightarrow> char" where
  "hex_nibble d = (if d < 10 then char_of (48 + d) else char_of (87 + d))"

definition hex_word :: "word32 \<Rightarrow> str" where
  "hex_word w =
     map (\<lambda>i. hex_nibble (uint w div i mod 16))
       [0x10000000, 0x1000000, 0x100000, 0x10000, 0x1000, 0x100, 0x10, 1]"

definition sha256_hex :: "bytes \<Rightarrow> str" where
  "sha256_hex m =
     (let ws = words_of (pad256 m)
      in concat (map hex_word (blocks256 (length ws div 16) H256 ws)))"

section \<open>The interface: what a content hash looks like\<close>

definition is_hex :: "char \<Rightarrow> bool" where
  "is_hex c \<longleftrightarrow> is_digit c \<or> (CHR ''a'' \<le> c \<and> c \<le> CHR ''f'')"

text \<open>\<open>^sha256:[0-9a-f]{64}$\<close>, matched in full.\<close>

definition valid_hash :: "str \<Rightarrow> bool" where
  "valid_hash s \<longleftrightarrow>
     starts_with ''sha256:'' s \<and> length s = 71 \<and> (\<forall>c \<in> set (drop 7 s). is_hex c)"

locale digest =
  fixes H :: "bytes \<Rightarrow> str"
  assumes digest_length: "length (H m) = 64"
    and digest_hex: "c \<in> set (H m) \<Longrightarrow> is_hex c"
begin

lemma valid_hash_digest: "valid_hash (''sha256:'' @ H m)"
  by (auto simp: valid_hash_def starts_with_def digest_length digest_hex)

lemma digest_nonempty: "H m \<noteq> []"
  using digest_length [of m] by auto

end

lemma length_round256: "length st = 8 \<Longrightarrow> length (round256 st kw) = 8"
  by (cases "(st, kw)" rule: round256.cases) (simp_all add: Let_def)

lemma length_rounds256: "length st = 8 \<Longrightarrow> length (foldl round256 st kws) = 8"
  by (induction kws arbitrary: st) (simp_all add: length_round256)

lemma length_blocks256: "length st = 8 \<Longrightarrow> length (blocks256 n st ws) = 8"
  by (induction n st ws rule: blocks256.induct) (simp_all add: block256_def length_rounds256)

lemma is_hex_hex_nibble: "0 \<le> d \<Longrightarrow> d < 16 \<Longrightarrow> is_hex (hex_nibble d)"
proof -
  assume "0 \<le> d" and "d < 16"
  then have "d \<in> {0..<16}" by simp
  moreover have "\<forall>d \<in> {0..<16}. is_hex (hex_nibble d)" by code_simp
  ultimately show ?thesis by blast
qed

lemma hex_word_shape: "length (hex_word w) = 8" "c \<in> set (hex_word w) \<Longrightarrow> is_hex c"
  by (auto simp: hex_word_def intro!: is_hex_hex_nibble)

lemma length_concat_hex_word: "length (concat (map hex_word ws)) = 8 * length ws"
  by (induction ws) (simp_all add: hex_word_shape)

interpretation sha256: digest sha256_hex
proof
  fix m
  have "length H256 = 8" by (simp add: H256_def words8_def)
  then show "length (sha256_hex m) = 64"
    by (simp add: sha256_hex_def Let_def length_concat_hex_word length_blocks256)
next
  fix c m
  assume "c \<in> set (sha256_hex m)"
  then show "is_hex c"
    by (auto simp: sha256_hex_def Let_def dest: hex_word_shape(2))
qed

end
