(* ===== verification/Records.thy ===== *)
theory Records
  imports Json_Roundtrip Sha256
begin

text \<open>
  \<open>campaign/records.py\<close>: the immutable records of a campaign.  Each dataclass is a
  \<open>record\<close>, its \<open>__post_init__\<close> the sequence of guards of the source, its
  \<open>finalized\<close> and \<open>verify_hashes\<close> the two hashes over its canonical form.  Fields carry
  a prefix that names the record.  A value of the wrong Python type cannot be written in the
  typed records; the parsers of \<open>Export\<close> meet such values as \<open>json\<close>.
\<close>

section \<open>Errors\<close>

text \<open>The exception classes of the campaign package, with their messages, and the built-in
  exceptions that escape its handlers.\<close>

datatype error =
    ProvenanceError str
  | RunnerError str
  | PlannerBoundsExhausted str
  | PlannerContextExhausted str
  | BudgetError str
  | BudgetExhausted str
  | CredentialError str
  | CheckpointError str
  | AmbiguousEffectError str
  | CorpusError str
  | TypeErr
  | UnicodeEncodeErr
  | FileExistsErr
  | EndToEndError str
  | RoutingError str
  | EffectRaised str
  | IntDigitsErr
  | AssertionErr

text \<open>\<open>except CampaignRunnerError\<close> catches the class and its two subclasses.\<close>

fun is_runner_error :: "error \<Rightarrow> bool" where
  "is_runner_error (RunnerError _) = True"
| "is_runner_error (PlannerBoundsExhausted _) = True"
| "is_runner_error (PlannerContextExhausted _) = True"
| "is_runner_error _ = False"

fun error_message :: "error \<Rightarrow> str" where
  "error_message (ProvenanceError m) = m"
| "error_message (RunnerError m) = m"
| "error_message (PlannerBoundsExhausted m) = m"
| "error_message (PlannerContextExhausted m) = m"
| "error_message (BudgetError m) = m"
| "error_message (BudgetExhausted m) = m"
| "error_message (CredentialError m) = m"
| "error_message (CheckpointError m) = m"
| "error_message (AmbiguousEffectError m) = m"
| "error_message (CorpusError m) = m"
| "error_message _ = []"

type_synonym 'a res = "error + 'a"

section \<open>Closed vocabularies\<close>

datatype record_status = Completed | Failed | Incomplete

datatype action_type =
    Plan | Derive | WriteProgram | RunProgram | InspectResult | ReadArtifact | Note
  | Experiment | Falsify | Verify | AskUser | SuspendBranch | Report | ImportAction
  | SearchLiterature | FollowDiscoveryResults | AcquireSource | ParseSource
  | EmbedSources | RefreshRetrievalIndex | RetrieveEvidence | FormalCheck

datatype actor_type = SystemActor | ModelActor | ToolActor | HumanActor | ExternalSystemActor

datatype usage_source = ApiReported | LocallyMeasured | Unavailable

datatype external_origin = ExternalCodex | HumanOrigin | ExternalSystem

fun status_value :: "record_status \<Rightarrow> str" where
  "status_value Completed = ''completed''"
| "status_value Failed = ''failed''"
| "status_value Incomplete = ''incomplete''"

fun action_type_value :: "action_type \<Rightarrow> str" where
  "action_type_value Plan = ''plan''"
| "action_type_value Derive = ''derive''"
| "action_type_value WriteProgram = ''write_program''"
| "action_type_value RunProgram = ''run_program''"
| "action_type_value InspectResult = ''inspect_result''"
| "action_type_value ReadArtifact = ''read_artifact''"
| "action_type_value Note = ''note''"
| "action_type_value Experiment = ''experiment''"
| "action_type_value Falsify = ''falsify''"
| "action_type_value Verify = ''verify''"
| "action_type_value AskUser = ''ask_user''"
| "action_type_value SuspendBranch = ''suspend_branch''"
| "action_type_value Report = ''report''"
| "action_type_value ImportAction = ''import''"
| "action_type_value SearchLiterature = ''search_literature''"
| "action_type_value FollowDiscoveryResults = ''follow_discovery_results''"
| "action_type_value AcquireSource = ''acquire_source''"
| "action_type_value ParseSource = ''parse_source''"
| "action_type_value EmbedSources = ''embed_sources''"
| "action_type_value RefreshRetrievalIndex = ''refresh_retrieval_index''"
| "action_type_value RetrieveEvidence = ''retrieve_evidence''"
| "action_type_value FormalCheck = ''formal_check''"

fun actor_value :: "actor_type \<Rightarrow> str" where
  "actor_value SystemActor = ''system''"
| "actor_value ModelActor = ''model''"
| "actor_value ToolActor = ''tool''"
| "actor_value HumanActor = ''human''"
| "actor_value ExternalSystemActor = ''external_system''"

fun usage_value :: "usage_source \<Rightarrow> str" where
  "usage_value ApiReported = ''api_reported''"
| "usage_value LocallyMeasured = ''locally_measured''"
| "usage_value Unavailable = ''unavailable''"

fun origin_value :: "external_origin \<Rightarrow> str" where
  "origin_value ExternalCodex = ''external_codex''"
| "origin_value HumanOrigin = ''human''"
| "origin_value ExternalSystem = ''external_system''"

definition all_statuses :: "record_status list" where
  "all_statuses = [Completed, Failed, Incomplete]"

definition all_action_types :: "action_type list" where
  "all_action_types =
     [Plan, Derive, WriteProgram, RunProgram, InspectResult, ReadArtifact, Note, Experiment,
      Falsify, Verify, AskUser, SuspendBranch, Report, ImportAction, SearchLiterature,
      FollowDiscoveryResults, AcquireSource, ParseSource, EmbedSources, RefreshRetrievalIndex,
      RetrieveEvidence, FormalCheck]"

definition all_actors :: "actor_type list" where
  "all_actors = [SystemActor, ModelActor, ToolActor, HumanActor, ExternalSystemActor]"

definition all_usage_sources :: "usage_source list" where
  "all_usage_sources = [ApiReported, LocallyMeasured, Unavailable]"

definition all_origins :: "external_origin list" where
  "all_origins = [ExternalCodex, HumanOrigin, ExternalSystem]"

text \<open>\<open>Enum(value)\<close>: the member with that value, or \<open>ValueError\<close> (here \<open>None\<close>).\<close>

definition enum_of :: "('a \<Rightarrow> str) \<Rightarrow> 'a list \<Rightarrow> json \<Rightarrow> 'a option" where
  "enum_of value members j =
     (case j of JStr s \<Rightarrow> find (\<lambda>m. value m = s) members | _ \<Rightarrow> None)"

text \<open>A string enumeration whose members have distinct values parses its own values.\<close>

locale value_enum =
  fixes value_of :: "'a \<Rightarrow> str" and members :: "'a list"
  assumes all_members: "m \<in> set members"
    and distinct_values: "distinct (map value_of members)"
begin

lemma value_inject: "value_of a = value_of b \<longleftrightarrow> a = b"
  using distinct_values all_members by (auto simp: distinct_map inj_on_def)

lemma enum_of_value: "enum_of value_of members (JStr (value_of m)) = Some m"
proof -
  have "\<exists>m' \<in> set members. value_of m' = value_of m" using all_members by blast
  then obtain m' where "find (\<lambda>x. value_of x = value_of m) members = Some m'"
    by (metis (mono_tags, lifting) find_None_iff2 option.exhaust)
  moreover from this have "value_of m' = value_of m"
    by (auto simp: find_Some_iff)
  ultimately show ?thesis by (simp add: enum_of_def value_inject)
qed

lemma enum_of_Some: "enum_of value_of members j = Some m \<longleftrightarrow> j = JStr (value_of m)"
proof
  assume "enum_of value_of members j = Some m"
  then show "j = JStr (value_of m)"
    by (auto simp: enum_of_def find_Some_iff split: json.splits)
qed (simp add: enum_of_value)

end

interpretation status: value_enum status_value all_statuses
proof
  show "m \<in> set all_statuses" for m by (cases m) (simp_all add: all_statuses_def)
qed (simp add: all_statuses_def)

interpretation action_type: value_enum action_type_value all_action_types
proof
  show "m \<in> set all_action_types" for m by (cases m) (simp_all add: all_action_types_def)
qed (simp add: all_action_types_def)

interpretation actor: value_enum actor_value all_actors
proof
  show "m \<in> set all_actors" for m by (cases m) (simp_all add: all_actors_def)
qed (simp add: all_actors_def)

interpretation usage: value_enum usage_value all_usage_sources
proof
  show "m \<in> set all_usage_sources" for m by (cases m) (simp_all add: all_usage_sources_def)
qed (simp add: all_usage_sources_def)

interpretation origin: value_enum origin_value all_origins
proof
  show "m \<in> set all_origins" for m by (cases m) (simp_all add: all_origins_def)
qed (simp add: all_origins_def)

section \<open>Guards shared by the records\<close>

definition schema_version_campaign :: str where
  "schema_version_campaign = ''adaivy.campaign-provenance.v1''"

definition canonicalization_version_campaign :: str where
  "canonicalization_version_campaign = ''1.0.0''"

definition is_alnum :: "char \<Rightarrow> bool" where
  "is_alnum c \<longleftrightarrow> is_digit c \<or> (CHR ''a'' \<le> c \<and> c \<le> CHR ''z'') \<or> (CHR ''A'' \<le> c \<and> c \<le> CHR ''Z'')"

text \<open>\<open>^[A-Za-z0-9][A-Za-z0-9._:-]*$\<close>, matched in full.\<close>

definition valid_identifier :: "str \<Rightarrow> bool" where
  "valid_identifier s \<longleftrightarrow>
     (case s of
        [] \<Rightarrow> False
      | c # cs \<Rightarrow> is_alnum c \<and> (\<forall>d \<in> set cs. is_alnum d \<or> d \<in> set ''._:-''))"

text \<open>\<open>len\<close> of a string counts code points: the bytes that do not continue one.\<close>

definition py_len :: "str \<Rightarrow> nat" where
  "py_len s = length (filter (\<lambda>c. \<not> is_cont c) s)"

definition identifier_guard :: "str \<Rightarrow> str \<Rightarrow> unit res" where
  "identifier_guard v field =
     ensure (valid_identifier v) (ProvenanceError (field @ '' is not a valid identifier''))"

definition hash_guard :: "str \<Rightarrow> str \<Rightarrow> unit res" where
  "hash_guard v field =
     ensure (valid_hash v) (ProvenanceError (field @ '' is not a sha256 content hash''))"

definition nonnegative :: "int \<Rightarrow> str \<Rightarrow> unit res" where
  "nonnegative v field =
     ensure (0 \<le> v) (ProvenanceError (field @ '' must be a non-negative integer''))"

fun nonnegative_opt :: "int option \<Rightarrow> str \<Rightarrow> unit res" where
  "nonnegative_opt None field = Inr ()"
| "nonnegative_opt (Some v) field = nonnegative v field"

definition unique_guard :: "str list \<Rightarrow> str \<Rightarrow> unit res" where
  "unique_guard vs field =
     ensure (distinct vs) (ProvenanceError (field @ '' must be a tuple of unique values''))"

definition strings_guard :: "str list \<Rightarrow> str \<Rightarrow> unit res" where
  "strings_guard vs field =
     checks (unique_guard vs field # map (\<lambda>v. identifier_guard v field) vs)"

definition hashes_guard :: "str list \<Rightarrow> str \<Rightarrow> unit res" where
  "hashes_guard vs field =
     checks (unique_guard vs field # map (\<lambda>v. hash_guard v field) vs)"

lemma identifier_guard_Inr [simp]: "identifier_guard v f = Inr u \<longleftrightarrow> valid_identifier v"
  by (simp add: identifier_guard_def)

lemma hash_guard_Inr [simp]: "hash_guard v f = Inr u \<longleftrightarrow> valid_hash v"
  by (simp add: hash_guard_def)

lemma nonnegative_Inr [simp]: "nonnegative v f = Inr u \<longleftrightarrow> 0 \<le> v"
  by (simp add: nonnegative_def)

lemma nonnegative_opt_Inr [simp]:
  "nonnegative_opt v f = Inr u \<longleftrightarrow> (\<forall>i. v = Some i \<longrightarrow> 0 \<le> i)"
  by (cases v) auto

lemma strings_guard_Inr [simp]:
  "strings_guard vs f = Inr u \<longleftrightarrow> distinct vs \<and> (\<forall>v \<in> set vs. valid_identifier v)"
  by (auto simp: strings_guard_def checks_Inr unique_guard_def)

lemma hashes_guard_Inr [simp]:
  "hashes_guard vs f = Inr u \<longleftrightarrow> distinct vs \<and> (\<forall>v \<in> set vs. valid_hash v)"
  by (auto simp: hashes_guard_def checks_Inr unique_guard_def)

section \<open>Semantic and operational hashes\<close>

definition is_hash_key :: "str \<Rightarrow> bool" where
  "is_hash_key k \<longleftrightarrow> k = ''content_hash'' \<or> k = ''operational_hash''"

definition semantic_fields :: "str list \<Rightarrow> jobject \<Rightarrow> jobject" where
  "semantic_fields ops payload = filter (\<lambda>(k, v). k \<notin> set ops \<and> \<not> is_hash_key k) payload"

definition bound_fields :: "str \<Rightarrow> jobject \<Rightarrow> jobject" where
  "bound_fields content payload =
     map (\<lambda>(k, v). (k, if k = ''content_hash'' then JStr content else v))
       (filter (\<lambda>(k, v). k \<noteq> ''operational_hash'') payload)"

definition record_hashes :: "hexdigest \<Rightarrow> str list \<Rightarrow> jobject \<Rightarrow> str \<times> str" where
  "record_hashes H ops payload =
     (let content = canonical_hash H (JObj (semantic_fields ops payload))
      in (content, canonical_hash H (JObj (bound_fields content payload))))"

definition finish :: "hexdigest \<Rightarrow> str list \<Rightarrow> ('r \<Rightarrow> jobject) \<Rightarrow> (str \<Rightarrow> str \<Rightarrow> 'r \<Rightarrow> 'r) \<Rightarrow> 'r \<Rightarrow> 'r" where
  "finish H ops payload set_hashes r =
     (case record_hashes H ops (payload r) of (c, p) \<Rightarrow> set_hashes c p r)"

definition put_hashes :: "str \<Rightarrow> str \<Rightarrow> str \<times> json \<Rightarrow> str \<times> json" where
  "put_hashes c p kv =
     (fst kv,
      if fst kv = ''content_hash'' then JStr c
      else if fst kv = ''operational_hash'' then JStr p else snd kv)"

text \<open>
  What every hashed record provides: its public value has fixed, distinct keys, values that
  hold no object, and the two hash fields.
\<close>

locale hashed_record =
  fixes payload :: "'r \<Rightarrow> jobject" and ops :: "str list"
    and set_hashes :: "str \<Rightarrow> str \<Rightarrow> 'r \<Rightarrow> 'r"
    and content_of :: "'r \<Rightarrow> str" and operational_of :: "'r \<Rightarrow> str"
  assumes content_set: "content_of (set_hashes c p r) = c"
    and operational_set: "operational_of (set_hashes c p r) = p"
    and set_set: "set_hashes c p (set_hashes c' p' r) = set_hashes c p r"
    and set_own: "set_hashes (content_of r) (operational_of r) r = r"
    and payload_set: "payload (set_hashes c p r) = map (put_hashes c p) (payload r)"
    and payload_distinct: "distinct (map fst (payload r))"
    and payload_flat: "kv \<in> set (payload r) \<Longrightarrow> jsort (snd kv) = snd kv"
begin

lemma semantic_put: "semantic_fields ops (map (put_hashes c p) kvs) = semantic_fields ops kvs"
  by (induction kvs) (auto simp: semantic_fields_def put_hashes_def is_hash_key_def)

lemma bound_put: "bound_fields x (map (put_hashes c p) kvs) = bound_fields x kvs"
  by (induction kvs) (auto simp: bound_fields_def put_hashes_def)

lemma record_hashes_set:
  "record_hashes H ops (payload (set_hashes c p r)) = record_hashes H ops (payload r)"
  by (simp add: record_hashes_def payload_set semantic_put bound_put Let_def)

lemma finish_set: "finish H ops payload set_hashes (set_hashes c p r) = finish H ops payload set_hashes r"
  by (simp add: finish_def record_hashes_set set_set case_prod_unfold)

lemma finish_idem:
  "finish H ops payload set_hashes (finish H ops payload set_hashes r)
     = finish H ops payload set_hashes r"
proof -
  obtain c p where "finish H ops payload set_hashes r = set_hashes c p r"
    by (auto simp: finish_def case_prod_unfold)
  then show ?thesis by (simp add: finish_set)
qed

lemma content_finish:
  "content_of (finish H ops payload set_hashes r)
     = canonical_hash H (JObj (semantic_fields ops (payload r)))"
  by (simp add: finish_def record_hashes_def Let_def content_set)

lemma operational_finish:
  "operational_of (finish H ops payload set_hashes r)
     = canonical_hash H (JObj (bound_fields (content_of (finish H ops payload set_hashes r)) (payload r)))"
  by (simp add: finish_def record_hashes_def Let_def content_set operational_set)

lemma verified_eq_finish:
  assumes "content_of r = content_of (finish H ops payload set_hashes r)"
    and "operational_of r = operational_of (finish H ops payload set_hashes r)"
  shows "finish H ops payload set_hashes r = r"
proof -
  obtain c p where f: "finish H ops payload set_hashes r = set_hashes c p r"
    by (auto simp: finish_def case_prod_unfold)
  with assms have "c = content_of r" and "p = operational_of r"
    by (simp_all add: content_set operational_set)
  with f show ?thesis by (simp add: set_own)
qed

lemma semantic_distinct: "distinct (map fst (semantic_fields ops (payload r)))"
  using payload_distinct [of r] by (simp add: semantic_fields_def distinct_map_filter)

lemma map_of_semantic:
  assumes "k \<notin> set ops" and "\<not> is_hash_key k"
  shows "map_of (semantic_fields ops kvs) k = map_of kvs k"
  using assms by (induction kvs) (auto simp: semantic_fields_def)

text \<open>Equal content hashes mean equal semantic fields, unless the hash function collides.\<close>

lemma content_hash_binds:
  assumes c: "content_of (finish H ops payload set_hashes r) = content_of (finish H ops payload set_hashes s)"
    and p: "printable (JObj (payload r))" "printable (JObj (payload s))"
  shows "(\<forall>k. k \<notin> set ops \<longrightarrow> \<not> is_hash_key k \<longrightarrow> map_of (payload r) k = map_of (payload s) k)
    \<or> (\<exists>a b. collides H a b)"
proof -
  let ?s = "\<lambda>r. semantic_fields ops (payload r)"
  have q: "printable (JObj (?s r))" "printable (JObj (?s s))"
    using p by (auto simp: semantic_fields_def)
  have flat: "map_option jsort (map_of (?s x) k) = map_of (?s x) k" for x k
  proof (cases "map_of (?s x) k")
    case (Some v)
    then have "(k, v) \<in> set (payload x)"
      by (auto simp: semantic_fields_def dest: map_of_SomeD)
    with Some payload_flat [of "(k, v)" x] show ?thesis by simp
  qed simp
  from canonical_hash_eq [OF _ q] c
  have "jsort (JObj (?s r)) = jsort (JObj (?s s)) \<or> (\<exists>a b. collides H a b)"
    by (auto simp: content_finish)
  then show ?thesis
  proof
    assume "jsort (JObj (?s r)) = jsort (JObj (?s s))"
    then have "map_of (?s r) k = map_of (?s s) k" for k
      using jsort_JObj_eq [OF _ semantic_distinct semantic_distinct, of r s k] by (simp only: flat)
    then have "\<forall>k. k \<notin> set ops \<longrightarrow> \<not> is_hash_key k \<longrightarrow> map_of (payload r) k = map_of (payload s) k"
      by (metis map_of_semantic)
    then show ?thesis ..
  qed simp
qed

end

text \<open>A digest that is cheap to evaluate, for the concrete instances of the theorems.\<close>

definition zero_digest :: hexdigest where
  "zero_digest m = replicate 64 CHR ''0''"

interpretation zero_digest: digest zero_digest
  by unfold_locales (auto simp: zero_digest_def is_hex_def is_digit_of_char)


end
