(* ===== verification/Campaign_Records.thy ===== *)
theory Campaign_Records
  imports Records
begin

text \<open>
  The four record types of \<open>campaign/records.py\<close>: actions, model calls, tool runs and
  external imports, each with its guards, its public value and its two hashes.
\<close>

section \<open>ActionRecord\<close>

record action_record =
  ac_action_id :: str
  ac_campaign_id :: str
  ac_sequence :: int
  ac_branch_id :: str
  ac_action_type :: action_type
  ac_actor_type :: actor_type
  ac_actor_id :: str
  ac_parent_action_ids :: "str list"
  ac_input_artifact_hashes :: "str list"
  ac_source_record_ids :: "str list"
  ac_output_artifact_hashes :: "str list"
  ac_status :: record_status
  ac_declared_rationale :: str
  ac_recorded_at :: str
  ac_schema_version :: str
  ac_record_type :: str
  ac_content_hash :: str
  ac_operational_hash :: str

definition action_operational_fields :: "str list" where
  "action_operational_fields = [''recorded_at'']"

definition action_post_init :: "action_record \<Rightarrow> unit res" where
  "action_post_init a = checks
     [ensure (ac_schema_version a = schema_version_campaign \<and> ac_record_type a = ''campaign_action'')
        (ProvenanceError ''unsupported campaign action schema''),
      identifier_guard (ac_action_id a) ''action_id'',
      identifier_guard (ac_campaign_id a) ''campaign_id'',
      identifier_guard (ac_branch_id a) ''branch_id'',
      identifier_guard (ac_actor_id a) ''actor_id'',
      ensure (1 \<le> ac_sequence a) (ProvenanceError ''action sequence must be a positive integer''),
      strings_guard (ac_parent_action_ids a) ''parent_action_ids'',
      strings_guard (ac_source_record_ids a) ''source_record_ids'',
      hashes_guard (ac_input_artifact_hashes a) ''input_artifact_hashes'',
      hashes_guard (ac_output_artifact_hashes a) ''output_artifact_hashes'',
      ensure (py_len (ac_declared_rationale a) \<le> 2000)
        (ProvenanceError ''declared_rationale must be at most 2000 characters''),
      ensure (ac_recorded_at a \<noteq> []) (ProvenanceError ''recorded_at must be supplied'')]"

definition action_value :: "action_record \<Rightarrow> jobject" where
  "action_value a =
     [(''action_id'', JStr (ac_action_id a)),
      (''campaign_id'', JStr (ac_campaign_id a)),
      (''sequence'', JInt (ac_sequence a)),
      (''branch_id'', JStr (ac_branch_id a)),
      (''action_type'', JStr (action_type_value (ac_action_type a))),
      (''actor_type'', JStr (actor_value (ac_actor_type a))),
      (''actor_id'', JStr (ac_actor_id a)),
      (''parent_action_ids'', jstrs (ac_parent_action_ids a)),
      (''input_artifact_hashes'', jstrs (ac_input_artifact_hashes a)),
      (''source_record_ids'', jstrs (ac_source_record_ids a)),
      (''output_artifact_hashes'', jstrs (ac_output_artifact_hashes a)),
      (''status'', JStr (status_value (ac_status a))),
      (''declared_rationale'', JStr (ac_declared_rationale a)),
      (''recorded_at'', JStr (ac_recorded_at a)),
      (''schema_version'', JStr (ac_schema_version a)),
      (''record_type'', JStr (ac_record_type a)),
      (''content_hash'', JStr (ac_content_hash a)),
      (''operational_hash'', JStr (ac_operational_hash a))]"

definition action_set_hashes :: "str \<Rightarrow> str \<Rightarrow> action_record \<Rightarrow> action_record" where
  "action_set_hashes c p a = a\<lparr>ac_content_hash := c, ac_operational_hash := p\<rparr>"

definition action_finalized :: "hexdigest \<Rightarrow> action_record \<Rightarrow> action_record" where
  "action_finalized H = finish H action_operational_fields action_value action_set_hashes"

definition action_verify_hashes :: "hexdigest \<Rightarrow> action_record \<Rightarrow> unit res" where
  "action_verify_hashes H a = (let expected = action_finalized H a in checks
     [ensure (ac_content_hash a = ac_content_hash expected)
        (ProvenanceError (''action '' @ ac_action_id a @ '' content_hash mismatch'')),
      ensure (ac_operational_hash a = ac_operational_hash expected)
        (ProvenanceError (''action '' @ ac_action_id a @ '' operational_hash mismatch''))])"

section \<open>ModelCallRecord\<close>

record model_call_record =
  mc_call_id :: str
  mc_campaign_id :: str
  mc_action_id :: str
  mc_purpose :: str
  mc_provider :: str
  mc_model_identifier :: str
  mc_live_configuration_hash :: str
  mc_pricing_snapshot_hash :: str
  mc_request_hash :: str
  mc_result_hash :: str
  mc_status :: record_status
  mc_usage_source :: usage_source
  mc_input_tokens :: int
  mc_output_tokens :: int
  mc_estimated_cost_microusd :: "int option"
  mc_provider_request_id :: "str option"
  mc_recorded_at :: str
  mc_schema_version :: str
  mc_record_type :: str
  mc_content_hash :: str
  mc_operational_hash :: str

definition model_call_operational_fields :: "str list" where
  "model_call_operational_fields =
     [''usage_source'', ''input_tokens'', ''output_tokens'', ''estimated_cost_microusd'',
      ''provider_request_id'', ''recorded_at'']"

definition model_call_post_init :: "model_call_record \<Rightarrow> unit res" where
  "model_call_post_init m = checks
     [ensure (mc_schema_version m = schema_version_campaign \<and> mc_record_type m = ''model_call'')
        (ProvenanceError ''unsupported model-call schema''),
      identifier_guard (mc_call_id m) ''call_id'',
      identifier_guard (mc_campaign_id m) ''campaign_id'',
      identifier_guard (mc_action_id m) ''action_id'',
      identifier_guard (mc_purpose m) ''purpose'',
      identifier_guard (mc_provider m) ''provider'',
      identifier_guard (mc_model_identifier m) ''model_identifier'',
      hash_guard (mc_live_configuration_hash m) ''live_configuration_hash'',
      hash_guard (mc_pricing_snapshot_hash m) ''pricing_snapshot_hash'',
      hash_guard (mc_request_hash m) ''request_hash'',
      hash_guard (mc_result_hash m) ''result_hash'',
      nonnegative (mc_input_tokens m) ''input_tokens'',
      nonnegative (mc_output_tokens m) ''output_tokens'',
      nonnegative_opt (mc_estimated_cost_microusd m) ''estimated_cost_microusd'',
      (if mc_usage_source m = Unavailable then
         ensure (mc_input_tokens m = 0 \<and> mc_output_tokens m = 0
                 \<and> mc_estimated_cost_microusd m = None)
           (ProvenanceError ''unavailable model usage cannot carry measured totals'')
       else
         ensure (mc_estimated_cost_microusd m \<noteq> None)
           (ProvenanceError ''measured model usage requires an estimated cost'')),
      ensure (mc_recorded_at m \<noteq> []) (ProvenanceError ''recorded_at must be supplied'')]"

definition model_call_value :: "model_call_record \<Rightarrow> jobject" where
  "model_call_value m =
     [(''call_id'', JStr (mc_call_id m)),
      (''campaign_id'', JStr (mc_campaign_id m)),
      (''action_id'', JStr (mc_action_id m)),
      (''purpose'', JStr (mc_purpose m)),
      (''provider'', JStr (mc_provider m)),
      (''model_identifier'', JStr (mc_model_identifier m)),
      (''live_configuration_hash'', JStr (mc_live_configuration_hash m)),
      (''pricing_snapshot_hash'', JStr (mc_pricing_snapshot_hash m)),
      (''request_hash'', JStr (mc_request_hash m)),
      (''result_hash'', JStr (mc_result_hash m)),
      (''status'', JStr (status_value (mc_status m))),
      (''usage_source'', JStr (usage_value (mc_usage_source m))),
      (''input_tokens'', JInt (mc_input_tokens m)),
      (''output_tokens'', JInt (mc_output_tokens m)),
      (''estimated_cost_microusd'', jint_opt (mc_estimated_cost_microusd m)),
      (''provider_request_id'', jstr_opt (mc_provider_request_id m)),
      (''recorded_at'', JStr (mc_recorded_at m)),
      (''schema_version'', JStr (mc_schema_version m)),
      (''record_type'', JStr (mc_record_type m)),
      (''content_hash'', JStr (mc_content_hash m)),
      (''operational_hash'', JStr (mc_operational_hash m))]"

definition model_call_set_hashes :: "str \<Rightarrow> str \<Rightarrow> model_call_record \<Rightarrow> model_call_record" where
  "model_call_set_hashes c p m = m\<lparr>mc_content_hash := c, mc_operational_hash := p\<rparr>"

definition model_call_finalized :: "hexdigest \<Rightarrow> model_call_record \<Rightarrow> model_call_record" where
  "model_call_finalized H =
     finish H model_call_operational_fields model_call_value model_call_set_hashes"

definition model_call_verify_hashes :: "hexdigest \<Rightarrow> model_call_record \<Rightarrow> unit res" where
  "model_call_verify_hashes H m = (let expected = model_call_finalized H m in checks
     [ensure (mc_content_hash m = mc_content_hash expected)
        (ProvenanceError (''model call '' @ mc_call_id m @ '' content_hash mismatch'')),
      ensure (mc_operational_hash m = mc_operational_hash expected)
        (ProvenanceError (''model call '' @ mc_call_id m @ '' operational_hash mismatch''))])"

section \<open>ToolRunRecord\<close>

record tool_run_record =
  tr_tool_run_id :: str
  tr_campaign_id :: str
  tr_action_id :: str
  tr_adapter_id :: str
  tr_adapter_version :: str
  tr_adapter_configuration_hash :: str
  tr_request_hash :: str
  tr_result_hash :: str
  tr_stdout_hash :: str
  tr_stderr_hash :: str
  tr_environment_hash :: str
  tr_status :: record_status
  tr_measurement_source :: usage_source
  tr_cpu_milliseconds :: "int option"
  tr_wall_milliseconds :: "int option"
  tr_peak_memory_bytes :: "int option"
  tr_output_bytes :: "int option"
  tr_recorded_at :: str
  tr_schema_version :: str
  tr_record_type :: str
  tr_content_hash :: str
  tr_operational_hash :: str

definition tool_run_operational_fields :: "str list" where
  "tool_run_operational_fields =
     [''measurement_source'', ''cpu_milliseconds'', ''wall_milliseconds'',
      ''peak_memory_bytes'', ''output_bytes'', ''recorded_at'']"

definition tool_run_observed :: "tool_run_record \<Rightarrow> int option list" where
  "tool_run_observed t =
     [tr_cpu_milliseconds t, tr_wall_milliseconds t, tr_peak_memory_bytes t, tr_output_bytes t]"

definition tool_run_post_init :: "tool_run_record \<Rightarrow> unit res" where
  "tool_run_post_init t = checks
     [ensure (tr_schema_version t = schema_version_campaign \<and> tr_record_type t = ''tool_run'')
        (ProvenanceError ''unsupported tool-run schema''),
      identifier_guard (tr_tool_run_id t) ''tool_run_id'',
      identifier_guard (tr_campaign_id t) ''campaign_id'',
      identifier_guard (tr_action_id t) ''action_id'',
      identifier_guard (tr_adapter_id t) ''adapter_id'',
      identifier_guard (tr_adapter_version t) ''adapter_version'',
      hash_guard (tr_adapter_configuration_hash t) ''adapter_configuration_hash'',
      hash_guard (tr_request_hash t) ''request_hash'',
      hash_guard (tr_result_hash t) ''result_hash'',
      hash_guard (tr_stdout_hash t) ''stdout_hash'',
      hash_guard (tr_stderr_hash t) ''stderr_hash'',
      hash_guard (tr_environment_hash t) ''environment_hash'',
      nonnegative_opt (tr_cpu_milliseconds t) ''cpu_milliseconds'',
      nonnegative_opt (tr_wall_milliseconds t) ''wall_milliseconds'',
      nonnegative_opt (tr_peak_memory_bytes t) ''peak_memory_bytes'',
      nonnegative_opt (tr_output_bytes t) ''output_bytes'',
      (if tr_measurement_source t = Unavailable then
         ensure (\<forall>x \<in> set (tool_run_observed t). x = None)
           (ProvenanceError ''unavailable tool measurement cannot carry observations'')
       else
         ensure (\<exists>x \<in> set (tool_run_observed t). x \<noteq> None)
           (ProvenanceError ''locally measured tool run requires at least one resource observation'')),
      ensure (tr_recorded_at t \<noteq> []) (ProvenanceError ''recorded_at must be supplied'')]"

definition tool_run_value :: "tool_run_record \<Rightarrow> jobject" where
  "tool_run_value t =
     [(''tool_run_id'', JStr (tr_tool_run_id t)),
      (''campaign_id'', JStr (tr_campaign_id t)),
      (''action_id'', JStr (tr_action_id t)),
      (''adapter_id'', JStr (tr_adapter_id t)),
      (''adapter_version'', JStr (tr_adapter_version t)),
      (''adapter_configuration_hash'', JStr (tr_adapter_configuration_hash t)),
      (''request_hash'', JStr (tr_request_hash t)),
      (''result_hash'', JStr (tr_result_hash t)),
      (''stdout_hash'', JStr (tr_stdout_hash t)),
      (''stderr_hash'', JStr (tr_stderr_hash t)),
      (''environment_hash'', JStr (tr_environment_hash t)),
      (''status'', JStr (status_value (tr_status t))),
      (''measurement_source'', JStr (usage_value (tr_measurement_source t))),
      (''cpu_milliseconds'', jint_opt (tr_cpu_milliseconds t)),
      (''wall_milliseconds'', jint_opt (tr_wall_milliseconds t)),
      (''peak_memory_bytes'', jint_opt (tr_peak_memory_bytes t)),
      (''output_bytes'', jint_opt (tr_output_bytes t)),
      (''recorded_at'', JStr (tr_recorded_at t)),
      (''schema_version'', JStr (tr_schema_version t)),
      (''record_type'', JStr (tr_record_type t)),
      (''content_hash'', JStr (tr_content_hash t)),
      (''operational_hash'', JStr (tr_operational_hash t))]"

definition tool_run_set_hashes :: "str \<Rightarrow> str \<Rightarrow> tool_run_record \<Rightarrow> tool_run_record" where
  "tool_run_set_hashes c p t = t\<lparr>tr_content_hash := c, tr_operational_hash := p\<rparr>"

definition tool_run_finalized :: "hexdigest \<Rightarrow> tool_run_record \<Rightarrow> tool_run_record" where
  "tool_run_finalized H =
     finish H tool_run_operational_fields tool_run_value tool_run_set_hashes"

definition tool_run_verify_hashes :: "hexdigest \<Rightarrow> tool_run_record \<Rightarrow> unit res" where
  "tool_run_verify_hashes H t = (let expected = tool_run_finalized H t in checks
     [ensure (tr_content_hash t = tr_content_hash expected)
        (ProvenanceError (''tool run '' @ tr_tool_run_id t @ '' content_hash mismatch'')),
      ensure (tr_operational_hash t = tr_operational_hash expected)
        (ProvenanceError (''tool run '' @ tr_tool_run_id t @ '' operational_hash mismatch''))])"

section \<open>ImportRecord\<close>

record import_record =
  im_import_id :: str
  im_campaign_id :: str
  im_action_id :: str
  im_origin_type :: external_origin
  im_source_id :: str
  im_artifact_hash :: str
  im_usage_source :: usage_source
  im_model_calls :: "int option"
  im_input_tokens :: "int option"
  im_output_tokens :: "int option"
  im_estimated_cost_microusd :: "int option"
  im_note :: str
  im_recorded_at :: str
  im_schema_version :: str
  im_record_type :: str
  im_content_hash :: str
  im_operational_hash :: str

definition import_operational_fields :: "str list" where
  "import_operational_fields =
     [''usage_source'', ''model_calls'', ''input_tokens'', ''output_tokens'',
      ''estimated_cost_microusd'', ''recorded_at'']"

definition import_post_init :: "import_record \<Rightarrow> unit res" where
  "import_post_init i = checks
     [ensure (im_schema_version i = schema_version_campaign \<and> im_record_type i = ''external_import'')
        (ProvenanceError ''unsupported import schema''),
      identifier_guard (im_import_id i) ''import_id'',
      identifier_guard (im_campaign_id i) ''campaign_id'',
      identifier_guard (im_action_id i) ''action_id'',
      identifier_guard (im_source_id i) ''source_id'',
      hash_guard (im_artifact_hash i) ''artifact_hash'',
      nonnegative_opt (im_model_calls i) ''model_calls'',
      nonnegative_opt (im_input_tokens i) ''input_tokens'',
      nonnegative_opt (im_output_tokens i) ''output_tokens'',
      nonnegative_opt (im_estimated_cost_microusd i) ''estimated_cost_microusd'',
      ensure (im_usage_source i = Unavailable
              \<and> (\<forall>x \<in> {im_model_calls i, im_input_tokens i, im_output_tokens i,
                        im_estimated_cost_microusd i}. x = None))
        (ProvenanceError
           ''external import usage is unavailable until a verified usage-record boundary exists''),
      ensure (im_note i \<noteq> []) (ProvenanceError ''an external import requires a non-empty note''),
      ensure (im_recorded_at i \<noteq> []) (ProvenanceError ''recorded_at must be supplied'')]"

definition import_value :: "import_record \<Rightarrow> jobject" where
  "import_value i =
     [(''import_id'', JStr (im_import_id i)),
      (''campaign_id'', JStr (im_campaign_id i)),
      (''action_id'', JStr (im_action_id i)),
      (''origin_type'', JStr (origin_value (im_origin_type i))),
      (''source_id'', JStr (im_source_id i)),
      (''artifact_hash'', JStr (im_artifact_hash i)),
      (''usage_source'', JStr (usage_value (im_usage_source i))),
      (''model_calls'', jint_opt (im_model_calls i)),
      (''input_tokens'', jint_opt (im_input_tokens i)),
      (''output_tokens'', jint_opt (im_output_tokens i)),
      (''estimated_cost_microusd'', jint_opt (im_estimated_cost_microusd i)),
      (''note'', JStr (im_note i)),
      (''recorded_at'', JStr (im_recorded_at i)),
      (''schema_version'', JStr (im_schema_version i)),
      (''record_type'', JStr (im_record_type i)),
      (''content_hash'', JStr (im_content_hash i)),
      (''operational_hash'', JStr (im_operational_hash i))]"

definition import_set_hashes :: "str \<Rightarrow> str \<Rightarrow> import_record \<Rightarrow> import_record" where
  "import_set_hashes c p i = i\<lparr>im_content_hash := c, im_operational_hash := p\<rparr>"

definition import_finalized :: "hexdigest \<Rightarrow> import_record \<Rightarrow> import_record" where
  "import_finalized H = finish H import_operational_fields import_value import_set_hashes"

definition import_verify_hashes :: "hexdigest \<Rightarrow> import_record \<Rightarrow> unit res" where
  "import_verify_hashes H i = (let expected = import_finalized H i in checks
     [ensure (im_content_hash i = im_content_hash expected)
        (ProvenanceError (''import '' @ im_import_id i @ '' content_hash mismatch'')),
      ensure (im_operational_hash i = im_operational_hash expected)
        (ProvenanceError (''import '' @ im_import_id i @ '' operational_hash mismatch''))])"

section \<open>The four are hashed records\<close>

lemma jsort_jstrs [simp]: "jsort (jstrs xs) = jstrs xs"
  by (simp add: jstrs_def)

lemma jsort_jint_opt [simp]: "jsort (jint_opt i) = jint_opt i"
  by (cases i) simp_all

lemma jsort_jstr_opt [simp]: "jsort (jstr_opt t) = jstr_opt t"
  by (cases t) simp_all

interpretation action: hashed_record action_value action_operational_fields
  action_set_hashes ac_content_hash ac_operational_hash
  by unfold_locales (auto simp: action_value_def action_set_hashes_def put_hashes_def)

interpretation model_call: hashed_record model_call_value model_call_operational_fields
  model_call_set_hashes mc_content_hash mc_operational_hash
  by unfold_locales (auto simp: model_call_value_def model_call_set_hashes_def put_hashes_def)

interpretation tool_run: hashed_record tool_run_value tool_run_operational_fields
  tool_run_set_hashes tr_content_hash tr_operational_hash
  by unfold_locales (auto simp: tool_run_value_def tool_run_set_hashes_def put_hashes_def)

interpretation import_rec: hashed_record import_value import_operational_fields
  import_set_hashes im_content_hash im_operational_hash
  by unfold_locales (auto simp: import_value_def import_set_hashes_def put_hashes_def)

end
