(* ===== verification/Budget.thy ===== *)
theory Budget
  imports Campaign_Records
begin

text \<open>
  \<open>campaign/budget.py\<close>: the unified campaign budget and its append-only charge ledger.
  \<open>admit\<close> refuses before an effect, \<open>charge\<close> records after it, \<open>close_ledger\<close>
  writes the closing statement, \<open>ledger_init\<close> opens a ledger on prior events.  The event
  sink and the clock of the source are arguments.
\<close>

section \<open>Quantities\<close>

text \<open>The six quantities of \<open>_QUANTITY_FIELDS\<close>, added and compared field by field.\<close>

datatype quantities = Quantities
  (q_requests: int) (q_input_tokens: int) (q_output_tokens: int)
  (q_cost_microusd: int) (q_bytes_transferred: int) (q_documents: int)

instantiation quantities :: comm_monoid_add
begin

definition zero_quantities :: quantities where
  "0 = Quantities 0 0 0 0 0 0"

definition plus_quantities :: "quantities \<Rightarrow> quantities \<Rightarrow> quantities" where
  "a + b = Quantities (q_requests a + q_requests b) (q_input_tokens a + q_input_tokens b)
     (q_output_tokens a + q_output_tokens b) (q_cost_microusd a + q_cost_microusd b)
     (q_bytes_transferred a + q_bytes_transferred b) (q_documents a + q_documents b)"

instance
  by intro_classes (simp_all add: plus_quantities_def zero_quantities_def)

end

instantiation quantities :: order
begin

definition less_eq_quantities :: "quantities \<Rightarrow> quantities \<Rightarrow> bool" where
  "a \<le> b \<longleftrightarrow> q_requests a \<le> q_requests b \<and> q_input_tokens a \<le> q_input_tokens b
     \<and> q_output_tokens a \<le> q_output_tokens b \<and> q_cost_microusd a \<le> q_cost_microusd b
     \<and> q_bytes_transferred a \<le> q_bytes_transferred b \<and> q_documents a \<le> q_documents b"

definition less_quantities :: "quantities \<Rightarrow> quantities \<Rightarrow> bool" where
  "a < b \<longleftrightarrow> a \<le> b \<and> \<not> b \<le> (a :: quantities)"

instance
  by intro_classes (auto simp: less_eq_quantities_def less_quantities_def intro: quantities.expand)

end

definition quantity_fields :: "(str \<times> (quantities \<Rightarrow> int)) list" where
  "quantity_fields =
     [(''requests'', q_requests), (''input_tokens'', q_input_tokens),
      (''output_tokens'', q_output_tokens), (''cost_microusd'', q_cost_microusd),
      (''bytes_transferred'', q_bytes_transferred), (''documents'', q_documents)]"

definition b_nonnegative :: "int \<Rightarrow> str \<Rightarrow> unit res" where
  "b_nonnegative v field =
     ensure (0 \<le> v) (BudgetError (field @ '' must be a non-negative integer''))"

definition b_positive :: "int \<Rightarrow> str \<Rightarrow> unit res" where
  "b_positive v field =
     ensure (1 \<le> v) (BudgetError (field @ '' must be a positive integer''))"

section \<open>The budget\<close>

record sub_budget =
  sb_max_requests :: int
  sb_max_input_tokens :: int
  sb_max_output_tokens :: int
  sb_max_cost_microusd :: int
  sb_max_bytes :: int
  sb_max_documents :: int

definition sub_limits :: "sub_budget \<Rightarrow> quantities" where
  "sub_limits s = Quantities (sb_max_requests s) (sb_max_input_tokens s)
     (sb_max_output_tokens s) (sb_max_cost_microusd s) (sb_max_bytes s) (sb_max_documents s)"

definition sub_budget_post_init :: "sub_budget \<Rightarrow> unit res" where
  "sub_budget_post_init s = checks
     [b_nonnegative (sb_max_requests s) ''max_requests'',
      b_nonnegative (sb_max_input_tokens s) ''max_input_tokens'',
      b_nonnegative (sb_max_output_tokens s) ''max_output_tokens'',
      b_nonnegative (sb_max_cost_microusd s) ''max_cost_microusd'',
      b_nonnegative (sb_max_bytes s) ''max_bytes'',
      b_nonnegative (sb_max_documents s) ''max_documents'']"

datatype capability = ModelCap | EmbeddingCap | NetworkCap | ToolCap | StorageCap

fun capability_value :: "capability \<Rightarrow> str" where
  "capability_value ModelCap = ''model''"
| "capability_value EmbeddingCap = ''embedding''"
| "capability_value NetworkCap = ''network''"
| "capability_value ToolCap = ''tool''"
| "capability_value StorageCap = ''storage''"

definition all_capabilities :: "capability list" where
  "all_capabilities = [ModelCap, EmbeddingCap, NetworkCap, ToolCap, StorageCap]"

interpretation capability: value_enum capability_value all_capabilities
proof
  show "m \<in> set all_capabilities" for m by (cases m) (simp_all add: all_capabilities_def)
qed (simp add: all_capabilities_def)

record campaign_budget =
  cb_campaign_id :: str
  cb_pricing_snapshot_hash :: str
  cb_embedding_pricing_snapshot_hash :: "str option"
  cb_max_total_cost_microusd :: int
  cb_max_wall_milliseconds :: int
  cb_model :: sub_budget
  cb_embedding :: sub_budget
  cb_network :: sub_budget
  cb_tool :: sub_budget
  cb_storage :: sub_budget
  cb_fallback_model :: "sub_budget option"
  cb_schema_version :: str
  cb_record_type :: str
  cb_content_hash :: str

definition budget_schema_version :: str where
  "budget_schema_version = ''adaivy.campaign-budget.v1''"

definition campaign_budget_post_init :: "campaign_budget \<Rightarrow> unit res" where
  "campaign_budget_post_init b = checks
     [ensure (cb_schema_version b = budget_schema_version)
        (BudgetError ''unsupported campaign-budget schema''),
      ensure (cb_record_type b = ''campaign_budget'')
        (BudgetError ''unsupported campaign-budget record type''),
      ensure (cb_campaign_id b \<noteq> []) (BudgetError ''campaign_id must be a non-empty string''),
      ensure (starts_with ''sha256:'' (cb_pricing_snapshot_hash b))
        (BudgetError ''pricing_snapshot_hash is not a sha256 content hash''),
      (case cb_embedding_pricing_snapshot_hash b of
         None \<Rightarrow> Inr ()
       | Some h \<Rightarrow> ensure (starts_with ''sha256:'' h)
           (BudgetError ''embedding_pricing_snapshot_hash is not a sha256 content hash'')),
      b_nonnegative (cb_max_total_cost_microusd b) ''max_total_cost_microusd'',
      b_nonnegative (cb_max_wall_milliseconds b) ''max_wall_milliseconds'']"

fun budget_sub_budget :: "campaign_budget \<Rightarrow> capability \<Rightarrow> sub_budget" where
  "budget_sub_budget b ModelCap = cb_model b"
| "budget_sub_budget b EmbeddingCap = cb_embedding b"
| "budget_sub_budget b NetworkCap = cb_network b"
| "budget_sub_budget b ToolCap = cb_tool b"
| "budget_sub_budget b StorageCap = cb_storage b"

definition sub_budget_value :: "sub_budget \<Rightarrow> json" where
  "sub_budget_value s = JObj
     [(''max_requests'', JInt (sb_max_requests s)),
      (''max_input_tokens'', JInt (sb_max_input_tokens s)),
      (''max_output_tokens'', JInt (sb_max_output_tokens s)),
      (''max_cost_microusd'', JInt (sb_max_cost_microusd s)),
      (''max_bytes'', JInt (sb_max_bytes s)),
      (''max_documents'', JInt (sb_max_documents s))]"

definition campaign_budget_value :: "campaign_budget \<Rightarrow> jobject" where
  "campaign_budget_value b =
     [(''campaign_id'', JStr (cb_campaign_id b)),
      (''pricing_snapshot_hash'', JStr (cb_pricing_snapshot_hash b)),
      (''embedding_pricing_snapshot_hash'', jstr_opt (cb_embedding_pricing_snapshot_hash b)),
      (''max_total_cost_microusd'', JInt (cb_max_total_cost_microusd b)),
      (''max_wall_milliseconds'', JInt (cb_max_wall_milliseconds b)),
      (''model'', sub_budget_value (cb_model b)),
      (''embedding'', sub_budget_value (cb_embedding b)),
      (''network'', sub_budget_value (cb_network b)),
      (''tool'', sub_budget_value (cb_tool b)),
      (''storage'', sub_budget_value (cb_storage b)),
      (''fallback_model'',
         (case cb_fallback_model b of None \<Rightarrow> JNull | Some s \<Rightarrow> sub_budget_value s)),
      (''schema_version'', JStr (cb_schema_version b)),
      (''record_type'', JStr (cb_record_type b)),
      (''content_hash'', JStr (cb_content_hash b))]"

definition campaign_budget_finalized :: "hexdigest \<Rightarrow> campaign_budget \<Rightarrow> campaign_budget" where
  "campaign_budget_finalized H b = b\<lparr>cb_content_hash :=
     canonical_hash H (JObj (campaign_budget_value (b\<lparr>cb_content_hash := []\<rparr>)))\<rparr>"

definition campaign_budget_verify_hashes :: "hexdigest \<Rightarrow> campaign_budget \<Rightarrow> unit res" where
  "campaign_budget_verify_hashes H b =
     ensure (cb_content_hash b = cb_content_hash (campaign_budget_finalized H b))
       (BudgetError ''campaign budget content_hash mismatch'')"

section \<open>The route policy (\<open>credentials.py\<close>)\<close>

record route_policy =
  rp_primary_profile_id :: str
  rp_fallback_profile_id :: "str option"
  rp_fallback_authorized_reason :: "str option"
  rp_schema_version :: str
  rp_record_type :: str
  rp_content_hash :: str

definition route_policy_post_init :: "route_policy \<Rightarrow> unit res" where
  "route_policy_post_init p = checks
     [ensure (rp_schema_version p = ''adaivy.campaign-credentials.v1'')
        (CredentialError ''unsupported route-policy schema''),
      ensure (rp_record_type p = ''campaign_route_policy'')
        (CredentialError ''unsupported route-policy record type''),
      ensure (valid_identifier (rp_primary_profile_id p))
        (CredentialError ''primary_profile_id is not a valid identifier''),
      (case rp_fallback_profile_id p of
         Some f \<Rightarrow> checks
           [ensure (valid_identifier f)
              (CredentialError ''fallback_profile_id is not a valid identifier''),
            ensure (f \<noteq> rp_primary_profile_id p)
              (CredentialError ''a fallback profile must differ from the primary profile''),
            ensure (\<exists>r. rp_fallback_authorized_reason p = Some r \<and> r \<noteq> [] \<and> py_len r \<le> 2000)
              (CredentialError
                 ''a named fallback requires the initial campaign policy to record why it was authorized'')]
       | None \<Rightarrow>
           ensure (rp_fallback_authorized_reason p = None)
             (CredentialError ''a fallback reason without a named fallback profile is malformed''))]"

definition route_after_provider_failure :: "route_policy \<Rightarrow> str \<Rightarrow> str res" where
  "route_after_provider_failure p failed =
     bindE (ensure (valid_identifier failed)
              (CredentialError ''failed_profile_id is not a valid identifier'')) (\<lambda>_.
     (if failed \<noteq> rp_primary_profile_id p then
        Inl (CredentialError
          ''provider failure on a non-primary route is terminal; a fallback route has no fallback of its own'')
      else case rp_fallback_profile_id p of
        None \<Rightarrow> Inl (CredentialError
          (''provider failure is terminal for profile '' @ py_repr failed
            @ '': the initial campaign policy authorized no named fallback''))
      | Some f \<Rightarrow> Inr f))"

end
