(* ===== verification/Budget_Ledger.thy ===== *)
theory Budget_Ledger
  imports Budget
begin

text \<open>
  The charge events, the ledger state and its operations (\<open>CampaignBudgetLedger\<close>).  A
  charge against the model capability goes to the primary or the fallback bucket by its
  credential profile; every other capability has one bucket.
\<close>

section \<open>Charge events\<close>

record charge_event =
  ce_sequence :: int
  ce_campaign_id :: str
  ce_capability :: capability
  ce_credential_profile_id :: str
  ce_purpose :: str
  ce_status :: record_status
  ce_request_hash :: str
  ce_usage_source :: usage_source
  ce_quantities :: quantities
  ce_failure_classification :: "str option"
  ce_rate_limit_retry_after_milliseconds :: "int option"
  ce_recorded_at :: str
  ce_schema_version :: str
  ce_record_type :: str
  ce_content_hash :: str
  ce_operational_hash :: str

definition charge_operational_fields :: "str list" where
  "charge_operational_fields =
     [''usage_source'', ''input_tokens'', ''output_tokens'', ''cost_microusd'',
      ''bytes_transferred'', ''failure_classification'',
      ''rate_limit_retry_after_milliseconds'', ''recorded_at'']"

definition charge_post_init :: "charge_event \<Rightarrow> unit res" where
  "charge_post_init e = checks
     ([ensure (ce_schema_version e = budget_schema_version)
         (BudgetError ''unsupported charge-event schema''),
       ensure (ce_record_type e = ''campaign_charge'')
         (BudgetError ''unsupported charge-event record type''),
       b_positive (ce_sequence e) ''sequence'',
       ensure (ce_campaign_id e \<noteq> []) (BudgetError ''campaign_id must be a non-empty string''),
       ensure (ce_credential_profile_id e \<noteq> [])
         (BudgetError ''credential_profile_id must be a non-empty string''),
       ensure (ce_purpose e \<noteq> []) (BudgetError ''purpose must be a non-empty string''),
       ensure (ce_recorded_at e \<noteq> []) (BudgetError ''recorded_at must be a non-empty string''),
       ensure (starts_with ''sha256:'' (ce_request_hash e))
         (BudgetError ''request_hash is not a sha256 content hash'')]
      @ map (\<lambda>(field, get). b_nonnegative (get (ce_quantities e)) field) quantity_fields
      @ [b_positive (q_requests (ce_quantities e)) ''requests'',
         (case ce_rate_limit_retry_after_milliseconds e of
            None \<Rightarrow> Inr ()
          | Some r \<Rightarrow> b_nonnegative r ''rate_limit_retry_after_milliseconds''),
         ensure (ce_failure_classification e \<noteq> Some [])
           (BudgetError ''failure_classification must be a non-empty string or null''),
         ensure (\<not> (ce_status e = Completed \<and> ce_failure_classification e \<noteq> None))
           (BudgetError ''a completed charge carries no failure classification''),
         ensure (\<not> (ce_usage_source e = Unavailable
                    \<and> (q_input_tokens (ce_quantities e) \<noteq> 0 \<or> q_output_tokens (ce_quantities e) \<noteq> 0
                       \<or> q_cost_microusd (ce_quantities e) \<noteq> 0)))
           (BudgetError ''unavailable usage cannot carry measured tokens or cost'')])"

definition charge_value :: "charge_event \<Rightarrow> jobject" where
  "charge_value e =
     [(''sequence'', JInt (ce_sequence e)),
      (''campaign_id'', JStr (ce_campaign_id e)),
      (''capability'', JStr (capability_value (ce_capability e))),
      (''credential_profile_id'', JStr (ce_credential_profile_id e)),
      (''purpose'', JStr (ce_purpose e)),
      (''status'', JStr (status_value (ce_status e))),
      (''request_hash'', JStr (ce_request_hash e)),
      (''usage_source'', JStr (usage_value (ce_usage_source e))),
      (''requests'', JInt (q_requests (ce_quantities e))),
      (''input_tokens'', JInt (q_input_tokens (ce_quantities e))),
      (''output_tokens'', JInt (q_output_tokens (ce_quantities e))),
      (''cost_microusd'', JInt (q_cost_microusd (ce_quantities e))),
      (''bytes_transferred'', JInt (q_bytes_transferred (ce_quantities e))),
      (''documents'', JInt (q_documents (ce_quantities e))),
      (''failure_classification'', jstr_opt (ce_failure_classification e)),
      (''rate_limit_retry_after_milliseconds'',
         jint_opt (ce_rate_limit_retry_after_milliseconds e)),
      (''recorded_at'', JStr (ce_recorded_at e)),
      (''schema_version'', JStr (ce_schema_version e)),
      (''record_type'', JStr (ce_record_type e)),
      (''content_hash'', JStr (ce_content_hash e)),
      (''operational_hash'', JStr (ce_operational_hash e))]"

definition charge_set_hashes :: "str \<Rightarrow> str \<Rightarrow> charge_event \<Rightarrow> charge_event" where
  "charge_set_hashes c p e = e\<lparr>ce_content_hash := c, ce_operational_hash := p\<rparr>"

definition charge_finalized :: "hexdigest \<Rightarrow> charge_event \<Rightarrow> charge_event" where
  "charge_finalized H = finish H charge_operational_fields charge_value charge_set_hashes"

interpretation charge_rec: hashed_record charge_value charge_operational_fields
  charge_set_hashes ce_content_hash ce_operational_hash
  by unfold_locales (auto simp: charge_value_def charge_set_hashes_def put_hashes_def)

section \<open>The ledger\<close>

record ledger =
  lg_budget :: campaign_budget
  lg_route_policy :: "route_policy option"
  lg_events :: "charge_event list"
  lg_totals :: "capability \<Rightarrow> quantities"
  lg_fallback_totals :: quantities
  lg_exceeded :: "str list"
  lg_closed :: bool

definition fallback_profile_id :: "route_policy option \<Rightarrow> str option" where
  "fallback_profile_id p = Option.bind p rp_fallback_profile_id"

text \<open>The bucket a request charges: its name, its limits and its running totals.\<close>

datatype bucket = Cap capability | FallbackModel

fun bucket_name :: "bucket \<Rightarrow> str" where
  "bucket_name (Cap c) = capability_value c"
| "bucket_name FallbackModel = ''fallback_model''"

fun bucket_limits :: "campaign_budget \<Rightarrow> bucket \<Rightarrow> sub_budget res" where
  "bucket_limits b (Cap c) = Inr (budget_sub_budget b c)"
| "bucket_limits b FallbackModel =
     (case cb_fallback_model b of None \<Rightarrow> Inl AssertionErr | Some s \<Rightarrow> Inr s)"

fun bucket_totals :: "ledger \<Rightarrow> bucket \<Rightarrow> quantities" where
  "bucket_totals l (Cap c) = lg_totals l c"
| "bucket_totals l FallbackModel = lg_fallback_totals l"

definition model_bucket :: "campaign_budget \<Rightarrow> route_policy option \<Rightarrow> str option \<Rightarrow> bucket res" where
  "model_bucket b policy profile =
     (case (profile, policy) of
        (Some pid, Some pol) \<Rightarrow>
          (if pid = rp_primary_profile_id pol then Inr (Cap ModelCap)
           else if Some pid = fallback_profile_id policy then
             (if cb_fallback_model b = None then
                Inl (BudgetError
                  ''the fallback route has no dedicated fallback_model sub-budget and may therefore charge nothing'')
              else Inr FallbackModel)
           else Inl (BudgetError
             (''profile '' @ py_repr pid @
                '' is neither the primary nor the authorized fallback route of this campaign''
                @ CHR 0x27 # ''s frozen route policy'')))
      | _ \<Rightarrow> Inr (Cap ModelCap))"

definition event_bucket :: "campaign_budget \<Rightarrow> route_policy option \<Rightarrow> capability \<Rightarrow> str option \<Rightarrow> bucket res" where
  "event_bucket b policy c profile =
     (if c = ModelCap then model_bucket b policy profile else Inr (Cap c))"

text \<open>\<open>totals[field] += ...\<close> on the totals of one bucket.\<close>

fun add_totals :: "bucket \<Rightarrow> quantities \<Rightarrow> ledger \<Rightarrow> ledger" where
  "add_totals (Cap c) q l = l\<lparr>lg_totals := (lg_totals l)(c := lg_totals l c + q)\<rparr>"
| "add_totals FallbackModel q l = l\<lparr>lg_fallback_totals := lg_fallback_totals l + q\<rparr>"

definition total_cost :: "ledger \<Rightarrow> int" where
  "total_cost l =
     sum_list (map (\<lambda>c. q_cost_microusd (lg_totals l c)) all_capabilities)
       + q_cost_microusd (lg_fallback_totals l)"

definition over_fields :: "str \<Rightarrow> quantities \<Rightarrow> quantities \<Rightarrow> str list" where
  "over_fields name limits totals =
     map (\<lambda>(field, get). name @ ''.'' @ field)
       (filter (\<lambda>(field, get). get totals > get limits) quantity_fields)"

definition over_total :: "ledger \<Rightarrow> str list" where
  "over_total l =
     (if total_cost l > cb_max_total_cost_microusd (lg_budget l) then [''total.cost_microusd''] else [])"

definition note_breaches :: "bucket \<Rightarrow> ledger \<Rightarrow> ledger res" where
  "note_breaches k l =
     bindE (bucket_limits (lg_budget l) k) (\<lambda>sub.
       Inr (l\<lparr>lg_exceeded := lg_exceeded l
         @ over_fields (bucket_name k) (sub_limits sub) (bucket_totals l k) @ over_total l\<rparr>))"

text \<open>The bookkeeping of one event: the same in \<open>__init__\<close> and in \<open>charge\<close>.\<close>

definition post_event :: "bucket \<Rightarrow> charge_event \<Rightarrow> ledger \<Rightarrow> ledger res" where
  "post_event k e l =
     note_breaches k (add_totals k (ce_quantities e) (l\<lparr>lg_events := lg_events l @ [e]\<rparr>))"

definition empty_ledger :: "campaign_budget \<Rightarrow> route_policy option \<Rightarrow> ledger" where
  "empty_ledger b policy =
     \<lparr>lg_budget = b, lg_route_policy = policy, lg_events = [], lg_totals = (\<lambda>_. 0),
      lg_fallback_totals = 0, lg_exceeded = [], lg_closed = False\<rparr>"

definition restore_event :: "hexdigest \<Rightarrow> charge_event \<Rightarrow> ledger \<Rightarrow> ledger res" where
  "restore_event H e l =
     bindE (checks
       [ensure (ce_campaign_id e = cb_campaign_id (lg_budget l))
          (BudgetError ''prior charge belongs to another campaign''),
        ensure (ce_sequence e = int (length (lg_events l)) + 1)
          (BudgetError ''prior charge sequence is not contiguous''),
        ensure (ce_content_hash e = ce_content_hash (charge_finalized H e)
                \<and> ce_operational_hash e = ce_operational_hash (charge_finalized H e))
          (BudgetError ''prior charge hash differs'')]) (\<lambda>_.
     bindE (event_bucket (lg_budget l) (lg_route_policy l) (ce_capability e)
              (Some (ce_credential_profile_id e))) (\<lambda>k.
     post_event k e l))"

fun restore_events :: "hexdigest \<Rightarrow> charge_event list \<Rightarrow> ledger \<Rightarrow> ledger res" where
  "restore_events H [] l = Inr l"
| "restore_events H (e # es) l = bindE (restore_event H e l) (restore_events H es)"

definition ledger_init :: "hexdigest \<Rightarrow> campaign_budget \<Rightarrow> route_policy option \<Rightarrow> charge_event list \<Rightarrow> ledger res" where
  "ledger_init H b policy initial_events =
     bindE (campaign_budget_verify_hashes H b) (\<lambda>_.
     bindE (ensure (\<not> (fallback_profile_id policy \<noteq> None \<and> cb_fallback_model b = None))
       (BudgetError
          ''the route policy names a fallback profile but the campaign budget carries no dedicated fallback_model sub-budget; a fallback route may charge nothing without its own budget'')) (\<lambda>_.
     restore_events H initial_events (empty_ledger b policy)))"

section \<open>admit\<close>

definition admit_fields :: "capability \<Rightarrow> quantities \<Rightarrow> quantities \<Rightarrow> quantities \<Rightarrow> unit res" where
  "admit_fields c limits totals reserved =
     checks (concat (map (\<lambda>(field, get).
       [b_nonnegative (get reserved) field,
        ensure (get totals + get reserved \<le> get limits)
          (BudgetExhausted (capability_value c @ '' sub-budget admits no further '' @ field))])
       quantity_fields))"

definition admit :: "ledger \<Rightarrow> capability \<Rightarrow> str option \<Rightarrow> quantities \<Rightarrow> unit res" where
  "admit l c profile reserved =
     (if lg_closed l then Inl (BudgetExhausted ''the campaign budget is already closed'')
      else if lg_exceeded l \<noteq> [] then
        Inl (BudgetExhausted
          (''the campaign budget was breached and admits no further request: ''
            @ join '', '' (sort (dedup (lg_exceeded l)))))
      else
        bindE (b_positive (q_requests reserved) ''requests'') (\<lambda>_.
        bindE (event_bucket (lg_budget l) (lg_route_policy l) c profile) (\<lambda>k.
        bindE (bucket_limits (lg_budget l) k) (\<lambda>sub.
        bindE (admit_fields c (sub_limits sub) (bucket_totals l k) reserved) (\<lambda>_.
        ensure (total_cost l + q_cost_microusd reserved \<le> cb_max_total_cost_microusd (lg_budget l))
          (BudgetExhausted ''the unified campaign cost bound admits no further cost''))))))"

section \<open>charge\<close>

text \<open>The arguments of one call of \<open>charge\<close>.\<close>

record charge_args =
  ca_capability :: capability
  ca_credential_profile_id :: str
  ca_purpose :: str
  ca_status :: record_status
  ca_request_hash :: str
  ca_usage_source :: usage_source
  ca_quantities :: quantities
  ca_failure_classification :: "str option"
  ca_rate_limit_retry_after_milliseconds :: "int option"

definition charge_record :: "ledger \<Rightarrow> str \<Rightarrow> charge_args \<Rightarrow> charge_event" where
  "charge_record l now a =
     \<lparr>ce_sequence = int (length (lg_events l)) + 1,
      ce_campaign_id = cb_campaign_id (lg_budget l),
      ce_capability = ca_capability a,
      ce_credential_profile_id = ca_credential_profile_id a,
      ce_purpose = ca_purpose a,
      ce_status = ca_status a,
      ce_request_hash = ca_request_hash a,
      ce_usage_source = ca_usage_source a,
      ce_quantities = ca_quantities a,
      ce_failure_classification = ca_failure_classification a,
      ce_rate_limit_retry_after_milliseconds = ca_rate_limit_retry_after_milliseconds a,
      ce_recorded_at = now,
      ce_schema_version = budget_schema_version,
      ce_record_type = ''campaign_charge'',
      ce_content_hash = [],
      ce_operational_hash = []\<rparr>"

text \<open>
  The new ledger and what the call returns or raises.  \<open>sink\<close> is the event sink, called
  last: when it raises, the charge has already been recorded.
\<close>

definition charge ::
  "hexdigest \<Rightarrow> (charge_event \<Rightarrow> unit res) \<Rightarrow> str \<Rightarrow> ledger \<Rightarrow> charge_args \<Rightarrow> ledger \<times> charge_event res" where
  "charge H sink now l a =
     (if lg_closed l then (l, Inl (BudgetError ''a closed budget accepts no further charge''))
      else case event_bucket (lg_budget l) (lg_route_policy l) (ca_capability a)
                  (Some (ca_credential_profile_id a)) of
        Inl err \<Rightarrow> (l, Inl err)
      | Inr k \<Rightarrow>
          (let e = charge_record l now a in
           case charge_post_init e of
             Inl err \<Rightarrow> (l, Inl err)
           | Inr _ \<Rightarrow>
               (let e' = charge_finalized H e in
                case post_event k e' l of
                  Inl err \<Rightarrow>
                    (add_totals k (ce_quantities e') (l\<lparr>lg_events := lg_events l @ [e']\<rparr>), Inl err)
                | Inr l' \<Rightarrow> (l', bindE (sink e') (\<lambda>_. Inr e')))))"

section \<open>close\<close>

record capability_closeout =
  cc_capability :: capability
  cc_attempted :: quantities
  cc_requests_completed :: int
  cc_requests_failed :: int
  cc_requests_incomplete :: int
  cc_remaining :: quantities

record budget_closeout =
  bc_campaign_id :: str
  bc_budget_content_hash :: str
  bc_pricing_snapshot_hash :: str
  bc_status :: str
  bc_exceeded_bounds :: "str list"
  bc_capabilities :: "capability_closeout list"
  bc_fallback_model :: "capability_closeout option"
  bc_total_cost_microusd :: int
  bc_remaining_total_cost_microusd :: int
  bc_wall_milliseconds_used :: int
  bc_remaining_wall_milliseconds :: int
  bc_charge_event_count :: int
  bc_failure_event_sequences :: "int list"
  bc_rate_limit_event_sequences :: "int list"
  bc_recorded_at :: str

definition minus_quantities :: "quantities \<Rightarrow> quantities \<Rightarrow> quantities" where
  "minus_quantities a b = Quantities (q_requests a - q_requests b)
     (q_input_tokens a - q_input_tokens b) (q_output_tokens a - q_output_tokens b)
     (q_cost_microusd a - q_cost_microusd b) (q_bytes_transferred a - q_bytes_transferred b)
     (q_documents a - q_documents b)"

definition requests_with :: "record_status \<Rightarrow> charge_event list \<Rightarrow> int" where
  "requests_with s es =
     sum_list (map (\<lambda>e. q_requests (ce_quantities e)) (filter (\<lambda>e. ce_status e = s) es))"

definition capability_closeout_of ::
  "capability \<Rightarrow> sub_budget \<Rightarrow> quantities \<Rightarrow> charge_event list \<Rightarrow> capability_closeout" where
  "capability_closeout_of c sub totals es =
     \<lparr>cc_capability = c, cc_attempted = totals,
      cc_requests_completed = requests_with Completed es,
      cc_requests_failed = requests_with Failed es,
      cc_requests_incomplete = requests_with Incomplete es,
      cc_remaining = minus_quantities (sub_limits sub) totals\<rparr>"

definition is_fallback_event :: "route_policy option \<Rightarrow> charge_event \<Rightarrow> bool" where
  "is_fallback_event policy e \<longleftrightarrow>
     ce_capability e = ModelCap \<and> fallback_profile_id policy \<noteq> None
       \<and> Some (ce_credential_profile_id e) = fallback_profile_id policy"

definition closeout_of :: "ledger \<Rightarrow> int \<Rightarrow> str \<Rightarrow> budget_closeout" where
  "closeout_of l wall now =
     (let b = lg_budget l;
          exceeded = lg_exceeded l
            @ (if wall > cb_max_wall_milliseconds b then [''total.wall_milliseconds''] else []);
          own = (\<lambda>c. filter (\<lambda>e. ce_capability e = c \<and> \<not> is_fallback_event (lg_route_policy l) e)
                      (lg_events l))
      in \<lparr>bc_campaign_id = cb_campaign_id b,
          bc_budget_content_hash = cb_content_hash b,
          bc_pricing_snapshot_hash = cb_pricing_snapshot_hash b,
          bc_status = (if exceeded = [] then ''within_bounds'' else ''exceeded''),
          bc_exceeded_bounds = sort (dedup exceeded),
          bc_capabilities =
            map (\<lambda>c. capability_closeout_of c (budget_sub_budget b c) (lg_totals l c) (own c))
              all_capabilities,
          bc_fallback_model =
            map_option (\<lambda>sub. capability_closeout_of ModelCap sub (lg_fallback_totals l)
                (filter (is_fallback_event (lg_route_policy l)) (lg_events l)))
              (cb_fallback_model b),
          bc_total_cost_microusd = total_cost l,
          bc_remaining_total_cost_microusd = cb_max_total_cost_microusd b - total_cost l,
          bc_wall_milliseconds_used = wall,
          bc_remaining_wall_milliseconds = cb_max_wall_milliseconds b - wall,
          bc_charge_event_count = int (length (lg_events l)),
          bc_failure_event_sequences =
            map ce_sequence (filter (\<lambda>e. ce_status e \<noteq> Completed) (lg_events l)),
          bc_rate_limit_event_sequences =
            map ce_sequence
              (filter (\<lambda>e. ce_rate_limit_retry_after_milliseconds e \<noteq> None) (lg_events l)),
          bc_recorded_at = now\<rparr>)"

definition close_ledger :: "ledger \<Rightarrow> int \<Rightarrow> str \<Rightarrow> ledger \<times> budget_closeout res" where
  "close_ledger l wall now =
     (case b_nonnegative wall ''wall_milliseconds_used'' of
        Inl err \<Rightarrow> (l, Inl err)
      | Inr _ \<Rightarrow>
          (if lg_closed l then (l, Inl (BudgetError ''the campaign budget was already closed''))
           else (l\<lparr>lg_closed := True\<rparr>, Inr (closeout_of l wall now))))"

end
