(* ===== verification/Budget_Invariant.thy ===== *)
theory Budget_Invariant
  imports Budget_Ledger
begin

text \<open>
  The ledger's invariant: totals are the sums of the recorded events, the sequence is
  contiguous, and the list of exceeded bounds is exactly the set of bounds the totals pass.
  It holds of every ledger the operations can reach.
\<close>

section \<open>Arithmetic on quantities\<close>

lemmas quantities_simps = plus_quantities_def zero_quantities_def less_eq_quantities_def

lemma q_plus [simp]:
  "q_requests (a + b) = q_requests a + q_requests b"
  "q_input_tokens (a + b) = q_input_tokens a + q_input_tokens b"
  "q_output_tokens (a + b) = q_output_tokens a + q_output_tokens b"
  "q_cost_microusd (a + b) = q_cost_microusd a + q_cost_microusd b"
  "q_bytes_transferred (a + b) = q_bytes_transferred a + q_bytes_transferred b"
  "q_documents (a + b) = q_documents a + q_documents b"
  by (simp_all add: plus_quantities_def)

lemma q_zero [simp]:
  "q_requests 0 = 0" "q_input_tokens 0 = 0" "q_output_tokens 0 = 0"
  "q_cost_microusd 0 = 0" "q_bytes_transferred 0 = 0" "q_documents 0 = 0"
  by (simp_all add: zero_quantities_def)

lemma quantity_get_plus:
  "(field, get) \<in> set quantity_fields \<Longrightarrow> get (a + b) = get a + get b"
  by (auto simp: quantity_fields_def)

lemma quantity_get_mono:
  "(field, get) \<in> set quantity_fields \<Longrightarrow> a \<le> b \<Longrightarrow> get a \<le> get b"
  by (auto simp: quantity_fields_def less_eq_quantities_def)

lemma quantities_le_iff:
  "a \<le> b \<longleftrightarrow> (\<forall>(field, get) \<in> set quantity_fields. get a \<le> get b)"
  by (auto simp: quantity_fields_def less_eq_quantities_def)

lemma sum_list_quantities_nonneg: "\<forall>q \<in> set qs. 0 \<le> q \<Longrightarrow> 0 \<le> (sum_list qs :: quantities)"
  by (induction qs) (auto simp: less_eq_quantities_def)

section \<open>Well-formed budgets\<close>

definition valid_budget :: "campaign_budget \<Rightarrow> bool" where
  "valid_budget b \<longleftrightarrow>
     campaign_budget_post_init b = Inr ()
       \<and> (\<forall>c \<in> set all_capabilities. sub_budget_post_init (budget_sub_budget b c) = Inr ())
       \<and> (\<forall>s. cb_fallback_model b = Some s \<longrightarrow> sub_budget_post_init s = Inr ())"

lemma sub_limits_nonneg: "sub_budget_post_init s = Inr () \<Longrightarrow> 0 \<le> sub_limits s"
  by (simp add: sub_budget_post_init_def checks_Inr b_nonnegative_def sub_limits_def
      less_eq_quantities_def)

lemma all_capabilities_all [simp]: "c \<in> set all_capabilities"
  by (cases c) (simp_all add: all_capabilities_def)

lemma bucket_limits_nonneg:
  assumes "valid_budget b" and "bucket_limits b k = Inr s"
  shows "0 \<le> sub_limits s"
  using assms by (cases k) (auto simp: valid_budget_def intro: sub_limits_nonneg split: option.splits)

lemma event_bucket_limits:
  "event_bucket b p c pid = Inr k \<Longrightarrow> \<exists>s. bucket_limits b k = Inr s"
  by (auto simp: event_bucket_def model_bucket_def split: option.splits if_splits)

section \<open>Buckets and their totals\<close>

lemma bucket_totals_add [simp]:
  "bucket_totals (add_totals k q l) k' = (if k = k' then bucket_totals l k + q else bucket_totals l k')"
  by (cases k; cases k') auto

lemma add_totals_frame [simp]:
  "lg_budget (add_totals k q l) = lg_budget l"
  "lg_route_policy (add_totals k q l) = lg_route_policy l"
  "lg_events (add_totals k q l) = lg_events l"
  "lg_exceeded (add_totals k q l) = lg_exceeded l"
  "lg_closed (add_totals k q l) = lg_closed l"
  by (cases k; simp)+

lemma total_cost_add [simp]: "total_cost (add_totals k q l) = total_cost l + q_cost_microusd q"
proof (cases k)
  case (Cap c)
  then show ?thesis by (cases c) (simp_all add: total_cost_def all_capabilities_def)
qed (simp add: total_cost_def)

lemma bucket_totals_frame [simp]:
  "bucket_totals (l\<lparr>lg_events := es\<rparr>) k = bucket_totals l k"
  "bucket_totals (l\<lparr>lg_exceeded := xs\<rparr>) k = bucket_totals l k"
  "bucket_totals (l\<lparr>lg_closed := b\<rparr>) k = bucket_totals l k"
  by (cases k; simp)+

lemma total_cost_frame [simp]:
  "total_cost (l\<lparr>lg_events := es\<rparr>) = total_cost l"
  "total_cost (l\<lparr>lg_exceeded := xs\<rparr>) = total_cost l"
  "total_cost (l\<lparr>lg_closed := b\<rparr>) = total_cost l"
  by (simp_all add: total_cost_def)

definition all_buckets :: "bucket list" where
  "all_buckets = FallbackModel # map Cap all_capabilities"

lemma all_buckets_all [simp]: "k \<in> set all_buckets"
  by (cases k) (auto simp: all_buckets_def)

lemma total_cost_buckets: "total_cost l = (\<Sum>k \<leftarrow> all_buckets. q_cost_microusd (bucket_totals l k))"
  by (simp add: total_cost_def all_buckets_def all_capabilities_def)

text \<open>The bounds the totals of a ledger pass.\<close>

definition bucket_over :: "ledger \<Rightarrow> bucket \<Rightarrow> str list" where
  "bucket_over l k =
     (case bucket_limits (lg_budget l) k of
        Inl _ \<Rightarrow> [] | Inr s \<Rightarrow> over_fields (bucket_name k) (sub_limits s) (bucket_totals l k))"

definition breached :: "ledger \<Rightarrow> str set" where
  "breached l = (\<Union>k \<in> set all_buckets. set (bucket_over l k)) \<union> set (over_total l)"

lemma over_fields_mono:
  assumes "a \<le> b"
  shows "set (over_fields n lim a) \<subseteq> set (over_fields n lim b)"
  using quantity_get_mono [OF _ assms] by (fastforce simp: over_fields_def)

lemma over_fields_nil: "over_fields n lim t = [] \<longleftrightarrow> t \<le> lim"
  by (auto simp: over_fields_def quantities_le_iff filter_empty_conv not_less)

definition events_of :: "ledger \<Rightarrow> bucket \<Rightarrow> charge_event list" where
  "events_of l k =
     filter (\<lambda>e. event_bucket (lg_budget l) (lg_route_policy l) (ce_capability e)
                   (Some (ce_credential_profile_id e)) = Inr k) (lg_events l)"

section \<open>The invariant\<close>

definition ledger_ok :: "hexdigest \<Rightarrow> ledger \<Rightarrow> bool" where
  "ledger_ok H l \<longleftrightarrow>
     (\<forall>k. bucket_totals l k = sum_list (map ce_quantities (events_of l k)))
       \<and> map ce_sequence (lg_events l) = map int [1..<Suc (length (lg_events l))]
       \<and> (\<forall>e \<in> set (lg_events l).
             charge_post_init e = Inr () \<and> charge_finalized H e = e
               \<and> ce_campaign_id e = cb_campaign_id (lg_budget l)
               \<and> (\<exists>k. event_bucket (lg_budget l) (lg_route_policy l) (ce_capability e)
                         (Some (ce_credential_profile_id e)) = Inr k))
       \<and> set (lg_exceeded l) = breached l"

lemma ledger_okD:
  assumes "ledger_ok H l"
  shows "bucket_totals l k = sum_list (map ce_quantities (events_of l k))"
    and "map ce_sequence (lg_events l) = map int [1..<Suc (length (lg_events l))]"
    and "e \<in> set (lg_events l) \<Longrightarrow>
             charge_post_init e = Inr () \<and> charge_finalized H e = e
               \<and> ce_campaign_id e = cb_campaign_id (lg_budget l)
               \<and> (\<exists>k. event_bucket (lg_budget l) (lg_route_policy l) (ce_capability e)
                         (Some (ce_credential_profile_id e)) = Inr k)"
    and "set (lg_exceeded l) = breached l"
  using assms unfolding ledger_ok_def by blast+

lemma charge_post_init_nonneg:
  assumes "charge_post_init e = Inr ()"
  shows "0 \<le> ce_quantities e" and "1 \<le> q_requests (ce_quantities e)"
  using assms
  by (auto simp: charge_post_init_def checks_Inr b_nonnegative_def b_positive_def
      quantity_fields_def less_eq_quantities_def)

lemma charge_finalized_set:
  obtains c p where "charge_finalized H e = charge_set_hashes c p e"
  by (auto simp: charge_finalized_def finish_def case_prod_unfold)

lemma charge_finalized_fields [simp]:
  "ce_sequence (charge_finalized H e) = ce_sequence e"
  "ce_campaign_id (charge_finalized H e) = ce_campaign_id e"
  "ce_capability (charge_finalized H e) = ce_capability e"
  "ce_credential_profile_id (charge_finalized H e) = ce_credential_profile_id e"
  "ce_status (charge_finalized H e) = ce_status e"
  "ce_quantities (charge_finalized H e) = ce_quantities e"
  by (rule charge_finalized_set [of H e]; simp add: charge_set_hashes_def)+

lemma charge_post_init_finalized [simp]:
  "charge_post_init (charge_finalized H e) = charge_post_init e"
  by (rule charge_finalized_set [of H e]) (simp add: charge_set_hashes_def charge_post_init_def)

lemma charge_finalized_idem [simp]: "charge_finalized H (charge_finalized H e) = charge_finalized H e"
  by (simp add: charge_finalized_def charge_rec.finish_idem)

lemma post_event_Inr:
  assumes "post_event k e l = Inr l'"
  obtains s where "bucket_limits (lg_budget l) k = Inr s"
    and "l' = (add_totals k (ce_quantities e) (l\<lparr>lg_events := lg_events l @ [e]\<rparr>))
                \<lparr>lg_exceeded := lg_exceeded l
                   @ over_fields (bucket_name k) (sub_limits s) (bucket_totals l k + ce_quantities e)
                   @ over_total (add_totals k (ce_quantities e) l)\<rparr>"
  using assms
  by (auto simp: post_event_def note_breaches_def bindE_eq_Inr over_total_def intro!: that)

text \<open>One event keeps the invariant, whichever bucket it goes to.\<close>

lemma post_event_exceeded:
  assumes "set (lg_exceeded l) = breached l" and q: "0 \<le> ce_quantities e"
    and "post_event k e l = Inr l'"
  shows "set (lg_exceeded l') = breached l'"
proof -
  obtain s where s: "bucket_limits (lg_budget l) k = Inr s"
    and l': "l' = (add_totals k (ce_quantities e) (l\<lparr>lg_events := lg_events l @ [e]\<rparr>))
                \<lparr>lg_exceeded := lg_exceeded l
                   @ over_fields (bucket_name k) (sub_limits s) (bucket_totals l k + ce_quantities e)
                   @ over_total (add_totals k (ce_quantities e) l)\<rparr>"
    using assms(3) by (rule post_event_Inr)
  let ?q = "ce_quantities e"
  have b: "lg_budget l' = lg_budget l" by (simp add: l')
  have t: "bucket_totals l' k' = (if k = k' then bucket_totals l k + ?q else bucket_totals l k')" for k'
    by (simp add: l')
  have other: "bucket_over l' k' = bucket_over l k'" if "k' \<noteq> k" for k'
    using that t [of k'] by (simp add: bucket_over_def b split: sum.split)
  have own: "bucket_over l' k = over_fields (bucket_name k) (sub_limits s) (bucket_totals l k + ?q)"
    by (simp add: bucket_over_def b t s)
  have "bucket_totals l k \<le> bucket_totals l k + ?q"
    using q by (simp add: less_eq_quantities_def)
  then have grow: "set (bucket_over l k) \<subseteq> set (bucket_over l' k)"
    unfolding own by (simp add: bucket_over_def s over_fields_mono)
  have tot: "over_total l' = over_total (add_totals k ?q l)"
    by (simp add: over_total_def l')
  have "0 \<le> q_cost_microusd ?q" using q by (simp add: less_eq_quantities_def)
  then have gtot: "set (over_total l) \<subseteq> set (over_total l')"
    unfolding tot
    by (cases "cb_max_total_cost_microusd (lg_budget l) < total_cost l")
       (simp_all add: over_total_def)
  have "breached l' = breached l \<union> set (bucket_over l' k) \<union> set (over_total l')"
  proof
    show "breached l' \<subseteq> breached l \<union> set (bucket_over l' k) \<union> set (over_total l')"
    proof
      fix x assume "x \<in> breached l'"
      then consider k' where "x \<in> set (bucket_over l' k')" | "x \<in> set (over_total l')"
        by (auto simp: breached_def)
      then show "x \<in> breached l \<union> set (bucket_over l' k) \<union> set (over_total l')"
      proof cases
        case (1 k')
        then show ?thesis
          using other [of k'] by (cases "k' = k") (auto simp: breached_def)
      qed simp
    qed
    show "breached l \<union> set (bucket_over l' k) \<union> set (over_total l') \<subseteq> breached l'"
    proof -
      have "set (bucket_over l k') \<subseteq> set (bucket_over l' k')" for k'
        using grow other [of k'] by (cases "k' = k") simp_all
      then have "breached l \<subseteq> breached l'"
        using gtot unfolding breached_def by (intro Un_mono UN_mono) simp_all
      moreover have "set (bucket_over l' k) \<subseteq> breached l'" "set (over_total l') \<subseteq> breached l'"
        using all_buckets_all [of k] unfolding breached_def by blast+
      ultimately show ?thesis by simp
    qed
  qed
  moreover have "set (lg_exceeded l') = set (lg_exceeded l) \<union> set (bucket_over l' k) \<union> set (over_total l')"
    by (simp add: own tot) (simp add: l' Un_assoc)
  ultimately show ?thesis using assms(1) by simp
qed

lemma post_event_ok:
  assumes ok: "ledger_ok H l"
    and bucket: "event_bucket (lg_budget l) (lg_route_policy l) (ce_capability e)
       (Some (ce_credential_profile_id e)) = Inr k"
    and e: "charge_post_init e = Inr ()" "charge_finalized H e = e"
      "ce_campaign_id e = cb_campaign_id (lg_budget l)"
      "ce_sequence e = int (length (lg_events l)) + 1"
    and post: "post_event k e l = Inr l'"
  shows "ledger_ok H l'"
proof -
  have f: "lg_events l' = lg_events l @ [e]" "lg_budget l' = lg_budget l"
    "lg_route_policy l' = lg_route_policy l"
    using post by (auto elim!: post_event_Inr)
  have ev: "events_of l' k' = events_of l k' @ (if k' = k then [e] else [])" for k'
    by (auto simp: events_of_def f bucket)
  have t: "bucket_totals l' k' = bucket_totals l k' + (if k' = k then ce_quantities e else 0)" for k'
    using post by (auto elim!: post_event_Inr)
  have "bucket_totals l' k' = sum_list (map ce_quantities (events_of l' k'))" for k'
    by (simp add: t ev ledger_okD(1) [OF ok])
  moreover have "set (lg_exceeded l') = breached l'"
    by (rule post_event_exceeded [OF ledger_okD(4) [OF ok] charge_post_init_nonneg(1) [OF e(1)] post])
  moreover have "map ce_sequence (lg_events l') = map int [1..<Suc (length (lg_events l'))]"
    by (simp add: f ledger_okD(2) [OF ok] e(4))
  moreover have "charge_post_init x = Inr () \<and> charge_finalized H x = x
        \<and> ce_campaign_id x = cb_campaign_id (lg_budget l')
        \<and> (\<exists>k. event_bucket (lg_budget l') (lg_route_policy l') (ce_capability x)
                  (Some (ce_credential_profile_id x)) = Inr k)" if x: "x \<in> set (lg_events l')" for x
  proof (cases "x = e")
    case True
    then show ?thesis unfolding f using e(1-3) bucket by blast
  next
    case False
    with x have "x \<in> set (lg_events l)" by (simp add: f)
    then show ?thesis unfolding f by (rule ledger_okD(3) [OF ok])
  qed
  ultimately show ?thesis unfolding ledger_ok_def by blast
qed

section \<open>Reachable ledgers\<close>

lemma empty_ledger_simps [simp]:
  "lg_events (empty_ledger b p) = []" "lg_budget (empty_ledger b p) = b"
  "lg_route_policy (empty_ledger b p) = p" "lg_exceeded (empty_ledger b p) = []"
  "lg_closed (empty_ledger b p) = False" "bucket_totals (empty_ledger b p) k = 0"
  "total_cost (empty_ledger b p) = 0"
  by (cases k; simp add: empty_ledger_def total_cost_def all_capabilities_def)+

lemma empty_ledger_ok:
  assumes "valid_budget b"
  shows "ledger_ok H (empty_ledger b p)"
proof -
  have "bucket_over (empty_ledger b p) k = []" for k
    using bucket_limits_nonneg [OF assms, of k]
    by (auto simp: bucket_over_def over_fields_nil split: sum.splits)
  moreover have "over_total (empty_ledger b p) = []"
    using assms by (simp add: over_total_def valid_budget_def campaign_budget_post_init_def
        checks_Inr b_nonnegative_def)
  ultimately show ?thesis by (simp add: ledger_ok_def events_of_def breached_def)
qed

lemma ledger_ok_closed [simp]: "ledger_ok H (l\<lparr>lg_closed := x\<rparr>) = ledger_ok H l"
  by (simp add: ledger_ok_def events_of_def breached_def bucket_over_def over_total_def)

lemma restore_event_ok:
  assumes "ledger_ok H l" and "charge_post_init e = Inr ()" and "restore_event H e l = Inr l'"
  shows "ledger_ok H l'"
proof -
  from assms(3) obtain k where k: "event_bucket (lg_budget l) (lg_route_policy l) (ce_capability e)
      (Some (ce_credential_profile_id e)) = Inr k" "post_event k e l = Inr l'"
    and g: "ce_campaign_id e = cb_campaign_id (lg_budget l)"
      "ce_sequence e = int (length (lg_events l)) + 1"
      "ce_content_hash e = ce_content_hash (charge_finalized H e)"
      "ce_operational_hash e = ce_operational_hash (charge_finalized H e)"
    unfolding restore_event_def bindE_eq_Inr checks_Inr by auto
  have "charge_finalized H e = e"
    unfolding charge_finalized_def
    by (rule charge_rec.verified_eq_finish) (use g(3,4) in \<open>simp_all only: charge_finalized_def\<close>)
  then show ?thesis by (intro post_event_ok [OF assms(1) k(1) assms(2) _ g(1,2) k(2)])
qed

lemma restore_events_ok:
  "ledger_ok H l \<Longrightarrow> \<forall>e \<in> set es. charge_post_init e = Inr () \<Longrightarrow>
     restore_events H es l = Inr l' \<Longrightarrow> ledger_ok H l'"
proof (induction es arbitrary: l)
  case Nil
  then show ?case by simp
next
  case (Cons e es)
  then obtain l1 where "restore_event H e l = Inr l1" "restore_events H es l1 = Inr l'"
    by (auto simp: bindE_eq_Inr)
  with Cons show ?case using restore_event_ok [of H l e l1] by simp
qed

lemma charge_record_simps [simp]:
  "ce_sequence (charge_record l now a) = int (length (lg_events l)) + 1"
  "ce_campaign_id (charge_record l now a) = cb_campaign_id (lg_budget l)"
  "ce_capability (charge_record l now a) = ca_capability a"
  "ce_credential_profile_id (charge_record l now a) = ca_credential_profile_id a"
  "ce_quantities (charge_record l now a) = ca_quantities a"
  "ce_status (charge_record l now a) = ca_status a"
  by (simp_all add: charge_record_def)

lemma post_event_total:
  assumes "event_bucket (lg_budget l) p c pid = Inr k"
  shows "\<exists>l'. post_event k e l = Inr l'"
  using event_bucket_limits [OF assms] by (auto simp: post_event_def note_breaches_def)

text \<open>A call of \<open>charge\<close> either leaves the ledger alone and raises, or records one event.\<close>

lemma charge_cases:
  assumes "charge H sink now l a = (l', r)"
  obtains (refused) err where "l' = l" "r = Inl err"
    | (recorded) k e where "\<not> lg_closed l"
        "event_bucket (lg_budget l) (lg_route_policy l) (ca_capability a)
           (Some (ca_credential_profile_id a)) = Inr k"
        "e = charge_finalized H (charge_record l now a)" "charge_post_init e = Inr ()"
        "post_event k e l = Inr l'" "r = bindE (sink e) (\<lambda>_. Inr e)"
proof (cases "lg_closed l")
  case True
  with assms have "l' = l" "r = Inl (BudgetError ''a closed budget accepts no further charge'')"
    by (simp_all add: charge_def)
  then show thesis by (rule refused)
next
  case False
  show thesis
  proof (cases "event_bucket (lg_budget l) (lg_route_policy l) (ca_capability a)
      (Some (ca_credential_profile_id a))")
    case (Inl err)
    with False assms have "l' = l" "r = Inl err" by (simp_all add: charge_def)
    then show thesis by (rule refused)
  next
    case k: (Inr k)
    show thesis
    proof (cases "charge_post_init (charge_record l now a)")
      case (Inl err)
      with False k assms have "l' = l" "r = Inl err" by (simp_all add: charge_def)
      then show thesis by (rule refused)
    next
      case (Inr u)
      obtain l'' where "post_event k (charge_finalized H (charge_record l now a)) l = Inr l''"
        using post_event_total [OF k] by blast
      with False k Inr assms show thesis
        by (intro recorded [OF False k refl]) (simp_all add: charge_def Let_def)
    qed
  qed
qed

lemma charge_ok:
  assumes "ledger_ok H l" and "charge H sink now l a = (l', r)"
  shows "ledger_ok H l'"
  using assms(2)
proof (cases rule: charge_cases)
  case (recorded k e)
  show ?thesis
    by (rule post_event_ok [OF assms(1) _ recorded(4) _ _ _ recorded(5)])
       (simp_all add: recorded(2,3))
qed (use assms(1) in simp)

lemma close_ledger_cases:
  assumes "close_ledger l wall now = (l', r)"
  obtains (refused) err where "l' = l" "r = Inl err"
    | (closed) "\<not> lg_closed l" "0 \<le> wall" "l' = l\<lparr>lg_closed := True\<rparr>"
        "r = Inr (closeout_of l wall now)"
proof (cases "0 \<le> wall \<and> \<not> lg_closed l")
  case True
  with assms have "l' = l\<lparr>lg_closed := True\<rparr>" "r = Inr (closeout_of l wall now)"
    by (auto simp: close_ledger_def b_nonnegative_def)
  with True closed show thesis by blast
next
  case False
  with assms have "l' = l \<and> (\<exists>err. r = Inl err)"
    by (cases "0 \<le> wall") (auto simp: close_ledger_def b_nonnegative_def)
  with refused show thesis by blast
qed

text \<open>The steps of a ledger, and the ledgers of one campaign: opened on prior events, then
  charged and closed.\<close>

inductive ledger_step :: "hexdigest \<Rightarrow> ledger \<Rightarrow> ledger \<Rightarrow> bool" for H where
  charging: "charge H sink now l a = (l', r) \<Longrightarrow> ledger_step H l l'"
| closing: "close_ledger l wall now = (l', r) \<Longrightarrow> ledger_step H l l'"

inductive ledger_reach :: "hexdigest \<Rightarrow> campaign_budget \<Rightarrow> route_policy option \<Rightarrow> ledger \<Rightarrow> bool"
  for H b p where
  opened: "ledger_init H b p es = Inr l \<Longrightarrow> \<forall>e \<in> set es. charge_post_init e = Inr () \<Longrightarrow>
     ledger_reach H b p l"
| stepped: "ledger_reach H b p l \<Longrightarrow> ledger_step H l l' \<Longrightarrow> ledger_reach H b p l'"

lemma ledger_step_cases:
  assumes "ledger_step H l l'"
  obtains (same) "l' = l"
    | (recorded) k a now e where "\<not> lg_closed l"
        "event_bucket (lg_budget l) (lg_route_policy l) (ca_capability a)
           (Some (ca_credential_profile_id a)) = Inr k"
        "e = charge_finalized H (charge_record l now a)" "charge_post_init e = Inr ()"
        "post_event k e l = Inr l'"
    | (closed) "\<not> lg_closed l" "l' = l\<lparr>lg_closed := True\<rparr>"
  using assms
proof (cases rule: ledger_step.cases)
  case (charging sink now a r)
  then show thesis
    by (cases rule: charge_cases) (use same recorded in blast)+
next
  case (closing wall now r)
  then show thesis
    by (cases rule: close_ledger_cases) (use same closed in blast)+
qed

lemma ledger_init_Inr:
  "ledger_init H b p es = Inr l \<longleftrightarrow>
     campaign_budget_verify_hashes H b = Inr ()
       \<and> (fallback_profile_id p = None \<or> cb_fallback_model b \<noteq> None)
       \<and> restore_events H es (empty_ledger b p) = Inr l"
  by (auto simp: ledger_init_def bindE_eq_Inr)

lemma ledger_step_ok: "ledger_step H l l' \<Longrightarrow> ledger_ok H l \<Longrightarrow> ledger_ok H l'"
proof (erule ledger_step.cases)
  fix sink now la a la' r
  assume "ledger_ok H l" "l = la" "l' = la'" "charge H sink now la a = (la', r)"
  then show "ledger_ok H l'" by (simp add: charge_ok)
next
  fix la wall now la' r
  assume "ledger_ok H l" "l = la" "l' = la'" "close_ledger la wall now = (la', r)"
  then show "ledger_ok H l'" by (auto elim: close_ledger_cases)
qed

lemma reach_ok:
  assumes "valid_budget b" and "ledger_reach H b p l"
  shows "ledger_ok H l"
  using assms(2)
proof (induction rule: ledger_reach.induct)
  case (opened es l)
  then show ?case
    using empty_ledger_ok [OF assms(1)] by (auto simp: ledger_init_Inr intro: restore_events_ok)
next
  case (stepped l l')
  then show ?case by (blast intro: ledger_step_ok)
qed

lemma post_event_frame:
  assumes "post_event k e l = Inr l'"
  shows "lg_budget l' = lg_budget l" "lg_route_policy l' = lg_route_policy l"
    "lg_closed l' = lg_closed l" "lg_events l' = lg_events l @ [e]"
    "\<exists>xs. lg_exceeded l' = lg_exceeded l @ xs"
  using assms by (auto elim!: post_event_Inr)

lemma restore_events_frame:
  "restore_events H es l = Inr l' \<Longrightarrow>
     lg_budget l' = lg_budget l \<and> lg_route_policy l' = lg_route_policy l
       \<and> lg_closed l' = lg_closed l \<and> lg_events l' = lg_events l @ es"
  by (induction es arbitrary: l)
     (fastforce simp: bindE_eq_Inr restore_event_def dest: post_event_frame)+

lemma ledger_step_frame:
  "ledger_step H l l' \<Longrightarrow> lg_budget l' = lg_budget l \<and> lg_route_policy l' = lg_route_policy l
     \<and> (lg_closed l \<longrightarrow> lg_closed l') \<and> (\<exists>es. lg_events l' = lg_events l @ es)
     \<and> (\<exists>xs. lg_exceeded l' = lg_exceeded l @ xs)"
  by (erule ledger_step_cases) (auto dest: post_event_frame)

lemma reach_frame: "ledger_reach H b p l \<Longrightarrow> lg_budget l = b \<and> lg_route_policy l = p"
proof (induction rule: ledger_reach.induct)
  case (opened es l)
  then show ?case by (auto simp: ledger_init_Inr dest: restore_events_frame)
next
  case (stepped l l')
  then show ?case using ledger_step_frame by metis
qed

lemma ledger_steps_frame:
  "(ledger_step H)\<^sup>*\<^sup>* l l' \<Longrightarrow> (\<exists>xs. lg_exceeded l' = lg_exceeded l @ xs)
     \<and> (\<exists>es. lg_events l' = lg_events l @ es)"
proof (induction rule: rtranclp_induct)
  case (step l1 l2)
  then show ?case using ledger_step_frame [OF step.hyps(2)] by (metis append_assoc)
qed simp

section \<open>Facts the properties rest on\<close>

lemma breached_empty:
  "breached l = {} \<longleftrightarrow>
     (\<forall>k s. bucket_limits (lg_budget l) k = Inr s \<longrightarrow> bucket_totals l k \<le> sub_limits s)
       \<and> total_cost l \<le> cb_max_total_cost_microusd (lg_budget l)"
proof -
  have "bucket_over l k = [] \<longleftrightarrow>
      (\<forall>s. bucket_limits (lg_budget l) k = Inr s \<longrightarrow> bucket_totals l k \<le> sub_limits s)" for k
    by (cases "bucket_limits (lg_budget l) k") (simp_all add: bucket_over_def over_fields_nil)
  moreover have "over_total l = [] \<longleftrightarrow> total_cost l \<le> cb_max_total_cost_microusd (lg_budget l)"
    by (simp add: over_total_def not_less)
  ultimately show ?thesis
    using all_buckets_all by (auto simp: breached_def)
qed

text \<open>Every event is in exactly one bucket, so the buckets partition the event list.\<close>

lemma distinct_all_buckets: "distinct all_buckets"
  by (simp add: all_buckets_def all_capabilities_def)

lemma sum_list_if_eq:
  fixes x :: int
  assumes "distinct ks" and "k0 \<in> set ks"
  shows "(\<Sum>k \<leftarrow> ks. if k0 = k then x + g k else g k) = x + (\<Sum>k \<leftarrow> ks. g k)"
  using assms
proof (induction ks)
  case Nil
  then show ?case by simp
next
  case (Cons k ks)
  show ?case
  proof (cases "k0 = k")
    case True
    with Cons.prems have "k0 \<notin> set ks" by simp
    then have "(\<Sum>k \<leftarrow> ks. if k0 = k then x + g k else g k) = (\<Sum>k \<leftarrow> ks. g k)"
      by (intro arg_cong [where f = sum_list] map_cong) auto
    with True show ?thesis by simp
  next
    case False
    with Cons show ?thesis by simp
  qed
qed

lemma sum_over_buckets:
  fixes f :: "charge_event \<Rightarrow> int"
  assumes "\<forall>e \<in> set es. \<exists>k. bucket_of e = (Inr k :: bucket res)"
  shows "(\<Sum>k \<leftarrow> all_buckets. sum_list (map f (filter (\<lambda>e. bucket_of e = Inr k) es))) = sum_list (map f es)"
  using assms
proof (induction es)
  case Nil
  show ?case by (simp add: sum_list_0)
next
  case (Cons e es)
  then obtain k0 where k0: "bucket_of e = Inr k0" by auto
  have "(\<Sum>k \<leftarrow> all_buckets. sum_list (map f (filter (\<lambda>x. bucket_of x = Inr k) (e # es))))
      = (\<Sum>k \<leftarrow> all_buckets. if k0 = k then f e + sum_list (map f (filter (\<lambda>x. bucket_of x = Inr k) es))
            else sum_list (map f (filter (\<lambda>x. bucket_of x = Inr k) es)))"
    by (intro arg_cong [where f = sum_list] map_cong) (auto simp: k0)
  also have "\<dots> = f e + (\<Sum>k \<leftarrow> all_buckets. sum_list (map f (filter (\<lambda>x. bucket_of x = Inr k) es)))"
    by (rule sum_list_if_eq [OF distinct_all_buckets]) simp
  finally show ?case using Cons by simp
qed

lemma sum_list_get:
  "q_cost_microusd (sum_list (map ce_quantities es)) = sum_list (map (\<lambda>e. q_cost_microusd (ce_quantities e)) es)"
  "q_requests (sum_list (map ce_quantities es)) = sum_list (map (\<lambda>e. q_requests (ce_quantities e)) es)"
  by (induction es) simp_all

lemma total_cost_events:
  assumes "ledger_ok H l"
  shows "total_cost l = sum_list (map (\<lambda>e. q_cost_microusd (ce_quantities e)) (lg_events l))"
proof -
  have "total_cost l
      = (\<Sum>k \<leftarrow> all_buckets. sum_list (map (\<lambda>e. q_cost_microusd (ce_quantities e)) (events_of l k)))"
    by (simp add: total_cost_buckets ledger_okD(1) [OF assms] sum_list_get)
  also have "\<dots> = sum_list (map (\<lambda>e. q_cost_microusd (ce_quantities e)) (lg_events l))"
    unfolding events_of_def
    by (rule sum_over_buckets) (use ledger_okD(3) [OF assms] in blast)
  finally show ?thesis .
qed

lemma requests_partition:
  "requests_with Completed es + requests_with Failed es + requests_with Incomplete es
     = sum_list (map (\<lambda>e. q_requests (ce_quantities e)) es)"
proof (induction es)
  case (Cons e es)
  then show ?case by (cases "ce_status e") (simp_all add: requests_with_def)
qed (simp add: requests_with_def)

end
