(* ===== verification/Budget_Props.thy ===== *)
theory Budget_Props
  imports Budget_Invariant
begin

text \<open>
  The properties of the campaign budget ledger, over every ledger its operations can reach,
  and one concrete ledger for their witnesses.
\<close>

section \<open>A concrete budget\<close>

definition ex_sub :: sub_budget where
  "ex_sub = \<lparr>sb_max_requests = 2, sb_max_input_tokens = 100, sb_max_output_tokens = 100,
     sb_max_cost_microusd = 50, sb_max_bytes = 10, sb_max_documents = 5\<rparr>"

definition ex_budget :: campaign_budget where
  "ex_budget = campaign_budget_finalized zero_digest
     \<lparr>cb_campaign_id = ''campaign.example'', cb_pricing_snapshot_hash = ''sha256:0'',
      cb_embedding_pricing_snapshot_hash = None, cb_max_total_cost_microusd = 60,
      cb_max_wall_milliseconds = 1000, cb_model = ex_sub, cb_embedding = ex_sub,
      cb_network = ex_sub, cb_tool = ex_sub, cb_storage = ex_sub,
      cb_fallback_model = Some ex_sub, cb_schema_version = budget_schema_version,
      cb_record_type = ''campaign_budget'', cb_content_hash = []\<rparr>"

definition ex_policy :: route_policy where
  "ex_policy = \<lparr>rp_primary_profile_id = ''adaivy'', rp_fallback_profile_id = Some ''backup'',
     rp_fallback_authorized_reason = Some ''operator'',
     rp_schema_version = ''adaivy.campaign-credentials.v1'',
     rp_record_type = ''campaign_route_policy'', rp_content_hash = []\<rparr>"

definition ex_args :: "str \<Rightarrow> int \<Rightarrow> charge_args" where
  "ex_args pid cost = \<lparr>ca_capability = ModelCap, ca_credential_profile_id = pid,
     ca_purpose = ''planner'', ca_status = Completed, ca_request_hash = ''sha256:1'',
     ca_usage_source = ApiReported, ca_quantities = Quantities 1 10 5 cost 0 0,
     ca_failure_classification = None, ca_rate_limit_retry_after_milliseconds = None\<rparr>"

definition ex_charge :: "str \<Rightarrow> int \<Rightarrow> ledger \<Rightarrow> ledger" where
  "ex_charge pid cost l = fst (charge zero_digest (\<lambda>_. Inr ()) ''now'' l (ex_args pid cost))"

definition ex_open :: ledger where
  "ex_open = empty_ledger ex_budget (Some ex_policy)"

definition ex_spent :: ledger where
  "ex_spent = ex_charge ''backup'' 55 (ex_charge ''adaivy'' 20 ex_open)"

lemma campaign_budget_verify_finalized:
  "campaign_budget_verify_hashes H (campaign_budget_finalized H b) = Inr ()"
  unfolding campaign_budget_verify_hashes_def campaign_budget_finalized_def by simp

lemma ex_budget_hash: "campaign_budget_verify_hashes zero_digest ex_budget = Inr ()"
  unfolding ex_budget_def by (rule campaign_budget_verify_finalized)

lemma ex_valid: "valid_budget ex_budget"
  by (simp add: valid_budget_def ex_budget_def campaign_budget_finalized_def
      campaign_budget_post_init_def sub_budget_post_init_def checks_simps b_nonnegative_def
      ex_sub_def all_capabilities_def budget_schema_version_def starts_with_def)

lemma ex_open_reach: "ledger_reach zero_digest ex_budget (Some ex_policy) ex_open"
proof (rule ledger_reach.opened [where es = "[]"])
  have "cb_fallback_model ex_budget \<noteq> None"
    by (simp add: ex_budget_def campaign_budget_finalized_def)
  then show "ledger_init zero_digest ex_budget (Some ex_policy) [] = Inr ex_open"
    by (simp add: ledger_init_Inr ex_budget_hash ex_open_def)
qed simp

lemma ex_charge_reach:
  "ledger_reach zero_digest ex_budget (Some ex_policy) l \<Longrightarrow>
     ledger_reach zero_digest ex_budget (Some ex_policy) (ex_charge pid cost l)"
  unfolding ex_charge_def
  by (rule ledger_reach.stepped, assumption, rule ledger_step.charging, rule prod.collapse [symmetric])

lemma ex_charge_open: "lg_closed (ex_charge pid cost l) = lg_closed l"
proof -
  obtain l' r where c: "charge zero_digest (\<lambda>_. Inr ()) ''now'' l (ex_args pid cost) = (l', r)"
    by (rule prod.exhaust)
  then have "lg_closed l' = lg_closed l"
    by (cases rule: charge_cases) (auto dest: post_event_frame)
  with c show ?thesis by (simp add: ex_charge_def)
qed

lemma ex_spent_reach: "ledger_reach zero_digest ex_budget (Some ex_policy) ex_spent"
  unfolding ex_spent_def by (intro ex_charge_reach ex_open_reach)

section \<open>Conservation\<close>

text \<open>C18: in every reachable ledger the totals of each bucket are the sums of the events
  recorded against that bucket, the unified cost is the sum over all events, and the events
  are numbered 1, 2, ... without gaps.\<close>

theorem ledger_totals_conserved:
  assumes "valid_budget b" and "ledger_reach H b p l"
  shows "bucket_totals l k = sum_list (map ce_quantities (events_of l k))
    \<and> total_cost l = sum_list (map (\<lambda>e. q_cost_microusd (ce_quantities e)) (lg_events l))
    \<and> map ce_sequence (lg_events l) = map int [1..<Suc (length (lg_events l))]"
  using ledger_okD(1,2) [OF reach_ok [OF assms]] total_cost_events [OF reach_ok [OF assms]] by simp

theorem ledger_totals_conserved_witness:
  "valid_budget ex_budget \<and> ledger_reach zero_digest ex_budget (Some ex_policy) ex_spent
    \<and> map ce_sequence (lg_events ex_spent) = map int [1..<Suc (length (lg_events ex_spent))]"
  using ledger_totals_conserved [OF ex_valid ex_spent_reach] ex_valid ex_spent_reach by blast

section \<open>Breaches\<close>

text \<open>in every reachable ledger the recorded list of exceeded bounds names exactly the
  sub-budget fields, and the unified cost, that the totals pass.\<close>

theorem exceeded_is_breached:
  assumes "valid_budget b" and "ledger_reach H b p l"
  shows "set (lg_exceeded l) = breached l
    \<and> (lg_exceeded l = [] \<longleftrightarrow>
         (\<forall>k s. bucket_limits b k = Inr s \<longrightarrow> bucket_totals l k \<le> sub_limits s)
           \<and> total_cost l \<le> cb_max_total_cost_microusd b)"
  using ledger_okD(4) [OF reach_ok [OF assms]] breached_empty [of l] reach_frame [OF assms(2)]
  by auto

theorem exceeded_is_breached_witness:
  "valid_budget ex_budget \<and> ledger_reach zero_digest ex_budget (Some ex_policy) ex_spent
    \<and> set (lg_exceeded ex_spent) = breached ex_spent"
  using exceeded_is_breached [OF ex_valid ex_spent_reach] ex_valid ex_spent_reach by blast

text \<open>C19: a request that was admitted and whose actual usage stays within its reservation
  never breaches any bound: admission before the effect is enough to keep the campaign
  within its budget.\<close>

theorem admitted_charge_stays_within:
  assumes "valid_budget b" and "ledger_reach H b p l"
    and "admit l (ca_capability a) (Some (ca_credential_profile_id a)) reserved = Inr ()"
    and "charge H sink now l a = (l', r)" and "ca_quantities a \<le> reserved"
  shows "lg_exceeded l' = [] \<and> breached l' = {}"
proof -
  have ok: "ledger_ok H l" "ledger_ok H l'"
    using reach_ok [OF assms(1,2)] charge_ok [OF _ assms(4)] by blast+
  from assms(3) obtain k s where e: "lg_exceeded l = []" and
    k: "event_bucket (lg_budget l) (lg_route_policy l) (ca_capability a)
      (Some (ca_credential_profile_id a)) = Inr k" "bucket_limits (lg_budget l) k = Inr s"
    and within: "\<forall>(field, get) \<in> set quantity_fields.
        get (bucket_totals l k) + get reserved \<le> get (sub_limits s)"
    and cost: "total_cost l + q_cost_microusd reserved \<le> cb_max_total_cost_microusd (lg_budget l)"
    by (auto simp: admit_def admit_fields_def bindE_eq_Inr checks_Inr split: if_splits) fastforce
  have b: "breached l = {}" using ok(1) e ledger_okD(4) by force
  show ?thesis
    using assms(4)
  proof (cases rule: charge_cases)
    case refused
    with e b show ?thesis by simp
  next
    case (recorded k' ev)
    have kk: "k' = k" using recorded(2) k(1) by simp
    have q: "ce_quantities ev = ca_quantities a" by (simp add: recorded(3))
    obtain s' where l': "l' = (add_totals k' (ce_quantities ev) (l\<lparr>lg_events := lg_events l @ [ev]\<rparr>))
        \<lparr>lg_exceeded := lg_exceeded l
           @ over_fields (bucket_name k') (sub_limits s') (bucket_totals l k' + ce_quantities ev)
           @ over_total (add_totals k' (ce_quantities ev) l)\<rparr>"
      using recorded(5) by (rule post_event_Inr)
    have "bucket_totals l k + ca_quantities a \<le> sub_limits s"
      using within assms(5) by (auto simp: quantities_le_iff quantity_fields_def)
    moreover have "total_cost l' \<le> cb_max_total_cost_microusd (lg_budget l')"
      using cost assms(5) by (simp add: l' q less_eq_quantities_def)
    ultimately have "breached l' = {}"
      using b k(2) unfolding breached_empty by (simp add: l' kk q)
    with ok(2) ledger_okD(4) show ?thesis by fastforce
  qed
qed

theorem admitted_charge_stays_within_witness:
  "lg_exceeded (ex_charge ''adaivy'' 20 ex_open) = []
     \<and> breached (ex_charge ''adaivy'' 20 ex_open) = {}"
proof -
  have adm: "admit ex_open (ca_capability (ex_args ''adaivy'' 20))
      (Some (ca_credential_profile_id (ex_args ''adaivy'' 20))) (Quantities 1 20 10 30 0 0) = Inr ()"
    by (simp add: admit_def ex_open_def ex_args_def admit_fields_def quantity_fields_def
        checks_simps b_nonnegative_def b_positive_def event_bucket_def model_bucket_def
        ex_policy_def ex_budget_def campaign_budget_finalized_def ex_sub_def sub_limits_def)
  have le: "ca_quantities (ex_args ''adaivy'' 20) \<le> Quantities 1 20 10 30 0 0"
    by (simp add: ex_args_def less_eq_quantities_def)
  show ?thesis
    unfolding ex_charge_def
    using admitted_charge_stays_within [OF ex_valid ex_open_reach adm prod.collapse [symmetric] le] .
qed

text \<open>Once a bound is breached the ledger admits nothing further, whatever is charged
  or closed afterwards.\<close>

theorem breach_is_final:
  assumes "lg_exceeded l \<noteq> []" and "(ledger_step H)\<^sup>*\<^sup>* l l'"
  shows "\<exists>m. admit l' c profile reserved = Inl (BudgetExhausted m)"
proof -
  have "lg_exceeded l' \<noteq> []" using ledger_steps_frame [OF assms(2)] assms(1) by auto
  then show ?thesis by (auto simp: admit_def)
qed

theorem breach_is_final_witness:
  "\<exists>m. admit (fst (close_ledger (ex_open\<lparr>lg_exceeded := [''model.requests'']\<rparr>) 0 ''now''))
     ToolCap None (Quantities 1 0 0 0 0 0) = Inl (BudgetExhausted m)"
  by (rule breach_is_final [where l = "ex_open\<lparr>lg_exceeded := [''model.requests'']\<rparr>"
        and H = zero_digest])
     (simp, rule r_into_rtranclp, rule ledger_step.closing, rule prod.collapse [symmetric])

section \<open>Nothing charged is lost\<close>

text \<open>while the ledger is open, a charge whose route is authorized and whose record is
  well formed is appended to the events with its own hashes, even when it breaches a bound
  and even when the event sink then raises; every other call leaves the ledger as it was.\<close>

theorem charge_records_or_refuses:
  assumes "charge H sink now l a = (l', r)"
  shows "if \<not> lg_closed l
            \<and> (\<exists>k. event_bucket (lg_budget l) (lg_route_policy l) (ca_capability a)
                     (Some (ca_credential_profile_id a)) = Inr k)
            \<and> charge_post_init (charge_record l now a) = Inr ()
         then lg_events l' = lg_events l @ [charge_finalized H (charge_record l now a)]
         else l' = l \<and> (\<exists>err. r = Inl err)"
proof (cases "\<not> lg_closed l
            \<and> (\<exists>k. event_bucket (lg_budget l) (lg_route_policy l) (ca_capability a)
                     (Some (ca_credential_profile_id a)) = Inr k)
            \<and> charge_post_init (charge_record l now a) = Inr ()")
  case True
  then obtain k where k: "event_bucket (lg_budget l) (lg_route_policy l) (ca_capability a)
                     (Some (ca_credential_profile_id a)) = Inr k" by blast
  obtain l'' where p: "post_event k (charge_finalized H (charge_record l now a)) l = Inr l''"
    using post_event_total [OF k] by blast
  with True k assms have "l' = l''" by (simp add: charge_def Let_def)
  with True post_event_frame(4) [OF p] show ?thesis by simp
next
  case False
  from assms have "l' = l \<and> (\<exists>err. r = Inl err)"
  proof (cases rule: charge_cases)
    case (recorded k e)
    with False show ?thesis by simp
  qed simp
  with False show ?thesis by (simp only: if_False)
qed

theorem charge_records_or_refuses_witness:
  "lg_events (ex_charge ''adaivy'' 999 ex_open)
     = [charge_finalized zero_digest (charge_record ex_open ''now'' (ex_args ''adaivy'' 999))]"
proof -
  have "\<not> lg_closed ex_open
      \<and> (\<exists>k. event_bucket (lg_budget ex_open) (lg_route_policy ex_open)
           (ca_capability (ex_args ''adaivy'' 999))
           (Some (ca_credential_profile_id (ex_args ''adaivy'' 999))) = Inr k)
      \<and> charge_post_init (charge_record ex_open ''now'' (ex_args ''adaivy'' 999)) = Inr ()"
    by (simp add: ex_open_def ex_args_def event_bucket_def model_bucket_def ex_policy_def
        charge_record_def charge_post_init_def checks_simps quantity_fields_def b_nonnegative_def
        b_positive_def budget_schema_version_def starts_with_def ex_budget_def
        campaign_budget_finalized_def)
  then show ?thesis
    using charge_records_or_refuses [where H = zero_digest and sink = "\<lambda>_. Inr ()"
        and now = "''now''" and l = ex_open and a = "ex_args ''adaivy'' 999",
        OF prod.collapse [symmetric]]
    by (simp add: ex_charge_def ex_open_def)
qed

section \<open>Restarting a ledger from its events\<close>

lemma open_ledger_eq: "\<not> lg_closed l \<Longrightarrow> l\<lparr>lg_closed := False\<rparr> = l"
  by (cases l) simp

lemma restore_events_append:
  "restore_events H (es @ fs) l = bindE (restore_events H es l) (restore_events H fs)"
proof (induction es arbitrary: l)
  case (Cons e es)
  then show ?case by (cases "restore_event H e l") simp_all
qed simp

lemma reach_restores:
  assumes "valid_budget b" and "ledger_reach H b p l"
  shows "restore_events H (lg_events l) (empty_ledger b p) = Inr (l\<lparr>lg_closed := False\<rparr>)"
  using assms(2)
proof (induction rule: ledger_reach.induct)
  case (opened es l)
  then have "restore_events H es (empty_ledger b p) = Inr l" by (simp add: ledger_init_Inr)
  with restore_events_frame [OF this] show ?case by (simp add: open_ledger_eq)
next
  case (stepped l l')
  from stepped.hyps(2) show ?case
  proof (cases rule: ledger_step_cases)
    case same
    with stepped.IH show ?thesis by simp
  next
    case closed
    with stepped.IH show ?thesis by simp
  next
    case (recorded k a now e)
    have f: "charge_finalized H e = e" by (simp add: recorded(3))
    have "restore_event H e l = Inr l'"
      using recorded f by (simp add: restore_event_def checks_Inr bindE_eq_Inr)
    moreover have "restore_events H (lg_events l) (empty_ledger b p) = Inr l"
      using stepped.IH open_ledger_eq [OF recorded(1)] by simp
    ultimately show ?thesis
      using post_event_frame(3,4) [OF recorded(5)] recorded(1)
      by (simp add: restore_events_append open_ledger_eq)
  qed
qed

text \<open>C24: a ledger reopened on the events of a reachable ledger has the same totals, breaches
  and route policy: nothing about spending is lost when the process restarts.\<close>

theorem ledger_restart:
  assumes "valid_budget b" and "ledger_reach H b p l"
  shows "ledger_init H b p (lg_events l) = Inr (l\<lparr>lg_closed := False\<rparr>)"
proof -
  have "campaign_budget_verify_hashes H b = Inr ()
      \<and> (fallback_profile_id p = None \<or> cb_fallback_model b \<noteq> None)"
    using assms(2) by (induction rule: ledger_reach.induct) (auto simp: ledger_init_Inr)
  with reach_restores [OF assms] show ?thesis by (simp add: ledger_init_Inr)
qed

theorem ledger_restart_witness:
  "ledger_init zero_digest ex_budget (Some ex_policy) (lg_events ex_spent)
     = Inr (ex_spent\<lparr>lg_closed := False\<rparr>)"
  by (rule ledger_restart [OF ex_valid ex_spent_reach])

section \<open>The closing statement\<close>

lemma events_of_fallback:
  assumes "ledger_ok H l" and "\<forall>pol. lg_route_policy l = Some pol \<longrightarrow> route_policy_post_init pol = Inr ()"
  shows "filter (is_fallback_event (lg_route_policy l)) (lg_events l) = events_of l FallbackModel"
    and "filter (\<lambda>e. ce_capability e = c \<and> \<not> is_fallback_event (lg_route_policy l) e) (lg_events l)
           = events_of l (Cap c)"
proof -
  have d: "is_fallback_event (lg_route_policy l) e \<longleftrightarrow>
        event_bucket (lg_budget l) (lg_route_policy l) (ce_capability e)
          (Some (ce_credential_profile_id e)) = Inr FallbackModel
      \<and> \<not> (\<exists>c. event_bucket (lg_budget l) (lg_route_policy l) (ce_capability e)
          (Some (ce_credential_profile_id e)) = Inr (Cap c))" (is "?A \<longleftrightarrow> ?B")
    and d2: "\<not> is_fallback_event (lg_route_policy l) e \<longrightarrow>
        event_bucket (lg_budget l) (lg_route_policy l) (ce_capability e)
          (Some (ce_credential_profile_id e)) = Inr (Cap (ce_capability e))"
    if e: "e \<in> set (lg_events l)" for e
  proof -
    obtain k where k: "event_bucket (lg_budget l) (lg_route_policy l) (ce_capability e)
        (Some (ce_credential_profile_id e)) = Inr k"
      using ledger_okD(3) [OF assms(1) e] by blast
    show "?A \<longleftrightarrow> ?B"
    proof (cases "lg_route_policy l")
      case None
      then show ?thesis
        by (auto simp: is_fallback_event_def fallback_profile_id_def event_bucket_def model_bucket_def)
    next
      case (Some pol)
      then have "rp_fallback_profile_id pol \<noteq> Some (rp_primary_profile_id pol)"
        using assms(2) by (auto simp: route_policy_post_init_def checks_Inr)
      with Some k show ?thesis
        by (cases "rp_fallback_profile_id pol")
           (auto simp: is_fallback_event_def fallback_profile_id_def event_bucket_def
              model_bucket_def split: if_splits)
    qed
    show "\<not> is_fallback_event (lg_route_policy l) e \<longrightarrow>
        event_bucket (lg_budget l) (lg_route_policy l) (ce_capability e)
          (Some (ce_credential_profile_id e)) = Inr (Cap (ce_capability e))"
    proof (cases "lg_route_policy l")
      case None
      then show ?thesis using k
        by (auto simp: is_fallback_event_def fallback_profile_id_def event_bucket_def
            model_bucket_def split: if_splits)
    next
      case (Some pol)
      then show ?thesis using k
        by (cases "rp_fallback_profile_id pol")
           (auto simp: is_fallback_event_def fallback_profile_id_def event_bucket_def
              model_bucket_def split: if_splits)
    qed
  qed
  show "filter (is_fallback_event (lg_route_policy l)) (lg_events l) = events_of l FallbackModel"
    unfolding events_of_def by (rule filter_cong) (use d in auto)
  show "filter (\<lambda>e. ce_capability e = c \<and> \<not> is_fallback_event (lg_route_policy l) e) (lg_events l)
           = events_of l (Cap c)"
    unfolding events_of_def by (rule filter_cong) (use d d2 in fastforce)+
qed

definition accounts :: "capability_closeout \<Rightarrow> bool" where
  "accounts cc \<longleftrightarrow>
     q_requests (cc_attempted cc)
       = cc_requests_completed cc + cc_requests_failed cc + cc_requests_incomplete cc"

lemma accounts_closeout:
  assumes "totals = sum_list (map ce_quantities es)"
  shows "accounts (capability_closeout_of c sub totals es)"
  using requests_partition [of es]
  by (simp add: accounts_def capability_closeout_of_def assms sum_list_get)

text \<open>The closing statement of a reachable ledger accounts for every attempted request as
  completed, failed or incomplete, in each capability and on the fallback route, and says
  \<open>within_bounds\<close> exactly when no bound was breached and the wall time was kept.\<close>

theorem closeout_accounts:
  assumes "valid_budget b" and "ledger_reach H b (Some pol) l"
    and "route_policy_post_init pol = Inr ()" and "close_ledger l wall now = (l', Inr s)"
  shows "(\<forall>cc \<in> set (bc_capabilities s). accounts cc)
    \<and> (\<forall>cc. bc_fallback_model s = Some cc \<longrightarrow> accounts cc)
    \<and> (bc_status s = ''within_bounds'' \<longleftrightarrow> breached l = {} \<and> wall \<le> cb_max_wall_milliseconds b)
    \<and> bc_charge_event_count s = int (length (lg_events l)) \<and> lg_closed l'"
proof -
  have ok: "ledger_ok H l" by (rule reach_ok [OF assms(1,2)])
  have fr: "lg_budget l = b" "lg_route_policy l = Some pol" using reach_frame [OF assms(2)] by auto
  have s: "s = closeout_of l wall now" "lg_closed l'"
    using assms(4) by (auto elim: close_ledger_cases)
  note ev = events_of_fallback [OF ok] ledger_okD(1) [OF ok, symmetric]
  have "accounts cc" if "cc \<in> set (bc_capabilities s)" for cc
  proof -
    from that obtain c where "cc = capability_closeout_of c (budget_sub_budget b c) (lg_totals l c)
        (filter (\<lambda>e. ce_capability e = c \<and> \<not> is_fallback_event (lg_route_policy l) e) (lg_events l))"
      by (auto simp: s closeout_of_def Let_def fr)
    moreover have "lg_totals l c = sum_list (map ce_quantities (filter
        (\<lambda>e. ce_capability e = c \<and> \<not> is_fallback_event (lg_route_policy l) e) (lg_events l)))"
      using ledger_okD(1) [OF ok, of "Cap c"] events_of_fallback(2) [OF ok] assms(3) fr by simp
    ultimately show ?thesis using accounts_closeout by blast
  qed
  moreover have "accounts cc" if "bc_fallback_model s = Some cc" for cc
  proof -
    from that obtain sub where "cc = capability_closeout_of ModelCap sub (lg_fallback_totals l)
        (filter (is_fallback_event (lg_route_policy l)) (lg_events l))"
      by (auto simp: s closeout_of_def Let_def)
    moreover have "lg_fallback_totals l
        = sum_list (map ce_quantities (filter (is_fallback_event (lg_route_policy l)) (lg_events l)))"
      using ledger_okD(1) [OF ok, of FallbackModel] events_of_fallback(1) [OF ok] assms(3) fr by simp
    ultimately show ?thesis using accounts_closeout by blast
  qed
  moreover have "lg_exceeded l = [] \<longleftrightarrow> breached l = {}"
    using ledger_okD(4) [OF ok] by force
  ultimately show ?thesis using s by (auto simp: closeout_of_def Let_def fr not_less)
qed

theorem closeout_accounts_witness:
  "\<exists>s. snd (close_ledger ex_spent 5 ''now'') = Inr s
     \<and> bc_charge_event_count s = int (length (lg_events ex_spent))"
proof -
  have nc: "\<not> lg_closed ex_spent"
    by (simp add: ex_spent_def ex_charge_open) (simp add: ex_open_def)
  have pol: "route_policy_post_init ex_policy = Inr ()"
    by (simp add: ex_policy_def route_policy_post_init_def checks_simps valid_identifier_def
        is_alnum_def is_digit_def py_len_def is_cont_def)
  have "close_ledger ex_spent 5 ''now'' = (ex_spent\<lparr>lg_closed := True\<rparr>, Inr (closeout_of ex_spent 5 ''now''))"
    using nc by (simp add: close_ledger_def b_nonnegative_def)
  from closeout_accounts [OF ex_valid ex_spent_reach pol this] this show ?thesis by simp
qed

end
