(* ===== verification/Backoff.thy ===== *)
theory Backoff
  imports Budget
begin

text \<open>
  The bounded retry schedule of \<open>campaign/budget.py\<close>: \<open>BackoffPolicy\<close>,
  \<open>backoff_delays_milliseconds\<close> and \<open>next_retry_delay_milliseconds\<close>.  Python's integers
  are unbounded and \<open>//\<close> rounds down, as \<open>div\<close> on \<open>int\<close> does.
\<close>

record backoff_policy =
  bp_base_milliseconds :: int
  bp_multiplier_numerator :: int
  bp_multiplier_denominator :: int
  bp_max_delay_milliseconds :: int
  bp_max_retries :: int

definition max_retry_ceiling :: int where
  "max_retry_ceiling = 64"

definition backoff_post_init :: "backoff_policy \<Rightarrow> unit res" where
  "backoff_post_init p = checks
     [b_positive (bp_base_milliseconds p) ''base_milliseconds'',
      b_positive (bp_multiplier_numerator p) ''multiplier_numerator'',
      b_positive (bp_multiplier_denominator p) ''multiplier_denominator'',
      ensure (\<not> bp_multiplier_numerator p < bp_multiplier_denominator p)
        (BudgetError ''a backoff multiplier below one is a reconnect loop''),
      b_positive (bp_max_delay_milliseconds p) ''max_delay_milliseconds'',
      ensure (\<not> bp_max_delay_milliseconds p < bp_base_milliseconds p)
        (BudgetError ''max_delay_milliseconds must be at least the base delay''),
      b_nonnegative (bp_max_retries p) ''max_retries'',
      ensure (\<not> bp_max_retries p > max_retry_ceiling)
        (BudgetError (''max_retries exceeds the structural ceiling of ''
           @ int_str max_retry_ceiling))]"

text \<open>The body of the loop: the delay of one attempt, counted from zero.\<close>

definition scheduled_delay :: "backoff_policy \<Rightarrow> nat \<Rightarrow> int" where
  "scheduled_delay p attempt =
     (let exact = bp_base_milliseconds p * bp_multiplier_numerator p ^ attempt
            div bp_multiplier_denominator p ^ attempt
      in min (bp_max_delay_milliseconds p) exact)"

definition backoff_delays_milliseconds :: "backoff_policy \<Rightarrow> int list" where
  "backoff_delays_milliseconds p = map (scheduled_delay p) [0..<nat (bp_max_retries p)]"

definition next_retry_delay_milliseconds ::
  "backoff_policy \<Rightarrow> int \<Rightarrow> int option \<Rightarrow> int option res" where
  "next_retry_delay_milliseconds p performed observed =
     bindE (b_nonnegative performed ''retries_performed'') (\<lambda>_.
     if performed \<ge> bp_max_retries p then Inr None
     else
       let delay = backoff_delays_milliseconds p ! nat performed in
       case observed of
         None \<Rightarrow> Inr (Some delay)
       | Some wait \<Rightarrow>
           bindE (b_nonnegative wait ''observed_retry_after_milliseconds'') (\<lambda>_.
           Inr (Some (max delay (min wait (bp_max_delay_milliseconds p))))))"

section \<open>The schedule\<close>

definition valid_backoff :: "backoff_policy \<Rightarrow> bool" where
  "valid_backoff p \<longleftrightarrow> backoff_post_init p = Inr ()"

lemma valid_backoffD:
  assumes "valid_backoff p"
  shows "0 < bp_base_milliseconds p" "0 < bp_multiplier_denominator p"
    "bp_multiplier_denominator p \<le> bp_multiplier_numerator p"
    "bp_base_milliseconds p \<le> bp_max_delay_milliseconds p"
    "0 \<le> bp_max_retries p" "bp_max_retries p \<le> 64"
  using assms
  by (auto simp: valid_backoff_def backoff_post_init_def checks_Inr max_retry_ceiling_def
      b_positive_def b_nonnegative_def)

lemma growth_div:
  fixes b n d :: int
  assumes "0 < b" and "0 < d" and "d \<le> n"
  shows "b * n ^ i div d ^ i \<le> b * n ^ Suc i div d ^ Suc i"
proof -
  have "b * n ^ i div d ^ i = (b * n ^ i * d) div (d ^ i * d)"
    using assms(2) by (simp add: div_mult_mult2)
  also have "\<dots> \<le> (b * n ^ i * n) div (d ^ i * d)"
    using assms by (intro zdiv_mono1 mult_left_mono) auto
  finally show ?thesis by (simp add: ac_simps)
qed

lemma scheduled_delay_Suc:
  assumes "valid_backoff p"
  shows "scheduled_delay p i \<le> scheduled_delay p (Suc i)"
  unfolding scheduled_delay_def Let_def
  using growth_div [OF valid_backoffD(1-3) [OF assms], of i] by linarith

lemma scheduled_delay_mono:
  assumes "valid_backoff p" and "i \<le> j"
  shows "scheduled_delay p i \<le> scheduled_delay p j"
  using assms(2) by (rule lift_Suc_mono_le [of "scheduled_delay p", OF scheduled_delay_Suc [OF assms(1)]])

lemma scheduled_delay_bounds:
  assumes "valid_backoff p"
  shows "bp_base_milliseconds p \<le> scheduled_delay p i"
    and "scheduled_delay p i \<le> bp_max_delay_milliseconds p"
proof -
  have "scheduled_delay p 0 = bp_base_milliseconds p"
    using valid_backoffD(4) [OF assms] by (simp add: scheduled_delay_def)
  then show "bp_base_milliseconds p \<le> scheduled_delay p i"
    using scheduled_delay_mono [OF assms, of 0 i] by simp
qed (simp add: scheduled_delay_def Let_def)

lemma sum_list_le_length:
  fixes xs :: "int list"
  assumes "\<forall>x \<in> set xs. x \<le> m"
  shows "sum_list xs \<le> int (length xs) * m"
  using assms by (induction xs) (auto simp: distrib_right)

text \<open>an accepted backoff policy has exactly \<open>max_retries\<close> delays, at most 64, each between
  the base delay and the ceiling and none shorter than the one before, so the whole wait is
  bounded by \<open>max_retries * max_delay_milliseconds\<close>.\<close>

theorem backoff_schedule:
  assumes "backoff_post_init p = Inr ()"
  shows "length (backoff_delays_milliseconds p) = nat (bp_max_retries p)
    \<and> length (backoff_delays_milliseconds p) \<le> 64
    \<and> sorted (backoff_delays_milliseconds p)
    \<and> (\<forall>d \<in> set (backoff_delays_milliseconds p).
          bp_base_milliseconds p \<le> d \<and> d \<le> bp_max_delay_milliseconds p)
    \<and> sum_list (backoff_delays_milliseconds p) \<le> bp_max_retries p * bp_max_delay_milliseconds p"
proof -
  have v: "valid_backoff p" using assms by (simp add: valid_backoff_def)
  have "sorted (backoff_delays_milliseconds p)"
    unfolding backoff_delays_milliseconds_def sorted_map
    by (rule sorted_wrt_mono_rel [OF _ sorted_upt]) (auto intro: scheduled_delay_mono [OF v])
  moreover have b: "\<forall>d \<in> set (backoff_delays_milliseconds p).
      bp_base_milliseconds p \<le> d \<and> d \<le> bp_max_delay_milliseconds p"
    using scheduled_delay_bounds [OF v] by (auto simp: backoff_delays_milliseconds_def)
  moreover have "sum_list (backoff_delays_milliseconds p)
      \<le> bp_max_retries p * bp_max_delay_milliseconds p"
    using sum_list_le_length [of "backoff_delays_milliseconds p" "bp_max_delay_milliseconds p"] b
      valid_backoffD(5) [OF v] by (simp add: backoff_delays_milliseconds_def)
  ultimately show ?thesis
    using valid_backoffD(6) [OF v] by (simp add: backoff_delays_milliseconds_def)
qed

definition ex_backoff :: backoff_policy where
  "ex_backoff = \<lparr>bp_base_milliseconds = 100, bp_multiplier_numerator = 3,
     bp_multiplier_denominator = 2, bp_max_delay_milliseconds = 300, bp_max_retries = 4\<rparr>"

lemma ex_backoff_ok: "backoff_post_init ex_backoff = Inr ()"
  by (simp add: backoff_post_init_def ex_backoff_def checks_simps max_retry_ceiling_def
      b_positive_def b_nonnegative_def)

theorem backoff_schedule_witness:
  "sorted (backoff_delays_milliseconds ex_backoff)
     \<and> backoff_delays_milliseconds ex_backoff = [100, 150, 225, 300]"
proof -
  have "backoff_delays_milliseconds ex_backoff = [100, 150, 225, 300]"
    by (simp add: backoff_delays_milliseconds_def ex_backoff_def scheduled_delay_def upt_rec)
  then show ?thesis using backoff_schedule [OF ex_backoff_ok] by blast
qed

text \<open>With an accepted policy and non-negative inputs the route is terminal exactly when the
  retries are used up, whatever the provider asks; otherwise the next delay is the scheduled
  one, lengthened by an observed Retry-After up to the ceiling and never shortened by it.\<close>

theorem next_retry_delay:
  assumes "backoff_post_init p = Inr ()" and "0 \<le> performed" and "observed \<noteq> None \<longrightarrow> 0 \<le> the observed"
  shows "(next_retry_delay_milliseconds p performed observed = Inr None
            \<longleftrightarrow> bp_max_retries p \<le> performed)
    \<and> (performed < bp_max_retries p \<longrightarrow>
        (\<exists>d. next_retry_delay_milliseconds p performed observed = Inr (Some d)
           \<and> backoff_delays_milliseconds p ! nat performed \<le> d
           \<and> bp_base_milliseconds p \<le> d \<and> d \<le> bp_max_delay_milliseconds p
           \<and> (\<forall>w. observed = Some w \<longrightarrow> w \<le> bp_max_delay_milliseconds p \<longrightarrow> w \<le> d)
           \<and> (observed = None \<longrightarrow> d = backoff_delays_milliseconds p ! nat performed)))"
proof -
  have v: "valid_backoff p" using assms by (simp add: valid_backoff_def)
  have n: "backoff_delays_milliseconds p ! nat performed = scheduled_delay p (nat performed)"
    if "performed < bp_max_retries p"
    using that assms(2) by (simp add: backoff_delays_milliseconds_def nth_append)
  note b = scheduled_delay_bounds [OF v, of "nat performed"]
  show ?thesis
    using assms(2,3) n b
    by (cases observed)
       (auto simp: next_retry_delay_milliseconds_def b_nonnegative_def Let_def)
qed

theorem next_retry_delay_witness:
  "next_retry_delay_milliseconds ex_backoff 4 (Some 7) = Inr None
     \<and> (\<exists>d. next_retry_delay_milliseconds ex_backoff 1 (Some 900) = Inr (Some d) \<and> d \<le> 300)"
  using next_retry_delay [OF ex_backoff_ok, of 4 "Some 7"]
    next_retry_delay [OF ex_backoff_ok, of 1 "Some 900"]
  by (auto simp: ex_backoff_def)

end
