(* ===== verification/Export.thy ===== *)
theory Export
  imports Campaign_Records
begin

text \<open>
  \<open>campaign/replay.py\<close>: the campaign export, its derived fields, its closure check, its
  construction, and the parsers with which \<open>verify_campaign_export\<close> reads it back.

  A JSON value of the wrong type in a field of a record is read as a value which the guard of
  that very field refuses (the empty string for an identifier, a hash or a time stamp, -1 for a
  counter): the constructor raises the same error on both, at the same place.  Floats are
  outside the model: \<open>verify\<close> is stated for documents without a float literal, where
  Python's \<open>==\<close> on the values met here is \<open>py_eq\<close>.
\<close>

section \<open>The export\<close>

record campaign_export =
  ex_campaign_id :: json
  ex_target_hash :: str
  ex_configuration_hash :: str
  ex_actions :: "action_record list"
  ex_model_calls :: "model_call_record list"
  ex_tool_runs :: "tool_run_record list"
  ex_imports :: "import_record list"
  ex_usage :: jobject
  ex_attribution_status :: str
  ex_measurement_status :: str
  ex_schema_version :: str
  ex_canonicalization_version :: str
  ex_content_hash :: str
  ex_operational_hash :: str

definition export_fields :: "str list" where
  "export_fields =
     [''schema_version'', ''canonicalization_version'', ''campaign_id'', ''target_hash'',
      ''configuration_hash'', ''actions'', ''model_calls'', ''tool_runs'', ''imports'', ''usage'',
      ''attribution_status'', ''measurement_status'', ''content_hash'', ''operational_hash'']"

definition usage_fields :: "str list" where
  "usage_fields =
     [''requests_attempted'', ''responses_completed'', ''responses_failed'',
      ''responses_incomplete'', ''usage_reported_calls'', ''tool_runs_attempted'',
      ''tool_runs_completed'', ''tool_runs_failed'', ''tool_runs_incomplete'',
      ''external_imports'', ''input_tokens'', ''output_tokens'', ''total_tokens'',
      ''estimated_cost_microusd'', ''billing_status'']"

section \<open>Derived fields\<close>

definition count_of :: "('a \<Rightarrow> bool) \<Rightarrow> 'a list \<Rightarrow> json" where
  "count_of P xs = JInt (int (length (filter P xs)))"

definition tool_status_counts :: "tool_run_record list \<Rightarrow> jobject" where
  "tool_status_counts ts =
     [(''tool_runs_attempted'', JInt (int (length ts))),
      (''tool_runs_completed'', count_of (\<lambda>t. tr_status t = Completed) ts),
      (''tool_runs_failed'', count_of (\<lambda>t. tr_status t = Failed) ts),
      (''tool_runs_incomplete'', count_of (\<lambda>t. tr_status t = Incomplete) ts)]"

definition derive_usage ::
  "model_call_record list \<Rightarrow> tool_run_record list \<Rightarrow> import_record list \<Rightarrow> jobject" where
  "derive_usage ms ts is =
     (let input = sum_list (map mc_input_tokens ms);
          output = sum_list (map mc_output_tokens ms)
      in [(''requests_attempted'', JInt (int (length ms))),
          (''responses_completed'', count_of (\<lambda>m. mc_status m = Completed) ms),
          (''responses_failed'', count_of (\<lambda>m. mc_status m = Failed) ms),
          (''responses_incomplete'', count_of (\<lambda>m. mc_status m = Incomplete) ms),
          (''usage_reported_calls'', count_of (\<lambda>m. mc_usage_source m \<noteq> Unavailable) ms)]
         @ tool_status_counts ts
         @ [(''external_imports'', JInt (int (length is))),
            (''input_tokens'', JInt input),
            (''output_tokens'', JInt output),
            (''estimated_cost_microusd'',
               JInt (sum_list (map (\<lambda>m. case mc_estimated_cost_microusd m of
                                            None \<Rightarrow> 0 | Some c \<Rightarrow> c) ms))),
            (''billing_status'', JStr ''not_billed''),
            (''total_tokens'', JInt (input + output))])"

definition measurement_status ::
  "model_call_record list \<Rightarrow> tool_run_record list \<Rightarrow> import_record list \<Rightarrow> str" where
  "measurement_status ms ts is =
     (let sources = map mc_usage_source ms @ map tr_measurement_source ts @ map im_usage_source is;
          missing = length (filter (\<lambda>s. s = Unavailable) sources)
      in if missing = 0 then ''complete''
         else if missing = length sources then ''unavailable'' else ''partial'')"

definition attribution_of :: "import_record list \<Rightarrow> str" where
  "attribution_of is = (if is \<noteq> [] then ''external_assisted'' else ''adaivy_campaign'')"

definition semantic_preimage :: "campaign_export \<Rightarrow> jobject" where
  "semantic_preimage e =
     [(''schema_version'', JStr (ex_schema_version e)),
      (''canonicalization_version'', JStr (ex_canonicalization_version e)),
      (''campaign_id'', ex_campaign_id e),
      (''target_hash'', JStr (ex_target_hash e)),
      (''configuration_hash'', JStr (ex_configuration_hash e)),
      (''action_hashes'', jstrs (map ac_content_hash (ex_actions e))),
      (''model_call_hashes'', jstrs (map mc_content_hash (ex_model_calls e))),
      (''tool_run_hashes'', jstrs (map tr_content_hash (ex_tool_runs e))),
      (''import_hashes'', jstrs (map im_content_hash (ex_imports e))),
      (''attribution_status'', JStr (ex_attribution_status e))]"

definition export_value :: "campaign_export \<Rightarrow> jobject" where
  "export_value e =
     [(''campaign_id'', ex_campaign_id e),
      (''target_hash'', JStr (ex_target_hash e)),
      (''configuration_hash'', JStr (ex_configuration_hash e)),
      (''actions'', JArr (map (\<lambda>a. JObj (action_value a)) (ex_actions e))),
      (''model_calls'', JArr (map (\<lambda>m. JObj (model_call_value m)) (ex_model_calls e))),
      (''tool_runs'', JArr (map (\<lambda>t. JObj (tool_run_value t)) (ex_tool_runs e))),
      (''imports'', JArr (map (\<lambda>i. JObj (import_value i)) (ex_imports e))),
      (''usage'', JObj (ex_usage e)),
      (''attribution_status'', JStr (ex_attribution_status e)),
      (''measurement_status'', JStr (ex_measurement_status e)),
      (''schema_version'', JStr (ex_schema_version e)),
      (''canonicalization_version'', JStr (ex_canonicalization_version e)),
      (''content_hash'', JStr (ex_content_hash e)),
      (''operational_hash'', JStr (ex_operational_hash e))]"

definition export_operational_hash :: "hexdigest \<Rightarrow> campaign_export \<Rightarrow> str" where
  "export_operational_hash H e =
     canonical_hash H (JObj (filter (\<lambda>(k, v). k \<noteq> ''operational_hash'') (export_value e)))"

section \<open>Closure\<close>

datatype source = SModel model_call_record | STool tool_run_record | SImport import_record

fun source_id :: "source \<Rightarrow> str" where
  "source_id (SModel m) = mc_call_id m"
| "source_id (STool t) = tr_tool_run_id t"
| "source_id (SImport i) = im_import_id i"

fun source_action :: "source \<Rightarrow> str" where
  "source_action (SModel m) = mc_action_id m"
| "source_action (STool t) = tr_action_id t"
| "source_action (SImport i) = im_action_id i"

fun source_campaign :: "source \<Rightarrow> str" where
  "source_campaign (SModel m) = mc_campaign_id m"
| "source_campaign (STool t) = tr_campaign_id t"
| "source_campaign (SImport i) = im_campaign_id i"

fun source_artifacts :: "source \<Rightarrow> str list" where
  "source_artifacts (SModel m) = [mc_result_hash m]"
| "source_artifacts (STool t) = [tr_result_hash t, tr_stdout_hash t, tr_stderr_hash t]"
| "source_artifacts (SImport i) = [im_artifact_hash i]"

fun source_verify_hashes :: "hexdigest \<Rightarrow> source \<Rightarrow> unit res" where
  "source_verify_hashes H (SModel m) = model_call_verify_hashes H m"
| "source_verify_hashes H (STool t) = tool_run_verify_hashes H t"
| "source_verify_hashes H (SImport i) = import_verify_hashes H i"

definition export_sources :: "campaign_export \<Rightarrow> source list" where
  "export_sources e =
     map SModel (ex_model_calls e) @ map STool (ex_tool_runs e) @ map SImport (ex_imports e)"

text \<open>\<open>source_by_id.get(id)\<close>, \<open>action_by_id.get(id)\<close>: the identifiers are unique here.\<close>

definition source_by_id :: "campaign_export \<Rightarrow> str \<Rightarrow> source option" where
  "source_by_id e i = find (\<lambda>s. source_id s = i) (export_sources e)"

definition action_by_id :: "campaign_export \<Rightarrow> str \<Rightarrow> action_record option" where
  "action_by_id e i = find (\<lambda>a. ac_action_id a = i) (ex_actions e)"

text \<open>\<open>source_use\<close> counts the uses of each source record.\<close>

fun walk_sources ::
  "(str \<Rightarrow> source option) \<Rightarrow> action_record \<Rightarrow> str list \<Rightarrow> (str \<Rightarrow> nat) \<Rightarrow> str list
     \<Rightarrow> ((str \<Rightarrow> nat) \<times> str list) res" where
  "walk_sources look a [] use arts = Inr (use, arts)"
| "walk_sources look a (i # is) use arts =
     (case look i of
        None \<Rightarrow> Inl (ProvenanceError
          (''action '' @ ac_action_id a @ '' has an absent or misbound source record''))
      | Some s \<Rightarrow>
          (if source_action s \<noteq> ac_action_id a then Inl (ProvenanceError
             (''action '' @ ac_action_id a @ '' has an absent or misbound source record''))
           else walk_sources look a is (use(i := use i + 1)) (arts @ source_artifacts s)))"

definition parent_guard :: "campaign_export \<Rightarrow> action_record \<Rightarrow> str \<Rightarrow> unit res" where
  "parent_guard e a p = ensure
     (case action_by_id e p of None \<Rightarrow> False | Some q \<Rightarrow> ac_sequence q < ac_sequence a)
     (ProvenanceError (''action '' @ ac_action_id a @ '' has an absent or non-prior parent''))"

fun walk_actions ::
  "campaign_export \<Rightarrow> action_record list \<Rightarrow> (str \<Rightarrow> nat) \<Rightarrow> str list \<Rightarrow> (str \<Rightarrow> nat) res" where
  "walk_actions e [] use available = Inr use"
| "walk_actions e (a # as) use available =
     bindE (checks (map (parent_guard e a) (ac_parent_action_ids a)
              @ [ensure (set (ac_input_artifact_hashes a) \<subseteq> set available)
                   (ProvenanceError (''action '' @ ac_action_id a
                      @ '' has inputs outside campaign provenance''))])) (\<lambda>_.
     bindE (walk_sources (source_by_id e) a (ac_source_record_ids a) use []) (\<lambda>(use', arts).
     bindE (ensure (set (ac_output_artifact_hashes a) \<subseteq> set arts)
              (ProvenanceError (''action '' @ ac_action_id a
                 @ '' claims an output absent from its source records''))) (\<lambda>_.
     walk_actions e as use' (available @ ac_output_artifact_hashes a))))"

fun truthy :: "json \<Rightarrow> bool" where
  "truthy JNull = False"
| "truthy (JBool b) = b"
| "truthy (JInt i) = (i \<noteq> 0)"
| "truthy (JFloat lit) = True"
| "truthy (JStr s) = (s \<noteq> [])"
| "truthy (JArr vs) = (vs \<noteq> [])"
| "truthy (JObj kvs) = (kvs \<noteq> [])"

definition export_ids :: "campaign_export \<Rightarrow> str list" where
  "export_ids e = map ac_action_id (ex_actions e) @ map source_id (export_sources e)"

definition export_campaigns :: "campaign_export \<Rightarrow> str list" where
  "export_campaigns e = map ac_campaign_id (ex_actions e) @ map source_campaign (export_sources e)"

definition header_checks :: "campaign_export \<Rightarrow> unit res list" where
  "header_checks e =
     [ensure (ex_schema_version e = schema_version_campaign)
        (ProvenanceError ''unsupported campaign export schema''),
      ensure (ex_canonicalization_version e = canonicalization_version_campaign)
        (ProvenanceError ''unsupported campaign canonicalization version''),
      ensure (truthy (ex_campaign_id e)) (ProvenanceError ''campaign_id must be non-empty''),
      ensure (valid_hash (ex_target_hash e)) (ProvenanceError ''target_hash is invalid''),
      ensure (valid_hash (ex_configuration_hash e))
        (ProvenanceError ''configuration_hash is invalid''),
      ensure (distinct (export_ids e))
        (ProvenanceError ''campaign record identifiers are not globally unique''),
      ensure (\<forall>c \<in> set (export_campaigns e). JStr c = ex_campaign_id e)
        (ProvenanceError ''a record belongs to a different campaign'')]"

definition order_checks :: "campaign_export \<Rightarrow> unit res list" where
  "order_checks e = (let ordered = sort_key ac_sequence (ex_actions e) in
     [ensure (map ac_sequence ordered = map int [1..<length ordered + 1])
        (ProvenanceError ''action sequence is not contiguous''),
      ensure (ordered = ex_actions e) (ProvenanceError ''actions are not in sequence order'')])"

definition validate_closure :: "hexdigest \<Rightarrow> campaign_export \<Rightarrow> unit res" where
  "validate_closure H e =
     bindE (checks (header_checks e
              @ map (action_verify_hashes H) (ex_actions e)
              @ map (source_verify_hashes H) (export_sources e)
              @ order_checks e)) (\<lambda>_.
     bindE (walk_actions e (ex_actions e) (\<lambda>_. 0) [ex_target_hash e, ex_configuration_hash e]) (\<lambda>use.
     ensure (\<forall>s \<in> set (export_sources e). use (source_id s) = 1)
       (ProvenanceError ''every source record must be used by exactly one action'')))"

section \<open>Construction\<close>

definition build_campaign_export ::
  "hexdigest \<Rightarrow> str \<Rightarrow> str \<Rightarrow> str \<Rightarrow> action_record list \<Rightarrow> model_call_record list
     \<Rightarrow> tool_run_record list \<Rightarrow> import_record list \<Rightarrow> campaign_export res" where
  "build_campaign_export H campaign target configuration actions models tools imports =
     (let as = map (action_finalized H) actions;
          ms = map (model_call_finalized H) models;
          ts = map (tool_run_finalized H) tools;
          is = map (import_finalized H) imports;
          e = \<lparr>ex_campaign_id = JStr campaign, ex_target_hash = target,
               ex_configuration_hash = configuration, ex_actions = as, ex_model_calls = ms,
               ex_tool_runs = ts, ex_imports = is, ex_usage = derive_usage ms ts is,
               ex_attribution_status = attribution_of is,
               ex_measurement_status = measurement_status ms ts is,
               ex_schema_version = schema_version_campaign,
               ex_canonicalization_version = canonicalization_version_campaign,
               ex_content_hash = [], ex_operational_hash = []\<rparr>
      in bindE (validate_closure H e) (\<lambda>_.
         let e1 = e\<lparr>ex_content_hash := canonical_hash H (JObj (semantic_preimage e))\<rparr>
         in Inr (e1\<lparr>ex_operational_hash := export_operational_hash H e1\<rparr>)))"

section \<open>Parsing\<close>

definition exact_fields :: "jobject \<Rightarrow> str list \<Rightarrow> str \<Rightarrow> unit res" where
  "exact_fields kvs expected field = ensure (set (map fst kvs) = set expected)
     (ProvenanceError (field @ '' fields differ from the closed schema''))"

definition get_field :: "jobject \<Rightarrow> str \<Rightarrow> json" where
  "get_field kvs k = (case jget kvs k of None \<Rightarrow> JNull | Some v \<Rightarrow> v)"

definition parse_enum :: "('a \<Rightarrow> str) \<Rightarrow> 'a list \<Rightarrow> json \<Rightarrow> str \<Rightarrow> 'a res" where
  "parse_enum value members j field =
     (case enum_of value members j of
        None \<Rightarrow> Inl (ProvenanceError (field @ '' has an unsupported value''))
      | Some m \<Rightarrow> Inr m)"

fun str_elements :: "json list \<Rightarrow> str list option" where
  "str_elements [] = Some []"
| "str_elements (JStr s # js) = map_option (Cons s) (str_elements js)"
| "str_elements (_ # js) = None"

definition parse_tuple :: "json \<Rightarrow> str \<Rightarrow> str list res" where
  "parse_tuple j field =
     (case (case j of JArr js \<Rightarrow> str_elements js | _ \<Rightarrow> None) of
        None \<Rightarrow> Inl (ProvenanceError (field @ '' must be an array of strings''))
      | Some ss \<Rightarrow> Inr ss)"

fun text_of :: "json \<Rightarrow> str" where
  "text_of (JStr s) = s"
| "text_of _ = []"

fun count_in :: "json \<Rightarrow> int" where
  "count_in (JInt i) = i"
| "count_in _ = -1"

fun count_opt :: "json \<Rightarrow> int option" where
  "count_opt JNull = None"
| "count_opt j = Some (count_in j)"

definition overlong :: str where
  "overlong = replicate 2001 (CHR ''x'')"

fun rationale_of :: "json \<Rightarrow> str" where
  "rationale_of (JStr s) = s"
| "rationale_of _ = overlong"

fun str_or_null :: "json \<Rightarrow> str option option" where
  "str_or_null JNull = Some None"
| "str_or_null (JStr s) = Some (Some s)"
| "str_or_null _ = None"

definition action_fields :: "str list" where
  "action_fields =
     [''action_id'', ''campaign_id'', ''sequence'', ''branch_id'', ''action_type'',
      ''actor_type'', ''actor_id'', ''parent_action_ids'', ''input_artifact_hashes'',
      ''source_record_ids'', ''output_artifact_hashes'', ''status'',
      ''declared_rationale'', ''recorded_at'', ''schema_version'', ''record_type'',
      ''content_hash'', ''operational_hash'']"

definition parse_action :: "json \<Rightarrow> action_record res" where
  "parse_action j =
     (case j of
        JObj kvs \<Rightarrow>
          bindE (exact_fields kvs action_fields ''action'') (\<lambda>_.
          bindE (parse_enum action_type_value all_action_types (get_field kvs ''action_type'') ''action_type'') (\<lambda>at.
          bindE (parse_enum actor_value all_actors (get_field kvs ''actor_type'') ''actor_type'') (\<lambda>actor.
          bindE (parse_enum status_value all_statuses (get_field kvs ''status'') ''status'') (\<lambda>st.
          bindE (parse_tuple (get_field kvs ''parent_action_ids'') ''parent_action_ids'') (\<lambda>parents.
          bindE (parse_tuple (get_field kvs ''input_artifact_hashes'') ''input_artifact_hashes'') (\<lambda>inputs.
          bindE (parse_tuple (get_field kvs ''source_record_ids'') ''source_record_ids'') (\<lambda>sources.
          bindE (parse_tuple (get_field kvs ''output_artifact_hashes'') ''output_artifact_hashes'') (\<lambda>outputs.
          let r = \<lparr>ac_action_id = text_of (get_field kvs ''action_id''),
               ac_campaign_id = text_of (get_field kvs ''campaign_id''),
               ac_sequence = count_in (get_field kvs ''sequence''),
               ac_branch_id = text_of (get_field kvs ''branch_id''),
               ac_action_type = at,
               ac_actor_type = actor,
               ac_actor_id = text_of (get_field kvs ''actor_id''),
               ac_parent_action_ids = parents,
               ac_input_artifact_hashes = inputs,
               ac_source_record_ids = sources,
               ac_output_artifact_hashes = outputs,
               ac_status = st,
               ac_declared_rationale = rationale_of (get_field kvs ''declared_rationale''),
               ac_recorded_at = text_of (get_field kvs ''recorded_at''),
               ac_schema_version = text_of (get_field kvs ''schema_version''),
               ac_record_type = text_of (get_field kvs ''record_type''),
               ac_content_hash = text_of (get_field kvs ''content_hash''),
               ac_operational_hash = text_of (get_field kvs ''operational_hash'')\<rparr> in
          bindE (action_post_init r) (\<lambda>_. Inr r)))))))))
      | _ \<Rightarrow> Inl (ProvenanceError ''action must be an object''))"

definition model_call_fields :: "str list" where
  "model_call_fields =
     [''call_id'', ''campaign_id'', ''action_id'', ''purpose'', ''provider'',
      ''model_identifier'', ''live_configuration_hash'', ''pricing_snapshot_hash'',
      ''request_hash'', ''result_hash'', ''status'', ''usage_source'', ''input_tokens'',
      ''output_tokens'', ''estimated_cost_microusd'', ''provider_request_id'',
      ''recorded_at'', ''schema_version'', ''record_type'', ''content_hash'',
      ''operational_hash'']"

definition parse_model :: "json \<Rightarrow> model_call_record res" where
  "parse_model j =
     (case j of
        JObj kvs \<Rightarrow>
          bindE (exact_fields kvs model_call_fields ''model call'') (\<lambda>_.
          bindE (parse_enum status_value all_statuses (get_field kvs ''status'') ''status'') (\<lambda>st.
          bindE (parse_enum usage_value all_usage_sources (get_field kvs ''usage_source'') ''usage_source'') (\<lambda>us.
          let r = \<lparr>mc_call_id = text_of (get_field kvs ''call_id''),
               mc_campaign_id = text_of (get_field kvs ''campaign_id''),
               mc_action_id = text_of (get_field kvs ''action_id''),
               mc_purpose = text_of (get_field kvs ''purpose''),
               mc_provider = text_of (get_field kvs ''provider''),
               mc_model_identifier = text_of (get_field kvs ''model_identifier''),
               mc_live_configuration_hash = text_of (get_field kvs ''live_configuration_hash''),
               mc_pricing_snapshot_hash = text_of (get_field kvs ''pricing_snapshot_hash''),
               mc_request_hash = text_of (get_field kvs ''request_hash''),
               mc_result_hash = text_of (get_field kvs ''result_hash''),
               mc_status = st,
               mc_usage_source = us,
               mc_input_tokens = count_in (get_field kvs ''input_tokens''),
               mc_output_tokens = count_in (get_field kvs ''output_tokens''),
               mc_estimated_cost_microusd = count_opt (get_field kvs ''estimated_cost_microusd''),
               mc_provider_request_id = (case str_or_null (get_field kvs ''provider_request_id'') of None \<Rightarrow> None | Some p \<Rightarrow> p),
               mc_recorded_at = text_of (get_field kvs ''recorded_at''),
               mc_schema_version = text_of (get_field kvs ''schema_version''),
               mc_record_type = text_of (get_field kvs ''record_type''),
               mc_content_hash = text_of (get_field kvs ''content_hash''),
               mc_operational_hash = text_of (get_field kvs ''operational_hash'')\<rparr> in
          bindE (if str_or_null (get_field kvs ''provider_request_id'') = None then
                   bindE (model_call_post_init (r\<lparr>mc_recorded_at := ''x''\<rparr>)) (\<lambda>_.
                   Inl (ProvenanceError ''provider_request_id must be a string or null''))
                 else Inr ()) (\<lambda>_.
          bindE (model_call_post_init r) (\<lambda>_. Inr r)))))
      | _ \<Rightarrow> Inl (ProvenanceError ''model call must be an object''))"

definition tool_run_fields :: "str list" where
  "tool_run_fields =
     [''tool_run_id'', ''campaign_id'', ''action_id'', ''adapter_id'',
      ''adapter_version'', ''adapter_configuration_hash'', ''request_hash'',
      ''result_hash'', ''stdout_hash'', ''stderr_hash'', ''environment_hash'', ''status'',
      ''measurement_source'', ''cpu_milliseconds'', ''wall_milliseconds'',
      ''peak_memory_bytes'', ''output_bytes'', ''recorded_at'', ''schema_version'',
      ''record_type'', ''content_hash'', ''operational_hash'']"

definition parse_tool :: "json \<Rightarrow> tool_run_record res" where
  "parse_tool j =
     (case j of
        JObj kvs \<Rightarrow>
          bindE (exact_fields kvs tool_run_fields ''tool run'') (\<lambda>_.
          bindE (parse_enum status_value all_statuses (get_field kvs ''status'') ''status'') (\<lambda>st.
          bindE (parse_enum usage_value all_usage_sources (get_field kvs ''measurement_source'') ''measurement_source'') (\<lambda>ms.
          let r = \<lparr>tr_tool_run_id = text_of (get_field kvs ''tool_run_id''),
               tr_campaign_id = text_of (get_field kvs ''campaign_id''),
               tr_action_id = text_of (get_field kvs ''action_id''),
               tr_adapter_id = text_of (get_field kvs ''adapter_id''),
               tr_adapter_version = text_of (get_field kvs ''adapter_version''),
               tr_adapter_configuration_hash = text_of (get_field kvs ''adapter_configuration_hash''),
               tr_request_hash = text_of (get_field kvs ''request_hash''),
               tr_result_hash = text_of (get_field kvs ''result_hash''),
               tr_stdout_hash = text_of (get_field kvs ''stdout_hash''),
               tr_stderr_hash = text_of (get_field kvs ''stderr_hash''),
               tr_environment_hash = text_of (get_field kvs ''environment_hash''),
               tr_status = st,
               tr_measurement_source = ms,
               tr_cpu_milliseconds = count_opt (get_field kvs ''cpu_milliseconds''),
               tr_wall_milliseconds = count_opt (get_field kvs ''wall_milliseconds''),
               tr_peak_memory_bytes = count_opt (get_field kvs ''peak_memory_bytes''),
               tr_output_bytes = count_opt (get_field kvs ''output_bytes''),
               tr_recorded_at = text_of (get_field kvs ''recorded_at''),
               tr_schema_version = text_of (get_field kvs ''schema_version''),
               tr_record_type = text_of (get_field kvs ''record_type''),
               tr_content_hash = text_of (get_field kvs ''content_hash''),
               tr_operational_hash = text_of (get_field kvs ''operational_hash'')\<rparr> in
          bindE (tool_run_post_init r) (\<lambda>_. Inr r))))
      | _ \<Rightarrow> Inl (ProvenanceError ''tool run must be an object''))"

definition import_fields :: "str list" where
  "import_fields =
     [''import_id'', ''campaign_id'', ''action_id'', ''origin_type'', ''source_id'',
      ''artifact_hash'', ''usage_source'', ''model_calls'', ''input_tokens'',
      ''output_tokens'', ''estimated_cost_microusd'', ''note'', ''recorded_at'',
      ''schema_version'', ''record_type'', ''content_hash'', ''operational_hash'']"

definition parse_import :: "json \<Rightarrow> import_record res" where
  "parse_import j =
     (case j of
        JObj kvs \<Rightarrow>
          bindE (exact_fields kvs import_fields ''external import'') (\<lambda>_.
          bindE (parse_enum origin_value all_origins (get_field kvs ''origin_type'') ''origin_type'') (\<lambda>origin.
          bindE (parse_enum usage_value all_usage_sources (get_field kvs ''usage_source'') ''usage_source'') (\<lambda>us.
          let r = \<lparr>im_import_id = text_of (get_field kvs ''import_id''),
               im_campaign_id = text_of (get_field kvs ''campaign_id''),
               im_action_id = text_of (get_field kvs ''action_id''),
               im_origin_type = origin,
               im_source_id = text_of (get_field kvs ''source_id''),
               im_artifact_hash = text_of (get_field kvs ''artifact_hash''),
               im_usage_source = us,
               im_model_calls = count_opt (get_field kvs ''model_calls''),
               im_input_tokens = count_opt (get_field kvs ''input_tokens''),
               im_output_tokens = count_opt (get_field kvs ''output_tokens''),
               im_estimated_cost_microusd = count_opt (get_field kvs ''estimated_cost_microusd''),
               im_note = text_of (get_field kvs ''note''),
               im_recorded_at = text_of (get_field kvs ''recorded_at''),
               im_schema_version = text_of (get_field kvs ''schema_version''),
               im_record_type = text_of (get_field kvs ''record_type''),
               im_content_hash = text_of (get_field kvs ''content_hash''),
               im_operational_hash = text_of (get_field kvs ''operational_hash'')\<rparr> in
          bindE (import_post_init r) (\<lambda>_. Inr r))))
      | _ \<Rightarrow> Inl (ProvenanceError ''external import must be an object''))"

section \<open>Verification\<close>

text \<open>The dict Python builds from the members of an object: the first place, the last value.\<close>

fun dict_put :: "str \<Rightarrow> json \<Rightarrow> jobject \<Rightarrow> jobject" where
  "dict_put k v [] = [(k, v)]"
| "dict_put k v ((k', v') # kvs) = (if k = k' then (k, v) # kvs else (k', v') # dict_put k v kvs)"

fun jdict :: "json \<Rightarrow> json" where
  "jdict (JArr vs) = JArr (map jdict vs)"
| "jdict (JObj kvs) = JObj (foldl (\<lambda>d (k, v). dict_put k v d) [] (map (\<lambda>(k, v). (k, jdict v)) kvs))"
| "jdict v = v"

text \<open>\<open>==\<close> between a value of the document and a derived one.\<close>

fun py_eq :: "json \<Rightarrow> json \<Rightarrow> bool" where
  "py_eq (JBool b) (JInt n) \<longleftrightarrow> (if b then 1 else 0) = n"
| "py_eq v w \<longleftrightarrow> v = w"

definition usage_agrees :: "jobject \<Rightarrow> jobject \<Rightarrow> bool" where
  "usage_agrees usage expected \<longleftrightarrow>
     set (map fst usage) = set (map fst expected)
       \<and> (\<forall>kv \<in> set expected. py_eq (get_field usage (fst kv)) (snd kv))"

definition array_guard :: "jobject \<Rightarrow> str \<Rightarrow> unit res" where
  "array_guard kvs k = ensure (case get_field kvs k of JArr _ \<Rightarrow> True | _ \<Rightarrow> False)
     (ProvenanceError (k @ '' must be an array''))"

fun elements_of :: "json \<Rightarrow> json list" where
  "elements_of (JArr vs) = vs"
| "elements_of _ = []"

definition derived_checks :: "hexdigest \<Rightarrow> campaign_export \<Rightarrow> unit res list" where
  "derived_checks H e =
     [ensure (usage_agrees (ex_usage e)
                (derive_usage (ex_model_calls e) (ex_tool_runs e) (ex_imports e)))
        (ProvenanceError ''campaign usage is not derived from its records''),
      ensure (ex_attribution_status e = attribution_of (ex_imports e))
        (ProvenanceError ''campaign attribution is not derived from its imports''),
      ensure (ex_measurement_status e
                = measurement_status (ex_model_calls e) (ex_tool_runs e) (ex_imports e))
        (ProvenanceError ''campaign measurement status is not derived''),
      ensure (ex_content_hash e = canonical_hash H (JObj (semantic_preimage e)))
        (ProvenanceError ''campaign content_hash mismatch''),
      ensure (ex_operational_hash e = export_operational_hash H e)
        (ProvenanceError ''campaign operational_hash mismatch'')]"

definition verify_object ::
  "hexdigest \<Rightarrow> bytes option \<Rightarrow> jobject \<Rightarrow> campaign_export res" where
  "verify_object H raw kvs =
     bindE (exact_fields kvs export_fields ''campaign export'') (\<lambda>_.
     bindE (case raw of
              None \<Rightarrow> Inr ()
            | Some b \<Rightarrow>
                (if \<not> utf8_strings (JObj kvs) then Inl UnicodeEncodeErr
                 else ensure (b = canonical_bytes (JObj kvs) @ [CHR 0x0A])
                        (ProvenanceError ''campaign export bytes are not canonical''))) (\<lambda>_.
     bindE (checks (map (array_guard kvs) [''actions'', ''model_calls'', ''tool_runs'', ''imports''])) (\<lambda>_.
     bindE (case get_field kvs ''usage'' of
              JObj usage \<Rightarrow> Inr usage
            | _ \<Rightarrow> Inl (ProvenanceError ''usage must be an object'')) (\<lambda>usage.
     bindE (exact_fields usage usage_fields ''usage'') (\<lambda>_.
     bindE (mapE parse_action (elements_of (get_field kvs ''actions''))) (\<lambda>actions.
     bindE (mapE parse_model (elements_of (get_field kvs ''model_calls''))) (\<lambda>models.
     bindE (mapE parse_tool (elements_of (get_field kvs ''tool_runs''))) (\<lambda>tools.
     bindE (mapE parse_import (elements_of (get_field kvs ''imports''))) (\<lambda>imports.
     let e = \<lparr>ex_campaign_id = get_field kvs ''campaign_id'',
              ex_target_hash = text_of (get_field kvs ''target_hash''),
              ex_configuration_hash = text_of (get_field kvs ''configuration_hash''),
              ex_actions = actions, ex_model_calls = models,
              ex_tool_runs = tools, ex_imports = imports, ex_usage = usage,
              ex_attribution_status = text_of (get_field kvs ''attribution_status''),
              ex_measurement_status = text_of (get_field kvs ''measurement_status''),
              ex_schema_version = text_of (get_field kvs ''schema_version''),
              ex_canonicalization_version = text_of (get_field kvs ''canonicalization_version''),
              ex_content_hash = text_of (get_field kvs ''content_hash''),
              ex_operational_hash = text_of (get_field kvs ''operational_hash'')\<rparr>
     in bindE (validate_closure H e) (\<lambda>_.
        bindE (checks (derived_checks H e)) (\<lambda>_. Inr e)))))))))))"

definition verify_json :: "hexdigest \<Rightarrow> bytes option \<Rightarrow> json \<Rightarrow> campaign_export res" where
  "verify_json H raw j =
     (case j of
        JObj kvs \<Rightarrow> verify_object H raw kvs
      | _ \<Rightarrow> Inl (ProvenanceError ''campaign export must be an object''))"

text \<open>
  \<open>json.loads\<close> of bytes decodes with \<open>surrogatepass\<close>: \<open>utf8_pass\<close> is \<open>utf8_valid\<close> without
  the refusal of encoded surrogates.  Of the errors of the scanner only \<open>JSONDecodeError\<close> is
  caught.
\<close>

fun utf8_pass :: "bytes \<Rightarrow> bool" where
  "utf8_pass [] = True"
| "utf8_pass (c # cs) =
     (if char_in 0 127 c then utf8_pass cs
      else if char_in 194 223 c then
        (case cs of a # r \<Rightarrow> is_cont a \<and> utf8_pass r | _ \<Rightarrow> False)
      else if char_in 224 239 c then
        (case cs of
           a # b # r \<Rightarrow>
             is_cont a \<and> is_cont b \<and> (char_in 224 224 c \<longrightarrow> char_in 160 191 a) \<and> utf8_pass r
         | _ \<Rightarrow> False)
      else if char_in 240 244 c then
        (case cs of
           a # b # d # r \<Rightarrow>
             is_cont a \<and> is_cont b \<and> is_cont d
               \<and> (char_in 240 240 c \<longrightarrow> char_in 144 191 a)
               \<and> (char_in 244 244 c \<longrightarrow> char_in 128 143 a)
               \<and> utf8_pass r
         | _ \<Rightarrow> False)
      else False)"

definition loads_or :: "str \<Rightarrow> bytes \<Rightarrow> json res" where
  "loads_or message b =
     (case json_loads b of
        Inl IntDigitsError \<Rightarrow> Inl IntDigitsErr
      | Inl _ \<Rightarrow> Inl (ProvenanceError message)
      | Inr v \<Rightarrow> Inr (jdict v))"

definition verify_bytes :: "hexdigest \<Rightarrow> bytes \<Rightarrow> campaign_export res" where
  "verify_bytes H b =
     bindE (ensure (utf8_pass b) (ProvenanceError ''campaign export is not valid UTF-8 JSON'')) (\<lambda>_.
     bindE (loads_or ''campaign export is not valid UTF-8 JSON'' b) (verify_json H (Some b)))"

definition verify_text :: "hexdigest \<Rightarrow> str \<Rightarrow> campaign_export res" where
  "verify_text H s =
     bindE (ensure (utf8_valid s) UnicodeEncodeErr) (\<lambda>_.
     bindE (loads_or ''campaign export is not valid JSON'' s) (verify_json H (Some s)))"

definition export_campaign_bytes :: "hexdigest \<Rightarrow> campaign_export \<Rightarrow> bytes res" where
  "export_campaign_bytes H e =
     bindE (verify_json H None (JObj (export_value e))) (\<lambda>_.
     Inr (canonical_bytes (JObj (export_value e)) @ [CHR 0x0A]))"

end
