(* ===== verification/Export_Closure.thy ===== *)
theory Export_Closure
  imports Export
begin

text \<open>
  What the closure check of an export decides, stated without the loops of the source: every
  action only reads what the campaign already holds, only names earlier parents, and its
  outputs come from source records that it alone uses.
\<close>

section \<open>The specification\<close>

definition outputs_of :: "action_record list \<Rightarrow> str set" where
  "outputs_of as = (\<Union>a \<in> set as. set (ac_output_artifact_hashes a))"

definition used_sources :: "action_record list \<Rightarrow> str list" where
  "used_sources as = concat (map ac_source_record_ids as)"

text \<open>\<open>a\<close> may follow the actions \<open>pre\<close> in a campaign with the given sources and base artifacts.\<close>

definition may_follow :: "source set \<Rightarrow> str set \<Rightarrow> action_record list \<Rightarrow> action_record \<Rightarrow> bool" where
  "may_follow sources base pre a \<longleftrightarrow>
     set (ac_parent_action_ids a) \<subseteq> ac_action_id ` set pre
     \<and> set (ac_input_artifact_hashes a) \<subseteq> base \<union> outputs_of pre
     \<and> (\<forall>i \<in> set (ac_source_record_ids a). \<exists>s \<in> sources. source_id s = i \<and> source_action s = ac_action_id a)
     \<and> (\<forall>h \<in> set (ac_output_artifact_hashes a).
          \<exists>s \<in> sources. source_id s \<in> set (ac_source_record_ids a) \<and> h \<in> set (source_artifacts s))"

definition closed_actions :: "source set \<Rightarrow> str set \<Rightarrow> action_record list \<Rightarrow> bool" where
  "closed_actions sources base as \<longleftrightarrow>
     (\<forall>pre a post. as = pre @ a # post \<longrightarrow> may_follow sources base pre a)"

definition export_base :: "campaign_export \<Rightarrow> str set" where
  "export_base e = {ex_target_hash e, ex_configuration_hash e}"

definition closure_spec :: "hexdigest \<Rightarrow> campaign_export \<Rightarrow> bool" where
  "closure_spec H e \<longleftrightarrow>
     (\<forall>c \<in> set (header_checks e). c = Inr ())
     \<and> (\<forall>a \<in> set (ex_actions e). action_verify_hashes H a = Inr ())
     \<and> (\<forall>s \<in> set (export_sources e). source_verify_hashes H s = Inr ())
     \<and> map ac_sequence (ex_actions e) = map int [1..<length (ex_actions e) + 1]
     \<and> closed_actions (set (export_sources e)) (export_base e) (ex_actions e)
     \<and> (\<forall>s \<in> set (export_sources e). count_list (used_sources (ex_actions e)) (source_id s) = 1)"

lemma outputs_of_simps [simp]:
  "outputs_of [] = {}"
  "outputs_of (a # as) = set (ac_output_artifact_hashes a) \<union> outputs_of as"
  "outputs_of (as @ bs) = outputs_of as \<union> outputs_of bs"
  by (auto simp: outputs_of_def)

lemma closed_actions_Nil [simp]: "closed_actions S B []"
  by (simp add: closed_actions_def)

lemma closed_actions_snoc:
  "closed_actions S B (as @ [a]) \<longleftrightarrow> closed_actions S B as \<and> may_follow S B as a"
proof
  assume c: "closed_actions S B (as @ [a])"
  have "may_follow S B pre b" if "as = pre @ b # post" for pre b post
    using c that by (auto simp: closed_actions_def)
  moreover have "may_follow S B as a" using c by (auto simp: closed_actions_def)
  ultimately show "closed_actions S B as \<and> may_follow S B as a"
    by (auto simp: closed_actions_def)
next
  assume c: "closed_actions S B as \<and> may_follow S B as a"
  show "closed_actions S B (as @ [a])"
    unfolding closed_actions_def
  proof (intro allI impI)
    fix pre b post
    assume e: "as @ [a] = pre @ b # post"
    show "may_follow S B pre b"
    proof (cases post rule: rev_cases)
      case Nil
      with e c show ?thesis by auto
    next
      case (snoc post' x)
      with e have "as = pre @ b # post'" by auto
      with c show ?thesis by (auto simp: closed_actions_def)
    qed
  qed
qed

lemma may_follow_mono: "may_follow S B pre a \<Longrightarrow> S \<subseteq> S' \<Longrightarrow> may_follow S' B pre a"
  unfolding may_follow_def by blast

lemma closed_actions_mono: "closed_actions S B as \<Longrightarrow> S \<subseteq> S' \<Longrightarrow> closed_actions S' B as"
  by (auto simp: closed_actions_def intro: may_follow_mono)

section \<open>The loops\<close>

lemma walk_sources_Inr:
  "walk_sources look a is use arts = Inr r \<longleftrightarrow>
     (\<forall>i \<in> set is. \<exists>s. look i = Some s \<and> source_action s = ac_action_id a)
     \<and> fst r = (\<lambda>i. use i + count_list is i)
     \<and> snd r = arts @ concat (map (\<lambda>i. source_artifacts (the (look i))) is)"
proof (induction "is" arbitrary: use arts)
  case Nil
  show ?case by (cases r) auto
next
  case (Cons i js)
  show ?case
  proof (cases "look i")
    case None
    then show ?thesis by simp
  next
    case (Some s)
    have u: "(\<lambda>x. (use(i := use i + 1)) x + count_list js x)
        = (\<lambda>x. use x + count_list (i # js) x)"
      by auto
    show ?thesis
      using Cons.IH [of "use(i := use i + 1)" "arts @ source_artifacts s"] u Some
      by (auto simp del: fun_upd_apply)
  qed
qed

definition step_ok :: "campaign_export \<Rightarrow> str set \<Rightarrow> action_record \<Rightarrow> bool" where
  "step_ok e avail a \<longleftrightarrow>
     (\<forall>p \<in> set (ac_parent_action_ids a). parent_guard e a p = Inr ())
     \<and> set (ac_input_artifact_hashes a) \<subseteq> avail
     \<and> (\<forall>i \<in> set (ac_source_record_ids a).
          \<exists>s. source_by_id e i = Some s \<and> source_action s = ac_action_id a)
     \<and> set (ac_output_artifact_hashes a)
         \<subseteq> (\<Union>i \<in> set (ac_source_record_ids a). set (source_artifacts (the (source_by_id e i))))"

lemma walk_actions_Inr:
  "walk_actions e as use avail = Inr use' \<longleftrightarrow>
     (\<forall>pre a post. as = pre @ a # post \<longrightarrow> step_ok e (set avail \<union> outputs_of pre) a)
     \<and> use' = (\<lambda>i. use i + count_list (used_sources as) i)"
proof (induction as arbitrary: use avail)
  case Nil
  show ?case by (auto simp: used_sources_def)
next
  case (Cons a as)
  let ?u = "\<lambda>i. use i + count_list (ac_source_record_ids a) i"
  have split: "(\<forall>pre b post. a # as = pre @ b # post \<longrightarrow> step_ok e (set avail \<union> outputs_of pre) b)
      \<longleftrightarrow> step_ok e (set avail) a
        \<and> (\<forall>pre b post. as = pre @ b # post \<longrightarrow>
             step_ok e (set (avail @ ac_output_artifact_hashes a) \<union> outputs_of pre) b)"
    (is "?L \<longleftrightarrow> ?R")
  proof
    assume L: ?L
    have "step_ok e (set avail) a" using L [rule_format, of "[]" a as] by simp
    moreover have "step_ok e (set (avail @ ac_output_artifact_hashes a) \<union> outputs_of pre) b"
      if "as = pre @ b # post" for pre b post
      using L [rule_format, of "a # pre" b post] that by (simp add: Un_assoc)
    ultimately show ?R by blast
  next
    assume R: ?R
    show ?L
    proof (intro allI impI)
      fix pre b post
      assume eq: "a # as = pre @ b # post"
      show "step_ok e (set avail \<union> outputs_of pre) b"
      proof (cases pre)
        case Nil
        with eq R show ?thesis by simp
      next
        case (Cons x pre')
        with eq R show ?thesis by (auto simp: Un_assoc)
      qed
    qed
  qed
  have walk: "walk_actions e (a # as) use avail = Inr use' \<longleftrightarrow>
      step_ok e (set avail) a
      \<and> walk_actions e as ?u (avail @ ac_output_artifact_hashes a) = Inr use'"
    by (auto simp: bindE_eq_Inr checks_Inr walk_sources_Inr step_ok_def case_prod_unfold)
  have "(\<lambda>i. ?u i + count_list (used_sources as) i)
      = (\<lambda>i. use i + count_list (used_sources (a # as)) i)"
    by (auto simp: used_sources_def)
  then show ?case
    unfolding walk Cons.IH split by auto
qed

section \<open>Both agree\<close>

lemma find_unique:
  assumes "distinct (map f xs)"
  shows "find (\<lambda>x. f x = k) xs = Some y \<longleftrightarrow> y \<in> set xs \<and> f y = k"
  using assms by (induction xs) (auto simp: rev_image_eqI)

lemma distinct_ids:
  assumes "distinct (export_ids e)"
  shows "distinct (map ac_action_id (ex_actions e))" "distinct (map source_id (export_sources e))"
  using assms by (auto simp: export_ids_def)

lemma order_checks_ok:
  "(\<forall>c \<in> set (order_checks e). c = Inr ()) \<longleftrightarrow>
     map ac_sequence (ex_actions e) = map int [1..<length (ex_actions e) + 1]"
proof -
  have "sort_key ac_sequence (ex_actions e) = ex_actions e"
    if "map ac_sequence (ex_actions e) = map int [1..<length (ex_actions e) + 1]"
    by (rule sort_key_id_if_sorted) (simp only: that, simp add: sorted_map del: upt_Suc)
  then show ?thesis by (auto simp: order_checks_def Let_def)
qed

lemma parent_in_prefix:
  assumes "distinct (map ac_action_id as)" and "map ac_sequence as = map int [1..<length as + 1]"
    and "as = pre @ a # post"
  shows "(\<exists>q. find (\<lambda>b. ac_action_id b = p) as = Some q \<and> ac_sequence q < ac_sequence a)
    \<longleftrightarrow> p \<in> ac_action_id ` set pre"
proof -
  have seq: "ac_sequence (as ! i) = int i + 1" if "i < length as" for i
  proof -
    have "map ac_sequence as ! i = map int [1..<length as + 1] ! i" using assms(2) by simp
    with that show ?thesis by (simp del: upt_Suc)
  qed
  have a: "ac_sequence a = int (length pre) + 1"
    using seq [of "length pre"] assms(3) by simp
  have before: "q \<in> set pre" if q: "q \<in> set as" and lt: "ac_sequence q < ac_sequence a" for q
  proof -
    from q obtain i where i: "i < length as" "q = as ! i" by (auto simp: in_set_conv_nth)
    with seq [of i] lt a have "i < length pre" by simp
    with i assms(3) show ?thesis by (simp add: nth_append)
  qed
  have after: "ac_sequence q < ac_sequence a" if q: "q \<in> set pre" for q
  proof -
    from q obtain i where "i < length pre" "q = as ! i"
      using assms(3) by (auto simp: in_set_conv_nth nth_append)
    then show ?thesis using seq [of i] a assms(3) by simp
  qed
  show ?thesis
    using before after find_unique [OF assms(1), of p] assms(3) by fastforce
qed

lemma step_ok_may_follow:
  assumes ids: "distinct (export_ids e)"
    and seq: "map ac_sequence (ex_actions e) = map int [1..<length (ex_actions e) + 1]"
    and split: "ex_actions e = pre @ a # post"
  shows "step_ok e (export_base e \<union> outputs_of pre) a
    \<longleftrightarrow> may_follow (set (export_sources e)) (export_base e) pre a"
proof -
  note d = distinct_ids [OF ids]
  have par: "parent_guard e a p = Inr () \<longleftrightarrow> p \<in> ac_action_id ` set pre" for p
    using parent_in_prefix [OF d(1) seq split, of p]
    by (auto simp: parent_guard_def action_by_id_def split: option.splits)
  have src: "source_by_id e i = Some s \<longleftrightarrow> s \<in> set (export_sources e) \<and> source_id s = i" for i s
    using find_unique [OF d(2)] by (simp add: source_by_id_def)
  have known: "(\<exists>s. source_by_id e i = Some s \<and> source_action s = ac_action_id a)
      \<longleftrightarrow> (\<exists>s \<in> set (export_sources e). source_id s = i \<and> source_action s = ac_action_id a)" for i
    using src by blast
  have arts: "set (ac_output_artifact_hashes a)
        \<subseteq> (\<Union>i \<in> set (ac_source_record_ids a). set (source_artifacts (the (source_by_id e i))))
      \<longleftrightarrow> (\<forall>h \<in> set (ac_output_artifact_hashes a). \<exists>s \<in> set (export_sources e).
             source_id s \<in> set (ac_source_record_ids a) \<and> h \<in> set (source_artifacts s))"
    if k: "\<forall>i \<in> set (ac_source_record_ids a). \<exists>s. source_by_id e i = Some s"
  proof -
    have "(\<Union>i \<in> set (ac_source_record_ids a). set (source_artifacts (the (source_by_id e i))))
        = {h. \<exists>s \<in> set (export_sources e).
             source_id s \<in> set (ac_source_record_ids a) \<and> h \<in> set (source_artifacts s)}"
    proof (intro set_eqI iffI)
      fix h assume "h \<in> (\<Union>i \<in> set (ac_source_record_ids a).
          set (source_artifacts (the (source_by_id e i))))"
      then obtain i where i: "i \<in> set (ac_source_record_ids a)"
        "h \<in> set (source_artifacts (the (source_by_id e i)))" by blast
      with k obtain s where "source_by_id e i = Some s" by blast
      with i src [of i s] show "h \<in> {h. \<exists>s \<in> set (export_sources e).
          source_id s \<in> set (ac_source_record_ids a) \<and> h \<in> set (source_artifacts s)}"
        by auto
    next
      fix h assume "h \<in> {h. \<exists>s \<in> set (export_sources e).
          source_id s \<in> set (ac_source_record_ids a) \<and> h \<in> set (source_artifacts s)}"
      then obtain s where s: "s \<in> set (export_sources e)"
        "source_id s \<in> set (ac_source_record_ids a)" "h \<in> set (source_artifacts s)" by blast
      then have "source_by_id e (source_id s) = Some s" using src by blast
      with s show "h \<in> (\<Union>i \<in> set (ac_source_record_ids a).
          set (source_artifacts (the (source_by_id e i))))"
        by (intro UN_I [of "source_id s"]) simp_all
    qed
    then show ?thesis by blast
  qed
  have sub: "(\<forall>p \<in> set (ac_parent_action_ids a). p \<in> ac_action_id ` set pre)
      \<longleftrightarrow> set (ac_parent_action_ids a) \<subseteq> ac_action_id ` set pre" by blast
  show ?thesis
  proof (cases "\<forall>i \<in> set (ac_source_record_ids a). \<exists>s. source_by_id e i = Some s \<and> source_action s = ac_action_id a")
    case True
    then have "\<forall>i \<in> set (ac_source_record_ids a). \<exists>s. source_by_id e i = Some s" by blast
    from arts [OF this] True known show ?thesis
      unfolding step_ok_def may_follow_def par sub by simp
  next
    case False
    then have "\<not> step_ok e (export_base e \<union> outputs_of pre) a"
      unfolding step_ok_def by blast
    moreover have "\<not> may_follow (set (export_sources e)) (export_base e) pre a"
      using False known unfolding may_follow_def by blast
    ultimately show ?thesis by simp
  qed
qed

lemma header_ids:
  "(\<forall>c \<in> set (header_checks e). c = Inr ()) \<Longrightarrow> distinct (export_ids e)"
  by (simp add: header_checks_def)

lemma validate_closure_iff: "validate_closure H e = Inr () \<longleftrightarrow> closure_spec H e"
proof -
  have *: "validate_closure H e = Inr () \<longleftrightarrow>
      (\<forall>c \<in> set (header_checks e). c = Inr ())
      \<and> (\<forall>a \<in> set (ex_actions e). action_verify_hashes H a = Inr ())
      \<and> (\<forall>s \<in> set (export_sources e). source_verify_hashes H s = Inr ())
      \<and> map ac_sequence (ex_actions e) = map int [1..<length (ex_actions e) + 1]
      \<and> (\<forall>pre a post. ex_actions e = pre @ a # post \<longrightarrow> step_ok e (export_base e \<union> outputs_of pre) a)
      \<and> (\<forall>s \<in> set (export_sources e). count_list (used_sources (ex_actions e)) (source_id s) = 1)"
    unfolding order_checks_ok [symmetric]
    by (auto simp: validate_closure_def bindE_eq_Inr checks_Inr walk_actions_Inr ball_Un
        export_base_def)
  show ?thesis
    unfolding * closure_spec_def closed_actions_def
    using step_ok_may_follow header_ids by blast
qed

end
