(* ===== verification/Export_Parse.thy ===== *)
theory Export_Parse
  imports Export_Closure
begin

text \<open>
  The parsers of \<open>campaign/replay.py\<close> invert the public values of the records, in whatever
  order the fields of an object come, and accept only what the constructors accept.
\<close>

section \<open>Objects as field tables\<close>

lemma jget_distinct: "distinct (map fst kvs) \<Longrightarrow> jget kvs k = map_of kvs k"
  unfolding jget_def by (rule map_of_inject_set [THEN iffD2, THEN fun_cong]) (simp_all add: rev_map [symmetric])

lemma jget_sorted: "distinct (map fst kvs) \<Longrightarrow> jget (sort_key fst kvs) k = jget kvs k"
  by (simp add: jget_distinct map_of_sort_key_fst)

lemma get_field_sorted: "distinct (map fst kvs) \<Longrightarrow> get_field (sort_key fst kvs) k = get_field kvs k"
  by (simp add: get_field_def jget_sorted)

lemma jsort_flat:
  assumes "\<And>kv. kv \<in> set kvs \<Longrightarrow> jsort (snd kv) = snd kv"
  shows "jsort (JObj kvs) = JObj (sort_key fst kvs)"
proof -
  have "map (\<lambda>(k, v). (k, jsort v)) kvs = kvs"
    using assms by (intro map_idI) (auto simp: case_prod_unfold)
  then show ?thesis by simp
qed

lemma jsort_idem [simp]: "jsort (jsort v) = jsort v"
proof (induction v rule: jsort.induct)
  case (2 kvs)
  have "map (\<lambda>(k, v). (k, jsort v)) (sort_key fst (map (\<lambda>(k, v). (k, jsort v)) kvs))
      = sort_key fst (map (\<lambda>(k, v). (k, jsort v)) kvs)"
    using 2 by (intro map_idI) force
  then show ?case by (simp add: sort_key_fst_idem)
qed simp_all

lemma canonical_bytes_jsort [simp]: "canonical_bytes (jsort v) = canonical_bytes v"
  by (simp add: canonical_bytes_def)

lemma str_elements_map [simp]: "str_elements (map JStr ss) = Some ss"
  by (induction ss) simp_all

lemma parse_tuple_jstrs [simp]: "parse_tuple (jstrs ss) field = Inr ss"
  by (simp add: parse_tuple_def jstrs_def)

lemma text_of_JStr [simp]: "text_of (JStr s) = s"
  by simp

lemma count_opt_jint_opt [simp]: "count_opt (jint_opt i) = i"
  by (cases i) simp_all

lemma str_or_null_jstr_opt [simp]: "str_or_null (jstr_opt s) = Some s"
  by (cases s) simp_all

lemma parse_enum_value [simp]:
  "parse_enum status_value all_statuses (JStr (status_value st)) field = Inr st"
  "parse_enum action_type_value all_action_types (JStr (action_type_value ty)) field = Inr ty"
  "parse_enum actor_value all_actors (JStr (actor_value ac)) field = Inr ac"
  "parse_enum usage_value all_usage_sources (JStr (usage_value us)) field = Inr us"
  "parse_enum origin_value all_origins (JStr (origin_value og)) field = Inr og"
  by (simp_all add: parse_enum_def status.enum_of_value action_type.enum_of_value
      actor.enum_of_value usage.enum_of_value origin.enum_of_value)

section \<open>The contract of a record parser\<close>

locale record_parser =
  fixes parse :: "json \<Rightarrow> 'r res" and payload :: "'r \<Rightarrow> jobject"
    and post_init :: "'r \<Rightarrow> unit res" and fields :: "str list"
  assumes reads: "set (map fst kvs) = set fields \<Longrightarrow>
      (\<And>k. k \<in> set fields \<Longrightarrow> get_field kvs k = get_field (payload r) k) \<Longrightarrow>
      post_init r = Inr () \<Longrightarrow> parse (JObj kvs) = Inr r"
    and payload_fields: "map fst (payload r) = fields"
    and fields_distinct: "distinct fields"
    and flat: "kv \<in> set (payload r) \<Longrightarrow> jsort (snd kv) = snd kv"
    and valid: "parse j = Inr r \<Longrightarrow> post_init r = Inr ()"
begin

lemma parse_payload: "post_init r = Inr () \<Longrightarrow> parse (JObj (payload r)) = Inr r"
  by (rule reads) (simp_all only: payload_fields)

lemma parse_sorted: "post_init r = Inr () \<Longrightarrow> parse (jsort (JObj (payload r))) = Inr r"
  using fields_distinct payload_fields [of r]
  by (simp only: jsort_flat [OF flat]) (rule reads, simp_all add: get_field_sorted, metis set_map)

lemma parse_payloads:
  "\<forall>r \<in> set rs. post_init r = Inr () \<Longrightarrow> mapE parse (map (\<lambda>r. JObj (payload r)) rs) = Inr rs"
  by (induction rs) (simp_all add: parse_payload)

lemma parse_sorted_payloads:
  "\<forall>r \<in> set rs. post_init r = Inr () \<Longrightarrow>
     mapE parse (map jsort (map (\<lambda>r. JObj (payload r)) rs)) = Inr rs"
  by (induction rs) (simp_all only: list.map mapE.simps parse_sorted list.set ball_simps insert_iff bindE_Inr, simp add: parse_sorted del: jsort.simps)

lemma parsed_valid: "mapE parse js = Inr rs \<Longrightarrow> r \<in> set rs \<Longrightarrow> post_init r = Inr ()"
proof (induction js arbitrary: rs)
  case (Cons j js)
  then show ?case by (auto simp: bindE_eq_Inr dest: valid)
qed simp

end

section \<open>The four parsers\<close>

interpretation action_parser: record_parser parse_action action_value action_post_init action_fields
proof
  fix kvs r
  assume ks: "set (map fst kvs) = set action_fields" and ok: "action_post_init r = Inr ()"
    and "\<And>k. k \<in> set action_fields \<Longrightarrow> get_field kvs k = get_field (action_value r) k"
  then have g: "k \<in> set action_fields \<Longrightarrow> get_field kvs k
      = (case map_of (rev (action_value r)) k of None \<Rightarrow> JNull | Some v \<Rightarrow> v)" for k
    by (simp add: get_field_def jget_def)
  have ex: "exact_fields kvs action_fields f = Inr ()" for f
    using ks by (simp add: exact_fields_def)
  show "parse_action (JObj kvs) = Inr r"
    using ok by (cases r) (simp add: parse_action_def ex [unfolded action_fields_def] g Let_def action_fields_def action_value_def)
qed (auto simp: action_value_def action_fields_def parse_action_def bindE_eq_Inr Let_def
      split: json.splits if_splits)

interpretation model_parser: record_parser parse_model model_call_value model_call_post_init model_call_fields
proof
  fix kvs r
  assume ks: "set (map fst kvs) = set model_call_fields" and ok: "model_call_post_init r = Inr ()"
    and "\<And>k. k \<in> set model_call_fields \<Longrightarrow> get_field kvs k = get_field (model_call_value r) k"
  then have g: "k \<in> set model_call_fields \<Longrightarrow> get_field kvs k
      = (case map_of (rev (model_call_value r)) k of None \<Rightarrow> JNull | Some v \<Rightarrow> v)" for k
    by (simp add: get_field_def jget_def)
  have ex: "exact_fields kvs model_call_fields f = Inr ()" for f
    using ks by (simp add: exact_fields_def)
  show "parse_model (JObj kvs) = Inr r"
    using ok by (cases r) (simp add: parse_model_def ex [unfolded model_call_fields_def] g Let_def model_call_fields_def model_call_value_def)
qed (auto simp: model_call_value_def model_call_fields_def parse_model_def bindE_eq_Inr Let_def
      split: json.splits if_splits)

interpretation tool_parser: record_parser parse_tool tool_run_value tool_run_post_init tool_run_fields
proof
  fix kvs r
  assume ks: "set (map fst kvs) = set tool_run_fields" and ok: "tool_run_post_init r = Inr ()"
    and "\<And>k. k \<in> set tool_run_fields \<Longrightarrow> get_field kvs k = get_field (tool_run_value r) k"
  then have g: "k \<in> set tool_run_fields \<Longrightarrow> get_field kvs k
      = (case map_of (rev (tool_run_value r)) k of None \<Rightarrow> JNull | Some v \<Rightarrow> v)" for k
    by (simp add: get_field_def jget_def)
  have ex: "exact_fields kvs tool_run_fields f = Inr ()" for f
    using ks by (simp add: exact_fields_def)
  show "parse_tool (JObj kvs) = Inr r"
    using ok by (cases r) (simp add: parse_tool_def ex [unfolded tool_run_fields_def] g Let_def tool_run_fields_def tool_run_value_def)
qed (auto simp: tool_run_value_def tool_run_fields_def parse_tool_def bindE_eq_Inr Let_def
      split: json.splits if_splits)

interpretation import_parser: record_parser parse_import import_value import_post_init import_fields
proof
  fix kvs r
  assume ks: "set (map fst kvs) = set import_fields" and ok: "import_post_init r = Inr ()"
    and "\<And>k. k \<in> set import_fields \<Longrightarrow> get_field kvs k = get_field (import_value r) k"
  then have g: "k \<in> set import_fields \<Longrightarrow> get_field kvs k
      = (case map_of (rev (import_value r)) k of None \<Rightarrow> JNull | Some v \<Rightarrow> v)" for k
    by (simp add: get_field_def jget_def)
  have ex: "exact_fields kvs import_fields f = Inr ()" for f
    using ks by (simp add: exact_fields_def)
  show "parse_import (JObj kvs) = Inr r"
    using ok by (cases r) (simp add: parse_import_def ex [unfolded import_fields_def] g Let_def import_fields_def import_value_def)
qed (auto simp: import_value_def import_fields_def parse_import_def bindE_eq_Inr Let_def
      split: json.splits if_splits)

end
