(* ===== verification/Export_Verify.thy ===== *)
theory Export_Verify
  imports Export_Parse
begin

text \<open>
  \<open>verify_campaign_export\<close> on the value and on the bytes of an export, as facts about the
  export that is read: what it accepts, and that it accepts its own output.
\<close>

section \<open>Dictionaries without repeated keys\<close>

lemma dict_put_new: "k \<notin> fst ` set kvs \<Longrightarrow> dict_put k v kvs = kvs @ [(k, v)]"
  by (induction kvs) auto

lemma foldl_dict_put:
  "distinct (map fst (acc @ kvs)) \<Longrightarrow> foldl (\<lambda>d (k, v). dict_put k v d) acc kvs = acc @ kvs"
proof (induction kvs arbitrary: acc)
  case (Cons kv kvs)
  then have "dict_put (fst kv) (snd kv) acc = acc @ [kv]" by (simp add: dict_put_new)
  with Cons show ?case by (simp add: case_prod_unfold)
qed simp

lemma jdict_dup_free: "dup_free v \<Longrightarrow> jdict v = v"
proof (induction v rule: jdict.induct)
  case (2 kvs)
  then have "map (\<lambda>(k, v). (k, jdict v)) kvs = kvs" by (intro map_idI) force
  with 2 show ?case by (simp add: foldl_dict_put [of "[]", simplified])
next
  case (1 vs)
  then show ?case by (simp add: map_idI)
qed simp_all

lemma dup_free_jsort: "dup_free v \<Longrightarrow> dup_free (jsort v)"
proof (induction v rule: jsort.induct)
  case (2 kvs)
  then show ?case by (force simp: case_prod_unfold comp_def)
qed auto

lemma dup_free_flat [simp]: "dup_free (jstrs ss)" "dup_free (jint_opt i)" "dup_free (jstr_opt s)"
proof -
  show "dup_free (jstrs ss)" by (simp add: jstrs_def)
  show "dup_free (jint_opt i)" by (cases i) simp_all
  show "dup_free (jstr_opt s)" by (cases s) simp_all
qed

lemma dup_free_records:
  "dup_free (JObj (action_value a))" "dup_free (JObj (model_call_value m))"
  "dup_free (JObj (tool_run_value t))" "dup_free (JObj (import_value i))"
  by (simp_all add: action_value_def model_call_value_def tool_run_value_def import_value_def)

lemma dup_free_derive_usage: "dup_free (JObj (derive_usage ms ts is))"
  by (simp add: derive_usage_def Let_def tool_status_counts_def count_of_def)

lemma utf8_valid_pass: "utf8_valid b \<Longrightarrow> utf8_pass b"
proof (induction b rule: utf8_pass.induct)
  case (2 c cs)
  consider "char_in 0 127 c" | "\<not> char_in 0 127 c" "char_in 194 223 c"
    | "\<not> char_in 0 127 c" "\<not> char_in 194 223 c" "char_in 224 239 c"
    | "\<not> char_in 0 127 c" "\<not> char_in 194 223 c" "\<not> char_in 224 239 c"
    by blast
  then show ?case
  proof cases
    case 1
    with 2 show ?thesis by simp
  next
    case t: 2
    with 2 show ?thesis by (simp split: list.splits)
  next
    case t: 3
    with 2 show ?thesis by (simp split: list.splits)
  next
    case t: 4
    with 2 show ?thesis by (simp split: list.splits if_split_asm)
  qed
qed simp

section \<open>Finalizing does not touch what the constructors check\<close>

lemma finalized_post_init [simp]:
  "action_post_init (action_finalized H a) = action_post_init a"
  "model_call_post_init (model_call_finalized H m) = model_call_post_init m"
  "tool_run_post_init (tool_run_finalized H t) = tool_run_post_init t"
  "import_post_init (import_finalized H i) = import_post_init i"
  by (simp_all add: action_finalized_def model_call_finalized_def tool_run_finalized_def
      import_finalized_def finish_def case_prod_unfold action_set_hashes_def
      model_call_set_hashes_def tool_run_set_hashes_def import_set_hashes_def
      action_post_init_def model_call_post_init_def tool_run_post_init_def import_post_init_def
      tool_run_observed_def)

section \<open>Reading an export\<close>

definition records_ok :: "campaign_export \<Rightarrow> bool" where
  "records_ok e \<longleftrightarrow>
     (\<forall>a \<in> set (ex_actions e). action_post_init a = Inr ())
     \<and> (\<forall>m \<in> set (ex_model_calls e). model_call_post_init m = Inr ())
     \<and> (\<forall>t \<in> set (ex_tool_runs e). tool_run_post_init t = Inr ())
     \<and> (\<forall>i \<in> set (ex_imports e). import_post_init i = Inr ())"

text \<open>\<open>kvs\<close> is a table of the fields of \<open>e\<close>, each value as \<open>f\<close> leaves it.\<close>

definition reads_as :: "(json \<Rightarrow> json) \<Rightarrow> jobject \<Rightarrow> campaign_export \<Rightarrow> bool" where
  "reads_as f kvs e \<longleftrightarrow>
     set (map fst kvs) = set export_fields
     \<and> (\<forall>k \<in> set export_fields. get_field kvs k = f (get_field (export_value e) k))"

lemma export_value_distinct: "distinct (map fst (export_value e))"
  by (simp add: export_value_def)

lemma export_value_keys: "set (map fst (export_value e)) = set export_fields"
  by (rule equalityI; simp add: export_value_def export_fields_def)

lemma reads_as_own: "reads_as (\<lambda>v. v) (export_value e) e"
  unfolding reads_as_def using export_value_keys by blast

lemma reads_as_sorted:
  "reads_as jsort (sort_key fst (map (\<lambda>(k, v). (k, jsort v)) (export_value e))) e"
proof -
  let ?m = "map (\<lambda>(k, v). (k, jsort v)) (export_value e)"
  have d: "distinct (map fst ?m)"
    using export_value_distinct [of e] by (simp add: case_prod_unfold comp_def)
  have "get_field ?m k = jsort (get_field (export_value e) k)" for k
    using d export_value_distinct [of e]
    by (simp add: get_field_def jget_distinct map_of_map_jsort split: option.split)
  then show ?thesis
    using export_value_keys [of e] d
    by (auto simp: reads_as_def get_field_sorted case_prod_unfold image_image)
qed

lemma usage_names: "set (map fst (derive_usage ms ts is)) = set usage_fields"
  by (rule equalityI; simp add: derive_usage_def Let_def tool_status_counts_def usage_fields_def)

lemma verify_object_reads:
  assumes r: "reads_as f kvs e" and ok: "records_ok e"
    and f: "f = (\<lambda>v. v) \<and> us = ex_usage e
        \<or> f = jsort \<and> us = sort_key fst (map (\<lambda>(k, v). (k, jsort v)) (ex_usage e))"
    and c: "f (ex_campaign_id e) = ex_campaign_id e"
    and u: "set (map fst (ex_usage e)) = set usage_fields"
    and raw: "\<And>b. raw = Some b \<Longrightarrow> utf8_strings (JObj kvs) \<and> b = canonical_bytes (JObj kvs) @ [CHR 0x0A]"
    and vc: "validate_closure H (e\<lparr>ex_usage := us\<rparr>) = Inr ()"
    and dc: "\<forall>c \<in> set (derived_checks H (e\<lparr>ex_usage := us\<rparr>)). c = Inr ()"
  shows "verify_object H raw kvs = Inr (e\<lparr>ex_usage := us\<rparr>)"
proof -
  have g: "k \<in> set export_fields \<Longrightarrow> get_field kvs k
      = f (case map_of (rev (export_value e)) k of None \<Rightarrow> JNull | Some v \<Rightarrow> v)" for k
    using r by (simp add: reads_as_def get_field_def [of "export_value e"] jget_def)
  have sc: "f (JStr s) = JStr s" for s using f by auto
  have el: "f (JArr vs) = JArr (map f vs)" for vs using f by auto
  have fu: "f (JObj (ex_usage e)) = JObj us" using f by auto
  have uk: "set (map fst us) = set usage_fields"
    using f u by (elim disjE conjE) (simp_all add: case_prod_unfold image_image)
  have gs: "get_field kvs ''campaign_id'' = ex_campaign_id e"
    "get_field kvs ''target_hash'' = JStr (ex_target_hash e)"
    "get_field kvs ''configuration_hash'' = JStr (ex_configuration_hash e)"
    "get_field kvs ''attribution_status'' = JStr (ex_attribution_status e)"
    "get_field kvs ''measurement_status'' = JStr (ex_measurement_status e)"
    "get_field kvs ''schema_version'' = JStr (ex_schema_version e)"
    "get_field kvs ''canonicalization_version'' = JStr (ex_canonicalization_version e)"
    "get_field kvs ''content_hash'' = JStr (ex_content_hash e)"
    "get_field kvs ''operational_hash'' = JStr (ex_operational_hash e)"
    "get_field kvs ''usage'' = JObj us"
    by (simp_all add: g export_fields_def export_value_def sc c fu)
  have ga: "get_field kvs ''actions'' = JArr (map f (map (\<lambda>a. JObj (action_value a)) (ex_actions e)))"
    "get_field kvs ''model_calls'' = JArr (map f (map (\<lambda>m. JObj (model_call_value m)) (ex_model_calls e)))"
    "get_field kvs ''tool_runs'' = JArr (map f (map (\<lambda>t. JObj (tool_run_value t)) (ex_tool_runs e)))"
    "get_field kvs ''imports'' = JArr (map f (map (\<lambda>i. JObj (import_value i)) (ex_imports e)))"
    by (simp_all add: g export_fields_def export_value_def el)
  have p: "mapE parse_action (map f (map (\<lambda>a. JObj (action_value a)) (ex_actions e))) = Inr (ex_actions e)"
    "mapE parse_model (map f (map (\<lambda>m. JObj (model_call_value m)) (ex_model_calls e))) = Inr (ex_model_calls e)"
    "mapE parse_tool (map f (map (\<lambda>t. JObj (tool_run_value t)) (ex_tool_runs e))) = Inr (ex_tool_runs e)"
    "mapE parse_import (map f (map (\<lambda>i. JObj (import_value i)) (ex_imports e))) = Inr (ex_imports e)"
    using f ok action_parser.parse_payloads action_parser.parse_sorted_payloads
      model_parser.parse_payloads model_parser.parse_sorted_payloads
      tool_parser.parse_payloads tool_parser.parse_sorted_payloads
      import_parser.parse_payloads import_parser.parse_sorted_payloads
    unfolding records_ok_def by (metis list.map_ident)+
  have arrays: "\<forall>k \<in> set [''actions'', ''model_calls'', ''tool_runs'', ''imports'']. array_guard kvs k = Inr ()"
    by (simp add: array_guard_def ga)
  have keys: "exact_fields kvs export_fields field = Inr ()" "exact_fields us usage_fields field = Inr ()" for field
    using r uk by (simp_all add: reads_as_def exact_fields_def)
  have rawc: "(case raw of None \<Rightarrow> Inr ()
      | Some b \<Rightarrow> if \<not> utf8_strings (JObj kvs) then Inl UnicodeEncodeErr
          else ensure (b = canonical_bytes (JObj kvs) @ [CHR 0x0A])
            (ProvenanceError ''campaign export bytes are not canonical'')) = Inr ()"
    using raw by (auto split: option.split)
  have arr: "checks (map (array_guard kvs) [''actions'', ''model_calls'', ''tool_runs'', ''imports'']) = Inr ()"
    using arrays by (simp add: checks_Inr)
  have der: "checks (derived_checks H (e\<lparr>ex_usage := us\<rparr>)) = Inr ()"
    using dc by (simp add: checks_Inr)
  have ee: "\<lparr>ex_campaign_id = ex_campaign_id e, ex_target_hash = ex_target_hash e,
      ex_configuration_hash = ex_configuration_hash e, ex_actions = ex_actions e,
      ex_model_calls = ex_model_calls e, ex_tool_runs = ex_tool_runs e,
      ex_imports = ex_imports e, ex_usage = us,
      ex_attribution_status = ex_attribution_status e,
      ex_measurement_status = ex_measurement_status e,
      ex_schema_version = ex_schema_version e,
      ex_canonicalization_version = ex_canonicalization_version e,
      ex_content_hash = ex_content_hash e, ex_operational_hash = ex_operational_hash e\<rparr>
      = e\<lparr>ex_usage := us\<rparr>"
    by (cases e) simp
  show ?thesis
    unfolding verify_object_def keys(1) rawc arr gs ga bindE_Inr json.case elements_of.simps p
      keys(2) text_of.simps ee Let_def vc der
    ..
qed

end
