(* ===== verification/Export_Props.thy ===== *)
theory Export_Props
  imports Export_Verify
begin

text \<open>
  The properties of the provenance export: it verifies its own output, what it accepts is
  causally closed with derived totals, its content hash binds the records, and two places
  where the verifier accepts values of the wrong type.
\<close>

section \<open>What a built export is\<close>

definition sorted_usage :: "campaign_export \<Rightarrow> campaign_export" where
  "sorted_usage e = e\<lparr>ex_usage := sort_key fst (ex_usage e)\<rparr>"

lemma sources_update [simp]:
  "export_sources (e\<lparr>ex_usage := us\<rparr>) = export_sources e"
  "export_sources (e\<lparr>ex_content_hash := c\<rparr>) = export_sources e"
  "export_sources (e\<lparr>ex_operational_hash := p\<rparr>) = export_sources e"
  by (simp_all add: export_sources_def)

lemma closure_update [simp]:
  "validate_closure H (e\<lparr>ex_usage := us\<rparr>) = Inr () \<longleftrightarrow> validate_closure H e = Inr ()"
  "validate_closure H (e\<lparr>ex_content_hash := c\<rparr>) = Inr () \<longleftrightarrow> validate_closure H e = Inr ()"
  "validate_closure H (e\<lparr>ex_operational_hash := p\<rparr>) = Inr () \<longleftrightarrow> validate_closure H e = Inr ()"
  by (simp_all add: validate_closure_iff closure_spec_def header_checks_def export_ids_def
      export_campaigns_def export_base_def)

lemma preimage_update [simp]:
  "semantic_preimage (e\<lparr>ex_usage := us\<rparr>) = semantic_preimage e"
  "semantic_preimage (e\<lparr>ex_content_hash := c\<rparr>) = semantic_preimage e"
  "semantic_preimage (e\<lparr>ex_operational_hash := p\<rparr>) = semantic_preimage e"
  by (simp_all add: semantic_preimage_def)

lemma canonical_hash_cong:
  "map (\<lambda>(k, v). (k, jsort v)) a = map (\<lambda>(k, v). (k, jsort v)) b \<Longrightarrow>
     canonical_hash H (JObj a) = canonical_hash H (JObj b)"
  by (simp add: canonical_hash_def canonical_bytes_def)

lemma jsort_sort_key: "jsort (JObj (sort_key fst (map (\<lambda>(k, v). (k, jsort v)) kvs))) = jsort (JObj kvs)"
  using jsort_idem [of "JObj kvs"] by simp

lemma operational_update [simp]:
  "export_operational_hash H (e\<lparr>ex_operational_hash := p\<rparr>) = export_operational_hash H e"
  by (simp add: export_operational_hash_def export_value_def)

lemma operational_sorted:
  "export_operational_hash H (e\<lparr>ex_usage := sort_key fst (map (\<lambda>(k, v). (k, jsort v)) (ex_usage e))\<rparr>)
     = export_operational_hash H e"
  unfolding export_operational_hash_def
  by (rule canonical_hash_cong) (simp add: export_value_def jsort_sort_key del: jsort.simps(2))

lemma py_eq_refl [simp]: "py_eq v v"
  by (cases v) auto

lemma usage_agrees_derived:
  assumes "distinct (map fst us)" and "set us = set (derive_usage ms ts is)"
  shows "usage_agrees us (derive_usage ms ts is)"
proof -
  have "get_field us (fst kv) = snd kv" if "kv \<in> set us" for kv
    using assms(1) that by (cases kv) (simp add: get_field_def jget_distinct map_of_is_SomeI)
  with assms(2) show ?thesis unfolding usage_agrees_def set_map by simp
qed

lemma derive_usage_flat: "kv \<in> set (derive_usage ms ts is) \<Longrightarrow> jsort (snd kv) = snd kv"
  by (auto simp: derive_usage_def Let_def tool_status_counts_def count_of_def)

lemma sorted_usage_flat:
  "sort_key fst (map (\<lambda>(k, v). (k, jsort v)) (derive_usage ms ts is)) = sort_key fst (derive_usage ms ts is)"
  using jsort_flat [of "derive_usage ms ts is", OF derive_usage_flat] by simp

lemma derive_usage_distinct: "distinct (map fst (derive_usage ms ts is))"
  using dup_free_derive_usage [of ms ts "is"] by simp

definition built :: "hexdigest \<Rightarrow> str \<Rightarrow> campaign_export \<Rightarrow> bool" where
  "built H campaign e \<longleftrightarrow>
     ex_campaign_id e = JStr campaign \<and> records_ok e
     \<and> ex_usage e = derive_usage (ex_model_calls e) (ex_tool_runs e) (ex_imports e)
     \<and> validate_closure H e = Inr ()
     \<and> (\<forall>c \<in> set (derived_checks H e). c = Inr ())"

lemma build_built:
  assumes "build_campaign_export H campaign target configuration as ms ts is = Inr e"
    and "\<forall>a \<in> set as. action_post_init a = Inr ()"
    and "\<forall>m \<in> set ms. model_call_post_init m = Inr ()"
    and "\<forall>t \<in> set ts. tool_run_post_init t = Inr ()"
    and "\<forall>i \<in> set is. import_post_init i = Inr ()"
  shows "built H campaign e"
proof -
  define e0 where "e0 = \<lparr>ex_campaign_id = JStr campaign, ex_target_hash = target,
      ex_configuration_hash = configuration, ex_actions = map (action_finalized H) as,
      ex_model_calls = map (model_call_finalized H) ms,
      ex_tool_runs = map (tool_run_finalized H) ts, ex_imports = map (import_finalized H) is,
      ex_usage = derive_usage (map (model_call_finalized H) ms) (map (tool_run_finalized H) ts)
        (map (import_finalized H) is),
      ex_attribution_status = attribution_of (map (import_finalized H) is),
      ex_measurement_status = measurement_status (map (model_call_finalized H) ms)
        (map (tool_run_finalized H) ts) (map (import_finalized H) is),
      ex_schema_version = schema_version_campaign,
      ex_canonicalization_version = canonicalization_version_campaign,
      ex_content_hash = [], ex_operational_hash = []\<rparr>"
  define e1 where "e1 = e0\<lparr>ex_content_hash := canonical_hash H (JObj (semantic_preimage e0))\<rparr>"
  have e: "e = e1\<lparr>ex_operational_hash := export_operational_hash H e1\<rparr>"
    and v: "validate_closure H e0 = Inr ()"
    using assms(1) unfolding build_campaign_export_def Let_def e0_def [symmetric] e1_def
    by (auto simp: bindE_eq_Inr)
  have f: "ex_campaign_id e0 = JStr campaign" "records_ok e0"
    "ex_usage e0 = derive_usage (ex_model_calls e0) (ex_tool_runs e0) (ex_imports e0)"
    "ex_attribution_status e0 = attribution_of (ex_imports e0)"
    "ex_measurement_status e0 = measurement_status (ex_model_calls e0) (ex_tool_runs e0) (ex_imports e0)"
    using assms(2-5) by (auto simp: e0_def records_ok_def)
  have "\<forall>c \<in> set (derived_checks H e). c = Inr ()"
    by (simp add: derived_checks_def e e1_def f usage_agrees_derived derive_usage_distinct)
  with f v show ?thesis by (simp add: built_def e e1_def records_ok_def)
qed

lemma built_sorted_checks:
  assumes "built H campaign e"
  shows "\<forall>c \<in> set (derived_checks H (sorted_usage e)). c = Inr ()"
proof -
  have "export_operational_hash H (sorted_usage e) = export_operational_hash H e"
    using operational_sorted [of H e] assms by (simp add: built_def sorted_usage_def sorted_usage_flat)
  moreover have "usage_agrees (sort_key fst (ex_usage e)) (ex_usage e)"
    using assms usage_agrees_derived [of "sort_key fst (ex_usage e)"] derive_usage_distinct
    by (auto simp: built_def)
  ultimately show ?thesis
    using assms by (auto simp: built_def derived_checks_def sorted_usage_def)
qed

section \<open>Round trip\<close>

lemma built_verify_value:
  assumes "built H campaign e"
  shows "verify_json H None (JObj (export_value e)) = Inr e"
proof -
  have eq: "e\<lparr>ex_usage := ex_usage e\<rparr> = e" by simp
  have b: "records_ok e" "ex_campaign_id e = JStr campaign"
    "ex_usage e = derive_usage (ex_model_calls e) (ex_tool_runs e) (ex_imports e)"
    "validate_closure H e = Inr ()" "\<forall>c \<in> set (derived_checks H e). c = Inr ()"
    using assms unfolding built_def by blast+
  then have u: "set (map fst (ex_usage e)) = set usage_fields" by (simp only: usage_names)
  have "verify_object H None (export_value e) = Inr (e\<lparr>ex_usage := ex_usage e\<rparr>)"
    by (rule verify_object_reads [OF reads_as_own b(1) _ refl u]) (unfold eq, use b(4,5) in simp_all)
  then show ?thesis by (simp add: verify_json_def eq)
qed

lemma dup_free_export: "dup_free (JObj (ex_usage e)) \<Longrightarrow> dup_free (ex_campaign_id e)
    \<Longrightarrow> dup_free (JObj (export_value e))"
  using dup_free_records by (auto simp: export_value_def)

lemma built_verify_bytes:
  assumes b: "built H campaign e"
    and p: "printable (JObj (export_value e))" and u: "utf8_strings (JObj (export_value e))"
  shows "verify_bytes H (canonical_bytes (JObj (export_value e)) @ [CHR 0x0A]) = Inr (sorted_usage e)"
proof -
  let ?v = "JObj (export_value e)"
  let ?b = "canonical_bytes ?v @ [CHR 0x0A]"
  let ?kvs = "sort_key fst (map (\<lambda>(k, v). (k, jsort v)) (export_value e))"
  have js: "jsort ?v = JObj ?kvs" by simp
  have us: "sort_key fst (map (\<lambda>(k, v). (k, jsort v)) (ex_usage e)) = sort_key fst (ex_usage e)"
    using b by (simp add: built_def sorted_usage_flat)
  have "dup_free ?v"
    using b dup_free_derive_usage by (intro dup_free_export) (simp_all add: built_def del: dup_free.simps(2))
  then have jd: "jdict (jsort ?v) = jsort ?v" by (intro jdict_dup_free dup_free_jsort)
  have ld: "loads_or m ?b = Inr (jsort ?v)" for m
    using canonical_loads(2) [OF p] jd by (simp add: loads_or_def del: jsort.simps)
  have "verify_object H (Some ?b) ?kvs
      = Inr (e\<lparr>ex_usage := sort_key fst (map (\<lambda>(k, v). (k, jsort v)) (ex_usage e))\<rparr>)"
  proof (rule verify_object_reads [OF reads_as_sorted])
    show "utf8_strings (JObj ?kvs) \<and> b' = canonical_bytes (JObj ?kvs) @ [CHR 0x0A]"
      if "Some ?b = Some b'" for b'
      using that u by (simp flip: js del: jsort.simps)
    show "\<forall>c \<in> set (derived_checks H (e\<lparr>ex_usage := sort_key fst (map (\<lambda>(k, v). (k, jsort v)) (ex_usage e))\<rparr>)). c = Inr ()"
      using built_sorted_checks [OF b] by (simp add: us sorted_usage_def)
  qed (use b in \<open>simp_all add: built_def usage_names del: set_map\<close>)
  then have "verify_json H (Some ?b) (jsort ?v) = Inr (sorted_usage e)"
    by (simp add: verify_json_def us sorted_usage_def)
  moreover have "utf8_pass ?b"
    by (intro utf8_valid_pass utf8_valid_append utf8_valid_canonical [OF u] utf8_valid_ascii) simp
  ultimately show ?thesis by (simp add: verify_bytes_def ld del: jsort.simps)
qed

section \<open>A concrete export\<close>

definition zero_hash :: str where
  "zero_hash = ''sha256:'' @ replicate 64 (CHR ''0'')"

lemma valid_zero_hash: "valid_hash zero_hash"
  by (simp add: zero_hash_def valid_hash_def is_hex_def is_digit_of_char starts_with_def)

definition ex_call :: model_call_record where
  "ex_call = \<lparr>mc_call_id = ''call.1'', mc_campaign_id = ''campaign.example'',
     mc_action_id = ''action.1'', mc_purpose = ''planning'', mc_provider = ''provider'',
     mc_model_identifier = ''model'', mc_live_configuration_hash = zero_hash,
     mc_pricing_snapshot_hash = zero_hash, mc_request_hash = zero_hash,
     mc_result_hash = zero_hash, mc_status = Completed, mc_usage_source = ApiReported,
     mc_input_tokens = 7, mc_output_tokens = 2, mc_estimated_cost_microusd = Some 3,
     mc_provider_request_id = None, mc_recorded_at = ''now'',
     mc_schema_version = schema_version_campaign, mc_record_type = ''model_call'',
     mc_content_hash = [], mc_operational_hash = []\<rparr>"

definition ex_action :: action_record where
  "ex_action = \<lparr>ac_action_id = ''action.1'', ac_campaign_id = ''campaign.example'',
     ac_sequence = 1, ac_branch_id = ''main'', ac_action_type = Plan,
     ac_actor_type = ModelActor, ac_actor_id = ''planner'', ac_parent_action_ids = [],
     ac_input_artifact_hashes = [zero_hash], ac_source_record_ids = [''call.1''],
     ac_output_artifact_hashes = [zero_hash], ac_status = Completed,
     ac_declared_rationale = ''start'', ac_recorded_at = ''now'',
     ac_schema_version = schema_version_campaign, ac_record_type = ''campaign_action'',
     ac_content_hash = [], ac_operational_hash = []\<rparr>"

lemma ex_identifiers:
  "valid_identifier ''call.1''" "valid_identifier ''campaign.example''"
  "valid_identifier ''action.1''" "valid_identifier ''planning''" "valid_identifier ''provider''"
  "valid_identifier ''model''" "valid_identifier ''main''" "valid_identifier ''planner''"
  by code_simp+

lemma ex_records_ok:
  "model_call_post_init ex_call = Inr ()" "action_post_init ex_action = Inr ()"
  by (simp_all add: ex_call_def ex_action_def model_call_post_init_def action_post_init_def
      checks_Inr ex_identifiers valid_zero_hash py_len_def)

lemma zero_digest_simps [simp]:
  "canonical_hash zero_digest v = zero_hash"
  "action_finalized zero_digest a = a\<lparr>ac_content_hash := zero_hash, ac_operational_hash := zero_hash\<rparr>"
  "model_call_finalized zero_digest m = m\<lparr>mc_content_hash := zero_hash, mc_operational_hash := zero_hash\<rparr>"
  by (simp_all add: canonical_hash_def sha256_bytes_def zero_digest_def zero_hash_def
      action_finalized_def model_call_finalized_def finish_def record_hashes_def
      action_set_hashes_def model_call_set_hashes_def)

definition ex_export :: campaign_export where
  "ex_export = \<lparr>ex_campaign_id = JStr ''campaign.example'', ex_target_hash = zero_hash,
     ex_configuration_hash = zero_hash, ex_actions = [action_finalized zero_digest ex_action],
     ex_model_calls = [model_call_finalized zero_digest ex_call], ex_tool_runs = [],
     ex_imports = [], ex_usage = derive_usage [model_call_finalized zero_digest ex_call] [] [],
     ex_attribution_status = ''adaivy_campaign'', ex_measurement_status = ''complete'',
     ex_schema_version = schema_version_campaign,
     ex_canonicalization_version = canonicalization_version_campaign,
     ex_content_hash = zero_hash, ex_operational_hash = zero_hash\<rparr>"

lemma ex_export_closed: "closure_spec zero_digest
    (ex_export\<lparr>ex_content_hash := c, ex_operational_hash := p\<rparr>)"
proof -
  have sp: "closed_actions S B [a] \<longleftrightarrow> may_follow S B [] a" for S B a
    using closed_actions_snoc [of S B "[]" a] by simp
  show ?thesis
    by (simp add: closure_spec_def header_checks_def export_ids_def export_campaigns_def
        export_sources_def ex_export_def valid_zero_hash sp may_follow_def export_base_def
        used_sources_def action_verify_hashes_def model_call_verify_hashes_def Let_def checks_simps)
       (simp add: ex_action_def ex_call_def)
qed

lemma ex_build: "build_campaign_export zero_digest ''campaign.example'' zero_hash zero_hash
    [ex_action] [ex_call] [] [] = Inr ex_export"
  using ex_export_closed [of "[]" "[]"]
  by (simp add: build_campaign_export_def Let_def validate_closure_iff [symmetric] ex_export_def
      export_operational_hash_def attribution_of_def measurement_status_def)
     (simp add: ex_call_def)

lemma printable_small: "0 \<le> i \<Longrightarrow> i < 10 \<Longrightarrow> printable (JInt i)"
  by (simp add: nat_str.simps int_max_str_digits_def)

lemma utf8_zero_hash: "utf8_valid zero_hash"
  by code_simp

lemma ex_export_wire:
  "printable (JObj (export_value ex_export))" "utf8_strings (JObj (export_value ex_export))"
proof -
  note defs = export_value_def ex_export_def action_value_def model_call_value_def ex_action_def
    ex_call_def derive_usage_def Let_def tool_status_counts_def count_of_def jstrs_def
  show "printable (JObj (export_value ex_export))"
    by (simp add: defs printable_small del: printable.simps(3))
  have names: "utf8_valid s" if "\<forall>c \<in> set s. (of_char c :: nat) < 128" for s
    using that by (rule utf8_valid_ascii)
  show "utf8_strings (JObj (export_value ex_export))"
    by (simp add: defs utf8_zero_hash names schema_version_campaign_def
        canonicalization_version_campaign_def del: utf8_valid.simps)
qed

text \<open>C29: an export built from constructed records is accepted by the verifier, its bytes can
  be written, and reading them back gives the same export (its usage table in key order).\<close>

theorem export_round_trip:
  assumes "build_campaign_export H campaign target configuration as ms ts is = Inr e"
    and "\<forall>a \<in> set as. action_post_init a = Inr ()"
    and "\<forall>m \<in> set ms. model_call_post_init m = Inr ()"
    and "\<forall>t \<in> set ts. tool_run_post_init t = Inr ()"
    and "\<forall>i \<in> set is. import_post_init i = Inr ()"
    and "printable (JObj (export_value e))" and "utf8_strings (JObj (export_value e))"
  shows "verify_json H None (JObj (export_value e)) = Inr e
    \<and> (\<exists>b. export_campaign_bytes H e = Inr b \<and> verify_bytes H b = Inr (sorted_usage e))"
proof -
  have b: "built H campaign e" using assms(1-5) by (rule build_built)
  show ?thesis
    using built_verify_value [OF b] built_verify_bytes [OF b assms(6,7)]
    by (simp add: export_campaign_bytes_def)
qed

theorem export_round_trip_witness:
  "\<exists>b. export_campaign_bytes zero_digest ex_export = Inr b
     \<and> verify_bytes zero_digest b = Inr (sorted_usage ex_export)"
  using export_round_trip [OF ex_build _ _ _ _ ex_export_wire] ex_records_ok by simp

section \<open>What the verifier accepts\<close>

lemma verify_json_accepted:
  assumes "verify_json H raw j = Inr e"
  shows "validate_closure H e = Inr ()" and "records_ok e"
    and "\<forall>c \<in> set (derived_checks H e). c = Inr ()"
proof -
  obtain kvs where j: "verify_object H raw kvs = Inr e"
    using assms by (cases j) (auto simp: verify_json_def)
  then obtain as ms ts "is" where p: "mapE parse_action as = Inr (ex_actions e)"
      "mapE parse_model ms = Inr (ex_model_calls e)" "mapE parse_tool ts = Inr (ex_tool_runs e)"
      "mapE parse_import is = Inr (ex_imports e)"
    and v: "validate_closure H e = Inr ()" "checks (derived_checks H e) = Inr ()"
    unfolding verify_object_def Let_def by (elim bindE_InrE) auto
  show "validate_closure H e = Inr ()" by (rule v(1))
  show "records_ok e"
    using action_parser.parsed_valid [OF p(1)] model_parser.parsed_valid [OF p(2)]
      tool_parser.parsed_valid [OF p(3)] import_parser.parsed_valid [OF p(4)]
    by (simp add: records_ok_def)
  show "\<forall>c \<in> set (derived_checks H e). c = Inr ()" using v(2) by (simp add: checks_Inr)
qed

text \<open>C12: whatever document the verifier accepts, the identifiers of its records are globally
  unique and belong to its campaign, its actions are numbered 1, 2, ..., every action names only
  earlier parents and reads only the target, the configuration and outputs of earlier actions,
  every output comes from a source record of that action, and every source record is used by
  exactly one action.\<close>

theorem accepted_export_is_closed:
  assumes "verify_json H raw j = Inr e"
  shows "distinct (export_ids e)
    \<and> (\<forall>c \<in> set (export_campaigns e). JStr c = ex_campaign_id e)
    \<and> map ac_sequence (ex_actions e) = map int [1..<length (ex_actions e) + 1]
    \<and> (\<forall>pre a post. ex_actions e = pre @ a # post \<longrightarrow>
         may_follow (set (export_sources e)) {ex_target_hash e, ex_configuration_hash e} pre a)
    \<and> (\<forall>s \<in> set (export_sources e). \<exists>!a. a \<in> set (ex_actions e)
          \<and> source_id s \<in> set (ac_source_record_ids a))"
proof -
  have c: "closure_spec H e"
    using verify_json_accepted(1) [OF assms] by (simp add: validate_closure_iff)
  then have hd: "distinct (export_ids e)" "\<forall>c \<in> set (export_campaigns e). JStr c = ex_campaign_id e"
    by (simp_all add: closure_spec_def header_checks_def)
  have once: "\<exists>!a. a \<in> set (ex_actions e) \<and> source_id s \<in> set (ac_source_record_ids a)"
    if s: "s \<in> set (export_sources e)" for s
  proof -
    have "count_list (used_sources (ex_actions e)) (source_id s) = 1"
      using c s by (simp add: closure_spec_def)
    then have "source_id s \<in> set (used_sources (ex_actions e))"
      by (metis count_notin zero_neq_one)
    then obtain a where a: "a \<in> set (ex_actions e)" "source_id s \<in> set (ac_source_record_ids a)"
      by (auto simp: used_sources_def)
    have own: "ac_action_id b = source_action s"
      if "b \<in> set (ex_actions e)" "source_id s \<in> set (ac_source_record_ids b)" for b
    proof -
      from that(1) obtain pre post where "ex_actions e = pre @ b # post" by (auto dest: split_list)
      then have "may_follow (set (export_sources e)) (export_base e) pre b"
        using c by (auto simp: closure_spec_def closed_actions_def)
      with that(2) obtain t where "t \<in> set (export_sources e)" "source_id t = source_id s"
        "source_action t = ac_action_id b"
        by (auto simp: may_follow_def)
      moreover from this s distinct_ids(2) [OF hd(1)] have "t = s"
        by (auto simp: distinct_map inj_on_def)
      ultimately show ?thesis by simp
    qed
    have "b = a" if "b \<in> set (ex_actions e)" "source_id s \<in> set (ac_source_record_ids b)" for b
      using own [OF that] own [OF a] that(1) a(1) distinct_ids(1) [OF hd(1)]
      by (auto simp: distinct_map inj_on_def)
    with a show ?thesis by blast
  qed
  show ?thesis
    using c hd once by (simp add: closure_spec_def closed_actions_def export_base_def)
qed

theorem accepted_export_is_closed_witness:
  "map ac_sequence (ex_actions ex_export) = [1] \<and> distinct (export_ids ex_export)"
proof -
  have "verify_json zero_digest None (JObj (export_value ex_export)) = Inr ex_export"
    by (rule built_verify_value [OF build_built [OF ex_build]]) (simp_all add: ex_records_ok)
  from accepted_export_is_closed [OF this] show ?thesis by (simp add: ex_export_def)
qed

section \<open>Tamper evidence\<close>

definition same_fields :: "str list \<Rightarrow> jobject \<Rightarrow> jobject \<Rightarrow> bool" where
  "same_fields ops p q \<longleftrightarrow> (\<forall>k. k \<notin> set ops \<longrightarrow> \<not> is_hash_key k \<longrightarrow> map_of p k = map_of q k)"

context hashed_record begin

lemma same_contents:
  assumes "map content_of rs = map content_of ss"
    and "\<forall>r \<in> set rs. finish H ops payload set_hashes r = r"
    and "\<forall>s \<in> set ss. finish H ops payload set_hashes s = s"
    and "\<forall>r \<in> set rs. printable (JObj (payload r))" and "\<forall>s \<in> set ss. printable (JObj (payload s))"
  shows "list_all2 (\<lambda>r s. same_fields ops (payload r) (payload s)) rs ss \<or> (\<exists>a b. collides H a b)"
  using assms
proof (induction rs arbitrary: ss)
  case Nil
  then show ?case by simp
next
  case (Cons r rs)
  then obtain s ss' where ss: "ss = s # ss'" by (cases ss) auto
  have "content_of (finish H ops payload set_hashes r) = content_of (finish H ops payload set_hashes s)"
    using Cons.prems ss by simp
  from content_hash_binds [OF this] Cons.prems ss
  have "same_fields ops (payload r) (payload s) \<or> (\<exists>a b. collides H a b)"
    by (auto simp: same_fields_def)
  moreover have "list_all2 (\<lambda>r s. same_fields ops (payload r) (payload s)) rs ss'
      \<or> (\<exists>a b. collides H a b)"
    using Cons.IH [of ss'] Cons.prems ss by simp
  ultimately show ?case using ss by auto
qed

end







section \<open>Two laxities\<close>

text \<open>An export without records whose campaign is the number 5 and whose counts are \<open>false\<close>.\<close>

definition lax_usage :: jobject where
  "lax_usage = map (\<lambda>(k, v). (k, case v of JInt _ \<Rightarrow> JBool False | _ \<Rightarrow> v)) (derive_usage [] [] [])"

definition lax_export :: "hexdigest \<Rightarrow> campaign_export" where
  "lax_export H =
     (let e = \<lparr>ex_campaign_id = JInt 5, ex_target_hash = zero_hash,
         ex_configuration_hash = zero_hash, ex_actions = [], ex_model_calls = [],
         ex_tool_runs = [], ex_imports = [], ex_usage = lax_usage,
         ex_attribution_status = attribution_of [], ex_measurement_status = measurement_status [] [] [],
         ex_schema_version = schema_version_campaign,
         ex_canonicalization_version = canonicalization_version_campaign,
         ex_content_hash = [], ex_operational_hash = []\<rparr>;
       e1 = e\<lparr>ex_content_hash := canonical_hash H (JObj (semantic_preimage e))\<rparr>
      in e1\<lparr>ex_operational_hash := export_operational_hash H e1\<rparr>)"

text \<open>The verifier accepts a document whose campaign identifier is a number and whose
  counts are booleans, as long as it holds no record: Python's \<open>==\<close> takes \<open>False\<close> for 0, and
  only a record would force the campaign identifier to be a string.\<close>

theorem lax_export_accepted:
  "verify_json H None (JObj (export_value (lax_export H))) = Inr (lax_export H)
   \<and> ex_campaign_id (lax_export H) = JInt 5
   \<and> get_field (ex_usage (lax_export H)) ''requests_attempted'' = JBool False"
proof -
  let ?e = "lax_export H"
  have eq: "?e\<lparr>ex_usage := ex_usage ?e\<rparr> = ?e" by simp
  have lists [simp]: "ex_actions ?e = []" "ex_model_calls ?e = []" "ex_tool_runs ?e = []"
    "ex_imports ?e = []" "export_sources ?e = []" "ex_usage ?e = lax_usage" "ex_campaign_id ?e = JInt 5"
    by (simp_all add: lax_export_def Let_def export_sources_def)
  have vc: "validate_closure H ?e = Inr ()"
    by (simp add: validate_closure_iff closure_spec_def header_checks_def export_ids_def
        export_campaigns_def) (simp add: lax_export_def Let_def valid_zero_hash)
  have "usage_agrees lax_usage (derive_usage [] [] [])"
    by (simp add: usage_agrees_def lax_usage_def derive_usage_def Let_def tool_status_counts_def
        count_of_def get_field_def jget_def)
  moreover have "ex_attribution_status ?e = attribution_of []"
    "ex_measurement_status ?e = measurement_status [] [] []"
    "ex_content_hash ?e = canonical_hash H (JObj (semantic_preimage ?e))"
    "ex_operational_hash ?e = export_operational_hash H ?e"
    by (simp_all add: lax_export_def Let_def semantic_preimage_def export_operational_hash_def
        export_value_def)
  ultimately have dc: "\<forall>c \<in> set (derived_checks H ?e). c = Inr ()"
    by (simp add: derived_checks_def)
  have ro: "records_ok ?e" by (simp add: records_ok_def)
  have u: "set (map fst (ex_usage ?e)) = set usage_fields"
    using usage_names [of "[]" "[]" "[]"] by (simp add: lax_usage_def case_prod_unfold image_image)
  have "verify_object H None (export_value ?e) = Inr (?e\<lparr>ex_usage := ex_usage ?e\<rparr>)"
    by (rule verify_object_reads [OF reads_as_own ro _ refl u]) (unfold eq, use vc dc in simp_all)
  then have "verify_json H None (JObj (export_value ?e)) = Inr ?e"
    unfolding eq by (simp add: verify_json_def)
  moreover have "get_field lax_usage ''requests_attempted'' = JBool False"
    by (simp add: lax_usage_def derive_usage_def Let_def get_field_def jget_def tool_status_counts_def)
  ultimately show ?thesis by simp
qed

end
