(* ===== verification/Strict_Json.thy ===== *)
theory Strict_Json
  imports Export_Verify
begin

text \<open>
  The fail-closed JSON reader of \<open>corpus/serialization.py\<close>, which the checkpoint store and
  the corpus ledger read their own files with, and the seal a record carries over its own
  content.  A dict is kept in canonical key order (\<open>dict_of\<close>), so that Python's \<open>==\<close> on two
  dicts is equality.  The text of the underlying JSON error is not part of the message here.
\<close>

section \<open>Dicts in canonical order\<close>

fun obj_of :: "json \<Rightarrow> jobject" where
  "obj_of (JObj kvs) = kvs"
| "obj_of _ = []"

definition dict_of :: "jobject \<Rightarrow> jobject" where
  "dict_of kvs = obj_of (jsort (JObj kvs))"

lemma JObj_dict_of: "JObj (dict_of kvs) = jsort (JObj kvs)"
  by (simp add: dict_of_def)

lemma dict_of_idem [simp]: "dict_of (dict_of kvs) = dict_of kvs"
  unfolding dict_of_def [of "dict_of kvs"] JObj_dict_of jsort_idem by (simp add: dict_of_def)

lemma canonical_bytes_dict_of [simp]: "canonical_bytes (JObj (dict_of kvs)) = canonical_bytes (JObj kvs)"
  unfolding JObj_dict_of by (rule canonical_bytes_jsort)

lemma canonical_hash_dict_of [simp]: "canonical_hash H (JObj (dict_of kvs)) = canonical_hash H (JObj kvs)"
  by (simp add: canonical_hash_def)

lemma keys_dict_of [simp]: "fst ` set (dict_of kvs) = fst ` set kvs"
  by (simp add: dict_of_def image_image case_prod_unfold)

lemma distinct_dict_of [simp]: "distinct (map fst (dict_of kvs)) \<longleftrightarrow> distinct (map fst kvs)"
  by (simp add: dict_of_def case_prod_unfold comp_def)

lemma jget_dict_of:
  assumes "distinct (map fst kvs)"
  shows "jget (dict_of kvs) k = map_option jsort (jget kvs k)"
proof -
  have "distinct (map fst (map (\<lambda>(k, v). (k, jsort v)) kvs))"
    using assms by (simp add: case_prod_unfold comp_def)
  with assms show ?thesis
    by (simp add: dict_of_def jget_distinct map_of_sort_key_fst map_of_map_jsort)
qed

lemma get_field_dict_of:
  "distinct (map fst kvs) \<Longrightarrow> get_field (dict_of kvs) k = jsort (get_field kvs k)"
  by (simp add: get_field_def jget_dict_of split: option.split)

lemma dict_properties [simp]:
  "printable (JObj (dict_of kvs)) \<longleftrightarrow> printable (JObj kvs)"
  "utf8_strings (JObj (dict_of kvs)) \<longleftrightarrow> utf8_strings (JObj kvs)"
  unfolding JObj_dict_of by (rule printable_jsort, rule utf8_strings_jsort)

section \<open>The reader\<close>

fun has_constant :: "json \<Rightarrow> bool" where
  "has_constant (JFloat lit) \<longleftrightarrow> lit \<in> {''NaN'', ''Infinity'', ''-Infinity''}"
| "has_constant (JArr vs) \<longleftrightarrow> (\<exists>v \<in> set vs. has_constant v)"
| "has_constant (JObj kvs) \<longleftrightarrow> (\<exists>kv \<in> set kvs. has_constant (snd kv))"
| "has_constant _ \<longleftrightarrow> False"

definition strict_json :: "nat \<Rightarrow> str \<Rightarrow> bytes \<Rightarrow> json res" where
  "strict_json maximum label data =
     (if data = [] \<or> length data > maximum then Inl (CorpusError (label @ '' byte bound differs''))
      else if \<not> utf8_valid data then Inl (CorpusError (label @ '' JSON is invalid''))
      else case json_loads data of
        Inl _ \<Rightarrow> Inl (CorpusError (label @ '' JSON is invalid''))
      | Inr v \<Rightarrow>
          (if has_constant v \<or> \<not> dup_free v then Inl (CorpusError (label @ '' JSON is invalid''))
           else Inr v))"

definition strict_canonical_object :: "nat \<Rightarrow> str \<Rightarrow> bytes \<Rightarrow> jobject res" where
  "strict_canonical_object maximum label data =
     bindE (strict_json maximum label data) (\<lambda>v.
     case v of
       JObj kvs \<Rightarrow>
         (if \<not> utf8_strings v then Inl UnicodeEncodeErr
          else if data \<noteq> canonical_bytes v \<and> data \<noteq> canonical_bytes v @ [CHR 0x0A]
          then Inl (CorpusError (label @ '' is not canonical''))
          else Inr kvs)
     | _ \<Rightarrow> Inl (CorpusError (label @ '' is not an object'')))"

section \<open>Reading back what was written\<close>

definition wire_ok :: "nat \<Rightarrow> jobject \<Rightarrow> bool" where
  "wire_ok maximum kvs \<longleftrightarrow> printable (JObj kvs) \<and> utf8_strings (JObj kvs) \<and> dup_free (JObj kvs)
     \<and> length (canonical_bytes (JObj kvs)) < maximum"

lemma printable_no_constant: "printable v \<Longrightarrow> \<not> has_constant v"
  by (induction v rule: has_constant.induct) auto

lemma strict_read_back:
  assumes "wire_ok maximum kvs"
  shows "strict_canonical_object maximum label (canonical_bytes (JObj kvs) @ [CHR 0x0A]) = Inr (dict_of kvs)"
proof -
  let ?v = "JObj kvs"
  let ?b = "canonical_bytes ?v @ [CHR 0x0A]"
  have w: "printable ?v" "utf8_strings ?v" "dup_free ?v" "length (canonical_bytes ?v) < maximum"
    using assms by (auto simp: wire_ok_def)
  have u: "utf8_valid ?b"
    by (intro utf8_valid_append utf8_valid_canonical [OF w(2)] utf8_valid_ascii) simp
  have l: "json_loads ?b = Inr (JObj (dict_of kvs))"
    using canonical_loads(2) [OF w(1)] by (simp only: JObj_dict_of)
  have d: "dup_free (JObj (dict_of kvs))"
    unfolding JObj_dict_of using w(3) by (rule dup_free_jsort)
  have c: "\<not> has_constant (JObj (dict_of kvs))"
    using w(1) by (intro printable_no_constant) (simp only: dict_properties)
  have u2: "utf8_strings (JObj (dict_of kvs))" using w(2) by (simp only: dict_properties)
  have s: "strict_json maximum label ?b = Inr (JObj (dict_of kvs))"
    using w(4) u l d c unfolding strict_json_def by simp
  show ?thesis
    unfolding strict_canonical_object_def s bindE_Inr json.case
    using u2 by (simp del: utf8_strings.simps)
qed

lemma strict_canonical_object_bytes:
  assumes "strict_canonical_object maximum label data = Inr kvs"
  shows "data = canonical_bytes (JObj kvs) \<or> data = canonical_bytes (JObj kvs) @ [CHR 0x0A]"
    and "dup_free (JObj kvs)" and "length data \<le> maximum"
  using assms
  by (auto simp: strict_canonical_object_def strict_json_def bindE_eq_Inr simp del: dup_free.simps(2)
      split: if_splits sum.splits json.splits)

section \<open>Seals\<close>

definition content_hash_of :: "hexdigest \<Rightarrow> str \<Rightarrow> jobject \<Rightarrow> str" where
  "content_hash_of H field value = canonical_hash H (JObj (dict_put field JNull value))"

definition sealed :: "hexdigest \<Rightarrow> str \<Rightarrow> jobject \<Rightarrow> jobject" where
  "sealed H field value = dict_put field (JStr (content_hash_of H field value)) value"

definition verify_sealed :: "hexdigest \<Rightarrow> str \<Rightarrow> str \<Rightarrow> jobject \<Rightarrow> jobject res" where
  "verify_sealed H field label value =
     bindE (ensure (valid_hash (text_of (get_field value field)))
       (CorpusError (label @ '' '' @ field @ '' is not a sha256 value''))) (\<lambda>_.
     bindE (ensure (JStr (content_hash_of H field value) = get_field value field)
       (CorpusError (label @ '' '' @ field @ '' does not match its content''))) (\<lambda>_.
     Inr value))"

lemma dict_put_overwrite [simp]: "dict_put k v (dict_put k w kvs) = dict_put k v kvs"
  by (induction k w kvs rule: dict_put.induct) auto

lemma content_hash_of_sealed [simp]: "content_hash_of H f (dict_put f v kvs) = content_hash_of H f kvs"
  by (simp add: content_hash_of_def)

lemma keys_dict_put [simp]: "fst ` set (dict_put k v kvs) = insert k (fst ` set kvs)"
  by (induction k v kvs rule: dict_put.induct) (simp_all add: insert_commute)

lemma distinct_dict_put [simp]: "distinct (map fst kvs) \<Longrightarrow> distinct (map fst (dict_put k v kvs))"
  by (induction k v kvs rule: dict_put.induct) auto

lemma map_of_dict_put: "map_of (dict_put k v kvs) = (map_of kvs)(k \<mapsto> v)"
  by (induction k v kvs rule: dict_put.induct) auto

lemma get_field_dict_put:
  "distinct (map fst kvs) \<Longrightarrow> get_field (dict_put k v kvs) k' = (if k' = k then v else get_field kvs k')"
  by (simp add: get_field_def jget_distinct map_of_dict_put)

lemma verify_sealed_sealed:
  assumes "distinct (map fst kvs)" and "digest H"
  shows "verify_sealed H field label (sealed H field kvs) = Inr (sealed H field kvs)"
proof -
  have "valid_hash (content_hash_of H field kvs)"
    using digest.valid_hash_digest [OF assms(2)]
    by (simp add: content_hash_of_def canonical_hash_def sha256_bytes_def)
  with assms(1) show ?thesis
    by (simp add: verify_sealed_def sealed_def get_field_dict_put)
qed

end
