(* ===== verification/Checkpoint.thy ===== *)
theory Checkpoint
  imports Strict_Json
begin

text \<open>
  \<open>campaign/checkpoint.py\<close>: the append-only store of action intents and terminal records.
  The directory of the store is a list of named files (the first entry of a name counts).
  \<open>os.write\<close> writes the whole record; the lock of \<open>_ensure_intent\<close> and \<open>complete\<close> makes
  each of them one atomic operation.  Requests and results are JSON dicts in canonical key
  order (\<open>dict_of\<close>); a value \<open>json.dumps\<close> cannot encode raises before anything is written.
\<close>

section \<open>Files\<close>

type_synonym disk = "(str \<times> bytes) list"

definition disk_get :: "disk \<Rightarrow> str \<Rightarrow> bytes option" where
  "disk_get d name = map_of d name"

definition disk_put :: "str \<Rightarrow> bytes \<Rightarrow> disk \<Rightarrow> disk" where
  "disk_put name content d = (name, content) # filter (\<lambda>(n, _). n \<noteq> name) d"

definition partial_name :: "str \<Rightarrow> str" where
  "partial_name name = name @ ''.partial''"

definition checkpoint_schema_version :: str where
  "checkpoint_schema_version = ''adaivy.campaign-action-checkpoint.v1''"

definition pad6 :: "nat \<Rightarrow> str" where
  "pad6 n = replicate (6 - length (nat_str n)) (CHR ''0'') @ nat_str n"

definition checkpoint_path :: "int \<Rightarrow> str \<Rightarrow> str res" where
  "checkpoint_path sequence suffix =
     bindE (ensure (1 \<le> sequence) (CheckpointError ''checkpoint sequence must be positive'')) (\<lambda>_.
     Inr (pad6 (nat sequence) @ ''.'' @ suffix @ ''.json''))"

text \<open>
  \<open>_write_once\<close>: an existing file must already hold the same bytes; otherwise the bytes go
  to a temporary file opened with \<open>O_EXCL\<close>, which then takes the name.
\<close>

definition write_once :: "str \<Rightarrow> jobject \<Rightarrow> disk \<Rightarrow> disk \<times> unit res" where
  "write_once name value d =
     (let rendered = canonical_bytes (JObj value) @ [CHR 0x0A] in
      if \<not> utf8_strings (JObj value) then (d, Inl UnicodeEncodeErr)
      else case disk_get d name of
        Some b \<Rightarrow>
          (d, ensure (b = rendered) (CheckpointError (''checkpoint overwrite refused: '' @ name)))
      | None \<Rightarrow>
          (if disk_get d (partial_name name) \<noteq> None then (d, Inl FileExistsErr)
           else (disk_put name rendered d, Inr ())))"

text \<open>The process stops inside \<open>_write_once\<close>, after \<open>k\<close> bytes reached the temporary file.\<close>

definition torn_write :: "str \<Rightarrow> jobject \<Rightarrow> nat \<Rightarrow> disk \<Rightarrow> disk" where
  "torn_write name value k d =
     (if disk_get d name = None \<and> disk_get d (partial_name name) = None
      then disk_put (partial_name name) (take k (canonical_bytes (JObj value) @ [CHR 0x0A])) d
      else d)"

section \<open>Loading\<close>

definition checkpoint_maximum :: nat where
  "checkpoint_maximum = 16777216"

definition intent_fields :: "str list" where
  "intent_fields =
     [''schema_version'', ''record_type'', ''campaign_id'', ''sequence'', ''action_type'',
      ''request'', ''request_hash'', ''idempotency_key'', ''paid_or_irreversible'',
      ''recorded_at'', ''content_hash'']"

definition terminal_fields :: "str list" where
  "terminal_fields =
     [''schema_version'', ''record_type'', ''campaign_id'', ''sequence'', ''action_type'',
      ''intent_hash'', ''idempotency_key'', ''status'', ''result'', ''result_hash'',
      ''recorded_at'', ''content_hash'']"

definition without_hash :: "jobject \<Rightarrow> jobject" where
  "without_hash kvs = filter (\<lambda>(k, _). k \<noteq> ''content_hash'') kvs"

definition idempotency_key :: "hexdigest \<Rightarrow> str \<Rightarrow> int \<Rightarrow> json \<Rightarrow> json \<Rightarrow> str" where
  "idempotency_key H campaign sequence ty request_hash =
     canonical_hash H (JObj
       [(''campaign_id'', JStr campaign), (''sequence'', JInt sequence),
        (''action_type'', ty), (''request_hash'', request_hash)])"

fun is_object :: "json \<Rightarrow> bool" where
  "is_object (JObj _) = True"
| "is_object _ = False"

fun is_boolean :: "json \<Rightarrow> bool" where
  "is_boolean (JBool _) = True"
| "is_boolean _ = False"

definition status_guard :: "json \<Rightarrow> unit res" where
  "status_guard j =
     (case j of
        JArr _ \<Rightarrow> Inl TypeErr
      | JObj _ \<Rightarrow> Inl TypeErr
      | _ \<Rightarrow> ensure (j \<in> set (map (\<lambda>s. JStr (status_value s)) all_statuses))
               (CheckpointError ''action terminal status differs''))"

definition common_checks ::
  "hexdigest \<Rightarrow> str \<Rightarrow> int \<Rightarrow> str \<Rightarrow> str list \<Rightarrow> jobject \<Rightarrow> unit res list" where
  "common_checks H campaign sequence kind expected v =
     [ensure (get_field v ''content_hash'' = JStr (canonical_hash H (JObj (without_hash v))))
        (CheckpointError ''campaign checkpoint content hash differs''),
      ensure (set (map fst v) = set expected) (CheckpointError ''campaign checkpoint fields differ''),
      ensure (get_field v ''schema_version'' = JStr checkpoint_schema_version)
        (CheckpointError ''campaign checkpoint schema differs''),
      ensure (get_field v ''record_type'' = JStr (''action_'' @ kind))
        (CheckpointError ''campaign checkpoint record type differs''),
      ensure (get_field v ''campaign_id'' = JStr campaign
              \<and> py_eq (get_field v ''sequence'') (JInt sequence))
        (CheckpointError ''campaign checkpoint identity differs''),
      ensure (enum_of action_type_value all_action_types (get_field v ''action_type'') \<noteq> None)
        (CheckpointError ''campaign checkpoint action type differs''),
      ensure (text_of (get_field v ''recorded_at'') \<noteq> [])
        (CheckpointError ''campaign checkpoint recorded_at differs'')]"

definition intent_checks :: "hexdigest \<Rightarrow> str \<Rightarrow> int \<Rightarrow> jobject \<Rightarrow> unit res list" where
  "intent_checks H campaign sequence v =
     [ensure (is_object (get_field v ''request'')) (CheckpointError ''action intent request differs''),
      ensure (get_field v ''request_hash'' = JStr (canonical_hash H (get_field v ''request'')))
        (CheckpointError ''action intent request hash differs''),
      ensure (get_field v ''idempotency_key''
                = JStr (idempotency_key H campaign sequence
                    (get_field v ''action_type'') (get_field v ''request_hash'')))
        (CheckpointError ''action intent idempotency key differs''),
      ensure (is_boolean (get_field v ''paid_or_irreversible''))
        (CheckpointError ''action intent effect classification differs'')]"

definition terminal_checks :: "hexdigest \<Rightarrow> jobject \<Rightarrow> unit res list" where
  "terminal_checks H v =
     [status_guard (get_field v ''status''),
      ensure (is_object (get_field v ''result'')) (CheckpointError ''action terminal result differs''),
      ensure (get_field v ''result_hash'' = JStr (canonical_hash H (get_field v ''result'')))
        (CheckpointError ''action terminal result hash differs'')]"

definition read_checkpoint :: "disk \<Rightarrow> int \<Rightarrow> str \<Rightarrow> jobject option res" where
  "read_checkpoint d sequence kind =
     bindE (checkpoint_path sequence kind) (\<lambda>path.
     case disk_get d path of
       None \<Rightarrow> Inr None
     | Some data \<Rightarrow>
         bindE (strict_canonical_object checkpoint_maximum ''campaign checkpoint'' data) (\<lambda>v.
         Inr (Some v)))"

definition load_intent :: "hexdigest \<Rightarrow> str \<Rightarrow> int \<Rightarrow> disk \<Rightarrow> jobject option res" where
  "load_intent H campaign sequence d =
     bindE (read_checkpoint d sequence ''intent'') (\<lambda>r.
     case r of
       None \<Rightarrow> Inr None
     | Some v \<Rightarrow>
         bindE (checks (common_checks H campaign sequence ''intent'' intent_fields v
                  @ intent_checks H campaign sequence v)) (\<lambda>_.
         Inr (Some v)))"

definition load_terminal :: "hexdigest \<Rightarrow> str \<Rightarrow> int \<Rightarrow> disk \<Rightarrow> jobject option res" where
  "load_terminal H campaign sequence d =
     bindE (read_checkpoint d sequence ''terminal'') (\<lambda>r.
     case r of
       None \<Rightarrow> Inr None
     | Some v \<Rightarrow>
         bindE (checks (common_checks H campaign sequence ''terminal'' terminal_fields v
                  @ terminal_checks H v)) (\<lambda>_.
         bindE (load_intent H campaign sequence d) (\<lambda>i.
         case i of
           None \<Rightarrow> Inl (CheckpointError ''action terminal has no intent'')
         | Some intent \<Rightarrow>
             bindE (ensure (get_field v ''intent_hash'' = get_field intent ''content_hash''
                        \<and> get_field v ''idempotency_key'' = get_field intent ''idempotency_key''
                        \<and> get_field v ''action_type'' = get_field intent ''action_type'')
                      (CheckpointError ''action terminal binding differs'')) (\<lambda>_.
             Inr (Some v)))))"

section \<open>Writing\<close>

record exec_args =
  xa_action_type :: action_type
  xa_request :: jobject
  xa_paid :: bool
  xa_recorded_at :: str

definition with_content_hash :: "hexdigest \<Rightarrow> jobject \<Rightarrow> jobject" where
  "with_content_hash H kvs =
     dict_of (kvs @ [(''content_hash'', JStr (canonical_hash H (JObj kvs)))])"

definition intent_core :: "hexdigest \<Rightarrow> str \<Rightarrow> int \<Rightarrow> exec_args \<Rightarrow> jobject" where
  "intent_core H campaign sequence a =
     (let ty = JStr (action_type_value (xa_action_type a));
          rh = JStr (canonical_hash H (JObj (xa_request a)))
      in [(''schema_version'', JStr checkpoint_schema_version),
         (''record_type'', JStr ''action_intent''),
         (''campaign_id'', JStr campaign),
         (''sequence'', JInt sequence),
         (''action_type'', ty),
         (''request'', JObj (xa_request a)),
         (''request_hash'', rh),
         (''idempotency_key'', JStr (idempotency_key H campaign sequence ty rh)),
         (''paid_or_irreversible'', JBool (xa_paid a)),
         (''recorded_at'', JStr (xa_recorded_at a))])"

definition intent_value :: "hexdigest \<Rightarrow> str \<Rightarrow> int \<Rightarrow> exec_args \<Rightarrow> jobject" where
  "intent_value H campaign sequence a = with_content_hash H (intent_core H campaign sequence a)"

text \<open>\<open>_ensure_intent\<close>: the stored intent, and whether this call created it.\<close>

definition ensure_intent ::
  "hexdigest \<Rightarrow> str \<Rightarrow> int \<Rightarrow> exec_args \<Rightarrow> disk \<Rightarrow> disk \<times> (jobject \<times> bool) res" where
  "ensure_intent H campaign sequence a d =
     (let value = intent_value H campaign sequence a in
      if \<not> utf8_strings (JObj value) then (d, Inl UnicodeEncodeErr)
      else case load_intent H campaign sequence d of
        Inl e \<Rightarrow> (d, Inl e)
      | Inr (Some existing) \<Rightarrow>
          (if existing \<noteq> value
           then (d, Inl (CheckpointError ''sequence already has a different action intent''))
           else (d, Inr (existing, False)))
      | Inr None \<Rightarrow>
          (case checkpoint_path sequence ''intent'' of
             Inl e \<Rightarrow> (d, Inl e)
           | Inr path \<Rightarrow>
               (case write_once path value d of
                  (d', Inl e) \<Rightarrow> (d', Inl e)
                | (d', Inr _) \<Rightarrow> (d', Inr (value, True)))))"

definition terminal_core ::
  "hexdigest \<Rightarrow> str \<Rightarrow> int \<Rightarrow> jobject \<Rightarrow> record_status \<Rightarrow> jobject \<Rightarrow> str \<Rightarrow> jobject" where
  "terminal_core H campaign sequence intent status result now =
       [(''schema_version'', JStr checkpoint_schema_version),
        (''record_type'', JStr ''action_terminal''),
        (''campaign_id'', JStr campaign),
        (''sequence'', JInt sequence),
        (''action_type'', get_field intent ''action_type''),
        (''intent_hash'', get_field intent ''content_hash''),
        (''idempotency_key'', get_field intent ''idempotency_key''),
        (''status'', JStr (status_value status)),
        (''result'', JObj result),
        (''result_hash'', JStr (canonical_hash H (JObj result))),
        (''recorded_at'', JStr now)]"

definition terminal_value ::
  "hexdigest \<Rightarrow> str \<Rightarrow> int \<Rightarrow> jobject \<Rightarrow> record_status \<Rightarrow> jobject \<Rightarrow> str \<Rightarrow> jobject" where
  "terminal_value H campaign sequence intent status result now =
     with_content_hash H (terminal_core H campaign sequence intent status result now)"

text \<open>\<open>complete\<close>; its status is one of the three by its type.\<close>

definition complete_action ::
  "hexdigest \<Rightarrow> str \<Rightarrow> int \<Rightarrow> jobject \<Rightarrow> record_status \<Rightarrow> jobject \<Rightarrow> str \<Rightarrow> disk
     \<Rightarrow> disk \<times> jobject res" where
  "complete_action H campaign sequence intent status result now d =
     (case load_intent H campaign sequence d of
        Inl e \<Rightarrow> (d, Inl e)
      | Inr stored \<Rightarrow>
          (if stored \<noteq> Some intent
           then (d, Inl (CheckpointError ''terminal completion does not bind the stored intent''))
           else
             let value = terminal_value H campaign sequence intent status result now in
             case checkpoint_path sequence ''terminal'' of
               Inl e \<Rightarrow> (d, Inl e)
             | Inr path \<Rightarrow>
                 (case write_once path value d of
                    (d', Inl e) \<Rightarrow> (d', Inl e)
                  | (d', Inr _) \<Rightarrow> (d', Inr value))))"

text \<open>What the effect callback does: raise an exception of some class, or return a dict.\<close>

type_synonym effect = "str \<Rightarrow> str + jobject"

definition finish_action ::
  "hexdigest \<Rightarrow> str \<Rightarrow> int \<Rightarrow> str \<Rightarrow> jobject \<Rightarrow> str + jobject \<Rightarrow> disk \<Rightarrow> disk \<times> jobject res" where
  "finish_action H campaign sequence now intent outcome d =
     (case outcome of
        Inl cls \<Rightarrow>
          complete_action H campaign sequence intent Failed [(''error_class'', JStr cls)] now d
      | Inr result \<Rightarrow> complete_action H campaign sequence intent Completed result now d)"

text \<open>The decision of \<open>execute\<close> once the intent is stored: \<open>None\<close> to go on to the effect.\<close>

definition settle ::
  "hexdigest \<Rightarrow> str \<Rightarrow> int \<Rightarrow> disk \<Rightarrow> jobject option \<Rightarrow> jobject \<Rightarrow> bool \<Rightarrow> jobject res option" where
  "settle H campaign sequence d prior intent created =
     (case (if prior = None then load_terminal H campaign sequence d else Inr prior) of
        Inl e \<Rightarrow> Some (Inl e)
      | Inr (Some terminal) \<Rightarrow>
          Some (if get_field terminal ''intent_hash'' \<noteq> get_field intent ''content_hash''
                then Inl (CheckpointError ''terminal checkpoint binds another intent'')
                else Inr terminal)
      | Inr None \<Rightarrow>
          (if \<not> created \<and> get_field intent ''paid_or_irreversible'' = JBool True
           then Some (Inl (AmbiguousEffectError
                  ''an action intent exists without a terminal record''))
           else None))"

text \<open>
  \<open>execute\<close>: the disk afterwards, the idempotency keys the effect was called with, and the
  terminal record or the error.
\<close>

definition execute ::
  "hexdigest \<Rightarrow> str \<Rightarrow> int \<Rightarrow> exec_args \<Rightarrow> effect \<Rightarrow> disk \<Rightarrow> disk \<times> str list \<times> jobject res" where
  "execute H campaign sequence a eff d =
     (case load_terminal H campaign sequence d of
        Inl e \<Rightarrow> (d, [], Inl e)
      | Inr prior \<Rightarrow>
          (case ensure_intent H campaign sequence a d of
             (d1, Inl e) \<Rightarrow> (d1, [], Inl e)
           | (d1, Inr (intent, created)) \<Rightarrow>
               (case settle H campaign sequence d1 prior intent created of
                  Some r \<Rightarrow> (d1, [], r)
                | None \<Rightarrow>
                    let key = text_of (get_field intent ''idempotency_key'') in
                    (case finish_action H campaign sequence (xa_recorded_at a) intent (eff key) d1 of
                       (d2, r) \<Rightarrow> (d2, [key], r)))))"

text \<open>\<open>completed\<close>: the terminal records in the order of their file names.\<close>

definition ends_with :: "str \<Rightarrow> str \<Rightarrow> bool" where
  "ends_with suffix s \<longleftrightarrow> starts_with (rev suffix) (rev s)"

definition terminal_names :: "disk \<Rightarrow> str list" where
  "terminal_names d = sort (remdups (filter (ends_with ''.terminal.json'') (map fst d)))"

definition completed_actions :: "hexdigest \<Rightarrow> str \<Rightarrow> disk \<Rightarrow> jobject option list res" where
  "completed_actions H campaign d =
     mapE (\<lambda>name. load_terminal H campaign (int (str_nat (takeWhile (\<lambda>c. c \<noteq> CHR ''.'') name))) d)
       (terminal_names d)"

section \<open>Several processes\<close>

text \<open>
  Any number of processes may call \<open>execute\<close> for one sequence of one store, each stopping at
  any moment; a restarted process is a new one.  A process is at one point of \<open>execute\<close>:
  before it, with the terminal record it loaded first, with its intent, cleared to run the
  effect, with the outcome of the effect, returned, or stopped.  \<open>sy_effects\<close> and
  \<open>sy_created\<close> list the processes that ran the effect and that created the intent.
\<close>

datatype pc =
    Idle
  | Loaded "jobject option"
  | Intended "jobject option" jobject bool
  | Cleared jobject
  | Performed jobject "str + jobject"
  | Finished "jobject res"
  | Stopped

record sys =
  sy_disk :: disk
  sy_pc :: "nat \<Rightarrow> pc"
  sy_effects :: "nat list"
  sy_created :: "nat list"

definition goto :: "nat \<Rightarrow> pc \<Rightarrow> sys \<Rightarrow> sys" where
  "goto i p s = s\<lparr>sy_pc := (sy_pc s)(i := p)\<rparr>"

inductive exec_step :: "hexdigest \<Rightarrow> str \<Rightarrow> int \<Rightarrow> (nat \<Rightarrow> exec_args) \<Rightarrow> sys \<Rightarrow> sys \<Rightarrow> bool"
  for H campaign sequence args where
  load: "sy_pc s i = Idle \<Longrightarrow> load_terminal H campaign sequence (sy_disk s) = Inr prior \<Longrightarrow>
    exec_step H campaign sequence args s (goto i (Loaded prior) s)"
| load_error: "sy_pc s i = Idle \<Longrightarrow> load_terminal H campaign sequence (sy_disk s) = Inl e \<Longrightarrow>
    exec_step H campaign sequence args s (goto i (Finished (Inl e)) s)"
| intend: "sy_pc s i = Loaded prior \<Longrightarrow>
    ensure_intent H campaign sequence (args i) (sy_disk s) = (d, Inr (intent, created)) \<Longrightarrow>
    exec_step H campaign sequence args s
      (goto i (Intended prior intent created)
        (s\<lparr>sy_disk := d, sy_created := sy_created s @ (if created then [i] else [])\<rparr>))"
| intend_error: "sy_pc s i = Loaded prior \<Longrightarrow>
    ensure_intent H campaign sequence (args i) (sy_disk s) = (d, Inl e) \<Longrightarrow>
    exec_step H campaign sequence args s (goto i (Finished (Inl e)) (s\<lparr>sy_disk := d\<rparr>))"
| intend_torn: "sy_pc s i = Loaded prior \<Longrightarrow> checkpoint_path sequence ''intent'' = Inr p \<Longrightarrow>
    exec_step H campaign sequence args s
      (goto i Stopped (s\<lparr>sy_disk := torn_write p v k (sy_disk s)\<rparr>))"
| settled: "sy_pc s i = Intended prior intent created \<Longrightarrow>
    settle H campaign sequence (sy_disk s) prior intent created = Some r \<Longrightarrow>
    exec_step H campaign sequence args s (goto i (Finished r) s)"
| cleared: "sy_pc s i = Intended prior intent created \<Longrightarrow>
    settle H campaign sequence (sy_disk s) prior intent created = None \<Longrightarrow>
    exec_step H campaign sequence args s (goto i (Cleared intent) s)"
| effect: "sy_pc s i = Cleared intent \<Longrightarrow>
    exec_step H campaign sequence args s
      (goto i (Performed intent outcome) (s\<lparr>sy_effects := sy_effects s @ [i]\<rparr>))"
| complete: "sy_pc s i = Performed intent outcome \<Longrightarrow>
    finish_action H campaign sequence (xa_recorded_at (args i)) intent outcome (sy_disk s) = (d, r) \<Longrightarrow>
    exec_step H campaign sequence args s (goto i (Finished r) (s\<lparr>sy_disk := d\<rparr>))"
| complete_torn: "sy_pc s i = Performed intent outcome \<Longrightarrow>
    checkpoint_path sequence ''terminal'' = Inr p \<Longrightarrow>
    exec_step H campaign sequence args s
      (goto i Stopped (s\<lparr>sy_disk := torn_write p v k (sy_disk s)\<rparr>))"
| stop: "exec_step H campaign sequence args s (goto i Stopped s)"

definition sys_start :: "disk \<Rightarrow> sys" where
  "sys_start d = \<lparr>sy_disk = d, sy_pc = (\<lambda>_. Idle), sy_effects = [], sy_created = []\<rparr>"

inductive exec_reach :: "hexdigest \<Rightarrow> str \<Rightarrow> int \<Rightarrow> (nat \<Rightarrow> exec_args) \<Rightarrow> disk \<Rightarrow> sys \<Rightarrow> bool"
  for H campaign sequence args d where
  start: "exec_reach H campaign sequence args d (sys_start d)"
| step: "exec_reach H campaign sequence args d s \<Longrightarrow> exec_step H campaign sequence args s s' \<Longrightarrow>
    exec_reach H campaign sequence args d s'"

end
