(* ===== verification/Checkpoint_Store.thy ===== *)
theory Checkpoint_Store
  imports Checkpoint
begin

text \<open>
  Lemmas on the checkpoint store: files are written once, a stored record loads as itself, and
  the three phases of \<open>execute\<close> only add the intent and the terminal file of their sequence.
\<close>

section \<open>Files\<close>

lemma disk_get_put [simp]: "disk_get (disk_put n b d) m = (if m = n then Some b else disk_get d m)"
proof -
  have "map_of (filter (\<lambda>(k, _). k \<noteq> n) d) m = (if m = n then None else map_of d m)"
    by (induction d) auto
  then show ?thesis by (simp add: disk_get_def disk_put_def)
qed

lemma partial_name_neq [simp]: "partial_name n \<noteq> n" "n \<noteq> partial_name n"
  by (simp_all add: partial_name_def)

lemma write_once_keeps:
  "write_once name v d = (d', r) \<Longrightarrow> disk_get d n = Some b \<Longrightarrow> disk_get d' n = Some b"
  by (auto simp: write_once_def Let_def split: if_splits option.splits)

lemma write_once_ok:
  assumes "write_once name v d = (d', Inr u)"
  shows "disk_get d' name = Some (canonical_bytes (JObj v) @ [CHR 0x0A])"
    and "m \<noteq> name \<Longrightarrow> disk_get d' m = disk_get d m"
    and "disk_get d name = None \<or> d' = d"
  using assms by (auto simp: write_once_def Let_def split: if_splits option.splits)

lemma write_once_fails: "write_once name v d = (d', Inl e) \<Longrightarrow> d' = d"
  by (auto simp: write_once_def Let_def split: if_splits option.splits)

lemma torn_write_keeps: "n \<noteq> partial_name name \<Longrightarrow> disk_get (torn_write name v k d) n = disk_get d n"
  by (simp add: torn_write_def)

lemma path_suffix:
  "checkpoint_path sequence s = Inr p \<Longrightarrow> p = pad6 (nat sequence) @ ''.'' @ s @ ''.json''"
  by (simp add: checkpoint_path_def bindE_eq_Inr)

lemma checkpoint_path_ok:
  "1 \<le> sequence \<Longrightarrow> checkpoint_path sequence s = Inr (pad6 (nat sequence) @ ''.'' @ s @ ''.json'')"
  by (simp add: checkpoint_path_def)

lemma path_distinct:
  assumes "checkpoint_path sequence ''intent'' = Inr p" and "checkpoint_path sequence ''terminal'' = Inr q"
  shows "p \<noteq> q" and "partial_name p \<noteq> q" and "partial_name q \<noteq> p"
  using path_suffix [OF assms(1)] path_suffix [OF assms(2)] by (simp_all add: partial_name_def)

section \<open>Stored records\<close>

lemma with_content_hash_fields:
  assumes "distinct (map fst kvs)" and "''content_hash'' \<notin> fst ` set kvs"
  shows "get_field (with_content_hash H kvs) ''content_hash'' = JStr (canonical_hash H (JObj kvs))"
    and "k \<noteq> ''content_hash'' \<Longrightarrow> get_field (with_content_hash H kvs) k = jsort (get_field kvs k)"
    and "fst ` set (with_content_hash H kvs) = insert ''content_hash'' (fst ` set kvs)"
    and "canonical_hash H (JObj (without_hash (with_content_hash H kvs))) = canonical_hash H (JObj kvs)"
proof -
  let ?all = "kvs @ [(''content_hash'', JStr (canonical_hash H (JObj kvs)))]"
  have d: "distinct (map fst ?all)" using assms by auto
  have m: "map_of ?all ''content_hash'' = Some (JStr (canonical_hash H (JObj kvs)))"
    using assms(2) by (simp add: map_add_def map_of_eq_None_iff [THEN iffD2] split: option.split)
  show "get_field (with_content_hash H kvs) ''content_hash'' = JStr (canonical_hash H (JObj kvs))"
    unfolding with_content_hash_def get_field_dict_of [OF d]
    using d m by (simp add: get_field_def jget_distinct)
  have n: "map_of ?all k = map_of kvs k" if "k \<noteq> ''content_hash''"
    using that by (simp add: map_add_def split: option.split)
  show "get_field (with_content_hash H kvs) k = jsort (get_field kvs k)" if "k \<noteq> ''content_hash''"
    unfolding with_content_hash_def get_field_dict_of [OF d]
    using assms(1) n [OF that] d by (simp add: get_field_def jget_distinct)
  show "fst ` set (with_content_hash H kvs) = insert ''content_hash'' (fst ` set kvs)"
    by (simp add: with_content_hash_def)
  have "filter (\<lambda>x. fst x \<noteq> ''content_hash'') kvs = kvs"
    using assms(2) by (induction kvs) auto
  then have "without_hash (dict_of ?all) = dict_of kvs"
    by (simp add: without_hash_def dict_of_def filter_sort case_prod_unfold filter_map comp_def)
  then show "canonical_hash H (JObj (without_hash (with_content_hash H kvs))) = canonical_hash H (JObj kvs)"
    by (simp add: with_content_hash_def)
qed

lemma dict_of_with_content_hash [simp]: "dict_of (with_content_hash H kvs) = with_content_hash H kvs"
  by (simp add: with_content_hash_def)

lemma canonical_hash_jsort [simp]: "canonical_hash H (jsort v) = canonical_hash H v"
  by (simp add: canonical_hash_def)

lemma set_all_statuses: "st \<in> set all_statuses"
  by (cases st) (simp_all add: all_statuses_def)

definition intent_storable :: "hexdigest \<Rightarrow> str \<Rightarrow> int \<Rightarrow> exec_args \<Rightarrow> bool" where
  "intent_storable H campaign sequence a \<longleftrightarrow>
     1 \<le> sequence \<and> xa_recorded_at a \<noteq> [] \<and> wire_ok checkpoint_maximum (intent_value H campaign sequence a)"

text \<open>The fields of the two records before their content hash is added.\<close>

lemma intent_core_fields:
  "get_field (intent_core H campaign sequence a) ''schema_version'' = JStr checkpoint_schema_version"
  "get_field (intent_core H campaign sequence a) ''record_type'' = JStr ''action_intent''"
  "get_field (intent_core H campaign sequence a) ''campaign_id'' = JStr campaign"
  "get_field (intent_core H campaign sequence a) ''sequence'' = JInt sequence"
  "get_field (intent_core H campaign sequence a) ''action_type'' = JStr (action_type_value (xa_action_type a))"
  "get_field (intent_core H campaign sequence a) ''request'' = JObj (xa_request a)"
  "get_field (intent_core H campaign sequence a) ''request_hash'' = JStr (canonical_hash H (JObj (xa_request a)))"
  "get_field (intent_core H campaign sequence a) ''idempotency_key'' =
     JStr (idempotency_key H campaign sequence (JStr (action_type_value (xa_action_type a)))
       (JStr (canonical_hash H (JObj (xa_request a)))))"
  "get_field (intent_core H campaign sequence a) ''paid_or_irreversible'' = JBool (xa_paid a)"
  "get_field (intent_core H campaign sequence a) ''recorded_at'' = JStr (xa_recorded_at a)"
  by (simp_all add: intent_core_def Let_def get_field_def jget_def)

lemma intent_core_keys:
  "distinct (map fst (intent_core H campaign sequence a))"
  "''content_hash'' \<notin> fst ` set (intent_core H campaign sequence a)"
  "insert ''content_hash'' (fst ` set (intent_core H campaign sequence a)) = set intent_fields"
  by (simp_all add: intent_core_def Let_def) (rule equalityI; simp add: intent_fields_def)

lemma terminal_core_fields:
  "get_field (terminal_core H campaign sequence i st r now) ''schema_version'' = JStr checkpoint_schema_version"
  "get_field (terminal_core H campaign sequence i st r now) ''record_type'' = JStr ''action_terminal''"
  "get_field (terminal_core H campaign sequence i st r now) ''campaign_id'' = JStr campaign"
  "get_field (terminal_core H campaign sequence i st r now) ''sequence'' = JInt sequence"
  "get_field (terminal_core H campaign sequence i st r now) ''action_type'' = get_field i ''action_type''"
  "get_field (terminal_core H campaign sequence i st r now) ''intent_hash'' = get_field i ''content_hash''"
  "get_field (terminal_core H campaign sequence i st r now) ''idempotency_key'' = get_field i ''idempotency_key''"
  "get_field (terminal_core H campaign sequence i st r now) ''status'' = JStr (status_value st)"
  "get_field (terminal_core H campaign sequence i st r now) ''result'' = JObj r"
  "get_field (terminal_core H campaign sequence i st r now) ''result_hash'' = JStr (canonical_hash H (JObj r))"
  "get_field (terminal_core H campaign sequence i st r now) ''recorded_at'' = JStr now"
  by (simp_all add: terminal_core_def get_field_def [of "_ # _"] jget_def)

lemma terminal_core_keys:
  "distinct (map fst (terminal_core H campaign sequence i st r now))"
  "''content_hash'' \<notin> fst ` set (terminal_core H campaign sequence i st r now)"
  "insert ''content_hash'' (fst ` set (terminal_core H campaign sequence i st r now)) = set terminal_fields"
  by (simp_all add: terminal_core_def) (rule equalityI; simp add: terminal_fields_def)

lemma intent_value_fields:
  "get_field (intent_value H campaign sequence a) ''content_hash'' = JStr (canonical_hash H (JObj (intent_core H campaign sequence a)))"
  "k \<noteq> ''content_hash'' \<Longrightarrow> get_field (intent_value H campaign sequence a) k = jsort (get_field (intent_core H campaign sequence a) k)"
  "fst ` set (intent_value H campaign sequence a) = insert ''content_hash'' (fst ` set (intent_core H campaign sequence a))"
  "canonical_hash H (JObj (without_hash (intent_value H campaign sequence a))) = canonical_hash H (JObj (intent_core H campaign sequence a))"
  unfolding intent_value_def
  by (simp_all add: with_content_hash_fields [OF intent_core_keys(1,2)])

lemma terminal_value_fields:
  "get_field (terminal_value H campaign sequence i st r now) ''content_hash'' = JStr (canonical_hash H (JObj (terminal_core H campaign sequence i st r now)))"
  "k \<noteq> ''content_hash'' \<Longrightarrow> get_field (terminal_value H campaign sequence i st r now) k = jsort (get_field (terminal_core H campaign sequence i st r now) k)"
  "fst ` set (terminal_value H campaign sequence i st r now) = insert ''content_hash'' (fst ` set (terminal_core H campaign sequence i st r now))"
  "canonical_hash H (JObj (without_hash (terminal_value H campaign sequence i st r now))) = canonical_hash H (JObj (terminal_core H campaign sequence i st r now))"
  unfolding terminal_value_def
  by (simp_all add: with_content_hash_fields [OF terminal_core_keys(1,2)])

lemma intent_value_checks:
  assumes "intent_storable H campaign sequence a"
  shows "checks (common_checks H campaign sequence ''intent'' intent_fields
            (intent_value H campaign sequence a)
          @ intent_checks H campaign sequence (intent_value H campaign sequence a)) = Inr ()"
  using assms
  by (simp add: checks_Inr common_checks_def intent_checks_def intent_storable_def
      intent_value_fields intent_core_fields intent_core_keys action_type.enum_of_value
      JObj_dict_of [symmetric] del: jsort.simps(2))

lemma read_checkpoint_written:
  assumes "checkpoint_path sequence kind = Inr p"
    and "disk_get d p = Some (canonical_bytes (JObj v) @ [CHR 0x0A])"
    and "wire_ok checkpoint_maximum v"
  shows "read_checkpoint d sequence kind = Inr (Some (dict_of v))"
  using assms strict_read_back [OF assms(3)] by (simp add: read_checkpoint_def)

lemma load_intent_written:
  assumes "intent_storable H campaign sequence a"
    and "checkpoint_path sequence ''intent'' = Inr p"
    and "disk_get d p = Some (canonical_bytes (JObj (intent_value H campaign sequence a)) @ [CHR 0x0A])"
  shows "load_intent H campaign sequence d = Inr (Some (intent_value H campaign sequence a))"
proof -
  have "read_checkpoint d sequence ''intent'' = Inr (Some (dict_of (intent_value H campaign sequence a)))"
    using assms by (intro read_checkpoint_written) (auto simp: intent_storable_def)
  moreover have "dict_of (intent_value H campaign sequence a) = intent_value H campaign sequence a"
    by (simp add: intent_value_def)
  ultimately show ?thesis
    using intent_value_checks [OF assms(1)] by (simp add: load_intent_def)
qed

definition terminal_storable ::
  "hexdigest \<Rightarrow> str \<Rightarrow> int \<Rightarrow> jobject \<Rightarrow> record_status \<Rightarrow> jobject \<Rightarrow> str \<Rightarrow> bool" where
  "terminal_storable H campaign sequence i st r now \<longleftrightarrow>
     1 \<le> sequence \<and> now \<noteq> []
     \<and> wire_ok checkpoint_maximum (terminal_value H campaign sequence i st r now)"

lemma load_terminal_bound:
  assumes i: "load_intent H campaign sequence d = Inr (Some (intent_value H campaign sequence a))"
    and t: "terminal_storable H campaign sequence (intent_value H campaign sequence a) st r now"
    and q: "checkpoint_path sequence ''terminal'' = Inr q"
    and dt: "disk_get d q = Some (canonical_bytes (JObj
        (terminal_value H campaign sequence (intent_value H campaign sequence a) st r now)) @ [CHR 0x0A])"
  shows "load_terminal H campaign sequence d
    = Inr (Some (terminal_value H campaign sequence (intent_value H campaign sequence a) st r now))"
proof -
  let ?i = "intent_value H campaign sequence a"
  let ?t = "terminal_value H campaign sequence ?i st r now"
  have "read_checkpoint d sequence ''terminal'' = Inr (Some (dict_of ?t))"
    using q dt t by (intro read_checkpoint_written) (auto simp: terminal_storable_def)
  moreover have "dict_of ?t = ?t" by (simp add: terminal_value_def)
  moreover have "checks (common_checks H campaign sequence ''terminal'' terminal_fields ?t
      @ terminal_checks H ?t) = Inr ()"
    using t
    by (simp add: checks_Inr common_checks_def terminal_checks_def terminal_storable_def
        terminal_value_fields terminal_core_fields terminal_core_keys intent_value_fields
        intent_core_fields action_type.enum_of_value status_guard_def set_all_statuses
        JObj_dict_of [symmetric] del: jsort.simps(2))
  moreover have "get_field ?t ''intent_hash'' = get_field ?i ''content_hash''"
      "get_field ?t ''idempotency_key'' = get_field ?i ''idempotency_key''"
      "get_field ?t ''action_type'' = get_field ?i ''action_type''"
    by (simp_all add: terminal_value_fields terminal_core_fields intent_value_fields intent_core_fields)
  ultimately show ?thesis
    using i by (simp add: load_terminal_def)
qed

end
