(* ===== verification/Checkpoint_Props.thy ===== *)
theory Checkpoint_Props
  imports Checkpoint_Store
begin

text \<open>
  The promises of the checkpoint store: a paid effect runs at most once whatever the processes
  do, all processes that return a record return the same one, a finished action is replayed
  without its effect, an orphaned paid intent is never executed again, and one way in which the
  store stops a campaign for good.
\<close>

section \<open>The operations, case by case\<close>

lemma load_intent_None:
  assumes "load_intent H c s d = Inr None"
  obtains p where "checkpoint_path s ''intent'' = Inr p" and "disk_get d p = None"
  using assms
  by (auto simp: load_intent_def read_checkpoint_def bindE_eq_Inr split: option.splits)

lemma load_intent_Some:
  assumes "load_intent H c s d = Inr (Some v)"
  obtains p b where "checkpoint_path s ''intent'' = Inr p" and "disk_get d p = Some b"
    and "b = canonical_bytes (JObj v) \<or> b = canonical_bytes (JObj v) @ [CHR 0x0A]"
  using assms strict_canonical_object_bytes(1)
  by (fastforce simp: load_intent_def read_checkpoint_def bindE_eq_Inr split: option.splits)

lemma load_terminal_Some:
  assumes "load_terminal H c s d = Inr (Some v)"
  obtains p b where "checkpoint_path s ''terminal'' = Inr p" and "disk_get d p = Some b"
    and "b = canonical_bytes (JObj v) \<or> b = canonical_bytes (JObj v) @ [CHR 0x0A]"
    and "load_intent H c s d \<noteq> Inr None"
  using assms strict_canonical_object_bytes(1)
  by (fastforce simp: load_terminal_def read_checkpoint_def bindE_eq_Inr split: option.splits)

lemma load_terminal_None:
  assumes "load_terminal H c s d = Inr None"
  obtains p where "checkpoint_path s ''terminal'' = Inr p" and "disk_get d p = None"
  using assms
  by (auto simp: load_terminal_def read_checkpoint_def bindE_eq_Inr split: option.splits)

lemma load_cong:
  assumes "checkpoint_path s ''intent'' = Inr p" and "disk_get d' p = disk_get d p"
  shows "load_intent H c s d' = load_intent H c s d"
  using assms by (simp add: load_intent_def read_checkpoint_def)

lemma load_terminal_cong:
  assumes "checkpoint_path s ''intent'' = Inr p" and "checkpoint_path s ''terminal'' = Inr q"
    and "disk_get d' p = disk_get d p" and "disk_get d' q = disk_get d q"
  shows "load_terminal H c s d' = load_terminal H c s d"
proof -
  have "read_checkpoint d' s ''terminal'' = read_checkpoint d s ''terminal''"
    using assms(2,4) by (simp add: read_checkpoint_def)
  then show ?thesis
    unfolding load_terminal_def load_cong [OF assms(1,3)] by simp
qed

lemma ensure_intent_Inr:
  assumes "ensure_intent H c s a d = (d', Inr (intent, created))"
  shows "intent = intent_value H c s a"
    and "\<not> created \<Longrightarrow> d' = d \<and> load_intent H c s d = Inr (Some intent)"
    and "created \<Longrightarrow> \<exists>p. checkpoint_path s ''intent'' = Inr p \<and> disk_get d p = None
          \<and> disk_get d' p = Some (canonical_bytes (JObj intent) @ [CHR 0x0A])
          \<and> (\<forall>n. n \<noteq> p \<longrightarrow> disk_get d' n = disk_get d n)"
proof -
  have cases: "intent = intent_value H c s a
    \<and> (\<not> created \<and> d' = d \<and> load_intent H c s d = Inr (Some intent)
      \<or> created \<and> load_intent H c s d = Inr None
        \<and> (\<exists>p. checkpoint_path s ''intent'' = Inr p \<and> write_once p intent d = (d', Inr ())))"
    using assms
    by (auto simp: ensure_intent_def Let_def split: if_splits sum.splits option.splits prod.splits)
  then show "intent = intent_value H c s a"
    and "\<not> created \<Longrightarrow> d' = d \<and> load_intent H c s d = Inr (Some intent)"
    by blast+
  assume created
  with cases obtain p where p: "checkpoint_path s ''intent'' = Inr p" "write_once p intent d = (d', Inr ())"
    and n: "load_intent H c s d = Inr None" by blast
  from n p(1) have "disk_get d p = None" by (auto elim: load_intent_None)
  with p write_once_ok [OF p(2)] show "\<exists>p. checkpoint_path s ''intent'' = Inr p \<and> disk_get d p = None
      \<and> disk_get d' p = Some (canonical_bytes (JObj intent) @ [CHR 0x0A])
      \<and> (\<forall>n. n \<noteq> p \<longrightarrow> disk_get d' n = disk_get d n)" by blast
qed

lemma ensure_intent_Inl: "ensure_intent H c s a d = (d', Inl e) \<Longrightarrow> d' = d"
  by (auto simp: ensure_intent_def Let_def dest: write_once_fails
      split: if_splits sum.splits option.splits prod.splits)

lemma ensure_intent_keeps:
  assumes "ensure_intent H c s a d = (d', r)" and "disk_get d n = Some b"
  shows "disk_get d' n = Some b"
proof (cases r)
  case (Inl e)
  with assms ensure_intent_Inl show ?thesis by blast
next
  case (Inr x)
  then obtain intent created where r: "ensure_intent H c s a d = (d', Inr (intent, created))"
    using assms(1) by (cases x) auto
  show ?thesis
  proof (cases created)
    case True
    with ensure_intent_Inr(3) [OF r] assms(2) show ?thesis by (metis option.distinct(1))
  next
    case False
    with ensure_intent_Inr(2) [OF r] assms(2) show ?thesis by simp
  qed
qed

lemma finish_action_cases:
  assumes "finish_action H c s now intent outcome d = (d', r)"
  shows "(\<exists>e. r = Inl e \<and> d' = d)
    \<or> (\<exists>st result p. r = Inr (terminal_value H c s intent st result now)
         \<and> outcome = (if st = Completed then Inr result else outcome)
         \<and> load_intent H c s d = Inr (Some intent)
         \<and> checkpoint_path s ''terminal'' = Inr p
         \<and> write_once p (terminal_value H c s intent st result now) d = (d', Inr ()))"
  using assms
  by (auto simp: finish_action_def complete_action_def Let_def dest: write_once_fails
      split: if_splits sum.splits prod.splits)

lemma finish_action_keeps:
  "finish_action H c s now intent outcome d = (d', r) \<Longrightarrow> disk_get d n = Some b \<Longrightarrow> disk_get d' n = Some b"
  using finish_action_cases write_once_keeps by metis

section \<open>One step\<close>

lemma goto_simps [simp]:
  "sy_disk (goto i p s) = sy_disk s" "sy_effects (goto i p s) = sy_effects s"
  "sy_created (goto i p s) = sy_created s" "sy_pc (goto i p s) j = (if j = i then p else sy_pc s j)"
  by (simp_all add: goto_def)

definition checkpoint_file :: "int \<Rightarrow> str \<Rightarrow> bool" where
  "checkpoint_file s n \<longleftrightarrow> checkpoint_path s ''intent'' = Inr n \<or> checkpoint_path s ''terminal'' = Inr n"

lemma torn_write_checkpoint:
  assumes "checkpoint_path s k = Inr p" and "k = ''intent'' \<or> k = ''terminal''" and "checkpoint_file s n"
  shows "disk_get (torn_write p v m d) n = disk_get d n"
proof (rule torn_write_keeps)
  show "n \<noteq> partial_name p"
    using assms path_suffix [of s _ n] path_suffix [of s _ p]
    by (fastforce simp: checkpoint_file_def partial_name_def)
qed

lemma exec_step_keeps:
  assumes "exec_step H c s args S S'" and "checkpoint_file s n" and "disk_get (sy_disk S) n = Some b"
  shows "disk_get (sy_disk S') n = Some b"
  using assms
  by (induction rule: exec_step.induct)
     (auto dest: ensure_intent_keeps finish_action_keeps simp: torn_write_checkpoint)

section \<open>execute is one way to take the steps\<close>

lemma goto_goto [simp]: "goto i p (goto i q s) = goto i p s"
  by (simp add: goto_def)

lemma goto_update [simp]:
  "(goto i p s)\<lparr>sy_disk := d\<rparr> = goto i p (s\<lparr>sy_disk := d\<rparr>)"
  "(goto i p s)\<lparr>sy_effects := e\<rparr> = goto i p (s\<lparr>sy_effects := e\<rparr>)"
  "(goto i p s)\<lparr>sy_disk := d, sy_created := cr\<rparr> = goto i p (s\<lparr>sy_disk := d, sy_created := cr\<rparr>)"
  by (simp_all add: goto_def)

lemma solo_run:
  assumes "execute H c s (args i) eff (sy_disk S) = (d', calls, r)" and "sy_pc S i = Idle"
  shows "\<exists>S'. (exec_step H c s args)\<^sup>*\<^sup>* S S' \<and> sy_disk S' = d' \<and> sy_pc S' i = Finished r
    \<and> sy_effects S' = sy_effects S @ map (\<lambda>_. i) calls"
proof (cases "load_terminal H c s (sy_disk S)")
  case (Inl e)
  have "exec_step H c s args S (goto i (Finished (Inl e)) S)"
    using assms(2) Inl by (rule exec_step.load_error)
  then show ?thesis using assms(1) Inl
    by (intro exI [of _ "goto i (Finished (Inl e)) S"]) (auto simp: execute_def)
next
  case (Inr prior)
  let ?S1 = "goto i (Loaded prior) S"
  have s1: "exec_step H c s args S ?S1" using assms(2) Inr by (rule exec_step.load)
  obtain d1 x where e: "ensure_intent H c s (args i) (sy_disk S) = (d1, x)" by fastforce
  show ?thesis
  proof (cases x)
    case il: (Inl err)
    have "exec_step H c s args ?S1 (goto i (Finished (Inl err)) (?S1\<lparr>sy_disk := d1\<rparr>))"
      by (rule exec_step.intend_error [where prior = prior]) (use e il in simp_all)
    with s1 have "(exec_step H c s args)\<^sup>*\<^sup>* S (goto i (Finished (Inl err)) (?S1\<lparr>sy_disk := d1\<rparr>))"
      by (meson converse_rtranclp_into_rtranclp r_into_rtranclp)
    then show ?thesis using assms(1) Inr e il
      by (intro exI [of _ "goto i (Finished (Inl err)) (?S1\<lparr>sy_disk := d1\<rparr>)"])
         (auto simp: execute_def goto_def)
  next
    case ir: (Inr y)
    then obtain intent created where y: "x = Inr (intent, created)" by (cases y) auto
    let ?cr = "sy_created S @ (if created then [i] else [])"
    let ?S2 = "goto i (Intended prior intent created) (?S1\<lparr>sy_disk := d1, sy_created := ?cr\<rparr>)"
    have s2: "exec_step H c s args ?S1 ?S2"
      using exec_step.intend [of ?S1 i prior H c s args d1 intent created] e y by simp
    have p2: "sy_pc ?S2 i = Intended prior intent created" "sy_disk ?S2 = d1"
      "sy_effects ?S2 = sy_effects S"
      by (simp_all add: goto_def)
    have r2: "(exec_step H c s args)\<^sup>*\<^sup>* S ?S2"
      using s1 s2 by (meson converse_rtranclp_into_rtranclp r_into_rtranclp)
    show ?thesis
    proof (cases "settle H c s d1 prior intent created")
      case (Some r')
      have "exec_step H c s args ?S2 (goto i (Finished r') ?S2)"
        using p2 Some by (intro exec_step.settled) simp_all
      with r2 have "(exec_step H c s args)\<^sup>*\<^sup>* S (goto i (Finished r') ?S2)" by (rule rtranclp.rtrancl_into_rtrancl)
      then show ?thesis using assms(1) Inr e y Some p2
        by (intro exI [of _ "goto i (Finished r') ?S2"]) (auto simp: execute_def)
    next
      case None
      let ?key = "text_of (get_field intent ''idempotency_key'')"
      let ?S3 = "goto i (Cleared intent) ?S2"
      let ?S4 = "goto i (Performed intent (eff ?key)) (?S3\<lparr>sy_effects := sy_effects ?S3 @ [i]\<rparr>)"
      obtain d2 r2' where f: "finish_action H c s (xa_recorded_at (args i)) intent (eff ?key) d1 = (d2, r2')"
        by fastforce
      let ?S5 = "goto i (Finished r2') (?S4\<lparr>sy_disk := d2\<rparr>)"
      have "exec_step H c s args ?S2 ?S3"
        using p2 None by (intro exec_step.cleared) simp_all
      moreover have "exec_step H c s args ?S3 ?S4" by (rule exec_step.effect) simp
      moreover have "exec_step H c s args ?S4 ?S5"
        by (rule exec_step.complete [of _ _ intent "eff ?key"]) (use f p2 in \<open>simp_all add: goto_def\<close>)
      ultimately have "(exec_step H c s args)\<^sup>*\<^sup>* S ?S5"
        using r2 by (meson rtranclp.rtrancl_into_rtrancl)
      then show ?thesis using assms(1) Inr e y None f p2
        by (intro exI [of _ ?S5]) (auto simp: execute_def Let_def goto_def)
    qed
  qed
qed

lemma reach_steps:
  "(exec_step H c s args)\<^sup>*\<^sup>* S S' \<Longrightarrow> exec_reach H c s args d S \<Longrightarrow> exec_reach H c s args d S'"
  by (induction rule: rtranclp_induct) (auto intro: exec_reach.step)

text \<open>C27: every call of \<open>execute\<close> is a run of the steps of one process from the same disk, with
  the same disk afterwards, the same result and the same calls of the effect: what is proved
  of all interleavings holds of the code.\<close>

theorem execute_is_a_run:
  assumes "execute H campaign sequence (args i) eff d = (d', calls, r)"
  shows "\<exists>S. exec_reach H campaign sequence args d S \<and> sy_disk S = d' \<and> sy_pc S i = Finished r
    \<and> sy_effects S = map (\<lambda>_. i) calls"
proof -
  have "execute H campaign sequence (args i) eff (sy_disk (sys_start d)) = (d', calls, r)"
    and "sy_pc (sys_start d) i = Idle"
    using assms by (simp_all add: sys_start_def)
  from solo_run [of H campaign sequence args i eff, OF this] show ?thesis
    using reach_steps [OF _ exec_reach.start] by (fastforce simp: sys_start_def)
qed

definition orphaned :: "hexdigest \<Rightarrow> str \<Rightarrow> int \<Rightarrow> exec_args \<Rightarrow> disk \<Rightarrow> bool" where
  "orphaned H c s a d \<longleftrightarrow>
     load_intent H c s d = Inr (Some (intent_value H c s a)) \<and> load_terminal H c s d = Inr None"

section \<open>A concrete store\<close>

definition ex_exec :: "bool \<Rightarrow> exec_args" where
  "ex_exec paid = \<lparr>xa_action_type = Note, xa_request = [(''text'', JStr ''hello'')],
     xa_paid = paid, xa_recorded_at = ''now''\<rparr>"

abbreviation ex_intent :: "bool \<Rightarrow> jobject" where
  "ex_intent paid \<equiv> intent_value zero_digest ''campaign'' 1 (ex_exec paid)"

abbreviation ex_terminal :: "bool \<Rightarrow> jobject" where
  "ex_terminal paid \<equiv> terminal_value zero_digest ''campaign'' 1 (ex_intent paid) Completed [] ''now''"

lemma ex_wire: "wire_ok checkpoint_maximum (ex_intent paid)" "wire_ok checkpoint_maximum (ex_terminal paid)"
proof -
  have "\<forall>paid \<in> set [False, True]. wire_ok 2000 (ex_intent paid) \<and> wire_ok 2000 (ex_terminal paid)"
    by code_simp
  then have "wire_ok 2000 (ex_intent paid)" "wire_ok 2000 (ex_terminal paid)"
    by (cases paid; simp)+
  then show "wire_ok checkpoint_maximum (ex_intent paid)" "wire_ok checkpoint_maximum (ex_terminal paid)"
    unfolding wire_ok_def checkpoint_maximum_def by linarith+
qed

lemma ex_storable: "intent_storable zero_digest ''campaign'' 1 (ex_exec paid)"
  using ex_wire(1) unfolding intent_storable_def by (simp add: ex_exec_def)

abbreviation ex_path :: "str \<Rightarrow> str" where
  "ex_path kind \<equiv> pad6 1 @ ''.'' @ kind @ ''.json''"

definition ex_disk :: "bool \<Rightarrow> disk" where
  "ex_disk paid = disk_put (ex_path ''intent'') (canonical_bytes (JObj (ex_intent paid)) @ [CHR 0x0A]) []"

lemma ex_disk_get: "disk_get (ex_disk paid) n
    = (if n = ex_path ''intent'' then Some (canonical_bytes (JObj (ex_intent paid)) @ [CHR 0x0A]) else None)"
  by (simp add: ex_disk_def) (simp add: disk_get_def)

lemma ex_paths: "checkpoint_path 1 kind = Inr (ex_path kind)"
  by (simp add: checkpoint_path_def)

lemma ex_orphaned: "orphaned zero_digest ''campaign'' 1 (ex_exec paid) (ex_disk paid)"
proof -
  have "load_intent zero_digest ''campaign'' 1 (ex_disk paid) = Inr (Some (ex_intent paid))"
    by (rule load_intent_written [OF ex_storable ex_paths]) (simp add: ex_disk_get)
  moreover have "load_terminal zero_digest ''campaign'' 1 (ex_disk paid) = Inr None"
    by (simp add: load_terminal_def read_checkpoint_def ex_paths ex_disk_get)
  ultimately show ?thesis by (simp add: orphaned_def)
qed

lemma ex_execute:
  "\<exists>d key. execute zero_digest ''campaign'' 1 (ex_exec paid) (\<lambda>_. Inr []) []
     = (d, [key], Inr (ex_terminal paid))"
proof -
  have n: "load_intent zero_digest ''campaign'' 1 [] = Inr None"
    "load_terminal zero_digest ''campaign'' 1 [] = Inr None"
    by (simp_all add: load_intent_def load_terminal_def read_checkpoint_def ex_paths disk_get_def)
  have u: "utf8_strings (JObj (ex_intent paid))" "utf8_strings (JObj (ex_terminal paid))"
    using ex_wire unfolding wire_ok_def by blast+
  have e: "ensure_intent zero_digest ''campaign'' 1 (ex_exec paid) [] = (ex_disk paid, Inr (ex_intent paid, True))"
    using n u by (simp add: ensure_intent_def Let_def ex_paths write_once_def ex_disk_def)
       (simp add: disk_get_def)
  have o: "load_intent zero_digest ''campaign'' 1 (ex_disk paid) = Inr (Some (ex_intent paid))"
    "load_terminal zero_digest ''campaign'' 1 (ex_disk paid) = Inr None"
    using ex_orphaned [of paid] by (simp_all add: orphaned_def)
  have "xa_recorded_at (ex_exec paid) = ''now''" by (simp add: ex_exec_def)
  then show ?thesis
    using u n e o
    by (auto simp: execute_def settle_def finish_action_def complete_action_def write_once_def
        Let_def ex_paths ex_disk_get partial_name_def)
qed

theorem execute_is_a_run_witness:
  "\<exists>S. exec_reach zero_digest ''campaign'' 1 (\<lambda>_. ex_exec True) [] S
     \<and> sy_pc S 0 = Finished (Inr (ex_terminal True)) \<and> sy_effects S = [0]"
proof -
  obtain d key where "execute zero_digest ''campaign'' 1 (ex_exec True) (\<lambda>_. Inr []) []
     = (d, [key], Inr (ex_terminal True))" using ex_execute by blast
  from execute_is_a_run [where args = "\<lambda>_. ex_exec True", OF this] show ?thesis by fastforce
qed

lemma ex_run:
  "\<exists>S. exec_reach zero_digest ''campaign'' 1 (\<lambda>_. ex_exec True) [] S
     \<and> sy_pc S 0 = Finished (Inr (ex_terminal True)) \<and> sy_effects S = [0]"
proof -
  obtain d key where "execute zero_digest ''campaign'' 1 (ex_exec True) (\<lambda>_. Inr []) (sy_disk (sys_start []))
     = (d, [key], Inr (ex_terminal True))" unfolding sys_start_def using ex_execute [of True] by auto
  from solo_run [where args = "\<lambda>_. ex_exec True", OF this, of 0] show ?thesis
    using reach_steps [OF _ exec_reach.start] by (fastforce simp: sys_start_def)
qed

section \<open>At most once\<close>

fun pc_ok :: "hexdigest \<Rightarrow> str \<Rightarrow> int \<Rightarrow> exec_args \<Rightarrow> bool \<Rightarrow> bool \<Rightarrow> pc \<Rightarrow> bool" where
  "pc_ok H c s a creator did Idle \<longleftrightarrow> \<not> did"
| "pc_ok H c s a creator did (Loaded _) \<longleftrightarrow> \<not> did"
| "pc_ok H c s a creator did (Intended _ intent created) \<longleftrightarrow>
     \<not> did \<and> intent = intent_value H c s a \<and> (created \<longrightarrow> creator)"
| "pc_ok H c s a creator did (Cleared intent) \<longleftrightarrow>
     \<not> did \<and> (xa_paid a \<longrightarrow> creator)"
| "pc_ok H c s a creator did (Performed intent _) \<longleftrightarrow> (xa_paid a \<longrightarrow> creator)"
| "pc_ok H c s a creator did _ \<longleftrightarrow> True"

definition once_inv :: "hexdigest \<Rightarrow> str \<Rightarrow> int \<Rightarrow> (nat \<Rightarrow> exec_args) \<Rightarrow> sys \<Rightarrow> bool" where
  "once_inv H c s args S \<longleftrightarrow>
     length (sy_created S) \<le> 1
     \<and> (sy_created S \<noteq> [] \<longrightarrow>
          (\<exists>p. checkpoint_path s ''intent'' = Inr p \<and> disk_get (sy_disk S) p \<noteq> None))
     \<and> distinct (sy_effects S)
     \<and> (\<forall>i. pc_ok H c s (args i) (i \<in> set (sy_created S)) (i \<in> set (sy_effects S)) (sy_pc S i))
     \<and> (\<forall>i \<in> set (sy_effects S). xa_paid (args i) \<longrightarrow> i \<in> set (sy_created S))"

lemma settle_None_paid:
  assumes "settle H c s d prior (intent_value H c s a) created = None" and "xa_paid a"
  shows created
  using assms
  by (auto simp: settle_def intent_value_fields intent_core_fields split: sum.splits option.splits if_splits)

lemma pc_ok_mono: "pc_ok H c s a creator did p \<Longrightarrow> (creator \<Longrightarrow> creator') \<Longrightarrow> pc_ok H c s a creator' did p"
  by (cases p) auto

lemma once_inv_step:
  assumes st: "exec_step H c s args S S'" and inv: "once_inv H c s args S"
  shows "once_inv H c s args S'"
proof -
  have disk: "\<exists>p. checkpoint_path s ''intent'' = Inr p \<and> disk_get (sy_disk S') p \<noteq> None"
    if "sy_created S \<noteq> []"
    using inv that exec_step_keeps [OF st] by (auto simp: once_inv_def checkpoint_file_def)
  have pcs: "pc_ok H c s (args j) (j \<in> set (sy_created S)) (j \<in> set (sy_effects S)) (sy_pc S j)" for j
    using inv by (simp add: once_inv_def)
  from st show ?thesis
  proof cases
    case (intend i prior d intent created)
    note e = ensure_intent_Inr [OF intend(3)]
    show ?thesis
    proof (cases created)
      case True
      then obtain p where p: "checkpoint_path s ''intent'' = Inr p" "disk_get (sy_disk S) p = None"
        "disk_get d p \<noteq> None" using e(3) by auto
      then have "sy_created S = []" using inv by (auto simp: once_inv_def)
      with inv pcs [of i] p True e(1) intend show ?thesis
        by (auto simp: once_inv_def intro: pc_ok_mono)
    next
      case False
      with inv pcs [of i] disk e(1) intend show ?thesis by (auto simp: once_inv_def)
    qed
  next
    case (cleared i prior intent created)
    then have "intent = intent_value H c s (args i)" "created \<longrightarrow> i \<in> set (sy_created S)"
      using pcs [of i] by simp_all
    with cleared have "xa_paid (args i) \<Longrightarrow> i \<in> set (sy_created S)"
      using settle_None_paid [of H c s "sy_disk S" prior "args i" created] by blast
    with inv pcs [of i] disk cleared show ?thesis by (auto simp: once_inv_def)
  next
    case (effect i intent outcome)
    with inv pcs [of i] disk show ?thesis by (auto simp: once_inv_def)
  next
    case (load i prior)
    with inv pcs [of i] disk show ?thesis by (auto simp: once_inv_def)
  qed (use inv disk in \<open>auto simp: once_inv_def\<close>)
qed

lemma once_inv_reach: "exec_reach H c s args d S \<Longrightarrow> once_inv H c s args S"
proof (induction rule: exec_reach.induct)
  case start
  then show ?case by (simp add: once_inv_def sys_start_def)
next
  case (step S S')
  then show ?case by (blast intro: once_inv_step)
qed

text \<open>C11: whatever processes call \<open>execute\<close> for one sequence, in whatever order their steps
  interleave and wherever they stop, at most one of them ever runs a paid or irreversible
  effect, and it runs it once.\<close>

theorem paid_effect_at_most_once:
  assumes "exec_reach H campaign sequence args d S"
  shows "length (filter (\<lambda>i. xa_paid (args i)) (sy_effects S)) \<le> 1"
proof -
  note inv = once_inv_reach [OF assms, unfolded once_inv_def]
  let ?paid = "filter (\<lambda>i. xa_paid (args i)) (sy_effects S)"
  have "length ?paid = card (set ?paid)"
    using inv by (intro distinct_card [symmetric]) simp
  also have "\<dots> \<le> card (set (sy_created S))"
    using inv by (intro card_mono) auto
  also have "\<dots> \<le> 1" using inv card_length [of "sy_created S"] by linarith
  finally show ?thesis .
qed

theorem paid_effect_at_most_once_witness:
  "\<exists>S. exec_reach zero_digest ''campaign'' 1 (\<lambda>_. ex_exec True) [] S \<and> sy_effects S = [0]
     \<and> length (filter (\<lambda>i. xa_paid (ex_exec True)) (sy_effects S)) \<le> 1"
  using ex_run paid_effect_at_most_once [where args = "\<lambda>_. ex_exec True"] by blast

section \<open>Agreement\<close>

definition stored_as :: "int \<Rightarrow> disk \<Rightarrow> jobject \<Rightarrow> bool" where
  "stored_as s d t \<longleftrightarrow>
     (\<exists>p b. checkpoint_path s ''terminal'' = Inr p \<and> disk_get d p = Some b
        \<and> (b = canonical_bytes (JObj t) \<or> b = canonical_bytes (JObj t) @ [CHR 0x0A]))"

fun pc_stored :: "int \<Rightarrow> disk \<Rightarrow> pc \<Rightarrow> bool" where
  "pc_stored s d (Loaded (Some t)) \<longleftrightarrow> stored_as s d t"
| "pc_stored s d (Intended (Some t) _ _) \<longleftrightarrow> stored_as s d t"
| "pc_stored s d (Finished (Inr t)) \<longleftrightarrow> stored_as s d t"
| "pc_stored s d _ \<longleftrightarrow> True"

lemma load_stored: "load_terminal H c s d = Inr (Some t) \<Longrightarrow> stored_as s d t"
  by (elim load_terminal_Some) (auto simp: stored_as_def)

lemma stored_as_step: "exec_step H c s args S S' \<Longrightarrow> stored_as s (sy_disk S) t \<Longrightarrow> stored_as s (sy_disk S') t"
  using exec_step_keeps by (fastforce simp: stored_as_def checkpoint_file_def)

lemma pc_stored_mono:
  "pc_stored s d p \<Longrightarrow> (\<And>t. stored_as s d t \<Longrightarrow> stored_as s d' t) \<Longrightarrow> pc_stored s d' p"
  by (induction s d p rule: pc_stored.induct) auto

lemma settle_Some_stored:
  assumes "settle H c s d prior intent created = Some r" and "pc_stored s d (Intended prior intent created)"
  shows "pc_stored s d (Finished r)"
  using assms
  by (auto simp: settle_def intro: load_stored split: if_splits sum.splits option.splits)

lemma finish_stored:
  assumes "finish_action H c s now intent outcome d = (d', r)"
  shows "pc_stored s d' (Finished r)"
  using finish_action_cases [OF assms] write_once_ok(1)
  by (elim disjE exE conjE) (auto simp: stored_as_def)

lemma pc_stored_step:
  assumes st: "exec_step H c s args S S'" and inv: "\<forall>i. pc_stored s (sy_disk S) (sy_pc S i)"
  shows "\<forall>i. pc_stored s (sy_disk S') (sy_pc S' i)"
proof -
  have keep: "pc_stored s (sy_disk S') (sy_pc S j)" for j
    using inv by (blast intro: pc_stored_mono stored_as_step [OF st])
  from st show ?thesis
  proof cases
    case (load i prior)
    then have "pc_stored s (sy_disk S) (Loaded prior)" by (cases prior) (auto intro: load_stored)
    with load keep show ?thesis by auto
  next
    case (settled i prior intent created r)
    have "pc_stored s (sy_disk S) (Finished r)"
      using settle_Some_stored [OF settled(3)] inv settled(2) by metis
    with settled keep show ?thesis by auto
  next
    case (intend i prior d intent created)
    have "pc_stored s d (Loaded prior)" using keep [of i] intend by simp
    then have "pc_stored s d (Intended prior intent created)" by (cases prior) simp_all
    with intend keep show ?thesis by auto
  next
    case (complete i intent outcome d r)
    with keep finish_stored [OF complete(3)] show ?thesis by auto
  qed (use keep in auto)
qed

lemma pc_stored_reach: "exec_reach H c s args d S \<Longrightarrow> \<forall>i. pc_stored s (sy_disk S) (sy_pc S i)"
proof (induction rule: exec_reach.induct)
  case start
  then show ?case by (simp add: sys_start_def)
next
  case (step S S')
  show ?case by (rule pc_stored_step [OF step(2) step.IH])
qed

lemma last_canonical: "last (canonical_bytes (JObj kvs)) = CHR ''}''"
  by (simp add: canonical_bytes_def)

lemma canonical_no_newline: "canonical_bytes (JObj kvs) \<noteq> x @ [CHR 0x0A]"
proof
  assume "canonical_bytes (JObj kvs) = x @ [CHR 0x0A]"
  then have "last (canonical_bytes (JObj kvs)) = CHR 0x0A" by simp
  then show False by (simp add: last_canonical)
qed

text \<open>all processes whose \<open>execute\<close> returns a record for a sequence return the same one, byte
  for byte, and it is the one on disk, even when the effect was local and ran in several of
  them.\<close>

theorem terminal_agreement:
  assumes "exec_reach H campaign sequence args d S"
    and "sy_pc S i = Finished (Inr t)" and "sy_pc S j = Finished (Inr u)"
  shows "canonical_bytes (JObj t) = canonical_bytes (JObj u)
    \<and> stored_as sequence (sy_disk S) t"
proof -
  have "stored_as sequence (sy_disk S) t" "stored_as sequence (sy_disk S) u"
    using pc_stored_reach [OF assms(1)] assms(2,3) by (metis pc_stored.simps(3))+
  then have "canonical_bytes (JObj t) = canonical_bytes (JObj u)"
    using canonical_no_newline canonical_no_newline [symmetric] by (auto simp: stored_as_def)
  with \<open>stored_as sequence (sy_disk S) t\<close> show ?thesis by simp
qed

theorem terminal_agreement_witness:
  "\<exists>S. exec_reach zero_digest ''campaign'' 1 (\<lambda>_. ex_exec True) [] S
     \<and> stored_as 1 (sy_disk S) (ex_terminal True)"
  using ex_run terminal_agreement [where args = "\<lambda>_. ex_exec True"] by blast

section \<open>Replay and refusal\<close>

lemma ensure_intent_existing:
  assumes "load_intent H c s d = Inr (Some (intent_value H c s a))"
    and "utf8_strings (JObj (intent_value H c s a))"
  shows "ensure_intent H c s a d = (d, Inr (intent_value H c s a, False))"
  using assms by (simp add: ensure_intent_def Let_def)

text \<open>C26: a process that finds its own intent without a terminal record never repeats a paid
  effect: the call is refused, nothing is written, whatever the effect would do.  A local
  effect is run again under the same idempotency key.\<close>

theorem orphaned_intent:
  assumes "orphaned H campaign sequence a d"
    and "utf8_strings (JObj (intent_value H campaign sequence a))"
  shows "if xa_paid a
    then execute H campaign sequence a eff d
      = (d, [], Inl (AmbiguousEffectError ''an action intent exists without a terminal record''))
    else fst (snd (execute H campaign sequence a eff d))
      = [idempotency_key H campaign sequence (JStr (action_type_value (xa_action_type a)))
          (JStr (canonical_hash H (JObj (xa_request a))))]"
proof -
  have t: "load_terminal H campaign sequence d = Inr None" using assms(1) by (simp add: orphaned_def)
  have e: "ensure_intent H campaign sequence a d = (d, Inr (intent_value H campaign sequence a, False))"
    using assms by (simp add: ensure_intent_existing orphaned_def)
  show ?thesis
    by (simp add: execute_def t e settle_def intent_value_fields intent_core_fields Let_def
        split: prod.split)
qed

theorem orphaned_intent_witness:
  "execute zero_digest ''campaign'' 1 (ex_exec True) (\<lambda>_. Inr []) (ex_disk True)
     = (ex_disk True, [], Inl (AmbiguousEffectError ''an action intent exists without a terminal record''))"
proof -
  have "utf8_strings (JObj (ex_intent True))" using ex_wire(1) unfolding wire_ok_def by blast
  from orphaned_intent [OF ex_orphaned this, of "\<lambda>_. Inr []"] show ?thesis by (simp add: ex_exec_def)
qed

lemma settle_terminal_absent:
  assumes "ensure_intent H c s a d = (d', Inr (intent, created))" and "load_terminal H c s d = Inr None"
  shows "load_terminal H c s d' = Inr None"
proof (cases created)
  case True
  then obtain p where p: "checkpoint_path s ''intent'' = Inr p" "\<And>n. n \<noteq> p \<Longrightarrow> disk_get d' n = disk_get d n"
    using ensure_intent_Inr(3) [OF assms(1)] by blast
  obtain q where q: "checkpoint_path s ''terminal'' = Inr q" "disk_get d q = None"
    using assms(2) by (rule load_terminal_None)
  have "disk_get d' q = None" using p(2) [of q] q path_distinct [OF p(1) q(1)] by auto
  with q(1) show ?thesis by (simp add: load_terminal_def read_checkpoint_def)
next
  case False
  with ensure_intent_Inr(2) [OF assms(1)] assms(2) show ?thesis by simp
qed

lemma execute_returns:
  assumes "execute H c s a eff d = (d', calls, Inr t)"
  obtains (stored) "calls = []" "d' = d" "load_terminal H c s d = Inr (Some t)"
      "ensure_intent H c s a d = (d, Inr (intent_value H c s a, False))"
      "get_field t ''intent_hash'' = get_field (intent_value H c s a) ''content_hash''"
  | (performed) d1 created st result where
      "ensure_intent H c s a d = (d1, Inr (intent_value H c s a, created))"
      "load_terminal H c s d1 = Inr None"
      "t = terminal_value H c s (intent_value H c s a) st result (xa_recorded_at a)"
      "finish_action H c s (xa_recorded_at a) (intent_value H c s a)
         (eff (text_of (get_field (intent_value H c s a) ''idempotency_key''))) d1 = (d', Inr t)"
      "calls = [text_of (get_field (intent_value H c s a) ''idempotency_key'')]"
proof -
  obtain prior where prior: "load_terminal H c s d = Inr prior"
    using assms by (auto simp: execute_def split: sum.splits)
  obtain d1 intent created where e: "ensure_intent H c s a d = (d1, Inr (intent, created))"
    using assms prior by (auto simp: execute_def split: sum.splits prod.splits)
  have i: "intent = intent_value H c s a" using ensure_intent_Inr(1) [OF e] .
  show thesis
  proof (cases prior)
    case (Some u)
    have "\<not> created"
    proof
      assume created
      then obtain p where "checkpoint_path s ''intent'' = Inr p" "disk_get d p = None"
        using ensure_intent_Inr(3) [OF e] by blast
      then have "load_intent H c s d = Inr None" by (simp add: load_intent_def read_checkpoint_def)
      with prior Some show False by (auto elim: load_terminal_Some)
    qed
    with ensure_intent_Inr(2) [OF e] have "d1 = d" by simp
    with assms prior Some e i \<open>\<not> created\<close> show thesis
      by (intro stored) (auto simp: execute_def settle_def split: if_splits)
  next
    case None
    have t: "load_terminal H c s d1 = Inr None"
      using settle_terminal_absent [OF e] prior None by simp
    with assms prior None e i have f: "finish_action H c s (xa_recorded_at a) intent
        (eff (text_of (get_field intent ''idempotency_key''))) d1 = (d', Inr t)"
      and c: "calls = [text_of (get_field intent ''idempotency_key'')]"
      by (auto simp: execute_def settle_def Let_def split: if_splits prod.splits)
    from finish_action_cases [OF f] obtain st result
      where "t = terminal_value H c s intent st result (xa_recorded_at a)" by auto
    with e i t f c show thesis by (intro performed) auto
  qed
qed

lemma execute_again:
  assumes "execute H campaign sequence a eff d = (d', calls, Inr t)"
    and "intent_storable H campaign sequence a" and "wire_ok checkpoint_maximum t"
  shows "execute H campaign sequence a eff' d' = (d', [], Inr t)"
  using assms(1)
proof (cases rule: execute_returns)
  case stored
  then show ?thesis by (simp add: execute_def settle_def)
next
  case (performed d1 created st result)
  let ?i = "intent_value H campaign sequence a"
  from finish_action_cases [OF performed(4)] performed(3) obtain q where
      q: "checkpoint_path sequence ''terminal'' = Inr q" "write_once q t d1 = (d', Inr ())"
    and i: "load_intent H campaign sequence d1 = Inr (Some ?i)" by auto
  obtain p where p: "checkpoint_path sequence ''intent'' = Inr p" "p \<noteq> q"
    using i path_distinct(1) [OF _ q(1)] by (auto elim: load_intent_Some)
  have i': "load_intent H campaign sequence d' = Inr (Some ?i)"
    using load_cong [OF p(1) write_once_ok(2) [OF q(2) p(2)]] i by simp
  have "utf8_strings (JObj ?i)"
    using assms(2) unfolding intent_storable_def wire_ok_def by blast
  with i' have e: "ensure_intent H campaign sequence a d' = (d', Inr (?i, False))"
    by (rule ensure_intent_existing)
  have ts: "terminal_storable H campaign sequence ?i st result (xa_recorded_at a)"
    using assms(2,3) performed(3) by (simp add: terminal_storable_def intent_storable_def)
  have "load_terminal H campaign sequence d' = Inr (Some t)"
    unfolding performed(3)
    by (rule load_terminal_bound [OF i' ts q(1)])
       (use write_once_ok(1) [OF q(2)] performed(3) in simp)
  then show ?thesis
    using e performed(3)
    by (simp add: execute_def settle_def terminal_value_fields terminal_core_fields
        intent_value_fields)
qed

text \<open>C25: once \<open>execute\<close> has returned a record, calling it again with the same arguments returns
  that record, calls no effect and writes nothing, provided the records can be read back (they
  are within the size bound and hold only what JSON can carry).\<close>

theorem execute_replay:
  assumes "execute H campaign sequence a eff d = (d', calls, Inr t)"
    and "intent_storable H campaign sequence a" and "wire_ok checkpoint_maximum t"
  shows "execute H campaign sequence a eff' d' = (d', [], Inr t)"
  using assms by (rule execute_again)

theorem execute_replay_witness:
  "\<exists>d. execute zero_digest ''campaign'' 1 (ex_exec True) (\<lambda>_. Inl ''Boom'') d
     = (d, [], Inr (ex_terminal True))"
  using ex_execute execute_replay [OF _ ex_storable ex_wire(2)] by blast

section \<open>A torn write\<close>

text \<open>C28: a process that stops inside the write of a record leaves its temporary file behind, and
  no later call ever removes it: from then on the record of that sequence cannot be written,
  so a new intent is refused, and a local action that did start runs its effect and still
  returns no record, each time it is called.\<close>

theorem torn_write_blocks:
  assumes "checkpoint_path sequence ''intent'' = Inr p" and "checkpoint_path sequence ''terminal'' = Inr q"
    and "disk_get d (partial_name p) = None" and "disk_get d (partial_name q) = None"
    and "utf8_strings (JObj (intent_value H campaign sequence a))"
    and key: "key = text_of (get_field (intent_value H campaign sequence a) ''idempotency_key'')"
    and "eff key = Inr r"
    and "utf8_strings (JObj (terminal_value H campaign sequence (intent_value H campaign sequence a)
           Completed r (xa_recorded_at a)))"
  shows "(disk_get d p = None \<longrightarrow> disk_get d q = None \<longrightarrow>
           execute H campaign sequence a eff (torn_write p v k d)
             = (torn_write p v k d, [], Inl FileExistsErr))
    \<and> (orphaned H campaign sequence a d \<longrightarrow> \<not> xa_paid a \<longrightarrow>
           execute H campaign sequence a eff (torn_write q v k d)
             = (torn_write q v k d, [key], Inl FileExistsErr))"
proof (intro conjI impI)
  let ?d = "torn_write p v k d"
  assume n: "disk_get d p = None" "disk_get d q = None"
  note f = path_distinct [OF assms(1,2)]
  have g: "disk_get ?d p = None" "disk_get ?d q = None" "disk_get ?d (partial_name p) \<noteq> None"
    using n f assms(3) by (simp_all add: torn_write_def)
  have "load_intent H campaign sequence ?d = Inr None" "load_terminal H campaign sequence ?d = Inr None"
    using assms(1,2) g by (simp_all add: load_intent_def load_terminal_def read_checkpoint_def)
  then show "execute H campaign sequence a eff ?d = (?d, [], Inl FileExistsErr)"
    using assms(1,5) g by (auto simp: execute_def ensure_intent_def write_once_def Let_def)
next
  let ?d = "torn_write q v k d"
  let ?i = "intent_value H campaign sequence a"
  assume o: "orphaned H campaign sequence a d" and paid: "\<not> xa_paid a"
  note f = path_distinct [OF assms(1,2)]
  have li: "load_intent H campaign sequence ?d = Inr (Some ?i)"
    using load_cong [OF assms(1) torn_write_keeps [OF f(3) [symmetric]]] o by (simp add: orphaned_def)
  have "disk_get d q = None"
    using o assms(2) by (auto simp: orphaned_def elim: load_terminal_None)
  then have g: "disk_get ?d q = None" "disk_get ?d (partial_name q) \<noteq> None"
    using assms(4) by (simp_all add: torn_write_def)
  have lt: "load_terminal H campaign sequence ?d = Inr None"
    using assms(2) g by (simp add: load_terminal_def read_checkpoint_def)
  have e: "ensure_intent H campaign sequence a ?d = (?d, Inr (?i, False))"
    using li assms(5) by (rule ensure_intent_existing)
  have "finish_action H campaign sequence (xa_recorded_at a) ?i (eff key) ?d = (?d, Inl FileExistsErr)"
    using assms(2,7,8) li g by (auto simp: finish_action_def complete_action_def write_once_def Let_def)
  then show "execute H campaign sequence a eff ?d = (?d, [key], Inl FileExistsErr)"
    using paid lt e key
    by (simp add: execute_def settle_def intent_value_fields intent_core_fields Let_def)
qed

theorem torn_write_blocks_witness:
  "\<exists>d. execute zero_digest ''campaign'' 1 (ex_exec False) (\<lambda>_. Inr []) d = (d, [], Inl FileExistsErr)"
proof -
  have u: "utf8_strings (JObj (ex_intent False))" "utf8_strings (JObj (ex_terminal False))"
    using ex_wire unfolding wire_ok_def by blast+
  have "xa_recorded_at (ex_exec False) = ''now''" by (simp add: ex_exec_def)
  with u torn_write_blocks [OF ex_paths ex_paths _ _ u(1) refl, where d = "[]" and eff = "\<lambda>_. Inr []" and r = "[]"]
  show ?thesis by (fastforce simp: disk_get_def simp del: utf8_strings.simps)
qed

end
