(* ===== verification/Checkpoint_Frame.thy ===== *)
theory Checkpoint_Frame
  imports Checkpoint_Props
begin

text \<open>
  What one call of \<open>execute\<close> depends on and changes: the files of its own sequence only.  The
  runners, which call it for one sequence after another, compose by these lemmas.
\<close>

section \<open>Names\<close>

lemma str_nat_zeros: "str_nat (replicate k (CHR ''0'') @ s) = str_nat s"
proof -
  have z: "digit_val (CHR ''0'') = 0" by code_simp
  have "foldl (\<lambda>n c. 10 * n + digit_val c) 0 (replicate k (CHR ''0'')) = 0"
    by (induction k) (simp_all add: z)
  then show ?thesis by (simp add: str_nat_def)
qed

lemma str_nat_pad6 [simp]: "str_nat (pad6 n) = n"
  by (simp add: pad6_def str_nat_zeros)

lemma pad6_digits: "c \<in> set (pad6 n) \<Longrightarrow> c \<noteq> CHR ''.''"
  using nat_str_digits [of c n] by (auto simp: pad6_def is_digit_def)

lemma takeWhile_pad6 [simp]: "takeWhile (\<lambda>c. c \<noteq> CHR ''.'') (pad6 n @ CHR ''.'' # s) = pad6 n"
  by (simp add: takeWhile_append pad6_digits)

definition own :: "int \<Rightarrow> str \<Rightarrow> bool" where
  "own s n \<longleftrightarrow> (\<exists>k p. (k = ''intent'' \<or> k = ''terminal'') \<and> checkpoint_path s k = Inr p
     \<and> (n = p \<or> n = partial_name p))"

lemma own_sequence:
  assumes "own s n"
  shows "str_nat (takeWhile (\<lambda>c. c \<noteq> CHR ''.'') n) = nat s" and "1 \<le> s"
  using assms by (auto simp: own_def checkpoint_path_def bindE_eq_Inr partial_name_def)

lemma own_disjoint: "own s n \<Longrightarrow> own s' n \<Longrightarrow> s = s'"
  using own_sequence [of s n] own_sequence [of s' n] by auto

lemma own_path:
  "checkpoint_path s ''intent'' = Inr p \<Longrightarrow> own s p" "checkpoint_path s ''terminal'' = Inr p \<Longrightarrow> own s p"
  "checkpoint_path s ''intent'' = Inr p \<Longrightarrow> own s (partial_name p)"
  "checkpoint_path s ''terminal'' = Inr p \<Longrightarrow> own s (partial_name p)"
  by (auto simp: own_def)

section \<open>Frame\<close>

definition same_files :: "int \<Rightarrow> disk \<Rightarrow> disk \<Rightarrow> bool" where
  "same_files s d e \<longleftrightarrow> (\<forall>n. own s n \<longrightarrow> disk_get d n = disk_get e n)"

definition others_kept :: "int \<Rightarrow> disk \<Rightarrow> disk \<Rightarrow> bool" where
  "others_kept s d d' \<longleftrightarrow> (\<forall>n. \<not> own s n \<longrightarrow> disk_get d' n = disk_get d n)"

lemma same_files_refl [simp]: "same_files s d d"
  and others_kept_refl [simp]: "others_kept s d d"
  by (simp_all add: same_files_def others_kept_def)

lemma others_kept_trans: "others_kept s d d' \<Longrightarrow> others_kept s d' d'' \<Longrightarrow> others_kept s d d''"
  by (simp add: others_kept_def)

lemma others_kept_same:
  assumes "others_kept s' d d'" and "s' \<noteq> s"
  shows "same_files s d d'"
  unfolding same_files_def
proof (intro allI impI)
  fix n
  assume "own s n"
  then have "\<not> own s' n" using own_disjoint assms(2) by blast
  then show "disk_get d n = disk_get d' n" using assms(1) by (simp add: others_kept_def)
qed

lemma same_files_trans: "same_files s d e \<Longrightarrow> same_files s e f \<Longrightarrow> same_files s d f"
  by (simp add: same_files_def)

lemma same_files_sym: "same_files s d e \<Longrightarrow> same_files s e d"
  by (simp add: same_files_def)

lemma read_checkpoint_same:
  "same_files s d e \<Longrightarrow> k = ''intent'' \<or> k = ''terminal'' \<Longrightarrow> read_checkpoint e s k = read_checkpoint d s k"
  by (cases "checkpoint_path s k") (auto simp: read_checkpoint_def same_files_def dest: own_path)

lemma load_same:
  assumes "same_files s d e"
  shows "load_intent H c s e = load_intent H c s d" and "load_terminal H c s e = load_terminal H c s d"
proof -
  show i: "load_intent H c s e = load_intent H c s d"
    unfolding load_intent_def using read_checkpoint_same [OF assms] by simp
  show "load_terminal H c s e = load_terminal H c s d"
    unfolding load_terminal_def i using read_checkpoint_same [OF assms] by simp
qed

lemma write_once_frame:
  assumes "write_once p v d = (d', r)" and "same_files s d e" and "own s p" and "own s (partial_name p)"
  shows "\<exists>e'. write_once p v e = (e', r) \<and> same_files s d' e' \<and> others_kept s e e'"
proof -
  have g: "disk_get e p = disk_get d p" "disk_get e (partial_name p) = disk_get d (partial_name p)"
    using assms(2-4) by (simp_all add: same_files_def)
  show ?thesis
    using assms(1,2,3) unfolding write_once_def Let_def g
    by (fastforce simp: same_files_def others_kept_def split: if_splits option.splits)
qed

lemma ensure_intent_frame:
  assumes "ensure_intent H c s a d = (d', r)" and "same_files s d e"
  shows "\<exists>e'. ensure_intent H c s a e = (e', r) \<and> same_files s d' e' \<and> others_kept s e e'"
proof -
  let ?v = "intent_value H c s a"
  consider (stores) p where "checkpoint_path s ''intent'' = Inr p" "load_intent H c s d = Inr None"
      "utf8_strings (JObj ?v)" "\<exists>x. write_once p ?v d = (d', x) \<and> r = bindE x (\<lambda>_. Inr (?v, True))"
    | (keep) "d' = d" "ensure_intent H c s a e = (e, r)"
    using assms(1) load_same(1) [OF assms(2), of H c]
    by (fastforce simp: ensure_intent_def Let_def split: if_splits sum.splits option.splits prod.splits)
  then show ?thesis
  proof cases
    case stores
    then obtain x where x: "write_once p ?v d = (d', x)" "r = bindE x (\<lambda>_. Inr (?v, True))" by blast
    obtain e' where "write_once p ?v e = (e', x)" "same_files s d' e'" "others_kept s e e'"
      using write_once_frame [OF x(1) assms(2) own_path(1,3) [OF stores(1)]] by blast
    then show ?thesis
      using stores x(2) load_same(1) [OF assms(2), of H c]
      by (cases x) (auto simp: ensure_intent_def Let_def)
  next
    case keep
    with assms(2) show ?thesis by auto
  qed
qed

lemma complete_action_frame:
  assumes "complete_action H c s i st v now d = (d', r)" and "same_files s d e"
  shows "\<exists>e'. complete_action H c s i st v now e = (e', r) \<and> same_files s d' e' \<and> others_kept s e e'"
proof -
  let ?v = "terminal_value H c s i st v now"
  consider (stores) p where "checkpoint_path s ''terminal'' = Inr p" "load_intent H c s d = Inr (Some i)"
      "\<exists>x. write_once p ?v d = (d', x) \<and> r = bindE x (\<lambda>_. Inr ?v)"
    | (keep) "d' = d" "complete_action H c s i st v now e = (e, r)"
    using assms(1) load_same(1) [OF assms(2), of H c]
    by (fastforce simp: complete_action_def Let_def split: if_splits sum.splits option.splits prod.splits)
  then show ?thesis
  proof cases
    case stores
    then obtain x where x: "write_once p ?v d = (d', x)" "r = bindE x (\<lambda>_. Inr ?v)" by blast
    obtain e' where "write_once p ?v e = (e', x)" "same_files s d' e'" "others_kept s e e'"
      using write_once_frame [OF x(1) assms(2) own_path(2,4) [OF stores(1)]] by blast
    then show ?thesis
      using stores x(2) load_same(1) [OF assms(2), of H c]
      by (cases x) (auto simp: complete_action_def Let_def)
  next
    case keep
    with assms(2) show ?thesis by auto
  qed
qed

lemma finish_action_frame:
  assumes "finish_action H c s now i out d = (d', r)" and "same_files s d e"
  shows "\<exists>e'. finish_action H c s now i out e = (e', r) \<and> same_files s d' e' \<and> others_kept s e e'"
  using assms complete_action_frame by (fastforce simp: finish_action_def split: sum.splits)

lemma settle_frame: "same_files s d e \<Longrightarrow> settle H c s e prior i created = settle H c s d prior i created"
  by (simp add: settle_def load_same)

text \<open>One call of \<open>execute\<close> reads and writes the files of its own sequence only.\<close>

lemma execute_frame:
  assumes "execute H c s a eff d = (d', calls, r)" and "same_files s d e"
  shows "\<exists>e'. execute H c s a eff e = (e', calls, r) \<and> same_files s d' e' \<and> others_kept s e e'"
proof (cases "load_terminal H c s d")
  case (Inl err)
  then show ?thesis using assms by (auto simp: execute_def load_same)
next
  case (Inr prior)
  obtain d1 x where e1: "ensure_intent H c s a d = (d1, x)" by fastforce
  obtain e1 where e1': "ensure_intent H c s a e = (e1, x)" "same_files s d1 e1" "others_kept s e e1"
    using ensure_intent_frame [OF e1 assms(2)] by blast
  note load = load_same(2) [OF assms(2), of H c]
  show ?thesis
  proof (cases x)
    case (Inl err)
    then show ?thesis using assms(1) Inr e1 e1' load by (auto simp: execute_def)
  next
    case (Inr y)
    obtain i created where y: "y = (i, created)" by fastforce
    show ?thesis
    proof (cases "settle H c s d1 prior i created")
      case (Some r')
      then show ?thesis
        using assms(1) \<open>load_terminal H c s d = Inr prior\<close> Inr y e1 e1' load settle_frame [OF e1'(2)]
        by (auto simp: execute_def)
    next
      case None
      obtain d2 r2 where f: "finish_action H c s (xa_recorded_at a) i
          (eff (text_of (get_field i ''idempotency_key''))) d1 = (d2, r2)" by fastforce
      obtain e2 where f': "finish_action H c s (xa_recorded_at a) i
          (eff (text_of (get_field i ''idempotency_key''))) e1 = (e2, r2)"
          "same_files s d2 e2" "others_kept s e1 e2"
        using finish_action_frame [OF f e1'(2)] by blast
      show ?thesis
        using assms(1) \<open>load_terminal H c s d = Inr prior\<close> Inr y e1 e1' load settle_frame [OF e1'(2)]
          None f f' others_kept_trans [OF e1'(3) f'(3)]
        by (auto simp: execute_def Let_def)
    qed
  qed
qed

lemma execute_keeps_others: "execute H c s a eff d = (d', calls, r) \<Longrightarrow> others_kept s d d'"
  using execute_frame [of H c s a eff d d' calls r d] by auto

section \<open>Calling it again\<close>

lemma execute_again_elsewhere:
  assumes "execute H c s a eff d = (d', calls, Inr t)" and "same_files s d' e"
    and "intent_storable H c s a" and "wire_ok checkpoint_maximum t"
  shows "execute H c s a eff' e = (e, [], Inr t)"
proof -
  have "execute H c s a eff' d' = (d', [], Inr t)"
    using assms(1,3,4) by (rule execute_again)
  then obtain e' where e': "execute H c s a eff' e = (e', [], Inr t)"
    using execute_frame assms(2) by blast
  then have "e' = e" by (cases rule: execute_returns) auto
  with e' show ?thesis by simp
qed

lemma checks_no_ambiguity:
  "checks (common_checks H c s k fs v @ intent_checks H c s v) \<noteq> Inl (AmbiguousEffectError m)"
  "checks (common_checks H c s k fs v @ terminal_checks H v) \<noteq> Inl (AmbiguousEffectError m)"
proof -
  have c: "Inl (AmbiguousEffectError m) \<notin> set (common_checks H c s k fs v)"
    by (simp add: common_checks_def Inl_ensure)
  have i: "Inl (AmbiguousEffectError m) \<notin> set (intent_checks H c s v)"
    by (simp add: intent_checks_def Inl_ensure)
  have t: "Inl (AmbiguousEffectError m) \<notin> set (terminal_checks H v)"
    by (auto simp: terminal_checks_def Inl_ensure status_guard_def split: json.splits)
  show "checks (common_checks H c s k fs v @ intent_checks H c s v) \<noteq> Inl (AmbiguousEffectError m)"
    using c i checks_Inl by fastforce
  show "checks (common_checks H c s k fs v @ terminal_checks H v) \<noteq> Inl (AmbiguousEffectError m)"
    using c t checks_Inl by fastforce
qed

lemma read_checkpoint_error: "read_checkpoint d s k \<noteq> Inl (AmbiguousEffectError m)"
proof -
  have "strict_json n l b \<noteq> Inl (AmbiguousEffectError m)" for n l b
    by (simp add: strict_json_def split: sum.split)
  then have "strict_canonical_object n l b \<noteq> Inl (AmbiguousEffectError m)" for n l b
    by (auto simp: strict_canonical_object_def bindE_eq_Inl split: json.splits)
  then show ?thesis
    by (auto simp: read_checkpoint_def checkpoint_path_def bindE_eq_Inl ensure_Inl split: option.splits)
qed

lemma load_intent_error: "load_intent H c s d \<noteq> Inl (AmbiguousEffectError m)"
  using read_checkpoint_error checks_no_ambiguity(1)
  by (auto simp: load_intent_def bindE_eq_Inl split: option.splits)

lemma load_terminal_error: "load_terminal H c s d \<noteq> Inl (AmbiguousEffectError m)"
  using read_checkpoint_error checks_no_ambiguity(2) load_intent_error
  by (auto simp: load_terminal_def bindE_eq_Inl ensure_Inl split: option.splits)

lemma write_once_error: "write_once p v d \<noteq> (d', Inl (AmbiguousEffectError m))"
  by (auto simp: write_once_def Let_def ensure_def split: if_splits option.splits)

lemma ensure_intent_error: "ensure_intent H c s a d \<noteq> (d', Inl (AmbiguousEffectError m))"
  using load_intent_error [of H c s d m] write_once_error
  by (auto simp: ensure_intent_def Let_def checkpoint_path_def bindE_eq_Inl ensure_Inl
      split: option.splits sum.splits prod.splits)

lemma finish_action_error: "finish_action H c s now i out d \<noteq> (d', Inl (AmbiguousEffectError m))"
  using load_intent_error [of H c s d m] write_once_error
  by (auto simp: finish_action_def complete_action_def Let_def checkpoint_path_def bindE_eq_Inl ensure_Inl
      split: sum.splits prod.splits)

lemma execute_ambiguous:
  assumes "execute H c s a eff d = (d', calls, Inl (AmbiguousEffectError m))"
  shows "d' = d" and "calls = []"
    and "\<exists>p. checkpoint_path s ''intent'' = Inr p \<and> disk_get d p \<noteq> None"
proof -
  obtain prior where prior: "load_terminal H c s d = Inr prior"
    using assms load_terminal_error [of H c s d m] by (auto simp: execute_def split: sum.splits)
  obtain d1 x where e0: "ensure_intent H c s a d = (d1, x)" by fastforce
  then obtain intent created where e: "ensure_intent H c s a d = (d1, Inr (intent, created))"
    using assms prior ensure_intent_error [of H c s a d d1 m]
    by (cases x) (auto simp: execute_def)
  let ?f = "finish_action H c s (xa_recorded_at a) intent
      (eff (text_of (get_field intent ''idempotency_key''))) d1"
  have "settle H c s d1 prior intent created = Some (Inl (AmbiguousEffectError m))"
  proof (cases "settle H c s d1 prior intent created")
    case None
    with assms prior e have "?f = (d', Inl (AmbiguousEffectError m))"
      by (simp add: execute_def Let_def split: prod.splits)
    then show ?thesis using finish_action_error by simp
  next
    case (Some r)
    with assms prior e show ?thesis by (simp add: execute_def)
  qed
  then have "\<not> created" and x: "d' = d1" "calls = []"
    using assms prior e load_terminal_error [of H c s d1 m]
    by (auto simp: settle_def execute_def split: if_splits sum.splits option.splits)
  with ensure_intent_Inr(2) [OF e] show "d' = d" "calls = []"
    and "\<exists>p. checkpoint_path s ''intent'' = Inr p \<and> disk_get d p \<noteq> None"
    by (auto elim: load_intent_Some)
qed

lemma execute_ambiguous_elsewhere:
  assumes "execute H c s a eff d = (d', calls, Inl (AmbiguousEffectError m))" and "same_files s d' e"
  shows "execute H c s a eff' e = (e, [], Inl (AmbiguousEffectError m))"
proof -
  have "same_files s d e" using assms(2) execute_ambiguous(1) [OF assms(1)] by simp
  then obtain e' where e': "execute H c s a eff e = (e', calls, Inl (AmbiguousEffectError m))"
    using execute_frame [OF assms(1)] by blast
  have c: "calls = []" using e' by (rule execute_ambiguous)
  have "execute H c s a eff' e = execute H c s a eff e"
    using e' c by (auto simp: execute_def Let_def split: sum.splits prod.splits option.splits)
  with e' execute_ambiguous [OF e'] show ?thesis by simp
qed

text \<open>A sequence without files: the intent is stored, the effect runs, its record is stored.\<close>

lemma execute_fresh:
  assumes "intent_storable H c s a" and "\<And>n. own s n \<Longrightarrow> disk_get d n = None"
    and key: "key = text_of (get_field (intent_value H c s a) ''idempotency_key'')"
    and out: "eff key = Inr v"
    and u: "utf8_strings (JObj (terminal_value H c s (intent_value H c s a) Completed v (xa_recorded_at a)))"
  shows "\<exists>d'. execute H c s a eff d
    = (d', [key], Inr (terminal_value H c s (intent_value H c s a) Completed v (xa_recorded_at a)))"
proof -
  have s: "1 \<le> s" and ui: "utf8_strings (JObj (intent_value H c s a))"
    using assms(1) unfolding intent_storable_def wire_ok_def by blast+
  obtain p q where p: "checkpoint_path s ''intent'' = Inr p" and q: "checkpoint_path s ''terminal'' = Inr q"
    using s by (auto simp: checkpoint_path_def)
  have n: "load_intent H c s d = Inr None" "load_terminal H c s d = Inr None"
    using assms(2) own_path(1) [OF p] own_path(2) [OF q] p q
    by (simp_all add: load_intent_def load_terminal_def read_checkpoint_def)
  let ?d1 = "disk_put p (canonical_bytes (JObj (intent_value H c s a)) @ [CHR 0x0A]) d"
  have e: "ensure_intent H c s a d = (?d1, Inr (intent_value H c s a, True))"
    using n ui p assms(2) own_path(1) [OF p] own_path(3) [OF p]
    by (simp add: ensure_intent_def Let_def write_once_def)
  have i1: "load_intent H c s ?d1 = Inr (Some (intent_value H c s a))"
    by (rule load_intent_written [OF assms(1) p]) simp
  have t1: "load_terminal H c s ?d1 = Inr None"
    using assms(2) own_path(2) [OF q] q path_distinct(1) [OF p q]
    by (simp add: load_terminal_def read_checkpoint_def)
  have w: "\<exists>d'. write_once q t ?d1 = (d', Inr ())" if "utf8_strings (JObj t)" for t
    using that assms(2) own_path(2,4) [OF q] path_distinct [OF p q]
    by (simp add: write_once_def Let_def)
  show ?thesis
    using n e t1 i1 q out w [OF u]
    by (auto simp: execute_def settle_def Let_def key [symmetric] finish_action_def complete_action_def)
qed

end
