(* ===== verification/Literature.thy ===== *)
theory Literature
  imports Strict_Json "HOL-Library.Sublist"
begin

text \<open>
  The action protocol of \<open>campaign/end_to_end.py\<close>: the v2 planned action, the hashes a result
  mentions, and the literature state machine that orders the actions of a campaign.
\<close>

section \<open>Duplicate keys\<close>

text \<open>
  An \<open>object_pairs_hook\<close> that refuses duplicate keys is called when an object is complete, the
  inner ones first: \<open>dup_key\<close> is the key it reports first.  (A document that repeats a key and
  is also malformed further on is reported as malformed.)
\<close>

primrec first_repeat :: "'a list \<Rightarrow> 'a list \<Rightarrow> 'a option" where
  "first_repeat seen [] = None"
| "first_repeat seen (k # ks) = (if k \<in> set seen then Some k else first_repeat (k # seen) ks)"

fun first_some :: "'a option list \<Rightarrow> 'a option" where
  "first_some [] = None"
| "first_some (None # xs) = first_some xs"
| "first_some (Some x # xs) = Some x"

fun dup_key :: "json \<Rightarrow> str option" where
  "dup_key (JArr vs) = first_some (map dup_key vs)"
| "dup_key (JObj kvs) =
     first_some (map (\<lambda>(k, v). dup_key v) kvs @ [first_repeat [] (map fst kvs)])"
| "dup_key _ = None"

lemma first_some_None: "first_some xs = None \<longleftrightarrow> (\<forall>x \<in> set xs. x = None)"
  by (induction xs rule: first_some.induct) auto

lemma first_repeat_None: "first_repeat seen ks = None \<longleftrightarrow> distinct ks \<and> set seen \<inter> set ks = {}"
  by (induction ks arbitrary: seen) auto

lemma dup_key_None: "dup_key v = None \<longleftrightarrow> dup_free v"
  by (induction v rule: dup_key.induct)
     (auto simp: first_some_None first_repeat_None case_prod_unfold)

section \<open>Hashes mentioned in a value\<close>

fun hashes_in :: "json \<Rightarrow> str list" where
  "hashes_in (JStr s) = (if valid_hash s then [s] else [])"
| "hashes_in (JObj kvs) = concat (map (\<lambda>(k, v). hashes_in v) kvs)"
| "hashes_in (JArr vs) = concat (map hashes_in vs)"
| "hashes_in _ = []"

lemma hashes_in_valid: "h \<in> set (hashes_in v) \<Longrightarrow> valid_hash h"
  by (induction v rule: hashes_in.induct) (auto split: if_splits)

section \<open>The planned action\<close>

definition v2_supported :: "action_type list" where
  "v2_supported =
     [SearchLiterature, FollowDiscoveryResults, AcquireSource, ParseSource, EmbedSources,
      RefreshRetrievalIndex, RetrieveEvidence, Experiment, WriteProgram, RunProgram,
      InspectResult, Derive, Falsify, Verify, FormalCheck, SuspendBranch, AskUser,
      ReadArtifact, Note, Report]"

definition planned_fields :: "str list" where
  "planned_fields =
     [''schema_version'', ''action_type'', ''branch_id'', ''rationale'', ''operation_request'']"

text \<open>The type and the operation request of an accepted action; the effect is bound by the caller.\<close>

definition parse_planned_value :: "json \<Rightarrow> (action_type \<times> jobject) res" where
  "parse_planned_value value =
     (case value of
        JObj kvs \<Rightarrow>
          (if set (map fst kvs) \<noteq> set planned_fields
           then Inl (EndToEndError ''planned action fields differ from v2'')
           else if get_field kvs ''schema_version'' \<noteq> JStr ''2.0.0''
           then Inl (EndToEndError ''planned action schema version differs'')
           else case enum_of action_type_value all_action_types (get_field kvs ''action_type'') of
             None \<Rightarrow> Inl (EndToEndError ''planned action type differs'')
           | Some ty \<Rightarrow>
               (if ty \<notin> set v2_supported
                then Inl (EndToEndError ''planned action is outside the v2 campaign contract'')
                else if \<not> valid_identifier (text_of (get_field kvs ''branch_id''))
                then Inl (EndToEndError ''planned action branch differs'')
                else
                  let rationale = text_of (get_field kvs ''rationale'') in
                  if rationale = [] then Inl (EndToEndError ''planned action rationale differs'')
                  else if \<not> utf8_valid rationale then Inl UnicodeEncodeErr
                  else if length rationale > 2000
                  then Inl (EndToEndError ''planned action rationale differs'')
                  else case get_field kvs ''operation_request'' of
                    JObj request \<Rightarrow>
                      (if length request > 32
                       then Inl (EndToEndError ''planned operation request differs'')
                       else Inr (ty, request))
                  | _ \<Rightarrow> Inl (EndToEndError ''planned operation request differs'')))
      | _ \<Rightarrow> Inl (EndToEndError ''planned action fields differ from v2''))"

definition parse_planned_action :: "bytes \<Rightarrow> (action_type \<times> jobject) res" where
  "parse_planned_action raw =
     (if \<not> utf8_valid raw then Inl (EndToEndError ''planned action is not valid UTF-8 JSON'')
      else case json_loads raw of
        Inl IntDigitsError \<Rightarrow> Inl IntDigitsErr
      | Inl _ \<Rightarrow> Inl (EndToEndError ''planned action is not valid UTF-8 JSON'')
      | Inr v \<Rightarrow>
          (case dup_key v of
             Some k \<Rightarrow> Inl (EndToEndError (''duplicate planned-action field: '' @ k))
           | None \<Rightarrow> parse_planned_value v))"

section \<open>The literature state machine\<close>

definition substantive :: "action_type list" where
  "substantive = [Derive, WriteProgram, RunProgram, Experiment, Falsify, Verify, FormalCheck]"

fun literature_minimum :: "action_type \<Rightarrow> nat option" where
  "literature_minimum AcquireSource = Some 1"
| "literature_minimum ParseSource = Some 2"
| "literature_minimum EmbedSources = Some 3"
| "literature_minimum RefreshRetrievalIndex = Some 4"
| "literature_minimum RetrieveEvidence = Some 5"
| "literature_minimum _ = None"

definition nonempty_text :: "json \<Rightarrow> bool" where
  "nonempty_text j \<longleftrightarrow> text_of j \<noteq> []"

definition follow_allowed :: "nat \<Rightarrow> jobject \<Rightarrow> bool" where
  "follow_allowed stage request \<longleftrightarrow>
     1 \<le> stage \<and> py_eq (get_field request ''max_depth'') (JInt 1)
     \<and> (case get_field request ''allowed_origins'' of
          JArr allowed \<Rightarrow> allowed \<noteq> [] \<and> (\<forall>j \<in> set allowed. nonempty_text j)
            \<and> get_field request ''origin'' \<in> set allowed
        | _ \<Rightarrow> False)"

text \<open>\<open>request.get("generation_hash", request.get("projection_id")) in published\<close>.\<close>

definition generation_guard :: "jobject \<Rightarrow> str list \<Rightarrow> unit res" where
  "generation_guard request published =
     (case (case jget request ''generation_hash'' of
              Some g \<Rightarrow> g | None \<Rightarrow> get_field request ''projection_id'') of
        JArr _ \<Rightarrow> Inl TypeErr
      | JObj _ \<Rightarrow> Inl TypeErr
      | JStr g \<Rightarrow> ensure (g \<in> set published)
                   (EndToEndError ''retrieval evidence must name a published generation'')
      | _ \<Rightarrow> Inl (EndToEndError ''retrieval evidence must name a published generation''))"

definition advance_literature_state ::
  "action_type \<Rightarrow> jobject \<Rightarrow> nat \<Rightarrow> bool \<Rightarrow> str list \<Rightarrow> bool \<Rightarrow> (nat \<times> bool) res" where
  "advance_literature_state ty request stage search_seen published bound =
     (if ty = SearchLiterature then Inr (1, True)
      else if ty = FollowDiscoveryResults then
        (if follow_allowed stage request then Inr (stage, search_seen)
         else Inl (EndToEndError
           ''result following requires a prior search, depth one, and a pinned origin allowlist''))
      else case literature_minimum ty of
        Some minimum \<Rightarrow>
          (if stage < minimum
           then Inl (EndToEndError (action_type_value ty
                  @ '' is out of order in the current literature cycle''))
           else
             bindE (if ty = RetrieveEvidence \<and> bound then generation_guard request published
                    else Inr ()) (\<lambda>_.
             Inr (minimum + 1, search_seen)))
      | None \<Rightarrow>
          (if ty \<in> set substantive \<and> \<not> search_seen
           then Inl (EndToEndError
             ''a recorded literature search must precede substantive research'')
           else Inr (stage, search_seen)))"

section \<open>What the machine enforces\<close>

record lit_step =
  ls_type :: action_type
  ls_request :: jobject
  ls_published :: "str list"
  ls_bound :: bool

text \<open>The state after a sequence of accepted actions, from the start of a campaign.\<close>

inductive lit_reach :: "lit_step list \<Rightarrow> nat \<Rightarrow> bool \<Rightarrow> bool" where
  start: "lit_reach [] 0 False"
| accept: "lit_reach ss stage seen \<Longrightarrow>
    advance_literature_state (ls_type s) (ls_request s) stage seen (ls_published s) (ls_bound s)
      = Inr (stage', seen') \<Longrightarrow>
    lit_reach (ss @ [s]) stage' seen'"

definition pipeline :: "action_type list" where
  "pipeline = [SearchLiterature, AcquireSource, ParseSource, EmbedSources,
     RefreshRetrievalIndex, RetrieveEvidence]"

lemma literature_minimum_pipeline:
  "literature_minimum ty = Some k \<Longrightarrow> k < length pipeline \<and> pipeline ! k = ty \<and> ty \<notin> set substantive"
  by (cases ty) (auto simp: pipeline_def substantive_def numeral_eq_Suc)

lemma advance_cases:
  assumes "advance_literature_state ty request stage seen published bound = Inr (stage', seen')"
  obtains (search) "ty = SearchLiterature" "stage' = 1" "seen'"
  | (follow) "ty = FollowDiscoveryResults" "1 \<le> stage" "stage' = stage" "seen' = seen"
  | (cycle) k where "literature_minimum ty = Some k" "k \<le> stage" "stage' = k + 1" "seen' = seen"
      "ty = RetrieveEvidence \<longrightarrow> bound \<longrightarrow> generation_guard request published = Inr ()"
  | (other) "ty \<in> set substantive \<longrightarrow> seen" "stage' = stage" "seen' = seen"
      "literature_minimum ty = None" "ty \<noteq> SearchLiterature"
  using assms
  by (auto simp: advance_literature_state_def bindE_eq_Inr follow_allowed_def split: if_splits option.splits)

lemma take_stage_pipeline:
  assumes "subseq (take stage pipeline) ts" and "k \<le> stage" and "k < length pipeline"
  shows "subseq (take (k + 1) pipeline) (ts @ [pipeline ! k])"
proof -
  have "take k pipeline = take k (take stage pipeline)"
    using assms(2) by simp
  then have "subseq (take k pipeline) ts"
    using assms(1) by (metis append_take_drop_id list_emb_append2 prefix_imp_subseq subseq_order.order_trans take_is_prefix)
  then show ?thesis
    using assms(3) by (simp add: take_Suc_conv_app_nth list_emb_append_mono)
qed

lemma lit_reach_inv:
  "lit_reach ss stage seen \<Longrightarrow>
     subseq (take stage pipeline) (map ls_type ss)
     \<and> (seen \<longleftrightarrow> SearchLiterature \<in> ls_type ` set ss) \<and> stage \<le> length pipeline"
proof (induction rule: lit_reach.induct)
  case start
  show ?case by simp
next
  case (accept ss stage seen s stage' seen')
  from accept(2) show ?case
  proof (cases rule: advance_cases)
    case search
    then show ?thesis
      using accept.IH by (auto simp: pipeline_def intro: list_emb_append_mono [of _ "[]", simplified])
  next
    case follow
    then show ?thesis using accept.IH by (auto intro: list_emb_append2)
  next
    case (cycle k)
    note k = literature_minimum_pipeline [OF cycle(1)]
    have "ls_type s \<noteq> SearchLiterature" using cycle(1) by auto
    with cycle k take_stage_pipeline [of stage "map ls_type ss" k] accept.IH show ?thesis
      by (auto simp: Suc_le_eq)
  next
    case other
    then show ?thesis using accept.IH by (auto intro: list_emb_append2)
  qed
qed

lemma lit_reach_prefix:
  assumes "lit_reach ss stage seen" and "ss = pre @ s # post"
  shows "\<exists>stage1 seen1 stage2 seen2. lit_reach pre stage1 seen1
    \<and> advance_literature_state (ls_type s) (ls_request s) stage1 seen1 (ls_published s) (ls_bound s)
        = Inr (stage2, seen2)"
  using assms
proof (induction arbitrary: post rule: lit_reach.induct)
  case start
  then show ?case by simp
next
  case (accept ss stage seen t stage' seen')
  show ?case
  proof (cases post rule: rev_cases)
    case Nil
    with accept show ?thesis by auto
  next
    case (snoc post' u)
    with accept show ?thesis by auto
  qed
qed

text \<open>C20: in every sequence of actions the literature machine accepts, each substantive research
  action comes after a literature search, and each retrieval of evidence comes after a search,
  an acquisition, a parse, an embedding and an index refresh in that order, and names a
  generation that was published, when the binding is required.\<close>

theorem literature_order:
  assumes "lit_reach ss stage seen" and "ss = pre @ s # post"
  shows "(ls_type s \<in> set substantive \<longrightarrow> SearchLiterature \<in> ls_type ` set pre)
    \<and> (ls_type s = RetrieveEvidence \<longrightarrow>
         subseq [SearchLiterature, AcquireSource, ParseSource, EmbedSources, RefreshRetrievalIndex]
           (map ls_type pre)
         \<and> (ls_bound s \<longrightarrow> generation_guard (ls_request s) (ls_published s) = Inr ()))"
proof -
  obtain stage1 seen1 stage2 seen2 where pre: "lit_reach pre stage1 seen1"
    and adv: "advance_literature_state (ls_type s) (ls_request s) stage1 seen1 (ls_published s) (ls_bound s)
        = Inr (stage2, seen2)"
    using lit_reach_prefix [OF assms] by blast
  note inv = lit_reach_inv [OF pre]
  from adv show ?thesis
  proof (cases rule: advance_cases)
    case (cycle k)
    have "subseq (take 5 pipeline) (map ls_type pre)" if "ls_type s = RetrieveEvidence"
    proof -
      have "5 \<le> stage1" using cycle that by simp
      then have "take 5 pipeline = take 5 (take stage1 pipeline)" by simp
      then show ?thesis using inv
        by (metis prefix_imp_subseq subseq_order.order_trans take_is_prefix)
    qed
    with cycle literature_minimum_pipeline [OF cycle(1)] show ?thesis
      by (auto simp: pipeline_def)
  next
    case search
    then show ?thesis by (simp add: substantive_def)
  next
    case follow
    then show ?thesis by (simp add: substantive_def)
  next
    case other
    then have "ls_type s \<noteq> RetrieveEvidence" by auto
    with other inv show ?thesis by simp
  qed
qed

definition ex_search :: lit_step where
  "ex_search = \<lparr>ls_type = SearchLiterature, ls_request = [], ls_published = [], ls_bound = True\<rparr>"

definition ex_derive :: lit_step where
  "ex_derive = \<lparr>ls_type = Derive, ls_request = [], ls_published = [], ls_bound = True\<rparr>"

lemma ex_lit_reach: "lit_reach [ex_search, ex_derive] 1 True"
proof -
  have "lit_reach [ex_search] 1 True"
    using lit_reach.accept [OF lit_reach.start, of ex_search 1 True]
    by (simp add: ex_search_def advance_literature_state_def)
  from lit_reach.accept [OF this, of ex_derive 1 True] show ?thesis
    by (simp add: ex_derive_def advance_literature_state_def)
qed

lemma literature_order_witness: "SearchLiterature \<in> ls_type ` set [ex_search]"
  using literature_order [OF ex_lit_reach, of "[ex_search]" ex_derive "[]"]
  by (simp add: ex_derive_def substantive_def)

end
