(* ===== verification/Campaign_Run.thy ===== *)
theory Campaign_Run
  imports Checkpoint_Frame Literature
begin

text \<open>
  \<open>EndToEndCampaignRunner\<close> of \<open>campaign/end_to_end.py\<close>: a fixed list of actions, each run
  through the checkpoint store, and the summary file.  The checkpoint directory and the files
  of the root directory are two disks.  \<open>rs_calls\<close> records every call of an effect with its
  sequence number and idempotency key.
\<close>

section \<open>Actions\<close>

text \<open>A callable request is represented by what its call yields: an exception class, or a dict.\<close>

record runtime_action =
  ra_action_type :: action_type
  ra_request :: "str + jobject"
  ra_effect :: effect
  ra_paid :: bool

record runner_config =
  rc_campaign :: str
  rc_recorded_at :: str
  rc_max_actions :: int

definition runner_init :: "runner_config \<Rightarrow> unit res" where
  "runner_init cfg = checks
     [ensure (1 \<le> rc_max_actions cfg) (EndToEndError ''max_actions must be positive''),
      ensure (valid_identifier (rc_campaign cfg))
        (CheckpointError ''campaign_id must be a valid identifier'')]"

section \<open>The loop\<close>

record run_state =
  rs_disk :: disk
  rs_calls :: "(int \<times> str) list"
  rs_stage :: nat
  rs_seen :: bool
  rs_published :: "str list"
  rs_terminals :: "jobject list"

definition generation_keys :: "str list" where
  "generation_keys = [''published_generation_hash'', ''generation_hash'', ''projection_id'']"

definition terminal_completed :: "jobject \<Rightarrow> bool" where
  "terminal_completed terminal \<longleftrightarrow> get_field terminal ''status'' = JStr ''completed''"

definition terminal_result :: "jobject \<Rightarrow> jobject" where
  "terminal_result terminal = obj_of (get_field terminal ''result'')"

definition publish_generations :: "action_type \<Rightarrow> jobject \<Rightarrow> str list \<Rightarrow> str list" where
  "publish_generations ty terminal published =
     (if terminal_completed terminal \<and> ty = RefreshRetrievalIndex
      then published @ filter (\<lambda>g. g \<noteq> [])
             (map (\<lambda>k. text_of (get_field (terminal_result terminal) k)) generation_keys)
      else published)"

definition candidate_types :: "action_type list" where
  "candidate_types = [Experiment, RunProgram, Verify, FormalCheck]"

definition unresolved_value :: "int \<Rightarrow> action_type \<Rightarrow> json \<Rightarrow> json" where
  "unresolved_value sequence ty reason = JObj
     [(''sequence'', JInt sequence), (''action_type'', JStr (action_type_value ty)),
      (''reason'', reason), (''paid_work_repeated'', JBool False)]"

definition failure_reason :: "jobject \<Rightarrow> str \<Rightarrow> json" where
  "failure_reason terminal otherwise =
     (case jget (terminal_result terminal) ''error_class'' of Some r \<Rightarrow> r | None \<Rightarrow> JStr otherwise)"

definition orphan_reason :: json where
  "orphan_reason = JStr ''effect_intent_has_no_terminal_record''"

definition exec_args_of :: "runner_config \<Rightarrow> runtime_action \<Rightarrow> jobject \<Rightarrow> exec_args" where
  "exec_args_of cfg a request =
     \<lparr>xa_action_type = ra_action_type a, xa_request = request, xa_paid = ra_paid a,
      xa_recorded_at = rc_recorded_at cfg\<rparr>"

fun is_ambiguous :: "error \<Rightarrow> bool" where
  "is_ambiguous (AmbiguousEffectError _) = True"
| "is_ambiguous _ = False"

text \<open>\<open>JNull\<close> stands for \<open>unresolved is None\<close>.\<close>

fun run_actions ::
  "hexdigest \<Rightarrow> runner_config \<Rightarrow> int \<Rightarrow> runtime_action list \<Rightarrow> run_state \<Rightarrow> run_state \<times> json res" where
  "run_actions H cfg sequence [] st = (st, Inr JNull)"
| "run_actions H cfg sequence (a # rest) st =
     (case ra_request a of
        Inl cls \<Rightarrow> (st, Inl (EffectRaised cls))
      | Inr request \<Rightarrow>
          (case advance_literature_state (ra_action_type a) request (rs_stage st) (rs_seen st)
                  (rs_published st) False of
             Inl e \<Rightarrow> (st, Inl e)
           | Inr (stage, seen) \<Rightarrow>
               (case execute H (rc_campaign cfg) sequence (exec_args_of cfg a request)
                       (ra_effect a) (rs_disk st) of
                  (d, calls, r) \<Rightarrow>
                    let st1 = st\<lparr>rs_disk := d, rs_calls := rs_calls st @ map (Pair sequence) calls,
                                 rs_stage := stage, rs_seen := seen\<rparr> in
                    (case r of
                       Inl e \<Rightarrow>
                         (st1, if is_ambiguous e
                               then Inr (unresolved_value sequence (ra_action_type a) orphan_reason)
                               else Inl e)
                     | Inr terminal \<Rightarrow>
                         let st2 = st1\<lparr>rs_terminals := rs_terminals st @ [terminal],
                                       rs_published := publish_generations (ra_action_type a)
                                         terminal (rs_published st)\<rparr> in
                         if \<not> terminal_completed terminal
                            \<and> \<not> (ra_action_type a \<in> set candidate_types \<and> rest \<noteq> [])
                         then (st2, Inr (unresolved_value sequence (ra_action_type a)
                                 (failure_reason terminal ''action_failed'')))
                         else run_actions H cfg (sequence + 1) rest st2))))"

section \<open>The summary\<close>

definition end_to_end_schema_version :: str where
  "end_to_end_schema_version = ''adaivy.end-to-end-campaign.v1''"

definition terminal_type :: "jobject \<Rightarrow> json" where
  "terminal_type terminal = get_field terminal ''action_type''"

definition candidate_continued :: "jobject list \<Rightarrow> bool" where
  "candidate_continued terminals \<longleftrightarrow>
     (\<exists>t \<in> set (butlast terminals). \<not> terminal_completed t
        \<and> terminal_type t \<in> {JStr (action_type_value Verify), JStr (action_type_value FormalCheck)})"

definition summary_core :: "runner_config \<Rightarrow> jobject list \<Rightarrow> json \<Rightarrow> jobject" where
  "summary_core cfg terminals unresolved =
     [(''schema_version'', JStr end_to_end_schema_version),
      (''campaign_id'', JStr (rc_campaign cfg)),
      (''status'', JStr (if unresolved = JNull then ''completed'' else ''unresolved'')),
      (''completed_action_count'', JInt (int (length terminals))),
      (''failed_action_count'',
         JInt (int (length (filter (\<lambda>t. \<not> terminal_completed t) terminals)))),
      (''candidate_failure_continued'', JBool (candidate_continued terminals)),
      (''action_types'', JArr (map terminal_type terminals)),
      (''literature_search_recorded'', JBool
         (\<exists>t \<in> set terminals. terminal_type t = JStr (action_type_value SearchLiterature))),
      (''before_research_human_checkpoint_required'', JBool False),
      (''before_announcement_human_checkpoint_required'', JBool True),
      (''unresolved'', unresolved),
      (''recorded_at'', JStr (rc_recorded_at cfg)),
      (''epistemic_warrant_created'', JBool False)]"

definition seal_summary :: "hexdigest \<Rightarrow> jobject \<Rightarrow> jobject" where
  "seal_summary H core = core @ [(''content_hash'', JStr (canonical_hash H (JObj core)))]"

definition rendered :: "jobject \<Rightarrow> bytes" where
  "rendered value = canonical_bytes (JObj value) @ [CHR 0x0A]"

definition summary_name :: str where
  "summary_name = ''end-to-end-summary.json''"

text \<open>
  An existing summary with other bytes is to be kept in \<open>summary-history\<close> under a name that
  starts from \<open>canonical_hash(old)\<close>; \<open>old\<close> is a \<open>bytes\<close> object, which \<open>json.dumps\<close> refuses.
\<close>

definition write_summary :: "hexdigest \<Rightarrow> jobject \<Rightarrow> disk \<Rightarrow> disk \<times> jobject res" where
  "write_summary H core files =
     (if \<not> utf8_strings (JObj core) then (files, Inl UnicodeEncodeErr)
      else
        let summary = seal_summary H core; new = rendered summary in
        case disk_get files summary_name of
          Some old \<Rightarrow>
            (if old \<noteq> new then (files, Inl TypeErr)
             else (disk_put summary_name new files, Inr summary))
        | None \<Rightarrow> (disk_put summary_name new files, Inr summary))"

section \<open>One run\<close>

definition first_index :: "(action_type \<Rightarrow> bool) \<Rightarrow> action_type list \<Rightarrow> nat" where
  "first_index p ts = length (takeWhile (\<lambda>t. \<not> p t) ts)"

definition run_guards :: "runner_config \<Rightarrow> action_type list \<Rightarrow> unit res" where
  "run_guards cfg types = checks
     [ensure (int (length types) \<le> rc_max_actions cfg)
        (EndToEndError ''end-to-end action bound exceeded''),
      ensure (SearchLiterature \<in> set types)
        (EndToEndError ''recorded literature search is mandatory''),
      ensure (first_index (\<lambda>t. t = SearchLiterature) types
                \<le> first_index (\<lambda>t. t \<in> set substantive) types)
        (EndToEndError ''literature search must precede substantive research'')]"

definition start_state :: "disk \<Rightarrow> run_state" where
  "start_state d = \<lparr>rs_disk = d, rs_calls = [], rs_stage = 0, rs_seen = False, rs_published = [],
     rs_terminals = []\<rparr>"

definition run_end_to_end ::
  "hexdigest \<Rightarrow> runner_config \<Rightarrow> runtime_action list \<Rightarrow> disk \<Rightarrow> disk
     \<Rightarrow> run_state \<times> disk \<times> jobject res" where
  "run_end_to_end H cfg actions d files =
     (case run_guards cfg (map ra_action_type actions) of
        Inl e \<Rightarrow> (start_state d, files, Inl e)
      | Inr _ \<Rightarrow>
          (case run_actions H cfg 1 actions (start_state d) of
             (st, Inl e) \<Rightarrow> (st, files, Inl e)
           | (st, Inr unresolved) \<Rightarrow>
               (case write_summary H (summary_core cfg (rs_terminals st) unresolved) files of
                  (files', r) \<Rightarrow> (st, files', r))))"

end
