(* ===== verification/Planner_Port.thy ===== *)
theory Planner_Port
  imports Campaign_Run
begin

text \<open>
  The planner port of \<open>campaign/runner.py\<close> (the context a planner is called with, the response
  it returns) and the base64 form in which \<open>campaign/end_to_end.py\<close> stores a response.
\<close>

section \<open>Context and response\<close>

record tool_feedback =
  tf_kind :: str
  tf_action_id :: str
  tf_branch_id :: str
  tf_status :: str
  tf_result_hash :: str
  tf_result_excerpt :: str
  tf_stderr_excerpt :: "str option"
  tf_untrusted_for_warrant :: bool

record planner_context =
  pc_campaign_id :: str
  pc_target_hash :: str
  pc_configuration_hash :: str
  pc_sequence :: int
  pc_previous_action_id :: "str option"
  pc_available :: "str list"
  pc_programs :: "str list"
  pc_candidate :: "str option"
  pc_selected_tools :: "str list"
  pc_latest_hash :: "str option"
  pc_latest :: "bytes option"
  pc_actions_remaining :: int
  pc_tool_runs_remaining :: int
  pc_target_statement :: "str option"
  pc_target_statement_hash :: "str option"
  pc_frozen :: "str list"
  pc_notes :: "(str \<times> str) list"
  pc_feedback :: "tool_feedback list"
  pc_suspended :: "str list"
  pc_branch_status :: "(str \<times> str) list"
  pc_read_hash :: "str option"
  pc_read_bytes :: "bytes option"
  pc_read_truncated :: bool
  pc_last_rejection :: "str option"
  pc_repairs :: int
  pc_latest_unverified :: bool
  pc_selected_unverified :: bool

record planner_response =
  pr_action_json :: bytes
  pr_provider :: str
  pr_model :: str
  pr_status :: record_status
  pr_usage_source :: usage_source
  pr_input_tokens :: int
  pr_output_tokens :: int
  pr_cost :: "int option"
  pr_request_id :: "str option"

section \<open>Base64\<close>

definition b64_alphabet :: str where
  "b64_alphabet = ''ABCDEFGHIJKLMNOPQRSTUVWXYZabcdefghijklmnopqrstuvwxyz0123456789+/''"

definition b64_char :: "nat \<Rightarrow> char" where
  "b64_char n = b64_alphabet ! n"

definition b64_value :: "char \<Rightarrow> nat option" where
  "b64_value c = map_of (zip b64_alphabet [0..<64]) c"

definition code3 :: "char \<Rightarrow> char \<Rightarrow> char \<Rightarrow> nat" where
  "code3 a b c = of_char a * 65536 + of_char b * 256 + of_char c"

fun b64encode :: "bytes \<Rightarrow> str" where
  "b64encode [] = []"
| "b64encode [a] = (let n = code3 a (CHR 0x00) (CHR 0x00) in
     [b64_char (n div 262144), b64_char (n div 4096 mod 64), CHR ''='', CHR ''=''])"
| "b64encode [a, b] = (let n = code3 a b (CHR 0x00) in
     [b64_char (n div 262144), b64_char (n div 4096 mod 64), b64_char (n div 64 mod 64), CHR ''=''])"
| "b64encode (a # b # c # rest) = (let n = code3 a b c in
     b64_char (n div 262144) # b64_char (n div 4096 mod 64) # b64_char (n div 64 mod 64)
       # b64_char (n mod 64) # b64encode rest)"

definition decode4 :: "nat \<Rightarrow> nat \<Rightarrow> nat \<Rightarrow> nat \<Rightarrow> bytes" where
  "decode4 w x y z = (let n = w * 262144 + x * 4096 + y * 64 + z in
     [char_of (n div 65536), char_of (n div 256 mod 256), char_of (n mod 256)])"

text \<open>\<open>base64.b64decode(s, validate=True)\<close>: \<open>None\<close> where it raises.\<close>

fun b64decode :: "str \<Rightarrow> bytes option" where
  "b64decode [] = Some []"
| "b64decode (a # b # c # d # rest) =
     (case (b64_value a, b64_value b, b64_value c, b64_value d) of
        (Some w, Some x, Some y, Some z) \<Rightarrow> map_option (\<lambda>bs. decode4 w x y z @ bs) (b64decode rest)
      | (Some w, Some x, Some y, None) \<Rightarrow>
          if d = CHR ''='' \<and> rest = [] then Some (take 2 (decode4 w x y 0)) else None
      | (Some w, Some x, None, _) \<Rightarrow>
          if c = CHR ''='' \<and> d = CHR ''='' \<and> rest = [] then Some (take 1 (decode4 w x 0 0)) else None
      | _ \<Rightarrow> None)"
| "b64decode _ = None"

lemma b64_table: "\<forall>n \<in> {..<64}. b64_value (b64_char n) = Some n"
  by code_simp

lemma b64_value_char [simp]: "n < 64 \<Longrightarrow> b64_value (b64_char n) = Some n"
  using b64_table by simp

lemma b64_value_pad [simp]: "b64_value (CHR ''='') = None"
  by code_simp

lemma of_char_less [simp]: "(of_char c :: nat) < 256"
  using of_char_mod_256 [of c] by (metis mod_less_divisor zero_less_numeral)

lemma code3_bounds:
  "code3 a b c < 16777216" "code3 a b c div 65536 = of_char a"
  "code3 a b c div 256 mod 256 = of_char b" "code3 a b c mod 256 = of_char c"
proof -
  have l: "(of_char a :: nat) < 256" "(of_char b :: nat) < 256" "(of_char c :: nat) < 256" by simp_all
  then show "code3 a b c < 16777216" unfolding code3_def by linarith
  have "code3 a b c = (of_char b * 256 + of_char c) + of_char a * 65536"
    by (simp add: code3_def)
  moreover have "of_char b * 256 + of_char c < (65536 :: nat)" using l by linarith
  ultimately show "code3 a b c div 65536 = of_char a"
    by simp
  have e: "code3 a b c = of_char c + (of_char b + of_char a * 256) * 256"
    by (simp add: code3_def algebra_simps)
  have "code3 a b c div 256 = of_char b + of_char a * 256"
    unfolding e using l by (subst div_mult_self1) simp_all
  then show "code3 a b c div 256 mod 256 = of_char b"
    using l by (simp only: mod_mult_self1 mod_less)
  show "code3 a b c mod 256 = of_char c"
    unfolding e using l by (simp only: mod_mult_self1 mod_less)
qed

lemma digits64:
  fixes n :: nat
  assumes "n < 16777216"
  shows "n div 262144 < 64"
    and "n div 262144 * 262144 + n div 4096 mod 64 * 4096 + n div 64 mod 64 * 64 + n mod 64 = n"
proof -
  show "n div 262144 < 64" using assms by (intro less_mult_imp_div_less) simp
  have "n div 64 = n div 4096 * 64 + n div 64 mod 64"
    using div_mult_mod_eq [of "n div 64" 64] div_mult2_eq [of n 64 64] by simp
  moreover have "n div 4096 = n div 262144 * 64 + n div 4096 mod 64"
    using div_mult_mod_eq [of "n div 4096" 64] div_mult2_eq [of n 4096 64] by simp
  moreover have "n = n div 64 * 64 + n mod 64" by simp
  ultimately show "n div 262144 * 262144 + n div 4096 mod 64 * 4096 + n div 64 mod 64 * 64 + n mod 64 = n"
    by linarith
qed

lemma decode4_code3:
  assumes "n = code3 a b c"
  shows "decode4 (n div 262144) (n div 4096 mod 64) (n div 64 mod 64) (n mod 64) = [a, b, c]"
  unfolding decode4_def Let_def digits64(2) [OF code3_bounds(1) [of a b c, folded assms]]
  unfolding assms code3_bounds by simp

lemma pad_zero:
  "code3 a (CHR 0x00) (CHR 0x00) mod 64 = 0" "code3 a (CHR 0x00) (CHR 0x00) div 64 mod 64 = 0"
  "code3 a b (CHR 0x00) mod 64 = 0"
proof -
  have l: "(of_char (CHR 0x00) :: nat) = 0" by simp
  have "code3 a b (CHR 0x00) = (of_char a * 1024 + of_char b * 4) * 64"
    unfolding code3_def l by simp
  then show "code3 a b (CHR 0x00) mod 64 = 0" by (simp only: mod_mult_self2_is_0)
  have e: "code3 a (CHR 0x00) (CHR 0x00) = (of_char a * 16 * 64) * 64"
    unfolding code3_def l by simp
  show "code3 a (CHR 0x00) (CHR 0x00) mod 64 = 0"
    unfolding e by (simp only: mod_mult_self2_is_0)
  have "code3 a (CHR 0x00) (CHR 0x00) div 64 = of_char a * 16 * 64"
    unfolding e by (simp only: nonzero_mult_div_cancel_right zero_neq_numeral [symmetric] not_False_eq_True simp_thms)
  then show "code3 a (CHR 0x00) (CHR 0x00) div 64 mod 64 = 0"
    by (simp only: mod_mult_self2_is_0)
qed

lemma b64_round_trip: "b64decode (b64encode bs) = Some bs"
proof (induction bs rule: b64encode.induct)
  case 1
  show ?case by simp
next
  case (2 a)
  have "decode4 (code3 a (CHR 0x00) (CHR 0x00) div 262144) (code3 a (CHR 0x00) (CHR 0x00) div 4096 mod 64) 0 0
      = [a, CHR 0x00, CHR 0x00]"
    using decode4_code3 [OF refl, of a "CHR 0x00" "CHR 0x00"] by (simp only: pad_zero)
  then show ?case
    using digits64(1) [OF code3_bounds(1), of a "CHR 0x00" "CHR 0x00"] by (simp add: Let_def)
next
  case (3 a b)
  have "decode4 (code3 a b (CHR 0x00) div 262144) (code3 a b (CHR 0x00) div 4096 mod 64)
      (code3 a b (CHR 0x00) div 64 mod 64) 0 = [a, b, CHR 0x00]"
    using decode4_code3 [OF refl, of a b "CHR 0x00"] by (simp only: pad_zero)
  then show ?case
    using digits64(1) [OF code3_bounds(1), of a b "CHR 0x00"] by (simp add: Let_def)
next
  case (4 a b c rest)
  then show ?case
    using digits64(1) [OF code3_bounds(1), of a b c] decode4_code3 [OF refl, of a b c]
    by (simp add: Let_def)
qed

section \<open>A response in a checkpoint\<close>

definition planner_result :: "planner_response \<Rightarrow> jobject" where
  "planner_result r =
     [(''action_json_base64'', JStr (b64encode (pr_action_json r))),
      (''provider'', JStr (pr_provider r)),
      (''model_identifier'', JStr (pr_model r)),
      (''status'', JStr (status_value (pr_status r))),
      (''usage_source'', JStr (usage_value (pr_usage_source r))),
      (''input_tokens'', JInt (pr_input_tokens r)),
      (''output_tokens'', JInt (pr_output_tokens r)),
      (''estimated_cost_microusd'', jint_opt (pr_cost r)),
      (''provider_request_id'', jstr_opt (pr_request_id r))]"

definition planner_result_keys :: "str list" where
  "planner_result_keys =
     [''action_json_base64'', ''provider'', ''model_identifier'', ''status'', ''usage_source'',
      ''input_tokens'', ''output_tokens'', ''estimated_cost_microusd'', ''provider_request_id'']"

text \<open>The fields of the rebuilt response that the runner reads: the action bytes and the status.\<close>

definition response_from_result :: "jobject \<Rightarrow> (bytes \<times> record_status) res" where
  "response_from_result value =
     (let bad = Inl (EndToEndError ''planner checkpoint result differs'') in
      if \<not> set planner_result_keys \<subseteq> set (map fst value) then bad
      else case get_field value ''action_json_base64'' of
        JStr s \<Rightarrow>
          (case (b64decode s, enum_of status_value all_statuses (get_field value ''status''),
                 enum_of usage_value all_usage_sources (get_field value ''usage_source'')) of
             (Some raw, Some status, Some _) \<Rightarrow> Inr (raw, status)
           | _ \<Rightarrow> bad)
      | _ \<Rightarrow> bad)"

lemma planner_result_keys_set: "fst ` set (planner_result r) = set planner_result_keys"
  by (rule equalityI; simp add: planner_result_def planner_result_keys_def)

lemma planner_result_distinct: "distinct (map fst (planner_result r))"
  by (simp add: planner_result_def)

lemma response_of_planner_result:
  "response_from_result (dict_of (planner_result r)) = Inr (pr_action_json r, pr_status r)"
proof -
  have f: "get_field (planner_result r) ''action_json_base64'' = JStr (b64encode (pr_action_json r))"
    "get_field (planner_result r) ''status'' = JStr (status_value (pr_status r))"
    "get_field (planner_result r) ''usage_source'' = JStr (usage_value (pr_usage_source r))"
    by (simp_all add: planner_result_def get_field_def jget_def)
  show ?thesis
    by (simp add: response_from_result_def Let_def get_field_dict_of [OF planner_result_distinct] f
        planner_result_keys_set b64_round_trip status.enum_of_value usage.enum_of_value)
qed

end
