(* ===== verification/Model_Driven.thy ===== *)
theory Model_Driven
  imports Planner_Port
begin

text \<open>
  \<open>ModelDrivenEndToEndCampaignRunner\<close> of \<open>campaign/end_to_end.py\<close>: one action at a time,
  selected by the planner.  Planner calls, operation effects and human answers have separate
  checkpoint stores, hence separate disks.  The planner is a parameter with a state of its own
  (\<open>'s\<close>); an operation effect is a parameter per action type.
\<close>

section \<open>Configuration and environment\<close>

record md_config =
  mc_campaign :: str
  mc_target_hash :: str
  mc_configuration_hash :: str
  mc_recorded_at :: str
  mc_max_actions :: int
  mc_planner_is_paid :: bool
  mc_target_statement :: "str option"

record runtime_effect =
  re_effect :: "jobject \<Rightarrow> effect"
  re_paid :: bool

record 's planner_env =
  en_planner :: "'s \<Rightarrow> planner_context \<Rightarrow> 's \<times> (str + planner_response)"
  en_restore :: "('s \<Rightarrow> int \<Rightarrow> jobject \<Rightarrow> 's res) option"
  en_effects :: "action_type \<Rightarrow> runtime_effect option"

definition model_driven_init :: "md_config \<Rightarrow> unit res" where
  "model_driven_init cfg = checks
     [ensure (1 \<le> mc_max_actions cfg) (EndToEndError ''max_actions must be positive''),
      ensure (valid_identifier (mc_campaign cfg)) (EndToEndError ''campaign_id differs'')]"

definition resolve_effect :: "'s planner_env \<Rightarrow> action_type \<Rightarrow> runtime_effect res" where
  "resolve_effect env ty =
     (case en_effects env ty of
        Some b \<Rightarrow> Inr b
      | None \<Rightarrow> Inl (EndToEndError (''no effect is registered for '' @ action_type_value ty)))"

section \<open>State\<close>

text \<open>The calls carry the sequence number; those of effects also the type and the key.\<close>

record 's md_state =
  ms_planner :: 's
  ms_plans :: disk
  ms_actions :: disk
  ms_answers :: disk
  ms_planner_calls :: "int list"
  ms_effect_calls :: "(int \<times> action_type \<times> str) list"
  ms_records :: "jobject list"
  ms_available :: "str list"
  ms_published :: "str list"
  ms_stage :: nat
  ms_seen :: bool
  ms_latest :: "(bytes \<times> str) option"
  ms_answer :: "str option"
  ms_operator :: "str option"

definition md_start ::
  "md_config \<Rightarrow> 's \<Rightarrow> disk \<Rightarrow> disk \<Rightarrow> disk \<Rightarrow> str option \<Rightarrow> str option \<Rightarrow> 's md_state" where
  "md_start cfg s plans actions answers answer operator =
     \<lparr>ms_planner = s, ms_plans = plans, ms_actions = actions, ms_answers = answers,
      ms_planner_calls = [], ms_effect_calls = [], ms_records = [],
      ms_available = [mc_target_hash cfg, mc_configuration_hash cfg], ms_published = [],
      ms_stage = 0, ms_seen = False, ms_latest = None, ms_answer = answer, ms_operator = operator\<rparr>"

definition md_context :: "md_config \<Rightarrow> int \<Rightarrow> 's md_state \<Rightarrow> planner_context" where
  "md_context cfg sequence st =
     \<lparr>pc_campaign_id = mc_campaign cfg, pc_target_hash = mc_target_hash cfg,
      pc_configuration_hash = mc_configuration_hash cfg, pc_sequence = sequence,
      pc_previous_action_id =
        (if ms_records st = [] then None else Some (''action.'' @ int_str (sequence - 1))),
      pc_available = sort (remdups (ms_available st)), pc_programs = [], pc_candidate = None,
      pc_selected_tools = [], pc_latest_hash = map_option snd (ms_latest st),
      pc_latest = map_option fst (ms_latest st),
      pc_actions_remaining = mc_max_actions cfg - sequence + 1,
      pc_tool_runs_remaining = mc_max_actions cfg - sequence + 1,
      pc_target_statement = mc_target_statement cfg,
      pc_target_statement_hash =
        (case mc_target_statement cfg of
           Some s \<Rightarrow> if s = [] then None else Some (mc_target_hash cfg) | None \<Rightarrow> None),
      pc_frozen = [mc_target_hash cfg], pc_notes = [], pc_feedback = [], pc_suspended = [],
      pc_branch_status = [], pc_read_hash = None, pc_read_bytes = None, pc_read_truncated = False,
      pc_last_rejection = None, pc_repairs = 0, pc_latest_unverified = False,
      pc_selected_unverified = False\<rparr>"

definition planner_request :: "md_config \<Rightarrow> int \<Rightarrow> 's md_state \<Rightarrow> jobject" where
  "planner_request cfg sequence st =
     [(''campaign_id'', JStr (mc_campaign cfg)), (''sequence'', JInt sequence),
      (''target_hash'', JStr (mc_target_hash cfg)),
      (''configuration_hash'', JStr (mc_configuration_hash cfg)),
      (''available_artifact_hashes'', JArr (map JStr (pc_available (md_context cfg sequence st)))),
      (''latest_result_hash'', jstr_opt (map_option snd (ms_latest st)))]"

section \<open>Planning\<close>

text \<open>An iteration goes on with a value or leaves the loop with the status and \<open>unresolved\<close>.\<close>

datatype 'a outcome = Go 'a | Leave str json

definition plan_unresolved :: "int \<Rightarrow> json \<Rightarrow> 'a outcome" where
  "plan_unresolved sequence reason = Leave ''unresolved'' (unresolved_value sequence Plan reason)"

text \<open>The planner is called through its checkpoint store; its state moves only when it is called.\<close>

definition call_planner ::
  "hexdigest \<Rightarrow> md_config \<Rightarrow> 's planner_env \<Rightarrow> int \<Rightarrow> 's md_state \<Rightarrow> 's md_state \<times> jobject res" where
  "call_planner H cfg env sequence st =
     (let answer = en_planner env (ms_planner st) (md_context cfg sequence st);
          eff = (\<lambda>_. map_sum id planner_result (snd answer));
          a = \<lparr>xa_action_type = Plan, xa_request = planner_request cfg sequence st,
               xa_paid = mc_planner_is_paid cfg, xa_recorded_at = mc_recorded_at cfg\<rparr>
      in case execute H (mc_campaign cfg) sequence a eff (ms_plans st) of
           (d, calls, r) \<Rightarrow>
             (st\<lparr>ms_plans := d,
                 ms_planner_calls := ms_planner_calls st @ map (\<lambda>_. sequence) calls,
                 ms_planner := (if calls = [] then ms_planner st else fst answer)\<rparr>, r))"

definition restore_planner :: "'s planner_env \<Rightarrow> int \<Rightarrow> jobject \<Rightarrow> bool \<Rightarrow> 's \<Rightarrow> 's res" where
  "restore_planner env sequence result prior s =
     (case en_restore env of
        Some f \<Rightarrow> if prior then f s sequence result else Inr s
      | None \<Rightarrow> Inr s)"

definition plan_action ::
  "hexdigest \<Rightarrow> md_config \<Rightarrow> 's planner_env \<Rightarrow> int \<Rightarrow> 's md_state
     \<Rightarrow> 's md_state \<times> bytes outcome res" where
  "plan_action H cfg env sequence st =
     (case load_terminal H (mc_campaign cfg) sequence (ms_plans st) of
        Inl e \<Rightarrow> (st, Inl e)
      | Inr prior \<Rightarrow>
          (case call_planner H cfg env sequence st of
             (st1, Inl e) \<Rightarrow>
               (st1, if is_ambiguous e then Inr (plan_unresolved sequence orphan_reason) else Inl e)
           | (st1, Inr planned) \<Rightarrow>
               (if \<not> terminal_completed planned
                then (st1, Inr (plan_unresolved sequence (failure_reason planned ''planner_failed'')))
                else case response_from_result (terminal_result planned) of
                  Inl e \<Rightarrow> (st1, Inl e)
                | Inr (raw, status) \<Rightarrow>
                    (case restore_planner env sequence (terminal_result planned) (prior \<noteq> None)
                            (ms_planner st1) of
                       Inl e \<Rightarrow> (st1, Inl e)
                     | Inr s \<Rightarrow>
                         (st1\<lparr>ms_planner := s\<rparr>,
                          Inr (if status \<noteq> Completed
                               then plan_unresolved sequence (JStr (''planner_'' @ status_value status))
                               else Go raw))))))"

section \<open>Choosing and running the operation\<close>

definition ask_user_effect :: "jobject \<Rightarrow> effect" where
  "ask_user_effect request key =
     Inr [(''question'', get_field request ''question''), (''idempotency_key'', JStr key)]"

definition report_effect :: "jobject \<Rightarrow> effect" where
  "report_effect request key =
     Inr [(''report'', JObj request), (''idempotency_key'', JStr key)]"

definition bind_effect ::
  "'s planner_env \<Rightarrow> action_type \<Rightarrow> jobject \<Rightarrow> runtime_effect res" where
  "bind_effect env ty request =
     (if ty = AskUser then
        (if text_of (get_field request ''question'') = []
         then Inl (EndToEndError ''ask_user requires a question'')
         else Inr \<lparr>re_effect = ask_user_effect, re_paid = False\<rparr>)
      else if ty = Report then Inr \<lparr>re_effect = report_effect, re_paid = False\<rparr>
      else resolve_effect env ty)"

text \<open>\<open>except EndToEndRuntimeError\<close>: the loop ends with the message as the reason.\<close>

definition rejected :: "int \<Rightarrow> error \<Rightarrow> 'a outcome res" where
  "rejected sequence e =
     (case e of
        EndToEndError m \<Rightarrow> Inr (plan_unresolved sequence (JStr m))
      | _ \<Rightarrow> Inl e)"

definition perform_action ::
  "hexdigest \<Rightarrow> md_config \<Rightarrow> 's planner_env \<Rightarrow> int \<Rightarrow> bytes \<Rightarrow> 's md_state
     \<Rightarrow> 's md_state \<times> (action_type \<times> jobject \<times> jobject) outcome res" where
  "perform_action H cfg env sequence raw st =
     (case parse_planned_action raw of
        Inl e \<Rightarrow> (st, rejected sequence e)
      | Inr (ty, request) \<Rightarrow>
          (case advance_literature_state ty request (ms_stage st) (ms_seen st) (ms_published st) True of
             Inl e \<Rightarrow> (st, rejected sequence e)
           | Inr (stage, seen) \<Rightarrow>
               let st1 = st\<lparr>ms_stage := stage, ms_seen := seen\<rparr> in
               (case bind_effect env ty request of
                  Inl e \<Rightarrow> (st1, rejected sequence e)
                | Inr b \<Rightarrow>
                    (case execute H (mc_campaign cfg) sequence
                            \<lparr>xa_action_type = ty, xa_request = request, xa_paid = re_paid b,
                             xa_recorded_at = mc_recorded_at cfg\<rparr>
                            (re_effect b request) (ms_actions st) of
                       (d, calls, r) \<Rightarrow>
                         let st2 = st1\<lparr>ms_actions := d,
                                ms_effect_calls := ms_effect_calls st
                                  @ map (\<lambda>key. (sequence, ty, key)) calls\<rparr> in
                         (case r of
                            Inl e \<Rightarrow>
                              (st2, if is_ambiguous e
                                    then Inr (Leave ''unresolved'' (unresolved_value sequence ty orphan_reason))
                                    else rejected sequence e)
                          | Inr terminal \<Rightarrow> (st2, Inr (Go (ty, request, terminal))))))))"

section \<open>Human answers\<close>

definition answer_request :: "int \<Rightarrow> json \<Rightarrow> str \<Rightarrow> str \<Rightarrow> jobject" where
  "answer_request sequence question answer operator =
     [(''ask_action_sequence'', JInt sequence), (''question'', question), (''answer'', JStr answer),
      (''operator_id'', JStr operator), (''origin'', JStr ''human'')]"

definition record_answer ::
  "hexdigest \<Rightarrow> md_config \<Rightarrow> int \<Rightarrow> json \<Rightarrow> str \<Rightarrow> str \<Rightarrow> disk \<Rightarrow> disk \<times> jobject res" where
  "record_answer H cfg sequence question answer operator d =
     (if \<not> valid_identifier operator then (d, Inl (EndToEndError ''answer operator_id differs''))
      else if answer = [] then (d, Inl (EndToEndError ''human answer differs''))
      else if \<not> utf8_valid answer then (d, Inl UnicodeEncodeErr)
      else if length answer > 65536 then (d, Inl (EndToEndError ''human answer differs''))
      else
        case execute H (mc_campaign cfg) sequence
               \<lparr>xa_action_type = ImportAction,
                xa_request = answer_request sequence question answer operator,
                xa_paid = False, xa_recorded_at = mc_recorded_at cfg\<rparr>
               (\<lambda>key. Inr [(''answer'', JStr answer), (''operator_id'', JStr operator),
                           (''origin'', JStr ''human''), (''idempotency_key'', JStr key)]) d of
          (d', _, r) \<Rightarrow> (d', r))"

section \<open>One iteration\<close>

definition remember :: "hexdigest \<Rightarrow> jobject \<Rightarrow> (bytes \<times> str) option" where
  "remember H terminal =
     Some (canonical_bytes (JObj (terminal_result terminal)),
           canonical_hash H (JObj (terminal_result terminal)))"

definition absorb :: "hexdigest \<Rightarrow> action_type \<Rightarrow> jobject \<Rightarrow> 's md_state \<Rightarrow> 's md_state" where
  "absorb H ty terminal st =
     st\<lparr>ms_records := ms_records st @ [terminal], ms_latest := remember H terminal,
        ms_available := ms_available st @ hashes_in (JObj (terminal_result terminal)),
        ms_published := publish_generations ty terminal (ms_published st)\<rparr>"

definition settle_action ::
  "hexdigest \<Rightarrow> md_config \<Rightarrow> int \<Rightarrow> action_type \<Rightarrow> jobject \<Rightarrow> jobject \<Rightarrow> 's md_state
     \<Rightarrow> 's md_state \<times> unit outcome res" where
  "settle_action H cfg sequence ty request terminal st =
     (if ty = AskUser then
        (case (ms_answer st, ms_operator st) of
           (Some answer, Some operator) \<Rightarrow>
             (case record_answer H cfg sequence (get_field request ''question'') answer operator
                     (ms_answers st) of
                (d, Inl e) \<Rightarrow> (st\<lparr>ms_answers := d\<rparr>, Inl e)
              | (d, Inr human) \<Rightarrow>
                  (st\<lparr>ms_answers := d, ms_latest := remember H human,
                      ms_answer := None, ms_operator := None\<rparr>, Inr (Go ())))
         | _ \<Rightarrow> (st, Inr (Leave ''awaiting_user''
                   (unresolved_value sequence AskUser (JStr ''human_answer_required'')))))
      else if \<not> terminal_completed terminal \<and> ty \<notin> set candidate_types
      then (st, Inr (Leave ''unresolved''
              (unresolved_value sequence ty (failure_reason terminal ''action_failed''))))
      else if ty = Report then (st, Inr (Leave ''completed'' JNull))
      else (st, Inr (Go ())))"

definition md_step ::
  "hexdigest \<Rightarrow> md_config \<Rightarrow> 's planner_env \<Rightarrow> int \<Rightarrow> 's md_state \<Rightarrow> 's md_state \<times> unit outcome res" where
  "md_step H cfg env sequence st =
     (case plan_action H cfg env sequence st of
        (st1, Inl e) \<Rightarrow> (st1, Inl e)
      | (st1, Inr (Leave status u)) \<Rightarrow> (st1, Inr (Leave status u))
      | (st1, Inr (Go raw)) \<Rightarrow>
          (case perform_action H cfg env sequence raw st1 of
             (st2, Inl e) \<Rightarrow> (st2, Inl e)
           | (st2, Inr (Leave status u)) \<Rightarrow> (st2, Inr (Leave status u))
           | (st2, Inr (Go (ty, request, terminal))) \<Rightarrow>
               settle_action H cfg sequence ty request terminal (absorb H ty terminal st2)))"

text \<open>\<open>for sequence in range(1, max_actions + 1)\<close>, with its \<open>else\<close>.\<close>

fun md_loop ::
  "hexdigest \<Rightarrow> md_config \<Rightarrow> 's planner_env \<Rightarrow> nat \<Rightarrow> int \<Rightarrow> 's md_state
     \<Rightarrow> 's md_state \<times> (str \<times> json) res" where
  "md_loop H cfg env 0 sequence st =
     (st, Inr (''unresolved'',
        unresolved_value (mc_max_actions cfg) Plan (JStr ''action_bound_exhausted'')))"
| "md_loop H cfg env (Suc n) sequence st =
     (case md_step H cfg env sequence st of
        (st', Inl e) \<Rightarrow> (st', Inl e)
      | (st', Inr (Leave status u)) \<Rightarrow> (st', Inr (status, u))
      | (st', Inr (Go _)) \<Rightarrow> md_loop H cfg env n (sequence + 1) st')"

section \<open>The summary\<close>

definition md_summary_core :: "md_config \<Rightarrow> 's md_state \<Rightarrow> str \<Rightarrow> json \<Rightarrow> jobject" where
  "md_summary_core cfg st status unresolved =
     [(''schema_version'', JStr ''adaivy.model-driven-end-to-end-campaign.v1''),
      (''campaign_id'', JStr (mc_campaign cfg)),
      (''status'', JStr status),
      (''completed_action_count'', JInt (int (length (ms_records st)))),
      (''action_types'', JArr (map terminal_type (ms_records st))),
      (''literature_search_recorded'', JBool (ms_seen st)),
      (''before_announcement_human_checkpoint_required'', JBool True),
      (''unresolved'', unresolved),
      (''recorded_at'', JStr (mc_recorded_at cfg)),
      (''epistemic_warrant_created'', JBool False)]"

definition md_summary_name :: str where
  "md_summary_name = ''model-driven-end-to-end-summary.json''"

definition history_name :: "hexdigest \<Rightarrow> bytes \<Rightarrow> str" where
  "history_name H old =
     ''model-driven-summary-history/''
       @ drop 7 (canonical_hash H (JObj [(''bytes'', JStr (b64encode old))])) @ ''.json''"

definition md_write_summary :: "hexdigest \<Rightarrow> jobject \<Rightarrow> disk \<Rightarrow> disk \<times> jobject res" where
  "md_write_summary H core files =
     (if \<not> utf8_strings (JObj core) then (files, Inl UnicodeEncodeErr)
      else
        let summary = seal_summary H core; new = rendered summary;
            files1 =
              (case disk_get files md_summary_name of
                 Some old \<Rightarrow>
                   (if old \<noteq> new \<and> disk_get files (history_name H old) = None
                    then disk_put (history_name H old) old files else files)
               | None \<Rightarrow> files)
        in (disk_put md_summary_name new files1, Inr summary))"

definition run_model_driven ::
  "hexdigest \<Rightarrow> md_config \<Rightarrow> 's planner_env \<Rightarrow> 's md_state \<Rightarrow> disk \<Rightarrow> 's md_state \<times> disk \<times> jobject res" where
  "run_model_driven H cfg env start files =
     (case md_loop H cfg env (nat (mc_max_actions cfg)) 1 start of
        (st, Inl e) \<Rightarrow> (st, files, Inl e)
      | (st, Inr (status, unresolved)) \<Rightarrow>
          (case md_write_summary H (md_summary_core cfg st status unresolved) files of
             (files', r) \<Rightarrow> (st, files', r)))"

end
