(* ===== verification/Campaign_Run_Props.thy ===== *)
theory Campaign_Run_Props
  imports Campaign_Run
begin

text \<open>
  What \<open>EndToEndCampaignRunner.run\<close> guarantees: the order and number of effects, replay, and
  the fate of the summary file on a resumed run.
\<close>

declare run_actions.simps [simp del]

section \<open>One step of the loop\<close>

lemma is_ambiguous_iff: "is_ambiguous e \<longleftrightarrow> (\<exists>m. e = AmbiguousEffectError m)"
  by (cases e) auto

lemma execute_type:
  assumes "execute H c s a eff d = (d', calls, Inr t)"
  shows "terminal_type t = JStr (action_type_value (xa_action_type a))"
  using assms
proof (cases rule: execute_returns)
  case stored
  then have "load_intent H c s d = Inr (Some (intent_value H c s a))"
    using ensure_intent_Inr(2) by blast
  with stored(3) have "get_field t ''action_type'' = get_field (intent_value H c s a) ''action_type''"
    by (auto simp: load_terminal_def bindE_eq_Inr split: option.splits)
  then show ?thesis by (simp add: terminal_type_def intent_value_fields intent_core_fields)
next
  case performed
  then show ?thesis
    by (simp add: terminal_type_def terminal_value_fields terminal_core_fields intent_value_fields
        intent_core_fields)
qed

lemma execute_calls_le: "execute H c s a eff d = (d', calls, r) \<Longrightarrow> length calls \<le> 1"
  by (auto simp: execute_def Let_def split: sum.splits prod.splits option.splits)

definition next_state :: "runtime_action \<Rightarrow> jobject \<Rightarrow> run_state \<Rightarrow> run_state" where
  "next_state a terminal st = st\<lparr>rs_terminals := rs_terminals st @ [terminal],
     rs_published := publish_generations (ra_action_type a) terminal (rs_published st)\<rparr>"

definition executed :: "int \<Rightarrow> disk \<Rightarrow> str list \<Rightarrow> nat \<Rightarrow> bool \<Rightarrow> run_state \<Rightarrow> run_state" where
  "executed s d calls stage seen st = st\<lparr>rs_disk := d, rs_calls := rs_calls st @ map (Pair s) calls,
     rs_stage := stage, rs_seen := seen\<rparr>"

definition stops :: "runtime_action \<Rightarrow> runtime_action list \<Rightarrow> jobject \<Rightarrow> bool" where
  "stops a rest terminal \<longleftrightarrow> \<not> terminal_completed terminal
     \<and> \<not> (ra_action_type a \<in> set candidate_types \<and> rest \<noteq> [])"

lemma run_actions_cases:
  assumes "run_actions H cfg s (a # rest) st = (st', r)"
  obtains (refused) e where "st' = st" "r = Inl e"
  | (broken) request stage seen d calls e where "ra_request a = Inr request"
      "advance_literature_state (ra_action_type a) request (rs_stage st) (rs_seen st)
         (rs_published st) False = Inr (stage, seen)"
      "execute H (rc_campaign cfg) s (exec_args_of cfg a request) (ra_effect a) (rs_disk st)
         = (d, calls, Inl e)"
      "st' = executed s d calls stage seen st"
      "r = (if is_ambiguous e then Inr (unresolved_value s (ra_action_type a) orphan_reason) else Inl e)"
  | (recorded) request stage seen d calls terminal where "ra_request a = Inr request"
      "advance_literature_state (ra_action_type a) request (rs_stage st) (rs_seen st)
         (rs_published st) False = Inr (stage, seen)"
      "execute H (rc_campaign cfg) s (exec_args_of cfg a request) (ra_effect a) (rs_disk st)
         = (d, calls, Inr terminal)"
      "stops a rest terminal \<Longrightarrow> st' = next_state a terminal (executed s d calls stage seen st)
         \<and> r = Inr (unresolved_value s (ra_action_type a) (failure_reason terminal ''action_failed''))"
      "\<not> stops a rest terminal \<Longrightarrow>
         run_actions H cfg (s + 1) rest (next_state a terminal (executed s d calls stage seen st))
           = (st', r)"
proof (cases "ra_request a")
  case (Inl cls)
  then show thesis using assms by (intro refused) (auto simp: run_actions.simps)
next
  case (Inr request)
  show thesis
  proof (cases "advance_literature_state (ra_action_type a) request (rs_stage st) (rs_seen st)
      (rs_published st) False")
    case (Inl e)
    then show thesis using assms Inr by (intro refused) (auto simp: run_actions.simps)
  next
    case adv: (Inr x)
    obtain stage seen where x: "x = (stage, seen)" by fastforce
    obtain d calls y where e: "execute H (rc_campaign cfg) s (exec_args_of cfg a request)
        (ra_effect a) (rs_disk st) = (d, calls, y)" by (cases rule: prod_cases3)
    note step = assms [unfolded run_actions.simps Inr sum.case adv x prod.case e Let_def]
    show thesis
    proof (cases y)
      case (Inl err)
      with step show thesis
        by (intro broken [OF Inr, of stage seen d calls err])
           (simp_all add: adv x e executed_def split: if_splits)
    next
      case y: (Inr terminal)
      with step show thesis
        by (intro recorded [OF Inr, of stage seen d calls terminal])
           (simp_all add: adv x e executed_def next_state_def stops_def split: if_splits)
    qed
  qed
qed

lemma state_updates [simp]:
  "rs_disk (next_state a t st) = rs_disk st" "rs_calls (next_state a t st) = rs_calls st"
  "rs_terminals (next_state a t st) = rs_terminals st @ [t]"
  "rs_disk (executed s d calls stage seen st) = d"
  "rs_calls (executed s d calls stage seen st) = rs_calls st @ map (Pair s) calls"
  "rs_terminals (executed s d calls stage seen st) = rs_terminals st"
  by (simp_all add: next_state_def executed_def)

section \<open>Order of effects\<close>

text \<open>The loop entered at sequence \<open>s\<close> appends calls and terminals of the actions from \<open>s\<close> on.\<close>

definition in_order :: "int \<Rightarrow> runtime_action list \<Rightarrow> (int \<times> str) list \<Rightarrow> jobject list \<Rightarrow> bool" where
  "in_order s as calls ts \<longleftrightarrow>
     sorted_wrt (<) (map fst calls) \<and> length ts \<le> length as
     \<and> map terminal_type ts = map (JStr \<circ> action_type_value \<circ> ra_action_type) (take (length ts) as)
     \<and> (\<forall>i \<in> fst ` set calls. s \<le> i \<and> i < s + int (length as) \<and> i \<le> s + int (length ts))"

lemma in_order_Cons:
  assumes "in_order (s + 1) rest calls ts" and "length one \<le> 1"
    and "terminal_type t = JStr (action_type_value (ra_action_type a))"
  shows "in_order s (a # rest) (map (Pair s) one @ calls) (t # ts)"
proof -
  have "\<forall>i \<in> fst ` set calls. s < i" using assms(1) by (auto simp: in_order_def)
  then show ?thesis
    using assms by (cases one) (fastforce simp: in_order_def image_iff sorted_wrt_append)+
qed

lemma run_actions_order:
  "run_actions H cfg s as st = (st', r) \<Longrightarrow>
     \<exists>calls ts. rs_calls st' = rs_calls st @ calls \<and> rs_terminals st' = rs_terminals st @ ts
       \<and> in_order s as calls ts"
proof (induction as arbitrary: s st)
  case Nil
  then show ?case by (auto simp: run_actions.simps in_order_def)
next
  case (Cons a rest)
  from Cons.prems show ?case
  proof (cases rule: run_actions_cases)
    case refused
    then show ?thesis by (auto simp: in_order_def)
  next
    case (broken request stage seen d calls e)
    with execute_calls_le [OF broken(3)] show ?thesis
      by (cases calls) (auto simp: in_order_def)
  next
    case (recorded request stage seen d calls terminal)
    note len = execute_calls_le [OF recorded(3)]
    have ty: "terminal_type terminal = JStr (action_type_value (ra_action_type a))"
      using execute_type [OF recorded(3)] by (simp add: exec_args_of_def)
    show ?thesis
    proof (cases "stops a rest terminal")
      case True
      then show ?thesis
        using recorded(4) len ty by (cases calls) (auto simp: in_order_def)
    next
      case False
      obtain calls' ts' where "rs_calls st' = rs_calls st @ map (Pair s) calls @ calls'"
          "rs_terminals st' = rs_terminals st @ terminal # ts'" "in_order (s + 1) rest calls' ts'"
        using Cons.IH [OF recorded(5) [OF False]] by auto
      then show ?thesis using in_order_Cons [OF _ len ty] by blast
    qed
  qed
qed

section \<open>A run repeated\<close>

lemma run_actions_frame:
  "run_actions H cfg s as st = (st', r) \<Longrightarrow> i < s \<Longrightarrow> same_files i (rs_disk st) (rs_disk st')"
proof (induction as arbitrary: s st)
  case Nil
  then show ?case by (simp add: run_actions.simps)
next
  case (Cons a rest)
  from Cons.prems(1) show ?case
  proof (cases rule: run_actions_cases)
    case refused
    then show ?thesis by simp
  next
    case (broken request stage seen d calls e)
    with others_kept_same [OF execute_keeps_others [OF broken(3)], of i] Cons.prems(2) show ?thesis by simp
  next
    case (recorded request stage seen d calls terminal)
    have "same_files i (rs_disk st) d"
      using others_kept_same [OF execute_keeps_others [OF recorded(3)], of i] Cons.prems(2) by simp
    moreover have "same_files i d (rs_disk st')"
    proof (cases "stops a rest terminal")
      case False
      then show ?thesis using Cons.IH [OF recorded(5) [OF False]] Cons.prems(2) by simp
    qed (use recorded(4) in simp)
    ultimately show ?thesis by (rule same_files_trans)
  qed
qed

text \<open>The records of a run can be read back: they are within the bound of the store.\<close>

definition intents_storable :: "hexdigest \<Rightarrow> runner_config \<Rightarrow> int \<Rightarrow> runtime_action list \<Rightarrow> bool" where
  "intents_storable H cfg s as \<longleftrightarrow>
     (\<forall>i < length as. \<forall>request. ra_request (as ! i) = Inr request \<longrightarrow>
        intent_storable H (rc_campaign cfg) (s + int i) (exec_args_of cfg (as ! i) request))"

lemma intents_storable_Cons:
  assumes "intents_storable H cfg s (a # as)"
  shows "ra_request a = Inr request \<Longrightarrow>
      intent_storable H (rc_campaign cfg) s (exec_args_of cfg a request)"
    and "intents_storable H cfg (s + 1) as"
proof -
  show "ra_request a = Inr request \<Longrightarrow>
      intent_storable H (rc_campaign cfg) s (exec_args_of cfg a request)"
    using assms [unfolded intents_storable_def, rule_format, of 0] by simp
  show "intents_storable H cfg (s + 1) as"
    unfolding intents_storable_def
  proof (intro allI impI)
    fix i request
    assume "i < length as" and "ra_request (as ! i) = Inr request"
    then show "intent_storable H (rc_campaign cfg) (s + 1 + int i) (exec_args_of cfg (as ! i) request)"
      using assms [unfolded intents_storable_def, rule_format, of "Suc i" request]
      by (simp add: algebra_simps)
  qed
qed

definition with_effect :: "(runtime_action \<Rightarrow> effect) \<Rightarrow> runtime_action \<Rightarrow> runtime_action" where
  "with_effect f a = a\<lparr>ra_effect := f a\<rparr>"

lemma with_effect_simps [simp]:
  "ra_effect (with_effect f a) = f a"
  "ra_action_type (with_effect f a) = ra_action_type a" "ra_request (with_effect f a) = ra_request a"
  "exec_args_of cfg (with_effect f a) request = exec_args_of cfg a request"
  "stops (with_effect f a) (map (with_effect f) rest) t = stops a rest t"
  "next_state (with_effect f a) t st = next_state a t st"
  by (simp_all add: with_effect_def exec_args_of_def stops_def next_state_def)

definition on_disk :: "disk \<Rightarrow> (int \<times> str) list \<Rightarrow> run_state \<Rightarrow> run_state" where
  "on_disk e cs st = st\<lparr>rs_disk := e, rs_calls := cs\<rparr>"

lemma on_disk_simps [simp]:
  "rs_disk (on_disk e cs st) = e" "rs_calls (on_disk e cs st) = cs"
  "rs_stage (on_disk e cs st) = rs_stage st" "rs_seen (on_disk e cs st) = rs_seen st"
  "rs_published (on_disk e cs st) = rs_published st" "rs_terminals (on_disk e cs st) = rs_terminals st"
  "on_disk e cs (next_state a t st) = next_state a t (on_disk e cs st)"
  "on_disk e cs (executed s d calls stage seen st) = executed s e [] stage seen (on_disk e cs st)"
  by (simp_all add: on_disk_def next_state_def executed_def)

lemma run_actions_step:
  assumes "ra_request a = Inr request"
    and "advance_literature_state (ra_action_type a) request (rs_stage st) (rs_seen st)
           (rs_published st) False = Inr (stage, seen)"
    and "execute H (rc_campaign cfg) s (exec_args_of cfg a request) (ra_effect a) (rs_disk st)
           = (d, calls, x)"
  shows "run_actions H cfg s (a # rest) st =
    (case x of
       Inl e \<Rightarrow> (executed s d calls stage seen st,
         if is_ambiguous e then Inr (unresolved_value s (ra_action_type a) orphan_reason) else Inl e)
     | Inr t \<Rightarrow> let st2 = next_state a t (executed s d calls stage seen st) in
         if stops a rest t
         then (st2, Inr (unresolved_value s (ra_action_type a) (failure_reason t ''action_failed'')))
         else run_actions H cfg (s + 1) rest st2)"
  using assms by (cases x) (simp_all add: run_actions.simps executed_def next_state_def stops_def Let_def)

lemma run_actions_again:
  assumes "run_actions H cfg s as st = (st', Inr u)" and "intents_storable H cfg s as"
    and "\<forall>t \<in> set (rs_terminals st'). wire_ok checkpoint_maximum t"
    and "\<forall>i \<ge> s. same_files i (rs_disk st') e"
  shows "run_actions H cfg s (map (with_effect f) as) (on_disk e cs st) = (on_disk e cs st', Inr u)"
  using assms
proof (induction as arbitrary: s st)
  case Nil
  then show ?case by (simp add: run_actions.simps)
next
  case (Cons a rest)
  note store = intents_storable_Cons [OF Cons.prems(2)]
  from Cons.prems(1) show ?case
  proof (cases rule: run_actions_cases)
    case refused
    then show ?thesis by simp
  next
    case (broken request stage seen d calls err)
    then obtain m where m: "err = AmbiguousEffectError m"
      by (auto simp: is_ambiguous_iff split: if_splits)
    have "same_files s d e" using broken(4) Cons.prems(4) by simp
    from execute_ambiguous_elsewhere [OF broken(3) [unfolded m] this]
    have "execute H (rc_campaign cfg) s (exec_args_of cfg a request) (f a) e
      = (e, [], Inl (AmbiguousEffectError m))" .
    then have "run_actions H cfg s (with_effect f a # map (with_effect f) rest) (on_disk e cs st)
        = (executed s e [] stage seen (on_disk e cs st),
           Inr (unresolved_value s (ra_action_type a) orphan_reason))"
      using broken(1,2)
      by (subst run_actions_step [where x = "Inl (AmbiguousEffectError m)"]) simp_all
    with broken m show ?thesis by simp
  next
    case (recorded request stage seen d calls terminal)
    have tail: "same_files s d (rs_disk st')" "terminal \<in> set (rs_terminals st')"
    proof -
      show "same_files s d (rs_disk st')"
        using recorded(4) run_actions_frame [OF recorded(5), of s] by (cases "stops a rest terminal") auto
      show "terminal \<in> set (rs_terminals st')"
        using recorded(4) run_actions_order [OF recorded(5)] by (cases "stops a rest terminal") auto
    qed
    then have "same_files s d e" using Cons.prems(4) same_files_trans by blast
    from execute_again_elsewhere [OF recorded(3) this store(1) [OF recorded(1)]] tail(2) Cons.prems(3)
    have x: "execute H (rc_campaign cfg) s (exec_args_of cfg a request) (f a) e = (e, [], Inr terminal)"
      by blast
    have step: "run_actions H cfg s (with_effect f a # map (with_effect f) rest) (on_disk e cs st)
      = (let st2 = next_state a terminal (executed s e [] stage seen (on_disk e cs st)) in
         if stops a rest terminal
         then (st2, Inr (unresolved_value s (ra_action_type a) (failure_reason terminal ''action_failed'')))
         else run_actions H cfg (s + 1) (map (with_effect f) rest) st2)"
      using run_actions_step [of "with_effect f a" request "on_disk e cs st" stage seen H cfg s e "[]"
          "Inr terminal" "map (with_effect f) rest"] recorded(1,2) x by (simp add: Let_def)
    show ?thesis
    proof (cases "stops a rest terminal")
      case True
      then show ?thesis using recorded(4) step by simp
    next
      case False
      from Cons.IH [OF recorded(5) [OF False] store(2) Cons.prems(3)] Cons.prems(4) step False
      show ?thesis by simp
    qed
  qed
qed

section \<open>A concrete campaign\<close>

definition ex_config :: runner_config where
  "ex_config = \<lparr>rc_campaign = ''campaign'', rc_recorded_at = ''now'', rc_max_actions = 2\<rparr>"

definition ex_run_search :: runtime_action where
  "ex_run_search = \<lparr>ra_action_type = SearchLiterature, ra_request = Inr [],
     ra_effect = (\<lambda>_. Inr []), ra_paid = True\<rparr>"

definition ex_run_derive :: runtime_action where
  "ex_run_derive = \<lparr>ra_action_type = Derive, ra_request = Inr [],
     ra_effect = (\<lambda>_. Inr []), ra_paid = False\<rparr>"

abbreviation ex_run_terminal :: "int \<Rightarrow> runtime_action \<Rightarrow> jobject" where
  "ex_run_terminal s a \<equiv> terminal_value zero_digest ''campaign'' s
     (intent_value zero_digest ''campaign'' s (exec_args_of ex_config a [])) Completed [] ''now''"

abbreviation ex_run_intent :: "int \<Rightarrow> runtime_action \<Rightarrow> jobject" where
  "ex_run_intent s a \<equiv> intent_value zero_digest ''campaign'' s (exec_args_of ex_config a [])"

lemma ex_run_intents:
  "wire_ok 2000 (ex_run_intent 1 ex_run_search)" "wire_ok 2000 (ex_run_intent 2 ex_run_derive)"
  by code_simp+

lemma ex_run_terminals:
  "wire_ok 2000 (ex_run_terminal 1 ex_run_search)" "wire_ok 2000 (ex_run_terminal 2 ex_run_derive)"
  by code_simp+

definition ex_step :: "int \<Rightarrow> runtime_action \<Rightarrow> bool" where
  "ex_step s a \<longleftrightarrow> (s, ra_action_type a) = (1, SearchLiterature) \<and> a = ex_run_search
     \<or> (s, ra_action_type a) = (2, Derive) \<and> a = ex_run_derive"

lemma ex_run_wire:
  assumes "ex_step s a"
  shows "intent_storable zero_digest ''campaign'' s (exec_args_of ex_config a [])"
    and "wire_ok checkpoint_maximum (ex_run_terminal s a)"
proof -
  have w: "wire_ok 2000 (ex_run_intent s a)" "wire_ok 2000 (ex_run_terminal s a)"
    using assms ex_run_intents ex_run_terminals unfolding ex_step_def by blast+
  show "wire_ok checkpoint_maximum (ex_run_terminal s a)"
    using w(2) unfolding wire_ok_def checkpoint_maximum_def by linarith
  have "wire_ok checkpoint_maximum (ex_run_intent s a)"
    using w(1) unfolding wire_ok_def checkpoint_maximum_def by linarith
  moreover have "1 \<le> s" using assms by (auto simp: ex_step_def)
  ultimately show "intent_storable zero_digest ''campaign'' s (exec_args_of ex_config a [])"
    unfolding intent_storable_def by (simp add: exec_args_of_def ex_config_def)
qed

lemma ex_run_execute:
  assumes "ex_step s a" and "\<And>n. own s n \<Longrightarrow> disk_get d n = None"
  shows "\<exists>d' key. execute zero_digest ''campaign'' s (exec_args_of ex_config a []) (ra_effect a) d
    = (d', [key], Inr (ex_run_terminal s a))"
proof -
  note w = ex_run_wire [OF assms(1)]
  have u: "utf8_strings (JObj (ex_run_terminal s a))"
    using w(2) unfolding wire_ok_def by blast
  let ?key = "text_of (get_field (intent_value zero_digest ''campaign'' s
      (exec_args_of ex_config a [])) ''idempotency_key'')"
  have eff: "ra_effect a ?key = Inr []"
    using assms(1) by (auto simp: ex_step_def ex_run_search_def ex_run_derive_def)
  have "xa_recorded_at (exec_args_of ex_config a []) = ''now''"
    by (simp add: exec_args_of_def ex_config_def)
  with execute_fresh [OF w(1) assms(2), of ?key "ra_effect a" "[]"] eff u show ?thesis by auto
qed

lemma ex_terminal_completed: "terminal_completed (ex_run_terminal s a)"
  by (simp add: terminal_completed_def terminal_value_fields terminal_core_fields)

lemma ex_first_step:
  "\<exists>d key. run_actions zero_digest ex_config 1 (ex_run_search # rest) (start_state [])
     = run_actions zero_digest ex_config 2 rest
         (next_state ex_run_search (ex_run_terminal 1 ex_run_search)
           (executed 1 d [key] 1 True (start_state [])))
   \<and> others_kept 1 [] d"
proof -
  obtain d key where e: "execute zero_digest ''campaign'' 1 (exec_args_of ex_config ex_run_search [])
      (ra_effect ex_run_search) [] = (d, [key], Inr (ex_run_terminal 1 ex_run_search))"
    using ex_run_execute [of 1 ex_run_search "[]"]
    by (auto simp: disk_get_def ex_step_def ex_run_search_def [THEN arg_cong [of _ _ ra_action_type]])
  then have k: "others_kept 1 [] d" by (rule execute_keeps_others)
  have "\<not> stops ex_run_search rest (ex_run_terminal 1 ex_run_search)"
    by (simp add: stops_def ex_terminal_completed)
  then show ?thesis
    using k run_actions_step [of ex_run_search "[]" "start_state []" 1 True zero_digest ex_config 1 d "[key]"
        "Inr (ex_run_terminal 1 ex_run_search)" rest] e
    by (auto simp: advance_literature_state_def start_state_def Let_def ex_config_def ex_run_search_def)
qed

lemma ex_run_search_only:
  "\<exists>d key st. run_actions zero_digest ex_config 1 [ex_run_search] (start_state []) = (st, Inr JNull)
     \<and> rs_disk st = d \<and> rs_terminals st = [ex_run_terminal 1 ex_run_search] \<and> rs_calls st = [(1, key)]"
  using ex_first_step [of "[]"] by (auto simp: run_actions.simps start_state_def)

lemma ex_resumed:
  "\<exists>st u. run_actions zero_digest ex_config 1 [ex_run_search, ex_run_derive] (start_state []) = (st, Inr JNull)
     \<and> rs_terminals st = [ex_run_terminal 1 ex_run_search, ex_run_terminal 2 ex_run_derive]
     \<and> rs_calls st = [(1, fst u), (2, snd u)]"
proof -
  obtain d key where d: "run_actions zero_digest ex_config 1 [ex_run_search, ex_run_derive] (start_state [])
     = run_actions zero_digest ex_config 2 [ex_run_derive]
         (next_state ex_run_search (ex_run_terminal 1 ex_run_search)
           (executed 1 d [key] 1 True (start_state [])))" "others_kept 1 [] d"
    using ex_first_step [of "[ex_run_derive]"] by blast
  have "disk_get d n = None" if "own 2 n" for n
    using d(2) that own_disjoint [of 2 n 1] by (auto simp: others_kept_def disk_get_def [of "[]"])
  then obtain d' key' where e: "execute zero_digest ''campaign'' 2 (exec_args_of ex_config ex_run_derive [])
      (ra_effect ex_run_derive) d = (d', [key'], Inr (ex_run_terminal 2 ex_run_derive))"
    using ex_run_execute [of 2 ex_run_derive d] by (auto simp: ex_step_def ex_run_derive_def)
  have "\<not> stops ex_run_derive [] (ex_run_terminal 2 ex_run_derive)"
    by (simp add: stops_def ex_terminal_completed)
  then show ?thesis
    using d(1) run_actions_step [of ex_run_derive "[]" "next_state ex_run_search
        (ex_run_terminal 1 ex_run_search) (executed 1 d [key] 1 True (start_state []))" 1 True
        zero_digest ex_config 2 d' "[key']" "Inr (ex_run_terminal 2 ex_run_derive)" "[]"] e
    by (simp add: run_actions.simps advance_literature_state_def start_state_def Let_def ex_config_def
        ex_run_derive_def next_state_def executed_def substantive_def)
qed

lemma ex_guards:
  "run_guards ex_config (map ra_action_type [ex_run_search]) = Inr ()"
  "run_guards ex_config (map ra_action_type [ex_run_search, ex_run_derive]) = Inr ()"
  by (simp_all add: run_guards_def checks_Inr ex_config_def ex_run_search_def ex_run_derive_def
      first_index_def substantive_def)

definition ex_summary :: "jobject list \<Rightarrow> jobject" where
  "ex_summary ts = seal_summary zero_digest (summary_core ex_config ts JNull)"

lemma ex_run_returns:
  "\<exists>st. run_end_to_end zero_digest ex_config [ex_run_search] [] []
     = (st, disk_put summary_name (rendered (ex_summary [ex_run_terminal 1 ex_run_search])) [],
        Inr (ex_summary [ex_run_terminal 1 ex_run_search]))
     \<and> rs_terminals st = [ex_run_terminal 1 ex_run_search]"
proof -
  have u: "utf8_strings (JObj (summary_core ex_config [ex_run_terminal 1 ex_run_search] JNull))"
    by code_simp
  show ?thesis
    using ex_run_search_only ex_guards(1) u
    by (auto simp: run_end_to_end_def write_summary_def Let_def ex_summary_def disk_get_def)
qed

section \<open>Properties\<close>

lemma run_end_to_end_cases:
  assumes "run_end_to_end H cfg actions d files = (st, files', r)"
  obtains (refused) e where "run_guards cfg (map ra_action_type actions) = Inl e"
      "st = start_state d" "files' = files" "r = Inl e"
  | (ran) x where "run_guards cfg (map ra_action_type actions) = Inr ()"
      "run_actions H cfg 1 actions (start_state d) = (st, x)"
      "(files', r) = (case x of Inl e \<Rightarrow> (files, Inl e)
         | Inr unresolved \<Rightarrow> write_summary H (summary_core cfg (rs_terminals st) unresolved) files)"
proof (cases "run_guards cfg (map ra_action_type actions)")
  case (Inl e)
  then show thesis using assms by (intro refused [of e]) (simp_all add: run_end_to_end_def)
next
  case (Inr v)
  obtain st1 x where x: "run_actions H cfg 1 actions (start_state d) = (st1, x)" by fastforce
  show thesis
  proof (cases x)
    case (Inl e)
    then show thesis
      using assms Inr x by (intro ran [of x]) (simp_all add: run_end_to_end_def)
  next
    case y: (Inr u)
    obtain f2 r2 where "write_summary H (summary_core cfg (rs_terminals st1) u) files = (f2, r2)"
      by fastforce
    then show thesis
      using assms Inr x y by (intro ran [of x]) (simp_all add: run_end_to_end_def)
  qed
qed

lemma first_index_le:
  assumes "first_index p ts \<le> first_index q ts" and "n < length ts" and "q (ts ! n)" and "\<exists>t \<in> set ts. p t"
    and "\<And>t. p t \<Longrightarrow> \<not> q t"
  shows "\<exists>k < n. p (ts ! k)"
proof -
  have lt: "first_index p ts < length ts" and p: "p (ts ! first_index p ts)"
  proof -
    have "takeWhile (\<lambda>t. \<not> p t) ts \<noteq> ts" using assms(4) by (simp add: takeWhile_eq_all_conv)
    then show "first_index p ts < length ts"
      by (metis first_index_def length_takeWhile_le le_neq_implies_less takeWhile_eq_take take_all_iff)
    then show "p (ts ! first_index p ts)"
      using nth_length_takeWhile [of "\<lambda>t. \<not> p t" ts] by (simp add: first_index_def)
  qed
  have "first_index q ts \<le> n"
    using assms(2,3) nth_length_takeWhile [of "\<lambda>t. \<not> q t" ts] set_takeWhileD nth_mem takeWhile_nth
    by (metis (no_types, lifting) first_index_def not_le)
  with assms(1) have "first_index p ts \<le> n" by linarith
  moreover have "first_index p ts \<noteq> n" using p assms(3,5) by blast
  ultimately show ?thesis using p by force
qed

text \<open>C22: a run calls the effects of its actions one at a time in the order of the list, each at
  most once and none beyond the action bound; it reaches an action only after it recorded all
  earlier ones, so no substantive research effect is called unless the record of a literature
  search is among the records before it.\<close>

theorem run_effects_in_order:
  assumes "run_end_to_end H cfg actions d files = (st, files', r)"
  shows "sorted_wrt (<) (map fst (rs_calls st))
    \<and> (\<forall>i \<in> fst ` set (rs_calls st). 1 \<le> i \<and> i \<le> rc_max_actions cfg \<and> nat i \<le> length actions
         \<and> nat i \<le> length (rs_terminals st) + 1
         \<and> (ra_action_type (actions ! nat (i - 1)) \<in> set substantive \<longrightarrow>
              JStr ''search_literature'' \<in> terminal_type ` set (take (nat (i - 1)) (rs_terminals st))))"
  using assms
proof (cases rule: run_end_to_end_cases)
  case refused
  then show ?thesis by (simp add: start_state_def)
next
  case (ran x)
  let ?types = "map ra_action_type actions"
  have ord: "in_order 1 actions (rs_calls st) (rs_terminals st)"
    using run_actions_order [OF ran(2)] by (auto simp: start_state_def)
  have bound: "int (length actions) \<le> rc_max_actions cfg" and search: "SearchLiterature \<in> set ?types"
    and first: "first_index (\<lambda>t. t = SearchLiterature) ?types \<le> first_index (\<lambda>t. t \<in> set substantive) ?types"
    using ran(1) by (simp_all add: run_guards_def checks_Inr)
  have before: "JStr ''search_literature'' \<in> terminal_type ` set (take (nat (i - 1)) (rs_terminals st))"
    if i: "1 \<le> i" "i < 1 + int (length actions)" "i \<le> 1 + int (length (rs_terminals st))"
      and sub: "ra_action_type (actions ! nat (i - 1)) \<in> set substantive" for i
  proof -
    have "\<exists>k < nat (i - 1). ?types ! k = SearchLiterature"
      by (rule first_index_le [OF first]) (use i sub search in \<open>auto simp: substantive_def\<close>)
    then obtain k where k: "k < nat (i - 1)" "?types ! k = SearchLiterature" by blast
    have kl: "k < length (rs_terminals st)" "k < length actions" using k(1) i by linarith+
    have "map terminal_type (rs_terminals st) ! k = JStr (action_type_value (ra_action_type (actions ! k)))"
      using ord kl by (simp add: in_order_def)
    then have "terminal_type (rs_terminals st ! k) = JStr ''search_literature''"
      using k kl by simp
    then show ?thesis
      using k(1) kl by (intro image_eqI [of _ _ "rs_terminals st ! k"]) (auto simp: in_set_conv_nth)
  qed
  show ?thesis
    using ord bound before by (auto simp: in_order_def)
qed

theorem run_effects_in_order_witness:
  "\<exists>st files'. run_end_to_end zero_digest ex_config [ex_run_search] [] [] = (st, files', Inr
       (ex_summary [ex_run_terminal 1 ex_run_search])) \<and> sorted_wrt (<) (map fst (rs_calls st))"
  using ex_run_returns run_effects_in_order by blast

text \<open>C30: a run that returned a summary can be repeated from the files it left: it returns the
  same summary, calls no effect at all and leaves every file as it is, whatever the effects
  would do now (the records are within the bound of the store).\<close>

theorem run_replay:
  assumes "run_end_to_end H cfg actions d files = (st, files', Inr s)"
    and "intents_storable H cfg 1 actions"
    and "\<forall>t \<in> set (rs_terminals st). wire_ok checkpoint_maximum t"
  shows "run_end_to_end H cfg (map (with_effect f) actions) (rs_disk st) files'
    = (st\<lparr>rs_calls := []\<rparr>, files', Inr s)"
  using assms(1)
proof (cases rule: run_end_to_end_cases)
  case (ran x)
  then obtain u where x: "x = Inr u"
    and w: "write_summary H (summary_core cfg (rs_terminals st) u) files = (files', Inr s)"
    by (cases x) auto
  have "run_actions H cfg 1 (map (with_effect f) actions) (on_disk (rs_disk st) [] (start_state d))
      = (on_disk (rs_disk st) [] st, Inr u)"
    using run_actions_again [OF ran(2) [unfolded x] assms(2,3)] by simp
  moreover have "on_disk (rs_disk st) [] (start_state d) = start_state (rs_disk st)"
    by (simp add: on_disk_def start_state_def)
  moreover have "ra_action_type \<circ> with_effect f = ra_action_type" by (simp add: fun_eq_iff)
  moreover have "write_summary H (summary_core cfg (rs_terminals st) u) files' = (files', Inr s)"
    using w by (auto simp: write_summary_def Let_def disk_put_def disk_get_def split: if_splits option.splits)
  ultimately show ?thesis
    unfolding run_end_to_end_def by (simp add: ran(1) on_disk_def)
qed simp

theorem run_replay_witness:
  "\<exists>st files'. run_end_to_end zero_digest ex_config (map (with_effect (\<lambda>_ _. Inl ''Boom'')) [ex_run_search])
       (rs_disk st) files'
     = (st\<lparr>rs_calls := []\<rparr>, files', Inr (ex_summary [ex_run_terminal 1 ex_run_search]))"
proof -
  obtain st files' where run: "run_end_to_end zero_digest ex_config [ex_run_search] [] []
      = (st, files', Inr (ex_summary [ex_run_terminal 1 ex_run_search]))"
    and t: "rs_terminals st = [ex_run_terminal 1 ex_run_search]"
    using ex_run_returns by blast
  have step: "ex_step 1 ex_run_search" by (simp add: ex_step_def ex_run_search_def)
  have "intents_storable zero_digest ex_config 1 [ex_run_search]"
    using ex_run_wire(1) [OF step] by (simp add: intents_storable_def ex_run_search_def ex_config_def)
  moreover have "\<forall>t \<in> set (rs_terminals st). wire_ok checkpoint_maximum t"
    using ex_run_wire(2) [OF step] unfolding t by simp
  ultimately show ?thesis using run_replay [OF run] by blast
qed

text \<open>C31: once a summary file exists no run changes it, although a resumed run may finish more
  actions: a run that would write another summary raises \<open>TypeError\<close> after its effects were
  performed, and a run returns a summary only if it is the one already on disk.\<close>

theorem summary_cannot_advance:
  assumes "run_end_to_end H cfg actions d files = (st, files', r)"
    and "disk_get files summary_name = Some old"
  shows "disk_get files' summary_name = Some old \<and> (\<forall>s. r = Inr s \<longrightarrow> rendered s = old)
    \<and> (\<forall>u. run_guards cfg (map ra_action_type actions) = Inr ()
          \<longrightarrow> run_actions H cfg 1 actions (start_state d) = (st, Inr u)
          \<longrightarrow> utf8_strings (JObj (summary_core cfg (rs_terminals st) u))
          \<longrightarrow> rendered (seal_summary H (summary_core cfg (rs_terminals st) u)) \<noteq> old
          \<longrightarrow> r = Inl TypeErr)"
  using assms(1)
proof (cases rule: run_end_to_end_cases)
  case refused
  then show ?thesis using assms(2) by simp
next
  case (ran x)
  show ?thesis
  proof (cases x)
    case (Inl e)
    then show ?thesis using ran assms(2) by simp
  next
    case (Inr u)
    then show ?thesis
      using ran assms(2) by (auto simp: write_summary_def Let_def split: if_splits)
  qed
qed

theorem summary_cannot_advance_witness:
  "\<exists>files st st' files'.
     run_end_to_end zero_digest ex_config [ex_run_search] [] []
       = (st, files, Inr (ex_summary [ex_run_terminal 1 ex_run_search]))
     \<and> run_end_to_end zero_digest ex_config [ex_run_search, ex_run_derive] [] files
       = (st', files', Inl TypeErr)
     \<and> length (rs_calls st') = 2 \<and> disk_get files' summary_name = disk_get files summary_name"
proof -
  let ?t1 = "ex_run_terminal 1 ex_run_search" and ?t2 = "ex_run_terminal 2 ex_run_derive"
  obtain st files where run1: "run_end_to_end zero_digest ex_config [ex_run_search] [] []
      = (st, files, Inr (ex_summary [?t1]))"
    and files: "files = disk_put summary_name (rendered (ex_summary [?t1])) []"
    using ex_run_returns by blast
  obtain st' u where loop: "run_actions zero_digest ex_config 1 [ex_run_search, ex_run_derive] (start_state [])
      = (st', Inr JNull)" and t: "rs_terminals st' = [?t1, ?t2]" "rs_calls st' = [(1, fst u), (2, snd u)]"
    using ex_resumed by blast
  have utf8: "utf8_strings (JObj (summary_core ex_config [?t1, ?t2] JNull))" by code_simp
  have ne: "rendered (ex_summary [?t1, ?t2]) \<noteq> rendered (ex_summary [?t1])" by code_simp
  obtain st2 files' r where run2: "run_end_to_end zero_digest ex_config [ex_run_search, ex_run_derive] [] files
      = (st2, files', r)" by (cases rule: prod_cases3)
  then have "st2 = st'" using loop ex_guards(2) by (auto simp: run_end_to_end_def split: prod.splits)
  with summary_cannot_advance [OF run2, of "rendered (ex_summary [?t1])"] loop t utf8 ne ex_guards(2)
  show ?thesis using run1 run2 unfolding files ex_summary_def by auto
qed

end
