(* ===== verification/Model_Driven_Props.thy ===== *)
theory Model_Driven_Props
  imports Model_Driven Campaign_Run_Props
begin

text \<open>
  What the model-driven runner guarantees, and where it departs from what its summary and its
  question protocol promise.
\<close>

section \<open>The parts of an iteration\<close>

lemma plan_action_frame:
  assumes "plan_action H cfg env s st = (st', r)"
  shows "ms_effect_calls st' = ms_effect_calls st" and "ms_records st' = ms_records st"
    and "ms_seen st' = ms_seen st" and "ms_stage st' = ms_stage st" and "ms_published st' = ms_published st"
    and "\<exists>calls :: str list. length calls \<le> 1
           \<and> ms_planner_calls st' = ms_planner_calls st @ map (\<lambda>_. s) calls"
proof -
  obtain st1 x where c: "call_planner H cfg env s st = (st1, x)" by fastforce
  then obtain calls :: "str list" where st1: "ms_effect_calls st1 = ms_effect_calls st" "ms_records st1 = ms_records st"
      "ms_seen st1 = ms_seen st" "ms_stage st1 = ms_stage st" "ms_published st1 = ms_published st"
      "length calls \<le> 1" "ms_planner_calls st1 = ms_planner_calls st @ map (\<lambda>_. s) calls"
    using execute_calls_le by (fastforce simp: call_planner_def Let_def split: prod.splits)
  have "st' = st \<or> st' = st1 \<or> (\<exists>p. st' = st1\<lparr>ms_planner := p\<rparr>)"
    using assms c by (auto simp: plan_action_def split: sum.splits prod.splits if_splits)
  then show "ms_effect_calls st' = ms_effect_calls st" "ms_records st' = ms_records st"
      "ms_seen st' = ms_seen st" "ms_stage st' = ms_stage st" "ms_published st' = ms_published st"
      "\<exists>calls :: str list. length calls \<le> 1 \<and> ms_planner_calls st' = ms_planner_calls st @ map (\<lambda>_. s) calls"
    using st1 by (auto intro: exI [of _ "[] :: str list"])
qed

lemma perform_action_cases:
  assumes "perform_action H cfg env s raw st = (st', r)"
  obtains (stopped) seen where "ms_effect_calls st' = ms_effect_calls st" "ms_records st' = ms_records st"
      "ms_planner_calls st' = ms_planner_calls st" "ms_seen st' = seen" "\<forall>x. r \<noteq> Inr (Go x)"
  | (called) ty request calls stage seen where
      "advance_literature_state ty request (ms_stage st) (ms_seen st) (ms_published st) True = Inr (stage, seen)"
      "length calls \<le> 1" "ms_effect_calls st' = ms_effect_calls st @ map (\<lambda>key. (s, ty, key)) calls"
      "ms_records st' = ms_records st" "ms_planner_calls st' = ms_planner_calls st" "ms_seen st' = seen"
      "\<And>x. r = Inr (Go x) \<Longrightarrow> \<exists>t. x = (ty, request, t) \<and> terminal_type t = JStr (action_type_value ty)"
proof (cases "parse_planned_action raw")
  case (Inl e)
  then show thesis using assms
    by (intro stopped) (auto simp: perform_action_def rejected_def plan_unresolved_def split: error.splits)
next
  case (Inr p)
  obtain ty request where p: "p = (ty, request)" by fastforce
  show thesis
  proof (cases "advance_literature_state ty request (ms_stage st) (ms_seen st) (ms_published st) True")
    case (Inl e)
    then show thesis using assms Inr p
      by (intro stopped) (auto simp: perform_action_def rejected_def plan_unresolved_def split: error.splits)
  next
    case adv: (Inr q)
    obtain stage seen where q: "q = (stage, seen)" by fastforce
    show thesis
    proof (cases "bind_effect env ty request")
      case (Inl e)
      then show thesis using assms Inr p adv q
        by (intro stopped)
           (auto simp: perform_action_def rejected_def plan_unresolved_def Let_def split: error.splits)
    next
      case b: (Inr b)
      let ?a = "\<lparr>xa_action_type = ty, xa_request = request, xa_paid = re_paid b,
                 xa_recorded_at = mc_recorded_at cfg\<rparr>"
      obtain d calls x where e: "execute H (mc_campaign cfg) s ?a (re_effect b request) (ms_actions st)
          = (d, calls, x)" by (cases rule: prod_cases3)
      have st': "st' = st\<lparr>ms_stage := stage, ms_seen := seen, ms_actions := d,
          ms_effect_calls := ms_effect_calls st @ map (\<lambda>key. (s, ty, key)) calls\<rparr>"
        and r: "r = (case x of
            Inl err \<Rightarrow> if is_ambiguous err
              then Inr (Leave ''unresolved'' (unresolved_value s ty orphan_reason)) else rejected s err
          | Inr t \<Rightarrow> Inr (Go (ty, request, t)))"
        using assms Inr p adv q b e by (auto simp: perform_action_def Let_def split: sum.splits)
      show thesis
      proof (rule called)
        show "advance_literature_state ty request (ms_stage st) (ms_seen st) (ms_published st) True
          = Inr (stage, seen)" using adv q by simp
        show "length calls \<le> 1" using execute_calls_le [OF e] .
        show "\<exists>t. y = (ty, request, t) \<and> terminal_type t = JStr (action_type_value ty)"
          if "r = Inr (Go y)" for y
        proof (cases x)
          case (Inl err)
          with that r show ?thesis
            by (auto simp: rejected_def plan_unresolved_def split: if_splits error.splits)
        next
          case (Inr t)
          with that r execute_type [of H "mc_campaign cfg" s ?a "re_effect b request" "ms_actions st" d calls t] e
          show ?thesis by auto
        qed
      qed (simp_all add: st')
    qed
  qed
qed

lemma absorb_simps [simp]:
  "ms_effect_calls (absorb H ty t st) = ms_effect_calls st" "ms_seen (absorb H ty t st) = ms_seen st"
  "ms_planner_calls (absorb H ty t st) = ms_planner_calls st"
  "ms_records (absorb H ty t st) = ms_records st @ [t]"
  by (simp_all add: absorb_def)

lemma settle_action_frame:
  assumes "settle_action H cfg s ty request t st = (st', r)"
  shows "ms_effect_calls st' = ms_effect_calls st" "ms_seen st' = ms_seen st"
    "ms_planner_calls st' = ms_planner_calls st" "ms_records st' = ms_records st"
  using assms by (auto simp: settle_action_def split: if_splits option.splits prod.splits sum.splits)

section \<open>Order\<close>

definition searched :: "jobject list \<Rightarrow> bool" where
  "searched ts \<longleftrightarrow> JStr ''search_literature'' \<in> terminal_type ` set ts"

definition calls_ok :: "int \<Rightarrow> 's md_state \<Rightarrow> bool" where
  "calls_ok s st \<longleftrightarrow>
     sorted_wrt (<) (ms_planner_calls st) \<and> (\<forall>i \<in> set (ms_planner_calls st). 1 \<le> i \<and> i \<le> s)
     \<and> sorted_wrt (<) (map fst (ms_effect_calls st))
     \<and> (\<forall>(i, ty, key) \<in> set (ms_effect_calls st). 1 \<le> i \<and> i \<le> s \<and> i \<le> int (length (ms_records st)) + 1
          \<and> (ty \<in> set substantive \<longrightarrow> searched (take (nat (i - 1)) (ms_records st))))
     \<and> int (length (ms_records st)) \<le> s"

definition head_ok :: "int \<Rightarrow> 's md_state \<Rightarrow> bool" where
  "head_ok s st \<longleftrightarrow> 1 \<le> s \<and> calls_ok (s - 1) st \<and> int (length (ms_records st)) = s - 1
     \<and> (ms_seen st \<longrightarrow> searched (ms_records st))"

text \<open>What an iteration may add to a state that is in order: one planner call, one effect call.\<close>

lemma calls_ok_extend:
  assumes h: "head_ok s st" and p: "length pcalls \<le> 1" and e: "length ecalls \<le> 1"
    and pc: "ms_planner_calls st' = ms_planner_calls st @ map (\<lambda>_. s) pcalls"
    and ec: "ms_effect_calls st' = ms_effect_calls st @ map (\<lambda>key. (s, ty, key)) ecalls"
    and rs: "ms_records st' = ms_records st \<or> (\<exists>t. ms_records st' = ms_records st @ [t])"
    and sub: "ecalls \<noteq> [] \<Longrightarrow> ty \<in> set substantive \<Longrightarrow> searched (ms_records st)"
  shows "calls_ok s st'"
proof -
  have old: "calls_ok (s - 1) st" and len: "int (length (ms_records st)) = s - 1" and s: "1 \<le> s"
    using h by (simp_all add: head_ok_def)
  have tk: "take (nat (i - 1)) (ms_records st') = take (nat (i - 1)) (ms_records st)" if "i \<le> s" for i
  proof -
    have "nat (i - 1) \<le> length (ms_records st)" using that len s by linarith
    then show ?thesis using rs by auto
  qed
  have full: "take (nat (s - 1)) (ms_records st) = ms_records st"
    using len by (simp add: nat_le_iff)
  have lens: "int (length (ms_records st)) \<le> int (length (ms_records st'))"
    "int (length (ms_records st')) \<le> s" using rs len s by auto
  have "sorted_wrt (<) (ms_planner_calls st') \<and> (\<forall>i \<in> set (ms_planner_calls st'). 1 \<le> i \<and> i \<le> s)"
    using old p s unfolding pc calls_ok_def by (cases pcalls) (auto simp: sorted_wrt_append)
  moreover have "sorted_wrt (<) (map fst (ms_effect_calls st'))"
    using old e unfolding ec calls_ok_def by (cases ecalls) (auto simp: sorted_wrt_append)
  moreover have "\<forall>(i, ty, key) \<in> set (ms_effect_calls st'). 1 \<le> i \<and> i \<le> s
      \<and> i \<le> int (length (ms_records st')) + 1
      \<and> (ty \<in> set substantive \<longrightarrow> searched (take (nat (i - 1)) (ms_records st')))"
  proof -
    have "1 \<le> i \<and> i \<le> s \<and> i \<le> int (length (ms_records st')) + 1
        \<and> (ty' \<in> set substantive \<longrightarrow> searched (take (nat (i - 1)) (ms_records st')))"
      if "(i, ty', key) \<in> set (ms_effect_calls st)" for i ty' key
      using old that lens(1) tk [of i] by (fastforce simp: calls_ok_def)
    moreover have "1 \<le> s \<and> s \<le> int (length (ms_records st')) + 1
        \<and> (ty \<in> set substantive \<longrightarrow> searched (take (nat (s - 1)) (ms_records st')))"
      if "key \<in> set ecalls" for key
    proof -
      have "ecalls \<noteq> []" using that by auto
      then show ?thesis using s lens(1) len sub tk [of s] full by auto
    qed
    ultimately show ?thesis unfolding ec by auto
  qed
  ultimately show ?thesis using lens(2) unfolding calls_ok_def by blast
qed

lemma advance_seen:
  assumes "advance_literature_state ty request stage seen published bound = Inr (stage', seen')"
  shows "ty \<in> set substantive \<Longrightarrow> seen" and "seen' \<Longrightarrow> seen \<or> ty = SearchLiterature"
  using assms
  by (auto simp: advance_literature_state_def bindE_eq_Inr substantive_def
      split: if_splits option.splits)

lemma searched_snoc: "searched (ts @ [t]) \<longleftrightarrow> searched ts \<or> terminal_type t = JStr ''search_literature''"
  by (auto simp: searched_def)

lemma md_step_order:
  assumes h: "head_ok s st" and step: "md_step H cfg env s st = (st', r)"
  shows "calls_ok s st'" and "r = Inr (Go u) \<Longrightarrow> head_ok (s + 1) st'"
proof -
  obtain st1 x where p: "plan_action H cfg env s st = (st1, x)" by fastforce
  note f1 = plan_action_frame [OF p]
  obtain pcalls :: "str list" where pc: "length pcalls \<le> 1"
      "ms_planner_calls st1 = ms_planner_calls st @ map (\<lambda>_. s) pcalls" using f1(6) by blast
  have "calls_ok s st' \<and> (r = Inr (Go u) \<longrightarrow> head_ok (s + 1) st')"
  proof (cases "\<exists>raw. x = Inr (Go raw)")
    case False
    then have "st' = st1" and "r \<noteq> Inr (Go u)"
      using step p by (auto simp: md_step_def split: sum.splits outcome.splits)
    with calls_ok_extend [OF h pc(1), of "[]" st1] pc f1 show ?thesis by simp
  next
    case True
    then obtain raw where x: "x = Inr (Go raw)" by blast
    obtain st2 y where q: "perform_action H cfg env s raw st1 = (st2, y)" by fastforce
    have st': "(\<forall>z. y \<noteq> Inr (Go z)) \<and> st' = st2 \<and> (\<forall>v. r \<noteq> Inr (Go v))
      \<or> (\<exists>ty request t. y = Inr (Go (ty, request, t))
           \<and> settle_action H cfg s ty request t (absorb H ty t st2) = (st', r))"
      using step p x q by (auto simp: md_step_def split: sum.splits outcome.splits prod.splits)
    from q show ?thesis
    proof (cases rule: perform_action_cases)
      case stopped
      with st' have "st' = st2" "r \<noteq> Inr (Go u)" by auto
      with calls_ok_extend [OF h pc(1), of "[]" st2] pc f1 stopped show ?thesis by simp
    next
      case (called ty request calls stage seen)
      note adv = advance_seen [OF called(1)]
      have sub: "ty \<in> set substantive \<Longrightarrow> searched (ms_records st)"
        using adv(1) f1 h by (simp add: head_ok_def)
      from st' show ?thesis
      proof (elim disjE conjE exE)
        assume "st' = st2" "\<forall>v. r \<noteq> Inr (Go v)"
        then show ?thesis
          using calls_ok_extend [OF h pc(1) called(2), of st2 ty] pc f1 called sub by simp
      next
        fix ty' request' t
        assume y: "y = Inr (Go (ty', request', t))"
          and set: "settle_action H cfg s ty' request' t (absorb H ty' t st2) = (st', r)"
        then have ty: "ty' = ty" "terminal_type t = JStr (action_type_value ty)" using called(7) by auto
        note f2 = settle_action_frame [OF set]
        have ok: "calls_ok s st'"
          using calls_ok_extend [OF h pc(1) called(2), of st' ty] pc f1 f2 called sub by simp
        have "ms_seen st' \<Longrightarrow> searched (ms_records st')"
          using adv(2) f1 f2 called ty h by (auto simp: searched_snoc head_ok_def)
        then show ?thesis
          using ok f1 f2 called h by (simp add: head_ok_def)
      qed
    qed
  qed
  then show "calls_ok s st'" and "r = Inr (Go u) \<Longrightarrow> head_ok (s + 1) st'" by blast+
qed

lemma calls_ok_mono: "calls_ok s st \<Longrightarrow> s \<le> s' \<Longrightarrow> calls_ok s' st"
  by (fastforce simp: calls_ok_def)

lemma md_loop_order:
  "md_loop H cfg env n s st = (st', r) \<Longrightarrow> head_ok s st \<Longrightarrow> calls_ok (s - 1 + int n) st'"
proof (induction n arbitrary: s st)
  case 0
  then show ?case by (simp add: head_ok_def)
next
  case (Suc n)
  obtain st1 x where step: "md_step H cfg env s st = (st1, x)" by fastforce
  note o = md_step_order [OF Suc.prems(2) step]
  show ?case
  proof (cases "x = Inr (Go ())")
    case True
    have "md_loop H cfg env n (s + 1) st1 = (st', r)" using Suc.prems(1) step True by simp
    from Suc.IH [OF this o(2) [OF True]] show ?thesis by (simp add: algebra_simps)
  next
    case False
    then have "st' = st1" using Suc.prems(1) step by (auto split: sum.splits outcome.splits)
    with o(1) show ?thesis by (auto intro: calls_ok_mono)
  qed
qed

lemma head_ok_start: "head_ok 1 (md_start cfg p plans actions answers answer operator)"
  by (simp add: head_ok_def calls_ok_def md_start_def)

text \<open>C23: a model-driven run calls the planner and the effects at most once per sequence, in
  order and within the action bound, and it calls the effect of a substantive research action
  only when the record of a literature search is among the records of the sequences before it,
  whatever the planner asks for.\<close>

theorem model_driven_order:
  assumes "run_model_driven H cfg env (md_start cfg p plans actions answers answer operator) files
    = (st, files', r)" and "1 \<le> mc_max_actions cfg"
  shows "sorted_wrt (<) (ms_planner_calls st) \<and> sorted_wrt (<) (map fst (ms_effect_calls st))
    \<and> (\<forall>i \<in> set (ms_planner_calls st) \<union> fst ` set (ms_effect_calls st). 1 \<le> i \<and> i \<le> mc_max_actions cfg)
    \<and> (\<forall>(i, ty, key) \<in> set (ms_effect_calls st). ty \<in> set substantive \<longrightarrow>
         JStr ''search_literature'' \<in> terminal_type ` set (take (nat (i - 1)) (ms_records st)))"
proof -
  obtain x where "md_loop H cfg env (nat (mc_max_actions cfg)) 1
      (md_start cfg p plans actions answers answer operator) = (st, x)"
    using assms(1) by (auto simp: run_model_driven_def split: prod.splits sum.splits)
  from md_loop_order [OF this head_ok_start] assms(2) show ?thesis
    by (fastforce simp: calls_ok_def searched_def)
qed

section \<open>A search that was never run\<close>

lemma md_step_unregistered_search:
  assumes "plan_action H cfg env s st = (st1, Inr (Go raw))"
    and "parse_planned_action raw = Inr (SearchLiterature, request)" and "en_effects env SearchLiterature = None"
  shows "md_step H cfg env s st = (st1\<lparr>ms_stage := 1, ms_seen := True\<rparr>,
    Inr (plan_unresolved s (JStr ''no effect is registered for search_literature'')))"
  using assms
  by (simp add: md_step_def perform_action_def advance_literature_state_def bind_effect_def
      resolve_effect_def rejected_def plan_unresolved_def)

lemma seal_summary_field:
  "k \<noteq> ''content_hash'' \<Longrightarrow> get_field (seal_summary H core) k = get_field core k"
  by (simp add: seal_summary_def get_field_def jget_def)

lemma md_summary_search:
  "get_field (md_summary_core cfg st status u) ''literature_search_recorded'' = JBool (ms_seen st)"
  "get_field (md_summary_core cfg st status u) ''action_types'' = JArr (map terminal_type (ms_records st))"
  by (simp_all add: md_summary_core_def get_field_def jget_def)

text \<open>C32: the summary of a model-driven run says that a literature search was recorded as soon as
  the planner named one: when no effect is registered for the search, the run ends with no
  record and no effect called, and its summary still carries
  \<open>literature_search_recorded: true\<close>.\<close>

theorem search_flag_without_search:
  assumes "plan_action H cfg env 1 (md_start cfg p plans actions answers answer operator) = (st1, Inr (Go raw))"
    and "parse_planned_action raw = Inr (SearchLiterature, request)" and "en_effects env SearchLiterature = None"
    and "1 \<le> mc_max_actions cfg"
    and "run_model_driven H cfg env (md_start cfg p plans actions answers answer operator) files
      = (st, files', Inr s)"
  shows "get_field s ''literature_search_recorded'' = JBool True
    \<and> get_field s ''action_types'' = JArr [] \<and> ms_records st = [] \<and> ms_effect_calls st = []"
proof -
  let ?start = "md_start cfg p plans actions answers answer operator"
  obtain n where n: "nat (mc_max_actions cfg) = Suc n"
    using assms(4) by (cases "nat (mc_max_actions cfg)") auto
  note f = plan_action_frame [OF assms(1)]
  have loop: "md_loop H cfg env (Suc n) 1 ?start = (st1\<lparr>ms_stage := 1, ms_seen := True\<rparr>,
      Inr (''unresolved'', unresolved_value 1 Plan (JStr ''no effect is registered for search_literature'')))"
    using md_step_unregistered_search [OF assms(1-3)] by (simp add: plan_unresolved_def)
  from assms(5) have st: "st = st1\<lparr>ms_stage := 1, ms_seen := True\<rparr>"
    and s: "\<exists>status u. s = seal_summary H (md_summary_core cfg st status u)"
    unfolding run_model_driven_def n loop
    by (auto simp: md_write_summary_def Let_def split: if_splits)
  have "ms_records st1 = []" "ms_effect_calls st1 = []" using f(1,2) by (simp_all add: md_start_def)
  then show ?thesis
    using st s by (auto simp: seal_summary_field md_summary_search)
qed

section \<open>Two questions\<close>

lemma answer_request_field:
  "get_field (obj_of (get_field (intent_value H c s \<lparr>xa_action_type = ty,
      xa_request = answer_request i q a op, xa_paid = paid, xa_recorded_at = now\<rparr>) ''request'')) ''answer''
    = JStr a"
proof -
  have d: "distinct (map fst (answer_request i q a op))" by (simp add: answer_request_def)
  have "get_field (dict_of (answer_request i q a op)) ''answer'' = JStr a"
    unfolding get_field_dict_of [OF d] by (simp add: answer_request_def get_field_def jget_def)
  then show ?thesis
    by (simp add: intent_value_fields intent_core_fields dict_of_def)
qed

abbreviation answer_args :: "md_config \<Rightarrow> int \<Rightarrow> json \<Rightarrow> str \<Rightarrow> str \<Rightarrow> exec_args" where
  "answer_args cfg s q a op \<equiv>
     \<lparr>xa_action_type = ImportAction, xa_request = answer_request s q a op, xa_paid = False,
      xa_recorded_at = mc_recorded_at cfg\<rparr>"

lemma stored_answer:
  assumes "record_answer H cfg s q a op d = (d', Inr human)"
    and "intent_storable H (mc_campaign cfg) s (answer_args cfg s q a op)"
    and "wire_ok checkpoint_maximum human"
  shows "load_terminal H (mc_campaign cfg) s d' = Inr (Some human)"
    and "load_intent H (mc_campaign cfg) s d'
      = Inr (Some (intent_value H (mc_campaign cfg) s (answer_args cfg s q a op)))"
proof -
  obtain eff calls where "execute H (mc_campaign cfg) s (answer_args cfg s q a op) eff d
      = (d', calls, Inr human)"
    using assms(1) by (auto simp: record_answer_def split: if_splits prod.splits)
  from execute_again [OF this assms(2,3)]
  have "execute H (mc_campaign cfg) s (answer_args cfg s q a op) eff d' = (d', [], Inr human)" .
  then show "load_terminal H (mc_campaign cfg) s d' = Inr (Some human)"
    and "load_intent H (mc_campaign cfg) s d'
      = Inr (Some (intent_value H (mc_campaign cfg) s (answer_args cfg s q a op)))"
    by (cases rule: execute_returns; use ensure_intent_Inr(2) in fastforce)+
qed

text \<open>a run resumed to answer a second question can never get past the first one: once the
  first answer is recorded, the replay of its question with the new answer raises
  \<open>CheckpointError\<close>, and without an answer the run waits for the user again although the
  answer is on disk.\<close>

theorem second_answer_refused:
  assumes "record_answer H cfg s (get_field request ''question'') a op d = (d', Inr human)"
    and "intent_storable H (mc_campaign cfg) s (answer_args cfg s (get_field request ''question'') a op)"
    and "wire_ok checkpoint_maximum human" and "ms_answers st = d'"
    and "b \<noteq> a" and "b \<noteq> []" and "utf8_valid b" and "length b \<le> 65536" and "valid_identifier op'"
    and "utf8_strings (JObj (intent_value H (mc_campaign cfg) s
           (answer_args cfg s (get_field request ''question'') b op')))"
  shows "settle_action H cfg s AskUser request t (st\<lparr>ms_answer := Some b, ms_operator := Some op'\<rparr>)
      = (st\<lparr>ms_answer := Some b, ms_operator := Some op'\<rparr>,
         Inl (CheckpointError ''sequence already has a different action intent''))
    \<and> settle_action H cfg s AskUser request t (st\<lparr>ms_answer := None\<rparr>)
      = (st\<lparr>ms_answer := None\<rparr>, Inr (Leave ''awaiting_user''
           (unresolved_value s AskUser (JStr ''human_answer_required''))))"
proof -
  let ?q = "get_field request ''question''"
  note stored = stored_answer [OF assms(1-3)]
  have ne: "intent_value H (mc_campaign cfg) s (answer_args cfg s ?q a op)
      \<noteq> intent_value H (mc_campaign cfg) s (answer_args cfg s ?q b op')"
  proof
    assume eq: "intent_value H (mc_campaign cfg) s (answer_args cfg s ?q a op)
      = intent_value H (mc_campaign cfg) s (answer_args cfg s ?q b op')"
    have "JStr b = JStr a"
      using answer_request_field [of H "mc_campaign cfg" s ImportAction s ?q a op False "mc_recorded_at cfg"]
      unfolding eq answer_request_field .
    with assms(5) show False by simp
  qed
  have ensure: "ensure_intent H (mc_campaign cfg) s (answer_args cfg s ?q b op') d'
      = (d', Inl (CheckpointError ''sequence already has a different action intent''))"
    unfolding ensure_intent_def Let_def using stored(2) ne assms(10)
    by (simp only: if_False if_True not_True_eq_False sum.case option.case simp_thms)
  have "record_answer H cfg s ?q b op' d'
      = (d', Inl (CheckpointError ''sequence already has a different action intent''))"
    using stored(1) ensure assms(6-9) by (simp add: record_answer_def execute_def)
  then show ?thesis using assms(4) by (simp add: settle_action_def)
qed

section \<open>A concrete run\<close>

definition ex_md_config :: md_config where
  "ex_md_config = \<lparr>mc_campaign = ''campaign'', mc_target_hash = ''t'', mc_configuration_hash = ''c'',
     mc_recorded_at = ''now'', mc_max_actions = 1, mc_planner_is_paid = True,
     mc_target_statement = None\<rparr>"

definition ex_raw :: bytes where
  "ex_raw = canonical_bytes (JObj
     [(''schema_version'', JStr ''2.0.0''), (''action_type'', JStr ''search_literature''),
      (''branch_id'', JStr ''b''), (''rationale'', JStr ''r''), (''operation_request'', JObj [])])"

definition ex_response :: planner_response where
  "ex_response = \<lparr>pr_action_json = ex_raw, pr_provider = ''p'', pr_model = ''m'',
     pr_status = Completed, pr_usage_source = Unavailable, pr_input_tokens = 0,
     pr_output_tokens = 0, pr_cost = None, pr_request_id = None\<rparr>"

definition ex_env :: "unit planner_env" where
  "ex_env = \<lparr>en_planner = (\<lambda>s _. (s, Inr ex_response)), en_restore = None, en_effects = (\<lambda>_. None)\<rparr>"

abbreviation ex_md_start :: "unit md_state" where
  "ex_md_start \<equiv> md_start ex_md_config () [] [] [] None None"

abbreviation ex_plan_args :: exec_args where
  "ex_plan_args \<equiv> \<lparr>xa_action_type = Plan, xa_request = planner_request ex_md_config 1 ex_md_start,
     xa_paid = True, xa_recorded_at = ''now''\<rparr>"

abbreviation ex_plan_terminal :: jobject where
  "ex_plan_terminal \<equiv> terminal_value zero_digest ''campaign'' 1
     (intent_value zero_digest ''campaign'' 1 ex_plan_args) Completed (planner_result ex_response) ''now''"

lemma ex_plan_storable: "intent_storable zero_digest ''campaign'' 1 ex_plan_args"
proof -
  have "wire_ok 2000 (intent_value zero_digest ''campaign'' 1 ex_plan_args)" by code_simp
  then show ?thesis
    unfolding intent_storable_def wire_ok_def checkpoint_maximum_def by simp
qed

lemma ex_parse: "parse_planned_action ex_raw = Inr (SearchLiterature, [])"
  by code_simp

lemma terminal_value_result:
  "terminal_result (terminal_value H c s i st r now) = dict_of r"
  by (simp add: terminal_result_def terminal_value_fields terminal_core_fields dict_of_def)

lemma terminal_value_completed: "terminal_completed (terminal_value H c s i Completed r now)"
  by (simp add: terminal_completed_def terminal_value_fields terminal_core_fields)

definition ex_result :: jobject where
  "ex_result =
     [(''action_json_base64'', JStr (''eyJhY3Rpb25fdHlwZSI6InNlYXJjaF9saXRlcmF0dXJlIiwiYnJhbmNoX2lkIjoiYiIsIm9wZXJhdGlv''
          @ ''bl9yZXF1ZXN0Ijp7fSwicmF0aW9uYWxlIjoiciIsInNjaGVtYV92ZXJzaW9uIjoiMi4wLjAifQ=='')),
      (''provider'', JStr ''p''), (''model_identifier'', JStr ''m''), (''status'', JStr ''completed''),
      (''usage_source'', JStr ''unavailable''), (''input_tokens'', JInt 0), (''output_tokens'', JInt 0),
      (''estimated_cost_microusd'', JNull), (''provider_request_id'', JNull)]"

lemma ex_planner_result: "planner_result ex_response = ex_result"
proof -
  have raw: \<open>ex_raw = ''{"action_type":"search_literature","branch_id":"b","operatio''
      @ ''n_request":{},"rationale":"r","schema_version":"2.0.0"}''\<close>
    by code_simp
  show ?thesis
    unfolding planner_result_def ex_result_def ex_response_def raw
    by (simp add: code3_def b64_char_def b64_alphabet_def)
qed

lemma ex_plan:
  "\<exists>st1. plan_action zero_digest ex_md_config ex_env 1 ex_md_start = (st1, Inr (Go ex_raw))
     \<and> ms_planner_calls st1 = [1]"
proof -
  have u: "utf8_strings (JObj ex_plan_terminal)"
    unfolding ex_planner_result by code_simp
  obtain d key where e: "execute zero_digest ''campaign'' 1 ex_plan_args (\<lambda>_. Inr (planner_result ex_response)) []
      = (d, [key], Inr ex_plan_terminal)"
    using execute_fresh [OF ex_plan_storable, of "[]" _ "\<lambda>_. Inr (planner_result ex_response)" "planner_result ex_response"] u
    by (auto simp: disk_get_def)
  have "load_terminal zero_digest ''campaign'' 1 [] = Inr None"
    by (simp add: load_terminal_def read_checkpoint_def checkpoint_path_def disk_get_def)
  then show ?thesis
    using e
    by (simp add: plan_action_def call_planner_def Let_def ex_env_def terminal_value_completed
        terminal_value_result response_of_planner_result restore_planner_def ex_response_def md_start_def
        ex_md_config_def)
qed

lemma ex_md_run:
  "\<exists>st files' s. run_model_driven zero_digest ex_md_config ex_env ex_md_start [] = (st, files', Inr s)
     \<and> ms_planner_calls st = [1]"
proof -
  obtain st1 where p: "plan_action zero_digest ex_md_config ex_env 1 ex_md_start = (st1, Inr (Go ex_raw))"
    and c: "ms_planner_calls st1 = [1]" using ex_plan by blast
  have env: "en_effects ex_env SearchLiterature = None" by (simp add: ex_env_def)
  note step = md_step_unregistered_search [OF p ex_parse env]
  let ?st = "st1\<lparr>ms_stage := 1, ms_seen := True\<rparr>"
  let ?u = "unresolved_value 1 Plan (JStr ''no effect is registered for search_literature'')"
  have "ms_records st1 = []" using plan_action_frame(2) [OF p] by (simp add: md_start_def)
  then have "md_summary_core ex_md_config ?st ''unresolved'' ?u
      = md_summary_core ex_md_config (ex_md_start\<lparr>ms_seen := True\<rparr>) ''unresolved'' ?u"
    by (simp add: md_summary_core_def md_start_def)
  moreover have "utf8_strings (JObj (md_summary_core ex_md_config (ex_md_start\<lparr>ms_seen := True\<rparr>)
      ''unresolved'' ?u))" by code_simp
  ultimately have u: "utf8_strings (JObj (md_summary_core ex_md_config ?st ''unresolved'' ?u))" by metis
  have "nat (mc_max_actions ex_md_config) = Suc 0" by (simp add: ex_md_config_def)
  then have "md_loop zero_digest ex_md_config ex_env (nat (mc_max_actions ex_md_config)) 1 ex_md_start
      = (?st, Inr (''unresolved'', ?u))"
    by (simp add: step plan_unresolved_def)
  then show ?thesis using u c
    unfolding run_model_driven_def md_write_summary_def Let_def by simp
qed

theorem model_driven_order_witness:
  "\<exists>st files' s. run_model_driven zero_digest ex_md_config ex_env ex_md_start [] = (st, files', Inr s)
     \<and> ms_planner_calls st = [1] \<and> sorted_wrt (<) (map fst (ms_effect_calls st))"
proof -
  obtain st files' s where run: "run_model_driven zero_digest ex_md_config ex_env ex_md_start [] = (st, files', Inr s)"
    and c: "ms_planner_calls st = [1]" using ex_md_run by blast
  have "1 \<le> mc_max_actions ex_md_config" by (simp add: ex_md_config_def)
  from model_driven_order [OF run this] run c show ?thesis by blast
qed

theorem search_flag_without_search_witness:
  "\<exists>st files' s. run_model_driven zero_digest ex_md_config ex_env ex_md_start [] = (st, files', Inr s)
     \<and> get_field s ''literature_search_recorded'' = JBool True \<and> ms_records st = []"
proof -
  obtain st files' s where run: "run_model_driven zero_digest ex_md_config ex_env ex_md_start [] = (st, files', Inr s)"
    using ex_md_run by blast
  obtain st1 where p: "plan_action zero_digest ex_md_config ex_env 1 ex_md_start = (st1, Inr (Go ex_raw))"
    using ex_plan by blast
  have "en_effects ex_env SearchLiterature = None" "1 \<le> mc_max_actions ex_md_config"
    by (simp_all add: ex_env_def ex_md_config_def)
  from search_flag_without_search [OF p ex_parse this run] run show ?thesis by blast
qed

definition ex_question :: jobject where
  "ex_question = [(''question'', JStr ''why'')]"

abbreviation ex_answer_args :: "str \<Rightarrow> exec_args" where
  "ex_answer_args a \<equiv> answer_args ex_md_config 1 (JStr ''why'') a ''op''"

abbreviation ex_human :: jobject where
  "ex_human \<equiv> terminal_value zero_digest ''campaign'' 1
     (intent_value zero_digest ''campaign'' 1 (ex_answer_args ''yes'')) Completed
     [(''answer'', JStr ''yes''), (''operator_id'', JStr ''op''), (''origin'', JStr ''human''),
      (''idempotency_key'', get_field (intent_value zero_digest ''campaign'' 1 (ex_answer_args ''yes''))
          ''idempotency_key'')] ''now''"

lemma ex_answers:
  "wire_ok 2000 (intent_value zero_digest ''campaign'' 1 (ex_answer_args ''yes''))"
  "wire_ok 2000 ex_human"
  "utf8_strings (JObj (intent_value zero_digest ''campaign'' 1 (ex_answer_args ''no'')))"
  by code_simp+

theorem second_answer_refused_witness:
  "\<exists>d (st :: unit md_state). snd (record_answer zero_digest ex_md_config 1 (JStr ''why'') ''yes'' ''op'' []) = Inr ex_human
     \<and> ms_answers st = d \<and> settle_action zero_digest ex_md_config 1 AskUser ex_question []
         (st\<lparr>ms_answer := None\<rparr>)
       = (st\<lparr>ms_answer := None\<rparr>, Inr (Leave ''awaiting_user''
           (unresolved_value 1 AskUser (JStr ''human_answer_required''))))"
proof -
  have q: "get_field ex_question ''question'' = JStr ''why''" by (simp add: ex_question_def get_field_def jget_def)
  have c: "mc_campaign ex_md_config = ''campaign''" "mc_recorded_at ex_md_config = ''now''"
    by (simp_all add: ex_md_config_def)
  have w: "wire_ok checkpoint_maximum (intent_value zero_digest ''campaign'' 1 (ex_answer_args ''yes''))"
      "wire_ok checkpoint_maximum ex_human" "utf8_strings (JObj ex_human)"
    using ex_answers(1,2) unfolding wire_ok_def checkpoint_maximum_def by linarith+
  have i: "intent_storable zero_digest ''campaign'' 1 (ex_answer_args ''yes'')"
    using w(1) unfolding intent_storable_def by (simp add: c)
  let ?k = "text_of (get_field (intent_value zero_digest ''campaign'' 1 (ex_answer_args ''yes'')) ''idempotency_key'')"
  have k: "JStr ?k = get_field (intent_value zero_digest ''campaign'' 1 (ex_answer_args ''yes'')) ''idempotency_key''"
    by (simp add: intent_value_fields intent_core_fields)
  have v: "valid_identifier ''op''" "utf8_valid ''yes''" "utf8_valid ''no''" by code_simp+
  define eff :: effect where "eff key = Inr [(''answer'', JStr ''yes''), (''operator_id'', JStr ''op''),
        (''origin'', JStr ''human''), (''idempotency_key'', JStr key)]" for key
  have now: "xa_recorded_at (ex_answer_args ''yes'') = ''now''" by (simp add: c)
  have "\<exists>d'. execute zero_digest ''campaign'' 1 (ex_answer_args ''yes'') eff [] = (d', [?k], Inr
      (terminal_value zero_digest ''campaign'' 1
        (intent_value zero_digest ''campaign'' 1 (ex_answer_args ''yes'')) Completed
        [(''answer'', JStr ''yes''), (''operator_id'', JStr ''op''), (''origin'', JStr ''human''),
         (''idempotency_key'', JStr ?k)] (xa_recorded_at (ex_answer_args ''yes''))))"
    by (rule execute_fresh [OF i _ refl eff_def])
       (simp add: disk_get_def, use w(3) k now in simp)
  then obtain d where e: "execute zero_digest ''campaign'' 1 (ex_answer_args ''yes'') eff []
      = (d, [?k], Inr ex_human)" unfolding k now by blast
  have rec: "record_answer zero_digest ex_md_config 1 (JStr ''why'') ''yes'' ''op'' [] = (d, Inr ex_human)"
    using e v(1,2) by (simp add: record_answer_def c eff_def [abs_def])
  let ?st = "md_start ex_md_config () [] [] d None None"
  have st: "ms_answers ?st = d" by (simp add: md_start_def)
  have "length ''no'' \<le> 65536" "''no'' \<noteq> ''yes''" "''no'' \<noteq> []" by simp_all
  with second_answer_refused [of zero_digest ex_md_config 1 ex_question "''yes''" "''op''" "[]" d ex_human
      ?st "''no''" "''op''" "[]"] rec i w(2) ex_answers(3) v st
  have "settle_action zero_digest ex_md_config 1 AskUser ex_question [] (?st\<lparr>ms_answer := None\<rparr>)
    = (?st\<lparr>ms_answer := None\<rparr>, Inr (Leave ''awaiting_user''
           (unresolved_value 1 AskUser (JStr ''human_answer_required''))))"
    unfolding q c by blast
  with rec st show ?thesis by (intro exI [of _ d] exI [of _ ?st]) simp
qed

section \<open>Planner output that escapes the handler\<close>

text \<open>A planner that names an unpublished generation ends the loop with a reason, but one that
  names a list instead of a hash makes \<open>run\<close> raise \<open>TypeError\<close> (an unhashable value looked up in
  a set): no summary is written for what was done.\<close>

theorem unhashable_generation_escapes:
  assumes "parse_planned_action raw = Inr (RetrieveEvidence, request)" and "5 \<le> ms_stage st"
    and "jget request ''generation_hash'' = Some v"
  shows "(v = JArr vs \<longrightarrow> perform_action H cfg env s raw st = (st, Inl TypeErr))
    \<and> (v = JStr g \<longrightarrow> g \<notin> set (ms_published st) \<longrightarrow> perform_action H cfg env s raw st
      = (st, Inr (plan_unresolved s (JStr ''retrieval evidence must name a published generation''))))"
  using assms
  by (auto simp: perform_action_def advance_literature_state_def generation_guard_def rejected_def ensure_def)

definition ex_retrieval :: bytes where
  "ex_retrieval = canonical_bytes (JObj
     [(''schema_version'', JStr ''2.0.0''), (''action_type'', JStr ''retrieve_evidence''),
      (''branch_id'', JStr ''b''), (''rationale'', JStr ''r''),
      (''operation_request'', JObj [(''generation_hash'', JArr [])])])"

theorem unhashable_generation_escapes_witness:
  "perform_action zero_digest ex_md_config ex_env 1 ex_retrieval (ex_md_start\<lparr>ms_stage := 5\<rparr>)
     = (ex_md_start\<lparr>ms_stage := 5\<rparr>, Inl TypeErr)"
proof -
  have "parse_planned_action ex_retrieval = Inr (RetrieveEvidence, [(''generation_hash'', JArr [])])"
    by code_simp
  from unhashable_generation_escapes [OF this, of "ex_md_start\<lparr>ms_stage := 5\<rparr>" "JArr []" "[]"]
  show ?thesis by (simp add: jget_def)
qed

end
