(* ===== verification/Action.thy ===== *)
theory Action
  imports Planner_Port
begin

text \<open>
  The planner action of \<open>campaign/runner.py\<close> (schema 1.1.0) and its parser, with the exceptions
  the parser's own \<open>except\<close> clause does not catch: \<open>TypeErr\<close> for an unhashable array element,
  \<open>UnicodeEncodeErr\<close> for a string with a lone surrogate, \<open>IntDigitsErr\<close> for an integer over the
  digit limit.  A document is scanned before its duplicate keys are looked for.
\<close>

section \<open>Data\<close>

record resource_limits =
  rl_cpu :: int
  rl_wall :: int
  rl_memory :: int
  rl_output :: int
  rl_processes :: int

record tool_request =
  tq_tool_id :: str
  tq_program :: str
  tq_inputs :: "str list"
  tq_arguments :: "str list"
  tq_limits :: resource_limits
  tq_network :: str

record campaign_action =
  ca_action_type :: action_type
  ca_branch_id :: str
  ca_rationale :: str
  ca_artifact_text :: "str option"
  ca_program_source :: "str option"
  ca_tool_request :: "tool_request option"
  ca_candidate :: "str option"
  ca_tools :: "str list"
  ca_report_text :: "str option"
  ca_read_hash :: "str option"
  ca_note_text :: "str option"

definition action_schema_version :: str where
  "action_schema_version = ''1.1.0''"

definition planner_action_fields :: "str list" where
  "planner_action_fields =
     [''schema_version'', ''action_type'', ''branch_id'', ''rationale'', ''artifact_text'',
      ''program_source'', ''tool_request'', ''selected_candidate_hash'',
      ''selected_tool_artifact_hashes'', ''report_text'', ''read_artifact_hash'', ''note_text'']"

definition tool_fields :: "str list" where
  "tool_fields =
     [''tool_id'', ''program_artifact_hash'', ''input_artifact_hashes'', ''arguments'',
      ''resource_limits'', ''network'']"

definition resource_fields :: "str list" where
  "resource_fields =
     [''cpu_milliseconds'', ''wall_milliseconds'', ''memory_bytes'', ''output_bytes'', ''process_count'']"

definition supported_actions :: "action_type list" where
  "supported_actions =
     [Derive, WriteProgram, RunProgram, InspectResult, Falsify, Verify, AskUser, SuspendBranch,
      Report, ReadArtifact, Note]"

section \<open>Guards\<close>

definition exact_keys :: "jobject \<Rightarrow> str list \<Rightarrow> str \<Rightarrow> unit res" where
  "exact_keys kvs expected name =
     ensure (set (map fst kvs) = set expected)
       (RunnerError (name @ '' fields differ from the closed schema''))"

definition hash_value :: "json \<Rightarrow> str \<Rightarrow> str res" where
  "hash_value j field =
     (if valid_hash (text_of j) then Inr (text_of j)
      else Inl (RunnerError (field @ '' must be a sha256 content hash'')))"

definition optional_hash :: "json \<Rightarrow> str \<Rightarrow> str option res" where
  "optional_hash j field =
     (if j = JNull then Inr None else bindE (hash_value j field) (\<lambda>h. Inr (Some h)))"

definition text_error :: "str \<Rightarrow> nat \<Rightarrow> error" where
  "text_error field maximum =
     RunnerError (field @ '' must be non-empty and at most '' @ nat_str maximum @ '' bytes'')"

definition bounded_text :: "json \<Rightarrow> str \<Rightarrow> nat \<Rightarrow> str res" where
  "bounded_text j field maximum =
     (let s = text_of j
      in if s = [] then Inl (text_error field maximum)
         else if \<not> utf8_valid s then Inl UnicodeEncodeErr
         else if length s > maximum then Inl (text_error field maximum)
         else Inr s)"

definition optional_text :: "json \<Rightarrow> str \<Rightarrow> nat \<Rightarrow> str option res" where
  "optional_text j field maximum =
     (if j = JNull then Inr None else bindE (bounded_text j field maximum) (\<lambda>s. Inr (Some s)))"

fun unhashable :: "json \<Rightarrow> bool" where
  "unhashable (JArr _) = True"
| "unhashable (JObj _) = True"
| "unhashable _ = False"

text \<open>\<open>len(value) == len(set(value))\<close>.\<close>

fun py_distinct :: "json list \<Rightarrow> bool" where
  "py_distinct [] = True"
| "py_distinct (v # vs) = ((\<forall>w \<in> set vs. \<not> py_eq v w \<and> \<not> py_eq w v) \<and> py_distinct vs)"

definition hash_tuple :: "json \<Rightarrow> str \<Rightarrow> str list res" where
  "hash_tuple j field =
     (let bad = Inl (RunnerError (field @ '' must be an array of unique hashes'')) in
      case j of
        JArr vs \<Rightarrow>
          (if \<exists>v \<in> set vs. unhashable v then Inl TypeErr
           else if \<not> py_distinct vs then bad
           else mapE (\<lambda>v. hash_value v field) vs)
      | _ \<Rightarrow> bad)"

definition positive_int :: "json \<Rightarrow> str \<Rightarrow> int res" where
  "positive_int j field =
     (case j of
        JInt i \<Rightarrow> if 1 \<le> i then Inr i else Inl (RunnerError (field @ '' must be a positive integer''))
      | _ \<Rightarrow> Inl (RunnerError (field @ '' must be a positive integer'')))"

fun has_infix :: "str \<Rightarrow> str \<Rightarrow> bool" where
  "has_infix p [] = (p = [])"
| "has_infix p (c # s) = (starts_with p (c # s) \<or> has_infix p s)"

definition safe_argument :: "json \<Rightarrow> bool" where
  "safe_argument j \<longleftrightarrow>
     (case j of
        JStr s \<Rightarrow>
          length s \<le> 128 \<and> (\<forall>c \<in> set s. is_alnum c \<or> c \<in> set ''_.:=+,-'')
          \<and> s \<noteq> ''..'' \<and> s \<noteq> ''.'' \<and> \<not> has_infix ''..'' s
      | _ \<Rightarrow> False)"

section \<open>The tool request\<close>

definition parse_limits :: "jobject \<Rightarrow> resource_limits res" where
  "parse_limits r =
     bindE (positive_int (get_field r ''cpu_milliseconds'') ''resource_limits.cpu_milliseconds'') (\<lambda>cpu.
     bindE (positive_int (get_field r ''memory_bytes'') ''resource_limits.memory_bytes'') (\<lambda>memory.
     bindE (positive_int (get_field r ''output_bytes'') ''resource_limits.output_bytes'') (\<lambda>output.
     bindE (positive_int (get_field r ''process_count'') ''resource_limits.process_count'') (\<lambda>processes.
     bindE (positive_int (get_field r ''wall_milliseconds'') ''resource_limits.wall_milliseconds'') (\<lambda>wall.
     Inr \<lparr>rl_cpu = cpu, rl_wall = wall, rl_memory = memory, rl_output = output,
          rl_processes = processes\<rparr>)))))"

fun elements :: "json \<Rightarrow> json list" where
  "elements (JArr vs) = vs"
| "elements _ = []"

definition arguments_guard :: "json \<Rightarrow> unit res" where
  "arguments_guard j =
     ensure (case j of JArr vs \<Rightarrow> \<forall>v \<in> set vs. safe_argument v | _ \<Rightarrow> False)
       (RunnerError ''arguments contain a host path or unsupported value'')"

definition parse_tool_request :: "json \<Rightarrow> tool_request res" where
  "parse_tool_request j =
     (case j of
        JObj v \<Rightarrow>
          bindE (exact_keys v tool_fields ''tool_request'') (\<lambda>_.
          bindE (ensure (valid_identifier (text_of (get_field v ''tool_id'')))
            (RunnerError ''tool_id must be a valid identifier'')) (\<lambda>_.
          bindE (arguments_guard (get_field v ''arguments'')) (\<lambda>_.
          case get_field v ''resource_limits'' of
            JObj r \<Rightarrow>
              bindE (exact_keys r resource_fields ''resource_limits'') (\<lambda>_.
              bindE (ensure (get_field v ''network'' = JStr ''none'')
                (RunnerError (''network must be exactly '' @ py_repr ''none''))) (\<lambda>_.
              bindE (hash_value (get_field v ''program_artifact_hash'') ''program_artifact_hash'') (\<lambda>program.
              bindE (hash_tuple (get_field v ''input_artifact_hashes'') ''input_artifact_hashes'') (\<lambda>inputs.
              bindE (parse_limits r) (\<lambda>limits.
              Inr \<lparr>tq_tool_id = text_of (get_field v ''tool_id''), tq_program = program,
                   tq_inputs = inputs,
                   tq_arguments = map text_of (elements (get_field v ''arguments'')),
                   tq_limits = limits, tq_network = ''none''\<rparr>)))))
          | _ \<Rightarrow> Inl (RunnerError ''resource_limits must be an object''))))
      | _ \<Rightarrow> Inl (RunnerError ''tool_request must be an object''))"

section \<open>The action\<close>

definition note_text_limit :: nat where
  "note_text_limit = 8192"

text \<open>The tuple \<open>empty\<close> of the source.\<close>

definition empties :: "campaign_action \<Rightarrow> bool list" where
  "empties a =
     [ca_artifact_text a = None, ca_program_source a = None, ca_tool_request a = None,
      ca_candidate a = None, ca_tools a = [], ca_report_text a = None, ca_read_hash a = None,
      ca_note_text a = None]"

definition shape_guard :: "campaign_action \<Rightarrow> unit res" where
  "shape_guard a =
     (let ty = ca_action_type a; name = action_type_value ty;
          forbidden = RunnerError (name @ '' carries forbidden or missing fields'') in
      if ty = Derive \<or> ty = Falsify then
        ensure (empties a = [False, True, True, True, True, True, True, True]) forbidden
      else if ty = WriteProgram then
        ensure (empties a = [True, False, True, True, True, True, True, True]) forbidden
      else if ty = RunProgram then
        ensure (empties a = [True, True, False, True, True, True, True, True]) forbidden
      else if ty = ReadArtifact then
        ensure (empties a = [True, True, True, True, True, True, False, True]) forbidden
      else if ty = Note then
        ensure (empties a = [True, True, True, True, True, True, True, False]) forbidden
      else if ty = InspectResult then
        bindE (ensure (ca_program_source a = None \<and> ca_tool_request a = None \<and> ca_report_text a = None
                 \<and> ca_read_hash a = None \<and> ca_note_text a = None)
            (RunnerError ''inspect_result carries forbidden fields'')) (\<lambda>_.
        ensure ((ca_artifact_text a = None) \<noteq> (ca_candidate a = None))
            (RunnerError ''inspect_result must create or select exactly one candidate''))
      else if ty = Verify then
        ensure (take 3 (empties a) = [True, True, True] \<and> ca_candidate a \<noteq> None
                \<and> ca_report_text a = None \<and> ca_read_hash a = None \<and> ca_note_text a = None) forbidden
      else ensure (empties a = [True, True, True, True, True, False, True, True]) forbidden)"

definition parse_fields :: "jobject \<Rightarrow> action_type \<Rightarrow> campaign_action res" where
  "parse_fields v ty =
     bindE (ensure (valid_identifier (text_of (get_field v ''branch_id'')))
       (RunnerError ''branch_id must be a valid identifier'')) (\<lambda>_.
     bindE (bounded_text (get_field v ''rationale'') ''rationale'' 2000) (\<lambda>rationale.
     bindE (optional_text (get_field v ''artifact_text'') ''artifact_text'' 262144) (\<lambda>artifact.
     bindE (optional_text (get_field v ''program_source'') ''program_source'' 262144) (\<lambda>program.
     bindE (optional_text (get_field v ''report_text'') ''report_text'' 65536) (\<lambda>report.
     bindE (optional_text (get_field v ''note_text'') ''note_text'' note_text_limit) (\<lambda>note.
     bindE (optional_hash (get_field v ''read_artifact_hash'') ''read_artifact_hash'') (\<lambda>read.
     bindE (optional_hash (get_field v ''selected_candidate_hash'') ''selected_candidate_hash'') (\<lambda>selected.
     bindE (hash_tuple (get_field v ''selected_tool_artifact_hashes'') ''selected_tool_artifact_hashes'') (\<lambda>tools.
     bindE (if get_field v ''tool_request'' = JNull then Inr None
            else bindE (parse_tool_request (get_field v ''tool_request'')) (\<lambda>t. Inr (Some t))) (\<lambda>tool.
     Inr \<lparr>ca_action_type = ty, ca_branch_id = text_of (get_field v ''branch_id''),
          ca_rationale = rationale, ca_artifact_text = artifact, ca_program_source = program,
          ca_tool_request = tool, ca_candidate = selected, ca_tools = tools,
          ca_report_text = report, ca_read_hash = read, ca_note_text = note\<rparr>))))))))))"

definition parse_action_value :: "json \<Rightarrow> campaign_action res" where
  "parse_action_value j =
     (case j of
        JObj v \<Rightarrow>
          bindE (exact_keys v planner_action_fields ''planner action'') (\<lambda>_.
          bindE (ensure (get_field v ''schema_version'' = JStr action_schema_version)
            (RunnerError ''unsupported planner action schema_version'')) (\<lambda>_.
          case enum_of action_type_value all_action_types (get_field v ''action_type'') of
            None \<Rightarrow> Inl (RunnerError ''unknown campaign action'')
          | Some ty \<Rightarrow>
              bindE (ensure (ty \<in> set supported_actions)
                (RunnerError ''campaign action is not executable in this runner'')) (\<lambda>_.
              bindE (parse_fields v ty) (\<lambda>a.
              bindE (shape_guard a) (\<lambda>_. Inr a)))))
      | _ \<Rightarrow> Inl (RunnerError ''planner action must be an object''))"

definition parse_campaign_action :: "bytes \<Rightarrow> campaign_action res" where
  "parse_campaign_action raw =
     (if \<not> utf8_valid raw then Inl (RunnerError ''planner action is not valid UTF-8 JSON'')
      else case json_loads raw of
        Inl IntDigitsError \<Rightarrow> Inl IntDigitsErr
      | Inl _ \<Rightarrow> Inl (RunnerError ''planner action is not valid UTF-8 JSON'')
      | Inr v \<Rightarrow>
          (case dup_key v of
             Some k \<Rightarrow> Inl (RunnerError (''duplicate JSON field: '' @ k))
           | None \<Rightarrow> parse_action_value v))"

section \<open>What an accepted action is\<close>

definition limits_positive :: "resource_limits \<Rightarrow> bool" where
  "limits_positive l \<longleftrightarrow>
     1 \<le> rl_cpu l \<and> 1 \<le> rl_wall l \<and> 1 \<le> rl_memory l \<and> 1 \<le> rl_output l \<and> 1 \<le> rl_processes l"

definition hashes_ok :: "str list \<Rightarrow> bool" where
  "hashes_ok hs \<longleftrightarrow> distinct hs \<and> (\<forall>h \<in> set hs. valid_hash h)"

definition tool_request_ok :: "tool_request \<Rightarrow> bool" where
  "tool_request_ok t \<longleftrightarrow>
     valid_identifier (tq_tool_id t) \<and> valid_hash (tq_program t) \<and> hashes_ok (tq_inputs t)
     \<and> limits_positive (tq_limits t) \<and> tq_network t = ''none''
     \<and> (\<forall>s \<in> set (tq_arguments t). length s \<le> 128 \<and> CHR ''/'' \<notin> set s \<and> CHR 0x5C \<notin> set s
          \<and> CHR ''~'' \<notin> set s \<and> \<not> has_infix ''..'' s)"

definition text_ok :: "nat \<Rightarrow> str option \<Rightarrow> bool" where
  "text_ok n t \<longleftrightarrow> (\<forall>s. t = Some s \<longrightarrow> s \<noteq> [] \<and> utf8_valid s \<and> length s \<le> n)"

definition hash_ok :: "str option \<Rightarrow> bool" where
  "hash_ok t \<longleftrightarrow> (\<forall>h. t = Some h \<longrightarrow> valid_hash h)"

text \<open>The payload each type of action carries; every other payload field is absent.\<close>

definition carries :: "campaign_action \<Rightarrow> bool" where
  "carries a \<longleftrightarrow>
     (let ty = ca_action_type a in
        (ca_artifact_text a \<noteq> None \<longrightarrow> ty \<in> {Derive, Falsify, InspectResult})
      \<and> (ca_program_source a \<noteq> None \<longleftrightarrow> ty = WriteProgram)
      \<and> (ca_tool_request a \<noteq> None \<longleftrightarrow> ty = RunProgram)
      \<and> (ca_report_text a \<noteq> None \<longleftrightarrow> ty \<in> {AskUser, SuspendBranch, Report})
      \<and> (ca_read_hash a \<noteq> None \<longleftrightarrow> ty = ReadArtifact)
      \<and> (ca_note_text a \<noteq> None \<longleftrightarrow> ty = Note)
      \<and> (ca_candidate a \<noteq> None \<longrightarrow> ty \<in> {InspectResult, Verify})
      \<and> (ca_tools a \<noteq> [] \<longrightarrow> ty \<in> {InspectResult, Verify})
      \<and> (ty = Verify \<longrightarrow> ca_candidate a \<noteq> None)
      \<and> (ty = InspectResult \<longrightarrow> (ca_artifact_text a = None) \<noteq> (ca_candidate a = None)))"

definition action_ok :: "campaign_action \<Rightarrow> bool" where
  "action_ok a \<longleftrightarrow>
     ca_action_type a \<in> set supported_actions \<and> valid_identifier (ca_branch_id a)
     \<and> text_ok 2000 (Some (ca_rationale a)) \<and> text_ok 262144 (ca_artifact_text a)
     \<and> text_ok 262144 (ca_program_source a) \<and> text_ok 65536 (ca_report_text a)
     \<and> text_ok 8192 (ca_note_text a) \<and> hash_ok (ca_read_hash a) \<and> hash_ok (ca_candidate a)
     \<and> hashes_ok (ca_tools a) \<and> (\<forall>t. ca_tool_request a = Some t \<longrightarrow> tool_request_ok t) \<and> carries a"

lemma bounded_text_Inr: "bounded_text j f n = Inr s \<Longrightarrow> text_ok n (Some s)"
  by (auto simp: bounded_text_def Let_def text_ok_def split: if_splits)

lemma optional_text_Inr: "optional_text j f n = Inr t \<Longrightarrow> text_ok n t"
  by (auto simp: optional_text_def bindE_eq_Inr dest: bounded_text_Inr split: if_splits)
     (simp add: text_ok_def)

lemma hash_value_Inr: "hash_value j f = Inr h \<longleftrightarrow> j = JStr h \<and> valid_hash h"
proof -
  have "\<not> valid_hash []" by (simp add: valid_hash_def)
  then show ?thesis by (cases j) (auto simp: hash_value_def)
qed

lemma optional_hash_Inr: "optional_hash j f = Inr t \<Longrightarrow> hash_ok t"
  by (auto simp: optional_hash_def bindE_eq_Inr hash_value_Inr hash_ok_def split: if_splits)

lemma py_distinct_strings: "py_distinct (map JStr hs) \<longleftrightarrow> distinct hs"
  by (induction hs) auto

lemma hash_tuple_Inr: "hash_tuple j f = Inr hs \<Longrightarrow> hashes_ok hs"
proof -
  assume "hash_tuple j f = Inr hs"
  then obtain vs where vs: "py_distinct vs" "mapE (\<lambda>v. hash_value v f) vs = Inr hs"
    by (auto simp: hash_tuple_def Let_def split: json.splits if_splits)
  have "vs = map JStr hs \<and> (\<forall>h \<in> set hs. valid_hash h)"
    using vs(2)
    by (induction vs arbitrary: hs) (auto simp: bindE_eq_Inr hash_value_Inr)
  with vs(1) show ?thesis by (simp add: hashes_ok_def py_distinct_strings)
qed

lemma positive_int_Inr: "positive_int j f = Inr i \<Longrightarrow> 1 \<le> i"
  by (auto simp: positive_int_def split: json.splits if_splits)

lemma parse_limits_Inr: "parse_limits r = Inr l \<Longrightarrow> limits_positive l"
  by (auto simp: parse_limits_def bindE_eq_Inr limits_positive_def dest!: positive_int_Inr)

lemma safe_argument_text:
  "safe_argument v \<Longrightarrow> length (text_of v) \<le> 128 \<and> CHR ''/'' \<notin> set (text_of v)
     \<and> CHR 0x5C \<notin> set (text_of v) \<and> CHR ''~'' \<notin> set (text_of v) \<and> \<not> has_infix ''..'' (text_of v)"
proof -
  have no: "\<not> is_alnum (CHR ''/'')" "\<not> is_alnum (CHR 0x5C)" "\<not> is_alnum (CHR ''~'')"
    by code_simp+
  assume "safe_argument v"
  then show ?thesis
    using no by (auto simp: safe_argument_def split: json.splits)
qed

lemma parse_tool_request_Inr: "parse_tool_request j = Inr t \<Longrightarrow> tool_request_ok t"
  using safe_argument_text
  by (auto simp: parse_tool_request_def bindE_eq_Inr tool_request_ok_def hash_value_Inr
      arguments_guard_def dest: hash_tuple_Inr parse_limits_Inr split: json.splits)

lemma shape_guard_carries:
  "shape_guard a = Inr u \<Longrightarrow> ca_action_type a \<in> set supported_actions \<Longrightarrow> carries a"
  by (cases "ca_action_type a")
     (auto simp: shape_guard_def Let_def carries_def empties_def bindE_eq_Inr supported_actions_def)

lemma parse_fields_Inr:
  assumes "parse_fields v ty = Inr a"
  shows "ca_action_type a = ty \<and> valid_identifier (ca_branch_id a)
     \<and> text_ok 2000 (Some (ca_rationale a)) \<and> text_ok 262144 (ca_artifact_text a)
     \<and> text_ok 262144 (ca_program_source a) \<and> text_ok 65536 (ca_report_text a)
     \<and> text_ok 8192 (ca_note_text a) \<and> hash_ok (ca_read_hash a) \<and> hash_ok (ca_candidate a)
     \<and> hashes_ok (ca_tools a) \<and> (\<forall>t. ca_tool_request a = Some t \<longrightarrow> tool_request_ok t)"
  using assms
  by (auto simp: parse_fields_def bindE_eq_Inr note_text_limit_def split: if_splits
      dest: bounded_text_Inr optional_text_Inr optional_hash_Inr hash_tuple_Inr parse_tool_request_Inr)

lemma accepted_action_ok:
  assumes "parse_campaign_action raw = Inr a"
  shows "action_ok a"
proof -
  obtain v ty where "ty \<in> set supported_actions" "parse_fields v ty = Inr a" "shape_guard a = Inr ()"
    using assms
    by (auto simp: parse_campaign_action_def parse_action_value_def bindE_eq_Inr
        split: if_splits sum.splits jerror.splits option.splits json.splits)
  then show ?thesis
    using parse_fields_Inr shape_guard_carries by (auto simp: action_ok_def)
qed

text \<open>C33: every action the parser accepts is well formed: a supported type with exactly the payload
  of that type, identifiers and hashes of the right form, non-empty texts within their byte
  bounds, positive resource limits, no network, and arguments without path separators.\<close>

theorem parsed_action_ok:
  assumes "parse_campaign_action raw = Inr a"
  shows "action_ok a"
  using assms by (rule accepted_action_ok)

section \<open>A concrete action\<close>

lemma parse_canonical:
  assumes "printable v" and "utf8_strings v" and "dup_free v"
  shows "parse_campaign_action (canonical_bytes v) = parse_action_value (jsort v)"
proof -
  have "dup_key (jsort v) = None" using assms(3) by (simp add: dup_key_None dup_free_jsort)
  then show ?thesis
    using canonical_loads [OF assms(1)] utf8_valid_canonical [OF assms(2)]
    by (simp add: parse_campaign_action_def)
qed
text \<open>A note in canonical order, with a given rationale and tool artifacts.\<close>

definition ex_sorted :: "json \<Rightarrow> json \<Rightarrow> jobject" where
 "ex_sorted rationale tools = [(''action_type'', JStr ''note''),
   (''artifact_text'', JNull), (''branch_id'', JStr ''b''), (''note_text'', JStr ''text''), (''program_source'', JNull),
   (''rationale'', rationale), (''read_artifact_hash'', JNull),(''report_text'', JNull),(''schema_version'', JStr ''1.1.0''),
   (''selected_candidate_hash'', JNull),
      (''selected_tool_artifact_hashes'', tools),  (''tool_request'', JNull)]"

lemma ex_texts: "utf8_valid ''why''" "utf8_valid ''text''" "valid_identifier ''b''" by code_simp+

lemma ex_sorted_fields: "set (map fst (ex_sorted r t)) = set planner_action_fields"
  unfolding set_map by (rule equalityI; simp add: ex_sorted_def planner_action_fields_def)

lemma ex_sorted_get:
  "get_field (ex_sorted r t) ''schema_version'' = JStr ''1.1.0''"
  "get_field (ex_sorted r t) ''action_type'' = JStr ''note''"
  "get_field (ex_sorted r t) ''branch_id'' = JStr ''b''"
  "get_field (ex_sorted r t) ''rationale'' = r"
  "get_field (ex_sorted r t) ''artifact_text'' = JNull"
  "get_field (ex_sorted r t) ''program_source'' = JNull"
  "get_field (ex_sorted r t) ''tool_request'' = JNull"
  "get_field (ex_sorted r t) ''selected_candidate_hash'' = JNull"
  "get_field (ex_sorted r t) ''selected_tool_artifact_hashes'' = t"
  "get_field (ex_sorted r t) ''report_text'' = JNull"
  "get_field (ex_sorted r t) ''read_artifact_hash'' = JNull"
  "get_field (ex_sorted r t) ''note_text'' = JStr ''text''"
  by (simp_all add: ex_sorted_def get_field_def jget_def)

lemma note_type: "enum_of action_type_value all_action_types (JStr ''note'') = Some Note"
  by (simp add: action_type.enum_of_Some)

abbreviation ex_note :: "str \<Rightarrow> str list \<Rightarrow> campaign_action" where
  "ex_note rationale tools \<equiv> \<lparr>ca_action_type = Note, ca_branch_id = ''b'', ca_rationale = rationale,
     ca_artifact_text = None, ca_program_source = None, ca_tool_request = None, ca_candidate = None,
     ca_tools = tools, ca_report_text = None, ca_read_hash = None, ca_note_text = Some ''text''\<rparr>"

lemma ex_absent: "optional_text JNull f n = Inr None" "optional_hash JNull f = Inr None"
  "optional_text (JStr ''text'') ''note_text'' note_text_limit = Inr (Some ''text'')"
  using ex_texts
  by (simp_all del: utf8_valid.simps add: optional_text_def optional_hash_def bounded_text_def note_text_limit_def)

lemma ex_parse_fields:
  "parse_fields (ex_sorted r t) Note =
     bindE (bounded_text r ''rationale'' 2000) (\<lambda>rationale.
   bindE (hash_tuple t ''selected_tool_artifact_hashes'') (\<lambda>tools. Inr (ex_note rationale tools)))"
  by (simp add: parse_fields_def ex_sorted_get ex_absent ex_texts)

lemma ex_parse_value:
  "parse_action_value (JObj (ex_sorted r t)) =
     bindE (parse_fields (ex_sorted r t) Note) (\<lambda>a. bindE (shape_guard a) (\<lambda>_. Inr a))"
  unfolding parse_action_value_def json.case exact_keys_def ex_sorted_fields ex_sorted_get note_type action_schema_version_def
  by (simp add: supported_actions_def)

lemma ex_note_shape: "shape_guard (ex_note r []) = Inr ()"
  by (simp add: shape_guard_def empties_def)

lemma ex_sorted_jsort:
  "jsort (JObj (ex_sorted (JStr ''why'') (JArr vs))) = JObj (ex_sorted (JStr ''why'') (JArr (map jsort vs)))"
proof -
  have "sorted (map fst (ex_sorted r t))" for r t by (simp add: ex_sorted_def)
  then show ?thesis by (simp add: ex_sorted_def sorted_sort_id)
qed

definition ex_action_raw :: bytes where
  "ex_action_raw = canonical_bytes (JObj (ex_sorted (JStr ''why'') (JArr [])))"

lemma ex_action_parses: "parse_campaign_action ex_action_raw = Inr (ex_note ''why'' [])"
proof -
  have "printable (JObj (ex_sorted (JStr ''why'') (JArr [])))" "utf8_strings (JObj (ex_sorted (JStr ''why'') (JArr [])))"
    "dup_free (JObj (ex_sorted (JStr ''why'') (JArr [])))" by code_simp+
  from parse_canonical [OF this]
  have "parse_campaign_action ex_action_raw = parse_action_value (JObj (ex_sorted (JStr ''why'') (JArr [])))"
    using ex_sorted_jsort [of "[]"] by (simp add: ex_action_raw_def)
  also have "\<dots> = Inr (ex_note ''why'' [])"
    unfolding ex_parse_value ex_parse_fields
    using ex_texts ex_note_shape [of "''why''"]
    by (simp del: utf8_valid.simps add: bounded_text_def hash_tuple_def)
  finally show ?thesis .
qed

theorem parsed_action_ok_witness: "action_ok (ex_note ''why'' [])"
  using parsed_action_ok [OF ex_action_parses] .

text \<open>The lone surrogate \<open>U+D800\<close>, as a string of the program.\<close>

abbreviation surrogate :: str where
  "surrogate \<equiv> [CHR 0xED, CHR 0xA0, CHR 0x80]"

lemma surrogate_invalid: "\<not> utf8_valid surrogate"
  by code_simp

lemma surrogate_scanned: "pstring (CHR 0x5C # ''ud800'' @ [CHR 0x22]) = Some (surrogate, [])"
proof -
  have c: "char_of (237 :: nat) = CHR 0xED" "char_of (160 :: nat) = CHR 0xA0" "char_of (128 :: nat) = CHR 0x80"
    by code_simp+
  have "pescape_u (''d800'' @ [CHR 0x22]) = Some (surrogate, [CHR 0x22])"
    using c by (simp add: pescape_u_def hex_val_def Let_def utf8_enc_def)
  then show ?thesis by simp
qed

lemma ex_canonical_parse:
  assumes "\<forall>v \<in> set vs. printable v \<and> utf8_strings v \<and> dup_free v \<and> jsort v = v"
  shows "parse_campaign_action (canonical_bytes (JObj (ex_sorted (JStr ''why'') (JArr vs))))
    = parse_action_value (JObj (ex_sorted (JStr ''why'') (JArr vs)))"
proof -
  let ?v = "JObj (ex_sorted (JStr ''why'') (JArr vs))"
  have keys: "\<forall>k \<in> set planner_action_fields. utf8_valid k" "utf8_valid ''note''" "utf8_valid ''1.1.0''" by code_simp+
  have mem: "kv \<in> set (ex_sorted (JStr ''why'') (JArr vs)) \<Longrightarrow> fst kv \<in> set planner_action_fields
      \<and> snd kv \<in> {JNull, JStr ''note'', JStr ''b'', JStr ''text'', JStr ''why'', JStr ''1.1.0'', JArr vs}" for kv
    by (auto simp: ex_sorted_def planner_action_fields_def)
  have b: "utf8_valid ''b''" by code_simp
  have "utf8_strings ?v"
    using keys b ex_texts mem assms by (fastforce simp del: utf8_valid.simps)
  moreover have "printable ?v" "dup_free ?v"
    using assms by (auto simp: ex_sorted_def)
  moreover have "map jsort vs = vs" using assms by (simp add: map_idI)
  ultimately show ?thesis
    using parse_canonical [of ?v] ex_sorted_jsort [of vs] by simp
qed

definition ex_unhashable_raw :: bytes where
  "ex_unhashable_raw = canonical_bytes (JObj (ex_sorted (JStr ''why'') (JArr [JArr []])))"

lemma ex_unhashable_parse: "parse_campaign_action ex_unhashable_raw = Inl TypeErr"
  unfolding ex_unhashable_raw_def
  using ex_texts
  by (simp del: utf8_valid.simps add: ex_canonical_parse ex_parse_value ex_parse_fields bounded_text_def hash_tuple_def)

text \<open>Planner bytes can make the parser raise exceptions that are not campaign errors: an
  array inside \<open>selected_tool_artifact_hashes\<close> raises \<open>TypeError\<close>, where a repeated \<open>null\<close> is a
  campaign error, and an escaped lone surrogate in the rationale raises \<open>UnicodeEncodeError\<close>.\<close>

theorem parser_escapes:
  "parse_campaign_action (canonical_bytes (JObj (ex_sorted (JStr ''why'') (JArr [JArr []])))) = Inl TypeErr
   \<and> parse_campaign_action (canonical_bytes (JObj (ex_sorted (JStr ''why'') (JArr [JNull, JNull]))))
       = Inl (RunnerError ''selected_tool_artifact_hashes must be an array of unique hashes'')
   \<and> pstring (CHR 0x5C # ''ud800'' @ [CHR 0x22]) = Some (surrogate, [])
   \<and> parse_action_value (JObj (ex_sorted (JStr surrogate) (JArr []))) = Inl UnicodeEncodeErr"
proof (intro conjI)
  show "parse_campaign_action (canonical_bytes (JObj (ex_sorted (JStr ''why'') (JArr [JArr []])))) = Inl TypeErr"
    using ex_unhashable_parse by (simp add: ex_unhashable_raw_def)
  show "parse_campaign_action (canonical_bytes (JObj (ex_sorted (JStr ''why'') (JArr [JNull, JNull]))))
       = Inl (RunnerError ''selected_tool_artifact_hashes must be an array of unique hashes'')"
    using ex_texts
    by (simp del: utf8_valid.simps add: ex_canonical_parse ex_parse_value ex_parse_fields bounded_text_def hash_tuple_def)
  show "pstring (CHR 0x5C # ''ud800'' @ [CHR 0x22]) = Some (surrogate, [])"
    by (rule surrogate_scanned)
  show "parse_action_value (JObj (ex_sorted (JStr surrogate) (JArr []))) = Inl UnicodeEncodeErr"
    using surrogate_invalid
    by (simp del: utf8_valid.simps add: ex_parse_value ex_parse_fields bounded_text_def)
qed

end
