(* ===== verification/State_Error.thy ===== *)
theory State_Error
  imports Ada_Prelude
begin

text \<open>
  Programs that read and change a state and may raise: what was changed before an exception
  stays changed, as in the source.  \<open>holds P m Q E\<close> is their Hoare triple, with a postcondition
  for a normal result and one for an exception.
\<close>

section \<open>Programs\<close>

definition returnS :: "'a \<Rightarrow> 's \<Rightarrow> 's \<times> ('e + 'a)" where
  "returnS x s = (s, Inr x)"

definition raiseS :: "'e \<Rightarrow> 's \<Rightarrow> 's \<times> ('e + 'a)" where
  "raiseS e s = (s, Inl e)"

definition liftS :: "'e + 'a \<Rightarrow> 's \<Rightarrow> 's \<times> ('e + 'a)" where
  "liftS r s = (s, r)"

definition readS :: "('s \<Rightarrow> 'a) \<Rightarrow> 's \<Rightarrow> 's \<times> ('e + 'a)" where
  "readS f s = (s, Inr (f s))"

definition modifyS :: "('s \<Rightarrow> 's) \<Rightarrow> 's \<Rightarrow> 's \<times> ('e + unit)" where
  "modifyS f s = (f s, Inr ())"

definition guardS :: "bool \<Rightarrow> 'e \<Rightarrow> 's \<Rightarrow> 's \<times> ('e + unit)" where
  "guardS ok e s = (s, ensure ok e)"

definition bindS ::
  "('s \<Rightarrow> 's \<times> ('e + 'a)) \<Rightarrow> ('a \<Rightarrow> 's \<Rightarrow> 's \<times> ('e + 'b)) \<Rightarrow> 's \<Rightarrow> 's \<times> ('e + 'b)" where
  "bindS m f s = (case m s of (s', Inl e) \<Rightarrow> (s', Inl e) | (s', Inr x) \<Rightarrow> f x s')"

definition catchS ::
  "('s \<Rightarrow> 's \<times> ('e + 'a)) \<Rightarrow> ('e \<Rightarrow> 's \<Rightarrow> 's \<times> ('e + 'a)) \<Rightarrow> 's \<Rightarrow> 's \<times> ('e + 'a)" where
  "catchS m h s = (case m s of (s', Inl e) \<Rightarrow> h e s' | (s', Inr x) \<Rightarrow> (s', Inr x))"

text \<open>The result of a program as a value: \<open>try\<close> with the handlers left to what follows.\<close>

definition tryS :: "('s \<Rightarrow> 's \<times> ('e + 'a)) \<Rightarrow> 's \<Rightarrow> 's \<times> ('e + ('e + 'a))" where
  "tryS m s = (case m s of (s', r) \<Rightarrow> (s', Inr r))"

text \<open>\<open>tuple(f(x) for x in xs)\<close>.\<close>

primrec mapS ::
  "('a \<Rightarrow> 's \<Rightarrow> 's \<times> ('e + 'b)) \<Rightarrow> 'a list \<Rightarrow> 's \<Rightarrow> 's \<times> ('e + 'b list)" where
  "mapS f [] = returnS []"
| "mapS f (x # xs) = bindS (f x) (\<lambda>y. bindS (mapS f xs) (\<lambda>ys. returnS (y # ys)))"

section \<open>Triples\<close>

definition holds ::
  "('s \<Rightarrow> bool) \<Rightarrow> ('s \<Rightarrow> 's \<times> ('e + 'a)) \<Rightarrow> ('a \<Rightarrow> 's \<Rightarrow> bool) \<Rightarrow> ('e \<Rightarrow> 's \<Rightarrow> bool) \<Rightarrow> bool" where
  "holds P m Q E \<longleftrightarrow>
     (\<forall>s s' r. P s \<longrightarrow> m s = (s', r) \<longrightarrow> (case r of Inl e \<Rightarrow> E e s' | Inr x \<Rightarrow> Q x s'))"

lemma holdsD:
  "holds P m Q E \<Longrightarrow> P s \<Longrightarrow> m s = (s', Inr x) \<Longrightarrow> Q x s'"
  "holds P m Q E \<Longrightarrow> P s \<Longrightarrow> m s = (s', Inl e) \<Longrightarrow> E e s'"
  by (auto simp: holds_def split: sum.splits)

lemma holdsI:
  "(\<And>s s' x. P s \<Longrightarrow> m s = (s', Inr x) \<Longrightarrow> Q x s') \<Longrightarrow>
   (\<And>s s' e. P s \<Longrightarrow> m s = (s', Inl e) \<Longrightarrow> E e s') \<Longrightarrow> holds P m Q E"
  by (auto simp: holds_def split: sum.splits)

lemma holds_bind:
  assumes "holds P m R E" and "\<And>x. holds (R x) (f x) Q E"
  shows "holds P (bindS m f) Q E"
  unfolding holds_def
proof (intro allI impI)
  fix s s' r
  assume P: "P s" and b: "bindS m f s = (s', r)"
  obtain s1 x where m: "m s = (s1, x)" by fastforce
  show "case r of Inl e \<Rightarrow> E e s' | Inr x \<Rightarrow> Q x s'"
  proof (cases x)
    case (Inl e)
    then show ?thesis using b m holdsD(2) [OF assms(1) P] by (auto simp: bindS_def)
  next
    case (Inr y)
    then have "f y s1 = (s', r)" "R y s1"
      using b m holdsD(1) [OF assms(1) P] by (auto simp: bindS_def)
    then show ?thesis using assms(2) by (auto simp: holds_def)
  qed
qed

lemma holds_catch:
  assumes "holds P m Q F" and "\<And>e. holds (F e) (h e) Q E"
  shows "holds P (catchS m h) Q E"
  unfolding holds_def
proof (intro allI impI)
  fix s s' r
  assume P: "P s" and b: "catchS m h s = (s', r)"
  obtain s1 x where m: "m s = (s1, x)" by fastforce
  show "case r of Inl e \<Rightarrow> E e s' | Inr x \<Rightarrow> Q x s'"
  proof (cases x)
    case (Inl e)
    then have "h e s1 = (s', r)" "F e s1"
      using b m holdsD(2) [OF assms(1) P] by (auto simp: catchS_def)
    then show ?thesis using assms(2) by (auto simp: holds_def)
  next
    case (Inr y)
    then show ?thesis using b m holdsD(1) [OF assms(1) P] by (auto simp: catchS_def)
  qed
qed

lemma holds_weaken:
  "holds P' m Q' E' \<Longrightarrow> (\<And>s. P s \<Longrightarrow> P' s) \<Longrightarrow> (\<And>x s. Q' x s \<Longrightarrow> Q x s) \<Longrightarrow> (\<And>e s. E' e s \<Longrightarrow> E e s)
     \<Longrightarrow> holds P m Q E"
  by (fastforce simp: holds_def split: sum.splits)

lemma holds_simple:
  "(\<And>s. P s \<Longrightarrow> Q x s) \<Longrightarrow> holds P (returnS x) Q E"
  "(\<And>s. P s \<Longrightarrow> E e s) \<Longrightarrow> holds P (raiseS e) Q' E"
  "(\<And>s y. P s \<Longrightarrow> r = Inr y \<Longrightarrow> Q y s) \<Longrightarrow> (\<And>s e. P s \<Longrightarrow> r = Inl e \<Longrightarrow> E e s) \<Longrightarrow> holds P (liftS r) Q E"
  "(\<And>s. P s \<Longrightarrow> Q2 (f s) s) \<Longrightarrow> holds P (readS f) Q2 E"
  "(\<And>s. P s \<Longrightarrow> Q3 () (g s)) \<Longrightarrow> holds P (modifyS g) Q3 E"
  "(\<And>s. P s \<Longrightarrow> ok \<Longrightarrow> Q3 () s) \<Longrightarrow> (\<And>s. P s \<Longrightarrow> \<not> ok \<Longrightarrow> E e s) \<Longrightarrow> holds P (guardS ok e) Q3 E"
  by (auto simp: holds_def returnS_def raiseS_def liftS_def readS_def modifyS_def guardS_def ensure_def
      split: sum.splits)

lemma holds_try:
  assumes "holds P m (\<lambda>x. Q (Inr x)) (\<lambda>e. Q (Inl e))"
  shows "holds P (tryS m) Q E"
  unfolding holds_def
proof (intro allI impI)
  fix s s' r
  assume P: "P s" and t: "tryS m s = (s', r)"
  obtain r' where "m s = (s', r')" "r = Inr r'" using t by (auto simp: tryS_def split: prod.splits)
  then show "case r of Inl e \<Rightarrow> E e s' | Inr x \<Rightarrow> Q x s'"
    using holdsD [OF assms P] by (cases r') auto
qed

lemma holds_if:
  "(b \<Longrightarrow> holds P m Q E) \<Longrightarrow> (\<not> b \<Longrightarrow> holds P m' Q E) \<Longrightarrow> holds P (if b then m else m') Q E"
  by simp

lemma holds_option:
  "(x = None \<Longrightarrow> holds P m Q E) \<Longrightarrow> (\<And>y. x = Some y \<Longrightarrow> holds P (f y) Q E)
     \<Longrightarrow> holds P (case x of None \<Rightarrow> m | Some y \<Rightarrow> f y) Q E"
  by (cases x) auto

lemma holds_mapS:
  assumes "\<And>x. x \<in> set xs \<Longrightarrow> holds P (f x) (\<lambda>_. P) E"
  shows "holds P (mapS f xs) (\<lambda>_. P) E"
  using assms
  by (induction xs) (auto intro!: holds_bind holds_simple)

end
