(* ===== verification/Runner.thy ===== *)
theory Runner
  imports Action State_Error "HOL-Library.AList"
begin

text \<open>
  \<open>SequentialCampaignRunner\<close> of \<open>campaign/runner.py\<close>: the ports, the policy, the locals of
  \<open>run\<close> and the operations one iteration is made of.  The ports (planner, experiment runner,
  verifier, artifact store, clock, checkpoint store) act on a world \<open>'w\<close> of their own and may
  raise; they are parameters.  Sets are lists read through membership.
\<close>

section \<open>Text helpers\<close>

text \<open>\<open>s[:n]\<close> of a string: its first \<open>n\<close> code points.\<close>

fun py_take :: "nat \<Rightarrow> str \<Rightarrow> str" where
  "py_take n [] = []"
| "py_take n (c # cs) =
     (if is_cont c then c # py_take n cs
      else case n of 0 \<Rightarrow> [] | Suc m \<Rightarrow> c # py_take m cs)"

definition replacement :: str where
  "replacement = [CHR 0xEF, CHR 0xBF, CHR 0xBD]"

text \<open>The second byte a lead byte of a three or four byte sequence admits.\<close>

definition second_ok :: "char \<Rightarrow> char \<Rightarrow> bool" where
  "second_ok c a \<longleftrightarrow>
     is_cont a \<and> (char_in 224 224 c \<longrightarrow> char_in 160 191 a) \<and> (char_in 237 237 c \<longrightarrow> char_in 128 159 a)
     \<and> (char_in 240 240 c \<longrightarrow> char_in 144 191 a) \<and> (char_in 244 244 c \<longrightarrow> char_in 128 143 a)"

text \<open>\<open>decode("utf-8", errors="replace")\<close>: one replacement per maximal ill-formed part.\<close>

function utf8_replace :: "bytes \<Rightarrow> str" where
  "utf8_replace [] = []"
| "utf8_replace (c # cs) =
     (if char_in 0 127 c then c # utf8_replace cs
      else if char_in 194 223 c then
        (case cs of
           a # r \<Rightarrow> if is_cont a then c # a # utf8_replace r else replacement @ utf8_replace cs
         | [] \<Rightarrow> replacement)
      else if char_in 224 239 c then
        (case cs of
           a # r \<Rightarrow>
             (if \<not> second_ok c a then replacement @ utf8_replace cs
              else case r of
                b # r2 \<Rightarrow> if is_cont b then c # a # b # utf8_replace r2 else replacement @ utf8_replace r
              | [] \<Rightarrow> replacement)
         | [] \<Rightarrow> replacement)
      else if char_in 240 244 c then
        (case cs of
           a # r \<Rightarrow>
             (if \<not> second_ok c a then replacement @ utf8_replace cs
              else case r of
                b # r2 \<Rightarrow>
                  (if \<not> is_cont b then replacement @ utf8_replace r
                   else case r2 of
                     d # r3 \<Rightarrow>
                       if is_cont d then c # a # b # d # utf8_replace r3 else replacement @ utf8_replace r2
                   | [] \<Rightarrow> replacement)
              | [] \<Rightarrow> replacement)
         | [] \<Rightarrow> replacement)
      else replacement @ utf8_replace cs)"
  by pat_completeness auto
termination by (relation "measure length") auto

declare utf8_replace.simps [simp del]

section \<open>Requests and results of the ports\<close>

record experiment_request =
  er_campaign_id :: str
  er_action_id :: str
  er_tool_id :: str
  er_program :: str
  er_program_source :: bytes
  er_inputs :: "(str \<times> bytes) list"
  er_arguments :: "str list"
  er_limits :: resource_limits
  er_network :: str

record experiment_result =
  xr_adapter_id :: str
  xr_adapter_version :: str
  xr_adapter_configuration_hash :: str
  xr_environment_hash :: str
  xr_status :: record_status
  xr_result :: bytes
  xr_stdout :: bytes
  xr_stderr :: bytes
  xr_measurement_source :: usage_source
  xr_cpu_milliseconds :: "int option"
  xr_wall_milliseconds :: "int option"
  xr_peak_memory_bytes :: "int option"
  xr_output_bytes :: "int option"
  xr_determinism_unverified :: bool

record verification_request =
  vr_campaign_id :: str
  vr_action_id :: str
  vr_target_hash :: str
  vr_candidate :: "str \<times> bytes"
  vr_tools :: "(str \<times> bytes) list"
  vr_determinism_unverified :: bool

text \<open>The activation evidence of a live planner; \<open>av_value\<close> is its public value.\<close>

record activation =
  av_probe_status :: str
  av_operational_readiness :: str
  av_configuration_hash :: str
  av_pricing_snapshot_hash :: str
  av_probe_request_hash :: "str option"
  av_usage_reported_calls :: int
  av_provider :: str
  av_model_identifier :: str
  av_input_tokens :: int
  av_output_tokens :: int
  av_estimated_cost :: "int option"
  av_provider_request_id :: "str option"
  av_observed_at :: str
  av_value :: json

record 'w checkpoint_port =
  cp_intent :: "'w \<Rightarrow> int \<Rightarrow> str \<Rightarrow> json \<Rightarrow> bool \<Rightarrow> str \<Rightarrow> 'w \<times> jobject res"
  cp_complete :: "'w \<Rightarrow> int \<Rightarrow> jobject \<Rightarrow> str \<Rightarrow> jobject \<Rightarrow> str \<Rightarrow> 'w \<times> unit res"

record 'w ports =
  po_planner :: "'w \<Rightarrow> planner_context \<Rightarrow> 'w \<times> planner_response res"
  po_experiment :: "'w \<Rightarrow> experiment_request \<Rightarrow> 'w \<times> experiment_result res"
  po_verifier :: "'w \<Rightarrow> verification_request \<Rightarrow> 'w \<times> experiment_result res"
  po_put :: "'w \<Rightarrow> bytes \<Rightarrow> str \<Rightarrow> 'w \<times> str res"
  po_get :: "'w \<Rightarrow> str \<Rightarrow> bytes res"
  po_now :: "'w \<Rightarrow> 'w \<times> str"
  po_checkpoints :: "'w checkpoint_port option"
  po_activation :: "activation option"

record runner_policy =
  rp_allowed_tools :: "str list"
  rp_max_actions :: int
  rp_max_tool_runs :: int
  rp_max_program_bytes :: int
  rp_max_artifact_bytes :: int
  rp_max_cpu :: int
  rp_max_wall :: int
  rp_max_memory :: int
  rp_max_output :: int
  rp_max_processes :: int
  rp_max_repair_attempts :: int

definition runner_policy_post_init :: "runner_policy \<Rightarrow> unit res" where
  "runner_policy_post_init p = checks
     (ensure (rp_allowed_tools p \<noteq> [] \<and> (\<forall>t \<in> set (rp_allowed_tools p). valid_identifier t))
        (RunnerError ''allowed_tools must contain valid tool identifiers'')
      # map (\<lambda>(name, v). ensure (1 \<le> v) (RunnerError (name @ '' must be a positive integer'')))
          [(''max_actions'', rp_max_actions p), (''max_tool_runs'', rp_max_tool_runs p),
           (''max_program_bytes'', rp_max_program_bytes p),
           (''max_artifact_bytes'', rp_max_artifact_bytes p),
           (''max_cpu_milliseconds'', rp_max_cpu p), (''max_wall_milliseconds'', rp_max_wall p),
           (''max_memory_bytes'', rp_max_memory p), (''max_output_bytes'', rp_max_output p),
           (''max_process_count'', rp_max_processes p),
           (''max_repair_attempts'', rp_max_repair_attempts p)])"

record frozen_target =
  ft_statement_text :: str
  ft_statement_hash :: str
  ft_artifacts :: "(str \<times> bytes) list"

record runner_setup =
  rs_campaign_id :: str
  rs_target_hash :: str
  rs_configuration_hash :: str
  rs_live_configuration_hash :: str
  rs_pricing_snapshot_hash :: str
  rs_planner_actor_id :: str
  rs_policy :: runner_policy
  rs_frozen :: "frozen_target option"
  rs_paid_planner :: bool

definition target_statement_limit :: nat where
  "target_statement_limit = 65536"

definition raw_hash :: "hexdigest \<Rightarrow> bytes \<Rightarrow> str" where
  "raw_hash H content = ''sha256:'' @ H content"

definition hash_text_guard :: "str \<Rightarrow> str \<Rightarrow> unit res" where
  "hash_text_guard h field =
     ensure (valid_hash h) (RunnerError (field @ '' must be a sha256 content hash''))"

definition frozen_checks :: "hexdigest \<Rightarrow> frozen_target \<Rightarrow> unit res list" where
  "frozen_checks H f =
     [ensure (utf8_valid (ft_statement_text f)) UnicodeEncodeErr,
      ensure (ft_statement_text f \<noteq> [] \<and> length (ft_statement_text f) \<le> target_statement_limit)
        (RunnerError ''frozen target statement must be non-empty and within the 65536-byte context bound''),
      hash_text_guard (ft_statement_hash f) ''frozen target statement hash''] @
     map (\<lambda>(h, content). ensure (raw_hash H content = h)
        (RunnerError ''frozen target artifact bytes do not match their declared hash'')) (ft_artifacts f) @
     [ensure (ft_statement_hash f \<in> fst ` set (ft_artifacts f))
        (RunnerError ''frozen target statement hash is not among the frozen artifacts'')]"

definition sequential_runner_init :: "hexdigest \<Rightarrow> runner_setup \<Rightarrow> unit res" where
  "sequential_runner_init H rs = checks
     ([ensure (valid_identifier (rs_campaign_id rs)) (RunnerError ''campaign_id must be a valid identifier''),
       ensure (valid_identifier (rs_planner_actor_id rs))
         (RunnerError ''planner_actor_id must be a valid identifier''),
       hash_text_guard (rs_target_hash rs) ''target_hash'',
       hash_text_guard (rs_configuration_hash rs) ''configuration_hash'',
       hash_text_guard (rs_live_configuration_hash rs) ''live_configuration_hash'',
       hash_text_guard (rs_pricing_snapshot_hash rs) ''pricing_snapshot_hash'']
      @ (case rs_frozen rs of None \<Rightarrow> [] | Some f \<Rightarrow> frozen_checks H f))"

definition frozen_artifacts :: "runner_setup \<Rightarrow> (str \<times> bytes) list" where
  "frozen_artifacts rs = (case rs_frozen rs of None \<Rightarrow> [] | Some f \<Rightarrow> rev (ft_artifacts f))"

section \<open>The locals of \<open>run\<close>\<close>

text \<open>\<open>rn_source\<close> is \<open>source_hash\<close> of the current iteration; \<open>rn_experiments\<close> records the requests
  the experiment port was called with.\<close>

record 'w runner_state =
  rn_world :: 'w
  rn_actions :: "action_record list"
  rn_calls :: "model_call_record list"
  rn_tools :: "tool_run_record list"
  rn_available :: "str list"
  rn_programs :: "str list"
  rn_candidates :: "str list"
  rn_tool_artifacts :: "str list"
  rn_determinism :: "(str \<times> bool) list"
  rn_private :: "str list"
  rn_suspended :: "str list"
  rn_candidate :: "str option"
  rn_selected_tools :: "str list"
  rn_selected_unverified :: bool
  rn_latest :: "bytes option"
  rn_latest_hash :: "str option"
  rn_latest_unverified :: bool
  rn_report :: "str option"
  rn_terminal :: str
  rn_notes :: "(str \<times> str) list"
  rn_feedback :: "tool_feedback list"
  rn_branch_status :: "(str \<times> str) list"
  rn_pending_read :: "(str \<times> bytes \<times> bool) option"
  rn_rejections :: int
  rn_last_rejection :: "str option"
  rn_source :: "str option"
  rn_experiments :: "experiment_request list"

definition runner_start :: "runner_setup \<Rightarrow> 'w \<Rightarrow> 'w runner_state" where
  "runner_start rs w =
     \<lparr>rn_world = w, rn_actions = [], rn_calls = [], rn_tools = [],
      rn_available = [rs_target_hash rs, rs_configuration_hash rs], rn_programs = [],
      rn_candidates = [], rn_tool_artifacts = [], rn_determinism = [], rn_private = [],
      rn_suspended = [], rn_candidate = None, rn_selected_tools = [],
      rn_selected_unverified = False, rn_latest = None, rn_latest_hash = None,
      rn_latest_unverified = False, rn_report = None, rn_terminal = ''bounds_exhausted'',
      rn_notes = [], rn_feedback = [], rn_branch_status = [], rn_pending_read = None,
      rn_rejections = 0, rn_last_rejection = None, rn_source = None, rn_experiments = []\<rparr>"

type_synonym ('w, 'a) run_prog = "'w runner_state \<Rightarrow> 'w runner_state \<times> 'a res"

section \<open>Calling the ports\<close>

definition call_port :: "('w \<Rightarrow> 'w \<times> 'a res) \<Rightarrow> ('w, 'a) run_prog" where
  "call_port f st = (case f (rn_world st) of (w, r) \<Rightarrow> (st\<lparr>rn_world := w\<rparr>, r))"

definition recorded_now :: "'w ports \<Rightarrow> ('w, str) run_prog" where
  "recorded_now po = call_port (\<lambda>w. case po_now po w of (w', t) \<Rightarrow> (w', Inr t))"

definition store_artifact :: "hexdigest \<Rightarrow> 'w ports \<Rightarrow> bytes \<Rightarrow> str \<Rightarrow> ('w, str) run_prog" where
  "store_artifact H po content media =
     bindS (call_port (\<lambda>w. po_put po w content media)) (\<lambda>observed.
     bindS (guardS (observed = raw_hash H content)
       (RunnerError ''artifact store returned a hash for different bytes'')) (\<lambda>_.
     returnS observed))"

definition get_artifact :: "'w ports \<Rightarrow> str \<Rightarrow> ('w, bytes) run_prog" where
  "get_artifact po h = call_port (\<lambda>w. (w, po_get po w h))"

definition get_artifacts :: "'w ports \<Rightarrow> str list \<Rightarrow> ('w, (str \<times> bytes) list) run_prog" where
  "get_artifacts po hs = mapS (\<lambda>h. bindS (get_artifact po h) (\<lambda>b. returnS (h, b))) hs"

definition checkpoint_done ::
  "'w ports \<Rightarrow> jobject option \<Rightarrow> int \<Rightarrow> str \<Rightarrow> jobject \<Rightarrow> ('w, unit) run_prog" where
  "checkpoint_done po intent sequence status result =
     (case (po_checkpoints po, intent) of
        (Some cp, Some i) \<Rightarrow>
          bindS (recorded_now po) (\<lambda>now.
          call_port (\<lambda>w. cp_complete cp w sequence i status result now))
      | _ \<Rightarrow> returnS ())"

end
