(* ===== verification/Runner_Run.thy ===== *)
theory Runner_Run
  imports Runner
begin

text \<open>
  One iteration of \<open>SequentialCampaignRunner.run\<close> and the loop: the context, the planner call,
  the admission and the performance of an action, the ledger records, the rejection of an
  action, and the activation of a live planner.  A set of resource fields is read in the order
  of \<open>resource_fields\<close>.
\<close>

section \<open>Context and request\<close>

definition feedback_window :: nat where
  "feedback_window = 8"

definition feedback_excerpt_limit :: nat where
  "feedback_excerpt_limit = 4096"

definition read_artifact_echo_limit :: nat where
  "read_artifact_echo_limit = 65536"

definition last_n :: "nat \<Rightarrow> 'a list \<Rightarrow> 'a list" where
  "last_n n xs = drop (length xs - n) xs"

definition sorted_set :: "str list \<Rightarrow> str list" where
  "sorted_set xs = sort (remdups xs)"

definition runner_context :: "runner_setup \<Rightarrow> int \<Rightarrow> 'w runner_state \<Rightarrow> planner_context" where
  "runner_context rs sequence st =
     \<lparr>pc_campaign_id = rs_campaign_id rs, pc_target_hash = rs_target_hash rs,
      pc_configuration_hash = rs_configuration_hash rs, pc_sequence = sequence,
      pc_previous_action_id =
        (if rn_actions st = [] then None else Some (ac_action_id (last (rn_actions st)))),
      pc_available = sorted_set (rn_available st), pc_programs = sorted_set (rn_programs st),
      pc_candidate = rn_candidate st, pc_selected_tools = rn_selected_tools st,
      pc_latest_hash = rn_latest_hash st, pc_latest = rn_latest st,
      pc_actions_remaining = rp_max_actions (rs_policy rs) - sequence + 1,
      pc_tool_runs_remaining = rp_max_tool_runs (rs_policy rs) - int (length (rn_tools st)),
      pc_target_statement = map_option ft_statement_text (rs_frozen rs),
      pc_target_statement_hash = map_option ft_statement_hash (rs_frozen rs),
      pc_frozen = sorted_set (map fst (frozen_artifacts rs)), pc_notes = rn_notes st,
      pc_feedback = last_n feedback_window (rn_feedback st),
      pc_suspended = sorted_set (rn_suspended st),
      pc_branch_status = sort_key fst (rn_branch_status st),
      pc_read_hash = map_option fst (rn_pending_read st),
      pc_read_bytes = map_option (\<lambda>p. fst (snd p)) (rn_pending_read st),
      pc_read_truncated = (case rn_pending_read st of None \<Rightarrow> False | Some p \<Rightarrow> snd (snd p)),
      pc_last_rejection = rn_last_rejection st,
      pc_repairs = rp_max_repair_attempts (rs_policy rs) - rn_rejections st,
      pc_latest_unverified = rn_latest_unverified st,
      pc_selected_unverified = rn_selected_unverified st\<rparr>"

definition feedback_value :: "tool_feedback \<Rightarrow> json" where
  "feedback_value f = JObj
     [(''kind'', JStr (tf_kind f)), (''action_id'', JStr (tf_action_id f)),
      (''branch_id'', JStr (tf_branch_id f)), (''status'', JStr (tf_status f)),
      (''result_hash'', JStr (tf_result_hash f)), (''result_excerpt'', JStr (tf_result_excerpt f)),
      (''stderr_excerpt'', jstr_opt (tf_stderr_excerpt f)),
      (''untrusted_for_warrant'', JBool (tf_untrusted_for_warrant f))]"

definition pair_value :: "str \<times> str \<Rightarrow> json" where
  "pair_value p = JArr [JStr (fst p), JStr (snd p)]"

definition planner_request_payload :: "planner_context \<Rightarrow> jobject" where
  "planner_request_payload c =
     [(''campaign_id'', JStr (pc_campaign_id c)),
      (''target_hash'', JStr (pc_target_hash c)),
      (''configuration_hash'', JStr (pc_configuration_hash c)),
      (''sequence'', JInt (pc_sequence c)),
      (''previous_action_id'', jstr_opt (pc_previous_action_id c)),
      (''available_artifact_hashes'', jstrs (pc_available c)),
      (''recorded_program_hashes'', jstrs (pc_programs c)),
      (''selected_candidate_hash'', jstr_opt (pc_candidate c)),
      (''selected_tool_artifact_hashes'', jstrs (pc_selected_tools c)),
      (''latest_tool_result_hash'', jstr_opt (pc_latest_hash c)),
      (''actions_remaining'', JInt (pc_actions_remaining c)),
      (''tool_runs_remaining'', JInt (pc_tool_runs_remaining c)),
      (''target_statement_hash'', jstr_opt (pc_target_statement_hash c)),
      (''frozen_artifact_hashes'', jstrs (pc_frozen c)),
      (''notes'', JArr (map pair_value (pc_notes c))),
      (''tool_feedback'', JArr (map feedback_value (pc_feedback c))),
      (''suspended_branch_ids'', jstrs (pc_suspended c)),
      (''branch_last_status'', JArr (map pair_value (pc_branch_status c))),
      (''read_artifact_hash'', jstr_opt (pc_read_hash c)),
      (''read_artifact_truncated'', JBool (pc_read_truncated c)),
      (''last_rejection'', jstr_opt (pc_last_rejection c)),
      (''repair_attempts_remaining'', JInt (pc_repairs c))]
     @ (if pc_latest_unverified c then [(''latest_tool_determinism_unverified'', JBool True)] else [])
     @ (if pc_selected_unverified c then [(''selected_tool_determinism_unverified'', JBool True)] else [])"

text \<open>\<open>canonical_hash(value)\<close>, which raises on a string that cannot be encoded.\<close>

definition checked_hash :: "hexdigest \<Rightarrow> json \<Rightarrow> str res" where
  "checked_hash H v = (if utf8_strings v then Inr (canonical_hash H v) else Inl UnicodeEncodeErr)"

definition planner_intent ::
  "runner_setup \<Rightarrow> 'w ports \<Rightarrow> int \<Rightarrow> planner_context \<Rightarrow> ('w, jobject option) run_prog" where
  "planner_intent rs po sequence context =
     (case po_checkpoints po of
        None \<Rightarrow> returnS None
      | Some cp \<Rightarrow>
          (let payload = JObj (planner_request_payload context) in
           bindS (guardS (utf8_strings payload) UnicodeEncodeErr) (\<lambda>_.
           bindS (recorded_now po) (\<lambda>now.
           bindS (call_port (\<lambda>w. cp_intent cp w sequence (action_type_value Plan) (jsort payload)
                    (rs_paid_planner rs) now)) (\<lambda>i.
           returnS (Some i))))))"

section \<open>Ledger records\<close>

definition sequence_id :: "str \<Rightarrow> int \<Rightarrow> str" where
  "sequence_id start sequence = start @ int_str sequence"

text \<open>\<open>Record(...).finalized()\<close>.\<close>

definition build_action :: "hexdigest \<Rightarrow> action_record \<Rightarrow> action_record res" where
  "build_action H a =
     bindE (action_post_init a) (\<lambda>_.
     if utf8_strings (JObj (action_value a)) then Inr (action_finalized H a) else Inl UnicodeEncodeErr)"

definition build_call :: "hexdigest \<Rightarrow> model_call_record \<Rightarrow> model_call_record res" where
  "build_call H m =
     bindE (model_call_post_init m) (\<lambda>_.
     if utf8_strings (JObj (model_call_value m)) then Inr (model_call_finalized H m)
     else Inl UnicodeEncodeErr)"

definition build_tool :: "hexdigest \<Rightarrow> tool_run_record \<Rightarrow> tool_run_record res" where
  "build_tool H t =
     bindE (tool_run_post_init t) (\<lambda>_.
     if utf8_strings (JObj (tool_run_value t)) then Inr (tool_run_finalized H t)
     else Inl UnicodeEncodeErr)"

definition parent_ids :: "'w runner_state \<Rightarrow> str list" where
  "parent_ids st = (if rn_actions st = [] then [] else [ac_action_id (last (rn_actions st))])"

definition prior_outputs :: "runner_setup \<Rightarrow> 'w runner_state \<Rightarrow> str list" where
  "prior_outputs rs st =
     (if rn_actions st = [] then [rs_target_hash rs, rs_configuration_hash rs]
      else ac_output_artifact_hashes (last (rn_actions st)))"

record action_draft =
  ad_branch :: str
  ad_type :: action_type
  ad_actor_type :: actor_type
  ad_actor :: str
  ad_inputs :: "str list"
  ad_sources :: "str list"
  ad_outputs :: "str list"
  ad_status :: record_status
  ad_rationale :: str

definition append_action ::
  "hexdigest \<Rightarrow> runner_setup \<Rightarrow> 'w ports \<Rightarrow> int \<Rightarrow> action_draft \<Rightarrow> ('w, action_record) run_prog" where
  "append_action H rs po sequence d =
     bindS (readS parent_ids) (\<lambda>parents.
     bindS (recorded_now po) (\<lambda>now.
     bindS (liftS (build_action H
        \<lparr>ac_action_id = sequence_id ''action.'' sequence, ac_campaign_id = rs_campaign_id rs,
         ac_sequence = sequence, ac_branch_id = ad_branch d, ac_action_type = ad_type d,
         ac_actor_type = ad_actor_type d, ac_actor_id = ad_actor d, ac_parent_action_ids = parents,
         ac_input_artifact_hashes = ad_inputs d, ac_source_record_ids = ad_sources d,
         ac_output_artifact_hashes = ad_outputs d, ac_status = ad_status d,
         ac_declared_rationale = ad_rationale d, ac_recorded_at = now,
         ac_schema_version = schema_version_campaign, ac_record_type = ''campaign_action'',
         ac_content_hash = [], ac_operational_hash = []\<rparr>)) (\<lambda>record.
     bindS (modifyS (\<lambda>st. st\<lparr>rn_actions := rn_actions st @ [record]\<rparr>)) (\<lambda>_.
     returnS record))))"

definition append_call ::
  "hexdigest \<Rightarrow> runner_setup \<Rightarrow> 'w ports \<Rightarrow> int \<Rightarrow> planner_context \<Rightarrow> planner_response \<Rightarrow> str
     \<Rightarrow> ('w, unit) run_prog" where
  "append_call H rs po sequence context response result_hash =
     bindS (liftS (checked_hash H (JObj (planner_request_payload context)))) (\<lambda>request_hash.
     bindS (recorded_now po) (\<lambda>now.
     bindS (liftS (build_call H
        \<lparr>mc_call_id = sequence_id ''call.'' sequence, mc_campaign_id = rs_campaign_id rs,
         mc_action_id = sequence_id ''action.'' sequence, mc_purpose = ''campaign_planner'',
         mc_provider = pr_provider response, mc_model_identifier = pr_model response,
         mc_live_configuration_hash = rs_live_configuration_hash rs,
         mc_pricing_snapshot_hash = rs_pricing_snapshot_hash rs, mc_request_hash = request_hash,
         mc_result_hash = result_hash, mc_status = pr_status response,
         mc_usage_source = pr_usage_source response, mc_input_tokens = pr_input_tokens response,
         mc_output_tokens = pr_output_tokens response,
         mc_estimated_cost_microusd = pr_cost response,
         mc_provider_request_id = pr_request_id response, mc_recorded_at = now,
         mc_schema_version = schema_version_campaign, mc_record_type = ''model_call'',
         mc_content_hash = [], mc_operational_hash = []\<rparr>)) (\<lambda>call.
     modifyS (\<lambda>st. st\<lparr>rn_calls := rn_calls st @ [call]\<rparr>))))"

definition tool_hashes :: "tool_run_record \<Rightarrow> str list" where
  "tool_hashes t = [tr_result_hash t, tr_stdout_hash t, tr_stderr_hash t]"

definition record_tool ::
  "hexdigest \<Rightarrow> runner_setup \<Rightarrow> 'w ports \<Rightarrow> int \<Rightarrow> experiment_result \<Rightarrow> json
     \<Rightarrow> ('w, tool_run_record) run_prog" where
  "record_tool H rs po sequence result request =
     bindS (liftS (checked_hash H request)) (\<lambda>request_hash.
     bindS (guardS (\<forall>b \<in> {xr_result result, xr_stdout result, xr_stderr result}.
                      int (length b) \<le> rp_max_artifact_bytes (rs_policy rs))
       (RunnerError ''tool artifact exceeds campaign byte bound'')) (\<lambda>_.
     bindS (readS (\<lambda>st. length (rn_tools st) + 1)) (\<lambda>index.
     bindS (store_artifact H po (xr_result result) ''application/octet-stream'') (\<lambda>result_hash.
     bindS (store_artifact H po (xr_stdout result) ''text/plain'') (\<lambda>stdout_hash.
     bindS (store_artifact H po (xr_stderr result) ''text/plain'') (\<lambda>stderr_hash.
     bindS (recorded_now po) (\<lambda>now.
     bindS (liftS (build_tool H
        \<lparr>tr_tool_run_id = ''tool.'' @ nat_str index, tr_campaign_id = rs_campaign_id rs,
         tr_action_id = sequence_id ''action.'' sequence, tr_adapter_id = xr_adapter_id result,
         tr_adapter_version = xr_adapter_version result,
         tr_adapter_configuration_hash = xr_adapter_configuration_hash result,
         tr_request_hash = request_hash, tr_result_hash = result_hash, tr_stdout_hash = stdout_hash,
         tr_stderr_hash = stderr_hash, tr_environment_hash = xr_environment_hash result,
         tr_status = xr_status result, tr_measurement_source = xr_measurement_source result,
         tr_cpu_milliseconds = xr_cpu_milliseconds result,
         tr_wall_milliseconds = xr_wall_milliseconds result,
         tr_peak_memory_bytes = xr_peak_memory_bytes result, tr_output_bytes = xr_output_bytes result,
         tr_recorded_at = now, tr_schema_version = schema_version_campaign,
         tr_record_type = ''tool_run'', tr_content_hash = [], tr_operational_hash = []\<rparr>)) (\<lambda>tool.
     bindS (modifyS (\<lambda>st. st\<lparr>rn_tools := rn_tools st @ [tool]\<rparr>)) (\<lambda>_.
     returnS tool)))))))))"

section \<open>Admission\<close>

definition model_source :: "campaign_action \<Rightarrow> bytes \<Rightarrow> bytes \<times> str" where
  "model_source a raw =
     (case ca_program_source a of
        Some s \<Rightarrow> (s, ''text/x-python'')
      | None \<Rightarrow>
          (case ca_artifact_text a of
             Some s \<Rightarrow> (s, ''text/plain'')
           | None \<Rightarrow>
               (case ca_report_text a of
                  Some s \<Rightarrow> (s, ''text/plain'')
                | None \<Rightarrow>
                    (case ca_note_text a of
                       Some s \<Rightarrow> (s, ''text/plain'')
                     | None \<Rightarrow> (raw, ''application/vnd.adaivy.campaign-action+json'')))))"

fun opt_list :: "'a option \<Rightarrow> 'a list" where
  "opt_list None = []"
| "opt_list (Some x) = [x]"

definition nonempty :: "str list \<Rightarrow> str list" where
  "nonempty hs = filter (\<lambda>h. h \<noteq> []) hs"

definition action_inputs :: "runner_setup \<Rightarrow> campaign_action \<Rightarrow> 'w runner_state \<Rightarrow> str list res" where
  "action_inputs rs a st =
     (if ca_action_type a = RunProgram then
        (case ca_tool_request a of
           None \<Rightarrow> Inl AssertionErr
         | Some t \<Rightarrow> Inr (tq_program t # tq_inputs t))
      else if ca_action_type a = InspectResult then
        Inr (nonempty (opt_list (ca_candidate a) @ ca_tools a))
      else if ca_action_type a = Verify then
        Inr (nonempty (opt_list (rn_candidate st) @ rn_selected_tools st))
      else if ca_action_type a = ReadArtifact then
        (case ca_read_hash a of
           None \<Rightarrow> Inl AssertionErr
         | Some h \<Rightarrow> Inr (if h \<in> set (rn_available st) then [h] else [rs_target_hash rs]))
      else if rn_actions st = [] then Inr [rs_target_hash rs, rs_configuration_hash rs]
      else Inr (filter (\<lambda>h. h \<in> set (rn_available st))
                  (ac_output_artifact_hashes (last (rn_actions st)))))"

definition admit_action ::
  "hexdigest \<Rightarrow> runner_setup \<Rightarrow> 'w ports \<Rightarrow> int \<Rightarrow> planner_context \<Rightarrow> planner_response
     \<Rightarrow> ('w, campaign_action \<times> str \<times> str list) run_prog" where
  "admit_action H rs po sequence context response =
     bindS (liftS (parse_campaign_action (pr_action_json response))) (\<lambda>a.
     bindS (readS id) (\<lambda>st0.
     bindS (guardS (ca_branch_id a \<notin> set (rn_suspended st0))
       (RunnerError ''planner selected a suspended branch'')) (\<lambda>_.
     case model_source a (pr_action_json response) of (source, media) \<Rightarrow>
     bindS (guardS (int (length source) \<le> rp_max_artifact_bytes (rs_policy rs))
       (RunnerError ''model artifact exceeds campaign byte bound'')) (\<lambda>_.
     bindS (store_artifact H po source media) (\<lambda>h.
     bindS (modifyS (\<lambda>st. st\<lparr>rn_source := Some h\<rparr>)) (\<lambda>_.
     bindS (append_call H rs po sequence context response h) (\<lambda>_.
     bindS (readS id) (\<lambda>st.
     bindS (liftS (action_inputs rs a st)) (\<lambda>inputs.
     bindS (guardS (\<forall>t. ca_action_type a = RunProgram \<longrightarrow> ca_tool_request a = Some t
                      \<longrightarrow> tq_program t \<in> set (rn_programs st))
       (RunnerError ''only a prior recorded program may run'')) (\<lambda>_.
     bindS (guardS (set inputs \<subseteq> insert h (set (rn_available st)))
       (RunnerError ''planner selected an artifact outside campaign provenance'')) (\<lambda>_.
     returnS (a, h, inputs))))))))))))"

section \<open>Performing an action\<close>

text \<open>The first bytes of a result, as text.\<close>

definition excerpt :: "bytes \<Rightarrow> str" where
  "excerpt content = utf8_replace (take feedback_excerpt_limit content)"

definition limit_checks :: "runner_policy \<Rightarrow> resource_limits \<Rightarrow> unit res list" where
  "limit_checks p l =
     map (\<lambda>(name, requested, maximum). ensure (requested \<le> maximum)
            (RunnerError (''requested '' @ name @ '' exceeds campaign bound'')))
       [(''cpu_milliseconds'', rl_cpu l, rp_max_cpu p),
        (''wall_milliseconds'', rl_wall l, rp_max_wall p),
        (''memory_bytes'', rl_memory l, rp_max_memory p),
        (''output_bytes'', rl_output l, rp_max_output p),
        (''process_count'', rl_processes l, rp_max_processes p)]"

definition admit_experiment ::
  "runner_setup \<Rightarrow> 'w ports \<Rightarrow> int \<Rightarrow> campaign_action \<Rightarrow> ('w, experiment_request) run_prog" where
  "admit_experiment rs po sequence a =
     (case ca_tool_request a of
        None \<Rightarrow> raiseS AssertionErr
      | Some t \<Rightarrow>
          bindS (readS id) (\<lambda>st.
          bindS (liftS (checks
            ([ensure (tq_tool_id t \<in> set (rp_allowed_tools (rs_policy rs)))
                (RunnerError ''unknown campaign tool''),
              ensure (tq_program t \<in> set (rn_programs st))
                (RunnerError ''only a prior recorded program may run''),
              ensure (set (tq_inputs t) \<subseteq> set (rn_available st))
                (RunnerError ''tool input is outside campaign provenance''),
              ensure (int (length (rn_tools st)) < rp_max_tool_runs (rs_policy rs))
                (RunnerError ''campaign tool-run bound exhausted'')]
             @ limit_checks (rs_policy rs) (tq_limits t)))) (\<lambda>_.
          bindS (get_artifact po (tq_program t)) (\<lambda>source.
          bindS (get_artifacts po (tq_inputs t)) (\<lambda>inputs.
          returnS \<lparr>er_campaign_id = rs_campaign_id rs,
                   er_action_id = sequence_id ''action.'' sequence, er_tool_id = tq_tool_id t,
                   er_program = tq_program t, er_program_source = source, er_inputs = inputs,
                   er_arguments = tq_arguments t, er_limits = tq_limits t,
                   er_network = tq_network t\<rparr>)))))"

definition limits_value :: "resource_limits \<Rightarrow> json" where
  "limits_value l = JObj
     [(''cpu_milliseconds'', JInt (rl_cpu l)), (''wall_milliseconds'', JInt (rl_wall l)),
      (''memory_bytes'', JInt (rl_memory l)), (''output_bytes'', JInt (rl_output l)),
      (''process_count'', JInt (rl_processes l))]"

definition experiment_value :: "experiment_request \<Rightarrow> json" where
  "experiment_value r = JObj
     [(''campaign_id'', JStr (er_campaign_id r)), (''action_id'', JStr (er_action_id r)),
      (''tool_id'', JStr (er_tool_id r)), (''program_artifact_hash'', JStr (er_program r)),
      (''input_artifact_hashes'', jstrs (map fst (er_inputs r))),
      (''arguments'', jstrs (er_arguments r)), (''resource_limits'', limits_value (er_limits r)),
      (''network'', JStr (er_network r))]"

definition verification_value :: "verification_request \<Rightarrow> json" where
  "verification_value r = JObj
     ([(''campaign_id'', JStr (vr_campaign_id r)), (''action_id'', JStr (vr_action_id r)),
       (''target_hash'', JStr (vr_target_hash r)),
       (''candidate_artifact_hash'', JStr (fst (vr_candidate r))),
       (''tool_artifact_hashes'', jstrs (map fst (vr_tools r)))]
      @ (if vr_determinism_unverified r then [(''determinism_unverified'', JBool True)] else []))"

text \<open>What performing an action adds to its record: source records, outputs and a status.\<close>

type_synonym performed = "str list \<times> str list \<times> record_status"

definition tool_performed :: "tool_run_record \<Rightarrow> experiment_result \<Rightarrow> performed" where
  "tool_performed t r = ([tr_tool_run_id t], tool_hashes t, xr_status r)"

definition tool_feedback_of ::
  "str \<Rightarrow> int \<Rightarrow> campaign_action \<Rightarrow> tool_run_record \<Rightarrow> experiment_result \<Rightarrow> str option
     \<Rightarrow> tool_feedback" where
  "tool_feedback_of kind sequence a t r err =
     \<lparr>tf_kind = kind, tf_action_id = sequence_id ''action.'' sequence,
      tf_branch_id = ca_branch_id a, tf_status = status_value (xr_status r),
      tf_result_hash = tr_result_hash t, tf_result_excerpt = excerpt (xr_result r),
      tf_stderr_excerpt = err, tf_untrusted_for_warrant = True\<rparr>"

definition perform_run ::
  "hexdigest \<Rightarrow> runner_setup \<Rightarrow> 'w ports \<Rightarrow> int \<Rightarrow> campaign_action \<Rightarrow> ('w, performed) run_prog" where
  "perform_run H rs po sequence a =
     bindS (admit_experiment rs po sequence a) (\<lambda>request.
     bindS (modifyS (\<lambda>st. st\<lparr>rn_experiments := rn_experiments st @ [request]\<rparr>)) (\<lambda>_.
     bindS (call_port (\<lambda>w. po_experiment po w request)) (\<lambda>r.
     bindS (record_tool H rs po sequence r (experiment_value request)) (\<lambda>t.
     bindS (modifyS (\<lambda>st. st\<lparr>
         rn_available := rn_available st @ tool_hashes t,
         rn_tool_artifacts := rn_tool_artifacts st @ tool_hashes t,
         rn_determinism := map (\<lambda>h. (h, xr_determinism_unverified r)) (tool_hashes t) @ rn_determinism st,
         rn_latest_hash := Some (tr_result_hash t), rn_latest := Some (xr_result r),
         rn_latest_unverified := xr_determinism_unverified r,
         rn_feedback := rn_feedback st @
           [tool_feedback_of ''experiment'' sequence a t r
              (if xr_stderr r = [] then None else Some (excerpt (xr_stderr r)))]\<rparr>)) (\<lambda>_.
     returnS (tool_performed t r))))))"

definition perform_inspect :: "campaign_action \<Rightarrow> str \<Rightarrow> ('w, performed) run_prog" where
  "perform_inspect a h =
     bindS (readS id) (\<lambda>st.
     bindS (guardS (ca_tools a = [] \<or> set (ca_tools a) \<subseteq> set (rn_tool_artifacts st))
       (RunnerError ''inspection selected a non-tool artifact'')) (\<lambda>_.
     case (if ca_artifact_text a \<noteq> None then Some h else ca_candidate a) of
       None \<Rightarrow> raiseS AssertionErr
     | Some chosen \<Rightarrow>
         bindS (guardS (chosen = h \<or> chosen \<in> set (rn_candidates st))
           (RunnerError ''inspection selected an unrecorded candidate'')) (\<lambda>_.
         bindS (modifyS (\<lambda>s. s\<lparr>
             rn_candidates := chosen # rn_candidates s, rn_candidate := Some chosen,
             rn_selected_tools := ca_tools a,
             rn_selected_unverified :=
               (\<exists>t \<in> set (ca_tools a). map_of (rn_determinism s) t = Some True)\<rparr>)) (\<lambda>_.
         returnS ([], [], Completed)))))"

definition admit_verification ::
  "runner_setup \<Rightarrow> 'w ports \<Rightarrow> int \<Rightarrow> campaign_action \<Rightarrow> ('w, verification_request) run_prog" where
  "admit_verification rs po sequence a =
     bindS (readS id) (\<lambda>st.
     bindS (liftS (checks
       [ensure (int (length (rn_tools st)) < rp_max_tool_runs (rs_policy rs))
          (RunnerError ''campaign tool-run bound exhausted''),
        ensure (ca_candidate a = rn_candidate st)
          (RunnerError ''verifier candidate differs from the inspected selection''),
        ensure (ca_tools a = rn_selected_tools st)
          (RunnerError ''verifier tool artifacts differ from the inspected selection'')])) (\<lambda>_.
     case rn_candidate st of
       None \<Rightarrow> raiseS (RunnerError ''no recorded candidate is selected for verification'')
     | Some c \<Rightarrow>
         bindS (guardS (c \<in> set (rn_candidates st))
           (RunnerError ''no recorded candidate is selected for verification'')) (\<lambda>_.
         bindS (get_artifact po c) (\<lambda>content.
         bindS (get_artifacts po (rn_selected_tools st)) (\<lambda>tools.
         returnS \<lparr>vr_campaign_id = rs_campaign_id rs,
                  vr_action_id = sequence_id ''action.'' sequence,
                  vr_target_hash = rs_target_hash rs, vr_candidate = (c, content),
                  vr_tools = tools, vr_determinism_unverified = rn_selected_unverified st\<rparr>)))))"

definition perform_verify ::
  "hexdigest \<Rightarrow> runner_setup \<Rightarrow> 'w ports \<Rightarrow> int \<Rightarrow> campaign_action \<Rightarrow> ('w, performed) run_prog" where
  "perform_verify H rs po sequence a =
     bindS (admit_verification rs po sequence a) (\<lambda>request.
     bindS (call_port (\<lambda>w. po_verifier po w request)) (\<lambda>r.
     bindS (record_tool H rs po sequence r (verification_value request)) (\<lambda>t.
     bindS (modifyS (\<lambda>st. st\<lparr>
         rn_private := rn_private st @ tool_hashes t,
         rn_feedback := rn_feedback st @ [tool_feedback_of ''verification'' sequence a t r None]\<rparr>)) (\<lambda>_.
     returnS (tool_performed t r)))))"

definition perform_read ::
  "runner_setup \<Rightarrow> 'w ports \<Rightarrow> campaign_action \<Rightarrow> ('w, performed) run_prog" where
  "perform_read rs po a =
     (case ca_read_hash a of
        None \<Rightarrow> raiseS AssertionErr
      | Some h \<Rightarrow>
          bindS (readS id) (\<lambda>st.
          bindS (case map_of (frozen_artifacts rs) h of
                   Some content \<Rightarrow> returnS content
                 | None \<Rightarrow>
                     (if h \<in> set (rn_available st) then get_artifact po h
                      else raiseS (RunnerError ''read_artifact names an artifact outside campaign provenance'')))
            (\<lambda>content.
          bindS (modifyS (\<lambda>s. s\<lparr>rn_pending_read :=
                   Some (h, take read_artifact_echo_limit content,
                         read_artifact_echo_limit < length content)\<rparr>)) (\<lambda>_.
          returnS ([], [], Completed)))))"

definition plain_performed :: "('w runner_state \<Rightarrow> 'w runner_state) \<Rightarrow> ('w, performed) run_prog" where
  "plain_performed f = bindS (modifyS f) (\<lambda>_. returnS ([], [], Completed))"

definition perform_write ::
  "runner_setup \<Rightarrow> campaign_action \<Rightarrow> str \<Rightarrow> ('w, performed) run_prog" where
  "perform_write rs a h =
     (case ca_program_source a of
        None \<Rightarrow> raiseS AssertionErr
      | Some s \<Rightarrow>
          bindS (guardS (int (length s) \<le> rp_max_program_bytes (rs_policy rs))
            (RunnerError ''program exceeds campaign byte bound'')) (\<lambda>_.
          plain_performed (\<lambda>st. st\<lparr>rn_programs := h # rn_programs st\<rparr>)))"

definition perform_note :: "campaign_action \<Rightarrow> ('w, performed) run_prog" where
  "perform_note a =
     (case ca_note_text a of
        None \<Rightarrow> raiseS AssertionErr
      | Some n \<Rightarrow> plain_performed (\<lambda>st. st\<lparr>rn_notes := rn_notes st @ [(ca_branch_id a, n)]\<rparr>))"

definition perform_planned ::
  "hexdigest \<Rightarrow> runner_setup \<Rightarrow> 'w ports \<Rightarrow> int \<Rightarrow> campaign_action \<Rightarrow> str
     \<Rightarrow> ('w, performed) run_prog" where
  "perform_planned H rs po sequence a h =
     (case ca_action_type a of
        WriteProgram \<Rightarrow> perform_write rs a h
      | Derive \<Rightarrow> plain_performed (\<lambda>st. st\<lparr>rn_candidates := h # rn_candidates st\<rparr>)
      | Falsify \<Rightarrow> plain_performed (\<lambda>st. st\<lparr>rn_candidates := h # rn_candidates st\<rparr>)
      | RunProgram \<Rightarrow> perform_run H rs po sequence a
      | InspectResult \<Rightarrow> perform_inspect a h
      | Verify \<Rightarrow> perform_verify H rs po sequence a
      | ReadArtifact \<Rightarrow> perform_read rs po a
      | Note \<Rightarrow> perform_note a
      | SuspendBranch \<Rightarrow> plain_performed (\<lambda>st. st\<lparr>rn_suspended := ca_branch_id a # rn_suspended st\<rparr>)
      | AskUser \<Rightarrow> plain_performed (\<lambda>st. st\<lparr>rn_terminal := ''awaiting_user''\<rparr>)
      | Report \<Rightarrow> plain_performed (\<lambda>st. st\<lparr>rn_report := Some h, rn_terminal := ''reported''\<rparr>)
      | _ \<Rightarrow> returnS ([], [], Completed))"

section \<open>Ending an iteration\<close>

text \<open>The new record of an admitted action; the result says whether the loop is left.\<close>

definition finish_record ::
  "hexdigest \<Rightarrow> runner_setup \<Rightarrow> 'w ports \<Rightarrow> int \<Rightarrow> jobject option \<Rightarrow> campaign_action \<Rightarrow> str
     \<Rightarrow> str list \<Rightarrow> performed \<Rightarrow> ('w, bool) run_prog" where
  "finish_record H rs po sequence intent a h inputs done =
     (case done of (sources, outputs, status) \<Rightarrow>
     bindS (append_action H rs po sequence
       \<lparr>ad_branch = ca_branch_id a, ad_type = ca_action_type a, ad_actor_type = ModelActor,
        ad_actor = rs_planner_actor_id rs, ad_inputs = dedup inputs,
        ad_sources = sequence_id ''call.'' sequence # sources, ad_outputs = dedup (h # outputs),
        ad_status = status, ad_rationale = ca_rationale a\<rparr>) (\<lambda>record.
     bindS (modifyS (\<lambda>st. st\<lparr>
         rn_branch_status :=
           AList.update (ac_branch_id record) (status_value (ac_status record)) (rn_branch_status st),
         rn_available := rn_available st @
           filter (\<lambda>o'. o' \<notin> set (rn_private st)) (ac_output_artifact_hashes record),
         rn_rejections := 0, rn_last_rejection := None\<rparr>)) (\<lambda>_.
     bindS (checkpoint_done po intent sequence (status_value (ac_status record))
       [(''action_id'', JStr (sequence_id ''action.'' sequence)),
        (''action_type'', JStr (action_type_value (ca_action_type a))),
        (''status'', JStr (status_value (ac_status record)))]) (\<lambda>_.
     returnS (ca_action_type a = AskUser \<or> ca_action_type a = Report)))))"

definition system_draft ::
  "actor_type \<Rightarrow> str \<Rightarrow> str list \<Rightarrow> str list \<Rightarrow> str list \<Rightarrow> record_status \<Rightarrow> str \<Rightarrow> action_draft" where
  "system_draft actor name inputs sources outputs status rationale =
     \<lparr>ad_branch = ''branch.system'', ad_type = Plan, ad_actor_type = actor, ad_actor = name,
      ad_inputs = inputs, ad_sources = sources, ad_outputs = outputs, ad_status = status,
      ad_rationale = rationale\<rparr>"

definition quoted :: "str \<Rightarrow> str" where
  "quoted s = CHR 0x22 # s @ [CHR 0x22]"

definition unavailable_result :: bytes where
  "unavailable_result = ''{'' @ quoted ''planner_result'' @ '':'' @ quoted ''unavailable'' @ ''}''"

definition result_or_unavailable :: "planner_response \<Rightarrow> bytes" where
  "result_or_unavailable response =
     (if pr_action_json response = [] then unavailable_result else pr_action_json response)"

definition planner_media :: str where
  "planner_media = ''application/vnd.adaivy.campaign-planner-result+json''"

text \<open>A planner call that did not complete ends the campaign.\<close>

definition planner_failed ::
  "hexdigest \<Rightarrow> runner_setup \<Rightarrow> 'w ports \<Rightarrow> int \<Rightarrow> jobject option \<Rightarrow> planner_context
     \<Rightarrow> planner_response \<Rightarrow> ('w, bool) run_prog" where
  "planner_failed H rs po sequence intent context response =
     (let source = result_or_unavailable response; status = pr_status response;
          terminal = ''planner_'' @ status_value status in
      bindS (guardS (int (length source) \<le> rp_max_artifact_bytes (rs_policy rs))
        (RunnerError ''failed planner result exceeds campaign byte bound'')) (\<lambda>_.
      bindS (store_artifact H po source planner_media) (\<lambda>h.
      bindS (modifyS (\<lambda>st. st\<lparr>rn_source := Some h\<rparr>)) (\<lambda>_.
      bindS (append_call H rs po sequence context response h) (\<lambda>_.
      bindS (readS (prior_outputs rs)) (\<lambda>inputs.
      bindS (append_action H rs po sequence (system_draft ModelActor (rs_planner_actor_id rs)
        inputs [sequence_id ''call.'' sequence] [h] status
        ''Planner call ended before an executable action was admitted.'')) (\<lambda>_.
      bindS (modifyS (\<lambda>st. st\<lparr>rn_terminal := terminal\<rparr>)) (\<lambda>_.
      bindS (checkpoint_done po intent sequence (status_value status)
        [(''terminal_reason'', JStr terminal),
         (''action_id'', JStr (sequence_id ''action.'' sequence))]) (\<lambda>_.
      returnS True)))))))))"

text \<open>The planner port refused: nothing was stored, the action names no source.\<close>

definition planner_refused ::
  "hexdigest \<Rightarrow> runner_setup \<Rightarrow> 'w ports \<Rightarrow> int \<Rightarrow> jobject option \<Rightarrow> str \<Rightarrow> str \<Rightarrow> ('w, bool) run_prog" where
  "planner_refused H rs po sequence intent rationale terminal =
     bindS (readS (prior_outputs rs)) (\<lambda>inputs.
     bindS (append_action H rs po sequence
       (system_draft SystemActor ''system.campaign-runner'' inputs [] [] Failed rationale)) (\<lambda>_.
     bindS (modifyS (\<lambda>st. st\<lparr>rn_terminal := terminal\<rparr>)) (\<lambda>_.
     bindS (checkpoint_done po intent sequence ''failed'' [(''terminal_reason'', JStr terminal)]) (\<lambda>_.
     returnS True))))"

definition refusal_of :: "error \<Rightarrow> (str \<times> str) option" where
  "refusal_of e =
     (case e of
        PlannerBoundsExhausted m \<Rightarrow> Some
          (''The planner refused another model call because its own budget bound is exhausted: ''
             @ py_take 1000 m, ''planner_bounds_exhausted'')
      | PlannerContextExhausted m \<Rightarrow> Some
          (''The planner context exceeded its byte bound before any provider request was made: ''
             @ py_take 1000 m, ''context_bound_exhausted'')
      | RunnerError m \<Rightarrow> Some
          (''The planner port rejected this call before any provider request was made: ''
             @ py_take 1000 m, ''planner_rejected'')
      | _ \<Rightarrow> None)"

text \<open>The tool runs an action already made before it was rejected.\<close>

definition tools_of :: "int \<Rightarrow> 'w runner_state \<Rightarrow> tool_run_record list" where
  "tools_of sequence st = filter (\<lambda>t. tr_action_id t = sequence_id ''action.'' sequence) (rn_tools st)"

definition rejected_source ::
  "hexdigest \<Rightarrow> runner_setup \<Rightarrow> 'w ports \<Rightarrow> planner_response \<Rightarrow> error \<Rightarrow> ('w, str) run_prog" where
  "rejected_source H rs po response rejection =
     bindS (readS rn_source) (\<lambda>known.
     case known of
       Some h \<Rightarrow> returnS h
     | None \<Rightarrow>
         (let bytes = result_or_unavailable response in
          bindS (guardS (int (length bytes) \<le> rp_max_artifact_bytes (rs_policy rs)) rejection) (\<lambda>_.
          bindS (store_artifact H po bytes planner_media) (\<lambda>h.
          bindS (modifyS (\<lambda>st. st\<lparr>rn_source := Some h\<rparr>)) (\<lambda>_.
          returnS h)))))"

definition rejection_rationale :: "bool \<Rightarrow> error \<Rightarrow> str" where
  "rejection_rationale exhausted rejection =
     (if exhausted then
        ''The campaign runner rejected this planner action and the campaign is terminal: ''
      else ''The campaign runner rejected this planner action; the rejection is echoed for a bounded repair attempt: '')
     @ py_take 1000 (error_message rejection)"

definition record_rejection ::
  "hexdigest \<Rightarrow> runner_setup \<Rightarrow> 'w ports \<Rightarrow> int \<Rightarrow> jobject option \<Rightarrow> error \<Rightarrow> str
     \<Rightarrow> ('w, bool) run_prog" where
  "record_rejection H rs po sequence intent rejection h =
     bindS (readS (tools_of sequence)) (\<lambda>tools.
     bindS (modifyS (\<lambda>st. st\<lparr>rn_rejections := rn_rejections st + 1\<rparr>)) (\<lambda>_.
     bindS (readS (\<lambda>st. rp_max_repair_attempts (rs_policy rs) \<le> rn_rejections st)) (\<lambda>exhausted.
     bindS (readS (prior_outputs rs)) (\<lambda>inputs.
     bindS (append_action H rs po sequence (system_draft SystemActor ''system.campaign-runner'' inputs
       (sequence_id ''call.'' sequence # map tr_tool_run_id tools)
       (dedup (h # concat (map tool_hashes tools))) Failed
       (rejection_rationale exhausted rejection))) (\<lambda>_.
     bindS (modifyS (\<lambda>st. st\<lparr>rn_branch_status :=
         AList.update ''branch.system'' (status_value Failed) (rn_branch_status st)\<rparr>)) (\<lambda>_.
     bindS (checkpoint_done po intent sequence ''failed''
       [(''action_id'', JStr (sequence_id ''action.'' sequence)),
        (''rejection'', JStr (py_take 500 (error_message rejection))),
        (''repair_exhausted'', JBool exhausted)]) (\<lambda>_.
     bindS (modifyS (\<lambda>st. if exhausted then st\<lparr>rn_terminal := ''action_rejected''\<rparr>
         else st\<lparr>rn_last_rejection := Some (py_take 1000 (error_message rejection))\<rparr>)) (\<lambda>_.
     returnS exhausted))))))))"

definition reject_action ::
  "hexdigest \<Rightarrow> runner_setup \<Rightarrow> 'w ports \<Rightarrow> int \<Rightarrow> jobject option \<Rightarrow> planner_context
     \<Rightarrow> planner_response \<Rightarrow> error \<Rightarrow> ('w, bool) run_prog" where
  "reject_action H rs po sequence intent context response rejection =
     bindS (rejected_source H rs po response rejection) (\<lambda>h.
     bindS (readS (\<lambda>st. sequence_id ''call.'' sequence \<in> mc_call_id ` set (rn_calls st))) (\<lambda>present.
     bindS (if present then returnS () else append_call H rs po sequence context response h) (\<lambda>_.
     record_rejection H rs po sequence intent rejection h)))"

section \<open>The iteration and the loop\<close>

definition execute_action ::
  "hexdigest \<Rightarrow> runner_setup \<Rightarrow> 'w ports \<Rightarrow> int \<Rightarrow> jobject option \<Rightarrow> planner_context
     \<Rightarrow> planner_response \<Rightarrow> ('w, bool) run_prog" where
  "execute_action H rs po sequence intent context response =
     (if pr_status response \<noteq> Completed then planner_failed H rs po sequence intent context response
      else
        bindS (admit_action H rs po sequence context response) (\<lambda>(a, h, inputs).
        bindS (perform_planned H rs po sequence a h) (\<lambda>done.
        finish_record H rs po sequence intent a h inputs done)))"

definition runner_step :: "hexdigest \<Rightarrow> runner_setup \<Rightarrow> 'w ports \<Rightarrow> int \<Rightarrow> ('w, bool) run_prog" where
  "runner_step H rs po sequence =
     bindS (readS (runner_context rs sequence)) (\<lambda>context.
     bindS (modifyS (\<lambda>st. st\<lparr>rn_pending_read := None, rn_source := None\<rparr>)) (\<lambda>_.
     bindS (planner_intent rs po sequence context) (\<lambda>intent.
     bindS (tryS (call_port (\<lambda>w. po_planner po w context))) (\<lambda>answer.
     case answer of
       Inl e \<Rightarrow>
         (case refusal_of e of
            None \<Rightarrow> raiseS e
          | Some (rationale, terminal) \<Rightarrow>
              planner_refused H rs po sequence intent rationale terminal)
     | Inr response \<Rightarrow>
         catchS (execute_action H rs po sequence intent context response) (\<lambda>e.
           if is_runner_error e
           then reject_action H rs po sequence intent context response e
           else raiseS e)))))"

fun runner_loop :: "hexdigest \<Rightarrow> runner_setup \<Rightarrow> 'w ports \<Rightarrow> int list \<Rightarrow> ('w, unit) run_prog" where
  "runner_loop H rs po [] = returnS ()"
| "runner_loop H rs po (n # ns) =
     bindS (runner_step H rs po n) (\<lambda>stop.
     if stop then returnS () else runner_loop H rs po ns)"

definition activation_checks :: "runner_setup \<Rightarrow> activation \<Rightarrow> unit res list" where
  "activation_checks rs v =
     [ensure (2 \<le> rp_max_actions (rs_policy rs))
        (RunnerError ''campaign action bound leaves no research action''),
      ensure (av_probe_status v = ''passed'' \<and> av_operational_readiness v = ''passed''
              \<and> av_configuration_hash v = rs_live_configuration_hash rs
              \<and> av_pricing_snapshot_hash v = rs_pricing_snapshot_hash rs
              \<and> av_probe_request_hash v \<noteq> None)
        (RunnerError ''campaign provider activation is absent or mismatched''),
      ensure (utf8_strings (av_value v)) UnicodeEncodeErr]"

definition activation_call :: "runner_setup \<Rightarrow> activation \<Rightarrow> str \<Rightarrow> model_call_record" where
  "activation_call rs v h =
     (let reported = av_usage_reported_calls v = 1 in
      \<lparr>mc_call_id = ''call.activation'', mc_campaign_id = rs_campaign_id rs,
       mc_action_id = ''action.activation'', mc_purpose = ''provider_activation'',
       mc_provider = av_provider v, mc_model_identifier = av_model_identifier v,
       mc_live_configuration_hash = rs_live_configuration_hash rs,
       mc_pricing_snapshot_hash = rs_pricing_snapshot_hash rs,
       mc_request_hash = the (av_probe_request_hash v), mc_result_hash = h,
       mc_status = Completed, mc_usage_source = (if reported then ApiReported else Unavailable),
       mc_input_tokens = (if reported then av_input_tokens v else 0),
       mc_output_tokens = (if reported then av_output_tokens v else 0),
       mc_estimated_cost_microusd = (if reported then av_estimated_cost v else None),
       mc_provider_request_id = av_provider_request_id v, mc_recorded_at = av_observed_at v,
       mc_schema_version = schema_version_campaign, mc_record_type = ''model_call'',
       mc_content_hash = [], mc_operational_hash = []\<rparr>)"

definition activation_action :: "runner_setup \<Rightarrow> activation \<Rightarrow> str \<Rightarrow> action_record" where
  "activation_action rs v h =
     \<lparr>ac_action_id = ''action.activation'', ac_campaign_id = rs_campaign_id rs, ac_sequence = 1,
      ac_branch_id = ''branch.system'', ac_action_type = Plan, ac_actor_type = SystemActor,
      ac_actor_id = ''system.provider-activation'', ac_parent_action_ids = [],
      ac_input_artifact_hashes = [rs_target_hash rs, rs_configuration_hash rs],
      ac_source_record_ids = [''call.activation''], ac_output_artifact_hashes = [h],
      ac_status = Completed,
      ac_declared_rationale = ''One no-retry provider activation passed before mathematical work.'',
      ac_recorded_at = av_observed_at v, ac_schema_version = schema_version_campaign,
      ac_record_type = ''campaign_action'', ac_content_hash = [], ac_operational_hash = []\<rparr>"

text \<open>The activation of a live planner takes the first sequence number.\<close>

definition record_activation :: "hexdigest \<Rightarrow> runner_setup \<Rightarrow> 'w ports \<Rightarrow> ('w, int) run_prog" where
  "record_activation H rs po =
     (case po_activation po of
        None \<Rightarrow> returnS 1
      | Some v \<Rightarrow>
          bindS (liftS (checks (activation_checks rs v))) (\<lambda>_.
          bindS (store_artifact H po (canonical_bytes (av_value v))
            ''application/vnd.adaivy.provider-activation+json'') (\<lambda>h.
          bindS (liftS (build_call H (activation_call rs v h))) (\<lambda>call.
          bindS (modifyS (\<lambda>st. st\<lparr>rn_calls := rn_calls st @ [call]\<rparr>)) (\<lambda>_.
          bindS (liftS (build_action H (activation_action rs v h))) (\<lambda>action.
          bindS (modifyS (\<lambda>st. st\<lparr>rn_actions := rn_actions st @ [action],
                                  rn_available := rn_available st @ [h]\<rparr>)) (\<lambda>_.
          returnS 2)))))))"

record campaign_result =
  re_campaign_id :: str
  re_terminal_reason :: str
  re_actions :: "action_record list"
  re_model_calls :: "model_call_record list"
  re_tool_runs :: "tool_run_record list"
  re_candidate :: "str option"
  re_tools :: "str list"
  re_report :: "str option"

definition result_of :: "runner_setup \<Rightarrow> 'w runner_state \<Rightarrow> campaign_result" where
  "result_of rs st =
     \<lparr>re_campaign_id = rs_campaign_id rs, re_terminal_reason = rn_terminal st,
      re_actions = rn_actions st, re_model_calls = rn_calls st, re_tool_runs = rn_tools st,
      re_candidate = rn_candidate st, re_tools = rn_selected_tools st, re_report = rn_report st\<rparr>"

definition run_states :: "hexdigest \<Rightarrow> runner_setup \<Rightarrow> 'w ports \<Rightarrow> ('w, unit) run_prog" where
  "run_states H rs po =
     bindS (record_activation H rs po) (\<lambda>first.
     runner_loop H rs po [first..rp_max_actions (rs_policy rs)])"

definition sequential_run ::
  "hexdigest \<Rightarrow> runner_setup \<Rightarrow> 'w ports \<Rightarrow> 'w \<Rightarrow> 'w \<times> campaign_result res" where
  "sequential_run H rs po w =
     (case run_states H rs po (runner_start rs w) of
        (st, Inl e) \<Rightarrow> (rn_world st, Inl e)
      | (st, Inr _) \<Rightarrow> (rn_world st, Inr (result_of rs st)))"

end
