(* ===== verification/Ledger_Closure.thy ===== *)
theory Ledger_Closure
  imports Runner_Run Export_Closure "HOL-Library.Multiset"
begin

text \<open>
  A closed ledger: actions, model calls and tool runs that one campaign run may return.  It
  grows by one action together with the source records that action introduces, and every closed
  ledger is accepted by the closure check of the export.
\<close>

section \<open>Closed ledgers\<close>

abbreviation ledger_base :: "runner_setup \<Rightarrow> str set" where
  "ledger_base rs \<equiv> {rs_target_hash rs, rs_configuration_hash rs}"

definition ledger_sources :: "model_call_record list \<Rightarrow> tool_run_record list \<Rightarrow> source list" where
  "ledger_sources cs ts = map SModel cs @ map STool ts"

text \<open>The name of an action: the activation comes first, every other one is numbered.\<close>

definition named_action :: "action_record \<Rightarrow> bool" where
  "named_action a \<longleftrightarrow>
     ac_action_id a = sequence_id ''action.'' (ac_sequence a)
     \<or> ac_sequence a = 1 \<and> ac_action_id a = ''action.activation''"

definition action_sealed :: "hexdigest \<Rightarrow> runner_setup \<Rightarrow> action_record \<Rightarrow> bool" where
  "action_sealed H rs a \<longleftrightarrow>
     action_finalized H a = a \<and> ac_campaign_id a = rs_campaign_id rs \<and> named_action a"

definition call_sealed :: "hexdigest \<Rightarrow> runner_setup \<Rightarrow> model_call_record \<Rightarrow> bool" where
  "call_sealed H rs c \<longleftrightarrow>
     model_call_finalized H c = c \<and> mc_campaign_id c = rs_campaign_id rs
     \<and> (\<exists>s. mc_call_id c = ''call.'' @ s \<and> mc_action_id c = ''action.'' @ s)"

definition tool_sealed :: "hexdigest \<Rightarrow> runner_setup \<Rightarrow> tool_run_record \<Rightarrow> bool" where
  "tool_sealed H rs t \<longleftrightarrow> tool_run_finalized H t = t \<and> tr_campaign_id t = rs_campaign_id rs"

definition tool_names :: "tool_run_record list \<Rightarrow> bool" where
  "tool_names ts \<longleftrightarrow> map tr_tool_run_id ts = map (\<lambda>i. ''tool.'' @ nat_str i) [1..<length ts + 1]"

definition closed_ledger ::
  "hexdigest \<Rightarrow> runner_setup \<Rightarrow> action_record list \<Rightarrow> model_call_record list
     \<Rightarrow> tool_run_record list \<Rightarrow> bool" where
  "closed_ledger H rs as cs ts \<longleftrightarrow>
     (\<forall>a \<in> set as. action_sealed H rs a)
     \<and> (\<forall>c \<in> set cs. call_sealed H rs c \<and> mc_action_id c \<in> ac_action_id ` set as)
     \<and> (\<forall>t \<in> set ts. tool_sealed H rs t \<and> tr_action_id t \<in> ac_action_id ` set as)
     \<and> map ac_sequence as = map int [1..<length as + 1]
     \<and> distinct (map mc_call_id cs) \<and> tool_names ts
     \<and> closed_actions (set (ledger_sources cs ts)) (ledger_base rs) as
     \<and> mset (used_sources as) = mset (map source_id (ledger_sources cs ts))"

lemma closed_ledger_empty: "closed_ledger H rs [] [] []"
  by (simp add: closed_ledger_def tool_names_def used_sources_def ledger_sources_def)

section \<open>Names\<close>

lemma hd_nat_str: "is_digit (hd (nat_str n))"
  using nat_str_digits [of "hd (nat_str n)" n] by simp

lemma int_str_inject: "0 \<le> i \<Longrightarrow> 0 \<le> j \<Longrightarrow> int_str i = int_str j \<longleftrightarrow> i = j"
  by (auto simp: int_str_def)

lemma sequence_id_inject:
  "0 \<le> i \<Longrightarrow> 0 \<le> j \<Longrightarrow> sequence_id s i = sequence_id s j \<longleftrightarrow> i = j"
  by (simp add: sequence_id_def int_str_inject)

lemma activation_not_numbered: "sequence_id ''action.'' k \<noteq> ''action.activation''"
proof
  assume "sequence_id ''action.'' k = ''action.activation''"
  then have s: "int_str k = ''activation''" by (simp add: sequence_id_def)
  have no: "\<not> is_digit (CHR ''a'')" by code_simp
  show False
  proof (cases "k < 0")
    case True
    with s show ?thesis by (simp add: int_str_def)
  next
    case False
    with s have "nat_str (nat k) = ''activation''" by (simp add: int_str_def)
    with hd_nat_str [of "nat k"] no show ?thesis by simp
  qed
qed

lemma named_inject:
  assumes "named_action a" "named_action b" "1 \<le> ac_sequence a" "1 \<le> ac_sequence b"
    and "ac_action_id a = ac_action_id b"
  shows "ac_sequence a = ac_sequence b"
  using assms activation_not_numbered sequence_id_inject
  by (auto simp: named_action_def) metis+

lemma sequence_positive:
  assumes "map ac_sequence as = map int [1..<length as + 1]" and "a \<in> set as"
  shows "1 \<le> ac_sequence a" and "ac_sequence a \<le> int (length as)"
proof -
  have "ac_sequence a \<in> set (map ac_sequence as)" using assms(2) by simp
  then show "1 \<le> ac_sequence a" "ac_sequence a \<le> int (length as)"
    unfolding assms(1) by (auto simp del: upt_Suc)
qed

lemma fresh_name:
  assumes "closed_ledger H rs as cs ts" and "named_action a" and "ac_sequence a = int (length as) + 1"
  shows "ac_action_id a \<notin> ac_action_id ` set as"
proof
  assume "ac_action_id a \<in> ac_action_id ` set as"
  then obtain b where b: "b \<in> set as" "ac_action_id a = ac_action_id b" by blast
  with assms(1) have "named_action b" "1 \<le> ac_sequence b" "ac_sequence b \<le> int (length as)"
    using sequence_positive by (auto simp: closed_ledger_def action_sealed_def)
  with named_inject [OF assms(2), of b] b assms(3) show False by simp
qed

section \<open>Growth\<close>

text \<open>What an iteration adds: an action and the source records it alone names.\<close>

definition ledger_addition ::
  "hexdigest \<Rightarrow> runner_setup \<Rightarrow> action_record list \<Rightarrow> tool_run_record list \<Rightarrow> action_record
     \<Rightarrow> model_call_record list \<Rightarrow> tool_run_record list \<Rightarrow> bool" where
  "ledger_addition H rs as ts a cs' ts' \<longleftrightarrow>
     action_sealed H rs a \<and> ac_sequence a = int (length as) + 1
     \<and> set (ac_parent_action_ids a) \<subseteq> ac_action_id ` set as
     \<and> set (ac_input_artifact_hashes a) \<subseteq> ledger_base rs \<union> outputs_of as
     \<and> length cs' \<le> 1 \<and> (\<forall>c \<in> set cs'. call_sealed H rs c \<and> mc_action_id c = ac_action_id a)
     \<and> (\<forall>t \<in> set ts'. tool_sealed H rs t \<and> tr_action_id t = ac_action_id a)
     \<and> tool_names (ts @ ts')
     \<and> ac_source_record_ids a = map source_id (ledger_sources cs' ts')
     \<and> set (ac_output_artifact_hashes a) \<subseteq> (\<Union>s \<in> set (ledger_sources cs' ts'). set (source_artifacts s))"

lemma addition_follows:
  assumes "ledger_addition H rs as ts a cs' ts'"
  shows "may_follow (set (ledger_sources (cs @ cs') (ts @ ts'))) (ledger_base rs) as a"
proof -
  have own: "source_action s = ac_action_id a" if "s \<in> set (ledger_sources cs' ts')" for s
    using assms that by (auto simp: ledger_addition_def ledger_sources_def)
  have sub: "set (ledger_sources cs' ts') \<subseteq> set (ledger_sources (cs @ cs') (ts @ ts'))"
    by (auto simp: ledger_sources_def)
  have ids: "set (ac_source_record_ids a) = source_id ` set (ledger_sources cs' ts')"
    using assms by (simp add: ledger_addition_def)
  have outs: "set (ac_output_artifact_hashes a) \<subseteq> (\<Union>s \<in> set (ledger_sources cs' ts'). set (source_artifacts s))"
    using assms by (simp add: ledger_addition_def)
  show ?thesis
    unfolding may_follow_def ids
  proof (intro conjI)
    show "set (ac_parent_action_ids a) \<subseteq> ac_action_id ` set as"
      "set (ac_input_artifact_hashes a) \<subseteq> ledger_base rs \<union> outputs_of as"
      using assms by (simp_all add: ledger_addition_def)
    show "\<forall>i \<in> source_id ` set (ledger_sources cs' ts').
        \<exists>s \<in> set (ledger_sources (cs @ cs') (ts @ ts')). source_id s = i \<and> source_action s = ac_action_id a"
      using own sub by blast
    show "\<forall>h \<in> set (ac_output_artifact_hashes a).
        \<exists>s \<in> set (ledger_sources (cs @ cs') (ts @ ts')).
          source_id s \<in> source_id ` set (ledger_sources cs' ts') \<and> h \<in> set (source_artifacts s)"
      using outs sub by blast
  qed
qed

lemma call_ids_apart:
  assumes "call_sealed H rs c" "call_sealed H rs d" "mc_action_id c \<noteq> mc_action_id d"
  shows "mc_call_id c \<noteq> mc_call_id d"
  using assms by (auto simp: call_sealed_def)

lemma closed_ledger_extend:
  assumes led: "closed_ledger H rs as cs ts" and add: "ledger_addition H rs as ts a cs' ts'"
  shows "closed_ledger H rs (as @ [a]) (cs @ cs') (ts @ ts')"
proof -
  have fresh: "ac_action_id a \<notin> ac_action_id ` set as"
    using fresh_name [OF led] add by (auto simp: ledger_addition_def action_sealed_def)
  have seq: "map ac_sequence (as @ [a]) = map int [1..<length (as @ [a]) + 1]"
    using led add by (simp add: closed_ledger_def ledger_addition_def)
  have calls: "distinct (map mc_call_id (cs @ cs'))"
  proof -
    have old: "distinct (map mc_call_id cs)"
      "\<And>c. c \<in> set cs \<Longrightarrow> call_sealed H rs c \<and> mc_action_id c \<in> ac_action_id ` set as"
      using led by (auto simp: closed_ledger_def)
    have new: "\<And>c. c \<in> set cs' \<Longrightarrow> call_sealed H rs c \<and> mc_action_id c = ac_action_id a" "length cs' \<le> 1"
      using add by (auto simp: ledger_addition_def)
    have "mc_call_id c \<noteq> mc_call_id d" if "c \<in> set cs" "d \<in> set cs'" for c d
      using call_ids_apart old(2) [OF that(1)] new(1) [OF that(2)] fresh by metis
    moreover have "distinct (map mc_call_id cs')"
      using new(2) by (cases cs') auto
    ultimately show ?thesis using old(1) by force
  qed
  have closed: "closed_actions (set (ledger_sources (cs @ cs') (ts @ ts'))) (ledger_base rs) (as @ [a])"
    unfolding closed_actions_snoc
  proof
    have "set (ledger_sources cs ts) \<subseteq> set (ledger_sources (cs @ cs') (ts @ ts'))"
      by (auto simp: ledger_sources_def)
    with led closed_actions_mono
    show "closed_actions (set (ledger_sources (cs @ cs') (ts @ ts'))) (ledger_base rs) as"
      unfolding closed_ledger_def by blast
  qed (rule addition_follows [OF add])
  have "used_sources (as @ [a]) = used_sources as @ ac_source_record_ids a"
    by (simp add: used_sources_def)
  moreover have "mset (map source_id (ledger_sources (cs @ cs') (ts @ ts')))
      = mset (map source_id (ledger_sources cs ts)) + mset (map source_id (ledger_sources cs' ts'))"
    by (simp add: ledger_sources_def)
  ultimately have uses: "mset (used_sources (as @ [a])) = mset (map source_id (ledger_sources (cs @ cs') (ts @ ts')))"
    using led add by (simp add: closed_ledger_def ledger_addition_def)
  have "\<forall>b \<in> set (as @ [a]). action_sealed H rs b"
    "\<forall>c \<in> set (cs @ cs'). call_sealed H rs c \<and> mc_action_id c \<in> ac_action_id ` set (as @ [a])"
    "\<forall>t \<in> set (ts @ ts'). tool_sealed H rs t \<and> tr_action_id t \<in> ac_action_id ` set (as @ [a])"
    "tool_names (ts @ ts')"
    using led add by (auto simp: closed_ledger_def ledger_addition_def)
  with seq calls closed uses show ?thesis by (simp only: closed_ledger_def)
qed

lemma calls_below_actions:
  assumes "closed_ledger H rs as cs ts"
  shows "length cs \<le> length as"
proof -
  have "distinct (map mc_call_id cs)" and c: "\<forall>c \<in> set cs. call_sealed H rs c \<and> mc_action_id c \<in> ac_action_id ` set as"
    using assms by (auto simp: closed_ledger_def)
  moreover have "mc_call_id c = mc_call_id d \<longleftrightarrow> mc_action_id c = mc_action_id d"
    if "c \<in> set cs" "d \<in> set cs" for c d
  proof -
    have "call_sealed H rs c" "call_sealed H rs d" using c that by auto
    then show ?thesis by (auto simp: call_sealed_def)
  qed
  ultimately have "distinct (map mc_action_id cs)" by (auto simp: distinct_map inj_on_def)
  moreover have "set (map mc_action_id cs) \<subseteq> set (map ac_action_id as)" using c by auto
  ultimately have "length (map mc_action_id cs) \<le> card (set (map ac_action_id as))"
    by (metis List.finite_set card_mono distinct_card)
  then show ?thesis using card_length [of "map ac_action_id as"] by simp
qed

section \<open>Export\<close>

text \<open>The export that \<open>build_campaign_export\<close> checks for the ledger of a run.\<close>

definition ledger_export ::
  "runner_setup \<Rightarrow> action_record list \<Rightarrow> model_call_record list \<Rightarrow> tool_run_record list \<Rightarrow> campaign_export" where
  "ledger_export rs as cs ts =
     \<lparr>ex_campaign_id = JStr (rs_campaign_id rs), ex_target_hash = rs_target_hash rs,
      ex_configuration_hash = rs_configuration_hash rs, ex_actions = as, ex_model_calls = cs,
      ex_tool_runs = ts, ex_imports = [], ex_usage = derive_usage cs ts [],
      ex_attribution_status = attribution_of [], ex_measurement_status = measurement_status cs ts [],
      ex_schema_version = schema_version_campaign,
      ex_canonicalization_version = canonicalization_version_campaign,
      ex_content_hash = [], ex_operational_hash = []\<rparr>"

lemma ledger_ids:
  assumes "closed_ledger H rs as cs ts"
  shows "distinct (map ac_action_id as @ map source_id (ledger_sources cs ts))"
proof -
  have l: "\<forall>a \<in> set as. action_sealed H rs a" "\<forall>c \<in> set cs. call_sealed H rs c"
    "map ac_sequence as = map int [1..<length as + 1]" "distinct (map mc_call_id cs)" "tool_names ts"
    using assms by (auto simp: closed_ledger_def)
  have "distinct (map ac_sequence as)" unfolding l(3) by (simp add: distinct_map del: upt_Suc)
  moreover have "ac_action_id a = ac_action_id b \<Longrightarrow> ac_sequence a = ac_sequence b"
    if "a \<in> set as" "b \<in> set as" for a b
    using named_inject l(1) sequence_positive(1) [OF l(3)] that by (auto simp: action_sealed_def)
  ultimately have acts: "distinct (map ac_action_id as)"
    unfolding distinct_map inj_on_def by metis
  have tools: "distinct (map tr_tool_run_id ts)"
    using l(5) by (auto simp: tool_names_def distinct_map inj_on_def simp del: upt_Suc)
  have a: "\<exists>s. i = ''action.'' @ s" if "i \<in> ac_action_id ` set as" for i
    using l(1) that by (auto simp: action_sealed_def named_action_def sequence_id_def)
  have c: "\<exists>s. i = ''call.'' @ s" if "i \<in> mc_call_id ` set cs" for i
    using l(2) that by (auto simp: call_sealed_def)
  have t: "\<exists>s. i = ''tool.'' @ s" if "i \<in> tr_tool_run_id ` set ts" for i
  proof -
    have "i \<in> set (map tr_tool_run_id ts)" using that by simp
    then show ?thesis unfolding l(5) [unfolded tool_names_def] by auto
  qed
  have "ac_action_id ` set as \<inter> mc_call_id ` set cs = {}"
    "ac_action_id ` set as \<inter> tr_tool_run_id ` set ts = {}"
    "mc_call_id ` set cs \<inter> tr_tool_run_id ` set ts = {}"
    using a c t by fastforce+
  with acts l(4) tools show ?thesis
    by (simp add: ledger_sources_def comp_def image_image Int_Un_distrib)
qed

lemma closed_ledger_spec:
  assumes led: "closed_ledger H rs as cs ts" and ini: "sequential_runner_init H rs = Inr ()"
  shows "closure_spec H (ledger_export rs as cs ts)"
proof -
  let ?e = "ledger_export rs as cs ts"
  have src: "export_sources ?e = ledger_sources cs ts"
    by (simp add: export_sources_def ledger_export_def ledger_sources_def)
  have ids: "distinct (map ac_action_id as @ map source_id (ledger_sources cs ts))"
    by (rule ledger_ids [OF led])
  have ini': "valid_identifier (rs_campaign_id rs)" "valid_hash (rs_target_hash rs)"
    "valid_hash (rs_configuration_hash rs)"
    using ini by (auto simp: sequential_runner_init_def checks_Inr hash_text_guard_def)
  have camps: "\<forall>s \<in> set (ledger_sources cs ts). source_campaign s = rs_campaign_id rs"
    "\<forall>a \<in> set as. ac_campaign_id a = rs_campaign_id rs"
    using led by (auto simp: closed_ledger_def ledger_sources_def call_sealed_def tool_sealed_def action_sealed_def)
  have "rs_campaign_id rs \<noteq> []" using ini'(1) by (auto simp: valid_identifier_def)
  then have header: "\<forall>c \<in> set (header_checks ?e). c = Inr ()"
    using ini' ids camps unfolding header_checks_def export_ids_def export_campaigns_def src
    by (auto simp: ledger_export_def)
  have "action_verify_hashes H a = Inr ()" if "a \<in> set as" for a
  proof -
    have "action_finalized H a = a" using led that by (auto simp: closed_ledger_def action_sealed_def)
    then show ?thesis by (simp add: action_verify_hashes_def checks_simps)
  qed
  moreover have "source_verify_hashes H s = Inr ()" if "s \<in> set (ledger_sources cs ts)" for s
  proof -
    have "(\<exists>c. s = SModel c \<and> model_call_finalized H c = c) \<or> (\<exists>t. s = STool t \<and> tool_run_finalized H t = t)"
      using led that by (auto simp: closed_ledger_def ledger_sources_def call_sealed_def tool_sealed_def)
    then show ?thesis
      by (auto simp: model_call_verify_hashes_def tool_run_verify_hashes_def checks_simps)
  qed
  moreover have "count_list (used_sources as) (source_id s) = 1" if "s \<in> set (ledger_sources cs ts)" for s
  proof -
    have "mset (used_sources as) = mset (map source_id (ledger_sources cs ts))"
      using led by (simp add: closed_ledger_def)
    then have "count_list (used_sources as) (source_id s) = count_list (map source_id (ledger_sources cs ts)) (source_id s)"
      by (metis count_mset)
    also have "\<dots> = 1"
    proof -
      have "distinct (map source_id (ledger_sources cs ts))" using ids by simp
      then show ?thesis using that distinct_count_atmost_1 [of "map source_id (ledger_sources cs ts)"]
        by (simp add: count_mset [symmetric] del: count_mset)
    qed
    finally show ?thesis .
  qed
  ultimately show ?thesis
    using header led unfolding closure_spec_def src
    by (simp add: ledger_export_def export_base_def closed_ledger_def)
qed

lemma closed_ledger_exports:
  assumes led: "closed_ledger H rs as cs ts" and ini: "sequential_runner_init H rs = Inr ()"
  shows "\<exists>e. build_campaign_export H (rs_campaign_id rs) (rs_target_hash rs) (rs_configuration_hash rs)
           as cs ts [] = Inr e \<and> ex_actions e = as \<and> ex_model_calls e = cs \<and> ex_tool_runs e = ts"
proof -
  have fixed: "map (action_finalized H) as = as" "map (model_call_finalized H) cs = cs"
    "map (tool_run_finalized H) ts = ts"
    using led by (auto simp: closed_ledger_def action_sealed_def call_sealed_def tool_sealed_def intro: map_idI)
  have "validate_closure H (ledger_export rs as cs ts) = Inr ()"
    using closed_ledger_spec [OF led ini] validate_closure_iff by blast
  then show ?thesis
    unfolding build_campaign_export_def fixed Let_def
    by (simp add: ledger_export_def)
qed

end
