(* ===== verification/Runner_Frame.thy ===== *)
theory Runner_Frame
  imports Ledger_Closure
begin

text \<open>
  What the building blocks of an iteration do to the locals of \<open>run\<close>, as triples: a port call
  changes nothing but the world, and a record is appended sealed, with the fields it was
  drafted with.  Building a record never raises a campaign error, so no handler of the loop
  catches it.
\<close>

section \<open>Errors of the record constructors\<close>

lemmas guard_defs = identifier_guard_def hash_guard_def nonnegative_def strings_guard_def
  hashes_guard_def unique_guard_def ensure_Inl Inl_ensure

lemma nonnegative_opt_Inl: "nonnegative_opt v f = Inl e \<Longrightarrow> \<not> is_runner_error e"
  by (cases v) (auto simp: guard_defs)

lemma strings_guard_Inl:
  "strings_guard vs f = Inl e \<Longrightarrow> \<not> is_runner_error e"
  "hashes_guard vs f = Inl e \<Longrightarrow> \<not> is_runner_error e"
  by (auto simp: guard_defs dest!: checks_Inl)

lemma post_init_Inl:
  "action_post_init a = Inl e \<Longrightarrow> \<not> is_runner_error e"
  "model_call_post_init m = Inl e \<Longrightarrow> \<not> is_runner_error e"
  "tool_run_post_init t = Inl e \<Longrightarrow> \<not> is_runner_error e"
proof -
  show "action_post_init a = Inl e \<Longrightarrow> \<not> is_runner_error e"
    unfolding action_post_init_def
    by (drule checks_Inl) (auto dest: strings_guard_Inl [OF sym] simp: identifier_guard_def Inl_ensure)
  show "model_call_post_init m = Inl e \<Longrightarrow> \<not> is_runner_error e"
    unfolding model_call_post_init_def
    by (drule checks_Inl)
       (auto dest: nonnegative_opt_Inl [OF sym] simp: identifier_guard_def hash_guard_def nonnegative_def
         Inl_ensure split: if_splits)
  show "tool_run_post_init t = Inl e \<Longrightarrow> \<not> is_runner_error e"
    unfolding tool_run_post_init_def
    by (drule checks_Inl)
       (auto dest: nonnegative_opt_Inl [OF sym] simp: identifier_guard_def hash_guard_def nonnegative_def
         Inl_ensure split: if_splits)
qed

lemma build_Inl:
  "build_action H a = Inl e \<Longrightarrow> \<not> is_runner_error e"
  "build_call H m = Inl e \<Longrightarrow> \<not> is_runner_error e"
  "build_tool H t = Inl e \<Longrightarrow> \<not> is_runner_error e"
  by (auto simp: build_action_def build_call_def build_tool_def bindE_eq_Inl
      dest: post_init_Inl split: if_splits)

lemma build_Inr:
  "build_action H a = Inr a' \<Longrightarrow> a' = action_finalized H a"
  "build_call H m = Inr m' \<Longrightarrow> m' = model_call_finalized H m"
  "build_tool H t = Inr t' \<Longrightarrow> t' = tool_run_finalized H t"
  by (auto simp: build_action_def build_call_def build_tool_def bindE_eq_Inr split: if_splits)

lemma finalized_idem [simp]:
  "action_finalized H (action_finalized H a) = action_finalized H a"
  "model_call_finalized H (model_call_finalized H m) = model_call_finalized H m"
  "tool_run_finalized H (tool_run_finalized H t) = tool_run_finalized H t"
  by (simp_all add: action_finalized_def model_call_finalized_def tool_run_finalized_def
      action.finish_idem model_call.finish_idem tool_run.finish_idem)

lemma finalized_fields [simp]:
  "ac_action_id (action_finalized H a) = ac_action_id a"
  "ac_campaign_id (action_finalized H a) = ac_campaign_id a"
  "ac_sequence (action_finalized H a) = ac_sequence a"
  "ac_branch_id (action_finalized H a) = ac_branch_id a"
  "ac_action_type (action_finalized H a) = ac_action_type a"
  "ac_parent_action_ids (action_finalized H a) = ac_parent_action_ids a"
  "ac_input_artifact_hashes (action_finalized H a) = ac_input_artifact_hashes a"
  "ac_source_record_ids (action_finalized H a) = ac_source_record_ids a"
  "ac_output_artifact_hashes (action_finalized H a) = ac_output_artifact_hashes a"
  "ac_status (action_finalized H a) = ac_status a"
  "mc_call_id (model_call_finalized H m) = mc_call_id m"
  "mc_campaign_id (model_call_finalized H m) = mc_campaign_id m"
  "mc_action_id (model_call_finalized H m) = mc_action_id m"
  "mc_result_hash (model_call_finalized H m) = mc_result_hash m"
  "tr_tool_run_id (tool_run_finalized H t) = tr_tool_run_id t"
  "tr_campaign_id (tool_run_finalized H t) = tr_campaign_id t"
  "tr_action_id (tool_run_finalized H t) = tr_action_id t"
  by (simp_all add: action_finalized_def model_call_finalized_def tool_run_finalized_def finish_def
      case_prod_unfold action_set_hashes_def model_call_set_hashes_def tool_run_set_hashes_def)

section \<open>Ports\<close>

text \<open>A property of the locals that does not look at the world.\<close>

definition world_free :: "('w runner_state \<Rightarrow> bool) \<Rightarrow> bool" where
  "world_free P \<longleftrightarrow> (\<forall>s w. P s \<longrightarrow> P (s\<lparr>rn_world := w\<rparr>))"

lemma call_port_holds: "world_free P \<Longrightarrow> holds P (call_port f) (\<lambda>_. P) (\<lambda>_. P)"
  by (auto simp: holds_def call_port_def world_free_def split: prod.splits sum.splits)

lemma recorded_now_holds: "world_free P \<Longrightarrow> holds P (recorded_now po) (\<lambda>_. P) E"
  by (auto simp: holds_def recorded_now_def call_port_def world_free_def split: prod.splits sum.splits)

lemma store_artifact_holds:
  assumes "world_free P"
  shows "holds P (store_artifact H po content media) (\<lambda>h s. P s \<and> h = raw_hash H content) (\<lambda>_. P)"
  unfolding store_artifact_def
proof (rule holds_bind [OF call_port_holds [OF assms]])
  show "holds P (bindS (guardS (x = raw_hash H content) err) (\<lambda>_. returnS x))
      (\<lambda>h s. P s \<and> h = raw_hash H content) (\<lambda>_. P)" for x err
    by (rule holds_bind [where R = "\<lambda>_ s. P s \<and> x = raw_hash H content"]) (auto intro: holds_simple)
qed

lemma store_keeps: "world_free P \<Longrightarrow> holds P (store_artifact H po content media) (\<lambda>_. P) (\<lambda>_. P)"
  by (rule holds_weaken [OF store_artifact_holds]) auto

lemma get_artifact_holds: "world_free P \<Longrightarrow> holds P (get_artifact po h) (\<lambda>_. P) (\<lambda>_. P)"
  unfolding get_artifact_def by (rule call_port_holds)

lemma get_artifacts_holds:
  assumes "world_free P"
  shows "holds P (get_artifacts po hs) (\<lambda>_. P) (\<lambda>_. P)"
  unfolding get_artifacts_def
  by (intro holds_mapS holds_bind [OF get_artifact_holds [OF assms]] holds_simple(1))

text \<open>The checkpoint store of the source raises its own error class only.\<close>

definition quiet_checkpoints :: "'w ports \<Rightarrow> bool" where
  "quiet_checkpoints po \<longleftrightarrow>
     (\<forall>cp w k i s r t w' e. po_checkpoints po = Some cp \<longrightarrow> cp_complete cp w k i s r t = (w', Inl e)
        \<longrightarrow> \<not> is_runner_error e)"

lemma checkpoint_done_holds:
  assumes "world_free P" and "quiet_checkpoints po"
  shows "holds P (checkpoint_done po i k status r) (\<lambda>_. P) (\<lambda>e _. \<not> is_runner_error e)"
proof (cases "po_checkpoints po")
  case None
  then show ?thesis by (auto simp: checkpoint_done_def intro: holds_simple)
next
  case (Some cp)
  show ?thesis
  proof (cases i)
    case None
    with Some show ?thesis by (auto simp: checkpoint_done_def intro: holds_simple)
  next
    case (Some j)
    have "holds P (call_port (\<lambda>w. cp_complete cp w k j status r now)) (\<lambda>_. P) (\<lambda>e _. \<not> is_runner_error e)" for now
      using assms \<open>po_checkpoints po = Some cp\<close>
      by (fastforce simp: holds_def call_port_def world_free_def quiet_checkpoints_def
          split: prod.splits sum.splits)
    with Some \<open>po_checkpoints po = Some cp\<close> show ?thesis
      unfolding checkpoint_done_def
      by (auto intro!: holds_bind [OF recorded_now_holds [OF assms(1)]])
  qed
qed

section \<open>Records\<close>

text \<open>\<open>r\<close> is the action drafted as \<open>d\<close>, sealed.\<close>

definition drafted ::
  "hexdigest \<Rightarrow> runner_setup \<Rightarrow> int \<Rightarrow> action_draft \<Rightarrow> str list \<Rightarrow> action_record \<Rightarrow> bool" where
  "drafted H rs k d parents r \<longleftrightarrow>
     action_sealed H rs r \<and> ac_sequence r = k \<and> ac_action_id r = sequence_id ''action.'' k
     \<and> ac_parent_action_ids r = parents \<and> ac_branch_id r = ad_branch d \<and> ac_action_type r = ad_type d
     \<and> ac_input_artifact_hashes r = ad_inputs d \<and> ac_source_record_ids r = ad_sources d
     \<and> ac_output_artifact_hashes r = ad_outputs d \<and> ac_status r = ad_status d"

definition fresh_call :: "hexdigest \<Rightarrow> runner_setup \<Rightarrow> int \<Rightarrow> str \<Rightarrow> model_call_record \<Rightarrow> bool" where
  "fresh_call H rs k h c \<longleftrightarrow>
     call_sealed H rs c \<and> mc_call_id c = sequence_id ''call.'' k
     \<and> mc_action_id c = sequence_id ''action.'' k \<and> mc_result_hash c = h"

definition fresh_tool ::
  "hexdigest \<Rightarrow> runner_setup \<Rightarrow> int \<Rightarrow> nat \<Rightarrow> tool_run_record \<Rightarrow> bool" where
  "fresh_tool H rs k n t \<longleftrightarrow>
     tool_sealed H rs t \<and> tr_action_id t = sequence_id ''action.'' k
     \<and> tr_tool_run_id t = ''tool.'' @ nat_str (n + 1)"

lemma append_action_holds:
  assumes "world_free P"
  shows "holds P (append_action H rs po k d)
    (\<lambda>r s. \<exists>old. P old \<and> drafted H rs k d (parent_ids old) r
             \<and> s = old\<lparr>rn_actions := rn_actions old @ [r]\<rparr>)
    (\<lambda>e _. \<not> is_runner_error e)"
  unfolding holds_def
proof (intro allI impI)
  fix s s' r
  assume P: "P s" and ev: "append_action H rs po k d s = (s', r)"
  obtain w t where now: "po_now po (rn_world s) = (w, t)" by fastforce
  have P': "P (s\<lparr>rn_world := w\<rparr>)" and pid: "parent_ids (s\<lparr>rn_world := w\<rparr>) = parent_ids s"
    using P assms by (auto simp: world_free_def parent_ids_def)
  show "case r of Inl e \<Rightarrow> \<not> is_runner_error e
     | Inr a \<Rightarrow> \<exists>old. P old \<and> drafted H rs k d (parent_ids old) a
           \<and> s' = old\<lparr>rn_actions := rn_actions old @ [a]\<rparr>"
  proof (cases r)
    case (Inl e)
    with ev now show ?thesis
      by (auto simp: append_action_def bindS_def readS_def recorded_now_def call_port_def liftS_def
          modifyS_def returnS_def dest: build_Inl split: sum.splits)
  next
    case (Inr a)
    with ev now have "s' = (s\<lparr>rn_world := w\<rparr>)\<lparr>rn_actions := rn_actions s @ [a]\<rparr>"
      "drafted H rs k d (parent_ids s) a"
      by (auto simp: append_action_def bindS_def readS_def recorded_now_def call_port_def liftS_def
          modifyS_def returnS_def drafted_def action_sealed_def named_action_def
          dest!: build_Inr split: sum.splits)
    with Inr P' pid show ?thesis by (auto intro!: exI [of _ "s\<lparr>rn_world := w\<rparr>"])
  qed
qed

lemma append_call_holds:
  assumes "world_free P"
  shows "holds P (append_call H rs po k context response h)
    (\<lambda>_ s. \<exists>old c. P old \<and> fresh_call H rs k h c \<and> s = old\<lparr>rn_calls := rn_calls old @ [c]\<rparr>)
    (\<lambda>e _. \<not> is_runner_error e)"
  unfolding holds_def
proof (intro allI impI)
  fix s s' r
  assume P: "P s" and ev: "append_call H rs po k context response h s = (s', r)"
  obtain w t where now: "po_now po (rn_world s) = (w, t)" by fastforce
  have P': "P (s\<lparr>rn_world := w\<rparr>)" using P assms by (simp add: world_free_def)
  show "case r of Inl e \<Rightarrow> \<not> is_runner_error e
     | Inr _ \<Rightarrow> \<exists>old c. P old \<and> fresh_call H rs k h c \<and> s' = old\<lparr>rn_calls := rn_calls old @ [c]\<rparr>"
  proof (cases r)
    case (Inl e)
    with ev now show ?thesis
      by (auto simp: append_call_def bindS_def recorded_now_def call_port_def liftS_def
          modifyS_def checked_hash_def dest: build_Inl split: sum.splits if_splits)
  next
    case (Inr u)
    with ev now obtain c where "s' = (s\<lparr>rn_world := w\<rparr>)\<lparr>rn_calls := rn_calls s @ [c]\<rparr>"
      "fresh_call H rs k h c"
      by (auto simp: append_call_def bindS_def recorded_now_def call_port_def liftS_def
          modifyS_def checked_hash_def fresh_call_def call_sealed_def sequence_id_def
          dest!: build_Inr split: sum.splits if_splits)
    with Inr P' show ?thesis by (auto intro!: exI [of _ "s\<lparr>rn_world := w\<rparr>"])
  qed
qed

lemma record_tool_tail:
  assumes "world_free P"
    and "\<And>now s. P s \<Longrightarrow> fresh_tool H rs k (length (rn_tools s)) (tool_run_finalized H (f now))"
  shows "holds P (bindS (recorded_now po) (\<lambda>now. bindS (liftS (build_tool H (f now))) (\<lambda>tool.
      bindS (modifyS (\<lambda>st. st\<lparr>rn_tools := rn_tools st @ [tool]\<rparr>)) (\<lambda>_. returnS tool))))
    (\<lambda>t s. \<exists>old. P old \<and> fresh_tool H rs k (length (rn_tools old)) t
             \<and> s = old\<lparr>rn_tools := rn_tools old @ [t]\<rparr>)
    (\<lambda>_. P)"
proof (rule holds_bind [OF recorded_now_holds [OF assms(1)]])
  show "holds P (bindS (liftS (build_tool H (f now))) (\<lambda>tool.
      bindS (modifyS (\<lambda>st. st\<lparr>rn_tools := rn_tools st @ [tool]\<rparr>)) (\<lambda>_. returnS tool)))
    (\<lambda>t s. \<exists>old. P old \<and> fresh_tool H rs k (length (rn_tools old)) t
             \<and> s = old\<lparr>rn_tools := rn_tools old @ [t]\<rparr>)
    (\<lambda>_. P)" for now
    using assms(2)
    by (auto simp: holds_def bindS_def modifyS_def returnS_def liftS_def dest!: build_Inr split: sum.splits)
qed

lemma record_tool_holds:
  assumes "world_free P"
  shows "holds P (record_tool H rs po k result request)
    (\<lambda>t s. \<exists>old. P old \<and> fresh_tool H rs k (length (rn_tools old)) t
             \<and> s = old\<lparr>rn_tools := rn_tools old @ [t]\<rparr>)
    (\<lambda>_. P)"
proof -
  let ?I = "\<lambda>n s. P s \<and> n = length (rn_tools s) + 1"
  have I: "world_free (?I n)" for n using assms by (auto simp: world_free_def)
  show ?thesis
    unfolding record_tool_def
    apply (rule holds_bind [where R = "\<lambda>_. P"])
     apply (rule holds_simple(3); assumption)
    apply (rule holds_bind [where R = "\<lambda>_. P"])
     apply (rule holds_simple(6); assumption)
    apply (rule holds_bind [where R = ?I])
     apply (rule holds_simple(4), simp)
    subgoal for hash _ n
      apply (rule holds_weaken [where P' = "?I n" and E' = "\<lambda>_. ?I n"])
         apply (rule holds_bind [OF store_keeps [OF I]])+
         apply (rule record_tool_tail [OF I, where k = k])
         apply (auto simp: fresh_tool_def tool_sealed_def)
      done
    done
qed

end
