(* ===== verification/Runner_Ledger.thy ===== *)
theory Runner_Ledger
  imports Runner_Frame
begin

text \<open>
  What admission and performance of an action leave in the locals of \<open>run\<close>: the state grows by
  the model call and at most one tool run, an admitted action reads only what the campaign
  holds, and an error that the loop catches leaves no tool run behind.
\<close>

section \<open>The invariant\<close>

text \<open>Every artifact the locals of \<open>run\<close> let a later action read.\<close>

definition holdings :: "'w runner_state \<Rightarrow> str set" where
  "holdings st = set (rn_available st) \<union> set (rn_programs st) \<union> set (rn_candidates st)
     \<union> set (rn_tool_artifacts st) \<union> set (rn_selected_tools st)"

definition ledger_inv :: "hexdigest \<Rightarrow> runner_setup \<Rightarrow> int \<Rightarrow> 'w runner_state \<Rightarrow> bool" where
  "ledger_inv H rs n st \<longleftrightarrow>
     closed_ledger H rs (rn_actions st) (rn_calls st) (rn_tools st)
     \<and> holdings st \<subseteq> ledger_base rs \<union> outputs_of (rn_actions st)
     \<and> int (length (rn_actions st)) = n \<and> int (length (rn_tools st)) \<le> rp_max_tool_runs (rs_policy rs)"

text \<open>\<open>st\<close> differs from \<open>st0\<close> by new calls, tool runs and holdings at most.\<close>

definition grown ::
  "'w runner_state \<Rightarrow> model_call_record list \<Rightarrow> tool_run_record list \<Rightarrow> str set
     \<Rightarrow> 'w runner_state \<Rightarrow> bool" where
  "grown st0 cs ts hs st \<longleftrightarrow>
     rn_actions st = rn_actions st0 \<and> rn_calls st = rn_calls st0 @ cs
     \<and> rn_tools st = rn_tools st0 @ ts \<and> holdings st \<subseteq> holdings st0 \<union> hs"

lemma world_update [simp]:
  "holdings (st\<lparr>rn_world := w\<rparr>) = holdings st"
  "action_inputs rs a (st\<lparr>rn_world := w\<rparr>) = action_inputs rs a st"
  "holdings (st\<lparr>rn_experiments := l\<rparr>) = holdings st"
  "action_inputs rs a (st\<lparr>rn_experiments := l\<rparr>) = action_inputs rs a st"
  by (simp_all add: holdings_def action_inputs_def cong: if_cong option.case_cong)

lemma grown_world [simp]: "grown st0 cs ts hs (st\<lparr>rn_world := w\<rparr>) = grown st0 cs ts hs st"
  by (simp add: grown_def)

lemma grown_world_free: "world_free (grown st0 cs ts hs)"
  by (simp add: world_free_def grown_def)

text \<open>No planner action names the hash of its own bytes.\<close>

definition no_self_name :: "hexdigest \<Rightarrow> bool" where
  "no_self_name H \<longleftrightarrow>
     (\<forall>raw a. parse_campaign_action raw = Inr a \<longrightarrow> ca_candidate a \<noteq> Some (raw_hash H raw))"

section \<open>Adding an action\<close>

lemma parents_known: "set (parent_ids st) \<subseteq> ac_action_id ` set (rn_actions st)"
  by (auto simp: parent_ids_def)

lemma outputs_last: "as \<noteq> [] \<Longrightarrow> set (ac_output_artifact_hashes (last as)) \<subseteq> outputs_of as"
  using last_in_set by (fastforce simp: outputs_of_def)

lemma prior_outputs_known: "set (prior_outputs rs st) \<subseteq> ledger_base rs \<union> outputs_of (rn_actions st)"
  using outputs_last [of "rn_actions st"] by (auto simp: prior_outputs_def)

lemma tool_names_snoc: "tool_names (ts @ [t]) \<longleftrightarrow> tool_names ts \<and> tr_tool_run_id t = ''tool.'' @ nat_str (length ts + 1)"
  by (simp add: tool_names_def)

text \<open>The state after an iteration: an action drafted from a grown state, with at most one new
  call and at most one new tool run, which it names.\<close>

lemma ledger_inv_step:
  assumes inv: "ledger_inv H rs n st0" and k: "k = n + 1"
    and old: "grown st0 cs ts hs old" and act: "drafted H rs k d (parent_ids old) a"
    and cs: "length cs \<le> 1" "\<forall>c \<in> set cs. fresh_call H rs k h c"
    and ts: "ts = [] \<or> (\<exists>t. ts = [t] \<and> fresh_tool H rs k (length (rn_tools st0)) t
               \<and> int (length (rn_tools st0)) < rp_max_tool_runs (rs_policy rs))"
    and ins: "set (ad_inputs d) \<subseteq> ledger_base rs \<union> outputs_of (rn_actions st0)"
    and src: "ad_sources d = map mc_call_id cs @ map tr_tool_run_id ts"
    and outs: "set (ad_outputs d) \<subseteq> mc_result_hash ` set cs \<union> (\<Union>t \<in> set ts. set (tool_hashes t))"
    and hs: "hs \<subseteq> set (ad_outputs d)"
    and st: "rn_actions st = rn_actions old @ [a]" "rn_calls st = rn_calls old" "rn_tools st = rn_tools old"
      "holdings st \<subseteq> holdings old \<union> set (ad_outputs d)"
  shows "ledger_inv H rs k st"
proof -
  let ?as = "rn_actions st0"
  have led: "closed_ledger H rs ?as (rn_calls st0) (rn_tools st0)" and len: "int (length ?as) = n"
    using inv by (simp_all add: ledger_inv_def)
  have old': "rn_actions old = ?as" "rn_calls old = rn_calls st0 @ cs" "rn_tools old = rn_tools st0 @ ts"
    "holdings old \<subseteq> holdings st0 \<union> hs"
    using old by (simp_all add: grown_def)
  have names: "tool_names (rn_tools st0)" using led by (simp add: closed_ledger_def)
  have "ledger_addition H rs ?as (rn_tools st0) a cs ts"
    unfolding ledger_addition_def
  proof (intro conjI)
    show "action_sealed H rs a" "ac_sequence a = int (length ?as) + 1" "length cs \<le> 1"
      using act k len cs by (simp_all add: drafted_def)
    show "set (ac_parent_action_ids a) \<subseteq> ac_action_id ` set ?as"
      using act parents_known [of old] old'(1) by (simp add: drafted_def)
    show "set (ac_input_artifact_hashes a) \<subseteq> ledger_base rs \<union> outputs_of ?as"
      using act ins by (simp add: drafted_def)
    show "\<forall>c \<in> set cs. call_sealed H rs c \<and> mc_action_id c = ac_action_id a"
      using act cs(2) by (simp add: drafted_def fresh_call_def)
    show "\<forall>t \<in> set ts. tool_sealed H rs t \<and> tr_action_id t = ac_action_id a"
      using act ts by (auto simp: drafted_def fresh_tool_def)
    show "tool_names (rn_tools st0 @ ts)"
      using names ts by (auto simp: tool_names_snoc fresh_tool_def)
    show "ac_source_record_ids a = map source_id (ledger_sources cs ts)"
      using act src by (simp add: drafted_def ledger_sources_def)
    show "set (ac_output_artifact_hashes a) \<subseteq> (\<Union>s \<in> set (ledger_sources cs ts). set (source_artifacts s))"
      using act outs by (auto simp: drafted_def ledger_sources_def tool_hashes_def)
  qed
  from closed_ledger_extend [OF led this]
  have "closed_ledger H rs (rn_actions st) (rn_calls st) (rn_tools st)" using st old' by simp
  moreover have "holdings st \<subseteq> ledger_base rs \<union> outputs_of (rn_actions st)"
    using st old' act hs inv by (auto simp: ledger_inv_def drafted_def)
  moreover have "int (length (rn_tools st)) \<le> rp_max_tool_runs (rs_policy rs)"
    using st old' ts inv by (auto simp: ledger_inv_def)
  ultimately show ?thesis using st old' len k by (simp add: ledger_inv_def)
qed

section \<open>Admission\<close>

text \<open>What a handler finds when an action is rejected: no new action, no new tool run, and the
  model call only together with its stored bytes.\<close>

definition rejectable :: "hexdigest \<Rightarrow> runner_setup \<Rightarrow> int \<Rightarrow> 'w runner_state \<Rightarrow> error \<Rightarrow> 'w runner_state \<Rightarrow> bool" where
  "rejectable H rs k st0 e st \<longleftrightarrow>
     is_runner_error e \<longrightarrow>
       (\<exists>cs. grown st0 cs [] {} st
          \<and> (cs = [] \<or> (\<exists>c h. cs = [c] \<and> rn_source st = Some h \<and> fresh_call H rs k h c)))"

text \<open>The state in which an admitted action is performed.\<close>

definition admitted ::
  "hexdigest \<Rightarrow> runner_setup \<Rightarrow> int \<Rightarrow> 'w runner_state \<Rightarrow> campaign_action \<Rightarrow> str \<Rightarrow> str list
     \<Rightarrow> model_call_record \<Rightarrow> 'w runner_state \<Rightarrow> bool" where
  "admitted H rs k st0 a h inputs c st \<longleftrightarrow>
     grown st0 [c] [] {} st \<and> rn_source st = Some h \<and> fresh_call H rs k h c
     \<and> action_inputs rs a st = Inr inputs \<and> set inputs \<subseteq> insert h (set (rn_available st))
     \<and> (ca_action_type a = InspectResult \<longrightarrow> ca_candidate a \<noteq> Some h)"

lemma admitted_world_free: "world_free (admitted H rs k st0 a h inputs c)"
  by (simp add: world_free_def admitted_def grown_def)

lemma rejectable_grown: "grown st0 [] [] {} st \<Longrightarrow> rejectable H rs k st0 e st"
  by (auto simp: rejectable_def)

lemma rejectable_admitted: "admitted H rs k st0 a h inputs c st \<Longrightarrow> rejectable H rs k st0 e st"
  by (auto simp: rejectable_def admitted_def)

lemma own_bytes:
  assumes "parse_campaign_action raw = Inr a" and "no_self_name H" and "model_source a raw = (source, media)"
    and "ca_action_type a = InspectResult"
  shows "ca_candidate a \<noteq> Some (raw_hash H source)"
proof (cases "ca_candidate a = None")
  case False
  have "carries a" using accepted_action_ok [OF assms(1)] by (simp add: action_ok_def)
  with False have "ca_program_source a = None" "ca_report_text a = None" "ca_note_text a = None"
    "ca_artifact_text a = None"
    using assms(4) by (auto simp: carries_def Let_def)
  then have "source = raw" using assms(3) by (simp add: model_source_def)
  with assms(1,2) show ?thesis by (simp add: no_self_name_def)
qed simp

text \<open>Rules that keep one assertion through the steps that read, guard or call a port.\<close>

lemma bind_keep:
  assumes "holds P m (\<lambda>_. P) E" and "\<And>x. holds P (f x) Q E"
  shows "holds P (bindS m f) Q E"
  using assms by (rule holds_bind)

lemma bind_to:
  assumes "holds P' m R E" and "\<And>s. P s \<Longrightarrow> P' s" and "\<And>x. holds (R x) (f x) Q E"
  shows "holds P (bindS m f) Q E"
  by (rule holds_bind [OF holds_weaken [OF assms(1)] assms(3)]) (auto simp: assms(2))

lemma holds_ex: "(\<And>c. holds (P c) m Q E) \<Longrightarrow> holds (\<lambda>s. \<exists>c. P c s) m Q E"
  by (auto simp: holds_def)

lemma bind_read:
  assumes "\<And>s. P s \<Longrightarrow> holds (\<lambda>s'. s' = s) (f (g s)) Q E"
  shows "holds P (bindS (readS g) f) Q E"
  using assms by (fastforce simp: holds_def bindS_def readS_def)

lemma bind_read_any:
  assumes "\<And>x. holds P (f x) Q E"
  shows "holds P (bindS (readS g) f) Q E"
  using assms by (auto simp: holds_def bindS_def readS_def)

lemma holds_False: "(\<And>s. \<not> P s) \<Longrightarrow> holds P m Q E"
  by (simp add: holds_def)

lemma bind_lift:
  assumes "\<And>x. r = Inr x \<Longrightarrow> holds P (f x) Q E" and "\<And>e s. r = Inl e \<Longrightarrow> P s \<Longrightarrow> E e s"
  shows "holds P (bindS (liftS r) f) Q E"
  using assms by (cases r) (auto simp: holds_def bindS_def liftS_def)

lemma bind_guard:
  assumes "ok \<Longrightarrow> holds P (f ()) Q E" and "\<And>s. \<not> ok \<Longrightarrow> P s \<Longrightarrow> E e s"
  shows "holds P (bindS (guardS ok e) f) Q E"
  using assms by (auto simp: holds_def bindS_def guardS_def ensure_def)

lemma bind_modify:
  assumes "holds (\<lambda>s'. \<exists>s. P s \<and> s' = g s) (f ()) Q E"
  shows "holds P (bindS (modifyS g) f) Q E"
  using assms by (fastforce simp: holds_def bindS_def modifyS_def)

lemma holds_precise:
  assumes "\<And>s. P s \<Longrightarrow> holds (\<lambda>s'. s' = s) m Q E"
  shows "holds P m Q E"
  using assms by (auto simp: holds_def)

text \<open>Model bytes are stored and the call that made them is recorded.\<close>

lemma store_and_call:
  fixes st0 :: "'w runner_state"
  assumes rest: "\<And>c. holds (\<lambda>s. grown st0 [c] [] {} s \<and> rn_source s = Some (raw_hash H source)
      \<and> fresh_call H rs k (raw_hash H source) c) (f (raw_hash H source)) Q (rejectable H rs k st0)"
  shows "holds (grown st0 [] [] {}) (bindS (store_artifact H po source media) (\<lambda>h.
      bindS (modifyS (\<lambda>st. st\<lparr>rn_source := Some h\<rparr>)) (\<lambda>_.
      bindS (append_call H rs po k context response h) (\<lambda>_. f h)))) Q (rejectable H rs k st0)"
proof -
  let ?h = "raw_hash H source"
  let ?P = "grown st0 [] [] {} :: 'w runner_state \<Rightarrow> bool"
  let ?S = "\<lambda>s. ?P s \<and> rn_source s = Some ?h"
  let ?C = "\<lambda>s. \<exists>c. grown st0 [c] [] {} s \<and> rn_source s = Some ?h \<and> fresh_call H rs k ?h c"
  have S: "world_free ?S" by (simp add: world_free_def)
  have call: "holds ?S (append_call H rs po k context response ?h) (\<lambda>_. ?C) (rejectable H rs k st0)"
    by (rule holds_weaken [OF append_call_holds [OF S]])
       (auto simp: grown_def holdings_def rejectable_def)
  have store: "holds ?P (store_artifact H po source media) (\<lambda>h s. ?P s \<and> h = ?h) (rejectable H rs k st0)"
    by (rule holds_weaken [OF store_artifact_holds [OF grown_world_free]]) (auto simp: rejectable_grown)
  show ?thesis
  proof (rule holds_bind [OF store])
    fix h
    show "holds (\<lambda>s. ?P s \<and> h = ?h) (bindS (modifyS (\<lambda>st. st\<lparr>rn_source := Some h\<rparr>)) (\<lambda>_.
        bindS (append_call H rs po k context response h) (\<lambda>_. f h))) Q (rejectable H rs k st0)"
    proof (cases "h = ?h")
      case True
      show ?thesis
        unfolding True
        by (rule bind_modify, rule bind_to [OF call], use holds_ex [OF rest] in
            \<open>auto simp: grown_def holdings_def\<close>)
    qed (simp add: holds_False)
  qed
qed

lemma admit_action_holds:
  assumes H: "no_self_name H"
  shows "holds (grown st0 [] [] {}) (admit_action H rs po k context response)
    (\<lambda>(a, h, inputs) s. ca_action_type a \<in> set supported_actions
        \<and> (\<exists>c. admitted H rs k st0 a h inputs c s)) (rejectable H rs k st0)"
  unfolding admit_action_def
proof (rule bind_lift, goal_cases)
  case (2 e s)
  then show ?case by (simp add: rejectable_grown)
next
  case (1 a)
  note parsed = 1
  have ty: "ca_action_type a \<in> set supported_actions"
    using accepted_action_ok [OF parsed] by (simp add: action_ok_def)
  obtain source media where src: "model_source a (pr_action_json response) = (source, media)" by fastforce
  let ?h = "raw_hash H source"
  have rest: "holds (\<lambda>s. grown st0 [c] [] {} s \<and> rn_source s = Some ?h \<and> fresh_call H rs k ?h c)
     (bindS (readS id) (\<lambda>st.
      bindS (liftS (action_inputs rs a st)) (\<lambda>inputs.
      bindS (guardS (\<forall>t. ca_action_type a = RunProgram \<longrightarrow> ca_tool_request a = Some t
                      \<longrightarrow> tq_program t \<in> set (rn_programs st)) err1) (\<lambda>_.
      bindS (guardS (set inputs \<subseteq> insert ?h (set (rn_available st))) err2) (\<lambda>_.
      returnS (a, ?h, inputs))))))
     (\<lambda>(a, h, inputs) s. ca_action_type a \<in> set supported_actions
        \<and> (\<exists>c. admitted H rs k st0 a h inputs c s)) (rejectable H rs k st0)" for c err1 err2
    using own_bytes [OF parsed H src] ty
    by (intro bind_read bind_lift bind_guard holds_simple) (auto simp: admitted_def rejectable_def)
  show ?case
    unfolding src prod.case
    by (rule bind_read_any, rule bind_guard, rule bind_guard, rule store_and_call, rule rest)
       (auto simp: rejectable_grown)
qed

section \<open>Performance\<close>

definition performed_ok ::
  "hexdigest \<Rightarrow> runner_setup \<Rightarrow> int \<Rightarrow> 'w runner_state \<Rightarrow> str \<Rightarrow> str list \<Rightarrow> model_call_record
     \<Rightarrow> performed \<Rightarrow> 'w runner_state \<Rightarrow> bool" where
  "performed_ok H rs k st0 h inputs c p st \<longleftrightarrow>
     (\<exists>ts. grown st0 [c] ts (insert h (set (fst (snd p)))) st \<and> fst p = map tr_tool_run_id ts
        \<and> fst (snd p) = concat (map tool_hashes ts)
        \<and> (ts = [] \<or> (\<exists>t. ts = [t] \<and> fresh_tool H rs k (length (rn_tools st0)) t
               \<and> int (length (rn_tools st0)) < rp_max_tool_runs (rs_policy rs))))
     \<and> set inputs \<subseteq> ledger_base rs \<union> holdings st0 \<and> fresh_call H rs k h c"

lemma inputs_plain:
  assumes "action_inputs rs a st = Inr inputs"
    and "ca_action_type a \<notin> {RunProgram, InspectResult, Verify}"
  shows "set inputs \<subseteq> ledger_base rs \<union> set (rn_available st)"
  using assms by (auto simp: action_inputs_def split: if_splits option.splits)

lemma admitted_holdings:
  "admitted H rs k st0 a h inputs c s \<Longrightarrow> holdings s \<subseteq> holdings st0"
  by (simp add: admitted_def grown_def)

lemma available_held: "set (rn_available s) \<subseteq> holdings s" "set (rn_programs s) \<subseteq> holdings s"
  "set (rn_candidates s) \<subseteq> holdings s" "set (rn_tool_artifacts s) \<subseteq> holdings s"
  "set (rn_selected_tools s) \<subseteq> holdings s"
  by (auto simp: holdings_def)

text \<open>An action that only adds its own artifact to the holdings.\<close>

lemma performed_plain:
  assumes "admitted H rs k st0 a h inputs c s" and "set inputs \<subseteq> ledger_base rs \<union> holdings st0"
    and "rn_actions s' = rn_actions s" "rn_calls s' = rn_calls s" "rn_tools s' = rn_tools s"
      "holdings s' \<subseteq> insert h (holdings s)"
  shows "performed_ok H rs k st0 h inputs c ([], [], status) s'"
  unfolding performed_ok_def
  using assms by (auto simp: admitted_def grown_def)

lemma plain_performed_holds:
  assumes "ca_action_type a \<notin> {RunProgram, InspectResult, Verify}"
    and "\<And>s. rn_actions (f s) = rn_actions s \<and> rn_calls (f s) = rn_calls s \<and> rn_tools (f s) = rn_tools s
          \<and> holdings (f s) \<subseteq> insert h (holdings s)"
  shows "holds (admitted H rs k st0 a h inputs c) (plain_performed f)
    (performed_ok H rs k st0 h inputs c) (rejectable H rs k st0)"
  unfolding plain_performed_def
proof (rule bind_modify, rule holds_simple(1), elim exE conjE)
  fix s s'
  assume adm: "admitted H rs k st0 a h inputs c s" and s': "s' = f s"
  have "set inputs \<subseteq> ledger_base rs \<union> set (rn_available s)"
    by (rule inputs_plain [OF _ assms(1)]) (use adm in \<open>simp add: admitted_def\<close>)
  then have "set inputs \<subseteq> ledger_base rs \<union> holdings st0"
    using available_held(1) [of s] admitted_holdings [OF adm] by blast
  with performed_plain [OF adm] assms(2) [of s]
  show "performed_ok H rs k st0 h inputs c ([], [], Completed) s'" by (simp add: s')
qed

lemma perform_write_holds:
  assumes "ca_action_type a = WriteProgram"
  shows "holds (admitted H rs k st0 a h inputs c) (perform_write rs a h)
    (performed_ok H rs k st0 h inputs c) (rejectable H rs k st0)"
  unfolding perform_write_def
  using assms
  by (intro holds_option holds_simple bind_guard plain_performed_holds)
     (auto simp: rejectable_admitted holdings_def)

lemma perform_note_holds:
  assumes "ca_action_type a = Note"
  shows "holds (admitted H rs k st0 a h inputs c) (perform_note a)
    (performed_ok H rs k st0 h inputs c) (rejectable H rs k st0)"
  unfolding perform_note_def
  using assms
  by (intro holds_option holds_simple plain_performed_holds) (auto simp: rejectable_admitted holdings_def)

lemma perform_read_holds:
  assumes "ca_action_type a = ReadArtifact"
  shows "holds (admitted H rs k st0 a h inputs c) (perform_read rs po a)
    (performed_ok H rs k st0 h inputs c) (rejectable H rs k st0)"
proof -
  have fin: "holds (admitted H rs k st0 a h inputs c)
      (bindS (modifyS (\<lambda>s. s\<lparr>rn_pending_read := p\<rparr>)) (\<lambda>_. returnS ([], [], Completed)))
      (performed_ok H rs k st0 h inputs c) (rejectable H rs k st0)" for p
    using plain_performed_holds [of a "\<lambda>s. s\<lparr>rn_pending_read := p\<rparr>" h H rs k st0 inputs c] assms
    by (auto simp: plain_performed_def holdings_def)
  have get: "holds (admitted H rs k st0 a h inputs c)
      (case f of Some content \<Rightarrow> returnS content
       | None \<Rightarrow> if b then get_artifact po x else raiseS e)
      (\<lambda>_. admitted H rs k st0 a h inputs c) (rejectable H rs k st0)" for f b x e
    by (intro holds_option holds_if holds_simple
        holds_weaken [OF get_artifact_holds [OF admitted_world_free]])
       (auto simp: rejectable_admitted)
  show ?thesis
    unfolding perform_read_def
    by (intro holds_option holds_simple bind_read_any bind_keep [OF get] fin) (simp add: rejectable_admitted)
qed

lemma perform_inspect_holds:
  assumes "ca_action_type a = InspectResult"
  shows "holds (admitted H rs k st0 a h inputs c) (perform_inspect a h)
    (performed_ok H rs k st0 h inputs c) (rejectable H rs k st0)"
  unfolding perform_inspect_def
proof (rule bind_read, rule bind_guard, goal_cases)
  case (1 st)
  note adm = 1(1) and tools = 1(2)
  have inputs: "set inputs \<subseteq> set (opt_list (ca_candidate a)) \<union> set (ca_tools a)"
    using adm assms by (auto simp: admitted_def action_inputs_def nonempty_def)
  have tools': "set (ca_tools a) \<subseteq> holdings st"
    using tools available_held(4) [of st] by auto
  note held = admitted_holdings [OF adm]
  have "set (opt_list (ca_candidate a)) \<inter> set inputs \<subseteq> holdings st"
    using adm assms available_held(1) [of st] by (cases "ca_candidate a") (auto simp: admitted_def)
  with inputs tools' held have ins: "set inputs \<subseteq> ledger_base rs \<union> holdings st0" by blast
  show ?case
  proof (intro holds_option holds_simple bind_guard bind_modify, goal_cases)
    case (2 chosen s)
    let ?s = "st\<lparr>rn_candidates := chosen # rn_candidates st, rn_candidate := Some chosen,
      rn_selected_tools := ca_tools a,
      rn_selected_unverified := (\<exists>t \<in> set (ca_tools a). map_of (rn_determinism st) t = Some True)\<rparr>"
    have "chosen \<in> insert h (holdings st)" using 2 available_held(3) [of st] by auto
    then have "holdings ?s \<subseteq> insert h (holdings st)"
      using tools' available_held [of st] by (auto simp: holdings_def)
    with 2 show ?case using performed_plain [OF adm ins, of ?s Completed] by auto
  qed (use adm in \<open>auto simp: rejectable_admitted\<close>)
qed (simp add: rejectable_admitted)

text \<open>Both tool runs: the port is called, its result is recorded, and the locals take it up.\<close>

lemma tool_run_holds:
  assumes ins: "set inputs \<subseteq> ledger_base rs \<union> holdings st0"
    and room: "int (length (rn_tools st0)) < rp_max_tool_runs (rs_policy rs)"
    and upd: "\<And>t r s. rn_actions (f t r s) = rn_actions s \<and> rn_calls (f t r s) = rn_calls s
      \<and> rn_tools (f t r s) = rn_tools s \<and> holdings (f t r s) \<subseteq> holdings s \<union> set (tool_hashes t)"
  shows "holds (admitted H rs k st0 a h inputs c)
    (bindS (call_port g) (\<lambda>r. bindS (record_tool H rs po k r (v r)) (\<lambda>t.
     bindS (modifyS (f t r)) (\<lambda>_. returnS (tool_performed t r)))))
    (performed_ok H rs k st0 h inputs c) (rejectable H rs k st0)"
proof (rule holds_bind [where R = "\<lambda>_. admitted H rs k st0 a h inputs c",
      OF holds_weaken [OF call_port_holds [OF admitted_world_free]]])
  fix r
  let ?Q = "\<lambda>t s. \<exists>old. admitted H rs k st0 a h inputs c old
     \<and> fresh_tool H rs k (length (rn_tools old)) t \<and> s = old\<lparr>rn_tools := rn_tools old @ [t]\<rparr>"
  show "holds (admitted H rs k st0 a h inputs c) (bindS (record_tool H rs po k r (v r)) (\<lambda>t.
     bindS (modifyS (f t r)) (\<lambda>_. returnS (tool_performed t r))))
    (performed_ok H rs k st0 h inputs c) (rejectable H rs k st0)"
  proof (rule holds_bind [where R = ?Q, OF holds_weaken [OF record_tool_holds [OF admitted_world_free]]])
    show "holds (?Q t) (bindS (modifyS (f t r)) (\<lambda>_. returnS (tool_performed t r)))
      (performed_ok H rs k st0 h inputs c) (rejectable H rs k st0)" for t
    proof (rule bind_modify, rule holds_simple(1), elim exE conjE)
      fix s s' old
      assume adm: "admitted H rs k st0 a h inputs c old" and new: "fresh_tool H rs k (length (rn_tools old)) t"
        and s: "s = old\<lparr>rn_tools := rn_tools old @ [t]\<rparr>" and s': "s' = f t r s"
      have "holdings s = holdings old" by (simp add: s holdings_def)
      with upd [of t r s] adm have "grown st0 [c] [t] (insert h (set (tool_hashes t))) s'"
        by (auto simp: s s' admitted_def grown_def)
      moreover have "rn_tools old = rn_tools st0" "fresh_call H rs k h c"
        using adm by (simp_all add: admitted_def grown_def)
      ultimately show "performed_ok H rs k st0 h inputs c (tool_performed t r) s'"
        using ins new room by (auto simp: performed_ok_def tool_performed_def)
    qed
  qed (auto simp: rejectable_admitted)
qed (auto intro: rejectable_admitted)

lemma get_artifact_admitted:
  "holds (admitted H rs k st0 a h inputs c) (get_artifact po x)
     (\<lambda>_. admitted H rs k st0 a h inputs c) (rejectable H rs k st0)"
  by (rule holds_weaken [OF get_artifact_holds [OF admitted_world_free]]) (auto intro: rejectable_admitted)

lemma get_artifacts_admitted:
  "holds (admitted H rs k st0 a h inputs c) (get_artifacts po hs)
     (\<lambda>_. admitted H rs k st0 a h inputs c) (rejectable H rs k st0)"
  by (rule holds_weaken [OF get_artifacts_holds [OF admitted_world_free]]) (auto intro: rejectable_admitted)

lemma admit_experiment_holds:
  assumes "ca_action_type a = RunProgram"
  shows "holds (admitted H rs k st0 a h inputs c) (admit_experiment rs po k a)
    (\<lambda>_ s. admitted H rs k st0 a h inputs c s \<and> set inputs \<subseteq> ledger_base rs \<union> holdings st0
           \<and> int (length (rn_tools st0)) < rp_max_tool_runs (rs_policy rs))
    (rejectable H rs k st0)"
  unfolding admit_experiment_def
proof (intro holds_option holds_simple bind_read bind_lift, goal_cases)
  case (2 t st u)
  note adm = 2(2)
  have g: "tq_program t \<in> set (rn_programs st)" "set (tq_inputs t) \<subseteq> set (rn_available st)"
    "int (length (rn_tools st)) < rp_max_tool_runs (rs_policy rs)"
    using 2(3) by (auto simp: checks_Inr)
  have "inputs = tq_program t # tq_inputs t"
    using adm 2(1) assms by (simp add: admitted_def action_inputs_def)
  with g available_held [of st] admitted_holdings [OF adm]
  have ins: "set inputs \<subseteq> ledger_base rs \<union> holdings st0" by auto
  have room: "int (length (rn_tools st0)) < rp_max_tool_runs (rs_policy rs)"
    using g(3) adm by (simp add: admitted_def grown_def)
  show ?case
    by (rule holds_weaken [where P' = "admitted H rs k st0 a h inputs c"
          and Q' = "\<lambda>_. admitted H rs k st0 a h inputs c" and E' = "rejectable H rs k st0"])
       (use adm ins room in \<open>auto intro!: bind_keep [OF get_artifacts_admitted]
          bind_keep [OF get_artifact_admitted] holds_simple\<close>)
qed (auto simp: rejectable_admitted)

lemma perform_run_holds:
  assumes "ca_action_type a = RunProgram"
  shows "holds (admitted H rs k st0 a h inputs c) (perform_run H rs po k a)
    (performed_ok H rs k st0 h inputs c) (rejectable H rs k st0)"
  unfolding perform_run_def
proof (rule holds_bind [OF admit_experiment_holds [OF assms]], rule holds_precise, goal_cases)
  case (1 request s)
  show ?case
    by (rule bind_modify,
        rule holds_weaken [OF tool_run_holds [where inputs = inputs and ?st0.0 = st0 and rs = rs and a = a and c = c and h = h]])
       (use 1 in \<open>auto simp: admitted_def grown_def, auto simp: holdings_def\<close>)
qed

lemma admit_verification_holds:
  assumes "ca_action_type a = Verify"
  shows "holds (admitted H rs k st0 a h inputs c) (admit_verification rs po k a)
    (\<lambda>_ s. admitted H rs k st0 a h inputs c s \<and> set inputs \<subseteq> ledger_base rs \<union> holdings st0
           \<and> int (length (rn_tools st0)) < rp_max_tool_runs (rs_policy rs))
    (rejectable H rs k st0)"
  unfolding admit_verification_def
proof (intro holds_option holds_simple bind_read bind_lift bind_guard, goal_cases)
  case (2 st u x)
  note adm = 2(1)
  have "set inputs \<subseteq> insert x (set (rn_selected_tools st))" "x \<in> set (rn_candidates st)"
    using adm 2 assms by (auto simp: admitted_def action_inputs_def nonempty_def split: if_splits)
  with available_held(3,5) [of st] admitted_holdings [OF adm]
  have ins: "set inputs \<subseteq> ledger_base rs \<union> holdings st0" by blast
  have room: "int (length (rn_tools st0)) < rp_max_tool_runs (rs_policy rs)"
    using 2(2) adm by (simp add: admitted_def grown_def checks_Inr)
  show ?case
    by (rule holds_weaken [where P' = "admitted H rs k st0 a h inputs c"
          and Q' = "\<lambda>_. admitted H rs k st0 a h inputs c" and E' = "rejectable H rs k st0"])
       (use adm ins room in \<open>auto intro!: bind_keep [OF get_artifacts_admitted]
          bind_keep [OF get_artifact_admitted] holds_simple\<close>)
qed (auto simp: rejectable_admitted)

lemma perform_verify_holds:
  assumes "ca_action_type a = Verify"
  shows "holds (admitted H rs k st0 a h inputs c) (perform_verify H rs po k a)
    (performed_ok H rs k st0 h inputs c) (rejectable H rs k st0)"
  unfolding perform_verify_def
proof (rule holds_bind [OF admit_verification_holds [OF assms]], rule holds_precise, goal_cases)
  case (1 request s)
  show ?case
    by (rule holds_weaken [OF tool_run_holds [where inputs = inputs and ?st0.0 = st0 and rs = rs and a = a and c = c and h = h]])
       (use 1 in \<open>auto simp: holdings_def\<close>)
qed

lemma perform_planned_holds:
  assumes "ca_action_type a \<in> set supported_actions"
  shows "holds (admitted H rs k st0 a h inputs c) (perform_planned H rs po k a h)
    (performed_ok H rs k st0 h inputs c) (rejectable H rs k st0)"
  using assms
  by (cases "ca_action_type a")
     (auto simp: perform_planned_def supported_actions_def holdings_def
       intro!: plain_performed_holds
       intro: perform_write_holds perform_run_holds perform_inspect_holds perform_verify_holds
         perform_read_holds perform_note_holds)

end
