(* ===== verification/Runner_Closed.thy ===== *)
theory Runner_Closed
  imports Runner_Ledger
begin

text \<open>
  The ledger is closed after every iteration of \<open>run\<close>: an admitted action, a failed or refused
  planner call and a rejected action each add one action with the source records it names.
  Hence every ledger that \<open>run\<close> returns can be exported, and keeps the bounds of the policy.
\<close>

section \<open>Ending an iteration\<close>

lemma performed_world_free: "world_free (performed_ok H rs k st0 h inputs c p)"
  by (simp add: world_free_def performed_ok_def)

lemma base_holdings:
  assumes "ledger_inv H rs n st0" and "X \<subseteq> ledger_base rs \<union> holdings st0"
  shows "X \<subseteq> ledger_base rs \<union> outputs_of (rn_actions st0)"
  using assms by (auto simp: ledger_inv_def)

lemma ledger_inv_update:
  "ledger_inv H rs n (st\<lparr>rn_world := w\<rparr>) = ledger_inv H rs n st"
  "ledger_inv H rs n (st\<lparr>rn_terminal := x\<rparr>) = ledger_inv H rs n st"
  "ledger_inv H rs n (st\<lparr>rn_branch_status := b\<rparr>) = ledger_inv H rs n st"
  "ledger_inv H rs n (st\<lparr>rn_last_rejection := r\<rparr>) = ledger_inv H rs n st"
  by (simp_all add: ledger_inv_def holdings_def)

lemma ledger_inv_world_free: "world_free (ledger_inv H rs n)"
  by (simp add: world_free_def ledger_inv_update)

lemma checkpoint_inv:
  assumes "quiet_checkpoints po"
  shows "holds (ledger_inv H rs n) (checkpoint_done po i m status r) (\<lambda>_. ledger_inv H rs n)
    (\<lambda>e _. \<not> is_runner_error e)"
  by (rule checkpoint_done_holds [OF ledger_inv_world_free assms])

lemma finish_record_holds:
  assumes inv: "ledger_inv H rs n st0" and k: "k = n + 1" and q: "quiet_checkpoints po"
  shows "holds (performed_ok H rs k st0 h inputs c p) (finish_record H rs po k intent a h inputs p)
    (\<lambda>_. ledger_inv H rs k) (\<lambda>e _. \<not> is_runner_error e)"
proof -
  obtain sources outputs status where p: "p = (sources, outputs, status)" by (cases p)
  show ?thesis
    unfolding finish_record_def p prod.case
  proof (rule holds_bind [OF append_action_holds [OF performed_world_free]], rule bind_modify,
      rule holds_weaken [where P' = "ledger_inv H rs k" and Q' = "\<lambda>_. ledger_inv H rs k"
        and E' = "\<lambda>e _. \<not> is_runner_error e"], goal_cases)
    case (1 rec)
    show ?case by (rule bind_keep [OF checkpoint_inv [OF q]], rule holds_simple(1))
  next
    case (2 rec s)
    then obtain s1 old where old: "performed_ok H rs k st0 h inputs c (sources, outputs, status) old"
      and d: "drafted H rs k \<lparr>ad_branch = ca_branch_id a, ad_type = ca_action_type a, ad_actor_type = ModelActor,
        ad_actor = rs_planner_actor_id rs, ad_inputs = dedup inputs,
        ad_sources = sequence_id ''call.'' k # sources, ad_outputs = dedup (h # outputs),
        ad_status = status, ad_rationale = ca_rationale a\<rparr> (parent_ids old) rec"
      and s1: "s1 = old\<lparr>rn_actions := rn_actions old @ [rec]\<rparr>"
      and s: "s = s1\<lparr>rn_branch_status :=
           AList.update (ac_branch_id rec) (status_value (ac_status rec)) (rn_branch_status s1),
         rn_available := rn_available s1 @
           filter (\<lambda>o'. o' \<notin> set (rn_private s1)) (ac_output_artifact_hashes rec),
         rn_rejections := 0, rn_last_rejection := None\<rparr>"
      by blast
    from old obtain ts where ts: "grown st0 [c] ts (insert h (set outputs)) old"
      "sources = map tr_tool_run_id ts" "outputs = concat (map tool_hashes ts)"
      "ts = [] \<or> (\<exists>t. ts = [t] \<and> fresh_tool H rs k (length (rn_tools st0)) t
               \<and> int (length (rn_tools st0)) < rp_max_tool_runs (rs_policy rs))"
      and ins: "set inputs \<subseteq> ledger_base rs \<union> holdings st0" and c: "fresh_call H rs k h c"
      unfolding performed_ok_def fst_conv snd_conv by blast
    have outs: "ac_output_artifact_hashes rec = dedup (h # outputs)" using d by (simp add: drafted_def)
    show ?case
      by (rule ledger_inv_step [OF inv k ts(1) d, where h = h])
         (use c ts(2-4) base_holdings [OF inv ins] outs in
           \<open>auto simp: s s1 fresh_call_def holdings_def simp del: dedup.simps\<close>)
  qed simp_all
qed

text \<open>A draft of a system action on an unchanged ledger, with the call \<open>cs\<close>.\<close>

lemma append_system_holds:
  assumes inv: "ledger_inv H rs n st0" and k: "k = n + 1"
    and cs: "length cs \<le> 1" "\<forall>c \<in> set cs. fresh_call H rs k h c"
    and d: "ad_inputs d = prior_outputs rs st0" "ad_sources d = map mc_call_id cs"
      "set (ad_outputs d) \<subseteq> mc_result_hash ` set cs"
  shows "holds (grown st0 cs [] {}) (append_action H rs po k d) (\<lambda>_. ledger_inv H rs k)
    (\<lambda>e _. \<not> is_runner_error e)"
proof (rule holds_weaken [OF append_action_holds [OF grown_world_free]], assumption)
  fix a s
  assume "\<exists>old. grown st0 cs [] {} old \<and> drafted H rs k d (parent_ids old) a
      \<and> s = old\<lparr>rn_actions := rn_actions old @ [a]\<rparr>"
  then obtain old where old: "grown st0 cs [] {} old" "drafted H rs k d (parent_ids old) a"
    and s: "s = old\<lparr>rn_actions := rn_actions old @ [a]\<rparr>" by blast
  show "ledger_inv H rs k s"
    by (rule ledger_inv_step [OF inv k old cs])
       (use d prior_outputs_known [of rs st0] in \<open>auto simp: s holdings_def\<close>)
qed simp

lemma grown_prior: "grown st0 cs ts hs st \<Longrightarrow> prior_outputs rs st = prior_outputs rs st0"
  by (simp add: grown_def prior_outputs_def)

lemma end_terminal_holds:
  assumes "quiet_checkpoints po"
  shows "holds (ledger_inv H rs k) (bindS (modifyS (\<lambda>st. st\<lparr>rn_terminal := terminal\<rparr>))
      (\<lambda>_. bindS (checkpoint_done po intent k status r) (\<lambda>_. returnS True)))
      (\<lambda>_. ledger_inv H rs k) (\<lambda>e _. \<not> is_runner_error e)"
  by (rule bind_modify, rule holds_weaken [where P' = "ledger_inv H rs k"])
     (auto simp: ledger_inv_update intro!: bind_keep [OF checkpoint_inv [OF assms]] holds_simple)

lemma planner_refused_holds:
  assumes "ledger_inv H rs n st0" and "k = n + 1" and q: "quiet_checkpoints po"
  shows "holds (grown st0 [] [] {}) (planner_refused H rs po k intent rationale terminal)
    (\<lambda>_. ledger_inv H rs k) (\<lambda>e _. \<not> is_runner_error e)"
  unfolding planner_refused_def
proof (rule bind_read, goal_cases)
  case (1 s)
  show ?case
    by (rule bind_to [OF append_system_holds [OF assms(1,2), of "[]"]])
       (use 1 in \<open>auto simp: system_draft_def grown_prior intro: end_terminal_holds [OF q]\<close>)
qed

lemma not_caught: "\<not> is_runner_error e \<Longrightarrow> rejectable H rs k st0 e s"
  by (simp add: rejectable_def)

lemma planner_failed_holds:
  assumes inv: "ledger_inv H rs n st0" and k: "k = n + 1" and q: "quiet_checkpoints po"
  shows "holds (grown st0 [] [] {}) (planner_failed H rs po k intent context response)
    (\<lambda>_. ledger_inv H rs k) (rejectable H rs k st0)"
  unfolding planner_failed_def Let_def
proof (rule bind_guard, rule store_and_call, rule bind_read, goal_cases)
  case (1 c s)
  let ?h = "raw_hash H (result_or_unavailable response)"
  show ?case
    by (rule holds_weaken [where P' = "\<lambda>s'. s' = s" and E' = "\<lambda>e _. \<not> is_runner_error e"],
        rule bind_to [OF append_system_holds [OF inv k, of "[c]" ?h]])
       (use 1 in \<open>auto simp: system_draft_def grown_prior fresh_call_def intro: end_terminal_holds [OF q] not_caught\<close>)
qed (auto simp: rejectable_grown)

section \<open>Rejection\<close>

lemma next_names_fresh:
  assumes inv: "ledger_inv H rs n st0" and k: "k = n + 1"
  shows "sequence_id ''call.'' k \<notin> mc_call_id ` set (rn_calls st0)" and "tools_of k st0 = []"
proof -
  have led: "closed_ledger H rs (rn_actions st0) (rn_calls st0) (rn_tools st0)"
    and len: "int (length (rn_actions st0)) = n" using inv by (simp_all add: ledger_inv_def)
  have fresh: "sequence_id ''action.'' k \<notin> ac_action_id ` set (rn_actions st0)"
    using fresh_name [OF led, of "undefined\<lparr>ac_action_id := sequence_id ''action.'' k, ac_sequence := k\<rparr>"] k len
    by (simp add: named_action_def)
  then show "tools_of k st0 = []"
    using led by (force simp: tools_of_def closed_ledger_def filter_empty_conv)
  show "sequence_id ''call.'' k \<notin> mc_call_id ` set (rn_calls st0)"
  proof
    assume "sequence_id ''call.'' k \<in> mc_call_id ` set (rn_calls st0)"
    then obtain c where "c \<in> set (rn_calls st0)" "mc_call_id c = sequence_id ''call.'' k" by auto
    then have "mc_action_id c = sequence_id ''action.'' k"
      "mc_action_id c \<in> ac_action_id ` set (rn_actions st0)"
      using led by (auto simp: closed_ledger_def call_sealed_def sequence_id_def)
    with fresh show False by simp
  qed
qed

definition with_call :: "hexdigest \<Rightarrow> runner_setup \<Rightarrow> int \<Rightarrow> 'w runner_state \<Rightarrow> str \<Rightarrow> 'w runner_state \<Rightarrow> bool" where
  "with_call H rs k st0 h st \<longleftrightarrow> (\<exists>c. grown st0 [c] [] {} st \<and> fresh_call H rs k h c)"

text \<open>The call may not have been recorded yet.\<close>

definition maybe_call :: "hexdigest \<Rightarrow> runner_setup \<Rightarrow> int \<Rightarrow> 'w runner_state \<Rightarrow> str \<Rightarrow> 'w runner_state \<Rightarrow> bool" where
  "maybe_call H rs k st0 h st \<longleftrightarrow> grown st0 [] [] {} st \<or> with_call H rs k st0 h st"

lemma maybe_call_world_free: "world_free (maybe_call H rs k st0 h)"
  by (simp add: world_free_def maybe_call_def with_call_def)

lemma rejected_source_holds:
  "holds (\<lambda>s. is_runner_error e \<and> rejectable H rs k st0 e s) (rejected_source H rs po response rejection)
    (maybe_call H rs k st0) (\<lambda>_ _. True)"
  unfolding rejected_source_def Let_def
proof (rule bind_read, rule holds_option, goal_cases)
  case (2 s h)
  then have "maybe_call H rs k st0 h s"
    by (auto simp: rejectable_def maybe_call_def with_call_def)
  then show ?case by (auto intro: holds_simple)
next
  case (1 s)
  then have g: "grown st0 [] [] {} s" by (auto simp: rejectable_def)
  show ?case
  proof (rule bind_guard)
    show "holds (\<lambda>s'. s' = s) (bindS (store_artifact H po (result_or_unavailable response) planner_media)
        (\<lambda>h. bindS (modifyS (\<lambda>st. st\<lparr>rn_source := Some h\<rparr>)) (\<lambda>_. returnS h)))
        (maybe_call H rs k st0) (\<lambda>_ _. True)"
      by (rule bind_to [OF holds_weaken [where E = "\<lambda>_ _. True" and Q = "\<lambda>_. grown st0 [] [] {}",
            OF store_keeps [OF grown_world_free]]], assumption)
         (use g in \<open>auto intro!: bind_modify holds_simple simp: maybe_call_def grown_def holdings_def\<close>)
  qed simp
qed

lemma record_rejection_end:
  assumes q: "quiet_checkpoints po"
  shows "holds (ledger_inv H rs k) (bindS (modifyS (\<lambda>st. st\<lparr>rn_branch_status := f st\<rparr>)) (\<lambda>_.
      bindS (checkpoint_done po intent k status r) (\<lambda>_.
      bindS (modifyS (\<lambda>st. if x then st\<lparr>rn_terminal := t\<rparr> else st\<lparr>rn_last_rejection := l\<rparr>)) (\<lambda>_.
      returnS x)))) (\<lambda>_. ledger_inv H rs k) (\<lambda>_ _. True)"
proof (rule bind_modify, rule bind_to [where P' = "ledger_inv H rs k" and R = "\<lambda>_. ledger_inv H rs k"])
  show "holds (ledger_inv H rs k) (checkpoint_done po intent k status r) (\<lambda>_. ledger_inv H rs k) (\<lambda>_ _. True)"
    by (rule holds_weaken [OF checkpoint_inv [OF q]]) auto
  show "holds (ledger_inv H rs k)
      (bindS (modifyS (\<lambda>st. if x then st\<lparr>rn_terminal := t\<rparr> else st\<lparr>rn_last_rejection := l\<rparr>)) (\<lambda>_. returnS x))
      (\<lambda>_. ledger_inv H rs k) (\<lambda>_ _. True)"
    by (auto intro!: bind_modify holds_simple simp: ledger_inv_update)
qed (auto simp: ledger_inv_update)

lemma record_rejection_holds:
  assumes inv: "ledger_inv H rs n st0" and k: "k = n + 1" and q: "quiet_checkpoints po"
  shows "holds (with_call H rs k st0 h) (record_rejection H rs po k intent rejection h)
    (\<lambda>_. ledger_inv H rs k) (\<lambda>_ _. True)"
  unfolding record_rejection_def with_call_def
proof (rule holds_ex, rule bind_read, rule bind_modify, rule bind_read_any, rule bind_read, goal_cases)
  case (1 c s exhausted s2)
  have "tools_of k s = []"
    using next_names_fresh(2) [OF inv k] 1(1) by (simp add: tools_of_def grown_def)
  moreover have "prior_outputs rs s2 = prior_outputs rs st0" "grown st0 [c] [] {} s2"
    using 1 by (auto simp: grown_prior grown_def holdings_def prior_outputs_def)
  moreover have "holds (grown st0 [c] [] {}) (append_action H rs po k (system_draft SystemActor
        ''system.campaign-runner'' (prior_outputs rs st0) [sequence_id ''call.'' k] (dedup [h]) Failed rationale))
      (\<lambda>_. ledger_inv H rs k) (\<lambda>_ _. True)" for rationale
    by (rule holds_weaken [OF append_system_holds [OF inv k, of "[c]" h]])
       (use 1 in \<open>auto simp: system_draft_def fresh_call_def\<close>)
  ultimately show ?case
    by (auto intro!: bind_to [OF _ _ record_rejection_end [OF q]])
qed

lemma reject_action_holds:
  assumes inv: "ledger_inv H rs n st0" and k: "k = n + 1" and q: "quiet_checkpoints po"
  shows "holds (\<lambda>s. is_runner_error e \<and> rejectable H rs k st0 e s)
    (reject_action H rs po k intent context response rejection) (\<lambda>_. ledger_inv H rs k) (\<lambda>_ _. True)"
  unfolding reject_action_def
proof (rule holds_bind [OF rejected_source_holds], rule bind_read, goal_cases)
  case (1 h s)
  have call: "holds (grown st0 [] [] {}) (append_call H rs po k context response h)
      (\<lambda>_. with_call H rs k st0 h) (\<lambda>_ _. True)"
    by (rule holds_weaken [OF append_call_holds [OF grown_world_free [of st0 "[]" "[]" "{}"]]])
       (auto simp: with_call_def grown_def holdings_def)
  show ?case
  proof (rule bind_to [OF _ _ record_rejection_holds [OF inv k q]])
    show "holds (\<lambda>s'. s' = s) (if sequence_id ''call.'' k \<in> mc_call_id ` set (rn_calls s) then returnS ()
        else append_call H rs po k context response h) (\<lambda>_. with_call H rs k st0 h) (\<lambda>_ _. True)"
    proof (cases "grown st0 [] [] {} s")
      case True
      then have "sequence_id ''call.'' k \<notin> mc_call_id ` set (rn_calls s)"
        using next_names_fresh(1) [OF inv k] by (simp add: grown_def)
      with True show ?thesis by (auto intro: holds_weaken [OF call])
    next
      case False
      with 1 obtain c where "grown st0 [c] [] {} s" "fresh_call H rs k h c"
        by (auto simp: maybe_call_def with_call_def)
      moreover from this have "sequence_id ''call.'' k \<in> mc_call_id ` set (rn_calls s)"
        by (simp add: grown_def fresh_call_def)
      ultimately show ?thesis by (auto simp: with_call_def intro!: holds_simple)
    qed
  qed
qed

section \<open>The iteration and the loop\<close>

lemma execute_action_holds:
  assumes H: "no_self_name H" and inv: "ledger_inv H rs n st0" and k: "k = n + 1" and q: "quiet_checkpoints po"
  shows "holds (grown st0 [] [] {}) (execute_action H rs po k intent context response)
    (\<lambda>_. ledger_inv H rs k) (rejectable H rs k st0)"
  unfolding execute_action_def
proof (rule holds_if, rule planner_failed_holds [OF inv k q],
    rule holds_bind [OF admit_action_holds [OF H]], goal_cases)
  case (1 x)
  obtain a h inputs where x: "x = (a, h, inputs)" by (cases x)
  show ?case
    unfolding x prod.case
  proof (cases "ca_action_type a \<in> set supported_actions")
    case True
    have "holds (admitted H rs k st0 a h inputs c)
        (bindS (perform_planned H rs po k a h) (finish_record H rs po k intent a h inputs))
        (\<lambda>_. ledger_inv H rs k) (rejectable H rs k st0)" for c
      by (rule holds_bind [OF perform_planned_holds [OF True]],
          rule holds_weaken [OF finish_record_holds [OF inv k q]]) (auto intro: not_caught)
    from holds_ex [OF this] True
    show "holds (\<lambda>s. ca_action_type a \<in> set supported_actions
          \<and> (\<exists>c. admitted H rs k st0 a h inputs c s))
        (bindS (perform_planned H rs po k a h) (finish_record H rs po k intent a h inputs))
        (\<lambda>_. ledger_inv H rs k) (rejectable H rs k st0)" by simp
  qed (simp add: holds_False)
qed

lemma planner_intent_holds:
  assumes "world_free P"
  shows "holds P (planner_intent rs po k context) (\<lambda>_. P) (\<lambda>_ _. True)"
proof -
  have port: "holds P (call_port f) (\<lambda>_. P) (\<lambda>_ _. True)" for f
    by (rule holds_weaken [OF call_port_holds [OF assms]]) auto
  show ?thesis
    unfolding planner_intent_def Let_def
    by (intro holds_option holds_simple bind_guard bind_keep [OF recorded_now_holds [OF assms]] bind_keep [OF port]) auto
qed

lemma runner_step_holds:
  assumes H: "no_self_name H" and k: "k = n + 1" and q: "quiet_checkpoints po"
  shows "holds (ledger_inv H rs n) (runner_step H rs po k) (\<lambda>_. ledger_inv H rs k) (\<lambda>_ _. True)"
  unfolding runner_step_def
proof (rule bind_read, rule bind_modify, goal_cases)
  case (1 st0)
  note inv = 1
  let ?P = "grown st0 [] [] {}"
  have answer: "holds ?P (case answer of
       Inl e \<Rightarrow> (case refusal_of e of None \<Rightarrow> raiseS e
          | Some (rationale, terminal) \<Rightarrow> planner_refused H rs po k intent rationale terminal)
     | Inr response \<Rightarrow>
         catchS (execute_action H rs po k intent ctx response) (\<lambda>e.
           if is_runner_error e then reject_action H rs po k intent ctx response e else raiseS e))
     (\<lambda>_. ledger_inv H rs k) (\<lambda>_ _. True)" for answer intent ctx
  proof (cases answer)
    case (Inl e)
    have "holds ?P (planner_refused H rs po k intent rationale terminal) (\<lambda>_. ledger_inv H rs k) (\<lambda>_ _. True)"
      for rationale terminal
      by (rule holds_weaken [OF planner_refused_holds [OF inv k q]]) auto
    with Inl show ?thesis by (auto split: option.split intro: holds_simple)
  next
    case (Inr response)
    have "holds ?P (catchS (execute_action H rs po k intent ctx response) (\<lambda>e.
           if is_runner_error e then reject_action H rs po k intent ctx response e else raiseS e))
         (\<lambda>_. ledger_inv H rs k) (\<lambda>_ _. True)"
      by (rule holds_catch [OF execute_action_holds [OF H inv k q]], rule holds_if,
          rule holds_weaken [OF reject_action_holds [OF inv k q]]) (auto intro: holds_simple)
    with Inr show ?thesis by simp
  qed
  have call: "holds ?P (tryS (call_port f)) (\<lambda>_. ?P) (\<lambda>_ _. True)" for f
    by (rule holds_try, rule call_port_holds [OF grown_world_free])
  show ?case
    by (rule holds_weaken [where P' = ?P], rule bind_keep [OF planner_intent_holds [OF grown_world_free]],
        rule bind_keep [OF call], rule answer) (auto simp: grown_def holdings_def)
qed

lemma runner_loop_holds:
  assumes H: "no_self_name H" and q: "quiet_checkpoints po"
  shows "holds (ledger_inv H rs n) (runner_loop H rs po [n + 1..m])
    (\<lambda>_ s. \<exists>k. k \<le> max n m \<and> ledger_inv H rs k s) (\<lambda>_ _. True)"
proof (induction "nat (m - n)" arbitrary: n)
  case 0
  then have "[n + 1..m] = []" by simp
  then show ?case by (auto intro!: holds_simple)
next
  case (Suc j)
  have step: "holds (ledger_inv H rs n) (runner_step H rs po (n + 1)) (\<lambda>_. ledger_inv H rs (n + 1)) (\<lambda>_ _. True)"
    by (rule runner_step_holds [OF H refl q])
  have eq: "[n + 1..m] = (n + 1) # [n + 1 + 1..m]" using Suc(2) by (simp add: upto.simps)
  have rest: "holds (ledger_inv H rs (n + 1)) (if stop then returnS () else runner_loop H rs po [n + 1 + 1..m])
      (\<lambda>_ s. \<exists>k. k \<le> max n m \<and> ledger_inv H rs k s) (\<lambda>_ _. True)" for stop
  proof (rule holds_if)
    show "holds (ledger_inv H rs (n + 1)) (returnS ())
        (\<lambda>_ s. \<exists>k. k \<le> max n m \<and> ledger_inv H rs k s) (\<lambda>_ _. True)"
      using Suc(2) by (intro holds_simple exI [of _ "n + 1"]) auto
    have "j = nat (m - (n + 1))" using Suc(2) by simp
    from Suc(1) [OF this]
    show "holds (ledger_inv H rs (n + 1)) (runner_loop H rs po [n + 1 + 1..m])
        (\<lambda>_ s. \<exists>k. k \<le> max n m \<and> ledger_inv H rs k s) (\<lambda>_ _. True)"
      by (rule holds_weaken) (use Suc(2) in auto)
  qed
  show ?case unfolding eq runner_loop.simps by (rule holds_bind [OF step rest])
qed

lemma ledger_inv_start:
  assumes "0 \<le> rp_max_tool_runs (rs_policy rs)"
  shows "ledger_inv H rs 0 (runner_start rs w)"
  using assms by (simp add: ledger_inv_def runner_start_def closed_ledger_empty holdings_def)

lemma ledger_inv_activated:
  assumes inv: "ledger_inv H rs 0 s"
    and c: "c = model_call_finalized H (activation_call rs v h)"
    and a: "a = action_finalized H (activation_action rs v h)"
  shows "ledger_inv H rs 1 (s\<lparr>rn_calls := rn_calls s @ [c], rn_actions := rn_actions s @ [a],
    rn_available := rn_available s @ [h]\<rparr>)"
proof -
  have e: "rn_actions s = []" and led: "closed_ledger H rs [] (rn_calls s) (rn_tools s)"
    using inv by (auto simp: ledger_inv_def)
  have "named_action a" by (simp add: a activation_action_def named_action_def)
  moreover have "\<exists>x. mc_call_id c = ''call.'' @ x \<and> mc_action_id c = ''action.'' @ x"
    by (auto simp: c activation_call_def Let_def intro!: exI [of _ "''activation''"])
  ultimately have "ledger_addition H rs [] (rn_tools s) a [c] []"
    using led by (auto simp: ledger_addition_def a c activation_action_def activation_call_def Let_def
        action_sealed_def call_sealed_def ledger_sources_def closed_ledger_def)
  from closed_ledger_extend [OF led this] inv e show ?thesis
    by (auto simp: ledger_inv_def holdings_def a activation_action_def)
qed

lemma record_activation_holds:
  assumes "1 \<le> rp_max_actions (rs_policy rs)"
  shows "holds (ledger_inv H rs 0) (record_activation H rs po)
    (\<lambda>n s. ledger_inv H rs (n - 1) s \<and> n - 1 \<le> rp_max_actions (rs_policy rs)) (\<lambda>_ _. True)"
  unfolding record_activation_def
proof (rule holds_option, rule holds_simple(1), use assms in simp, rule bind_lift, goal_cases)
  case (1 v u)
  have max: "2 \<le> rp_max_actions (rs_policy rs)" using 1 by (auto simp: activation_checks_def checks_Inr)
  show ?case
    by (intro bind_keep [OF holds_weaken [OF store_keeps [OF ledger_inv_world_free]]] bind_lift
        bind_modify holds_simple)
       (use max ledger_inv_activated [OF _ refl refl] in \<open>auto dest!: build_Inr\<close>)
qed auto

lemma run_states_holds:
  assumes H: "no_self_name H" and q: "quiet_checkpoints po"
    and pol: "runner_policy_post_init (rs_policy rs) = Inr ()"
  shows "holds (\<lambda>s. s = runner_start rs w) (run_states H rs po)
    (\<lambda>_ s. \<exists>k. k \<le> rp_max_actions (rs_policy rs) \<and> ledger_inv H rs k s) (\<lambda>_ _. True)"
proof -
  let ?m = "rp_max_actions (rs_policy rs)"
  have m: "1 \<le> ?m" "0 \<le> rp_max_tool_runs (rs_policy rs)"
    using pol by (auto simp: runner_policy_post_init_def checks_Inr)
  have "holds (\<lambda>s. ledger_inv H rs (n - 1) s \<and> n - 1 \<le> ?m) (runner_loop H rs po [n..?m])
      (\<lambda>_ s. \<exists>k. k \<le> ?m \<and> ledger_inv H rs k s) (\<lambda>_ _. True)" for n
  proof (cases "n - 1 \<le> ?m")
    case True
    have "max (n - 1) ?m = ?m" using True by simp
    with runner_loop_holds [OF H q, of rs "n - 1" ?m] True show ?thesis by simp
  qed (simp add: holds_False)
  then show ?thesis
    unfolding run_states_def
    by (intro holds_weaken [OF holds_bind [OF record_activation_holds [OF m(1)]]])
       (auto simp: ledger_inv_start [OF m(2)])
qed

lemma returned_ledger:
  assumes "no_self_name H" and "quiet_checkpoints po"
    and "runner_policy_post_init (rs_policy rs) = Inr ()"
    and "sequential_run H rs po w = (w', Inr r)"
  shows "closed_ledger H rs (re_actions r) (re_model_calls r) (re_tool_runs r)"
    and "int (length (re_actions r)) \<le> rp_max_actions (rs_policy rs)"
    and "int (length (re_tool_runs r)) \<le> rp_max_tool_runs (rs_policy rs)"
proof -
  obtain st u where run: "run_states H rs po (runner_start rs w) = (st, Inr u)" and r: "r = result_of rs st"
    using assms(4) by (auto simp: sequential_run_def split: prod.splits sum.splits)
  obtain k where "k \<le> rp_max_actions (rs_policy rs)" "ledger_inv H rs k st"
    using holdsD(1) [OF run_states_holds [OF assms(1-3)] refl run] by blast
  then show "closed_ledger H rs (re_actions r) (re_model_calls r) (re_tool_runs r)"
    "int (length (re_actions r)) \<le> rp_max_actions (rs_policy rs)"
    "int (length (re_tool_runs r)) \<le> rp_max_tool_runs (rs_policy rs)"
    by (simp_all add: r result_of_def ledger_inv_def)
qed

end
