(* ===== verification/Runner_Experiments.thy ===== *)
theory Runner_Experiments
  imports Runner_Closed
begin

text \<open>
  The requests the experiment port is called with: an allowed tool, limits within the policy, no
  network, a program that an earlier recorded \<open>write_program\<close> action wrote, and inputs in the
  provenance of the campaign.  This holds whatever the planner asks for and however the run ends.
\<close>

section \<open>Assertions\<close>

text \<open>The artifacts of the recorded \<open>write_program\<close> actions.\<close>

definition written :: "action_record list \<Rightarrow> str set" where
  "written as = (\<Union>a \<in> {a \<in> set as. ac_action_type a = WriteProgram}. set (ac_output_artifact_hashes a))"

definition limits_within :: "runner_policy \<Rightarrow> resource_limits \<Rightarrow> bool" where
  "limits_within p l \<longleftrightarrow>
     rl_cpu l \<le> rp_max_cpu p \<and> rl_wall l \<le> rp_max_wall p \<and> rl_memory l \<le> rp_max_memory p
     \<and> rl_output l \<le> rp_max_output p \<and> rl_processes l \<le> rp_max_processes p"

definition experiment_ok :: "runner_setup \<Rightarrow> action_record list \<Rightarrow> experiment_request \<Rightarrow> bool" where
  "experiment_ok rs as r \<longleftrightarrow>
     er_tool_id r \<in> set (rp_allowed_tools (rs_policy rs)) \<and> limits_within (rs_policy rs) (er_limits r)
     \<and> limits_positive (er_limits r) \<and> er_network r = ''none'' \<and> er_program r \<in> written as
     \<and> er_campaign_id r = rs_campaign_id rs"

definition log_ok :: "runner_setup \<Rightarrow> 'w runner_state \<Rightarrow> bool" where
  "log_ok rs st \<longleftrightarrow> (\<forall>r \<in> set (rn_experiments st). experiment_ok rs (rn_actions st) r)"

definition programs_ok :: "runner_setup \<Rightarrow> 'w runner_state \<Rightarrow> bool" where
  "programs_ok rs st \<longleftrightarrow> log_ok rs st \<and> set (rn_programs st) \<subseteq> written (rn_actions st)"

text \<open>After an exception the log is right; after one that the loop catches the programs are too.\<close>

definition escaped :: "runner_setup \<Rightarrow> error \<Rightarrow> 'w runner_state \<Rightarrow> bool" where
  "escaped rs e st \<longleftrightarrow> log_ok rs st \<and> (is_runner_error e \<longrightarrow> programs_ok rs st)"

lemma written_append [simp]: "written (as @ bs) = written as \<union> written bs"
  by (auto simp: written_def)

lemma written_single [simp]:
  "written [a] = (if ac_action_type a = WriteProgram then set (ac_output_artifact_hashes a) else {})"
  by (auto simp: written_def)

lemma experiment_ok_append: "experiment_ok rs as r \<Longrightarrow> experiment_ok rs (as @ bs) r"
  by (simp add: experiment_ok_def)

lemma escaped_ok: "programs_ok rs st \<Longrightarrow> escaped rs e st"
  by (simp add: escaped_def programs_ok_def)

lemma programs_ok_world [simp]: "programs_ok rs (st\<lparr>rn_world := w\<rparr>) = programs_ok rs st"
  "log_ok rs (st\<lparr>rn_world := w\<rparr>) = log_ok rs st"
  by (simp_all add: programs_ok_def log_ok_def)

lemma programs_world_free: "world_free (programs_ok rs)"
  by (simp add: world_free_def)

text \<open>A change of the locals that leaves log and programs alone and only adds actions.\<close>

lemma programs_ok_change:
  assumes "programs_ok rs s" and "rn_actions s' = rn_actions s @ as"
    and "rn_programs s' = rn_programs s" and "rn_experiments s' = rn_experiments s"
  shows "programs_ok rs s'"
  using assms experiment_ok_append by (auto simp: programs_ok_def log_ok_def)

section \<open>Steps that keep the assertion\<close>

definition keeps_programs :: "runner_setup \<Rightarrow> ('w, 'a) run_prog \<Rightarrow> bool" where
  "keeps_programs rs m \<longleftrightarrow> holds (programs_ok rs) m (\<lambda>_. programs_ok rs) (escaped rs)"

lemma keeps_bind:
  "keeps_programs rs m \<Longrightarrow> (\<And>x. keeps_programs rs (f x)) \<Longrightarrow> keeps_programs rs (bindS m f)"
  unfolding keeps_programs_def by (rule holds_bind)

lemma keeps_simple:
  "keeps_programs rs (returnS x)" "keeps_programs rs (raiseS e)" "keeps_programs rs (liftS r)"
  "keeps_programs rs (readS f)" "keeps_programs rs (guardS ok e)"
  unfolding keeps_programs_def by (auto intro: holds_simple escaped_ok)

lemma keeps_modify:
  assumes "\<And>s. \<exists>as. rn_actions (f s) = rn_actions s @ as \<and> rn_programs (f s) = rn_programs s
    \<and> rn_experiments (f s) = rn_experiments s"
  shows "keeps_programs rs (modifyS f)"
  unfolding keeps_programs_def
proof (rule holds_simple(5))
  show "programs_ok rs s \<Longrightarrow> programs_ok rs (f s)" for s
    using assms [of s] programs_ok_change by blast
qed

lemma keeps_world: "holds (programs_ok rs) m (\<lambda>_. programs_ok rs) (\<lambda>_. programs_ok rs) \<Longrightarrow> keeps_programs rs m"
  unfolding keeps_programs_def by (erule holds_weaken) (auto intro: escaped_ok)

lemma keeps_port: "keeps_programs rs (call_port f)" "keeps_programs rs (recorded_now po)"
  "keeps_programs rs (store_artifact H po b media)" "keeps_programs rs (get_artifact po h)"
  "keeps_programs rs (get_artifacts po hs)"
  using programs_world_free
  by (auto intro!: keeps_world call_port_holds recorded_now_holds store_keeps get_artifact_holds get_artifacts_holds)

lemmas keeps_rules = keeps_bind keeps_port keeps_simple keeps_modify

lemma keeps_append_call: "keeps_programs rs (append_call H rs' po k context response h)"
  unfolding append_call_def by (intro keeps_rules) simp

lemma keeps_record_tool: "keeps_programs rs (record_tool H rs' po k r v)"
  unfolding record_tool_def by (intro keeps_rules) simp

lemma keeps_append_action: "keeps_programs rs (append_action H rs' po k d)"
  unfolding append_action_def by (intro keeps_rules) simp

lemma keeps_checkpoint: "keeps_programs rs (checkpoint_done po i k status r)"
  unfolding checkpoint_done_def by (auto intro!: keeps_rules split: option.split)

lemma keeps_if: "keeps_programs rs m \<Longrightarrow> keeps_programs rs m' \<Longrightarrow> keeps_programs rs (if b then m else m')"
  by simp

lemma keeps_option:
  "keeps_programs rs m \<Longrightarrow> (\<And>y. keeps_programs rs (f y)) \<Longrightarrow>
     keeps_programs rs (case x of None \<Rightarrow> m | Some y \<Rightarrow> f y)"
  by (cases x) auto

lemmas keeps_records = keeps_append_call keeps_append_action keeps_record_tool keeps_checkpoint

lemma keeps_planner:
  "keeps_programs rs (planner_intent rs' po k context)"
  "keeps_programs rs (planner_failed H rs' po k intent context response)"
  "keeps_programs rs (planner_refused H rs' po k intent rationale terminal)"
  "keeps_programs rs (reject_action H rs' po k intent context response e)"
  unfolding planner_intent_def planner_failed_def planner_refused_def reject_action_def
    rejected_source_def record_rejection_def Let_def
  by (intro keeps_rules keeps_records keeps_option keeps_if; simp)+

section \<open>Actions\<close>

lemma bind_kept:
  assumes "keeps_programs rs m" and "\<And>x. holds (programs_ok rs) (f x) Q (escaped rs)"
  shows "holds (programs_ok rs) (bindS m f) Q (escaped rs)"
  using assms unfolding keeps_programs_def by (rule holds_bind)

lemma admit_action_programs:
  "holds (programs_ok rs) (admit_action H rs' po k context response)
     (\<lambda>(a, h, inputs) s. programs_ok rs s \<and> action_ok a) (escaped rs)"
  unfolding admit_action_def
proof (rule bind_lift, goal_cases)
  case (1 a)
  obtain source media where src: "model_source a (pr_action_json response) = (source, media)" by fastforce
  show ?case
    unfolding src prod.case
    by (intro bind_kept keeps_rules keeps_records holds_simple)
       (use accepted_action_ok [OF 1] in auto)
qed (auto intro: escaped_ok)

lemma admit_experiment_programs:
  assumes "action_ok a"
  shows "holds (programs_ok rs) (admit_experiment rs po k a)
     (\<lambda>r s. programs_ok rs s \<and> experiment_ok rs (rn_actions s) r) (escaped rs)"
  unfolding admit_experiment_def
proof (intro holds_option holds_simple bind_read bind_lift, goal_cases)
  case (2 t st u)
  let ?P = "\<lambda>s. programs_ok rs s \<and> rn_actions s = rn_actions st"
  have P: "world_free ?P" by (simp add: world_free_def)
  have tok: "tool_request_ok t" using assms 2(1) by (simp add: action_ok_def)
  have g: "tq_tool_id t \<in> set (rp_allowed_tools (rs_policy rs))" "tq_program t \<in> written (rn_actions st)"
    "limits_within (rs_policy rs) (tq_limits t)"
    using 2(2,3) by (auto simp: checks_Inr programs_ok_def limit_checks_def limits_within_def)
  have ports: "holds ?P (get_artifact po x) (\<lambda>_. ?P) (escaped rs)"
    "holds ?P (get_artifacts po hs) (\<lambda>_. ?P) (escaped rs)" for x hs
    by (rule holds_weaken [OF get_artifact_holds [OF P]] holds_weaken [OF get_artifacts_holds [OF P]];
        auto intro: escaped_ok)+
  show ?case
    by (rule holds_weaken [where P' = ?P and E' = "escaped rs"], rule bind_keep [OF ports(1)],
        rule bind_keep [OF ports(2)], rule holds_simple(1))
       (use g tok 2(2) in \<open>auto simp: experiment_ok_def tool_request_ok_def\<close>)
qed (auto intro: escaped_ok)

text \<open>The artifact of a program counts from when its action is recorded.\<close>

definition programs_with :: "runner_setup \<Rightarrow> campaign_action \<Rightarrow> str \<Rightarrow> 'w runner_state \<Rightarrow> bool" where
  "programs_with rs a h st \<longleftrightarrow>
     log_ok rs st \<and> set (rn_programs st) \<subseteq> written (rn_actions st)
       \<union> (if ca_action_type a = WriteProgram then {h} else {})"

lemma programs_with_ok: "programs_ok rs s \<Longrightarrow> programs_with rs a h s"
  by (auto simp: programs_ok_def programs_with_def)

lemma perform_run_programs:
  assumes "action_ok a"
  shows "holds (programs_ok rs) (perform_run H rs po k a) (\<lambda>_. programs_ok rs) (escaped rs)"
  unfolding perform_run_def
proof (rule holds_bind [OF admit_experiment_programs [OF assms]], rule bind_modify, goal_cases)
  case (1 request)
  show ?case
    by (rule holds_weaken [where P' = "programs_ok rs" and E' = "escaped rs"],
        intro bind_kept keeps_rules keeps_records holds_simple)
       (auto simp: programs_ok_def log_ok_def)
qed

lemma perform_programs:
  assumes "action_ok a"
  shows "holds (programs_ok rs) (perform_planned H rs po k a h) (\<lambda>_. programs_with rs a h) (escaped rs)"
proof -
  have keep: "holds (programs_ok rs) m (\<lambda>_. programs_with rs a h) (escaped rs)"
    if "keeps_programs rs m" for m :: "('w, performed) run_prog"
    using that unfolding keeps_programs_def by (rule holds_weaken) (auto intro: programs_with_ok)
  have prog: "holds (programs_ok rs) (perform_write rs a h) (\<lambda>_. programs_with rs a h) (escaped rs)"
    if "ca_action_type a = WriteProgram"
    unfolding perform_write_def plain_performed_def
    by (intro holds_option holds_simple bind_guard bind_modify)
       (use that in \<open>auto simp: programs_with_def programs_ok_def log_ok_def escaped_def\<close>)
  have update: "keeps_programs rs (plain_performed f :: ('w, performed) run_prog)"
    if "\<And>s. rn_actions (f s) = rn_actions s \<and> rn_programs (f s) = rn_programs s \<and> rn_experiments (f s) = rn_experiments s"
    for f :: "'w runner_state \<Rightarrow> 'w runner_state"
    unfolding plain_performed_def by (intro keeps_rules) (use that in simp)
  have plain: "keeps_programs rs (perform_inspect a h)" "keeps_programs rs (perform_verify H rs po k a)"
    "keeps_programs rs (perform_read rs po a)" "keeps_programs rs (perform_note a)"
    unfolding perform_inspect_def perform_verify_def admit_verification_def perform_read_def perform_note_def
      plain_performed_def
    by (intro keeps_rules keeps_records keeps_option keeps_if; simp)+
  have run: "keeps_programs rs (perform_run H rs po k a)"
    using perform_run_programs [OF assms] by (simp add: keeps_programs_def)
  show ?thesis
  proof (cases "ca_action_type a = WriteProgram")
    case True
    with prog show ?thesis by (simp add: perform_planned_def)
  next
    case False
    then show ?thesis
      by (cases "ca_action_type a")
         (auto simp: perform_planned_def intro!: keep update plain run keeps_simple)
  qed
qed

lemma holds_conj: "holds P m Q E \<Longrightarrow> holds P' m Q' E' \<Longrightarrow>
   holds (\<lambda>s. P s \<and> P' s) m (\<lambda>x s. Q x s \<and> Q' x s) (\<lambda>e s. E e s \<and> E' e s)"
  by (auto simp: holds_def split: sum.splits)

lemma append_action_log:
  "holds (log_ok rs) (append_action H rs' po k d) (\<lambda>_ _. True) (\<lambda>_. log_ok rs)"
proof -
  have now: "holds (log_ok rs) (recorded_now po) (\<lambda>_. log_ok rs) (\<lambda>_. log_ok rs)"
    by (rule recorded_now_holds) (simp add: world_free_def)
  show ?thesis
    unfolding append_action_def
    by (intro bind_read_any bind_keep [OF now] bind_lift) (auto simp: holds_def bindS_def modifyS_def returnS_def)
qed

lemma finish_record_programs:
  "holds (programs_with rs a h) (finish_record H rs po k intent a h inputs p) (\<lambda>_. programs_ok rs) (escaped rs)"
proof -
  obtain sources outputs status where p: "p = (sources, outputs, status)" by (cases p)
  have W: "world_free (programs_with rs a h)" by (simp add: world_free_def programs_with_def)
  have app: "holds (programs_with rs a h) (append_action H rs po k d) (\<lambda>_. programs_ok rs) (escaped rs)"
    if "ad_type d = ca_action_type a" and "h \<in> set (ad_outputs d)" for d
    by (rule holds_weaken [OF holds_conj [OF append_action_holds [OF W] append_action_log [of rs]]])
       (use that in \<open>auto simp: programs_ok_def programs_with_def log_ok_def drafted_def
           experiment_ok_append escaped_def split: if_splits\<close>)
  have rest: "keeps_programs rs (bindS (modifyS f) (\<lambda>_. bindS (checkpoint_done po intent k status' r) (\<lambda>_. returnS b)))"
    if "\<And>s. rn_actions (f s) = rn_actions s \<and> rn_programs (f s) = rn_programs s \<and> rn_experiments (f s) = rn_experiments s"
    for f status' r b
    by (intro keeps_rules keeps_checkpoint) (use that in simp)
  show ?thesis
    unfolding finish_record_def p prod.case
    by (rule holds_bind [OF app]) (auto intro!: rest [unfolded keeps_programs_def])
qed

section \<open>The loop\<close>

lemma execute_action_programs:
  "keeps_programs rs (execute_action H rs po k intent context response)"
  unfolding execute_action_def
proof (rule keeps_if [OF keeps_planner(2)], unfold keeps_programs_def,
    rule holds_bind [OF admit_action_programs], goal_cases)
  case (1 x)
  obtain a h inputs where x: "x = (a, h, inputs)" by (cases x)
  show ?case
  proof (cases "action_ok a")
    case True
    with x show ?thesis
      by (auto intro: holds_bind [OF perform_programs [OF True] finish_record_programs])
  qed (simp add: x holds_False)
qed

lemma runner_step_programs: "keeps_programs rs (runner_step H rs po k)"
proof -
  have call: "keeps_programs rs (tryS (call_port f))" for f
    using keeps_port(1) unfolding keeps_programs_def
    by (intro holds_try holds_weaken [OF call_port_holds [OF programs_world_free]]) auto
  have caught: "keeps_programs rs (catchS (execute_action H rs po k intent ctx response) (\<lambda>e.
      if is_runner_error e then reject_action H rs po k intent ctx response e else raiseS e))"
    for intent ctx response
    unfolding keeps_programs_def
  proof (rule holds_catch [OF execute_action_programs [unfolded keeps_programs_def]], rule holds_if)
    fix e
    show "is_runner_error e \<Longrightarrow> holds (escaped rs e) (reject_action H rs po k intent ctx response e)
        (\<lambda>_. programs_ok rs) (escaped rs)"
      by (rule holds_weaken [OF keeps_planner(4) [unfolded keeps_programs_def]]) (auto simp: escaped_def)
    show "\<not> is_runner_error e \<Longrightarrow> holds (escaped rs e) (raiseS e) (\<lambda>_. programs_ok rs) (escaped rs)"
      by (rule holds_simple(2))
  qed
  show ?thesis
    unfolding runner_step_def
    by (intro keeps_bind keeps_simple keeps_modify keeps_planner(1) call)
       (auto intro!: caught keeps_simple keeps_planner(3) split: sum.split option.split)
qed

lemma runner_loop_programs: "keeps_programs rs (runner_loop H rs po ks)"
  by (induction ks) (auto intro!: keeps_bind keeps_simple runner_step_programs)

lemma run_states_programs: "keeps_programs rs (run_states H rs po)"
  unfolding run_states_def record_activation_def
  by (intro keeps_bind keeps_option keeps_port keeps_simple keeps_modify runner_loop_programs) auto

end
