(* ===== verification/Py_Strings.thy ===== *)
theory Py_Strings
  imports Ada_Prelude "HOL-Library.Sublist"
begin

text \<open>
  \<open>str.strip\<close> and the \<open>in\<close> test on strings, for strings held as UTF-8 bytes.  UTF-8 is
  self-synchronizing: a character at the start or the end of a string is found by its bytes.
\<close>

section \<open>Whitespace\<close>

text \<open>The characters \<open>str.strip\<close> removes that are not control characters, as UTF-8.\<close>

definition py_spaces :: "bytes list" where
  "py_spaces =
    [[CHR '' ''], [CHR 0xC2, CHR 0x85], [CHR 0xC2, CHR 0xA0],
     [CHR 0xE1, CHR 0x9A, CHR 0x80], [CHR 0xE2, CHR 0x80, CHR 0x80],
     [CHR 0xE2, CHR 0x80, CHR 0x81], [CHR 0xE2, CHR 0x80, CHR 0x82],
     [CHR 0xE2, CHR 0x80, CHR 0x83], [CHR 0xE2, CHR 0x80, CHR 0x84],
     [CHR 0xE2, CHR 0x80, CHR 0x85], [CHR 0xE2, CHR 0x80, CHR 0x86],
     [CHR 0xE2, CHR 0x80, CHR 0x87], [CHR 0xE2, CHR 0x80, CHR 0x88],
     [CHR 0xE2, CHR 0x80, CHR 0x89], [CHR 0xE2, CHR 0x80, CHR 0x8A],
     [CHR 0xE2, CHR 0x80, CHR 0xA8], [CHR 0xE2, CHR 0x80, CHR 0xA9],
     [CHR 0xE2, CHR 0x80, CHR 0xAF], [CHR 0xE2, CHR 0x81, CHR 0x9F],
     [CHR 0xE3, CHR 0x80, CHR 0x80]]"

lemma py_spaces_ends:
  "\<forall>w \<in> set py_spaces. w \<noteq> [] \<and> (hd w = CHR '' '' \<or> 128 \<le> (of_char (hd w) :: nat))
     \<and> (last w = CHR '' '' \<or> 128 \<le> (of_char (last w) :: nat))"
  by (simp add: py_spaces_def)

text \<open>With the control characters among them.\<close>

definition py_whitespace :: "bytes list" where
  "py_whitespace =
     map (\<lambda>c. [c]) [CHR 0x09, CHR 0x0A, CHR 0x0B, CHR 0x0C, CHR 0x0D, CHR 0x1C, CHR 0x1D, CHR 0x1E, CHR 0x1F]
       @ py_spaces"

lemma py_whitespace_nonempty: "w \<in> set py_whitespace \<Longrightarrow> w \<noteq> []"
  using py_spaces_ends by (auto simp: py_whitespace_def)

section \<open>strip\<close>

definition leading :: "bytes list \<Rightarrow> str \<Rightarrow> bytes option" where
  "leading ws s = find (\<lambda>w. starts_with w s) ws"

text \<open>Remove every leading element of \<open>ws\<close>; the fuel is the length of the string.\<close>

fun strip_leading :: "nat \<Rightarrow> bytes list \<Rightarrow> str \<Rightarrow> str" where
  "strip_leading 0 ws s = s"
| "strip_leading (Suc n) ws s =
     (case leading ws s of None \<Rightarrow> s | Some w \<Rightarrow> strip_leading n ws (drop (length w) s))"

definition lstrip :: "str \<Rightarrow> str" where
  "lstrip s = strip_leading (length s) py_whitespace s"

definition rstrip :: "str \<Rightarrow> str" where
  "rstrip s = rev (strip_leading (length s) (map rev py_whitespace) (rev s))"

definition py_strip :: "str \<Rightarrow> str" where
  "py_strip s = rstrip (lstrip s)"

lemma strip_leading_done:
  assumes "\<And>w. w \<in> set ws \<Longrightarrow> w \<noteq> []" and "length s \<le> n"
  shows "leading ws (strip_leading n ws s) = None"
  using assms(2)
proof (induction n arbitrary: s)
  case 0
  then show ?case using assms(1) by (auto simp: leading_def find_None_iff starts_with_def)
next
  case (Suc n)
  show ?case
  proof (cases "leading ws s")
    case (Some w)
    then have "w \<noteq> []" using assms(1) by (auto simp: leading_def find_Some_iff in_set_conv_nth)
    with Suc.prems have "length (drop (length w) s) \<le> n" by (cases w) auto
    then show ?thesis using Some Suc.IH by simp
  qed (simp add: Suc)
qed

text \<open>The result has no whitespace at its end.\<close>

lemma rstrip_done: "leading (map rev py_whitespace) (rev (rstrip s)) = None"
  unfolding rstrip_def rev_rev_ident
  by (rule strip_leading_done) (auto dest: py_whitespace_nonempty)

section \<open>Substrings\<close>

text \<open>\<open>needle in hay\<close>.\<close>

definition occurs_in :: "str \<Rightarrow> str \<Rightarrow> bool" where
  "occurs_in needle hay \<longleftrightarrow> sublist needle hay"

end
