(* ===== verification/Exact_Graph.thy ===== *)
theory Exact_Graph
  imports Py_Strings Records "HOL-Library.Product_Lexorder"
begin

text \<open>
  \<open>exact_graph/graph.py\<close>, the data: finite simple graphs on \<open>range(order)\<close>, the one
  constructor every graph goes through, and the reader of witness specs.  A refusal is its
  exception class and its code; the detail of the message is not modelled (the source fixes
  the code as the contract).  Arguments the source checks the Python type of are \<open>json\<close>
  values, of which an \<open>int\<close> is a \<open>JInt\<close> and a \<open>bool\<close> is not.
\<close>

section \<open>Refusals\<close>

datatype graph_error =
    GraphError str
  | InvariantError str
  | JsonValueError

type_synonym 'a gres = "graph_error + 'a"

abbreviation malformed :: graph_error where
  "malformed \<equiv> GraphError ''graph_spec_malformed''"

abbreviation out_of_range :: graph_error where
  "out_of_range \<equiv> GraphError ''graph_vertex_out_of_range''"

abbreviation not_connected :: graph_error where
  "not_connected \<equiv> GraphError ''graph_not_connected''"

section \<open>Bounds and scalar checks\<close>

definition max_graph_order :: int where
  "max_graph_order = 4096"

definition max_spec_bytes :: nat where
  "max_spec_bytes = 4194304"

definition is_control :: "char \<Rightarrow> bool" where
  "is_control c \<longleftrightarrow> (of_char c :: nat) < 32"

text \<open>\<open>value == value.strip()\<close>, for a string without control characters.\<close>

definition stripped :: "str \<Rightarrow> bool" where
  "stripped s \<longleftrightarrow>
     (\<forall>w \<in> set py_spaces. take (length w) s \<noteq> w \<and> take (length w) (rev s) \<noteq> rev w)"

definition graph_identifier :: "json \<Rightarrow> str gres" where
  "graph_identifier v =
     (case v of
        JStr s \<Rightarrow>
          bindE (ensure (s \<noteq> [] \<and> py_len s \<le> 128) malformed) (\<lambda>_.
          bindE (ensure ((\<forall>c \<in> set s. \<not> is_control c) \<and> stripped s) malformed) (\<lambda>_. Inr s))
      | _ \<Rightarrow> Inl malformed)"

definition order_of_spec :: "json \<Rightarrow> nat gres" where
  "order_of_spec v =
     (case v of
        JInt n \<Rightarrow> bindE (ensure (1 \<le> n \<and> n \<le> max_graph_order) malformed) (\<lambda>_. Inr (nat n))
      | _ \<Rightarrow> Inl malformed)"

section \<open>Graphs\<close>

text \<open>\<open>adjacency ! v\<close> is the neighbour set of \<open>v\<close>.\<close>

record graph =
  graph_id :: str
  graph_order :: nat
  adjacency :: "nat set list"

text \<open>\<open>Graph._checked\<close>: the vertex a caller may ask about.\<close>

definition checked_vertex :: "graph \<Rightarrow> int \<Rightarrow> nat gres" where
  "checked_vertex g v =
     bindE (ensure (0 \<le> v \<and> v < int (graph_order g)) out_of_range) (\<lambda>_. Inr (nat v))"

definition graph_edges :: "graph \<Rightarrow> (nat \<times> nat) list" where
  "graph_edges g =
     sort (concat (map (\<lambda>u. map (Pair u) (sorted_list_of_set {v \<in> adjacency g ! u. u < v}))
       [0 ..< graph_order g]))"

definition graph_size :: "graph \<Rightarrow> nat" where
  "graph_size g = length (graph_edges g)"

definition degree :: "graph \<Rightarrow> int \<Rightarrow> nat gres" where
  "degree g v = bindE (checked_vertex g v) (\<lambda>u. Inr (card (adjacency g ! u)))"

definition edge_json :: "nat \<times> nat \<Rightarrow> json" where
  "edge_json e = JArr [JInt (int (fst e)), JInt (int (snd e))]"

definition spec_schema_version :: str where
  "spec_schema_version = ''adaivy.exact-graph-spec.v1''"

definition spec_hash :: "hexdigest \<Rightarrow> graph \<Rightarrow> str" where
  "spec_hash H g =
     canonical_hash H (JObj
       [(''schema_version'', JStr spec_schema_version),
        (''order'', JInt (int (graph_order g))),
        (''edges'', JArr (map edge_json (graph_edges g)))])"

definition graph_payload :: "hexdigest \<Rightarrow> graph \<Rightarrow> json" where
  "graph_payload H g =
     JObj
       [(''schema_version'', JStr spec_schema_version),
        (''graph_id'', JStr (graph_id g)),
        (''order'', JInt (int (graph_order g))),
        (''edges'', JArr (map edge_json (graph_edges g))),
        (''spec_hash'', JStr (spec_hash H g))]"

section \<open>build_graph\<close>

definition endpoint :: "nat \<Rightarrow> json \<Rightarrow> nat gres" where
  "endpoint n v =
     (case v of
        JInt i \<Rightarrow> bindE (ensure (0 \<le> i \<and> i < int n) out_of_range) (\<lambda>_. Inr (nat i))
      | _ \<Rightarrow> Inl malformed)"

definition edge_key :: "nat \<times> nat \<Rightarrow> nat \<times> nat" where
  "edge_key e = (if fst e < snd e then e else (snd e, fst e))"

text \<open>The local variables of the loop: \<open>neighbours\<close> and \<open>seen\<close>.\<close>

type_synonym build_state = "nat set list \<times> (nat \<times> nat) set"

definition add_neighbour :: "nat \<Rightarrow> nat \<Rightarrow> nat set list \<Rightarrow> nat set list" where
  "add_neighbour u v nbs = nbs[u := insert v (nbs ! u)]"

definition add_edge :: "nat \<Rightarrow> json \<Rightarrow> build_state \<Rightarrow> build_state gres" where
  "add_edge n e st =
     (case e of
        JArr [a, b] \<Rightarrow>
          bindE (endpoint n a) (\<lambda>u.
          bindE (endpoint n b) (\<lambda>v.
          bindE (ensure (u \<noteq> v) (GraphError ''graph_self_loop'')) (\<lambda>_.
          bindE (ensure (edge_key (u, v) \<notin> snd st) malformed) (\<lambda>_.
            Inr (add_neighbour v u (add_neighbour u v (fst st)),
                 insert (edge_key (u, v)) (snd st))))))
      | _ \<Rightarrow> Inl malformed)"

fun add_edges :: "nat \<Rightarrow> json list \<Rightarrow> build_state \<Rightarrow> build_state gres" where
  "add_edges n [] st = Inr st"
| "add_edges n (e # es) st = bindE (add_edge n e st) (add_edges n es)"

definition build_graph :: "json \<Rightarrow> json \<Rightarrow> json list \<Rightarrow> graph gres" where
  "build_graph gid ord es =
     bindE (graph_identifier gid) (\<lambda>i.
     bindE (order_of_spec ord) (\<lambda>n.
     bindE (add_edges n es (replicate n {}, {})) (\<lambda>st.
       Inr \<lparr>graph_id = i, graph_order = n, adjacency = fst st\<rparr>)))"

section \<open>load_graph_spec\<close>

text \<open>
  The readers of a spec as text and as bytes; a mapping is written with \<open>json.dumps\<close> and
  read back like a text, and is not modelled.  \<open>_strict_object\<close> and \<open>_reject_constant\<close>
  refuse inside the scanner; they, and the refusal of a text that is not JSON, carry the
  same code, so the order between them does not show.
\<close>

definition spec_fields :: "str set" where
  "spec_fields = {''graph_id'', ''order'', ''edges''}"

fun is_float :: "json \<Rightarrow> bool" where
  "is_float (JFloat lit) \<longleftrightarrow> True"
| "is_float _ \<longleftrightarrow> False"

fun float_endpoint :: "json \<Rightarrow> bool" where
  "float_endpoint (JArr items) \<longleftrightarrow> (\<exists>item \<in> set items. is_float item)"
| "float_endpoint _ \<longleftrightarrow> False"

fun spec_constant :: "json \<Rightarrow> bool" where
  "spec_constant (JFloat lit) \<longleftrightarrow> lit \<in> {''NaN'', ''Infinity'', ''-Infinity''}"
| "spec_constant (JArr vs) \<longleftrightarrow> (\<exists>v \<in> set vs. spec_constant v)"
| "spec_constant (JObj kvs) \<longleftrightarrow> (\<exists>kv \<in> set kvs. spec_constant (snd kv))"
| "spec_constant _ \<longleftrightarrow> False"

definition graph_of_value :: "json \<Rightarrow> graph gres" where
  "graph_of_value value =
     (case value of
        JObj kvs \<Rightarrow>
          bindE (ensure (set (map fst kvs) = spec_fields) malformed) (\<lambda>_.
            case jget kvs ''edges'' of
              Some (JArr es) \<Rightarrow>
                bindE (ensure (\<not> is_float (the (jget kvs ''order''))
                         \<and> \<not> (\<exists>e \<in> set es. float_endpoint e)) malformed) (\<lambda>_.
                  build_graph (the (jget kvs ''graph_id'')) (the (jget kvs ''order'')) es)
            | _ \<Rightarrow> Inl malformed)
      | _ \<Rightarrow> Inl malformed)"

definition load_graph_text :: "str \<Rightarrow> graph gres" where
  "load_graph_text text =
     (case json_loads text of
        Inl IntDigitsError \<Rightarrow> Inl JsonValueError
      | Inl _ \<Rightarrow> Inl malformed
      | Inr value \<Rightarrow>
          bindE (ensure (dup_free value \<and> \<not> spec_constant value) malformed) (\<lambda>_.
            graph_of_value value))"

definition load_graph_spec :: "bytes \<Rightarrow> graph gres" where
  "load_graph_spec data =
     bindE (ensure (length data \<le> max_spec_bytes) malformed) (\<lambda>_.
     bindE (ensure (utf8_valid data) malformed) (\<lambda>_. load_graph_text data))"

section \<open>Triangles\<close>

definition is_triangle_free :: "graph \<Rightarrow> bool" where
  "is_triangle_free g \<longleftrightarrow>
     \<not> (\<exists>u \<in> set [0 ..< graph_order g]. \<exists>v \<in> adjacency g ! u.
          u < v \<and> adjacency g ! u \<inter> adjacency g ! v \<noteq> {})"

section \<open>Simple graphs\<close>

text \<open>What the class docstring promises: symmetry, irreflexivity and the vertex range.\<close>

definition wf_graph :: "graph \<Rightarrow> bool" where
  "wf_graph g \<longleftrightarrow>
     0 < graph_order g \<and> int (graph_order g) \<le> max_graph_order
     \<and> length (adjacency g) = graph_order g
     \<and> (\<forall>u < graph_order g. adjacency g ! u \<subseteq> {..<graph_order g} - {u})
     \<and> (\<forall>u < graph_order g. \<forall>v \<in> adjacency g ! u. u \<in> adjacency g ! v)"

lemma wf_graphD:
  assumes "wf_graph g" and "u < graph_order g"
  shows "finite (adjacency g ! u)" and "adjacency g ! u \<subseteq> {..<graph_order g}"
    and "u \<notin> adjacency g ! u"
  using assms by (auto simp: wf_graph_def intro: finite_subset [OF _ finite_lessThan])

text \<open>The pairs of an edge list that \<open>build_graph\<close> accepts.\<close>

definition simple_edges :: "nat \<Rightarrow> (nat \<times> nat) list \<Rightarrow> bool" where
  "simple_edges n es \<longleftrightarrow>
     (\<forall>e \<in> set es. fst e < n \<and> snd e < n \<and> fst e \<noteq> snd e) \<and> distinct (map edge_key es)"

definition adjacent_in :: "(nat \<times> nat) list \<Rightarrow> nat \<Rightarrow> nat set" where
  "adjacent_in es u = {v. (u, v) \<in> set es \<or> (v, u) \<in> set es}"

section \<open>What build_graph accepts\<close>

definition valid_graph_id :: "str \<Rightarrow> bool" where
  "valid_graph_id s \<longleftrightarrow>
     s \<noteq> [] \<and> py_len s \<le> 128 \<and> (\<forall>c \<in> set s. \<not> is_control c) \<and> stripped s"

definition edges_state :: "nat \<Rightarrow> (nat \<times> nat) list \<Rightarrow> build_state" where
  "edges_state n es = (map (adjacent_in es) [0 ..< n], edge_key ` set es)"

definition graph_of :: "str \<Rightarrow> nat \<Rightarrow> (nat \<times> nat) list \<Rightarrow> graph" where
  "graph_of i n es = \<lparr>graph_id = i, graph_order = n, adjacency = map (adjacent_in es) [0 ..< n]\<rparr>"

lemma graph_identifier_Inr: "graph_identifier v = Inr i \<longleftrightarrow> v = JStr i \<and> valid_graph_id i"
  by (auto simp: graph_identifier_def valid_graph_id_def bindE_eq_Inr split: json.splits)

lemma order_of_spec_Inr:
  "order_of_spec v = Inr n \<longleftrightarrow> v = JInt (int n) \<and> 0 < n \<and> int n \<le> max_graph_order"
  by (auto simp: order_of_spec_def bindE_eq_Inr split: json.splits)

lemma endpoint_Inr: "endpoint n v = Inr u \<longleftrightarrow> v = JInt (int u) \<and> u < n"
  by (auto simp: endpoint_def bindE_eq_Inr split: json.splits)

lemma add_neighbours:
  assumes "u < n" and "v < n" and "u \<noteq> v"
  shows "add_neighbour v u (add_neighbour u v (map (adjacent_in es) [0 ..< n]))
    = map (adjacent_in (es @ [(u, v)])) [0 ..< n]"
  using assms by (auto simp: add_neighbour_def adjacent_in_def list_eq_iff_nth_eq nth_list_update)

lemma add_edge_Inr:
  "add_edge n e (edges_state n es) = Inr st \<longleftrightarrow>
     (\<exists>u v. e = edge_json (u, v) \<and> u < n \<and> v < n \<and> u \<noteq> v
        \<and> edge_key (u, v) \<notin> edge_key ` set es \<and> st = edges_state n (es @ [(u, v)]))"
  (is "?l \<longleftrightarrow> ?r")
proof
  assume ?l
  then obtain a b where e: "e = JArr [a, b]"
    by (auto simp: add_edge_def split: json.splits list.splits)
  with \<open>?l\<close> obtain u v where ab: "a = JInt (int u)" "b = JInt (int v)"
    and uv: "u < n" "v < n" "u \<noteq> v" "edge_key (u, v) \<notin> edge_key ` set es"
    and st: "st = (add_neighbour v u (add_neighbour u v (map (adjacent_in es) [0 ..< n])),
      insert (edge_key (u, v)) (edge_key ` set es))"
    by (auto simp: add_edge_def edges_state_def bindE_eq_Inr endpoint_Inr)
  have "st = edges_state n (es @ [(u, v)])"
    using st add_neighbours [OF uv(1-3), of es] by (simp add: edges_state_def)
  with e ab uv show ?r by (auto simp: edge_json_def)
next
  assume ?r
  then obtain u v where e: "e = edge_json (u, v)" and uv: "u < n" "v < n" "u \<noteq> v"
    and key: "edge_key (u, v) \<notin> edge_key ` set es" and st: "st = edges_state n (es @ [(u, v)])"
    by blast
  have ends: "endpoint n (JInt (int u)) = Inr u" "endpoint n (JInt (int v)) = Inr v"
    using uv by (simp_all add: endpoint_Inr)
  show ?l
    using uv key st add_neighbours [OF uv, of es]
    by (simp add: e add_edge_def edge_json_def edges_state_def ends)
qed

lemma simple_edges_snoc:
  "simple_edges n (es @ [(u, v)]) \<longleftrightarrow>
     simple_edges n es \<and> u < n \<and> v < n \<and> u \<noteq> v \<and> edge_key (u, v) \<notin> edge_key ` set es"
  by (auto simp: simple_edges_def)

lemma simple_edges_appendD: "simple_edges n (es @ fs) \<Longrightarrow> simple_edges n es"
  by (auto simp: simple_edges_def)

lemma add_edges_Inr:
  "simple_edges n es \<Longrightarrow> add_edges n js (edges_state n es) = Inr st \<longleftrightarrow>
     (\<exists>fs. js = map edge_json fs \<and> simple_edges n (es @ fs) \<and> st = edges_state n (es @ fs))"
proof (induction js arbitrary: es)
  case Nil
  then show ?case by auto
next
  case (Cons j js)
  show ?case (is "?l \<longleftrightarrow> ?r")
  proof
    assume ?l
    then obtain u v where j: "j = edge_json (u, v)" and ok: "simple_edges n (es @ [(u, v)])"
      and rest: "add_edges n js (edges_state n (es @ [(u, v)])) = Inr st"
      using Cons.prems by (auto simp: bindE_eq_Inr add_edge_Inr simple_edges_snoc)
    from rest obtain fs where "js = map edge_json fs" "simple_edges n ((es @ [(u, v)]) @ fs)"
      "st = edges_state n ((es @ [(u, v)]) @ fs)"
      using Cons.IH [OF ok] by blast
    with j show ?r by (intro exI [of _ "(u, v) # fs"]) simp
  next
    assume ?r
    then obtain u v fs where j: "j = edge_json (u, v)" and js: "js = map edge_json fs"
      and all: "simple_edges n ((es @ [(u, v)]) @ fs)" and st: "st = edges_state n ((es @ [(u, v)]) @ fs)"
      by auto
    from all have ok: "simple_edges n (es @ [(u, v)])" by (rule simple_edges_appendD)
    then have "add_edge n j (edges_state n es) = Inr (edges_state n (es @ [(u, v)]))"
      using j by (auto simp: add_edge_Inr simple_edges_snoc)
    moreover have "add_edges n js (edges_state n (es @ [(u, v)])) = Inr st"
      using Cons.IH [OF ok] js all st by blast
    ultimately show ?l by simp
  qed
qed

lemma edges_state_Nil: "(replicate n {}, {}) = edges_state n []"
  by (simp add: edges_state_def adjacent_in_def list_eq_iff_nth_eq)

lemma build_graph_Inr:
  "build_graph gid ord es = Inr g \<longleftrightarrow>
     (\<exists>i n ps. gid = JStr i \<and> valid_graph_id i \<and> ord = JInt (int n) \<and> 0 < n
        \<and> int n \<le> max_graph_order \<and> es = map edge_json ps \<and> simple_edges n ps \<and> g = graph_of i n ps)"
proof -
  have nil: "simple_edges n []" for n by (simp add: simple_edges_def)
  have built: "bindE (add_edges n es (replicate n {}, {}))
      (\<lambda>st. Inr \<lparr>graph_id = i, graph_order = n, adjacency = fst st\<rparr>) = Inr g
    \<longleftrightarrow> (\<exists>ps. es = map edge_json ps \<and> simple_edges n ps \<and> g = graph_of i n ps)" for i n
  proof -
    have "graph_of i n ps = \<lparr>graph_id = i, graph_order = n, adjacency = fst (edges_state n ps)\<rparr>" for ps
      by (simp add: graph_of_def edges_state_def)
    then show ?thesis
      unfolding edges_state_Nil bindE_eq_Inr add_edges_Inr [OF nil] append_Nil by (metis sum.inject(2))
  qed
  show ?thesis
    unfolding build_graph_def bindE_eq_Inr graph_identifier_Inr order_of_spec_Inr
    using built [unfolded bindE_eq_Inr] by blast
qed

section \<open>The graph of an edge list\<close>

lemma adjacent_in_sym: "v \<in> adjacent_in es u \<longleftrightarrow> u \<in> adjacent_in es v"
  by (auto simp: adjacent_in_def)

lemma adjacent_in_range:
  "simple_edges n es \<Longrightarrow> adjacent_in es u \<subseteq> {..<n} - {u}"
  by (force simp: simple_edges_def adjacent_in_def)

lemma wf_graph_of:
  assumes "simple_edges n es" and "0 < n" and "int n \<le> max_graph_order"
  shows "wf_graph (graph_of i n es)"
proof -
  have "adjacency (graph_of i n es) ! u = adjacent_in es u" if "u < n" for u
    using that by (simp add: graph_of_def)
  moreover have "v < n" if "v \<in> adjacent_in es u" for u v
    using adjacent_in_range [OF assms(1), of u] that by blast
  moreover have "graph_order (graph_of i n es) = n" "length (adjacency (graph_of i n es)) = n"
    by (simp_all add: graph_of_def)
  ultimately show ?thesis
    using assms(2,3) adjacent_in_range [OF assms(1)] adjacent_in_sym [of _ es]
    unfolding wf_graph_def by metis
qed

lemma set_graph_edges:
  assumes "wf_graph g"
  shows "set (graph_edges g) = {(u, v). u < v \<and> u < graph_order g \<and> v \<in> adjacency g ! u}"
proof -
  have "finite {v \<in> adjacency g ! u. u < v}" if "u < graph_order g" for u
    using wf_graphD(1) [OF assms that] by simp
  then show ?thesis by (auto simp: graph_edges_def)
qed

lemma distinct_graph_edges: "distinct (graph_edges g)"
proof -
  have "distinct (concat (map (\<lambda>u. map (Pair u) (f u)) us))"
    if "\<And>u. distinct (f u)" "distinct us" for f :: "nat \<Rightarrow> nat list" and us
    using that by (induction us) (auto simp: distinct_map inj_on_def)
  then show ?thesis by (simp add: graph_edges_def)
qed

lemma edge_key_image:
  assumes "simple_edges n es"
  shows "edge_key ` set es = {(u, v). u < v \<and> u < n \<and> v \<in> adjacent_in es u}"
proof (intro set_eqI iffI)
  fix x assume "x \<in> edge_key ` set es"
  then obtain u v where "(u, v) \<in> set es" and "x = edge_key (u, v)" by auto
  moreover from this have "u < n" "v < n" "u \<noteq> v" using assms by (auto simp: simple_edges_def)
  ultimately show "x \<in> {(u, v). u < v \<and> u < n \<and> v \<in> adjacent_in es u}"
    by (auto simp: edge_key_def adjacent_in_def)
next
  fix x assume "x \<in> {(u, v). u < v \<and> u < n \<and> v \<in> adjacent_in es u}"
  then obtain u v where x: "x = (u, v)" "u < v" and "(u, v) \<in> set es \<or> (v, u) \<in> set es"
    by (auto simp: adjacent_in_def)
  then show "x \<in> edge_key ` set es"
    by (auto simp: edge_key_def image_iff intro: bexI [of _ "(u, v)"] bexI [of _ "(v, u)"])
qed

lemma edges_graph_of:
  assumes "simple_edges n es" and "0 < n" and "int n \<le> max_graph_order"
  shows "set (graph_edges (graph_of i n es)) = edge_key ` set es"
    and "graph_size (graph_of i n es) = length es"
proof -
  show keys: "set (graph_edges (graph_of i n es)) = edge_key ` set es"
    unfolding set_graph_edges [OF wf_graph_of [OF assms]] edge_key_image [OF assms(1)]
    by (auto simp: graph_of_def)
  have "graph_size (graph_of i n es) = card (edge_key ` set es)"
    using distinct_card [OF distinct_graph_edges, of "graph_of i n es"] by (simp add: graph_size_def keys)
  also have "\<dots> = length es"
    using distinct_card [of "map edge_key es"] assms(1) by (simp add: simple_edges_def)
  finally show "graph_size (graph_of i n es) = length es" .
qed

end
