(* ===== verification/Graph_Search.thy ===== *)
theory Graph_Search
  imports Exact_Graph
begin

text \<open>
  Distances: the breadth-first search of \<open>exact_graph/graph.py\<close>.  The source iterates over
  frozensets, in an order Python does not fix: the order is the argument \<open>it\<close> of the search,
  and \<open>set_order\<close> is all that is known of it.  The loop \<open>while frontier\<close> is a partial
  function, so that its termination is a theorem (\<open>bfs_terminates\<close>), and the reference
  definition of a distance is the length of a shortest walk.
\<close>

section \<open>The search\<close>

text \<open>The variables of a round: \<open>distance\<close>, \<open>reached\<close> and \<open>nxt\<close>.\<close>

type_synonym search_state = "int list \<times> nat \<times> nat list"

definition visit :: "nat \<Rightarrow> nat \<Rightarrow> search_state \<Rightarrow> search_state" where
  "visit step v st =
     (case st of (distance, reached, nxt) \<Rightarrow>
        if distance ! v < 0 then (distance[v := int step], reached + 1, nxt @ [v])
        else (distance, reached, nxt))"

definition search_round ::
    "(nat set \<Rightarrow> nat list) \<Rightarrow> graph \<Rightarrow> nat \<Rightarrow> nat list \<Rightarrow> int list \<Rightarrow> nat \<Rightarrow> search_state" where
  "search_round it g step frontier distance reached =
     fold (\<lambda>u. fold (visit step) (it (adjacency g ! u))) frontier (distance, reached, [])"

partial_function (option) search_loop ::
    "(nat set \<Rightarrow> nat list) \<Rightarrow> graph \<Rightarrow> nat \<Rightarrow> nat list \<Rightarrow> int list \<Rightarrow> nat \<Rightarrow> (int list \<times> nat) option" where
  "search_loop it g step frontier distance reached =
     (if frontier = [] then Some (distance, reached)
      else case search_round it g (Suc step) frontier distance reached of
        (distance', reached', nxt) \<Rightarrow> search_loop it g (Suc step) nxt distance' reached')"

definition bfs_distances :: "(nat set \<Rightarrow> nat list) \<Rightarrow> graph \<Rightarrow> int \<Rightarrow> int list gres option" where
  "bfs_distances it g source =
     (case checked_vertex g source of
        Inl e \<Rightarrow> Some (Inl e)
      | Inr s \<Rightarrow>
          map_option
            (\<lambda>(distance, reached).
               if reached \<noteq> graph_order g then Inl not_connected else Inr distance)
            (search_loop it g 0 [s] ((replicate (graph_order g) (- 1))[s := 0]) 1))"

definition is_connected :: "(nat set \<Rightarrow> nat list) \<Rightarrow> graph \<Rightarrow> bool gres option" where
  "is_connected it g =
     map_option
       (\<lambda>r. case r of
          Inl e \<Rightarrow> if e = not_connected then Inr False else Inl e
        | Inr distances \<Rightarrow> Inr True)
       (bfs_distances it g 0)"

section \<open>Walks and distances\<close>

inductive walk :: "graph \<Rightarrow> nat \<Rightarrow> nat \<Rightarrow> nat \<Rightarrow> bool" for g :: graph and s :: nat where
  walk_refl: "walk g s 0 s"
| walk_step: "walk g s k u \<Longrightarrow> v \<in> adjacency g ! u \<Longrightarrow> walk g s (Suc k) v"

inductive_cases walk_SucE: "walk g s (Suc k) v"
inductive_simps walk_0 [simp]: "walk g s 0 v"

definition reachable :: "graph \<Rightarrow> nat \<Rightarrow> nat \<Rightarrow> bool" where
  "reachable g s v \<longleftrightarrow> (\<exists>k. walk g s k v)"

definition graph_dist :: "graph \<Rightarrow> nat \<Rightarrow> nat \<Rightarrow> nat" where
  "graph_dist g s v = (LEAST k. walk g s k v)"

lemma walk_range: "walk g s k v \<Longrightarrow> wf_graph g \<Longrightarrow> s < graph_order g \<Longrightarrow> v < graph_order g"
  by (induction rule: walk.induct) (auto dest: wf_graphD(2))

lemma reachable_dist: "reachable g s v \<Longrightarrow> walk g s (graph_dist g s v) v"
  unfolding reachable_def graph_dist_def by (elim exE) (rule LeastI)

lemma dist_le_walk: "walk g s k v \<Longrightarrow> graph_dist g s v \<le> k"
  unfolding graph_dist_def by (rule Least_le)

lemma dist_source [simp]: "graph_dist g s s = 0"
  using dist_le_walk [OF walk_refl, of g s] by simp

lemma reachable_source [simp]: "reachable g s s"
  unfolding reachable_def by (blast intro: walk_refl)

lemma reachable_next: "reachable g s u \<Longrightarrow> v \<in> adjacency g ! u \<Longrightarrow> reachable g s v"
  unfolding reachable_def by (blast intro: walk_step)

lemma dist_next:
  assumes "reachable g s u" and "v \<in> adjacency g ! u"
  shows "graph_dist g s v \<le> Suc (graph_dist g s u)"
  using dist_le_walk [OF walk_step [OF reachable_dist [OF assms(1)] assms(2)]] .

lemma dist_pred:
  assumes "reachable g s v" and "graph_dist g s v = Suc k"
  obtains u where "reachable g s u" and "graph_dist g s u = k" and "v \<in> adjacency g ! u"
proof -
  from reachable_dist [OF assms(1)] assms(2) have "walk g s (Suc k) v" by simp
  then obtain u where u: "walk g s k u" and v: "v \<in> adjacency g ! u" by (rule walk_SucE)
  then have r: "reachable g s u" unfolding reachable_def by blast
  have "graph_dist g s u = k"
    using dist_le_walk [OF u] dist_next [OF r v] assms(2) by simp
  with r v show thesis using that by blast
qed

lemma dist_below:
  assumes "reachable g s v" and "k \<le> graph_dist g s v"
  obtains u where "reachable g s u" and "graph_dist g s u = k"
proof -
  have "\<exists>u. reachable g s u \<and> graph_dist g s u = k"
    if "reachable g s v" "graph_dist g s v = m + k" for m v
    using that
  proof (induction m arbitrary: v)
    case (Suc m)
    from Suc.prems obtain u where "reachable g s u" "graph_dist g s u = m + k"
      by (auto elim: dist_pred)
    then show ?case by (rule Suc.IH)
  qed auto
  from this [OF assms(1), of "graph_dist g s v - k"] assms(2) that show thesis by auto
qed

section \<open>One round\<close>

lemma visit_simps:
  "visit k v (d, r, nx) = (if d ! v < 0 then (d[v := int k], r + 1, nx @ [v]) else (d, r, nx))"
  by (simp add: visit_def)

lemma visits:
  assumes "\<forall>v \<in> set vs. v < length d" and "fold (visit k) vs (d, r, nx) = (d', r', nx')"
  shows "\<exists>new. nx' = nx @ new \<and> distinct new \<and> set new = {v \<in> set vs. d ! v < 0}
      \<and> r' = r + length new \<and> length d' = length d
      \<and> (\<forall>v < length d. d' ! v = (if v \<in> set vs \<and> d ! v < 0 then int k else d ! v))"
  using assms
  proof (induction vs arbitrary: d r nx)
    case (Cons w vs)
    show ?case
    proof (cases "d ! w < 0")
      case False
      with Cons.prems have "\<forall>v \<in> set vs. v < length d"
        and "fold (visit k) vs (d, r, nx) = (d', r', nx')" by (simp_all add: visit_simps)
      from Cons.IH [OF this] obtain new where "nx' = nx @ new" "distinct new"
        "set new = {v \<in> set vs. d ! v < 0}" "r' = r + length new" "length d' = length d"
        "\<forall>v < length d. d' ! v = (if v \<in> set vs \<and> d ! v < 0 then int k else d ! v)"
        by blast
      with False show ?thesis by (intro exI [of _ new]) auto
    next
      case True
      let ?d = "d[w := int k]"
      from Cons.prems True have "fold (visit k) vs (?d, r + 1, nx @ [w]) = (d', r', nx')"
        and "\<forall>v \<in> set vs. v < length ?d" by (simp_all add: visit_simps)
      from Cons.IH [OF this(2,1)] obtain new where new: "nx' = (nx @ [w]) @ new" "distinct new"
        "set new = {v \<in> set vs. ?d ! v < 0}" "r' = (r + 1) + length new" "length d' = length ?d"
        "\<forall>v < length ?d. d' ! v = (if v \<in> set vs \<and> ?d ! v < 0 then int k else ?d ! v)"
        by blast
      have w: "w < length d" using Cons.prems(1) by simp
      have other: "?d ! v < 0 \<longleftrightarrow> d ! v < 0 \<and> v \<noteq> w" for v
        by (cases "v = w") (use w in auto)
      show ?thesis
        using new w True by (intro exI [of _ "w # new"]) (auto simp: other nth_list_update)
    qed
  qed simp

lemma fold_concat_map: "fold (\<lambda>u. fold f (h u)) us st = fold f (concat (map h us)) st"
  by (induction us arbitrary: st) simp_all

section \<open>The interface of set iteration\<close>

locale set_order =
  fixes it :: "nat set \<Rightarrow> nat list"
  assumes set_it: "finite S \<Longrightarrow> set (it S) = S"
begin

text \<open>The state at the start of a round: the vertices nearer than \<open>k + 1\<close> have their distance,
  the others are unmarked, and the frontier holds the vertices at distance \<open>k\<close>.\<close>

definition search_inv :: "graph \<Rightarrow> nat \<Rightarrow> nat \<Rightarrow> nat list \<Rightarrow> int list \<Rightarrow> nat \<Rightarrow> bool" where
  "search_inv g s k F d r \<longleftrightarrow>
     length d = graph_order g
     \<and> (\<forall>v < graph_order g. d ! v =
          (if reachable g s v \<and> graph_dist g s v \<le> k then int (graph_dist g s v) else - 1))
     \<and> set F = {v. reachable g s v \<and> graph_dist g s v = k}
     \<and> r = card {v. v < graph_order g \<and> 0 \<le> d ! v}"

lemma search_inv_start:
  assumes "wf_graph g" and "s < graph_order g"
  shows "search_inv g s 0 [s] ((replicate (graph_order g) (- 1))[s := 0]) 1"
proof -
  have only: "reachable g s v \<and> graph_dist g s v = 0 \<longleftrightarrow> v = s" for v
    using reachable_dist [of g s v] by auto
  have "{v. v < graph_order g \<and> 0 \<le> ((replicate (graph_order g) (- 1 :: int))[s := 0]) ! v} = {s}"
    using assms(2) by (auto simp: nth_list_update split: if_splits)
  then show ?thesis
    using assms(2) only by (auto simp: search_inv_def nth_list_update)
qed

lemma search_inv_round:
  assumes wf: "wf_graph g" and s: "s < graph_order g" and I: "search_inv g s k F d r"
    and round: "search_round it g (Suc k) F d r = (d', r', nxt)"
  shows "search_inv g s (Suc k) nxt d' r'" and "r' = r + length nxt" and "distinct nxt"
proof -
  let ?n = "graph_order g" and ?vs = "concat (map (\<lambda>u. it (adjacency g ! u)) F)"
  have len: "length d = ?n" and F: "set F = {v. reachable g s v \<and> graph_dist g s v = k}"
    and r: "r = card {v. v < ?n \<and> 0 \<le> d ! v}"
    using I by (simp_all add: search_inv_def)
  have d: "d ! v = (if reachable g s v \<and> graph_dist g s v \<le> k then int (graph_dist g s v) else - 1)"
    if "v < ?n" for v
    using I that by (simp add: search_inv_def)
  have near: "u < ?n" if "reachable g s u" for u
    using that walk_range [OF _ wf s] by (auto simp: reachable_def)
  have vs: "set ?vs = (\<Union>u \<in> set F. adjacency g ! u)"
    using F near wf_graphD(1) [OF wf] set_it by auto
  have "\<forall>v \<in> set ?vs. v < length d"
    using vs F near reachable_next [of g s] len by auto
  moreover have "fold (visit (Suc k)) ?vs (d, r, []) = (d', r', nxt)"
    using round by (simp add: search_round_def fold_concat_map)
  from visits [OF calculation this] obtain new where new: "nxt = [] @ new" "distinct new"
    "set new = {v \<in> set ?vs. d ! v < 0}" "r' = r + length new" "length d' = length d"
    "\<forall>v < length d. d' ! v = (if v \<in> set ?vs \<and> d ! v < 0 then int (Suc k) else d ! v)"
    by blast
  have fresh: "v \<in> set ?vs \<and> d ! v < 0 \<longleftrightarrow> reachable g s v \<and> graph_dist g s v = Suc k" for v
  proof
    assume v: "v \<in> set ?vs \<and> d ! v < 0"
    with vs F obtain u where u: "reachable g s u" "graph_dist g s u = k" "v \<in> adjacency g ! u"
      by auto
    then have rv: "reachable g s v" using reachable_next by blast
    moreover have "graph_dist g s v \<le> Suc k" using dist_next [OF u(1,3)] u(2) by simp
    moreover have "\<not> graph_dist g s v \<le> k" using v d [OF near [OF rv]] rv by auto
    ultimately show "reachable g s v \<and> graph_dist g s v = Suc k" by simp
  next
    assume v: "reachable g s v \<and> graph_dist g s v = Suc k"
    then obtain u where "reachable g s u" "graph_dist g s u = k" "v \<in> adjacency g ! u"
      by (auto elim: dist_pred)
    with vs F v d [OF near [of v]] show "v \<in> set ?vs \<and> d ! v < 0" by auto
  qed
  show "r' = r + length nxt" "distinct nxt" using new by simp_all
  have nxt: "set nxt = {v. reachable g s v \<and> graph_dist g s v = Suc k}" using new fresh by auto
  have d': "d' ! v = (if reachable g s v \<and> graph_dist g s v \<le> Suc k
      then int (graph_dist g s v) else - 1)" if "v < ?n" for v
    using new(6) [rule_format, of v] that fresh [of v] d [OF that] len by (auto simp: le_Suc_eq)
  have marked: "0 \<le> d ! v \<longleftrightarrow> reachable g s v \<and> graph_dist g s v \<le> k"
    "0 \<le> d' ! v \<longleftrightarrow> reachable g s v \<and> graph_dist g s v \<le> Suc k" if "v < ?n" for v
    using d [OF that] d' [OF that] by simp_all
  have "{v. v < ?n \<and> 0 \<le> d' ! v} = {v. v < ?n \<and> 0 \<le> d ! v} \<union> set nxt"
    using marked nxt near by (auto simp: le_Suc_eq)
  moreover have "{v. v < ?n \<and> 0 \<le> d ! v} \<inter> set nxt = {}" using marked nxt near by auto
  ultimately have "r' = card {v. v < ?n \<and> 0 \<le> d' ! v}"
    using new(1,2,4) r by (simp add: card_Un_disjoint distinct_card)
  then show "search_inv g s (Suc k) nxt d' r'"
    using len new(5) d' nxt by (simp add: search_inv_def)
qed

text \<open>Each round with a vertex left to mark marks one: the loop ends within \<open>order + 1\<close> rounds.\<close>

lemma search_loop_ends:
  assumes "wf_graph g" and "s < graph_order g" and "search_inv g s k F d r"
  shows "\<exists>j d' r'. search_loop it g k F d r = Some (d', r') \<and> search_inv g s j [] d' r'"
  using assms(3)
proof (induction "2 * (graph_order g - r) + (if F = [] then 0 else 1)" arbitrary: k F d r
    rule: less_induct)
  case less
  show ?case
  proof (cases "F = []")
    case True
    with less.prems show ?thesis by (auto simp: search_loop.simps)
  next
    case False
    obtain d' r' nxt where round: "search_round it g (Suc k) F d r = (d', r', nxt)"
      by (metis prod_cases3)
    note next_state = search_inv_round [OF assms(1,2) less.prems round]
    have "r' \<le> graph_order g"
      using next_state(1) card_mono [of "{..<graph_order g}" "{v. v < graph_order g \<and> 0 \<le> d' ! v}"]
      by (auto simp: search_inv_def)
    with next_state(2) False have "2 * (graph_order g - r') + (if nxt = [] then 0 else 1)
        < 2 * (graph_order g - r) + (if F = [] then 0 else 1)"
      by (cases nxt) auto
    from less.hyps [OF this next_state(1)] show ?thesis
      using False by (simp add: search_loop.simps [of it g k F] round)
  qed
qed

lemma search_inv_end:
  assumes "wf_graph g" and "s < graph_order g" and "search_inv g s k [] d r"
  shows "r = graph_order g \<longleftrightarrow> (\<forall>v < graph_order g. reachable g s v)"
    and "\<forall>v < graph_order g. reachable g s v
      \<Longrightarrow> d = map (\<lambda>v. int (graph_dist g s v)) [0 ..< graph_order g]"
proof -
  have near: "graph_dist g s v \<le> k" if v: "reachable g s v" for v
  proof (rule ccontr)
    assume "\<not> graph_dist g s v \<le> k"
    then obtain u where "reachable g s u" "graph_dist g s u = k"
      using dist_below [OF v, of k] by auto
    with assms(3) show False by (auto simp: search_inv_def)
  qed
  let ?M = "{v. v < graph_order g \<and> 0 \<le> d ! v}"
  have d: "v < graph_order g \<Longrightarrow> d ! v = (if reachable g s v then int (graph_dist g s v) else - 1)" for v
    using assms(3) near by (auto simp: search_inv_def)
  then have M: "?M = {v. v < graph_order g \<and> reachable g s v}" by (auto split: if_splits)
  have sub: "?M \<subseteq> {..<graph_order g}" by auto
  have "r = graph_order g \<longleftrightarrow> ?M = {..<graph_order g}"
  proof
    assume "r = graph_order g"
    then show "?M = {..<graph_order g}"
      using assms(3) card_subset_eq [OF _ sub] by (simp add: search_inv_def)
  qed (use assms(3) in \<open>simp add: search_inv_def\<close>)
  then show "r = graph_order g \<longleftrightarrow> (\<forall>v < graph_order g. reachable g s v)"
    unfolding M by auto
  show "d = map (\<lambda>v. int (graph_dist g s v)) [0 ..< graph_order g]"
    if "\<forall>v < graph_order g. reachable g s v"
    using that d assms(3) by (auto simp: search_inv_def list_eq_iff_nth_eq)
qed

lemma distances:
  assumes "wf_graph g" and "s < graph_order g"
  shows "bfs_distances it g (int s) = Some
    (if \<forall>v < graph_order g. reachable g s v
     then Inr (map (\<lambda>v. int (graph_dist g s v)) [0 ..< graph_order g]) else Inl not_connected)"
proof -
  have "checked_vertex g (int s) = Inr s" using assms(2) by (simp add: checked_vertex_def)
  moreover obtain j d r where
    "search_loop it g 0 [s] ((replicate (graph_order g) (- 1))[s := 0]) 1 = Some (d, r)"
    and "search_inv g s j [] d r"
    using search_loop_ends [OF assms search_inv_start [OF assms]] by blast
  ultimately show ?thesis
    using search_inv_end [OF assms, of j d r] by (simp add: bfs_distances_def)
qed

lemma loop_returns:
  assumes "wf_graph g" and "s < graph_order g"
  shows "\<exists>d r. search_loop it g 0 [s] ((replicate (graph_order g) (- 1))[s := 0]) 1 = Some (d, r)
    \<and> length d = graph_order g \<and> r \<le> graph_order g"
proof -
  obtain j d r where
    loop: "search_loop it g 0 [s] ((replicate (graph_order g) (- 1))[s := 0]) 1 = Some (d, r)"
    and end_state: "search_inv g s j [] d r"
    using search_loop_ends [OF assms search_inv_start [OF assms]] by blast
  have "r \<le> graph_order g"
    using end_state card_mono [of "{..<graph_order g}" "{v. v < graph_order g \<and> 0 \<le> d ! v}"]
    by (auto simp: search_inv_def)
  with loop end_state show ?thesis by (auto simp: search_inv_def)
qed

lemma connected:
  assumes "wf_graph g"
  shows "is_connected it g = Some (Inr (\<forall>v < graph_order g. reachable g 0 v))"
proof -
  have "0 < graph_order g" using assms by (simp add: wf_graph_def)
  from distances [OF assms this] show ?thesis by (simp add: is_connected_def)
qed

end

interpretation sorted_order: set_order sorted_list_of_set
  by unfold_locales simp

end
