(* ===== verification/Graph_Invariants.thy ===== *)
theory Graph_Invariants
  imports Graph_Search Complex_Main
begin

text \<open>
  \<open>exact_graph/invariants.py\<close>: the Even counts and the Inverse Even value of a graph, as exact
  rationals, against their mathematical definitions.  Every operation returns the search's
  answer: \<open>None\<close> where the search does not return, and otherwise a refusal or a value.
\<close>

section \<open>Sequencing\<close>

definition bind_run :: "'a gres option \<Rightarrow> ('a \<Rightarrow> 'b gres option) \<Rightarrow> 'b gres option" where
  "bind_run m f =
     (case m of None \<Rightarrow> None | Some (Inl e) \<Rightarrow> Some (Inl e) | Some (Inr x) \<Rightarrow> f x)"

lemma bind_run_simps [simp]:
  "bind_run None f = None" "bind_run (Some (Inl e)) f = Some (Inl e)"
  "bind_run (Some (Inr x)) f = f x"
  by (simp_all add: bind_run_def)

section \<open>The counts\<close>

definition even_includes_v :: str where
  "even_includes_v = ''even_includes_v''"

definition even_excludes_v :: str where
  "even_excludes_v = ''even_excludes_v''"

definition even_readings :: "str list" where
  "even_readings = [even_includes_v, even_excludes_v]"

definition checked_reading :: "str \<Rightarrow> unit gres" where
  "checked_reading reading =
     ensure (reading \<in> set even_readings) (InvariantError ''even_reading_unknown'')"

definition even_count :: "(nat set \<Rightarrow> nat list) \<Rightarrow> graph \<Rightarrow> int \<Rightarrow> str \<Rightarrow> int gres option" where
  "even_count it g v reading =
     bind_run (Some (checked_reading reading)) (\<lambda>_.
     bind_run (bfs_distances it g v) (\<lambda>distances.
       Some (Inr (let count = int (length (filter (\<lambda>item. item mod 2 = 0) distances))
                  in if reading = even_excludes_v then count - 1 else count))))"

fun sum_inverses ::
    "(nat set \<Rightarrow> nat list) \<Rightarrow> graph \<Rightarrow> str \<Rightarrow> nat list \<Rightarrow> rat \<Rightarrow> rat gres option" where
  "sum_inverses it g reading [] subtotal = Some (Inr subtotal)"
| "sum_inverses it g reading (v # vs) subtotal =
     bind_run (even_count it g (int v) reading) (\<lambda>count.
       if count = 0 then Some (Inl (InvariantError ''even_count_zero''))
       else sum_inverses it g reading vs (subtotal + Fract 1 count))"

definition inverse_even :: "(nat set \<Rightarrow> nat list) \<Rightarrow> graph \<Rightarrow> str \<Rightarrow> rat gres option" where
  "inverse_even it g reading =
     bind_run (Some (checked_reading reading)) (\<lambda>_.
       sum_inverses it g reading [0 ..< graph_order g] 0)"

text \<open>\<open>tally\<close> is a dict; its items are sorted at the end.\<close>

fun tally_counts ::
    "(nat set \<Rightarrow> nat list) \<Rightarrow> graph \<Rightarrow> str \<Rightarrow> nat list \<Rightarrow> (int \<times> int) list \<Rightarrow> (int \<times> int) list gres option"
where
  "tally_counts it g reading [] tally = Some (Inr (sort tally))"
| "tally_counts it g reading (v # vs) tally =
     bind_run (even_count it g (int v) reading) (\<lambda>count.
       tally_counts it g reading vs
         (case map_of tally count of
            None \<Rightarrow> tally @ [(count, 1)]
          | Some k \<Rightarrow> map (\<lambda>(c, m). (c, if c = count then k + 1 else m)) tally))"

definition even_count_profile ::
    "(nat set \<Rightarrow> nat list) \<Rightarrow> graph \<Rightarrow> str \<Rightarrow> (int \<times> int) list gres option" where
  "even_count_profile it g reading =
     bind_run (Some (checked_reading reading)) (\<lambda>_.
       tally_counts it g reading [0 ..< graph_order g] [])"

section \<open>Reference definitions\<close>

text \<open>\<open>Even(v)\<close>: the vertices at even distance from \<open>v\<close>, with or without \<open>v\<close> itself.\<close>

definition even_set :: "graph \<Rightarrow> str \<Rightarrow> nat \<Rightarrow> nat set" where
  "even_set g reading v =
     {w. w < graph_order g \<and> even (graph_dist g v w) \<and> (reading = even_excludes_v \<longrightarrow> w \<noteq> v)}"

definition connected_graph :: "graph \<Rightarrow> bool" where
  "connected_graph g \<longleftrightarrow>
     wf_graph g \<and> (\<forall>u < graph_order g. \<forall>v < graph_order g. reachable g u v)"

lemma even_set_includes:
  "v < graph_order g \<Longrightarrow> even_set g even_includes_v v = insert v (even_set g even_excludes_v v)"
  by (auto simp: even_set_def even_includes_v_def even_excludes_v_def)

lemma card_even_set:
  assumes "v < graph_order g"
  shows "card (even_set g even_includes_v v) = Suc (card (even_set g even_excludes_v v))"
proof -
  have "finite (even_set g even_excludes_v v)"
    by (rule finite_subset [of _ "{..<graph_order g}"]) (auto simp: even_set_def)
  moreover have "v \<notin> even_set g even_excludes_v v" by (simp add: even_set_def)
  ultimately show ?thesis using assms by (simp add: even_set_includes)
qed

lemma length_filter_upt: "length (filter P [0 ..< n]) = card {w. w < n \<and> P w}"
proof -
  have "card (set (filter P [0 ..< n])) = length (filter P [0 ..< n])"
    by (rule distinct_card) simp
  moreover have "set (filter P [0 ..< n]) = {w. w < n \<and> P w}" by auto
  ultimately show ?thesis by simp
qed

context set_order begin

lemma even_count_is_card:
  assumes g: "connected_graph g" and v: "v < graph_order g" and "reading \<in> set even_readings"
  shows "even_count it g (int v) reading = Some (Inr (int (card (even_set g reading v))))"
proof -
  have bfs: "bfs_distances it g (int v)
      = Some (Inr (map (\<lambda>w. int (graph_dist g v w)) [0 ..< graph_order g]))"
    using g v distances [of g v] by (simp add: connected_graph_def)
  have "even_set g even_includes_v v = {w. w < graph_order g \<and> even (graph_dist g v w)}"
    by (auto simp: even_set_def even_includes_v_def even_excludes_v_def)
  then have "length (filter (\<lambda>item. item mod 2 = 0)
      (map (\<lambda>w. int (graph_dist g v w)) [0 ..< graph_order g])) = card (even_set g even_includes_v v)"
    using length_filter_upt [of "\<lambda>w. even (graph_dist g v w)" "graph_order g"]
    by (simp add: filter_map comp_def even_iff_mod_2_eq_zero [symmetric])
  then show ?thesis
    using assms(3) card_even_set [OF v]
    by (auto simp: even_count_def checked_reading_def bfs even_readings_def Let_def
        even_includes_v_def even_excludes_v_def)
qed

lemma sum_inverses_sum:
  assumes g: "connected_graph g" and reading: "reading \<in> set even_readings"
    and "\<forall>v \<in> set vs. v < graph_order g"
  shows "sum_inverses it g reading vs subtotal =
    Some (if \<exists>v \<in> set vs. even_set g reading v = {} then Inl (InvariantError ''even_count_zero'')
      else Inr (subtotal + (\<Sum>v\<leftarrow>vs. 1 / of_nat (card (even_set g reading v)))))"
  using assms(3)
proof (induction vs arbitrary: subtotal)
  case (Cons v vs)
  have "finite (even_set g reading v)"
    by (rule finite_subset [of _ "{..<graph_order g}"]) (auto simp: even_set_def)
  then show ?case
    using Cons even_count_is_card [OF g _ reading, of v] by (auto simp: Fract_of_int_quotient add.assoc)
qed simp

lemma inverse_even_is_sum:
  assumes "connected_graph g" and "reading \<in> set even_readings"
  shows "inverse_even it g reading =
    Some (if \<exists>v < graph_order g. even_set g reading v = {} then Inl (InvariantError ''even_count_zero'')
      else Inr (\<Sum>v < graph_order g. 1 / of_nat (card (even_set g reading v))))"
  using sum_inverses_sum [OF assms, of "[0 ..< graph_order g]" 0] assms(2)
  by (auto simp: inverse_even_def checked_reading_def interv_sum_list_conv_sum_set_nat atLeast0LessThan)

end

end
