(* ===== verification/Graph_Families.thy ===== *)
theory Graph_Families
  imports Graph_Invariants
begin

text \<open>
  The constructors of named graphs in \<open>exact_graph/graph.py\<close>: cycles, Kneser graphs, and the
  family \<open>G(r, t)\<close> of the Graffiti 322 report with its vertex layout.  The docstring of
  \<open>graffiti_family\<close> leaves the two counting identities to tests; they are theorems here.
\<close>

section \<open>Cycles and Kneser graphs\<close>

definition cycle :: "int \<Rightarrow> graph gres" where
  "cycle n =
     bindE (ensure (3 \<le> n) malformed) (\<lambda>_.
       build_graph (JStr (CHR ''C'' # int_str n)) (JInt n)
         (map (\<lambda>i. edge_json (i, (i + 1) mod nat n)) [0 ..< nat n]))"

text \<open>\<open>itertools.combinations(xs, k)\<close>.\<close>

fun combinations :: "nat \<Rightarrow> nat list \<Rightarrow> nat list list" where
  "combinations 0 xs = [[]]"
| "combinations (Suc k) [] = []"
| "combinations (Suc k) (x # xs) = map ((#) x) (combinations k xs) @ combinations (Suc k) xs"

definition kneser_edges :: "nat list list \<Rightarrow> (nat \<times> nat) list" where
  "kneser_edges sets =
     concat (map (\<lambda>i. map (Pair i)
         (filter (\<lambda>j. set (sets ! i) \<inter> set (sets ! j) = {}) [Suc i ..< length sets]))
       [0 ..< length sets])"

definition kneser :: "int \<Rightarrow> int \<Rightarrow> graph gres" where
  "kneser n k =
     bindE (ensure (1 \<le> n) malformed) (\<lambda>_.
     bindE (ensure (1 \<le> k) malformed) (\<lambda>_.
     bindE (ensure (k \<le> n) malformed) (\<lambda>_.
       let vertices = combinations (nat k) [0 ..< nat n] in
       bindE (ensure (int (length vertices) \<le> max_graph_order) malformed) (\<lambda>_.
         build_graph (JStr (CHR ''K'' # int_str n @ CHR ''-'' # int_str k))
           (JInt (int (length vertices))) (map edge_json (kneser_edges vertices))))))"

section \<open>G(r, t)\<close>

record graffiti_layout =
  gl_r :: nat
  gl_t :: nat

definition layout_order :: "graffiti_layout \<Rightarrow> nat" where
  "layout_order L = gl_r L * gl_r L + gl_r L * gl_t L"

definition branch :: "graffiti_layout \<Rightarrow> nat \<Rightarrow> nat" where
  "branch L i = i"

definition internal :: "graffiti_layout \<Rightarrow> nat \<Rightarrow> nat \<Rightarrow> nat gres" where
  "internal L i j =
     bindE (ensure (i \<noteq> j) malformed) (\<lambda>_.
       Inr (gl_r L + (i * (gl_r L - 1) + (if j < i then j else j - 1))))"

definition leaf :: "graffiti_layout \<Rightarrow> nat \<Rightarrow> nat \<Rightarrow> nat" where
  "leaf L i a = gl_r L + gl_r L * (gl_r L - 1) + i * gl_t L + a"

definition branch_indices :: "graffiti_layout \<Rightarrow> nat list" where
  "branch_indices L = [0 ..< gl_r L]"

definition internal_pairs :: "graffiti_layout \<Rightarrow> (nat \<times> nat) list" where
  "internal_pairs L =
     concat (map (\<lambda>i. map (Pair i) (filter (\<lambda>j. i \<noteq> j) [0 ..< gl_r L])) [0 ..< gl_r L])"

definition internal_indices :: "graffiti_layout \<Rightarrow> nat list gres" where
  "internal_indices L = mapE (\<lambda>(i, j). internal L i j) (internal_pairs L)"

definition leaf_indices :: "graffiti_layout \<Rightarrow> nat list" where
  "leaf_indices L = concat (map (\<lambda>i. map (leaf L i) [0 ..< gl_t L]) [0 ..< gl_r L])"

definition graffiti_family_layout :: "int \<Rightarrow> int \<Rightarrow> graffiti_layout gres" where
  "graffiti_family_layout r t =
     bindE (ensure (4 \<le> r) malformed) (\<lambda>_.
     bindE (ensure (2 \<le> t) malformed) (\<lambda>_.
       let L = \<lparr>gl_r = nat r, gl_t = nat t\<rparr> in
       bindE (ensure (int (layout_order L) \<le> max_graph_order) malformed) (\<lambda>_. Inr L)))"

text \<open>The body of the loops over \<open>j\<close> and over \<open>i\<close>, returning the edges they append.\<close>

definition internal_edges :: "graffiti_layout \<Rightarrow> nat \<Rightarrow> nat \<Rightarrow> (nat \<times> nat) list gres" where
  "internal_edges L i j =
     (if i = j then Inr []
      else bindE (internal L i j) (\<lambda>x.
        if i < j then bindE (internal L j i) (\<lambda>y. Inr [(branch L i, x), (x, y)])
        else Inr [(branch L i, x)]))"

definition branch_edges :: "graffiti_layout \<Rightarrow> nat \<Rightarrow> (nat \<times> nat) list gres" where
  "branch_edges L i =
     bindE (mapE (internal_edges L i) [0 ..< gl_r L]) (\<lambda>ess.
       Inr (concat ess @ map (\<lambda>a. (branch L i, leaf L i a)) [0 ..< gl_t L]))"

definition graffiti_family :: "int \<Rightarrow> int \<Rightarrow> graph gres" where
  "graffiti_family r t =
     bindE (graffiti_family_layout r t) (\<lambda>L.
     bindE (mapE (branch_edges L) [0 ..< gl_r L]) (\<lambda>ess.
       build_graph (JStr (''G('' @ int_str r @ '','' @ int_str t @ '')''))
         (JInt (int (layout_order L))) (map edge_json (concat ess))))"

section \<open>Graph names\<close>

lemma stripped_graphic:
  assumes "s \<noteq> []" and "hd s \<noteq> CHR '' ''" and "(of_char (hd s) :: nat) < 128"
    and "last s \<noteq> CHR '' ''" and "(of_char (last s) :: nat) < 128"
  shows "stripped s"
  unfolding stripped_def
proof (intro ballI conjI notI)
  fix w assume w: "w \<in> set py_spaces"
  note ends = py_spaces_ends [rule_format, OF w]
  { assume "take (length w) s = w"
    moreover have "hd (take (length w) s) = hd s" using ends by simp
    ultimately have "hd w = hd s" by simp
    with ends assms show False by auto }
  { assume "take (length w) (rev s) = rev w"
    moreover have "hd (take (length w) (rev s)) = hd (rev s)" using ends by simp
    ultimately have "hd (rev w) = hd (rev s)" by simp
    then have "last w = last s" by (simp add: hd_rev)
    with ends assms show False by auto }
qed

lemma digit_graphic: "is_digit c \<Longrightarrow> c \<noteq> CHR '' '' \<and> \<not> is_control c \<and> (of_char c :: nat) < 128"
  by (auto simp: is_digit_of_char is_control_def)

lemma length_nat_str: "n < 10 ^ Suc k \<Longrightarrow> length (nat_str n) \<le> Suc k"
proof (induction k arbitrary: n)
  case 0
  then show ?case by (simp add: nat_str.simps [of n])
next
  case (Suc k)
  then have "n div 10 < 10 ^ Suc k" by (simp add: less_mult_imp_div_less mult.commute)
  from Suc.IH [OF this] show ?case by (simp add: nat_str.simps [of n])
qed

lemma py_len_le: "py_len s \<le> length s"
  by (simp add: py_len_def)

lemma family_name:
  assumes "r \<le> 4096" and "t \<le> 4096"
  shows "valid_graph_id (''G('' @ nat_str r @ '','' @ nat_str t @ '')'')"
proof -
  let ?s = "''G('' @ nat_str r @ '','' @ nat_str t @ '')''"
  have "length (nat_str r) \<le> 4" "length (nat_str t) \<le> 4"
    using length_nat_str [of r 3] length_nat_str [of t 3] assms by simp_all
  then have "py_len ?s \<le> 128" using py_len_le [of ?s] by simp
  moreover have "\<forall>c \<in> set ?s. \<not> is_control c"
    using nat_str_digits [of _ r] nat_str_digits [of _ t] digit_graphic
    by (auto simp: is_control_def)
  moreover have "stripped ?s" by (rule stripped_graphic) simp_all
  ultimately show ?thesis by (simp add: valid_graph_id_def)
qed

end
