(* ===== verification/Graffiti.thy ===== *)
theory Graffiti
  imports Graph_Families
begin

text \<open>
  The family \<open>G(r, t)\<close>: the constructor accepts its edge list for all parameters of the domain,
  and the graph has the order and the size the report states and is connected.
\<close>

section \<open>The edge list, without the refusals of the layout\<close>

definition inner :: "nat \<Rightarrow> nat \<Rightarrow> nat \<Rightarrow> nat" where
  "inner r i j = r + (i * (r - 1) + (if j < i then j else j - 1))"

definition inner_edges :: "nat \<Rightarrow> nat \<Rightarrow> nat \<Rightarrow> (nat \<times> nat) list" where
  "inner_edges r i j =
     (if i = j then [] else if i < j then [(i, inner r i j), (inner r i j, inner r j i)]
      else [(i, inner r i j)])"

definition star_edges :: "nat \<Rightarrow> nat \<Rightarrow> nat \<Rightarrow> (nat \<times> nat) list" where
  "star_edges r t i =
     concat (map (inner_edges r i) [0 ..< r]) @ map (\<lambda>a. (i, r + r * (r - 1) + i * t + a)) [0 ..< t]"

definition family_edges :: "nat \<Rightarrow> nat \<Rightarrow> (nat \<times> nat) list" where
  "family_edges r t = concat (map (star_edges r t) [0 ..< r])"

lemma internal_edges_inner:
  "internal_edges \<lparr>gl_r = r, gl_t = t\<rparr> i j = Inr (inner_edges r i j)"
  by (auto simp: internal_edges_def inner_edges_def internal_def branch_def inner_def)

lemma branch_edges_star: "branch_edges \<lparr>gl_r = r, gl_t = t\<rparr> i = Inr (star_edges r t i)"
  by (simp add: branch_edges_def mapE_map internal_edges_inner star_edges_def branch_def leaf_def)

lemma family_edges_appended:
  "mapE (branch_edges \<lparr>gl_r = r, gl_t = t\<rparr>) [0 ..< r] = Inr (map (star_edges r t) [0 ..< r])"
  by (simp add: mapE_map branch_edges_star)

section \<open>Its edges are simple\<close>

lemma inner_bounds:
  assumes "i < r" and "j < r" and "i \<noteq> j"
  shows "r \<le> inner r i j" and "inner r i j < r * r"
    and "(inner r i j - r) div (r - 1) = i" and "inner r i j = inner r i k \<Longrightarrow> k < r \<Longrightarrow> k \<noteq> i \<Longrightarrow> k = j"
proof -
  let ?o = "if j < i then j else j - 1"
  have o: "?o < r - 1" using assms by auto
  show "r \<le> inner r i j" by (simp add: inner_def)
  show "(inner r i j - r) div (r - 1) = i" using o by (simp add: inner_def)
  have "i * (r - 1) + ?o < Suc i * (r - 1)" using o by simp
  also have "\<dots> \<le> r * (r - 1)" using assms(1) by (intro mult_right_mono) auto
  finally have "inner r i j < r + r * (r - 1)" by (simp add: inner_def)
  also have "\<dots> = r * r" using assms(1) by (cases r) auto
  finally show "inner r i j < r * r" .
  show "k = j" if "inner r i j = inner r i k" "k < r" "k \<noteq> i"
    using that assms by (auto simp: inner_def split: if_splits)
qed

lemma inner_mono:
  assumes "i < j" and "j < r"
  shows "inner r i j < inner r j i"
proof -
  have "i * (r - 1) + (j - 1) < Suc i * (r - 1)" using assms by simp
  also have "\<dots> \<le> j * (r - 1)" using assms by (intro mult_right_mono) auto
  finally show ?thesis using assms by (simp add: inner_def)
qed

text \<open>A list of lists has no repetition when every element names the list it belongs to.\<close>

lemma distinct_concat_owner:
  assumes "distinct xs" and "\<And>x. x \<in> set xs \<Longrightarrow> distinct (f x)"
    and "\<And>x y. x \<in> set xs \<Longrightarrow> y \<in> set (f x) \<Longrightarrow> own y = x"
  shows "distinct (concat (map f xs))"
  using assms
proof (induction xs)
  case (Cons x xs)
  have "distinct (concat (map f xs))" using Cons by simp
  moreover have "y \<notin> set (f z)" if "y \<in> set (f x)" and "z \<in> set xs" for y z
    using that Cons.prems(1) Cons.prems(3) [of x y] Cons.prems(3) [of z y] by auto
  ultimately show ?case using Cons.prems(2) by auto
qed simp

lemma star_edges_cases:
  assumes "e \<in> set (star_edges r t i)" and "i < r"
  obtains (spoke) j where "j < r" and "i \<noteq> j" and "e = (i, inner r i j)"
  | (link) j where "j < r" and "i < j" and "e = (inner r i j, inner r j i)"
  | (leaf) a where "a < t" and "e = (i, r + r * (r - 1) + i * t + a)"
proof -
  from assms(1) consider (inner) j where "j < r" and "e \<in> set (inner_edges r i j)"
    | (out) a where "a < t" and "e = (i, r + r * (r - 1) + i * t + a)"
    by (auto simp: star_edges_def)
  then show thesis
  proof cases
    case inner
    then have "i \<noteq> j" and "e = (i, inner r i j) \<or> i < j \<and> e = (inner r i j, inner r j i)"
      by (auto simp: inner_edges_def split: if_splits)
    then show thesis using spoke [of j] link [of j] inner(1) by blast
  next
    case out
    then show thesis by (rule leaf)
  qed
qed

lemma square: "0 < r \<Longrightarrow> r + r * (r - 1) = (r * r :: nat)"
  by (cases r) auto

lemma leaf_bound:
  assumes "i < r" and "a < (t :: nat)"
  shows "r + r * (r - 1) + i * t + a < r * r + r * t"
proof -
  have "i * t + a < Suc i * t" using assms by simp
  also have "\<dots> \<le> r * t" using assms(1) by (intro mult_right_mono) auto
  finally show ?thesis using square [of r] assms(1) by simp
qed

lemma star_edges_order:
  assumes e: "e \<in> set (star_edges r t i)" and i: "i < r"
  shows "fst e < snd e" and "snd e < r * r + r * t"
    and "(if fst e < r then fst e else (fst e - r) div (r - 1)) = i"
proof -
  have rr: "r \<le> r * r" by (cases r) auto
  have *: "fst e < snd e \<and> snd e < r * r + r * t
      \<and> (if fst e < r then fst e else (fst e - r) div (r - 1)) = i"
  proof (rule star_edges_cases [OF e i])
    fix j assume j: "j < r" "i \<noteq> j" and e: "e = (i, inner r i j)"
    then show ?thesis using inner_bounds(1,2) [OF i j(1,2)] i by simp
  next
    fix j assume j: "j < r" "i < j" and e: "e = (inner r i j, inner r j i)"
    have "i \<noteq> j" "j \<noteq> i" using j by auto
    note x = inner_bounds [OF i j(1) this(1)] and y = inner_bounds(2) [OF j(1) i this(2)]
    have "\<not> inner r i j < r" using x(1) by simp
    then show ?thesis using e x(3) y inner_mono [OF j(2,1)] by simp
  next
    fix a assume "a < t" and "e = (i, r + r * (r - 1) + i * t + a)"
    then show ?thesis using leaf_bound [OF i \<open>a < t\<close>] i by simp
  qed
  then show "fst e < snd e" "snd e < r * r + r * t"
    "(if fst e < r then fst e else (fst e - r) div (r - 1)) = i" by blast+
qed

lemma distinct_star_edges:
  assumes i: "i < r"
  shows "distinct (star_edges r t i)"
proof -
  define own where "own e = (THE j. j < r \<and> j \<noteq> i \<and> inner r i j = (if fst e < r then snd e else fst e))"
    for e :: "nat \<times> nat"
  have same: "(THE k. k < r \<and> k \<noteq> i \<and> inner r i k = inner r i j) = j" if "j < r" "i \<noteq> j" for j
    using that inner_bounds(4) [OF i that] by (intro the_equality) auto
  have far: "\<not> inner r i j < r" if "j < r" "i \<noteq> j" for j
    using inner_bounds(1) [OF i that] by simp
  have "distinct (concat (map (inner_edges r i) [0 ..< r]))"
  proof (rule distinct_concat_owner [where own = own])
    fix j assume j: "j \<in> set [0 ..< r]"
    show "distinct (inner_edges r i j)"
      using j far [of j] i by (auto simp: inner_edges_def)
    fix e assume "e \<in> set (inner_edges r i j)"
    then have "i \<noteq> j" and "e = (i, inner r i j) \<or> e = (inner r i j, inner r j i)"
      by (auto simp: inner_edges_def split: if_splits)
    then show "own e = j"
      using j i same [of j] far [of j] by (auto simp: own_def)
  qed simp
  moreover have "distinct (map (\<lambda>a. (i, r + r * (r - 1) + i * t + a)) [0 ..< t])"
    by (simp add: distinct_map inj_on_def)
  moreover have "snd e < r * r" if "e \<in> set (inner_edges r i j)" "j < r" for e j
    using that inner_bounds(2) [OF i, of j] inner_bounds(2) [OF _ i, of j]
    by (auto simp: inner_edges_def split: if_splits)
  ultimately show ?thesis
    using square [of r] i by (fastforce simp: star_edges_def)
qed

lemma simple_family_edges: "simple_edges (r * r + r * t) (family_edges r t)"
proof -
  have edge: "fst e < snd e" "snd e < r * r + r * t" if family: "e \<in> set (family_edges r t)" for e
  proof -
    obtain i where i: "i < r" and e: "e \<in> set (star_edges r t i)"
      using family by (auto simp: family_edges_def)
    show "fst e < snd e" "snd e < r * r + r * t" using star_edges_order(1,2) [OF e i] .
  qed
  then have "edge_key e = e" if "e \<in> set (family_edges r t)" for e
    using that by (simp add: edge_key_def)
  then have "map edge_key (family_edges r t) = family_edges r t" by (simp add: map_idI)
  moreover have "distinct (family_edges r t)"
    unfolding family_edges_def
    by (rule distinct_concat_owner [where own = "\<lambda>e. if fst e < r then fst e else (fst e - r) div (r - 1)"])
      (simp_all add: distinct_star_edges star_edges_order(3))
  ultimately show ?thesis using edge by (force simp: simple_edges_def)
qed

section \<open>How many edges\<close>

lemma sum_list_const_on: "(\<And>x. x \<in> set xs \<Longrightarrow> f x = c) \<Longrightarrow> sum_list (map f xs) = length xs * (c :: nat)"
  by (induction xs) auto

lemma length_star_edges:
  assumes "i < r"
  shows "length (star_edges r t i) + i = 2 * (r - 1) + t"
proof -
  have "[0 ..< r] = [0 ..< i] @ i # [Suc i ..< r]"
    using assms upt_add_eq_append [of 0 i "r - i"] by (simp add: upt_conv_Cons)
  moreover have "sum_list (map (length \<circ> inner_edges r i) [0 ..< i]) = i"
    using sum_list_const_on [of "[0 ..< i]" "length \<circ> inner_edges r i" 1] by (simp add: inner_edges_def)
  moreover have "sum_list (map (length \<circ> inner_edges r i) [Suc i ..< r]) = (r - Suc i) * 2"
    using sum_list_const_on [of "[Suc i ..< r]" "length \<circ> inner_edges r i" 2] by (simp add: inner_edges_def)
  ultimately have "length (concat (map (inner_edges r i) [0 ..< r])) = i + (r - Suc i) * 2"
    by (simp add: length_concat inner_edges_def [of r i i])
  then show ?thesis using assms by (simp add: star_edges_def)
qed

lemma length_family_edges: "2 * length (family_edges r t) = 3 * r * (r - 1) + 2 * r * t"
proof -
  have "length (family_edges r t) + (\<Sum>i < r. i) = (\<Sum>i < r. length (star_edges r t i) + i)"
    by (simp add: family_edges_def length_concat comp_def interv_sum_list_conv_sum_set_nat
        atLeast0LessThan sum.distrib)
  also have "\<dots> = r * (2 * (r - 1) + t)" by (simp add: length_star_edges)
  finally have sum: "length (family_edges r t) + (\<Sum>i < r. i) = r * (2 * (r - 1) + t)" .
  have gauss: "2 * (\<Sum>i < r. i) = r * (r - 1)" for r :: nat
  proof (induction r)
    case (Suc r)
    then show ?case by (cases r) simp_all
  qed simp
  have "2 * length (family_edges r t) + r * (r - 1) = 2 * (r * (2 * (r - 1) + t))"
    using arg_cong [OF sum, of "\<lambda>x. 2 * x"] unfolding gauss [symmetric] by simp
  moreover have "2 * (r * (2 * (r - 1) + t)) = (3 * r * (r - 1) + 2 * r * t) + r * (r - 1)"
    by (simp add: algebra_simps)
  ultimately show ?thesis by simp
qed

section \<open>The graph\<close>

lemma graffiti_family_built:
  assumes "4 \<le> r" and "2 \<le> t" and "r * r + r * t \<le> 4096"
  shows "graffiti_family (int r) (int t)
    = Inr (graph_of (''G('' @ nat_str r @ '','' @ nat_str t @ '')'') (r * r + r * t) (family_edges r t))"
proof -
  have layout: "graffiti_family_layout (int r) (int t) = Inr \<lparr>gl_r = r, gl_t = t\<rparr>"
    using assms by (simp add: graffiti_family_layout_def layout_order_def max_graph_order_def
        flip: of_nat_mult of_nat_add)
  have "r \<le> r * r" "t \<le> r * t" using assms by simp_all
  with assms(3) have "r \<le> 4096" "t \<le> 4096" by linarith+
  then have "valid_graph_id (''G('' @ nat_str r @ '','' @ nat_str t @ '')'')" by (rule family_name)
  moreover have "int (r * r + r * t) \<le> max_graph_order" "0 < r * r + r * t"
    using assms by (simp_all add: max_graph_order_def flip: of_nat_mult of_nat_add)
  ultimately have "build_graph (JStr (''G('' @ nat_str r @ '','' @ nat_str t @ '')''))
      (JInt (int (r * r + r * t))) (map edge_json (family_edges r t))
    = Inr (graph_of (''G('' @ nat_str r @ '','' @ nat_str t @ '')'') (r * r + r * t) (family_edges r t))"
    using simple_family_edges by (subst build_graph_Inr) blast
  then show ?thesis
    by (simp add: graffiti_family_def layout family_edges_appended layout_order_def int_str_def
        family_edges_def)
qed

lemma family_edge_adjacent:
  assumes "(u, v) \<in> set (family_edges r t)" and "u < n" and "v < n"
  shows "v \<in> adjacency (graph_of i n (family_edges r t)) ! u"
    and "u \<in> adjacency (graph_of i n (family_edges r t)) ! v"
  using assms by (simp_all add: graph_of_def adjacent_in_def)

text \<open>Every vertex is a branch vertex, an internal vertex or a leaf.\<close>

lemma family_vertex_cases:
  assumes "v < r * r + r * t" and "2 \<le> r"
  obtains "v < r"
  | i j where "i < r" and "j < r" and "i \<noteq> j" and "v = inner r i j"
  | i a where "i < r" and "a < t" and "v = r + r * (r - 1) + i * t + a"
proof -
  consider "v < r" | "r \<le> v" "v < r * r" | "r * r \<le> v" by linarith
  then show thesis
  proof cases
    case 1 then show thesis by (rule that(1))
  next
    case 2
    define i m where "i = (v - r) div (r - 1)" and "m = (v - r) mod (r - 1)"
    have "v - r < r * (r - 1)" using 2 square [of r] assms(2) by simp
    then have i: "i < r" unfolding i_def using assms(2) by (simp add: less_mult_imp_div_less)
    have m: "m < r - 1" unfolding m_def using assms(2) by simp
    have v: "v = r + (i * (r - 1) + m)" unfolding i_def m_def div_mult_mod_eq using 2 by simp
    show thesis
    proof (cases "m < i")
      case True
      then show thesis using that(2) [of i m] i m v by (simp add: inner_def)
    next
      case False
      then show thesis using that(2) [of i "Suc m"] i m v by (simp add: inner_def)
    qed
  next
    case 3
    have t: "0 < t" using 3 assms(1) by (cases t) auto
    define w where "w = v - r * r"
    have "w < r * t" using 3 assms(1) by (simp add: w_def)
    then have "w div t < r" using t by (simp add: less_mult_imp_div_less)
    moreover have "v = r + r * (r - 1) + w div t * t + w mod t"
      using 3 square [of r] assms(2) by (simp add: w_def)
    ultimately show thesis using that(3) [of "w div t" "w mod t"] t by simp
  qed
qed

lemma reachable_trans: "reachable g s u \<Longrightarrow> reachable g u v \<Longrightarrow> reachable g s v"
proof -
  assume s: "reachable g s u" and "reachable g u v"
  then obtain k where "walk g u k v" by (auto simp: reachable_def)
  then show "reachable g s v"
    using s by (induction rule: walk.induct) (auto intro: reachable_next)
qed

lemma reachable_edge: "v \<in> adjacency g ! u \<Longrightarrow> reachable g u v"
  by (rule reachable_next [OF reachable_source])

lemma reachable_sym:
  assumes "wf_graph g" and "u < graph_order g" and "reachable g u v"
  shows "reachable g v u"
proof -
  from assms(3) obtain k where "walk g u k v" by (auto simp: reachable_def)
  then show ?thesis
  proof (induction rule: walk.induct)
    case (walk_step k w v)
    have "w < graph_order g" using walk_range [OF walk_step.hyps(1) assms(1,2)] .
    then have "w \<in> adjacency g ! v" using assms(1) walk_step.hyps(2) by (auto simp: wf_graph_def)
    from reachable_trans [OF reachable_edge [OF this] walk_step.IH] show ?case .
  qed simp
qed

lemma family_connected:
  fixes r t :: nat and name :: str
  defines "g \<equiv> graph_of name (r * r + r * t) (family_edges r t)"
  assumes r: "2 \<le> r" and wf: "wf_graph g"
  shows "connected_graph g"
proof -
  let ?n = "r * r + r * t"
  have n: "graph_order g = ?n" by (simp add: g_def graph_of_def)
  have rn: "u < ?n" if "u < r" for u using that by (cases r) auto
  have edge: "v \<in> adjacency g ! u" if "(u, v) \<in> set (star_edges r t i)" "i < r" for u v i
  proof -
    have family: "(u, v) \<in> set (family_edges r t)" using that by (auto simp: family_edges_def)
    have "u < v" "v < ?n" using star_edges_order(1,2) [OF that] by simp_all
    then show ?thesis unfolding g_def using family_edge_adjacent(1) [OF family] by simp
  qed
  have spoke: "reachable g i (inner r i j)" if "i < r" "j < r" "i \<noteq> j" for i j
  proof -
    have "(i, inner r i j) \<in> set (inner_edges r i j)" using that(3) by (simp add: inner_edges_def)
    then have "(i, inner r i j) \<in> set (star_edges r t i)" using that(2) by (force simp: star_edges_def)
    from edge [OF this that(1)] show ?thesis by (rule reachable_edge)
  qed
  have branch: "reachable g 0 j" if "j < r" for j
  proof (cases "j = 0")
    case False
    have "(inner r 0 j, inner r j 0) \<in> set (inner_edges r 0 j)" using False by (simp add: inner_edges_def)
    then have "(inner r 0 j, inner r j 0) \<in> set (star_edges r t 0)" using that by (force simp: star_edges_def)
    from reachable_edge [OF edge [OF this]] have link: "reachable g (inner r 0 j) (inner r j 0)"
      using r by simp
    have "reachable g 0 (inner r 0 j)" using spoke [of 0 j] False that r by simp
    moreover have "reachable g (inner r j 0) j"
      using reachable_sym [OF wf _ spoke [of j 0]] rn that False r n by simp
    ultimately show ?thesis using link by (blast intro: reachable_trans)
  qed simp
  have zero: "reachable g 0 v" if "v < ?n" for v
    using that r
  proof (cases rule: family_vertex_cases)
    case 1 then show ?thesis by (rule branch)
  next
    case (2 i j) then show ?thesis using branch spoke by (blast intro: reachable_trans)
  next
    case (3 i a)
    then have "(i, v) \<in> set (star_edges r t i)" by (force simp: star_edges_def)
    from reachable_edge [OF edge [OF this 3(1)]] show ?thesis
      using branch [OF 3(1)] by (blast intro: reachable_trans)
  qed
  have "reachable g u v" if "u < ?n" "v < ?n" for u v
    using reachable_sym [OF wf _ zero [OF that(1)]] zero [OF that(2)] rn [of 0] r n
    by (auto intro: reachable_trans)
  then show ?thesis using wf n by (simp add: connected_graph_def)
qed

end
