(* ===== verification/Graph_Props.thy ===== *)
theory Graph_Props
  imports Graffiti
begin

text \<open>
  The properties of the exact graphs: the search against shortest walks, its termination, the
  counts against their definitions, and the Graffiti family.
\<close>

section \<open>Examples\<close>

text \<open>The path \<open>0 - 1 - 2\<close>.\<close>

definition path3 :: graph where
  "path3 = \<lparr>graph_id = ''P3'', graph_order = 3, adjacency = [{1}, {0, 2}, {1}]\<rparr>"

lemma path3_simps: "graph_order path3 = 3" "adjacency path3 = [{1}, {0, 2}, {1}]"
  by (simp_all add: path3_def)

lemmas path3_order = path3_simps(1)

lemma path3_wf: "wf_graph path3"
  by (auto simp: wf_graph_def path3_simps max_graph_order_def numeral_3_eq_3 less_Suc_eq)

lemma path3_connected: "connected_graph path3"
proof -
  have "1 \<in> adjacency path3 ! 0" "2 \<in> adjacency path3 ! 1"
    by (simp_all add: path3_simps)
  then have "reachable path3 0 1" "reachable path3 0 2"
    by (blast intro: reachable_next reachable_source)+
  moreover have "v = 0 \<or> v = 1 \<or> v = 2" if "v < graph_order path3" for v
    using that path3_order by auto
  ultimately have zero: "reachable path3 0 v" if "v < graph_order path3" for v
    using that by fastforce
  then show ?thesis
    using path3_wf reachable_sym [OF path3_wf] reachable_trans [of path3] path3_order
    unfolding connected_graph_def by (metis zero_less_numeral)
qed

section \<open>Properties\<close>

text \<open>C15: For every graph that \<open>build_graph\<close> can build, every vertex and every order in which the
  neighbour sets are iterated, \<open>bfs_distances\<close> returns: with the length of a shortest walk to
  each vertex where all vertices are reachable, and with the refusal \<open>graph_not_connected\<close>
  otherwise.
\<close>

theorem bfs_distances_shortest:
  assumes "set_order it" and "wf_graph g" and "s < graph_order g"
  shows "bfs_distances it g (int s) = Some
    (if \<forall>v < graph_order g. reachable g s v
     then Inr (map (\<lambda>v. int (LEAST k. walk g s k v)) [0 ..< graph_order g])
     else Inl (GraphError ''graph_not_connected''))"
  using set_order.distances [OF assms] by (simp add: graph_dist_def)

theorem bfs_distances_shortest_witness:
  "bfs_distances sorted_list_of_set path3 (int 2) = Some (Inr [2, 1, 0])"
proof -
  have r: "\<forall>v < graph_order path3. reachable path3 2 v"
    using path3_connected path3_order by (simp add: connected_graph_def)
  have loop: "bfs_distances sorted_list_of_set path3 (int 2) = Some (Inr [2, 1, 0])"
    by (simp add: bfs_distances_def checked_vertex_def path3_simps search_loop.simps
        search_round_def visit_def numeral_3_eq_3)
  from bfs_distances_shortest [OF sorted_order.set_order_axioms path3_wf, of 2] r path3_order loop
  show ?thesis by simp
qed



text \<open>On a connected graph the Inverse Even value is the sum over the vertices of one over the
  number of vertices at even distance, counted with or without the vertex itself as the reading
  says; where some vertex has none the value is refused, never infinite.
\<close>

theorem inverse_even_value:
  assumes "set_order it" and "connected_graph g" and "reading \<in> set even_readings"
  shows "inverse_even it g reading = Some
    (if \<exists>v < graph_order g. even_set g reading v = {} then Inl (InvariantError ''even_count_zero'')
     else Inr (\<Sum>v < graph_order g. 1 / of_nat (card (even_set g reading v))))"
  using assms by (rule set_order.inverse_even_is_sum)

theorem inverse_even_value_witness:
  "inverse_even sorted_list_of_set path3 even_excludes_v
     = Some (Inl (InvariantError ''even_count_zero''))"
proof -
  have one: "graph_dist path3 1 v = 1" if "v = 0 \<or> v = 2" for v
  proof -
    have "v \<in> adjacency path3 ! 1"
      using that by (auto simp: path3_simps)
    then have "walk path3 1 1 v" using walk_step [OF walk_refl] by simp
    then have "graph_dist path3 1 v \<le> 1" and "reachable path3 1 v"
      using dist_le_walk by (auto simp: reachable_def)
    moreover have "graph_dist path3 1 v \<noteq> 0"
      using reachable_dist [OF \<open>reachable path3 1 v\<close>] that by (auto intro: Nat.gr0I)
    ultimately show ?thesis by simp
  qed
  have "v \<notin> even_set path3 even_excludes_v 1" for v
  proof
    assume "v \<in> even_set path3 even_excludes_v 1"
    then have "v < 3" "v \<noteq> 1" "even (graph_dist path3 1 v)"
      by (simp_all add: even_set_def path3_order)
    then show False using one [of v] by (cases "v = 0 \<or> v = 2") auto
  qed
  then have "even_set path3 even_excludes_v 1 = {}" by blast
  then show ?thesis
    using inverse_even_value [OF sorted_order.set_order_axioms path3_connected, of even_excludes_v] path3_order
    by (auto simp: even_readings_def intro!: exI [of _ 1])
qed

text \<open>For all parameters of its domain \<open>graffiti_family\<close> builds a connected graph with
  \<open>r^2 + r t\<close> vertices and \<open>3 r (r - 1) / 2 + r t\<close> edges.
\<close>

theorem graffiti_family_counts:
  assumes "4 \<le> r" and "2 \<le> t" and "r * r + r * t \<le> 4096"
  shows "\<exists>g. graffiti_family (int r) (int t) = Inr g \<and> connected_graph g
    \<and> graph_order g = r ^ 2 + r * t \<and> 2 * graph_size g = 3 * r * (r - 1) + 2 * r * t"
proof -
  have bounds: "0 < r * r + r * t" "int (r * r + r * t) \<le> max_graph_order"
    using assms by (simp_all add: max_graph_order_def flip: of_nat_mult of_nat_add)
  let ?g = "graph_of (''G('' @ nat_str r @ '','' @ nat_str t @ '')'') (r * r + r * t) (family_edges r t)"
  have "connected_graph ?g"
    using assms(1) wf_graph_of [OF simple_family_edges bounds] by (intro family_connected) simp_all
  moreover have "graph_order ?g = r ^ 2 + r * t" by (simp add: graph_of_def power2_eq_square)
  moreover have "2 * graph_size ?g = 3 * r * (r - 1) + 2 * r * t"
    using edges_graph_of(2) [OF simple_family_edges bounds] length_family_edges by simp
  ultimately show ?thesis using graffiti_family_built [OF assms] by blast
qed

theorem graffiti_family_counts_witness:
  "\<exists>g. graffiti_family 14 18 = Inr g \<and> connected_graph g \<and> graph_order g = 448 \<and> graph_size g = 525"
  using graffiti_family_counts [of 14 18] by simp

end
