(* ===== verification/Pacing.thy ===== *)
theory Pacing
  imports Json
begin

text \<open>
  \<open>corpus/pacing.py\<close>: the pacer every corpus request goes through.  The clock and the sleeper
  are injected objects: they are the functions of a \<open>traffic_ports\<close> record over a world of any
  type, a reading is whatever value the clock returns (\<open>None\<close> where it raises), and a call that
  raises keeps the changes it made to the pacer.  The theorems hold for every clock and sleeper;
  only the liveness lemmas ask for honest ones (\<open>honest_time\<close>).
\<close>

section \<open>Refusals and pinned bounds\<close>

datatype pacing_error =
    RateLimitViolation
  | ConcurrentRequestForbidden
  | ClockNonMonotonic
  | RequestBudgetExceeded
  | SleeperRaised

definition min_request_interval_milliseconds :: int where
  "min_request_interval_milliseconds = 3000"

definition max_concurrent_connections :: int where
  "max_concurrent_connections = 1"

text \<open>\<open>-(-TRANCHE_MAX_RECORDS // MAX_RECORDS_PER_REQUEST)\<close> of \<open>corpus/constants.py\<close>.\<close>

definition tranche_max_records :: int where
  "tranche_max_records = 85 * 24"

definition max_records_per_request :: int where
  "max_records_per_request = 100"

definition max_requests_per_run :: int where
  "max_requests_per_run = - ((- tranche_max_records) div max_records_per_request)"

lemma max_requests_per_run_value [simp]: "max_requests_per_run = 21"
  by (simp add: max_requests_per_run_def tranche_max_records_def max_records_per_request_def)

section \<open>The pacer\<close>

record pacer =
  pc_interval :: int
  pc_max_requests :: int
  pc_max_connections :: int
  pc_requests :: int
  pc_in_flight :: int
  pc_last_start :: "int option"
  pc_intervals :: "int option list"
  pc_sleeps :: "int list"
  pc_last_reading :: "int option"

record 'w traffic_ports =
  now_milliseconds :: "'w \<Rightarrow> json option \<times> 'w"
  sleep_milliseconds :: "int \<Rightarrow> 'w \<Rightarrow> bool \<times> 'w"

text \<open>\<open>__init__\<close>: a bound may be narrowed and never widened; a \<open>bool\<close> is not an \<open>int\<close>.\<close>

definition request_pacer :: "json \<Rightarrow> json \<Rightarrow> json \<Rightarrow> pacing_error + pacer" where
  "request_pacer interval requests connections =
     (case interval of
        JInt i \<Rightarrow>
          if i < min_request_interval_milliseconds then Inl RateLimitViolation
          else (case connections of
            JInt c \<Rightarrow>
              if \<not> (1 \<le> c \<and> c \<le> max_concurrent_connections) then Inl ConcurrentRequestForbidden
              else (case requests of
                JInt r \<Rightarrow>
                  if \<not> (1 \<le> r \<and> r \<le> max_requests_per_run) then Inl RequestBudgetExceeded
                  else Inr \<lparr>pc_interval = i, pc_max_requests = r, pc_max_connections = c,
                    pc_requests = 0, pc_in_flight = 0, pc_last_start = None, pc_intervals = [],
                    pc_sleeps = [], pc_last_reading = None\<rparr>
              | _ \<Rightarrow> Inl RequestBudgetExceeded)
          | _ \<Rightarrow> Inl ConcurrentRequestForbidden)
      | _ \<Rightarrow> Inl RateLimitViolation)"

text \<open>The state of a call is the pacer and the world; \<open>self\<close> is changed even by a call that raises.\<close>

type_synonym 'w paced = "pacer \<times> 'w"
type_synonym ('w, 'a) pacing = "(pacing_error + 'a) \<times> 'w paced"

definition read_clock :: "'w traffic_ports \<Rightarrow> 'w paced \<Rightarrow> ('w, int) pacing" where
  "read_clock P s =
     (case now_milliseconds P (snd s) of (reading, w) \<Rightarrow>
        case reading of
          Some (JInt observed) \<Rightarrow>
            if observed < 0 then (Inl ClockNonMonotonic, (fst s, w))
            else if (\<exists>previous. pc_last_reading (fst s) = Some previous \<and> observed < previous)
            then (Inl ClockNonMonotonic, (fst s, w))
            else (Inr observed, ((fst s)\<lparr>pc_last_reading := Some observed\<rparr>, w))
        | _ \<Rightarrow> (Inl ClockNonMonotonic, (fst s, w)))"

text \<open>The branch \<open>interval < self.min_interval_milliseconds\<close>: sleep, read the clock again.\<close>

definition wait_out :: "'w traffic_ports \<Rightarrow> int \<Rightarrow> int \<Rightarrow> 'w paced \<Rightarrow> ('w, int) pacing" where
  "wait_out P previous interval s =
     (let p = fst s; wait = pc_interval p - interval;
          p' = p\<lparr>pc_sleeps := pc_sleeps p @ [wait]\<rparr> in
      case sleep_milliseconds P wait (snd s) of (slept, w) \<Rightarrow>
        if \<not> slept then (Inl SleeperRaised, (p', w))
        else (case read_clock P (p', w) of
          (Inl e, s') \<Rightarrow> (Inl e, s')
        | (Inr observed, s') \<Rightarrow>
            if observed - previous < pc_interval (fst s') then (Inl RateLimitViolation, s')
            else (Inr observed, s')))"

definition begin_request :: "int \<Rightarrow> int option \<Rightarrow> pacer \<Rightarrow> pacer" where
  "begin_request observed interval p =
     p\<lparr>pc_in_flight := pc_in_flight p + 1, pc_requests := pc_requests p + 1,
       pc_last_start := Some observed, pc_intervals := pc_intervals p @ [interval]\<rparr>"

definition start_request :: "'w traffic_ports \<Rightarrow> 'w paced \<Rightarrow> ('w, int) pacing" where
  "start_request P s =
     (let p = fst s in
      if pc_max_connections p \<le> pc_in_flight p then (Inl ConcurrentRequestForbidden, s)
      else if pc_max_requests p \<le> pc_requests p then (Inl RequestBudgetExceeded, s)
      else (case read_clock P s of
        (Inl e, s') \<Rightarrow> (Inl e, s')
      | (Inr observed, s') \<Rightarrow>
          (case pc_last_start p of
             None \<Rightarrow> (Inr observed, (begin_request observed None (fst s'), snd s'))
           | Some previous \<Rightarrow>
               if observed - previous < pc_interval p
               then (case wait_out P previous (observed - previous) s' of
                   (Inl e, s'') \<Rightarrow> (Inl e, s'')
                 | (Inr again, s'') \<Rightarrow>
                     (Inr again, (begin_request again (Some (again - previous)) (fst s''), snd s'')))
               else (Inr observed,
                 (begin_request observed (Some (observed - previous)) (fst s'), snd s')))))"

definition finish_request :: "pacer \<Rightarrow> (pacing_error + unit) \<times> pacer" where
  "finish_request p =
     (if pc_in_flight p \<le> 0 then (Inl ConcurrentRequestForbidden, p)
      else (Inr (), p\<lparr>pc_in_flight := pc_in_flight p - 1\<rparr>))"

text \<open>
  \<open>with pacer.request() as started_at: body\<close>.  The body ends normally or with an exception;
  \<open>finish\<close> runs in both cases, and its own exception replaces the body's outcome.
\<close>

definition with_request ::
    "'w traffic_ports \<Rightarrow> (int \<Rightarrow> 'w paced \<Rightarrow> ('x + 'a) \<times> 'w paced) \<Rightarrow> 'w paced
       \<Rightarrow> ((pacing_error + 'x) + 'a) \<times> 'w paced" where
  "with_request P body s =
     (case start_request P s of
        (Inl e, s') \<Rightarrow> (Inl (Inl e), s')
      | (Inr started, s') \<Rightarrow>
          (case body started s' of (outcome, (p, w)) \<Rightarrow>
             case finish_request p of
               (Inl e, p') \<Rightarrow> (Inl (Inl e), (p', w))
             | (Inr _, p') \<Rightarrow>
                 ((case outcome of Inl x \<Rightarrow> Inl (Inr x) | Inr a \<Rightarrow> Inr a), (p', w))))"

definition observation :: "pacer \<Rightarrow> json" where
  "observation p =
     (let measured = concat (map (\<lambda>i. case i of None \<Rightarrow> [] | Some m \<Rightarrow> [m]) (pc_intervals p)) in
      JObj
       [(''requests'', JInt (pc_requests p)),
        (''max_requests'', JInt (pc_max_requests p)),
        (''min_request_interval_milliseconds'', JInt (pc_interval p)),
        (''max_concurrent_connections'', JInt (pc_max_connections p)),
        (''observed_intervals_milliseconds'', JArr (map jint_opt (pc_intervals p))),
        (''min_observed_interval_milliseconds'',
           if measured = [] then JNull else JInt (Min (set measured))),
        (''sleep_requests_milliseconds'', JArr (map JInt (pc_sleeps p)))])"

section \<open>The clocks and sleepers of the module\<close>

text \<open>
  \<open>ManualClock\<close> with \<open>SleeperThatAdvances\<close>: the world is the clock's value and the sleeper's
  list of waits; with \<open>SleeperThatDoesNotSleep\<close> the waits are noted and no time passes.
\<close>

record manual_time =
  mt_value :: int
  mt_waits :: "int list"

definition manual_now :: "manual_time \<Rightarrow> json option \<times> manual_time" where
  "manual_now w = (Some (JInt (mt_value w)), w)"

definition advance :: "int \<Rightarrow> manual_time \<Rightarrow> manual_time" where
  "advance ms w = w\<lparr>mt_value := mt_value w + ms\<rparr>"

definition sleeper_that_advances :: "int \<Rightarrow> int \<Rightarrow> manual_time \<Rightarrow> bool \<times> manual_time" where
  "sleeper_that_advances overshoot ms w =
     (True, advance (ms + overshoot) (w\<lparr>mt_waits := mt_waits w @ [ms]\<rparr>))"

definition sleeper_that_does_not_sleep :: "int \<Rightarrow> manual_time \<Rightarrow> bool \<times> manual_time" where
  "sleeper_that_does_not_sleep ms w = (True, w\<lparr>mt_waits := mt_waits w @ [ms]\<rparr>)"

definition honest_ports :: "int \<Rightarrow> manual_time traffic_ports" where
  "honest_ports overshoot =
     \<lparr>now_milliseconds = manual_now, sleep_milliseconds = sleeper_that_advances overshoot\<rparr>"

definition lying_ports :: "manual_time traffic_ports" where
  "lying_ports = \<lparr>now_milliseconds = manual_now, sleep_milliseconds = sleeper_that_does_not_sleep\<rparr>"

end
