(* ===== verification/Pacing_Props.thy ===== *)
theory Pacing_Props
  imports Pacing
begin

text \<open>
  The traffic bounds of the pacer: what holds of every sequence of starts and ends of requests
  whatever the clock and the sleeper do, and that honest ones let every request start.
\<close>

section \<open>One start\<close>

text \<open>A call that raises changes the notes of the pacer only.\<close>

definition same_traffic :: "pacer \<Rightarrow> pacer \<Rightarrow> bool" where
  "same_traffic p q \<longleftrightarrow> q = p\<lparr>pc_sleeps := pc_sleeps q, pc_last_reading := pc_last_reading q\<rparr>"

lemma same_trafficD:
  assumes "same_traffic p q"
  shows "pc_interval q = pc_interval p" "pc_max_requests q = pc_max_requests p"
    "pc_max_connections q = pc_max_connections p" "pc_requests q = pc_requests p"
    "pc_in_flight q = pc_in_flight p" "pc_last_start q = pc_last_start p"
    "pc_intervals q = pc_intervals p"
proof -
  have q: "q = p\<lparr>pc_sleeps := pc_sleeps q, pc_last_reading := pc_last_reading q\<rparr>"
    using assms by (simp add: same_traffic_def)
  show "pc_interval q = pc_interval p" "pc_max_requests q = pc_max_requests p"
    "pc_max_connections q = pc_max_connections p" "pc_requests q = pc_requests p"
    "pc_in_flight q = pc_in_flight p" "pc_last_start q = pc_last_start p"
    "pc_intervals q = pc_intervals p"
    by (subst q, simp)+
qed

lemma same_traffic_refl [simp]: "same_traffic p p"
  by (simp add: same_traffic_def)

lemma same_traffic_trans: "same_traffic p q \<Longrightarrow> same_traffic q r \<Longrightarrow> same_traffic p r"
  by (cases p; cases q; cases r) (simp add: same_traffic_def)

lemma read_clock_traffic: "read_clock P (p, w) = (r, (q, w')) \<Longrightarrow> same_traffic p q"
  by (auto simp: read_clock_def same_traffic_def split: prod.splits option.splits json.splits if_splits)

lemma wait_out_traffic:
  assumes "wait_out P l i (p, w) = (r, (q, w'))"
  shows "same_traffic p q" and "r = Inr t \<Longrightarrow> l + pc_interval p \<le> t"
proof -
  let ?p = "p\<lparr>pc_sleeps := pc_sleeps p @ [pc_interval p - i]\<rparr>"
  obtain slept v where slept: "sleep_milliseconds P (pc_interval p - i) w = (slept, v)"
    by (cases "sleep_milliseconds P (pc_interval p - i) w")
  have p: "same_traffic p ?p" by (simp add: same_traffic_def)
  obtain r' q' v' where read: "read_clock P (?p, v) = (r', (q', v'))" by (metis prod_cases3)
  note q' = same_traffic_trans [OF p read_clock_traffic [OF read]]
  show "same_traffic p q"
    using assms slept read p q'
    by (auto simp: wait_out_def Let_def split: if_splits sum.splits)
  show "l + pc_interval p \<le> t" if "r = Inr t"
    using assms slept read same_trafficD(1) [OF q'] that
    by (auto simp: wait_out_def Let_def split: if_splits sum.splits)
qed

lemma start_request_refused:
  assumes "start_request P (p, w) = (Inl e, (q, w'))"
  shows "same_traffic p q"
proof -
  obtain r q1 w1 where read: "read_clock P (p, w) = (r, (q1, w1))" by (metis prod_cases3)
  show ?thesis
    using assms read read_clock_traffic [OF read]
    by (auto simp: start_request_def Let_def
        split: if_splits sum.splits option.splits prod.splits
        dest!: wait_out_traffic(1) intro: same_traffic_trans)
qed

lemma start_request_started:
  assumes "start_request P (p, w) = (Inr t, (q, w'))"
  shows "pc_in_flight p < pc_max_connections p" and "pc_requests p < pc_max_requests p"
    and "\<exists>p'. same_traffic p p' \<and> q = begin_request t (map_option (\<lambda>l. t - l) (pc_last_start p)) p'"
    and "pc_last_start p = Some l \<Longrightarrow> l + pc_interval p \<le> t"
proof -
  obtain r q1 w1 where read: "read_clock P (p, w) = (r, (q1, w1))" by (metis prod_cases3)
  note q1 = read_clock_traffic [OF read]
  show "pc_in_flight p < pc_max_connections p" "pc_requests p < pc_max_requests p"
    using assms by (auto simp: start_request_def Let_def split: if_splits)
  have waited: "same_traffic p a \<and> l + pc_interval p \<le> x"
    if wait: "wait_out P l i (q1, w1) = (Inr x, (a, v))" for l i x a v
    using same_traffic_trans [OF q1 wait_out_traffic(1) [OF wait]] wait_out_traffic(2) [OF wait refl]
      same_trafficD(1) [OF q1] by simp
  have "\<exists>p'. same_traffic p p' \<and> q = begin_request t (map_option (\<lambda>l. t - l) (pc_last_start p)) p'
      \<and> (\<forall>l. pc_last_start p = Some l \<longrightarrow> l + pc_interval p \<le> t)"
    using assms read q1 same_trafficD(1) [OF q1]
    by (auto simp: start_request_def Let_def
        split: if_splits sum.splits option.splits prod.splits
        dest!: waited)
  then show "\<exists>p'. same_traffic p p'
      \<and> q = begin_request t (map_option (\<lambda>l. t - l) (pc_last_start p)) p'"
    and "pc_last_start p = Some l \<Longrightarrow> l + pc_interval p \<le> t" by blast+
qed

section \<open>Every sequence of calls\<close>

text \<open>
  The calls on one pacer, in any order, with the list of the times at which requests started.
  Between two calls the world may change in any way.
\<close>

inductive pacing_run :: "'w traffic_ports \<Rightarrow> pacer \<Rightarrow> 'w paced \<Rightarrow> int list \<Rightarrow> bool"
  for P :: "'w traffic_ports" and p0 :: pacer where
  created: "pacing_run P p0 (p0, w) []"
| elsewhere: "pacing_run P p0 (p, w) ts \<Longrightarrow> pacing_run P p0 (p, w') ts"
| started: "pacing_run P p0 s ts \<Longrightarrow> start_request P s = (Inr t, s') \<Longrightarrow> pacing_run P p0 s' (ts @ [t])"
| refused: "pacing_run P p0 s ts \<Longrightarrow> start_request P s = (Inl e, s') \<Longrightarrow> pacing_run P p0 s' ts"
| finished: "pacing_run P p0 (p, w) ts \<Longrightarrow> finish_request p = (r, p') \<Longrightarrow> pacing_run P p0 (p', w) ts"

definition traffic_inv :: "pacer \<Rightarrow> pacer \<Rightarrow> int list \<Rightarrow> bool" where
  "traffic_inv p0 p ts \<longleftrightarrow>
     pc_interval p = pc_interval p0 \<and> pc_max_requests p = pc_max_requests p0
     \<and> pc_max_connections p = pc_max_connections p0
     \<and> pc_requests p = int (length ts) \<and> pc_requests p \<le> pc_max_requests p
     \<and> 0 \<le> pc_in_flight p \<and> pc_in_flight p \<le> pc_max_connections p
     \<and> pc_last_start p = (if ts = [] then None else Some (last ts))
     \<and> sorted_wrt (\<lambda>a b. a + pc_interval p0 \<le> b) ts"

lemma traffic_inv_same: "traffic_inv p0 p ts \<Longrightarrow> same_traffic p q \<Longrightarrow> traffic_inv p0 q ts"
  unfolding traffic_inv_def by (simp add: same_trafficD)

lemma traffic_inv_start:
  assumes I: "traffic_inv p0 p ts" and "0 \<le> pc_interval p0"
    and start: "start_request P (p, w) = (Inr t, (q, w'))"
  shows "traffic_inv p0 q (ts @ [t])"
proof -
  note facts = start_request_started [OF start]
  obtain p' where p': "same_traffic p p'"
    and q: "q = begin_request t (map_option (\<lambda>l. t - l) (pc_last_start p)) p'"
    using facts(3) by blast
  have last: "last ts + pc_interval p0 \<le> t" if "ts \<noteq> []"
    using facts(4) [of "last ts"] I that by (simp add: traffic_inv_def)
  have "a + pc_interval p0 \<le> t" if a: "a \<in> set ts" for a
  proof -
    have "ts \<noteq> []" using a by auto
    then obtain bs where ts: "ts = bs @ [last ts]" by (metis append_butlast_last_id)
    have "sorted_wrt (\<lambda>a b. a + pc_interval p0 \<le> b) (bs @ [last ts])"
      using I ts by (simp add: traffic_inv_def)
    moreover have "a \<in> set bs \<or> a = last ts" using a ts by (metis UnE set_append set_ConsD empty_iff empty_set)
    ultimately have "a \<le> last ts" using assms(2) by (auto simp: sorted_wrt_append)
    then show ?thesis using last [OF \<open>ts \<noteq> []\<close>] by simp
  qed
  then show ?thesis
    using I facts(1,2) by (simp add: traffic_inv_def q begin_request_def same_trafficD [OF p'] sorted_wrt_append)
qed

lemma pacing_run_inv:
  assumes "pacing_run P p0 s ts" and "request_pacer i r c = Inr p0"
  shows "traffic_inv p0 (fst s) ts"
  using assms(1)
proof (induction rule: pacing_run.induct)
  case (created w)
  show ?case using assms(2)
    by (auto simp: request_pacer_def traffic_inv_def split: json.splits if_splits)
next
  case (started s ts t s')
  have "0 \<le> pc_interval p0" using assms(2)
    by (auto simp: request_pacer_def min_request_interval_milliseconds_def split: json.splits if_splits)
  then show ?case using traffic_inv_start started by (metis prod.collapse)
next
  case (refused s ts e s')
  then show ?case using traffic_inv_same start_request_refused by (metis prod.collapse)
next
  case (finished p w ts r p')
  then show ?case
    by (auto simp: traffic_inv_def finish_request_def split: if_splits)
qed simp

section \<open>Honest time\<close>

text \<open>
  \<open>time\<close> is the time of a world.  A clock tells it, no call moves it back, and a sleeper returns
  only when the wait is over.
\<close>

locale honest_time =
  fixes P :: "'w traffic_ports" and time :: "'w \<Rightarrow> int" and sane :: "'w \<Rightarrow> bool"
  assumes now: "sane w \<Longrightarrow> \<exists>w'. now_milliseconds P w = (Some (JInt (time w)), w')
      \<and> sane w' \<and> time w \<le> time w'"
    and sleep: "sane w \<Longrightarrow> 0 \<le> k \<Longrightarrow> \<exists>w'. sleep_milliseconds P k w = (True, w')
      \<and> sane w' \<and> time w + k \<le> time w'"
    and nonneg: "sane w \<Longrightarrow> 0 \<le> time w"
begin

definition on_time :: "'w paced \<Rightarrow> bool" where
  "on_time s \<longleftrightarrow> sane (snd s)
     \<and> (\<forall>t. pc_last_reading (fst s) = Some t \<longrightarrow> t \<le> time (snd s))
     \<and> (\<forall>t. pc_last_start (fst s) = Some t \<longrightarrow> t \<le> time (snd s))"

lemma read_clock_honest:
  assumes "on_time (p, w)"
  shows "\<exists>w'. read_clock P (p, w) = (Inr (time w), (p\<lparr>pc_last_reading := Some (time w)\<rparr>, w'))
    \<and> on_time (p\<lparr>pc_last_reading := Some (time w)\<rparr>, w') \<and> time w \<le> time w'"
proof -
  obtain w' where w': "now_milliseconds P w = (Some (JInt (time w)), w')" "sane w'" "time w \<le> time w'"
    using now [of w] assms by (auto simp: on_time_def)
  have "0 \<le> time w" using nonneg [of w] assms by (simp add: on_time_def)
  then show ?thesis using w' assms by (fastforce simp: read_clock_def on_time_def)
qed

lemma wait_out_honest:
  assumes s: "on_time (p, w)" and "time w \<ge> l + i" and "i < pc_interval p"
  shows "\<exists>t q w'. wait_out P l i (p, w) = (Inr t, (q, w')) \<and> on_time (q, w') \<and> t \<le> time w'"
proof -
  let ?p = "p\<lparr>pc_sleeps := pc_sleeps p @ [pc_interval p - i]\<rparr>"
  obtain v where v: "sleep_milliseconds P (pc_interval p - i) w = (True, v)" "sane v"
    "time w + (pc_interval p - i) \<le> time v"
    using sleep [of w "pc_interval p - i"] assms by (auto simp: on_time_def)
  have "on_time (?p, v)" using s v assms(3) by (force simp: on_time_def)
  from read_clock_honest [OF this] obtain w' where
    "read_clock P (?p, v) = (Inr (time v), (?p\<lparr>pc_last_reading := Some (time v)\<rparr>, w'))"
    "on_time (?p\<lparr>pc_last_reading := Some (time v)\<rparr>, w')" "time v \<le> time w'" by blast
  then show ?thesis using v assms(2,3) by (auto simp: wait_out_def Let_def)
qed

lemma start_request_honest:
  assumes s: "on_time (p, w)" and "pc_in_flight p < pc_max_connections p"
    and "pc_requests p < pc_max_requests p"
  shows "\<exists>t q w'. start_request P (p, w) = (Inr t, (q, w')) \<and> on_time (q, w')"
proof -
  let ?p = "p\<lparr>pc_last_reading := Some (time w)\<rparr>"
  obtain v where v: "read_clock P (p, w) = (Inr (time w), (?p, v))" "on_time (?p, v)" "time w \<le> time v"
    using read_clock_honest [OF s] by blast
  show ?thesis
  proof (cases "\<exists>l. pc_last_start p = Some l \<and> time w - l < pc_interval p")
    case False
    then show ?thesis
      using v assms(2,3)
      by (auto simp: start_request_def Let_def on_time_def begin_request_def split: option.splits)
  next
    case True
    then obtain l where l: "pc_last_start p = Some l" "time w - l < pc_interval p" by blast
    obtain t q w' where "wait_out P l (time w - l) (?p, v) = (Inr t, (q, w'))"
      "on_time (q, w')" "t \<le> time w'"
      using wait_out_honest [OF v(2), of l "time w - l"] v(3) l by auto
    then show ?thesis
      using v(1) assms(2,3) l
      by (simp add: start_request_def Let_def on_time_def begin_request_def)
  qed
qed

end

interpretation advancing: honest_time "honest_ports 0" mt_value "\<lambda>w. 0 \<le> mt_value w"
  by unfold_locales
    (auto simp: honest_ports_def manual_now_def sleeper_that_advances_def advance_def)

section \<open>Requests in turn\<close>

text \<open>\<open>n\<close> requests one after the other, each with its own effect on the world.\<close>

fun in_turn ::
    "'w traffic_ports \<Rightarrow> ('w \<Rightarrow> 'w) list \<Rightarrow> 'w paced \<Rightarrow> ((pacing_error + unit) + int list) \<times> 'w paced" where
  "in_turn P [] s = (Inr [], s)"
| "in_turn P (f # fs) s =
     (case with_request P (\<lambda>t (p, w). (Inr t, (p, f w))) s of
        (Inl e, s') \<Rightarrow> (Inl e, s')
      | (Inr t, s') \<Rightarrow>
          (case in_turn P fs s' of (Inl e, s'') \<Rightarrow> (Inl e, s'') | (Inr ts, s'') \<Rightarrow> (Inr (t # ts), s'')))"

context honest_time begin

definition forward :: "('w \<Rightarrow> 'w) \<Rightarrow> bool" where
  "forward f \<longleftrightarrow> (\<forall>w. sane w \<longrightarrow> sane (f w) \<and> time w \<le> time (f w))"

definition idle :: "pacer \<Rightarrow> int \<Rightarrow> 'w paced \<Rightarrow> bool" where
  "idle p0 k s \<longleftrightarrow> on_time s \<and> pc_in_flight (fst s) = 0 \<and> pc_requests (fst s) = k
     \<and> pc_max_connections (fst s) = pc_max_connections p0
     \<and> pc_max_requests (fst s) = pc_max_requests p0"

lemma with_request_honest:
  assumes s: "idle p0 k s" and "0 < pc_max_connections p0" and "k < pc_max_requests p0" and f: "forward f"
  shows "\<exists>t s'. with_request P (\<lambda>t (p, w). (Inr t :: unit + int, (p, f w))) s = (Inr t, s') \<and> idle p0 (k + 1) s'"
proof -
  obtain p w where pw: "s = (p, w)" by (cases s)
  obtain t q w' where start: "start_request P (p, w) = (Inr t, (q, w'))" and on: "on_time (q, w')"
    using start_request_honest [of p w] assms pw by (auto simp: idle_def)
  obtain p' where p': "same_traffic p p'"
    and q: "q = begin_request t (map_option (\<lambda>l. t - l) (pc_last_start p)) p'"
    using start_request_started(3) [OF start] by blast
  have "on_time (q\<lparr>pc_in_flight := 0\<rparr>, f w')"
    using on f by (force simp: on_time_def forward_def)
  then show ?thesis
    using start s pw by (simp add: with_request_def finish_request_def q begin_request_def idle_def
        same_trafficD [OF p'])
qed

lemma in_turn_honest:
  assumes "idle p0 k s" and "0 < pc_max_connections p0" and "k + int (length fs) \<le> pc_max_requests p0"
    and "\<forall>f \<in> set fs. forward f"
  shows "\<exists>ts s'. in_turn P fs s = (Inr ts, s') \<and> length ts = length fs
    \<and> idle p0 (k + int (length fs)) s'"
  using assms
proof (induction fs arbitrary: k s)
  case (Cons f fs)
  obtain t s' where first: "with_request P (\<lambda>t (p, w). (Inr t :: unit + int, (p, f w))) s = (Inr t, s')"
    and s': "idle p0 (k + 1) s'"
    using with_request_honest [of p0 k s f] Cons.prems by auto
  obtain ts s'' where rest: "in_turn P fs s' = (Inr ts, s'')" "length ts = length fs"
    "idle p0 (k + 1 + int (length fs)) s''"
    using Cons.IH [OF s'] Cons.prems by auto
  have "in_turn P (f # fs) s = (Inr (t # ts), s'')"
    by (simp add: first rest(1))
  with rest(2,3) show ?case by (metis length_Cons of_nat_Suc add.assoc add.commute)
qed auto

lemma fresh_idle:
  assumes "request_pacer i r c = Inr p0" and "sane w"
  shows "idle p0 0 (p0, w)" and "0 < pc_max_connections p0"
  using assms by (auto simp: request_pacer_def idle_def on_time_def split: json.splits if_splits)

lemma whole_budget:
  assumes p0: "request_pacer i r c = Inr p0" and "sane w" and "\<forall>f \<in> set fs. forward f"
    and "int (length fs) = pc_max_requests p0"
  shows "\<exists>ts s'. in_turn P fs (p0, w) = (Inr ts, s') \<and> length ts = length fs
    \<and> start_request P s' = (Inl RequestBudgetExceeded, s')"
proof -
  obtain ts s' where "in_turn P fs (p0, w) = (Inr ts, s')" "length ts = length fs"
    and "idle p0 (int (length fs)) s'"
    using in_turn_honest [OF fresh_idle [OF p0 assms(2)] _ assms(3)] assms(4) by auto
  moreover from this(3) have "start_request P s' = (Inl RequestBudgetExceeded, s')"
    using assms(4) fresh_idle(2) [OF p0 assms(2)] by (simp add: start_request_def idle_def)
  ultimately show ?thesis by blast
qed

end

section \<open>Properties\<close>

definition pinned_pacer :: pacer where
  "pinned_pacer = \<lparr>pc_interval = 3000, pc_max_requests = 2, pc_max_connections = 1,
     pc_requests = 0, pc_in_flight = 0, pc_last_start = None, pc_intervals = [],
     pc_sleeps = [], pc_last_reading = None\<rparr>"

lemma pinned_pacer_accepted: "request_pacer (JInt 3000) (JInt 2) (JInt 1) = Inr pinned_pacer"
  by (simp add: request_pacer_def pinned_pacer_def min_request_interval_milliseconds_def
      max_concurrent_connections_def)

text \<open>C16: Whatever the clock and the sleeper do and in whatever order requests are started and ended,
  a pacer the constructor accepts lets at most 21 requests start, never two at a time, and any
  two of them at least 3000 milliseconds apart on its clock.
\<close>

theorem traffic_bounds:
  assumes "request_pacer i r c = Inr p0" and "pacing_run P p0 s ts"
  shows "sorted_wrt (\<lambda>a b. a + 3000 \<le> b) ts \<and> int (length ts) = pc_requests (fst s)
    \<and> length ts \<le> 21 \<and> pc_in_flight (fst s) \<in> {0, 1}"
proof -
  have bounds: "3000 \<le> pc_interval p0" "pc_max_requests p0 \<le> 21" "pc_max_connections p0 \<le> 1"
    using assms(1) by (auto simp: request_pacer_def min_request_interval_milliseconds_def
        max_concurrent_connections_def split: json.splits if_splits)
  have I: "traffic_inv p0 (fst s) ts" using pacing_run_inv assms by blast
  then have "sorted_wrt (\<lambda>a b. a + 3000 \<le> b) ts"
    using bounds(1) by (auto simp: traffic_inv_def elim!: sorted_wrt_mono_rel [rotated])
  then show ?thesis using I bounds(2,3) by (auto simp: traffic_inv_def)
qed

theorem traffic_bounds_witness:
  "\<exists>s. pacing_run (honest_ports 0) pinned_pacer s [0, 3000] \<and> pc_requests (fst s) = 2"
proof -
  obtain s where first: "start_request (honest_ports 0) (pinned_pacer, \<lparr>mt_value = 0, mt_waits = []\<rparr>)
      = (Inr 0, s)" and p: "finish_request (fst s) = (Inr (), (fst s)\<lparr>pc_in_flight := 0\<rparr>)"
    and w: "snd s = \<lparr>mt_value = 0, mt_waits = []\<rparr>"
    by (simp add: start_request_def pinned_pacer_def honest_ports_def read_clock_def manual_now_def
        Let_def begin_request_def finish_request_def)
  have "pacing_run (honest_ports 0) pinned_pacer s [0]"
    using pacing_run.started [OF pacing_run.created first] by simp
  then have one: "pacing_run (honest_ports 0) pinned_pacer ((fst s)\<lparr>pc_in_flight := 0\<rparr>, snd s) [0]"
    using pacing_run.finished [of _ _ "fst s" "snd s"] p by (metis prod.collapse)
  obtain s' where "start_request (honest_ports 0) ((fst s)\<lparr>pc_in_flight := 0\<rparr>, snd s) = (Inr 3000, s')"
    using first w by (auto simp: start_request_def pinned_pacer_def honest_ports_def read_clock_def
        manual_now_def Let_def begin_request_def wait_out_def sleeper_that_advances_def advance_def)
  from pacing_run.started [OF one this]
  have "pacing_run (honest_ports 0) pinned_pacer s' [0, 3000]" by simp
  with traffic_bounds [OF pinned_pacer_accepted this] show ?thesis by (intro exI [of _ s']) simp
qed

text \<open>C36: With a clock that tells a time which never goes back and a sleeper that waits as long as it
  is asked, a fresh pacer serves its whole request budget, one request after the other whatever
  time each takes, and refuses the next one.
\<close>

theorem budget_is_served:
  assumes "honest_time P time sane" and "request_pacer i r c = Inr p0" and "sane w"
    and "\<forall>f \<in> set fs. \<forall>w. sane w \<longrightarrow> sane (f w) \<and> time w \<le> time (f w)"
    and "int (length fs) = pc_max_requests p0"
  shows "\<exists>ts s'. in_turn P fs (p0, w) = (Inr ts, s') \<and> length ts = length fs
    \<and> start_request P s' = (Inl RequestBudgetExceeded, s')"
proof (rule honest_time.whole_budget [OF assms(1-3) _ assms(5)])
  show "\<forall>f \<in> set fs. honest_time.forward time sane f"
    using assms(4) by (simp add: honest_time.forward_def [OF assms(1)])
qed

theorem budget_is_served_witness:
  "\<exists>ts s'. in_turn (honest_ports 0) [advance 5, advance 4000] (pinned_pacer, \<lparr>mt_value = 7, mt_waits = []\<rparr>)
     = (Inr ts, s') \<and> length ts = 2"
  using budget_is_served [OF advancing.honest_time_axioms pinned_pacer_accepted,
      of "\<lparr>mt_value = 7, mt_waits = []\<rparr>" "[advance 5, advance 4000]"]
  by (auto simp: advance_def pinned_pacer_def)

end
