(* ===== verification/Credentials.thy ===== *)
theory Credentials
  imports Budget Py_Strings
begin

text \<open>
  \<open>campaign/credentials.py\<close>: credential profiles, their resolution from a scoped mapping, the
  record of a selection and the scan for secrets; and what \<open>phase2/provider_registry.py\<close> declares
  of each admitted provider.  The route policy of the same file is in \<open>Budget\<close>.
\<close>

section \<open>What a provider needs\<close>

record provider_spec =
  ps_required_credentials :: "str list"
  ps_optional_credentials :: "str list"
  ps_required_settings :: "str list"
  ps_optional_settings :: "str list"

definition bearer_spec :: "str \<Rightarrow> provider_spec" where
  "bearer_spec key =
     \<lparr>ps_required_credentials = [key], ps_optional_credentials = [],
      ps_required_settings = [], ps_optional_settings = []\<rparr>"

definition provider_specs :: "(str \<times> provider_spec) list" where
  "provider_specs =
     [(''openai'', bearer_spec ''OPENAI_API_KEY''),
      (''anthropic'', bearer_spec ''ANTHROPIC_API_KEY''),
      (''bedrock'',
         \<lparr>ps_required_credentials = [''AWS_ACCESS_KEY_ID'', ''AWS_SECRET_ACCESS_KEY''],
          ps_optional_credentials = [''AWS_SESSION_TOKEN''],
          ps_required_settings = [''AWS_REGION''], ps_optional_settings = []\<rparr>),
      (''azure_openai'', (bearer_spec ''AZURE_OPENAI_API_KEY'')
         \<lparr>ps_required_settings :=
            [''AZURE_OPENAI_ENDPOINT'', ''AZURE_OPENAI_DEPLOYMENT'', ''AZURE_OPENAI_API_VERSION'']\<rparr>),
      (''deepseek'', bearer_spec ''DEEPSEEK_API_KEY''),
      (''minimax'', (bearer_spec ''MINIMAX_API_KEY'')\<lparr>ps_optional_settings := [''MINIMAX_GROUP_ID'']\<rparr>),
      (''qwen_dashscope'', bearer_spec ''DASHSCOPE_API_KEY'')]"

definition provider_spec_of :: "str \<Rightarrow> provider_spec option" where
  "provider_spec_of provider = map_of provider_specs provider"

definition non_secret_provider_keys :: "str list" where
  "non_secret_provider_keys =
     [''AWS_REGION'', ''AZURE_OPENAI_API_VERSION'', ''AZURE_OPENAI_DEPLOYMENT'',
      ''AZURE_OPENAI_ENDPOINT'', ''MINIMAX_GROUP_ID'']"

definition secret_names :: "provider_spec \<Rightarrow> str list" where
  "secret_names spec = ps_required_credentials spec @ ps_optional_credentials spec"

definition setting_names :: "provider_spec \<Rightarrow> str list" where
  "setting_names spec = ps_required_settings spec @ ps_optional_settings spec"

definition provider_secret_variables :: "provider_spec \<Rightarrow> str list" where
  "provider_secret_variables spec =
     sort (filter (\<lambda>v. v \<notin> set non_secret_provider_keys) (secret_names spec))"

text \<open>\<open>UnknownProviderError\<close> where it is not turned into a campaign error.\<close>

definition unknown_provider :: error where
  "unknown_provider = EffectRaised ''UnknownProviderError''"

section \<open>Profiles\<close>

definition credential_schema_version :: str where
  "credential_schema_version = ''adaivy.campaign-credentials.v1''"

definition default_live_profile_id :: str where
  "default_live_profile_id = ''adaivy''"

record credential_profile =
  cp_profile_id :: str
  cp_provider :: str
  cp_model_identifier :: str
  cp_embedding_model_identifier :: "str option"
  cp_endpoint_settings :: "(str \<times> str) list"
  cp_credential_source :: str
  cp_schema_version :: str
  cp_record_type :: str
  cp_content_hash :: str

definition cred_identifier :: "str \<Rightarrow> str \<Rightarrow> unit res" where
  "cred_identifier v field =
     ensure (valid_identifier v) (CredentialError (field @ '' is not a valid identifier''))"

text \<open>\<open>^[A-Z][A-Z0-9_]*$\<close>, matched in full.\<close>

definition is_upper :: "char \<Rightarrow> bool" where
  "is_upper c \<longleftrightarrow> CHR ''A'' \<le> c \<and> c \<le> CHR ''Z''"

definition valid_setting_name :: "str \<Rightarrow> bool" where
  "valid_setting_name s \<longleftrightarrow>
     (case s of [] \<Rightarrow> False
      | c # cs \<Rightarrow> is_upper c \<and> (\<forall>d \<in> set cs. is_upper d \<or> is_digit d \<or> d = CHR ''_''))"

definition setting_checks :: "provider_spec \<Rightarrow> str \<times> str \<Rightarrow> unit res" where
  "setting_checks spec item =
     (case item of (name, value) \<Rightarrow> checks
       [ensure (name \<notin> set (secret_names spec))
          (CredentialError (''endpoint_settings names the credential variable '' @ name
             @ ''; secret material has no representation inside a profile'')),
        ensure (name \<in> set (setting_names spec) \<and> valid_setting_name name)
          (CredentialError (''endpoint_settings names an undeclared setting: '' @ name)),
        ensure (value \<noteq> [])
          (CredentialError (''endpoint setting '' @ name @ '' must be non-empty''))])"

definition missing_settings :: "provider_spec \<Rightarrow> str list \<Rightarrow> str list" where
  "missing_settings spec names =
     sort (filter (\<lambda>n. n \<notin> set names) (dedup (ps_required_settings spec)))"

definition credential_profile_post_init :: "credential_profile \<Rightarrow> unit res" where
  "credential_profile_post_init p =
     bindE (checks
       [ensure (cp_schema_version p = credential_schema_version)
          (CredentialError ''unsupported credential-profile schema''),
        ensure (cp_record_type p = ''credential_profile'')
          (CredentialError ''unsupported credential-profile record type''),
        cred_identifier (cp_profile_id p) ''profile_id'',
        cred_identifier (cp_credential_source p) ''credential_source'',
        cred_identifier (cp_model_identifier p) ''model_identifier'',
        (case cp_embedding_model_identifier p of
           None \<Rightarrow> Inr ()
         | Some m \<Rightarrow> cred_identifier m ''embedding_model_identifier'')]) (\<lambda>_.
     case provider_spec_of (cp_provider p) of
       None \<Rightarrow> Inl (CredentialError
         (''profile provider is not admitted: '' @ py_repr (cp_provider p)))
     | Some spec \<Rightarrow>
         (let names = map fst (cp_endpoint_settings p) in
          checks
            (map (setting_checks spec) (cp_endpoint_settings p)
             @ [ensure (distinct names)
                  (CredentialError ''endpoint_settings contains a duplicate name''),
                ensure (names = sort names)
                  (CredentialError ''endpoint_settings must be sorted by name''),
                ensure (missing_settings spec names = [])
                  (CredentialError (''profile is missing required non-secret settings: ''
                     @ join '', '' (missing_settings spec names)))])))"

definition credential_profile_value :: "credential_profile \<Rightarrow> jobject" where
  "credential_profile_value p =
     [(''profile_id'', JStr (cp_profile_id p)),
      (''provider'', JStr (cp_provider p)),
      (''model_identifier'', JStr (cp_model_identifier p)),
      (''embedding_model_identifier'', jstr_opt (cp_embedding_model_identifier p)),
      (''endpoint_settings'',
         JArr (map (\<lambda>(n, v). JArr [JStr n, JStr v]) (cp_endpoint_settings p))),
      (''credential_source'', JStr (cp_credential_source p)),
      (''schema_version'', JStr (cp_schema_version p)),
      (''record_type'', JStr (cp_record_type p)),
      (''content_hash'', JStr (cp_content_hash p))]"

definition credential_profile_finalized :: "hexdigest \<Rightarrow> credential_profile \<Rightarrow> credential_profile" where
  "credential_profile_finalized H p =
     p\<lparr>cp_content_hash :=
        canonical_hash H (JObj (credential_profile_value (p\<lparr>cp_content_hash := []\<rparr>)))\<rparr>"

definition credential_profile_verify_hashes :: "hexdigest \<Rightarrow> credential_profile \<Rightarrow> unit res" where
  "credential_profile_verify_hashes H p =
     ensure (cp_content_hash p = cp_content_hash (credential_profile_finalized H p))
       (CredentialError (''credential profile '' @ cp_profile_id p @ '' content_hash mismatch''))"

definition route_hash :: "hexdigest \<Rightarrow> credential_profile \<Rightarrow> str" where
  "route_hash H p =
     canonical_hash H (JObj
       [(''provider'', JStr (cp_provider p)),
        (''settings'', JObj (map (\<lambda>(n, v). (n, JStr v)) (cp_endpoint_settings p)))])"

definition credential_variable_names :: "credential_profile \<Rightarrow> str list res" where
  "credential_variable_names p =
     (case provider_spec_of (cp_provider p) of
        None \<Rightarrow> Inl unknown_provider
      | Some spec \<Rightarrow> Inr (provider_secret_variables spec))"

definition profile_public_fields :: "credential_profile \<Rightarrow> str list" where
  "profile_public_fields p = map fst (credential_profile_value p)"

section \<open>Resolution\<close>

text \<open>\<open>os.environ\<close> is refused by identity: the ambient environment is a value of its own.\<close>

datatype credential_environment =
    AmbientEnvironment "(str \<times> str) list"
  | ScopedEnvironment "(str \<times> str) list"

record resolved_credentials =
  rc_profile_id :: str
  rc_values :: "(str \<times> str) list"

definition resolved_value :: "resolved_credentials \<Rightarrow> str \<Rightarrow> str res" where
  "resolved_value r name =
     (case map_of (rc_values r) name of
        Some v \<Rightarrow> Inr v
      | None \<Rightarrow> Inl (CredentialError
          (''profile '' @ rc_profile_id r @ '' resolved no credential named '' @ name)))"

definition secret_values :: "resolved_credentials \<Rightarrow> str list" where
  "secret_values r = sort (dedup (filter (\<lambda>v. v \<noteq> []) (map snd (rc_values r))))"

definition lookup_stripped :: "(str \<times> str) list \<Rightarrow> str \<Rightarrow> str" where
  "lookup_stripped env name = (case map_of env name of None \<Rightarrow> [] | Some v \<Rightarrow> py_strip v)"

definition resolve_credential_profile ::
    "credential_profile \<Rightarrow> credential_environment \<Rightarrow> resolved_credentials res" where
  "resolve_credential_profile p environment =
     (case environment of
        AmbientEnvironment _ \<Rightarrow> Inl (CredentialError
          ''the ambient process environment is not an admitted credential source; supply the profile-scoped credential mapping explicitly'')
      | ScopedEnvironment env \<Rightarrow>
          (case provider_spec_of (cp_provider p) of
             None \<Rightarrow> Inl unknown_provider
           | Some spec \<Rightarrow>
               (let unknown = sort (dedup (filter (\<lambda>n. n \<notin> set (secret_names spec)) (map fst env)));
                    missing = sort (filter (\<lambda>n. lookup_stripped env n = []) (ps_required_credentials spec))
                in
                bindE (ensure (unknown = []) (CredentialError
                  (''profile '' @ cp_profile_id p @ '' received undeclared credential variables: ''
                    @ join '', '' unknown))) (\<lambda>_.
                bindE (ensure (missing = []) (CredentialError
                  (''profile '' @ cp_profile_id p @ '' is missing required credentials ('' @ join '', '' missing
                    @ ''); ambient process credentials are not consulted and no fallback provider is admitted''))) (\<lambda>_.
                bindE (cred_identifier (cp_profile_id p) ''profile_id'') (\<lambda>_.
                  Inr \<lparr>rc_profile_id = cp_profile_id p,
                    rc_values = map (\<lambda>(n, v). (n, py_strip v))
                      (filter (\<lambda>(n, v). py_strip v \<noteq> []) env)\<rparr>))))))"

section \<open>Selection\<close>

record profile_selection =
  sel_campaign_id :: str
  sel_profile_id :: str
  sel_credential_source :: str
  sel_provider :: str
  sel_model_identifier :: str
  sel_embedding_model_identifier :: "str option"
  sel_route_hash :: str
  sel_profile_content_hash :: str
  sel_is_default_profile :: bool
  sel_alternate_selection_reason :: "str option"
  sel_selected_at :: str
  sel_schema_version :: str
  sel_record_type :: str
  sel_content_hash :: str
  sel_operational_hash :: str

definition selection_operational_fields :: "str list" where
  "selection_operational_fields = [''selected_at'']"

definition sha256_field :: "str \<Rightarrow> str \<Rightarrow> unit res" where
  "sha256_field v field =
     ensure (starts_with ''sha256:'' v) (CredentialError (field @ '' is not a sha256 content hash''))"

definition profile_selection_post_init :: "profile_selection \<Rightarrow> unit res" where
  "profile_selection_post_init s = checks
     [ensure (sel_schema_version s = credential_schema_version)
        (CredentialError ''unsupported profile-selection schema''),
      ensure (sel_record_type s = ''credential_profile_selection'')
        (CredentialError ''unsupported profile-selection record type''),
      cred_identifier (sel_campaign_id s) ''campaign_id'',
      cred_identifier (sel_profile_id s) ''profile_id'',
      cred_identifier (sel_credential_source s) ''credential_source'',
      cred_identifier (sel_model_identifier s) ''model_identifier'',
      (case sel_embedding_model_identifier s of
         None \<Rightarrow> Inr ()
       | Some m \<Rightarrow> cred_identifier m ''embedding_model_identifier''),
      sha256_field (sel_route_hash s) ''route_hash'',
      sha256_field (sel_profile_content_hash s) ''profile_content_hash'',
      ensure (sel_is_default_profile s = (sel_profile_id s = default_live_profile_id))
        (CredentialError (''is_default_profile must state exactly whether the default live profile ''
           @ py_repr default_live_profile_id @ '' was selected'')),
      ensure (\<not> (sel_is_default_profile s \<and> sel_alternate_selection_reason s \<noteq> None))
        (CredentialError ''the default profile carries no alternate-selection reason''),
      ensure (sel_is_default_profile s
          \<or> (\<exists>r. sel_alternate_selection_reason s = Some r \<and> r \<noteq> [] \<and> py_len r \<le> 2000))
        (CredentialError ''selecting a non-default profile requires a recorded reason''),
      ensure (sel_selected_at s \<noteq> []) (CredentialError ''selected_at must be supplied'')]"

definition profile_selection_value :: "profile_selection \<Rightarrow> jobject" where
  "profile_selection_value s =
     [(''campaign_id'', JStr (sel_campaign_id s)),
      (''profile_id'', JStr (sel_profile_id s)),
      (''credential_source'', JStr (sel_credential_source s)),
      (''provider'', JStr (sel_provider s)),
      (''model_identifier'', JStr (sel_model_identifier s)),
      (''embedding_model_identifier'', jstr_opt (sel_embedding_model_identifier s)),
      (''route_hash'', JStr (sel_route_hash s)),
      (''profile_content_hash'', JStr (sel_profile_content_hash s)),
      (''is_default_profile'', JBool (sel_is_default_profile s)),
      (''alternate_selection_reason'', jstr_opt (sel_alternate_selection_reason s)),
      (''selected_at'', JStr (sel_selected_at s)),
      (''schema_version'', JStr (sel_schema_version s)),
      (''record_type'', JStr (sel_record_type s)),
      (''content_hash'', JStr (sel_content_hash s)),
      (''operational_hash'', JStr (sel_operational_hash s))]"

definition selection_set_hashes :: "str \<Rightarrow> str \<Rightarrow> profile_selection \<Rightarrow> profile_selection" where
  "selection_set_hashes c p s = s\<lparr>sel_content_hash := c, sel_operational_hash := p\<rparr>"

definition profile_selection_finalized :: "hexdigest \<Rightarrow> profile_selection \<Rightarrow> profile_selection" where
  "profile_selection_finalized H =
     finish H selection_operational_fields profile_selection_value selection_set_hashes"

interpretation selection_rec: hashed_record profile_selection_value selection_operational_fields
  selection_set_hashes sel_content_hash sel_operational_hash
proof unfold_locales
  show "jsort (snd kv) = snd kv" if "kv \<in> set (profile_selection_value r)" for kv r
    using that
    by (cases "sel_embedding_model_identifier r"; cases "sel_alternate_selection_reason r")
      (auto simp: profile_selection_value_def)
qed (auto simp: profile_selection_value_def selection_set_hashes_def put_hashes_def)

definition profile_selection_verify_hashes :: "hexdigest \<Rightarrow> profile_selection \<Rightarrow> unit res" where
  "profile_selection_verify_hashes H s = checks
     [ensure (sel_content_hash s = sel_content_hash (profile_selection_finalized H s))
        (CredentialError ''profile selection content_hash mismatch''),
      ensure (sel_operational_hash s = sel_operational_hash (profile_selection_finalized H s))
        (CredentialError ''profile selection operational_hash mismatch'')]"

text \<open>The record built from the profile, before its constructor checks it.\<close>

definition selection_of ::
    "hexdigest \<Rightarrow> credential_profile \<Rightarrow> str \<Rightarrow> str \<Rightarrow> str option \<Rightarrow> profile_selection" where
  "selection_of H p campaign_id selected_at reason =
     \<lparr>sel_campaign_id = campaign_id, sel_profile_id = cp_profile_id p,
      sel_credential_source = cp_credential_source p, sel_provider = cp_provider p,
      sel_model_identifier = cp_model_identifier p,
      sel_embedding_model_identifier = cp_embedding_model_identifier p,
      sel_route_hash = route_hash H p, sel_profile_content_hash = cp_content_hash p,
      sel_is_default_profile = (cp_profile_id p = default_live_profile_id),
      sel_alternate_selection_reason = reason, sel_selected_at = selected_at,
      sel_schema_version = credential_schema_version,
      sel_record_type = ''credential_profile_selection'',
      sel_content_hash = [], sel_operational_hash = []\<rparr>"

definition select_credential_profile ::
    "hexdigest \<Rightarrow> (str \<times> credential_profile) list \<Rightarrow> str \<Rightarrow> str \<Rightarrow> str \<Rightarrow> str option
       \<Rightarrow> (credential_profile \<times> profile_selection) res" where
  "select_credential_profile H registry pid campaign_id selected_at reason =
     bindE (cred_identifier pid ''profile_id'') (\<lambda>_.
     case map_of registry pid of
       None \<Rightarrow> Inl (CredentialError (''credential profile '' @ py_repr pid
         @ '' is not registered; ambient or host-agent credentials are never substituted for a named profile''))
     | Some p \<Rightarrow>
         bindE (ensure (cp_profile_id p = pid)
           (CredentialError ''the registry maps an identifier to a differently named profile'')) (\<lambda>_.
         bindE (credential_profile_verify_hashes H p) (\<lambda>_.
         let s = selection_of H p campaign_id selected_at reason in
         bindE (profile_selection_post_init s) (\<lambda>_.
           Inr (p, profile_selection_finalized H s)))))"

section \<open>The scan for secrets\<close>

fun walk_strings :: "json \<Rightarrow> str list" where
  "walk_strings (JStr s) = [s]"
| "walk_strings (JObj kvs) = concat (map (\<lambda>kv. fst kv # walk_strings (snd kv)) kvs)"
| "walk_strings (JArr vs) = concat (map walk_strings vs)"
| "walk_strings _ = []"

text \<open>\<open>json.dumps(secret, ensure_ascii=False)[1:-1]\<close>.\<close>

definition json_escaped :: "str \<Rightarrow> str" where
  "json_escaped secret = concat (map escape_char secret)"

definition leaks :: "json \<Rightarrow> str \<Rightarrow> bool" where
  "leaks v secret \<longleftrightarrow> secret \<noteq> []
     \<and> ((\<exists>item \<in> set (walk_strings v). occurs_in secret item)
        \<or> occurs_in secret (canonical_bytes v) \<or> occurs_in (json_escaped secret) (canonical_bytes v))"

definition assert_no_secret_values :: "json \<Rightarrow> str list \<Rightarrow> unit res" where
  "assert_no_secret_values v secrets =
     ensure (\<not> (\<exists>secret \<in> set secrets. leaks v secret))
       (CredentialError ''a campaign record contains secret credential material'')"

end
