(* ===== verification/Model_Port.thy ===== *)
theory Model_Port
  imports Records Py_Strings
begin

text \<open>
  The values that cross the model boundary (\<open>phase2/records.py\<close>) as far as the campaign reads
  them, pricing snapshots and cost estimates (\<open>phase2/pricing.py\<close>), and the gateway as an
  interface over a world of its own.
\<close>

section \<open>Requests and results\<close>

record model_request =
  mq_request_id :: str
  mq_run_id :: str
  mq_purpose :: str
  mq_template_id :: str
  mq_template_version :: str
  mq_template_hash :: str
  mq_template_text :: str
  mq_serialized_context :: str
  mq_response_schema :: str
  mq_timeout_milliseconds :: int
  mq_max_output_tokens :: int

datatype model_result_status =
    Succeeded
  | RefusedResult
  | IncompleteResult
  | MalformedResult
  | TimedOut
  | FailedResult

fun result_status_value :: "model_result_status \<Rightarrow> str" where
  "result_status_value Succeeded = ''succeeded''"
| "result_status_value RefusedResult = ''refused''"
| "result_status_value IncompleteResult = ''incomplete''"
| "result_status_value MalformedResult = ''malformed''"
| "result_status_value TimedOut = ''timed_out''"
| "result_status_value FailedResult = ''failed''"

record model_usage =
  mu_input_tokens :: int
  mu_output_tokens :: int
  mu_usage_source :: str

text \<open>\<open>mr_http_status\<close> is the status code of the provider failure, where there is one.\<close>

record model_result =
  mr_status :: model_result_status
  mr_provider :: str
  mr_model_identifier :: str
  mr_structured_output :: "str option"
  mr_usage :: model_usage
  mr_retry_classification :: str
  mr_provider_request_id :: "str option"
  mr_http_status :: "int option"

text \<open>
  \<open>ModelGateway\<close>: both operations may raise (the class name of the exception).  \<open>'p\<close> is the
  provider's own preparation of a schema.
\<close>

record ('w, 'p) model_gateway =
  mg_prepare :: "model_request \<Rightarrow> 'w \<Rightarrow> (str + 'p) \<times> 'w"
  mg_complete :: "model_request \<Rightarrow> 'p \<Rightarrow> 'w \<Rightarrow> (str + model_result) \<times> 'w"

text \<open>\<open>_model_status\<close> of the routing and \<open>_status\<close> of the planner.\<close>

fun record_status_of :: "model_result_status \<Rightarrow> record_status" where
  "record_status_of Succeeded = Completed"
| "record_status_of IncompleteResult = Incomplete"
| "record_status_of TimedOut = Incomplete"
| "record_status_of _ = Failed"

definition usage_reported :: "model_result \<Rightarrow> bool" where
  "usage_reported r \<longleftrightarrow> mu_usage_source (mr_usage r) = ''api_reported''"

section \<open>Pricing\<close>

record pricing_snapshot =
  px_snapshot_id :: str
  px_provider :: str
  px_model_identifier :: str
  px_source :: str
  px_captured_at :: str
  px_input_rate :: int
  px_output_rate :: int
  px_content_hash :: str

text \<open>The rates a loaded snapshot may have (\<open>_snapshot\<close>): micro-USD per million tokens.\<close>

definition rates_ok :: "pricing_snapshot \<Rightarrow> bool" where
  "rates_ok p \<longleftrightarrow> 0 \<le> px_input_rate p \<and> 0 \<le> px_output_rate p"

text \<open>\<open>casefold\<close> on ASCII, which is all the marker consists of.\<close>

definition ascii_lower :: "char \<Rightarrow> char" where
  "ascii_lower c =
     (if CHR ''A'' \<le> c \<and> c \<le> CHR ''Z'' then char_of (of_char c + 32 :: nat) else c)"

definition pricing_snapshot_is_confirmed :: "pricing_snapshot \<Rightarrow> bool" where
  "pricing_snapshot_is_confirmed p \<longleftrightarrow>
     \<not> occurs_in (map ascii_lower ''UNCONFIRMED'') (map ascii_lower (px_source p))"

definition estimate_cost_microusd :: "pricing_snapshot \<Rightarrow> int \<Rightarrow> int \<Rightarrow> int res" where
  "estimate_cost_microusd p input_tokens output_tokens =
     (if min input_tokens output_tokens < 0 then Inl (EffectRaised ''ValueError'')
      else
        (let numerator = input_tokens * px_input_rate p + output_tokens * px_output_rate p
         in Inr (if numerator \<noteq> 0 then (numerator + 999999) div 1000000 else 0)))"

lemma ceiling_million:
  "n \<le> (n + 999999) div 1000000 * 1000000" "(n + 999999) div 1000000 * 1000000 < n + 1000000"
  for n :: int
proof -
  have "(n + 999999) div 1000000 * 1000000 + (n + 999999) mod 1000000 = n + 999999"
    by (rule div_mult_mod_eq)
  moreover have "0 \<le> (n + 999999) mod 1000000" "(n + 999999) mod 1000000 < 1000000" by simp_all
  ultimately show "n \<le> (n + 999999) div 1000000 * 1000000"
    "(n + 999999) div 1000000 * 1000000 < n + 1000000" by linarith+
qed

text \<open>The estimate is the price rounded up to the next micro-USD.\<close>

lemma estimate_cost_bounds:
  assumes "estimate_cost_microusd p i j = Inr c" and "rates_ok p"
  shows "0 \<le> i" and "0 \<le> j" and "0 \<le> c"
    and "i * px_input_rate p + j * px_output_rate p \<le> c * 1000000"
    and "c * 1000000 < i * px_input_rate p + j * px_output_rate p + 1000000"
proof -
  let ?n = "i * px_input_rate p + j * px_output_rate p"
  from assms(1) show nonneg: "0 \<le> i" "0 \<le> j"
    by (auto simp: estimate_cost_microusd_def split: if_splits)
  with assms(2) have n: "0 \<le> ?n" by (simp add: rates_ok_def)
  have c: "c = (?n + 999999) div 1000000"
    using assms(1) nonneg by (auto simp: estimate_cost_microusd_def Let_def split: if_splits)
  show "0 \<le> c" unfolding c using n by (simp add: pos_imp_zdiv_nonneg_iff)
  show "?n \<le> c * 1000000" "c * 1000000 < ?n + 1000000" unfolding c using ceiling_million [of ?n] by blast+
qed

lemma estimate_cost_total:
  "0 \<le> i \<Longrightarrow> 0 \<le> j \<Longrightarrow> \<exists>c. estimate_cost_microusd p i j = Inr c"
  by (simp add: estimate_cost_microusd_def Let_def)

lemma estimate_cost_mono:
  assumes "estimate_cost_microusd p i j = Inr c" and "estimate_cost_microusd p i' j' = Inr c'"
    and "rates_ok p" and "i \<le> i'" and "j \<le> j'"
  shows "c \<le> c'"
proof -
  have "i * px_input_rate p \<le> i' * px_input_rate p" "j * px_output_rate p \<le> j' * px_output_rate p"
    using assms(3-5) by (simp_all add: rates_ok_def mult_right_mono)
  then show ?thesis
    using estimate_cost_bounds(5) [OF assms(1,3)] estimate_cost_bounds(4) [OF assms(2,3)] by linarith
qed

end
