(* ===== verification/Routing.thy ===== *)
theory Routing
  imports Credentials Model_Port Budget_Ledger
begin

text \<open>
  \<open>campaign/routing.py\<close>: the gateways a campaign calls its providers through.  A call is admitted
  by the one budget ledger before the wrapped gateway is called, and becomes one charge event
  after it.  The state is the ledger and the world of the wrapped gateway.
\<close>

section \<open>Routes\<close>

text \<open>What both wrappers are given; \<open>rt_now\<close> is the time the ledger's clock tells.\<close>

record route =
  rt_profile :: credential_profile
  rt_selection :: profile_selection
  rt_pricing :: pricing_snapshot
  rt_secret_values :: "str list"
  rt_sink :: "charge_event \<Rightarrow> unit res"
  rt_now :: str

definition require_matching_selection :: "hexdigest \<Rightarrow> route \<Rightarrow> ledger \<Rightarrow> unit res" where
  "require_matching_selection H rt l =
     (let p = rt_profile rt; s = rt_selection rt in checks
       [credential_profile_verify_hashes H p,
        profile_selection_verify_hashes H s,
        ensure (sel_profile_id s = cp_profile_id p \<and> sel_profile_content_hash s = cp_content_hash p
            \<and> sel_provider s = cp_provider p)
          (RoutingError ''the recorded profile selection does not match the supplied profile''),
        ensure (sel_campaign_id s = cb_campaign_id (lg_budget l))
          (RoutingError ''the profile selection was recorded for a different campaign than the budget it would charge'')])"

definition require_matching_pricing :: "route \<Rightarrow> str \<Rightarrow> unit res" where
  "require_matching_pricing rt model =
     ensure (px_provider (rt_pricing rt) = cp_provider (rt_profile rt)
         \<and> px_model_identifier (rt_pricing rt) = model)
       (RoutingError (''the pinned pricing snapshot does not price the profile''
         @ CHR 0x27 # ''s route''))"

definition model_route_init :: "hexdigest \<Rightarrow> route \<Rightarrow> ledger \<Rightarrow> unit res" where
  "model_route_init H rt l = checks
     [require_matching_selection H rt l,
      require_matching_pricing rt (cp_model_identifier (rt_profile rt)),
      ensure (px_content_hash (rt_pricing rt) = cb_pricing_snapshot_hash (lg_budget l))
        (RoutingError ''the supplied pricing snapshot is not the one pinned by the campaign budget'')]"

definition embedding_route_init :: "hexdigest \<Rightarrow> route \<Rightarrow> str \<Rightarrow> ledger \<Rightarrow> unit res" where
  "embedding_route_init H rt purpose l =
     bindE (require_matching_selection H rt l) (\<lambda>_.
     case cp_embedding_model_identifier (rt_profile rt) of
       None \<Rightarrow> Inl (RoutingError (''profile '' @ py_repr (cp_profile_id (rt_profile rt))
         @ '' names no embedding model; an embedding call through it is refused rather than re-routed''))
     | Some model \<Rightarrow> checks
         [require_matching_pricing rt model,
          ensure (Some (px_content_hash (rt_pricing rt)) = cb_embedding_pricing_snapshot_hash (lg_budget l))
            (RoutingError ''the supplied embedding pricing snapshot is not the one pinned by the campaign budget''),
          ensure (purpose \<noteq> []) (RoutingError ''a campaign embedding route requires a declared purpose'')])"

section \<open>Charging\<close>

type_synonym 'w routed = "ledger \<times> 'w"

text \<open>\<open>event = self.ledger.charge(...)\<close>, then the scan of the event, then \<open>after\<close>.\<close>

definition charge_and_scan ::
    "hexdigest \<Rightarrow> route \<Rightarrow> charge_args \<Rightarrow> 'a res \<Rightarrow> 'w routed \<Rightarrow> 'a res \<times> 'w routed" where
  "charge_and_scan H rt a after s =
     (case charge H (rt_sink rt) (rt_now rt) (fst s) a of
        (l, Inl e) \<Rightarrow> (Inl e, (l, snd s))
      | (l, Inr event) \<Rightarrow>
          (bindE (assert_no_secret_values (JObj (charge_value event)) (rt_secret_values rt)) (\<lambda>_. after),
           (l, snd s)))"

definition exception_class :: "str \<Rightarrow> str" where
  "exception_class cls = ''gateway_exception:'' @ cls"

section \<open>The model route\<close>

definition model_request_hash :: "hexdigest \<Rightarrow> model_request \<Rightarrow> str" where
  "model_request_hash H q =
     canonical_hash H (JObj
       [(''request_id'', JStr (mq_request_id q)),
        (''run_id'', JStr (mq_run_id q)),
        (''purpose'', JStr (mq_purpose q)),
        (''template_hash'', JStr (mq_template_hash q)),
        (''serialized_context_hash'', JStr (canonical_hash H (JStr (mq_serialized_context q)))),
        (''response_schema_hash'', JStr (canonical_hash H (JStr (mq_response_schema q)))),
        (''max_output_tokens'', JInt (mq_max_output_tokens q))])"

definition model_reservation :: quantities where
  "model_reservation = Quantities 1 0 0 0 0 0"

definition exception_charge :: "hexdigest \<Rightarrow> route \<Rightarrow> model_request \<Rightarrow> str \<Rightarrow> charge_args" where
  "exception_charge H rt q cls =
     \<lparr>ca_capability = ModelCap, ca_credential_profile_id = cp_profile_id (rt_profile rt),
      ca_purpose = mq_purpose q, ca_status = Failed, ca_request_hash = model_request_hash H q,
      ca_usage_source = Unavailable, ca_quantities = model_reservation,
      ca_failure_classification = Some (exception_class cls),
      ca_rate_limit_retry_after_milliseconds = None\<rparr>"

definition identity_matches :: "route \<Rightarrow> model_result \<Rightarrow> bool" where
  "identity_matches rt r \<longleftrightarrow>
     mr_provider r = cp_provider (rt_profile rt)
     \<and> mr_model_identifier r = cp_model_identifier (rt_profile rt)"

definition charged_status :: "route \<Rightarrow> model_result \<Rightarrow> record_status" where
  "charged_status rt r = (if identity_matches rt r then record_status_of (mr_status r) else Failed)"

definition classification_of :: "route \<Rightarrow> model_result \<Rightarrow> str option" where
  "classification_of rt r =
     (if \<not> identity_matches rt r then Some ''profile_identity_mismatch''
      else if record_status_of (mr_status r) \<noteq> Completed then
        Some (if mr_retry_classification r = [] then ''unclassified_failure'' else mr_retry_classification r)
      else None)"

definition result_charge :: "hexdigest \<Rightarrow> route \<Rightarrow> model_request \<Rightarrow> model_result \<Rightarrow> int \<Rightarrow> charge_args" where
  "result_charge H rt q r cost =
     \<lparr>ca_capability = ModelCap, ca_credential_profile_id = cp_profile_id (rt_profile rt),
      ca_purpose = mq_purpose q, ca_status = charged_status rt r,
      ca_request_hash = model_request_hash H q,
      ca_usage_source = (if usage_reported r then ApiReported else Unavailable),
      ca_quantities = Quantities 1
        (if usage_reported r then mu_input_tokens (mr_usage r) else 0)
        (if usage_reported r then mu_output_tokens (mr_usage r) else 0) cost 0 0,
      ca_failure_classification = classification_of rt r,
      ca_rate_limit_retry_after_milliseconds = (if mr_http_status r = Some 429 then Some 0 else None)\<rparr>"

definition result_cost :: "route \<Rightarrow> model_result \<Rightarrow> int res" where
  "result_cost rt r =
     (if usage_reported r
      then estimate_cost_microusd (rt_pricing rt) (mu_input_tokens (mr_usage r)) (mu_output_tokens (mr_usage r))
      else Inr 0)"

definition model_mismatch :: "route \<Rightarrow> error" where
  "model_mismatch rt = RoutingError
     (''the provider response identity does not match the selected credential profile ''
       @ py_repr (cp_profile_id (rt_profile rt))
       @ ''; the mismatch was preserved as a failed charge and the route is refused'')"

definition route_prepare :: "('w, 'p) model_gateway \<Rightarrow> model_request \<Rightarrow> 'w routed \<Rightarrow> 'p res \<times> 'w routed" where
  "route_prepare gw q s =
     (case mg_prepare gw q (snd s) of
        (Inl cls, w) \<Rightarrow> (Inl (EffectRaised cls), (fst s, w))
      | (Inr p, w) \<Rightarrow> (Inr p, (fst s, w)))"

definition route_complete ::
    "hexdigest \<Rightarrow> route \<Rightarrow> ('w, 'p) model_gateway \<Rightarrow> model_request \<Rightarrow> 'p \<Rightarrow> 'w routed
       \<Rightarrow> model_result res \<times> 'w routed" where
  "route_complete H rt gw q prep s =
     (if mq_purpose q = [] then
        (Inl (RoutingError ''a campaign model call requires a declared purpose''), s)
      else case admit (fst s) ModelCap (Some (cp_profile_id (rt_profile rt))) model_reservation of
        Inl e \<Rightarrow> (Inl e, s)
      | Inr _ \<Rightarrow>
          (case mg_complete gw q prep (snd s) of
             (Inl cls, w) \<Rightarrow>
               charge_and_scan H rt (exception_charge H rt q cls) (Inl (EffectRaised cls)) (fst s, w)
           | (Inr r, w) \<Rightarrow>
               (case result_cost rt r of
                  Inl e \<Rightarrow> (Inl e, (fst s, w))
                | Inr cost \<Rightarrow>
                    charge_and_scan H rt (result_charge H rt q r cost)
                      (if identity_matches rt r then Inr r else Inl (model_mismatch rt)) (fst s, w))))"

section \<open>The embedding route\<close>

record embedding_request =
  eq_document_id :: str
  eq_source_id :: str
  eq_source_content_hash :: str
  eq_text :: str
  eq_processor_id :: str
  eq_max_input_tokens :: int

text \<open>The coordinates of the answer are not read here: they are of any type.\<close>

record 'c embedding_result =
  er_provider :: str
  er_model_identifier :: str
  er_input_tokens :: int
  er_usage_source :: str
  er_coordinates :: 'c

type_synonym ('w, 'c) embedding_gateway =
  "embedding_request \<Rightarrow> 'w \<Rightarrow> (str + 'c embedding_result) \<times> 'w"

definition embedding_request_hash :: "hexdigest \<Rightarrow> embedding_request \<Rightarrow> str" where
  "embedding_request_hash H q =
     canonical_hash H (JObj
       [(''document_id'', JStr (eq_document_id q)),
        (''source_id'', JStr (eq_source_id q)),
        (''source_content_hash'', JStr (eq_source_content_hash q)),
        (''text_hash'', JStr (canonical_hash H (JStr (eq_text q)))),
        (''processor_id'', JStr (eq_processor_id q)),
        (''max_input_tokens'', JInt (eq_max_input_tokens q))])"

definition embedding_reservation :: quantities where
  "embedding_reservation = Quantities 1 0 0 0 0 1"

definition embedding_identity :: "route \<Rightarrow> 'c embedding_result \<Rightarrow> bool" where
  "embedding_identity rt r \<longleftrightarrow>
     er_provider r = cp_provider (rt_profile rt)
     \<and> Some (er_model_identifier r) = cp_embedding_model_identifier (rt_profile rt)"

definition embedding_reported :: "'c embedding_result \<Rightarrow> bool" where
  "embedding_reported r \<longleftrightarrow> er_usage_source r = ''api_reported''"

definition embedding_charge ::
    "hexdigest \<Rightarrow> route \<Rightarrow> str \<Rightarrow> embedding_request \<Rightarrow> record_status \<Rightarrow> usage_source \<Rightarrow> int \<Rightarrow> int
       \<Rightarrow> str option \<Rightarrow> charge_args" where
  "embedding_charge H rt purpose q status source tokens cost classification =
     \<lparr>ca_capability = EmbeddingCap, ca_credential_profile_id = cp_profile_id (rt_profile rt),
      ca_purpose = purpose, ca_status = status, ca_request_hash = embedding_request_hash H q,
      ca_usage_source = source, ca_quantities = Quantities 1 tokens 0 cost 0 1,
      ca_failure_classification = classification,
      ca_rate_limit_retry_after_milliseconds = None\<rparr>"

definition embedding_mismatch :: "route \<Rightarrow> error" where
  "embedding_mismatch rt = RoutingError
     (''the embedding response identity does not match the selected credential profile ''
       @ py_repr (cp_profile_id (rt_profile rt))
       @ ''; the mismatch was preserved as a failed charge and the route is refused'')"

definition route_embed ::
    "hexdigest \<Rightarrow> route \<Rightarrow> str \<Rightarrow> ('w, 'c) embedding_gateway \<Rightarrow> embedding_request \<Rightarrow> 'w routed
       \<Rightarrow> 'c embedding_result res \<times> 'w routed" where
  "route_embed H rt purpose gw q s =
     (case admit (fst s) EmbeddingCap None embedding_reservation of
        Inl e \<Rightarrow> (Inl e, s)
      | Inr _ \<Rightarrow>
          (case gw q (snd s) of
             (Inl cls, w) \<Rightarrow>
               charge_and_scan H rt
                 (embedding_charge H rt purpose q Failed Unavailable 0 0 (Some (exception_class cls)))
                 (Inl (EffectRaised cls)) (fst s, w)
           | (Inr r, w) \<Rightarrow>
               (case (if embedding_reported r
                      then estimate_cost_microusd (rt_pricing rt) (er_input_tokens r) 0 else Inr 0) of
                  Inl e \<Rightarrow> (Inl e, (fst s, w))
                | Inr cost \<Rightarrow>
                    charge_and_scan H rt
                      (embedding_charge H rt purpose q
                        (if embedding_identity rt r then Completed else Failed)
                        (if embedding_reported r then ApiReported else Unavailable)
                        (if embedding_reported r then er_input_tokens r else 0) cost
                        (if embedding_identity rt r then None else Some ''profile_identity_mismatch''))
                      (if embedding_identity rt r then Inr r else Inl (embedding_mismatch rt))
                      (fst s, w))))"

end
