(* ===== verification/Routing_Props.thy ===== *)
theory Routing_Props
  imports Routing Budget_Props
begin

text \<open>
  The boundary of the campaign: no call without an admission before it, one charge after it, and
  no answer of another provider; and where the credentials of a route come from.
\<close>

section \<open>Charging\<close>

text \<open>What the constructors of the profile, the budget and the pricing snapshot guarantee, and a
  clock that returns a text.\<close>

definition sound_route :: "route \<Rightarrow> ledger \<Rightarrow> bool" where
  "sound_route rt l \<longleftrightarrow>
     cp_profile_id (rt_profile rt) \<noteq> [] \<and> rates_ok (rt_pricing rt) \<and> rt_now rt \<noteq> []
     \<and> cb_campaign_id (lg_budget l) \<noteq> []"

definition chargeable :: "ledger \<Rightarrow> str \<Rightarrow> charge_args \<Rightarrow> bool" where
  "chargeable l now a \<longleftrightarrow> \<not> lg_closed l
     \<and> (\<exists>k. event_bucket (lg_budget l) (lg_route_policy l) (ca_capability a)
           (Some (ca_credential_profile_id a)) = Inr k)
     \<and> charge_post_init (charge_record l now a) = Inr ()"

lemma charge_and_scan_charged:
  assumes "chargeable l (rt_now rt) a" and run: "charge_and_scan H rt a after (l, w) = (r, (l', w'))"
  shows "w' = w" and "lg_events l' = lg_events l @ [charge_finalized H (charge_record l (rt_now rt) a)]"
    and "r = after \<or> (\<exists>e. r = Inl e)"
proof -
  obtain l1 c where c: "charge H (rt_sink rt) (rt_now rt) l a = (l1, c)"
    by (cases "charge H (rt_sink rt) (rt_now rt) l a")
  have "lg_events l1 = lg_events l @ [charge_finalized H (charge_record l (rt_now rt) a)]"
    using c
  proof (cases rule: charge_cases)
    case (refused err)
    obtain k where k: "event_bucket (lg_budget l) (lg_route_policy l) (ca_capability a)
        (Some (ca_credential_profile_id a)) = Inr k"
      using assms(1) by (auto simp: chargeable_def)
    obtain l2 where l2: "post_event k (charge_finalized H (charge_record l (rt_now rt) a)) l = Inr l2"
      using post_event_total [OF k] by blast
    then have "l1 = l2" using c k assms(1) by (simp add: charge_def chargeable_def Let_def)
    then show ?thesis using post_event_frame(4) [OF l2] by simp
  next
    case (recorded k e)
    then show ?thesis using post_event_frame(4) by simp
  qed
  then show "w' = w" "lg_events l' = lg_events l @ [charge_finalized H (charge_record l (rt_now rt) a)]"
    and "r = after \<or> (\<exists>e. r = Inl e)"
    using run c by (auto simp: charge_and_scan_def bindE_def split: sum.splits)
qed

lemma admit_open:
  assumes "admit l c p q = Inr ()"
  shows "\<not> lg_closed l" and "\<exists>k. event_bucket (lg_budget l) (lg_route_policy l) c p = Inr k"
  using assms by (auto simp: admit_def bindE_eq_Inr split: if_splits)

lemma starts_with_sha256 [simp]: "starts_with ''sha256:'' (canonical_hash H v)"
  using starts_with_append [of "''sha256:''" "H (canonical_bytes v)"]
  by (simp add: canonical_hash_def sha256_bytes_def)

text \<open>The events of both routes are well formed.\<close>

lemma event_post_init:
  assumes "sound_route rt l" and "ca_credential_profile_id a = cp_profile_id (rt_profile rt)"
    and "ca_purpose a \<noteq> []" and "ca_request_hash a = canonical_hash H v"
    and "ca_quantities a = Quantities 1 i j c 0 d" and "0 \<le> i" "0 \<le> j" "0 \<le> c" "0 \<le> d"
    and "ca_rate_limit_retry_after_milliseconds a \<in> {None, Some 0}"
    and "ca_failure_classification a \<noteq> Some []"
    and "ca_status a = Completed \<longrightarrow> ca_failure_classification a = None"
    and "ca_usage_source a = Unavailable \<longrightarrow> i = 0 \<and> j = 0 \<and> c = 0"
  shows "charge_post_init (charge_record l (rt_now rt) a) = Inr ()"
proof -
  have "q_requests (ca_quantities a) = 1" using assms(5) by simp
  then show ?thesis
    using assms
    by (auto simp: sound_route_def charge_post_init_def checks_Inr charge_record_def
        budget_schema_version_def quantity_fields_def b_nonnegative_def b_positive_def)
qed

lemma result_chargeable:
  assumes "sound_route rt l" and "mq_purpose q \<noteq> []"
    and "admit l ModelCap (Some (cp_profile_id (rt_profile rt))) model_reservation = Inr ()"
    and "result_cost rt r = Inr c"
  shows "chargeable l (rt_now rt) (result_charge H rt q r c)"
proof -
  have cost: "0 \<le> c" and "usage_reported r \<longrightarrow>
      0 \<le> mu_input_tokens (mr_usage r) \<and> 0 \<le> mu_output_tokens (mr_usage r)"
    using assms(1,4) estimate_cost_bounds(1-3)
    by (auto simp: result_cost_def sound_route_def split: if_splits)
  moreover have "\<not> usage_reported r \<longrightarrow> c = 0" using assms(4) by (auto simp: result_cost_def)
  ultimately have "charge_post_init (charge_record l (rt_now rt) (result_charge H rt q r c)) = Inr ()"
    using assms(1,2)
    by (intro event_post_init [where c = c and d = 0
          and i = "if usage_reported r then mu_input_tokens (mr_usage r) else 0"
          and j = "if usage_reported r then mu_output_tokens (mr_usage r) else 0"])
      (auto simp: result_charge_def classification_of_def charged_status_def model_request_hash_def)
  then show ?thesis
    using admit_open [OF assms(3)] by (simp add: chargeable_def result_charge_def)
qed

lemma exception_chargeable:
  assumes "sound_route rt l" and "mq_purpose q \<noteq> []"
    and "admit l ModelCap (Some (cp_profile_id (rt_profile rt))) model_reservation = Inr ()"
  shows "chargeable l (rt_now rt) (exception_charge H rt q cls)"
proof -
  have "charge_post_init (charge_record l (rt_now rt) (exception_charge H rt q cls)) = Inr ()"
    using assms(1,2)
    by (intro event_post_init)
      (auto simp: exception_charge_def exception_class_def model_reservation_def model_request_hash_def)
  then show ?thesis
    using admit_open [OF assms(3)] by (simp add: chargeable_def exception_charge_def)
qed

lemma charge_finalized_more [simp]:
  "ce_purpose (charge_finalized H e) = ce_purpose e"
  "ce_request_hash (charge_finalized H e) = ce_request_hash e"
  by (simp_all add: charge_finalized_def finish_def charge_set_hashes_def case_prod_unfold)

section \<open>Model calls\<close>

text \<open>The provider reports a negative token count.\<close>

definition negative_report :: "str + model_result \<Rightarrow> bool" where
  "negative_report answer \<longleftrightarrow> (\<exists>res. answer = Inr res \<and> usage_reported res
     \<and> (mu_input_tokens (mr_usage res) < 0 \<or> mu_output_tokens (mr_usage res) < 0))"

text \<open>The charge that belongs to an answer.\<close>

definition charge_for :: "hexdigest \<Rightarrow> route \<Rightarrow> model_request \<Rightarrow> str + model_result \<Rightarrow> charge_event \<Rightarrow> bool" where
  "charge_for H rt q answer ev \<longleftrightarrow>
     ce_capability ev = ModelCap \<and> ce_credential_profile_id ev = cp_profile_id (rt_profile rt)
     \<and> ce_purpose ev = mq_purpose q \<and> ce_request_hash ev = model_request_hash H q
     \<and> q_requests (ce_quantities ev) = 1
     \<and> (ce_status ev = Completed \<longleftrightarrow>
         (\<exists>res. answer = Inr res \<and> identity_matches rt res \<and> mr_status res = Succeeded))"

lemma charge_for_exception:
  "charge_for H rt q (Inl cls) (charge_finalized H (charge_record l now (exception_charge H rt q cls)))"
  by (simp add: charge_for_def exception_charge_def model_reservation_def charge_record_def)

lemma record_status_completed: "record_status_of s = Completed \<longleftrightarrow> s = Succeeded"
  by (cases s) auto

lemma charge_for_result:
  "charge_for H rt q (Inr r) (charge_finalized H (charge_record l now (result_charge H rt q r c)))"
  by (simp add: charge_for_def result_charge_def charge_record_def charged_status_def
      record_status_completed)

section \<open>Example\<close>

definition ex_profile :: credential_profile where
  "ex_profile = credential_profile_finalized zero_digest
     \<lparr>cp_profile_id = ''adaivy'', cp_provider = ''openai'', cp_model_identifier = ''model-1'',
      cp_embedding_model_identifier = None, cp_endpoint_settings = [],
      cp_credential_source = ''vault'', cp_schema_version = credential_schema_version,
      cp_record_type = ''credential_profile'', cp_content_hash = []\<rparr>"

definition ex_route :: route where
  "ex_route =
     \<lparr>rt_profile = ex_profile, rt_selection = selection_of zero_digest ex_profile ''campaign.example'' ''now'' None,
      rt_pricing = \<lparr>px_snapshot_id = ''p'', px_provider = ''openai'', px_model_identifier = ''model-1'',
        px_source = ''list'', px_captured_at = ''now'', px_input_rate = 3, px_output_rate = 4,
        px_content_hash = ''sha256:0''\<rparr>,
      rt_secret_values = [], rt_sink = (\<lambda>_. Inr ()), rt_now = ''now''\<rparr>"

definition ex_request :: model_request where
  "ex_request = \<lparr>mq_request_id = ''r'', mq_run_id = ''run'', mq_purpose = ''planner'',
     mq_template_id = ''t'', mq_template_version = ''1'', mq_template_hash = ''h'',
     mq_template_text = ''x'', mq_serialized_context = ''c'', mq_response_schema = ''s'',
     mq_timeout_milliseconds = 1, mq_max_output_tokens = 5\<rparr>"

definition ex_routed :: "str \<Rightarrow> model_result" where
  "ex_routed provider = \<lparr>mr_status = Succeeded, mr_provider = provider, mr_model_identifier = ''model-1'',
     mr_structured_output = None,
     mr_usage = \<lparr>mu_input_tokens = 10, mu_output_tokens = 5, mu_usage_source = ''api_reported''\<rparr>,
     mr_retry_classification = [], mr_provider_request_id = None, mr_http_status = None\<rparr>"

definition ex_gateway :: "str \<Rightarrow> (nat, unit) model_gateway" where
  "ex_gateway provider = \<lparr>mg_prepare = (\<lambda>q w. (Inr (), w)),
     mg_complete = (\<lambda>q p w. (Inr (ex_routed provider), w + 1))\<rparr>"

lemma ex_sound: "sound_route ex_route ex_open"
  by (simp add: sound_route_def ex_route_def ex_profile_def credential_profile_finalized_def
      rates_ok_def ex_open_def empty_ledger_def ex_budget_def campaign_budget_finalized_def)

lemma ex_admitted:
  "admit ex_open ModelCap (Some (cp_profile_id (rt_profile ex_route))) model_reservation = Inr ()"
  by (simp add: admit_def ex_open_def empty_ledger_def ex_route_def ex_profile_def
      credential_profile_finalized_def model_reservation_def b_positive_def event_bucket_def
      model_bucket_def ex_policy_def ex_budget_def campaign_budget_finalized_def admit_fields_def
      ex_sub_def sub_limits_def quantity_fields_def checks_simps b_nonnegative_def
      total_cost_def all_capabilities_def zero_quantities_def)

section \<open>Properties\<close>

text \<open>C10: A call through the model route that has no purpose or is not admitted reaches no provider and
  leaves the ledger as it is.  Every other call reaches the wrapped gateway exactly once, and then
  exactly one event is appended to the ledger, with the profile, the purpose and the request hash
  of the call, completed only for a successful answer of the selected provider and model; an
  answer is returned only when it is theirs.  The one exception: a provider that reports a negative
  token count makes the call raise \<open>ValueError\<close>, and the attempt is not charged.\<close>

theorem routed_call_charged_once:
  assumes "sound_route rt l" and "route_complete H rt gw q prep (l, w) = (r, (l', w'))"
  shows "if mq_purpose q = []
       \<or> admit l ModelCap (Some (cp_profile_id (rt_profile rt))) model_reservation \<noteq> Inr ()
     then (\<exists>e. r = Inl e) \<and> l' = l \<and> w' = w
     else \<exists>answer. mg_complete gw q prep w = (answer, w')
       \<and> (if negative_report answer then r = Inl (EffectRaised ''ValueError'') \<and> l' = l
          else (\<exists>ev. lg_events l' = lg_events l @ [ev] \<and> charge_for H rt q answer ev)
            \<and> (\<forall>res. r = Inr res \<longrightarrow> answer = Inr res \<and> identity_matches rt res))"
proof (cases "mq_purpose q = []
    \<or> admit l ModelCap (Some (cp_profile_id (rt_profile rt))) model_reservation \<noteq> Inr ()")
  case True
  then show ?thesis using assms(2) by (auto simp: route_complete_def split: sum.splits if_splits)
next
  case False
  then have purpose: "mq_purpose q \<noteq> []"
    and admitted: "admit l ModelCap (Some (cp_profile_id (rt_profile rt))) model_reservation = Inr ()"
    by simp_all
  obtain answer v where answer: "mg_complete gw q prep w = (answer, v)"
    by (cases "mg_complete gw q prep w")
  note run = assms(2) [unfolded route_complete_def]
  show ?thesis
  proof (cases answer)
    case (Inl cls)
    with run answer purpose admitted have
      "charge_and_scan H rt (exception_charge H rt q cls) (Inl (EffectRaised cls)) (l, v) = (r, (l', w'))"
      by simp
    from charge_and_scan_charged [OF exception_chargeable [OF assms(1) purpose admitted] this]
    show ?thesis using False answer Inl charge_for_exception by (auto simp: negative_report_def)
  next
    case (Inr res)
    show ?thesis
    proof (cases "negative_report answer")
      case True
      then have "result_cost rt res = Inl (EffectRaised ''ValueError'')"
        using Inr by (auto simp: negative_report_def result_cost_def estimate_cost_microusd_def)
      then show ?thesis using False True run answer Inr purpose admitted by simp
    next
      case fine: False
      then obtain c where c: "result_cost rt res = Inr c"
        using Inr estimate_cost_total [of "mu_input_tokens (mr_usage res)" "mu_output_tokens (mr_usage res)"
            "rt_pricing rt"]
        by (cases "usage_reported res") (auto simp: negative_report_def result_cost_def not_less)
      have "charge_and_scan H rt (result_charge H rt q res c)
          (if identity_matches rt res then Inr res else Inl (model_mismatch rt)) (l, v) = (r, (l', w'))"
        using run answer Inr purpose admitted c by simp
      from charge_and_scan_charged [OF result_chargeable [OF assms(1) purpose admitted c] this]
      show ?thesis using False fine answer Inr charge_for_result by (auto split: if_splits)
    qed
  qed
qed

theorem routed_call_charged_once_witness:
  "\<exists>ev. lg_events (fst (snd (route_complete zero_digest ex_route (ex_gateway ''other'') ex_request () (ex_open, 0))))
     = [ev] \<and> ce_status ev \<noteq> Completed"
proof -
  obtain r l' w' where run: "route_complete zero_digest ex_route (ex_gateway ''other'') ex_request () (ex_open, 0)
      = (r, (l', w'))" by (metis prod_cases3)
  have "mq_purpose ex_request \<noteq> []" "\<not> negative_report (Inr (ex_routed ''other''))"
    "\<not> identity_matches ex_route (ex_routed ''other'')"
    by (simp_all add: ex_request_def negative_report_def ex_routed_def identity_matches_def ex_route_def
        ex_profile_def credential_profile_finalized_def)
  then have "\<exists>ev. lg_events l' = lg_events ex_open @ [ev] \<and> ce_status ev \<noteq> Completed"
    using routed_call_charged_once [OF ex_sound run] ex_admitted
    by (auto simp: ex_gateway_def charge_for_def)
  then show ?thesis using run by (simp add: ex_open_def empty_ledger_def)
qed

end
