(* ===== verification/Py_Json.thy ===== *)
theory Py_Json
  imports Strict_Json
begin

text \<open>
  Decoded JSON as Python holds it: a dict keeps one value per key, and every value is true or false.
\<close>

text \<open>A decoded dict keeps the last value of a repeated key.\<close>

definition last_bindings :: "jobject \<Rightarrow> jobject" where
  "last_bindings kvs = map (\<lambda>k. (k, get_field kvs k)) (dedup (map fst kvs))"

fun decoded_value :: "json \<Rightarrow> json" where
  "decoded_value (JArr vs) = JArr (map decoded_value vs)"
| "decoded_value (JObj kvs) = JObj (last_bindings (map (\<lambda>(k, v). (k, decoded_value v)) kvs))"
| "decoded_value v = v"

text \<open>\<open>bool(value)\<close> of a decoded value; a float literal counts as true.\<close>

fun py_truthy :: "json \<Rightarrow> bool" where
  "py_truthy JNull = False"
| "py_truthy (JBool b) = b"
| "py_truthy (JInt i) = (i \<noteq> 0)"
| "py_truthy (JStr s) = (s \<noteq> [])"
| "py_truthy (JArr vs) = (vs \<noteq> [])"
| "py_truthy (JObj kvs) = (kvs \<noteq> [])"
| "py_truthy (JFloat lit) = True"

text \<open>\<open>str(value)\<close>; the text of a list, a dict or a float is a parameter.\<close>

definition py_str :: "(json \<Rightarrow> str) \<Rightarrow> json \<Rightarrow> str" where
  "py_str repr v =
     (case v of
        JStr s \<Rightarrow> s
      | JNull \<Rightarrow> ''None''
      | JBool b \<Rightarrow> (if b then ''True'' else ''False'')
      | JInt i \<Rightarrow> int_str i
      | _ \<Rightarrow> repr v)"

text \<open>Values without a float, which is all \<open>public_value\<close> of the review package lets through.\<close>

fun json_native :: "json \<Rightarrow> bool" where
  "json_native (JFloat lit) = False"
| "json_native (JArr vs) = list_all json_native vs"
| "json_native (JObj kvs) = list_all (\<lambda>kv. json_native (snd kv)) kvs"
| "json_native v = True"

end
