(* ===== verification/Gateway_Planner.thy ===== *)
theory Gateway_Planner
  imports Runner Model_Port Py_Json
begin

text \<open>
  \<open>campaign/planner.py\<close>: the planner port over a live model gateway.  It reserves the worst case of
  a call before making it, accounts for what the provider reports, carries a transcript that is
  collapsed from its oldest entry when the context grows past its byte bound, and restores its
  accounting from checkpoints.  The text of the prompt is a parameter.
\<close>

section \<open>Configuration\<close>

record live_configuration =
  lc_provider :: str
  lc_model_identifier :: str
  lc_pricing_snapshot_id :: str
  lc_call_timeout_milliseconds :: int
  lc_input_reserve :: int
  lc_output_reserve :: int
  lc_max_attempts :: int
  lc_max_input_tokens :: int
  lc_max_output_tokens :: int
  lc_max_cost_microusd :: int
  lc_content_hash :: str

text \<open>The fields of \<open>LiveProviderProbeResult\<close> that the constructor reads.\<close>

record live_activation =
  la_probe_status :: str
  la_operational_readiness :: str
  la_acknowledgement_confirmed :: bool
  la_requests_attempted :: int
  la_responses_succeeded :: int
  la_configuration_hash :: str
  la_pricing_snapshot_hash :: str
  la_provider :: str
  la_model_identifier :: str
  la_input_tokens :: int
  la_output_tokens :: int
  la_estimated_cost_microusd :: int

text \<open>\<open>gp_repr\<close> is Python's \<open>str\<close> of a float, a list or a dict.\<close>

record ('w, 'p) planner_setup =
  gp_configuration :: live_configuration
  gp_pricing :: pricing_snapshot
  gp_gateway :: "('w, 'p) model_gateway"
  gp_action_schema :: str
  gp_v2_contract :: bool
  gp_max_context_bytes :: int
  gp_prompt :: str
  gp_repr :: "json \<Rightarrow> str"

record gateway_state =
  gs_attempts :: int
  gs_input_tokens :: int
  gs_output_tokens :: int
  gs_cost :: int
  gs_previous :: "jobject list"
  gs_accounted :: "int set"

section \<open>Construction\<close>

definition pricing_matches :: "live_configuration \<Rightarrow> pricing_snapshot \<Rightarrow> bool" where
  "pricing_matches c p \<longleftrightarrow>
     px_snapshot_id p = lc_pricing_snapshot_id c \<and> px_provider p = lc_provider c
     \<and> px_model_identifier p = lc_model_identifier c \<and> pricing_snapshot_is_confirmed p"

definition activation_passed :: "live_configuration \<Rightarrow> pricing_snapshot \<Rightarrow> live_activation \<Rightarrow> bool" where
  "activation_passed c p a \<longleftrightarrow>
     la_probe_status a = ''passed'' \<and> la_operational_readiness a = ''passed''
     \<and> la_acknowledgement_confirmed a \<and> la_requests_attempted a = 1 \<and> la_responses_succeeded a = 1
     \<and> la_configuration_hash a = lc_content_hash c \<and> la_pricing_snapshot_hash a = px_content_hash p
     \<and> la_provider a = lc_provider c \<and> la_model_identifier a = lc_model_identifier c"

text \<open>\<open>value.get(key, default)\<close>, of a value that may not be a dict.\<close>

definition get_or :: "json \<Rightarrow> str \<Rightarrow> json \<Rightarrow> json res" where
  "get_or value key default_value =
     (case value of
        JObj kvs \<Rightarrow> Inr (case jget kvs key of None \<Rightarrow> default_value | Some v \<Rightarrow> v)
      | _ \<Rightarrow> Inl (EffectRaised ''AttributeError''))"

text \<open>\<open>needle in container\<close>, of a decoded container.\<close>

definition json_contains :: "str \<Rightarrow> json \<Rightarrow> bool res" where
  "json_contains needle container =
     (case container of
        JArr vs \<Rightarrow> Inr (JStr needle \<in> set vs)
      | JObj kvs \<Rightarrow> Inr (needle \<in> set (map fst kvs))
      | JStr s \<Rightarrow> Inr (occurs_in needle s)
      | _ \<Rightarrow> Inl TypeErr)"

definition v2_contract_of :: "str \<Rightarrow> bool res" where
  "v2_contract_of schema =
     (case json_loads schema of
        Inl IntDigitsError \<Rightarrow> Inl IntDigitsErr
      | Inl _ \<Rightarrow> Inl (RunnerError ''campaign action schema is not JSON'')
      | Inr value \<Rightarrow>
          bindE (get_or value ''properties'' (JObj [])) (\<lambda>properties.
          bindE (get_or properties ''action_type'' (JObj [])) (\<lambda>action_type.
          bindE (get_or action_type ''enum'' (JArr [])) (\<lambda>action_enum.
          bindE (json_contains ''search_literature'' action_enum) (\<lambda>search.
            if search then json_contains ''operation_request'' properties else Inr False)))))"

definition gateway_planner ::
    "live_configuration \<Rightarrow> pricing_snapshot \<Rightarrow> ('w, 'p) model_gateway \<Rightarrow> live_activation \<Rightarrow> str \<Rightarrow> int
       \<Rightarrow> (bool \<Rightarrow> str) \<Rightarrow> (json \<Rightarrow> str) \<Rightarrow> (('w, 'p) planner_setup \<times> gateway_state) res" where
  "gateway_planner c p gw a schema max_context prompt repr =
     bindE (ensure (pricing_matches c p)
       (RunnerError ''campaign planner pricing does not match the live configuration'')) (\<lambda>_.
     bindE (ensure (1 \<le> max_context) (RunnerError ''max_context_bytes must be positive'')) (\<lambda>_.
     bindE (ensure (activation_passed c p a)
       (RunnerError ''a passed, matching live provider activation is required before research'')) (\<lambda>_.
     bindE (v2_contract_of schema) (\<lambda>v2.
       Inr (\<lparr>gp_configuration = c, gp_pricing = p, gp_gateway = gw, gp_action_schema = schema,
               gp_v2_contract = v2, gp_max_context_bytes = max_context, gp_prompt = prompt v2,
               gp_repr = repr\<rparr>,
            \<lparr>gs_attempts = la_requests_attempted a, gs_input_tokens = la_input_tokens a,
               gs_output_tokens = la_output_tokens a, gs_cost = la_estimated_cost_microusd a,
               gs_previous = [], gs_accounted = {}\<rparr>)))))"

section \<open>The reservation\<close>

definition planner_reserve :: "live_configuration \<Rightarrow> pricing_snapshot \<Rightarrow> gateway_state \<Rightarrow> unit res" where
  "planner_reserve c p st =
     bindE (ensure (gs_attempts st < lc_max_attempts c)
       (PlannerBoundsExhausted ''campaign model-attempt bound exhausted'')) (\<lambda>_.
     bindE (ensure (gs_input_tokens st + lc_input_reserve c \<le> lc_max_input_tokens c
         \<and> gs_output_tokens st + lc_output_reserve c \<le> lc_max_output_tokens c)
       (PlannerBoundsExhausted ''campaign model-token bound exhausted'')) (\<lambda>_.
     bindE (estimate_cost_microusd p (lc_input_reserve c) (lc_output_reserve c)) (\<lambda>reserved.
     ensure (gs_cost st + reserved \<le> lc_max_cost_microusd c)
       (PlannerBoundsExhausted ''campaign model-cost bound exhausted''))))"

definition actual_budget_exceeded :: "live_configuration \<Rightarrow> gateway_state \<Rightarrow> bool" where
  "actual_budget_exceeded c st \<longleftrightarrow>
     lc_max_attempts c < gs_attempts st \<or> lc_max_input_tokens c < gs_input_tokens st
     \<or> lc_max_output_tokens c < gs_output_tokens st \<or> lc_max_cost_microusd c < gs_cost st"

section \<open>The context\<close>

definition collapsed_action :: "hexdigest \<Rightarrow> (json \<Rightarrow> str) \<Rightarrow> jobject \<Rightarrow> json" where
  "collapsed_action H repr entry =
     JObj
       [(''collapsed'', JBool True),
        (''action_hash'', JStr (sha256_bytes H (canonical_bytes (JObj entry)))),
        (''action_type'', get_field entry ''action_type''),
        (''branch_id'', get_field entry ''branch_id''),
        (''rationale'', JStr (py_take 200
           (case jget entry ''rationale'' of None \<Rightarrow> [] | Some v \<Rightarrow> py_str repr v))),
        (''full_action_retained_by_planner'', JBool True)]"

definition previous_entries ::
    "hexdigest \<Rightarrow> (json \<Rightarrow> str) \<Rightarrow> nat \<Rightarrow> jobject list \<Rightarrow> json list" where
  "previous_entries H repr collapse_count previous =
     map (\<lambda>(index, entry). if index < collapse_count then collapsed_action H repr entry else JObj entry)
       (zip [0 ..< length previous] previous)"

definition pair_values :: "str \<Rightarrow> str \<Rightarrow> (str \<times> str) list \<Rightarrow> json" where
  "pair_values first second pairs =
     JArr (map (\<lambda>(a, b). JObj [(first, JStr a), (second, JStr b)]) pairs)"

definition feedback_entry :: "tool_feedback \<Rightarrow> json" where
  "feedback_entry f =
     JObj
       [(''kind'', JStr (tf_kind f)), (''action_id'', JStr (tf_action_id f)),
        (''branch_id'', JStr (tf_branch_id f)), (''status'', JStr (tf_status f)),
        (''result_hash'', JStr (tf_result_hash f)), (''result_excerpt'', JStr (tf_result_excerpt f)),
        (''stderr_excerpt'', jstr_opt (tf_stderr_excerpt f)), (''untrusted_for_warrant'', JBool True)]"

definition base64_field :: "bytes option \<Rightarrow> json" where
  "base64_field b = jstr_opt (map_option b64encode b)"

definition planner_payload ::
    "hexdigest \<Rightarrow> ('w, 'p) planner_setup \<Rightarrow> gateway_state \<Rightarrow> planner_context \<Rightarrow> nat \<Rightarrow> json" where
  "planner_payload H ps st c collapse_count =
     (let cfg = gp_configuration ps in JObj (
       [(''schema_version'', JStr ''1.1.0''),
        (''campaign_id'', JStr (pc_campaign_id c)),
        (''target_hash'', JStr (pc_target_hash c)),
        (''configuration_hash'', JStr (pc_configuration_hash c)),
        (''sequence'', JInt (pc_sequence c)),
        (''previous_action_id'', jstr_opt (pc_previous_action_id c)),
        (''available_artifact_hashes'', jstrs (pc_available c)),
        (''recorded_program_hashes'', jstrs (pc_programs c)),
        (''selected_candidate_hash'', jstr_opt (pc_candidate c)),
        (''selected_tool_artifact_hashes'', jstrs (pc_selected_tools c)),
        (''latest_tool_result_hash'', jstr_opt (pc_latest_hash c)),
        (''latest_tool_result_base64'', base64_field (pc_latest c)),
        (''latest_tool_result_is_untrusted_data'', JBool True),
        (''actions_remaining'', JInt (pc_actions_remaining c)),
        (''tool_runs_remaining'', JInt (pc_tool_runs_remaining c)),
        (''previous_actions'',
           JArr (previous_entries H (gp_repr ps) collapse_count (gs_previous st))),
        (''target_statement'', jstr_opt (pc_target_statement c)),
        (''target_statement_hash'', jstr_opt (pc_target_statement_hash c)),
        (''target_statement_is_hash_attested'', JBool (pc_target_statement c \<noteq> None)),
        (''frozen_artifact_hashes'', jstrs (pc_frozen c)),
        (''notes'', pair_values ''branch_id'' ''note_text'' (pc_notes c)),
        (''tool_feedback'', JArr (map feedback_entry (pc_feedback c))),
        (''suspended_branch_ids'', jstrs (pc_suspended c)),
        (''branch_last_status'', pair_values ''branch_id'' ''status'' (pc_branch_status c)),
        (''read_artifact_hash'', jstr_opt (pc_read_hash c)),
        (''read_artifact_base64'', base64_field (pc_read_bytes c)),
        (''read_artifact_truncated'', JBool (pc_read_truncated c)),
        (''read_artifact_is_untrusted_data'', JBool True),
        (''last_rejection'', jstr_opt (pc_last_rejection c)),
        (''repair_attempts_remaining'', JInt (pc_repairs c)),
        (''model_attempts_remaining'', JInt (max 0 (lc_max_attempts cfg - gs_attempts st))),
        (''input_tokens_remaining'', JInt (max 0 (lc_max_input_tokens cfg - gs_input_tokens st))),
        (''output_tokens_remaining'', JInt (max 0 (lc_max_output_tokens cfg - gs_output_tokens st))),
        (''cost_microusd_remaining'', JInt (max 0 (lc_max_cost_microusd cfg - gs_cost st)))]
       @ (if pc_latest_unverified c then [(''latest_tool_determinism_unverified'', JBool True)] else [])
       @ (if pc_selected_unverified c then [(''selected_tool_determinism_unverified'', JBool True)] else [])))"

text \<open>
  The loop over \<open>collapse_count\<close>: \<open>ks\<close> are the counts still to try.  \<open>canonical_json\<close> raises for
  a float that is not finite and for a lone surrogate, which only transcript entries can hold: all
  of them are written in full in the first round.
\<close>

fun first_fitting :: "(nat \<Rightarrow> json) \<Rightarrow> int \<Rightarrow> nat list \<Rightarrow> str res" where
  "first_fitting payload bound [] =
     Inl (PlannerContextExhausted ''campaign planner context byte bound exhausted'')"
| "first_fitting payload bound (k # ks) =
     (if has_constant (payload k) then Inl (EffectRaised ''ValueError'')
      else if \<not> utf8_strings (payload k) then Inl UnicodeEncodeErr
      else if int (length (canonical_bytes (payload k))) \<le> bound then Inr (canonical_bytes (payload k))
      else first_fitting payload bound ks)"

definition bounded_serialized_payload ::
    "hexdigest \<Rightarrow> ('w, 'p) planner_setup \<Rightarrow> gateway_state \<Rightarrow> planner_context \<Rightarrow> str res" where
  "bounded_serialized_payload H ps st c =
     first_fitting (planner_payload H ps st c) (gp_max_context_bytes ps)
       [0 ..< length (gs_previous st) + 1]"

section \<open>A call\<close>

definition live_request ::
    "hexdigest \<Rightarrow> ('w, 'p) planner_setup \<Rightarrow> planner_context \<Rightarrow> str \<Rightarrow> model_request" where
  "live_request H ps c serialized =
     \<lparr>mq_request_id = ''request.campaign.'' @ pc_campaign_id c @ ''.'' @ int_str (pc_sequence c),
      mq_run_id = ''run.campaign.'' @ pc_campaign_id c,
      mq_purpose = ''campaign_planner'',
      mq_template_id = ''campaign.central_lead'',
      mq_template_version = (if gp_v2_contract ps then ''2.0.0'' else ''1.1.0''),
      mq_template_hash = sha256_bytes H (gp_prompt ps),
      mq_template_text = gp_prompt ps,
      mq_serialized_context = serialized,
      mq_response_schema = gp_action_schema ps,
      mq_timeout_milliseconds = lc_call_timeout_milliseconds (gp_configuration ps),
      mq_max_output_tokens = lc_output_reserve (gp_configuration ps)\<rparr>"

text \<open>\<open>json.loads\<close> of an answer: an object, something else, or an exception.\<close>

definition decode_action :: "str \<Rightarrow> jobject option res" where
  "decode_action text =
     (case json_loads text of
        Inl IntDigitsError \<Rightarrow> Inl IntDigitsErr
      | Inl _ \<Rightarrow> Inr None
      | Inr v \<Rightarrow> Inr (case decoded_value v of JObj kvs \<Rightarrow> Some kvs | _ \<Rightarrow> None))"

text \<open>The attempt and the tokens are counted before the cost is estimated.\<close>

definition account_usage :: "model_usage \<Rightarrow> gateway_state \<Rightarrow> gateway_state" where
  "account_usage u st =
     st\<lparr>gs_attempts := gs_attempts st + 1,
       gs_input_tokens := gs_input_tokens st + mu_input_tokens u,
       gs_output_tokens := gs_output_tokens st + mu_output_tokens u\<rparr>"

definition account_cost :: "int \<Rightarrow> int \<Rightarrow> gateway_state \<Rightarrow> gateway_state" where
  "account_cost cost sequence st =
     st\<lparr>gs_cost := gs_cost st + cost, gs_accounted := insert sequence (gs_accounted st)\<rparr>"

definition reported_status :: "live_configuration \<Rightarrow> gateway_state \<Rightarrow> model_result \<Rightarrow> record_status" where
  "reported_status c st r =
     (let status = record_status_of (mr_status r) in
      if (status = Completed \<and> mr_structured_output r = None) \<or> actual_budget_exceeded c st
      then Incomplete else status)"

definition fallback_action :: "model_result \<Rightarrow> bytes" where
  "fallback_action r =
     canonical_bytes (JObj
       [(''provider_result'', JStr (result_status_value (mr_status r))),
        (''retry_classification'', JStr (mr_retry_classification r)),
        (''provider_request_id'', jstr_opt (mr_provider_request_id r))])"

definition response_of :: "model_result \<Rightarrow> int \<Rightarrow> record_status \<Rightarrow> bytes \<Rightarrow> planner_response" where
  "response_of r cost status action =
     \<lparr>pr_action_json = action, pr_provider = mr_provider r, pr_model = mr_model_identifier r,
      pr_status = status,
      pr_usage_source = (if usage_reported r then ApiReported else Unavailable),
      pr_input_tokens = (if usage_reported r then mu_input_tokens (mr_usage r) else 0),
      pr_output_tokens = (if usage_reported r then mu_output_tokens (mr_usage r) else 0),
      pr_cost = (if usage_reported r then Some cost else None),
      pr_request_id = mr_provider_request_id r\<rparr>"

text \<open>What the call does with an answer: the new state and the response.\<close>

definition take_answer ::
    "('w, 'p) planner_setup \<Rightarrow> int \<Rightarrow> model_result \<Rightarrow> gateway_state \<Rightarrow> planner_response res \<times> gateway_state" where
  "take_answer ps sequence r st =
     (let c = gp_configuration ps; st1 = account_usage (mr_usage r) st in
      case estimate_cost_microusd (gp_pricing ps) (mu_input_tokens (mr_usage r)) (mu_output_tokens (mr_usage r)) of
        Inl e \<Rightarrow> (Inl e, st1)
      | Inr cost \<Rightarrow>
          (let st2 = account_cost cost sequence st1; status = reported_status c st2 r in
           case mr_structured_output r of
             None \<Rightarrow>
               (if utf8_valid (fallback_action r) then (Inr (response_of r cost status (fallback_action r)), st2)
                else (Inl UnicodeEncodeErr, st2))
           | Some text \<Rightarrow>
               (case (if status = Completed then map_sum id Some (decode_action text) else Inr None) of
                  Inl e \<Rightarrow> (Inl e, st2)
                | Inr decoded \<Rightarrow>
                    (let final = (if decoded = Some None then Failed else status);
                         st3 = (case decoded of
                             Some (Some kvs) \<Rightarrow> st2\<lparr>gs_previous := gs_previous st2 @ [kvs]\<rparr>
                           | _ \<Rightarrow> st2) in
                     if utf8_valid text then (Inr (response_of r cost final text), st3)
                     else (Inl UnicodeEncodeErr, st3)))))"

definition planner_call ::
    "hexdigest \<Rightarrow> ('w, 'p) planner_setup \<Rightarrow> planner_context \<Rightarrow> gateway_state \<times> 'w
       \<Rightarrow> planner_response res \<times> gateway_state \<times> 'w" where
  "planner_call H ps c s =
     (let st = fst s; gw = gp_gateway ps in
      case bindE (planner_reserve (gp_configuration ps) (gp_pricing ps) st)
             (\<lambda>_. bounded_serialized_payload H ps st c) of
        Inl e \<Rightarrow> (Inl e, s)
      | Inr serialized \<Rightarrow>
          (let q = live_request H ps c serialized in
           case mg_prepare gw q (snd s) of
             (Inl cls, w) \<Rightarrow> (Inl (EffectRaised cls), (st, w))
           | (Inr prepared, w) \<Rightarrow>
               (case mg_complete gw q prepared w of
                  (Inl cls, w') \<Rightarrow> (Inl (EffectRaised cls), (st, w'))
                | (Inr r, w') \<Rightarrow>
                    (case take_answer ps (pc_sequence c) r st of (response, st') \<Rightarrow> (response, (st', w'))))))"

section \<open>restore_checkpoint\<close>

definition restore_differs :: "error" where
  "restore_differs = RunnerError ''planner checkpoint usage differs''"

text \<open>\<open>isinstance(v, int) and not isinstance(v, bool) and v >= 0\<close>.\<close>

definition token_count :: "json \<Rightarrow> int res" where
  "token_count v =
     (case v of JInt i \<Rightarrow> if 0 \<le> i then Inr i else Inl restore_differs | _ \<Rightarrow> Inl restore_differs)"

text \<open>\<open>estimated\<close>: here a bool passes for an int.\<close>

definition estimated_count :: "json \<Rightarrow> int option res" where
  "estimated_count v =
     (case v of
        JNull \<Rightarrow> Inr None
      | JInt i \<Rightarrow> if 0 \<le> i then Inr (Some i) else Inl restore_differs
      | JBool b \<Rightarrow> Inr (Some (if b then 1 else 0))
      | _ \<Rightarrow> Inl restore_differs)"

definition restore_keys :: "str list" where
  "restore_keys =
     [''action_json_base64'', ''status'', ''input_tokens'', ''output_tokens'', ''estimated_cost_microusd'']"

definition restored_transcript :: "record_status \<Rightarrow> bytes \<Rightarrow> gateway_state \<Rightarrow> gateway_state res" where
  "restored_transcript status raw st =
     (if status \<noteq> Completed then Inr st
      else if \<not> utf8_valid raw then Inl (RunnerError ''planner checkpoint action differs'')
      else bindE (decode_action raw) (\<lambda>decoded.
        case decoded of
          None \<Rightarrow> Inl (RunnerError ''planner checkpoint action differs'')
        | Some kvs \<Rightarrow> Inr (st\<lparr>gs_previous := gs_previous st @ [kvs]\<rparr>)))"

definition restore_checkpoint ::
    "('w, 'p) planner_setup \<Rightarrow> int \<Rightarrow> jobject \<Rightarrow> gateway_state \<Rightarrow> gateway_state res" where
  "restore_checkpoint ps sequence value st =
     (let c = gp_configuration ps;
          unreadable = RunnerError ''planner checkpoint cannot restore accounting'' in
      if sequence \<in> gs_accounted st then Inr st
      else if \<not> set restore_keys \<subseteq> set (map fst value) then Inl unreadable
      else case (b64decode (py_str (gp_repr ps) (get_field value ''action_json_base64'')),
                 enum_of status_value all_statuses (JStr (py_str (gp_repr ps) (get_field value ''status'')))) of
        (Some raw, Some status) \<Rightarrow>
          bindE (ensure (jget value ''provider'' = Some (JStr (lc_provider c))
              \<and> jget value ''model_identifier'' = Some (JStr (lc_model_identifier c))) restore_differs) (\<lambda>_.
          bindE (token_count (get_field value ''input_tokens'')) (\<lambda>input_tokens.
          bindE (token_count (get_field value ''output_tokens'')) (\<lambda>output_tokens.
          bindE (estimated_count (get_field value ''estimated_cost_microusd'')) (\<lambda>estimated.
          bindE (restored_transcript status raw st) (\<lambda>st1.
            Inr (st1\<lparr>gs_attempts := gs_attempts st1 + 1,
              gs_input_tokens := gs_input_tokens st1 + input_tokens,
              gs_output_tokens := gs_output_tokens st1 + output_tokens,
              gs_cost := (case estimated of None \<Rightarrow> gs_cost st1 | Some e \<Rightarrow> gs_cost st1 + e),
              gs_accounted := insert sequence (gs_accounted st1)\<rparr>))))))
      | _ \<Rightarrow> Inl unreadable)"

end
