(* ===== verification/Gateway_Planner_Props.thy ===== *)
theory Gateway_Planner_Props
  imports Gateway_Planner
begin

text \<open>
  The live planner: its reservations keep a campaign within the model budget, restoring a
  checkpoint gives the state the recorded call left, and two ways in which accounting is lost.
\<close>

section \<open>One call\<close>

lemma planner_call_cases:
  assumes "planner_call H ps c (st, w) = (r, (st', w'))"
  obtains (untouched) e where "r = Inl e" and "st' = st"
  | (answered) q p v answer where "planner_reserve (gp_configuration ps) (gp_pricing ps) st = Inr ()"
      and "mg_complete (gp_gateway ps) q p v = (Inr answer, w')"
      and "take_answer ps (pc_sequence c) answer st = (r, st')"
  using assms
  by (auto simp: planner_call_def Let_def bindE_eq_Inr split: sum.splits prod.splits)

text \<open>The accounting of an answer does not depend on what else becomes of it.\<close>

lemma take_answer_accounts:
  assumes "take_answer ps k answer st = (r, st')"
  shows "gs_attempts st' = gs_attempts st + 1"
    and "gs_input_tokens st' = gs_input_tokens st + mu_input_tokens (mr_usage answer)"
    and "gs_output_tokens st' = gs_output_tokens st + mu_output_tokens (mr_usage answer)"
    and "estimate_cost_microusd (gp_pricing ps) (mu_input_tokens (mr_usage answer))
        (mu_output_tokens (mr_usage answer)) = Inr cost \<Longrightarrow> gs_cost st' = gs_cost st + cost"
  using assms
  by (auto simp: take_answer_def Let_def account_usage_def account_cost_def
      split: sum.splits option.splits if_splits)

section \<open>The model budget\<close>

text \<open>A planner and the calls made on it, from its construction.\<close>

inductive planner_reach :: "hexdigest \<Rightarrow> ('w, 'p) planner_setup \<Rightarrow> gateway_state \<Rightarrow> gateway_state \<times> 'w \<Rightarrow> bool"
  for H :: hexdigest and ps :: "('w, 'p) planner_setup" and st0 :: gateway_state where
  built: "planner_reach H ps st0 (st0, w)"
| called: "planner_reach H ps st0 s \<Longrightarrow> planner_call H ps c s = (r, s') \<Longrightarrow> planner_reach H ps st0 s'"

text \<open>The provider never uses more than was reserved for one call.\<close>

definition within_reserve :: "('w, 'p) planner_setup \<Rightarrow> bool" where
  "within_reserve ps \<longleftrightarrow>
     (\<forall>q p w answer w'. mg_complete (gp_gateway ps) q p w = (Inr answer, w') \<longrightarrow>
        0 \<le> mu_input_tokens (mr_usage answer)
        \<and> mu_input_tokens (mr_usage answer) \<le> lc_input_reserve (gp_configuration ps)
        \<and> 0 \<le> mu_output_tokens (mr_usage answer)
        \<and> mu_output_tokens (mr_usage answer) \<le> lc_output_reserve (gp_configuration ps))"

lemma reserve_covers:
  assumes "planner_reserve c p st = Inr ()" and "rates_ok p"
    and "take_answer ps k answer st = (r, st')" and "gp_configuration ps = c" and "gp_pricing ps = p"
    and "0 \<le> mu_input_tokens (mr_usage answer)" "mu_input_tokens (mr_usage answer) \<le> lc_input_reserve c"
    and "0 \<le> mu_output_tokens (mr_usage answer)" "mu_output_tokens (mr_usage answer) \<le> lc_output_reserve c"
  shows "\<not> actual_budget_exceeded c st'"
proof -
  obtain reserved where reserved: "estimate_cost_microusd p (lc_input_reserve c) (lc_output_reserve c) = Inr reserved"
    and bounds: "gs_attempts st < lc_max_attempts c"
      "gs_input_tokens st + lc_input_reserve c \<le> lc_max_input_tokens c"
      "gs_output_tokens st + lc_output_reserve c \<le> lc_max_output_tokens c"
      "gs_cost st + reserved \<le> lc_max_cost_microusd c"
    using assms(1) by (auto simp: planner_reserve_def bindE_eq_Inr)
  obtain cost where cost: "estimate_cost_microusd p (mu_input_tokens (mr_usage answer))
      (mu_output_tokens (mr_usage answer)) = Inr cost"
    using estimate_cost_total assms(6,8) by blast
  have "cost \<le> reserved" using estimate_cost_mono [OF cost reserved assms(2,7,9)] .
  then show ?thesis
    using bounds take_answer_accounts [OF assms(3)] cost assms(4,5,7,9)
    by (simp add: actual_budget_exceeded_def)
qed

section \<open>Restoring\<close>

lemma restored_transcript_other:
  "status \<noteq> Completed \<Longrightarrow> restored_transcript status raw st = Inr st"
  by (simp add: restored_transcript_def)

lemma reported_status_completed:
  "reported_status c st r = Completed \<Longrightarrow> mr_structured_output r \<noteq> None"
  by (auto simp: reported_status_def Let_def split: if_splits)

lemma take_answer_response:
  assumes "take_answer ps k answer st = (Inr response, st')"
  shows "\<exists>cost status raw.
    estimate_cost_microusd (gp_pricing ps) (mu_input_tokens (mr_usage answer))
       (mu_output_tokens (mr_usage answer)) = Inr cost
    \<and> response = response_of answer cost status raw
    \<and> restored_transcript status raw (account_cost cost k (account_usage (mr_usage answer) st)) = Inr st'"
proof -
  obtain cost where cost: "estimate_cost_microusd (gp_pricing ps) (mu_input_tokens (mr_usage answer))
      (mu_output_tokens (mr_usage answer)) = Inr cost"
    using assms by (auto simp: take_answer_def Let_def split: sum.splits)
  define st2 where "st2 = account_cost cost k (account_usage (mr_usage answer) st)"
  define status where "status = reported_status (gp_configuration ps) st2 answer"
  have "\<exists>final raw. response = response_of answer cost final raw \<and> restored_transcript final raw st2 = Inr st'"
  proof (cases "mr_structured_output answer")
    case None
    then have "status \<noteq> Completed"
      using reported_status_completed unfolding status_def by blast
    moreover have "response = response_of answer cost status (fallback_action answer)" "st' = st2"
      using None assms cost
      by (auto simp: take_answer_def Let_def st2_def [symmetric] status_def [symmetric] split: if_splits)
    ultimately show ?thesis using restored_transcript_other by blast
  next
    case (Some doc)
    show ?thesis
    proof (cases "status = Completed")
      case True
      then obtain decoded where decoded: "decode_action doc = Inr decoded" and "utf8_valid doc"
        using assms cost Some
        by (cases "decode_action doc")
          (auto simp: take_answer_def Let_def st2_def [symmetric] status_def [symmetric] split: if_splits)
      show ?thesis
      proof (cases decoded)
        case None
        then have "response = response_of answer cost Failed doc" "st' = st2"
          using True assms cost Some decoded \<open>utf8_valid doc\<close>
          by (auto simp: take_answer_def Let_def st2_def [symmetric] status_def [symmetric])
        then show ?thesis using restored_transcript_other by blast
      next
        fix kvs assume "decoded = Some kvs"
        then have "response = response_of answer cost Completed doc"
            "restored_transcript Completed doc st2 = Inr st'"
          using True assms cost Some decoded \<open>utf8_valid doc\<close>
          by (auto simp: take_answer_def Let_def st2_def [symmetric] status_def [symmetric]
              restored_transcript_def)
        then show ?thesis by blast
      qed
    next
      case False
      then have "response = response_of answer cost status doc" "st' = st2"
        using assms cost Some
        by (auto simp: take_answer_def Let_def st2_def [symmetric] status_def [symmetric] split: if_splits)
      with False show ?thesis using restored_transcript_other by blast
    qed
  qed
  with cost show ?thesis unfolding st2_def by blast
qed

lemma restored_transcript_accounted:
  "restored_transcript status raw (account_cost cost k (account_usage u st))
     = map_sum id (\<lambda>st'. account_cost cost k (account_usage u st')) (restored_transcript status raw st)"
  by (auto simp: restored_transcript_def account_cost_def account_usage_def bindE_def
      split: sum.splits option.splits)

lemma planner_result_fields:
  "get_field (planner_result r) ''action_json_base64'' = JStr (b64encode (pr_action_json r))"
  "get_field (planner_result r) ''status'' = JStr (status_value (pr_status r))"
  "get_field (planner_result r) ''input_tokens'' = JInt (pr_input_tokens r)"
  "get_field (planner_result r) ''output_tokens'' = JInt (pr_output_tokens r)"
  "get_field (planner_result r) ''estimated_cost_microusd'' = jint_opt (pr_cost r)"
  "jget (planner_result r) ''provider'' = Some (JStr (pr_provider r))"
  "jget (planner_result r) ''model_identifier'' = Some (JStr (pr_model r))"
  by (simp_all add: planner_result_def get_field_def jget_def)

text \<open>What restoring the checkpoint of a response adds: the values of the response.\<close>

lemma restore_of_response:
  assumes "k \<notin> gs_accounted st"
    and "pr_provider r = lc_provider (gp_configuration ps)"
    and "pr_model r = lc_model_identifier (gp_configuration ps)"
    and "0 \<le> pr_input_tokens r" and "0 \<le> pr_output_tokens r"
    and "\<forall>e. pr_cost r = Some e \<longrightarrow> 0 \<le> e"
    and "restored_transcript (pr_status r) (pr_action_json r) st = Inr st1"
  shows "restore_checkpoint ps k (dict_of (planner_result r)) st =
    Inr (account_cost (case pr_cost r of None \<Rightarrow> 0 | Some e \<Rightarrow> e) k
      (account_usage \<lparr>mu_input_tokens = pr_input_tokens r, mu_output_tokens = pr_output_tokens r,
        mu_usage_source = usage_value (pr_usage_source r)\<rparr> st1))"
proof -
  have keys: "set restore_keys \<subseteq> fst ` set (dict_of (planner_result r))"
    by (simp add: restore_keys_def planner_result_keys_set planner_result_keys_def)
  have cost: "estimated_count (jint_opt (pr_cost r)) = Inr (pr_cost r)"
    using assms(6) by (cases "pr_cost r") (simp_all add: estimated_count_def)
  show ?thesis
    using assms(1-5) keys
    by (simp add: restore_checkpoint_def Let_def get_field_dict_of [OF planner_result_distinct]
        jget_dict_of [OF planner_result_distinct] planner_result_fields py_str_def b64_round_trip status.enum_of_value ensure_def token_count_def
        cost assms(7) account_cost_def account_usage_def split: option.split)
qed

text \<open>C37: Restoring a planner from the checkpoint of a paid call gives the state the call itself left.\<close>
theorem restored_as_called:
  assumes "planner_call H ps c (st, w) = (Inr response, (st', w'))"
    and "pr_usage_source response = ApiReported"
    and "pr_provider response = lc_provider (gp_configuration ps)"
    and "pr_model response = lc_model_identifier (gp_configuration ps)"
    and "pc_sequence c \<notin> gs_accounted st" and "rates_ok (gp_pricing ps)"
  shows "restore_checkpoint ps (pc_sequence c) (dict_of (planner_result response)) st = Inr st'"
  using assms(1)
proof (cases rule: planner_call_cases)
  case (answered q p v answer)
  obtain cost status raw where
    cost: "estimate_cost_microusd (gp_pricing ps) (mu_input_tokens (mr_usage answer))
        (mu_output_tokens (mr_usage answer)) = Inr cost"
    and response: "response = response_of answer cost status raw"
    and accounted: "restored_transcript status raw
        (account_cost cost (pc_sequence c) (account_usage (mr_usage answer) st)) = Inr st'"
    using take_answer_response [OF answered(3)] by blast
  obtain st1 where st1: "restored_transcript status raw st = Inr st1"
    and st': "st' = account_cost cost (pc_sequence c) (account_usage (mr_usage answer) st1)"
    using accounted unfolding restored_transcript_accounted
    by (cases "restored_transcript status raw st") auto
  have reported: "usage_reported answer"
    using assms(2) unfolding response by (auto simp: response_of_def split: if_splits)
  note bounds = estimate_cost_bounds(1,2,3) [OF cost assms(6)]
  have "restore_checkpoint ps (pc_sequence c) (dict_of (planner_result response)) st
      = Inr (account_cost cost (pc_sequence c) (account_usage
          \<lparr>mu_input_tokens = mu_input_tokens (mr_usage answer),
           mu_output_tokens = mu_output_tokens (mr_usage answer),
           mu_usage_source = ''api_reported''\<rparr> st1))"
    using restore_of_response [of "pc_sequence c" st response ps st1] assms(3-5) bounds reported st1
    unfolding response by (simp add: response_of_def)
  then show ?thesis unfolding st' by (simp add: account_usage_def)
qed simp

text \<open>C17: A planner that starts within its model budget stays within it, in attempts, tokens and cost,
  whatever the provider answers and however often it is called, as long as no answer uses more
  tokens than were reserved for one call.
\<close>
theorem planner_within_budget:
  assumes "gateway_planner c p gw a schema max_context prompt repr = Inr (ps, st0)"
    and "rates_ok p" and "within_reserve ps" and "\<not> actual_budget_exceeded c st0"
    and "planner_reach H ps st0 s"
  shows "\<not> actual_budget_exceeded c (fst s)"
  using assms(5)
proof induction
  case (built w)
  then show ?case using assms(4) by simp
next
  case (called s k r s')
  have configured: "gp_configuration ps = c" "gp_pricing ps = p"
    using assms(1) by (auto simp: gateway_planner_def bindE_eq_Inr)
  obtain st w st' w' where s: "s = (st, w)" "s' = (st', w')" by (cases s, cases s') blast
  from called.hyps(2) [unfolded s] show ?case
  proof (cases rule: planner_call_cases)
    case untouched
    then show ?thesis using called.IH by (simp add: s)
  next
    case (answered q pr v answer)
    have used: "0 \<le> mu_input_tokens (mr_usage answer)" "0 \<le> mu_output_tokens (mr_usage answer)"
        "mu_input_tokens (mr_usage answer) \<le> lc_input_reserve c"
        "mu_output_tokens (mr_usage answer) \<le> lc_output_reserve c"
      using assms(3) answered(2) configured(1) unfolding within_reserve_def by blast+
    show ?thesis
      using reserve_covers [OF answered(1) [unfolded configured] assms(2) answered(3) configured
          used(1,3,2,4)] by (simp add: s)
  qed
qed

text \<open>
  Where the provider reports no usage the response carries no usage either: the call counts the
  tokens and the cost in memory, the restored planner counts only the attempt.
\<close>

theorem unreported_usage_lost:
  assumes "planner_call H ps c (st, w) = (Inr response, (st', w'))"
    and "pr_usage_source response \<noteq> ApiReported"
    and "pr_provider response = lc_provider (gp_configuration ps)"
    and "pr_model response = lc_model_identifier (gp_configuration ps)"
    and "pc_sequence c \<notin> gs_accounted st"
  shows "\<exists>st1. restore_checkpoint ps (pc_sequence c) (dict_of (planner_result response)) st = Inr st1
    \<and> gs_attempts st1 = gs_attempts st' \<and> gs_input_tokens st1 = gs_input_tokens st
    \<and> gs_output_tokens st1 = gs_output_tokens st \<and> gs_cost st1 = gs_cost st"
  using assms(1)
proof (cases rule: planner_call_cases)
  case (answered q p v answer)
  obtain cost status raw where response: "response = response_of answer cost status raw"
    and accounted: "restored_transcript status raw
        (account_cost cost (pc_sequence c) (account_usage (mr_usage answer) st)) = Inr st'"
    using take_answer_response [OF answered(3)] by blast
  obtain st1 where st1: "restored_transcript status raw st = Inr st1"
    and st': "st' = account_cost cost (pc_sequence c) (account_usage (mr_usage answer) st1)"
    using accounted unfolding restored_transcript_accounted
    by (cases "restored_transcript status raw st") auto
  have unreported: "\<not> usage_reported answer"
    using assms(2) unfolding response by (auto simp: response_of_def split: if_splits)
  have same: "gs_input_tokens st1 = gs_input_tokens st" "gs_output_tokens st1 = gs_output_tokens st"
      "gs_cost st1 = gs_cost st"
    using st1 by (auto simp: restored_transcript_def bindE_eq_Inr split: if_splits option.splits)
  show ?thesis
    using restore_of_response [of "pc_sequence c" st response ps st1] assms(3-5) unreported st1 same
    unfolding response st' by (simp add: response_of_def account_cost_def account_usage_def)
qed simp

section \<open>A poisoned transcript\<close>

text \<open>
  The transcript is written in full in the first round of the loop over the context, so an entry
  with a float that JSON does not have, which \<open>json.loads\<close> lets through, makes every later call raise.
\<close>

lemma payload_entry:
  assumes "entry \<in> set (gs_previous st)" and "has_constant (JObj entry)"
  shows "has_constant (planner_payload H ps st c 0)"
proof -
  have "previous_entries H (gp_repr ps) 0 (gs_previous st) = map JObj (gs_previous st)"
    unfolding previous_entries_def by (rule nth_equalityI) simp_all
  moreover have "has_constant (planner_payload H ps st c 0)"
    if "has_constant (JArr (previous_entries H (gp_repr ps) 0 (gs_previous st)))"
    using that unfolding planner_payload_def Let_def has_constant.simps(3) set_append bex_Un list.set
      insert_iff bex_simps snd_conv by blast
  ultimately show ?thesis using assms by auto
qed

theorem poisoned_transcript:
  assumes "entry \<in> set (gs_previous st)" and "has_constant (JObj entry)"
    and "planner_reserve (gp_configuration ps) (gp_pricing ps) st = Inr ()"
  shows "planner_call H ps c (st, w) = (Inl (EffectRaised ''ValueError''), (st, w))"
proof -
  have "[0 ..< length (gs_previous st) + 1] = 0 # [1 ..< length (gs_previous st) + 1]"
    by (simp add: upt_rec)
  moreover have "has_constant (planner_payload H ps st c 0)" by (rule payload_entry [OF assms(1,2)])
  ultimately have "bounded_serialized_payload H ps st c = Inl (EffectRaised ''ValueError'')"
    unfolding bounded_serialized_payload_def by (simp only: first_fitting.simps if_True)
  with assms(3) show ?thesis by (simp add: planner_call_def)
qed

lemma constants_decoded:
  "decode_action (''{'' @ [CHR 0x22] @ ''x'' @ [CHR 0x22] @ '':NaN}'') = Inr (Some [(''x'', JFloat ''NaN'')])"
  by code_simp

section \<open>Concrete planners\<close>

definition sample_live :: live_configuration where
  "sample_live =
     \<lparr>lc_provider = ''mock'', lc_model_identifier = ''m'', lc_pricing_snapshot_id = ''px'',
      lc_call_timeout_milliseconds = 1000, lc_input_reserve = 100, lc_output_reserve = 50,
      lc_max_attempts = 3, lc_max_input_tokens = 300, lc_max_output_tokens = 150,
      lc_max_cost_microusd = 10, lc_content_hash = ''ch''\<rparr>"

definition sample_pricing :: pricing_snapshot where
  "sample_pricing =
     \<lparr>px_snapshot_id = ''px'', px_provider = ''mock'', px_model_identifier = ''m'', px_source = ''list'',
      px_captured_at = ''t'', px_input_rate = 10000, px_output_rate = 20000, px_content_hash = ''ph''\<rparr>"

definition sample_activation :: live_activation where
  "sample_activation =
     \<lparr>la_probe_status = ''passed'', la_operational_readiness = ''passed'',
      la_acknowledgement_confirmed = True, la_requests_attempted = 1, la_responses_succeeded = 1,
      la_configuration_hash = ''ch'', la_pricing_snapshot_hash = ''ph'', la_provider = ''mock'',
      la_model_identifier = ''m'', la_input_tokens = 7, la_output_tokens = 3,
      la_estimated_cost_microusd = 1\<rparr>"

definition sample_answer :: "str \<Rightarrow> str \<Rightarrow> model_result" where
  "sample_answer structured source =
     \<lparr>mr_status = Succeeded, mr_provider = ''mock'', mr_model_identifier = ''m'',
      mr_structured_output = Some structured,
      mr_usage = \<lparr>mu_input_tokens = 60, mu_output_tokens = 20, mu_usage_source = source\<rparr>,
      mr_retry_classification = ''none'', mr_provider_request_id = None, mr_http_status = None\<rparr>"

definition sample_gateway :: "str \<Rightarrow> str \<Rightarrow> (nat, unit) model_gateway" where
  "sample_gateway structured source =
     \<lparr>mg_prepare = (\<lambda>q n. (Inr (), n)), mg_complete = (\<lambda>q u n. (Inr (sample_answer structured source), Suc n))\<rparr>"

definition sample_context :: planner_context where
  "sample_context =
     \<lparr>pc_campaign_id = ''c'', pc_target_hash = ''t'', pc_configuration_hash = ''h'', pc_sequence = 1,
      pc_previous_action_id = None, pc_available = [], pc_programs = [], pc_candidate = None,
      pc_selected_tools = [], pc_latest_hash = None, pc_latest = None, pc_actions_remaining = 1,
      pc_tool_runs_remaining = 1, pc_target_statement = None, pc_target_statement_hash = None,
      pc_frozen = [], pc_notes = [], pc_feedback = [], pc_suspended = [], pc_branch_status = [],
      pc_read_hash = None, pc_read_bytes = None, pc_read_truncated = False, pc_last_rejection = None,
      pc_repairs = 0, pc_latest_unverified = False, pc_selected_unverified = False\<rparr>"

definition sample_setup :: "str \<Rightarrow> str \<Rightarrow> (nat, unit) planner_setup" where
  "sample_setup structured source =
     \<lparr>gp_configuration = sample_live, gp_pricing = sample_pricing, gp_gateway = sample_gateway structured source,
      gp_action_schema = ''{}'', gp_v2_contract = False, gp_max_context_bytes = 100000,
      gp_prompt = ''p'', gp_repr = (\<lambda>_. [])\<rparr>"

definition sample_state :: gateway_state where
  "sample_state =
     \<lparr>gs_attempts = 1, gs_input_tokens = 7, gs_output_tokens = 3, gs_cost = 1, gs_previous = [],
      gs_accounted = {}\<rparr>"

definition sample_hash :: hexdigest where
  "sample_hash bs = ''00''"

lemma sample_contract: "v2_contract_of ''{}'' = Inr False"
  by code_simp

lemma sample_planner_built:
  "gateway_planner sample_live sample_pricing (sample_gateway structured source) sample_activation ''{}''
     100000 (\<lambda>_. ''p'') (\<lambda>_. []) = Inr (sample_setup structured source, sample_state)"
proof -
  have "pricing_matches sample_live sample_pricing"
    and "activation_passed sample_live sample_pricing sample_activation" by code_simp+
  then show ?thesis
    by (simp add: gateway_planner_def ensure_def sample_contract sample_setup_def sample_state_def
        sample_activation_def)
qed

lemma sample_call:
  "planner_call sample_hash (sample_setup ''{}'' ''api_reported'') sample_context (sample_state, 0)
     = (Inr (response_of (sample_answer ''{}'' ''api_reported'') 1 Completed ''{}''),
        (\<lparr>gs_attempts = 2, gs_input_tokens = 67, gs_output_tokens = 23, gs_cost = 2, gs_previous = [[]],
          gs_accounted = {1}\<rparr>, 1))"
  by code_simp

lemma restored_as_called_witness:
  "restore_checkpoint (sample_setup ''{}'' ''api_reported'') 1
     (dict_of (planner_result (response_of (sample_answer ''{}'' ''api_reported'') 1 Completed ''{}'')))
     sample_state
   = Inr \<lparr>gs_attempts = 2, gs_input_tokens = 67, gs_output_tokens = 23, gs_cost = 2,
       gs_previous = [[]], gs_accounted = {1}\<rparr>"
  using restored_as_called [OF sample_call]
  by (simp add: response_of_def sample_answer_def usage_reported_def sample_setup_def sample_live_def
      sample_context_def sample_state_def rates_ok_def sample_pricing_def)

lemma planner_within_budget_witness:
  "\<not> actual_budget_exceeded sample_live
     \<lparr>gs_attempts = 2, gs_input_tokens = 67, gs_output_tokens = 23, gs_cost = 2, gs_previous = [[]],
       gs_accounted = {1}\<rparr>"
proof -
  have "planner_reach sample_hash (sample_setup ''{}'' ''api_reported'') sample_state
      (\<lparr>gs_attempts = 2, gs_input_tokens = 67, gs_output_tokens = 23, gs_cost = 2, gs_previous = [[]],
        gs_accounted = {1}\<rparr>, 1)"
    by (rule planner_reach.called [OF planner_reach.built sample_call])
  moreover have "within_reserve (sample_setup ''{}'' ''api_reported'')"
    by (simp add: within_reserve_def sample_setup_def sample_gateway_def sample_answer_def sample_live_def)
  moreover have "rates_ok sample_pricing" "\<not> actual_budget_exceeded sample_live sample_state"
    by code_simp+
  ultimately show ?thesis
    using planner_within_budget [OF sample_planner_built] by fastforce
qed

end
