(* ===== verification/Trust_Entities.thy ===== *)
theory Trust_Entities
  imports Records Py_Strings
begin

text \<open>
  \<open>domain/entities.py\<close>: the immutable entities of a research dossier.  A dataclass that extends
  \<open>Entity\<close> is a record that extends \<open>entity\<close>; the fields of each carry a prefix of their own.
  Status and confidence of a claim are not stored: \<open>Trust_Policy\<close> derives them.
\<close>

section \<open>Identifiers and instants\<close>

definition entity_schema_version :: str where
  "entity_schema_version = ''1.0.0''"

type_synonym opaque_id = str

text \<open>\<open>^[A-Za-z][A-Za-z0-9._:-]*$\<close>, matched in full.\<close>

definition id_pattern :: "str \<Rightarrow> bool" where
  "id_pattern s \<longleftrightarrow>
     (case s of
        [] \<Rightarrow> False
      | c # cs \<Rightarrow> is_alnum c \<and> \<not> is_digit c \<and> (\<forall>d \<in> set cs. is_alnum d \<or> d \<in> set ''._:-''))"

text \<open>The built-in exceptions of the domain package, by class.\<close>

definition value_error :: error where
  "value_error = EffectRaised ''ValueError''"

definition key_error :: error where
  "key_error = EffectRaised ''KeyError''"

definition oid :: "str \<Rightarrow> opaque_id res" where
  "oid s = bindE (ensure (id_pattern s) value_error) (\<lambda>_. Inr s)"

text \<open>A \<open>datetime\<close>, in microseconds of UTC where it is aware of its offset.\<close>

datatype timestamp = Aware int | Naive int

section \<open>Vocabularies\<close>

datatype problem_type = Prove | Disprove | Optimize | Classify | Compute | Explore

datatype approval_status =
  ApprovalProposed | NeedsClarification | ApprovalApproved | ApprovalSuperseded

datatype alignment_status =
  AlignmentProposed | ResearcherApproved | AlignmentDisputed | AlignmentSuperseded

datatype strength_relation = Equivalent | Weaker | Stronger | Overlapping | Unrelated | StrengthUnresolved

datatype claim_origin = UserOrigin | SourceOrigin | ModelOrigin | ToolOrigin | FormalSystemOrigin

datatype claim_scope = UnrestrictedUniversal | Bounded | Existential | Particular | Definitional

datatype warrant_kind =
  FormalProof | RigorousDerivation | ExactCounterexample | ExperimentalObservation | SourceReport
  | ModelAgreement

datatype warrant_status = ActiveWarrant | WithdrawnWarrant

datatype disposition = Proposal | Accepted | Rejected

datatype evidence_kind =
  DerivationEvidence | FormalArtifact | CounterexampleEvidence | ExperimentEvidence | SourceSpan
  | ModelOutput

datatype applicability_status =
  ApplicabilityProposed | ApplicabilityChecked | ApplicabilityRejected | ApplicabilityUnresolved

datatype compatibility = Compatible | Incompatible | CompatibilityUnresolved

datatype obligation_status = ObligationOpen | ObligationBlocked | Discharged | Waived

datatype representation_status =
  RepresentationProposed | PartiallyVerified | RepresentationVerified | RepresentationRefuted

datatype verification_outcome = Passed | FailedCheck | Inconclusive

datatype protocol_phase = Exploratory | Confirmatory

fun warrant_kind_value :: "warrant_kind \<Rightarrow> str" where
  "warrant_kind_value FormalProof = ''formal_proof''"
| "warrant_kind_value RigorousDerivation = ''rigorous_derivation''"
| "warrant_kind_value ExactCounterexample = ''exact_counterexample''"
| "warrant_kind_value ExperimentalObservation = ''experimental_observation''"
| "warrant_kind_value SourceReport = ''source_report''"
| "warrant_kind_value ModelAgreement = ''model_agreement''"

section \<open>Entities\<close>

record entity =
  en_id :: opaque_id
  en_created_at :: timestamp
  en_created_by :: opaque_id
  en_schema_version :: str

definition entity_post_init :: "('a) entity_scheme \<Rightarrow> unit res" where
  "entity_post_init e =
     bindE (ensure (en_schema_version e = entity_schema_version) value_error) (\<lambda>_.
     ensure (case en_created_at e of Aware _ \<Rightarrow> True | Naive _ \<Rightarrow> False) value_error)"

record research_problem = entity +
  pb_title :: str
  pb_informal_statement :: str
  pb_type :: problem_type
  pb_tags :: "str list"
  pb_active_formalization_id :: "opaque_id option"

record formalization = entity +
  fz_problem_id :: opaque_id
  fz_version :: int
  fz_statement :: str
  fz_formal_language :: str
  fz_quantifiers :: "str list"
  fz_assumption_claim_ids :: "opaque_id list"
  fz_target_claim_id :: opaque_id
  fz_approval_status :: approval_status

record semantic_alignment = entity +
  al_problem_id :: opaque_id
  al_formalization_id :: opaque_id
  al_compared_claim_id :: opaque_id
  al_quantifier_mapping :: "(str \<times> str) list"
  al_definition_mapping :: "(str \<times> str) list"
  al_assumption_delta :: "str list"
  al_edge_case_delta :: "str list"
  al_strength_relation :: strength_relation
  al_status :: alignment_status
  al_approved_by :: "opaque_id option"

record claim = entity +
  cl_kind :: str
  cl_statement :: str
  cl_assumption_claim_ids :: "opaque_id list"
  cl_origin :: claim_origin
  cl_scope :: claim_scope
  cl_representation_map_ids :: "opaque_id list"
  cl_novelty_assessment_id :: "opaque_id option"
  cl_significance_assessment_id :: "opaque_id option"
  cl_contribution_ids :: "opaque_id list"

record warrant = entity +
  wr_claim_id :: opaque_id
  wr_kind :: warrant_kind
  wr_scope :: str
  wr_evidence_ids :: "opaque_id list"
  wr_verification_record_ids :: "opaque_id list"
  wr_status :: warrant_status

record evidence = entity +
  ev_claim_id :: opaque_id
  ev_kind :: evidence_kind
  ev_content :: str
  ev_artifact_hash :: str
  ev_source_ref :: "str option"
  ev_disposition :: disposition

record source_applicability = entity +
  sa_local_claim_id :: opaque_id
  sa_evidence_id :: opaque_id
  sa_imported_statement :: str
  sa_imported_hypotheses :: "str list"
  sa_definition_mapping :: "(str \<times> str) list"
  sa_scope_and_exceptions :: "str list"
  sa_implication_obligation_id :: opaque_id
  sa_bibliographic_status :: str
  sa_hypothesis_compatibility :: compatibility
  sa_implication_verified :: bool
  sa_status :: applicability_status

record proof_obligation = entity +
  ob_claim_id :: opaque_id
  ob_description :: str
  ob_category :: str
  ob_status :: obligation_status
  ob_normalized_statement :: "str option"
  ob_discharged_by_warrant_id :: "opaque_id option"
  ob_parent_obligation_id :: "opaque_id option"

record representation_map = entity +
  rm_source_representation :: str
  rm_target_representation :: str
  rm_encoding_claim_id :: opaque_id
  rm_preserved_property_claim_ids :: "opaque_id list"
  rm_exceptional_case_claim_ids :: "opaque_id list"
  rm_bridge_obligation_ids :: "opaque_id list"
  rm_status :: representation_status

record verification_record = entity +
  vr_claim_id :: opaque_id
  vr_verifier_kind :: str
  vr_outcome :: verification_outcome
  vr_evidence_ids :: "opaque_id list"
  vr_target_statement_hash :: str
  vr_independent_from_proposer :: bool
  vr_disposition :: disposition
  vr_notes :: "str list"

record evaluation_protocol = entity +
  ep_version :: int
  ep_phase :: protocol_phase
  ep_metrics :: "str list"
  ep_success_criteria :: "str list"
  ep_stopping_rules :: "str list"
  ep_frozen_at :: "timestamp option"
  ep_frozen_by :: "opaque_id option"

record audit_event = entity +
  ae_aggregate_id :: opaque_id
  ae_event_type :: str
  ae_payload :: "(str \<times> str) list"
  ae_idempotency_key :: str

record research_dossier = entity +
  do_problem :: research_problem
  do_formalization :: formalization
  do_alignment :: semantic_alignment
  do_claims :: "claim list"
  do_warrants :: "warrant list"
  do_evidence :: "evidence list"
  do_source_applicability :: "source_applicability list"
  do_obligations :: "proof_obligation list"
  do_representation_maps :: "representation_map list"
  do_verification_records :: "verification_record list"
  do_evaluation_protocol :: evaluation_protocol
  do_audit_events :: "audit_event list"
  do_capabilities :: "str list"

section \<open>Evaluation protocols\<close>

definition evaluation_protocol_post_init :: "evaluation_protocol \<Rightarrow> unit res" where
  "evaluation_protocol_post_init p =
     bindE (entity_post_init p) (\<lambda>_.
     bindE (ensure ((ep_frozen_at p = None) = (ep_frozen_by p = None)) value_error) (\<lambda>_.
     ensure (\<not> (ep_phase p = Confirmatory \<and> ep_frozen_at p = None)) value_error))"

definition protocol_is_frozen :: "evaluation_protocol \<Rightarrow> bool" where
  "protocol_is_frozen p \<longleftrightarrow> ep_frozen_at p \<noteq> None"

text \<open>\<open>dataclasses.replace\<close> runs the constructor, and with it \<open>__post_init__\<close>.\<close>

definition protocol_replace ::
    "(evaluation_protocol \<Rightarrow> evaluation_protocol) \<Rightarrow> evaluation_protocol \<Rightarrow> evaluation_protocol res" where
  "protocol_replace change p = bindE (evaluation_protocol_post_init (change p)) (\<lambda>_. Inr (change p))"

definition protocol_freeze ::
    "opaque_id \<Rightarrow> timestamp \<Rightarrow> evaluation_protocol \<Rightarrow> evaluation_protocol res" where
  "protocol_freeze actor at p =
     (if protocol_is_frozen p then Inr p
      else protocol_replace (\<lambda>q. q\<lparr>ep_frozen_at := Some at, ep_frozen_by := Some actor\<rparr>) p)"

definition protocol_revise ::
    "(evaluation_protocol \<Rightarrow> evaluation_protocol) \<Rightarrow> evaluation_protocol \<Rightarrow> evaluation_protocol res" where
  "protocol_revise change p =
     (if protocol_is_frozen p then Inl value_error else protocol_replace change p)"

text \<open>Freezing succeeds on every constructed protocol, and a frozen one never changes again.\<close>

lemma freeze_total:
  assumes "evaluation_protocol_post_init p = Inr ()"
  shows "\<exists>q. protocol_freeze actor at p = Inr q \<and> protocol_is_frozen q
    \<and> evaluation_protocol_post_init q = Inr ()"
  using assms
  by (auto simp: protocol_freeze_def protocol_replace_def protocol_is_frozen_def bindE_eq_Inr
      evaluation_protocol_post_init_def entity_post_init_def)

lemma frozen_stays:
  "protocol_is_frozen p \<Longrightarrow> protocol_freeze actor at p = Inr p \<and> protocol_revise change p = Inl value_error"
  by (simp add: protocol_freeze_def protocol_revise_def)

section \<open>Lookups\<close>

text \<open>A dict built from a list by a key: the last entry of a key wins.\<close>

definition by_key :: "('a \<Rightarrow> 'k) \<Rightarrow> 'a list \<Rightarrow> 'k \<Rightarrow> 'a option" where
  "by_key key xs k = find (\<lambda>x. key x = k) (rev xs)"

lemma by_key_Some: "by_key key xs k = Some x \<Longrightarrow> x \<in> set xs \<and> key x = k"
  by (auto simp: by_key_def find_Some_iff in_set_conv_nth) (metis in_set_conv_nth length_rev nth_mem set_rev)

lemma by_key_None: "by_key key xs k = None \<longleftrightarrow> (\<forall>x \<in> set xs. key x \<noteq> k)"
  by (auto simp: by_key_def find_None_iff)

lemma by_key_unique:
  assumes "distinct (map key xs)"
  shows "by_key key xs k = Some x \<longleftrightarrow> x \<in> set xs \<and> key x = k"
proof
  assume "x \<in> set xs \<and> key x = k"
  then obtain y where "by_key key xs k = Some y"
    using by_key_None [of key xs k] by (cases "by_key key xs k") auto
  with \<open>x \<in> set xs \<and> key x = k\<close> show "by_key key xs k = Some x"
    using by_key_Some [of key xs k y] assms by (auto simp: distinct_map inj_on_def)
qed (rule by_key_Some)

lemma by_key_case:
  assumes "distinct (map key xs)"
  shows "(case by_key key xs k of None \<Rightarrow> False | Some x \<Rightarrow> P x) \<longleftrightarrow> (\<exists>x \<in> set xs. key x = k \<and> P x)"
proof (cases "by_key key xs k")
  case None
  then show ?thesis using by_key_None [of key xs k] by auto
next
  case (Some y)
  then have "x = y" if "x \<in> set xs" "key x = k" for x
    using that by_key_unique [OF assms, of k x] by simp
  with Some show ?thesis using by_key_Some [OF Some] by auto
qed

lemma by_key_case_not:
  assumes "distinct (map key xs)"
  shows "(case by_key key xs k of None \<Rightarrow> True | Some x \<Rightarrow> \<not> P x) \<longleftrightarrow> \<not> (\<exists>x \<in> set xs. key x = k \<and> P x)"
  unfolding by_key_case [OF assms, symmetric] by (simp split: option.split)

text \<open>\<open>[x for x in xs if test(x)]\<close>, where the test may raise.\<close>

fun filterE :: "('a \<Rightarrow> 'e + bool) \<Rightarrow> 'a list \<Rightarrow> 'e + 'a list" where
  "filterE test [] = Inr []"
| "filterE test (x # xs) =
     bindE (test x) (\<lambda>b. bindE (filterE test xs) (\<lambda>ys. Inr (if b then x # ys else ys)))"

lemma filterE_filter:
  "(\<And>x. x \<in> set xs \<Longrightarrow> test x = Inr (good x)) \<Longrightarrow> filterE test xs = Inr (filter good xs)"
  by (induction xs) auto

end
