(* ===== verification/Trust_Policy.thy ===== *)
theory Trust_Policy
  imports Trust_Entities
begin

text \<open>
  \<open>domain/policies.py\<close>: what a dossier lets one say about a claim.  A projection is computed
  from the dossier each time; nothing of it is stored.  A lookup of an unknown identifier raises
  \<open>KeyError\<close>, and hashing a statement with a lone surrogate \<open>UnicodeEncodeError\<close>.
\<close>

section \<open>Projections\<close>

record trust_projection =
  tp_schema_version :: str
  tp_claim_id :: opaque_id
  tp_semantic_alignment_status :: str
  tp_logical_status :: str
  tp_warrant_kinds :: "str list"
  tp_novelty_status :: str
  tp_significance_status :: str
  tp_contribution_status :: str
  tp_blockers :: "str list"

section \<open>The dicts of a policy\<close>

definition claim_of :: "research_dossier \<Rightarrow> opaque_id \<Rightarrow> claim option" where
  "claim_of d = by_key en_id (do_claims d)"

definition warrant_of :: "research_dossier \<Rightarrow> opaque_id \<Rightarrow> warrant option" where
  "warrant_of d = by_key en_id (do_warrants d)"

definition evidence_of :: "research_dossier \<Rightarrow> opaque_id \<Rightarrow> evidence option" where
  "evidence_of d = by_key en_id (do_evidence d)"

definition verification_of :: "research_dossier \<Rightarrow> opaque_id \<Rightarrow> verification_record option" where
  "verification_of d = by_key en_id (do_verification_records d)"

definition obligation_of :: "research_dossier \<Rightarrow> opaque_id \<Rightarrow> proof_obligation option" where
  "obligation_of d = by_key en_id (do_obligations d)"

definition map_of_id :: "research_dossier \<Rightarrow> opaque_id \<Rightarrow> representation_map option" where
  "map_of_id d = by_key en_id (do_representation_maps d)"

definition applicability_of :: "research_dossier \<Rightarrow> opaque_id \<Rightarrow> source_applicability option" where
  "applicability_of d = by_key sa_implication_obligation_id (do_source_applicability d)"

definition lookup_or_raise :: "('k \<Rightarrow> 'a option) \<Rightarrow> 'k \<Rightarrow> 'a res" where
  "lookup_or_raise f k = (case f k of None \<Rightarrow> Inl key_error | Some x \<Rightarrow> Inr x)"

lemma lookup_or_raise_Some [simp]: "f k = Some x \<Longrightarrow> lookup_or_raise f k = Inr x"
  by (simp add: lookup_or_raise_def)

lemma lookup_or_raise_Inr: "lookup_or_raise f k = Inr x \<longleftrightarrow> f k = Some x"
  by (simp add: lookup_or_raise_def split: option.split)

section \<open>Warrants\<close>

definition statement_hash :: "hexdigest \<Rightarrow> str \<Rightarrow> str res" where
  "statement_hash H s = (if utf8_valid s then Inr (canonical_hash H (JStr s)) else Inl UnicodeEncodeErr)"

definition evidence_accepted :: "warrant \<Rightarrow> evidence option \<Rightarrow> bool" where
  "evidence_accepted w item =
     (case item of
        None \<Rightarrow> False
      | Some e \<Rightarrow> ev_claim_id e = wr_claim_id w \<and> ev_disposition e = Accepted)"

definition verification_accepted :: "warrant \<Rightarrow> str \<Rightarrow> verification_record option \<Rightarrow> bool" where
  "verification_accepted w hash item =
     (case item of
        None \<Rightarrow> False
      | Some v \<Rightarrow>
          vr_claim_id v = wr_claim_id w \<and> vr_outcome v = Passed \<and> vr_disposition v = Accepted
          \<and> vr_target_statement_hash v = hash \<and> vr_independent_from_proposer v)"

definition warrant_is_accepted :: "hexdigest \<Rightarrow> research_dossier \<Rightarrow> opaque_id \<Rightarrow> bool res" where
  "warrant_is_accepted H d i =
     bindE (lookup_or_raise (warrant_of d) i) (\<lambda>w.
     if wr_status w \<noteq> ActiveWarrant \<or> wr_evidence_ids w = [] then Inr False
     else if \<not> list_all (\<lambda>j. evidence_accepted w (evidence_of d j)) (wr_evidence_ids w) then Inr False
     else bindE (lookup_or_raise (claim_of d) (wr_claim_id w)) (\<lambda>c.
          bindE (statement_hash H (cl_statement c)) (\<lambda>hash.
          Inr (wr_verification_record_ids w \<noteq> []
            \<and> list_all (\<lambda>j. verification_accepted w hash (verification_of d j))
                (wr_verification_record_ids w)))))"

section \<open>Blockers\<close>

definition representation_blockers :: "research_dossier \<Rightarrow> claim \<Rightarrow> str list" where
  "representation_blockers d c = concat (map (\<lambda>i.
     (case map_of_id d i of
        None \<Rightarrow> [''representation_map_not_verified:'' @ i]
      | Some m \<Rightarrow>
          if rm_status m \<noteq> RepresentationVerified then [''representation_map_not_verified:'' @ i]
          else map (\<lambda>j. ''representation_bridge_open:'' @ j)
            (filter (\<lambda>j. case obligation_of d j of None \<Rightarrow> True | Some b \<Rightarrow> ob_status b \<noteq> Discharged)
              (rm_bridge_obligation_ids m)))) (cl_representation_map_ids c))"

definition open_obligation_blockers :: "research_dossier \<Rightarrow> opaque_id \<Rightarrow> str list" where
  "open_obligation_blockers d i =
     map (\<lambda>b. ''open_obligation:'' @ en_id b)
       (filter (\<lambda>b. ob_claim_id b = i \<and> ob_status b \<in> {ObligationOpen, ObligationBlocked}) (do_obligations d))"

section \<open>project_claim\<close>

text \<open>The status, from the kinds of the accepted warrants; the last step is the one of the source
  that withdraws a proof of an unrestricted claim which no proof warrant carries.\<close>

definition proof_kinds :: "warrant_kind set" where
  "proof_kinds = {FormalProof, RigorousDerivation}"

definition weak_kinds :: "warrant_kind set" where
  "weak_kinds = {ExperimentalObservation, SourceReport, ModelAgreement}"

definition logical_status :: "claim \<Rightarrow> warrant_kind list \<Rightarrow> str list \<Rightarrow> str" where
  "logical_status c kinds blockers =
     (let status =
        (if ExactCounterexample \<in> set kinds then ''disproved''
         else if blockers = [] \<and> (\<exists>k \<in> set kinds. k \<in> proof_kinds) then ''proved''
         else if \<exists>k \<in> set kinds. k \<in> weak_kinds then ''supported''
         else ''unknown'') in
      if cl_scope c = UnrestrictedUniversal \<and> status = ''proved''
         \<and> \<not> (\<exists>k \<in> set kinds. k \<in> proof_kinds)
      then ''supported'' else status)"

definition approved_equivalent :: "semantic_alignment \<Rightarrow> opaque_id \<Rightarrow> bool" where
  "approved_equivalent a i \<longleftrightarrow>
     al_compared_claim_id a = i \<and> al_status a = ResearcherApproved \<and> al_strength_relation a = Equivalent"

definition linked_or :: "str \<Rightarrow> bool \<Rightarrow> str" where
  "linked_or missing present = (if present then ''linked'' else missing)"

definition project_claim :: "hexdigest \<Rightarrow> research_dossier \<Rightarrow> opaque_id \<Rightarrow> trust_projection res" where
  "project_claim H d i =
     bindE (lookup_or_raise (claim_of d) i) (\<lambda>c.
     bindE (filterE (\<lambda>w. warrant_is_accepted H d (en_id w))
         (filter (\<lambda>w. wr_claim_id w = i) (do_warrants d))) (\<lambda>active.
       let blockers = representation_blockers d c @ open_obligation_blockers d i;
           kinds = map wr_kind active in
       Inr \<lparr>tp_schema_version = entity_schema_version,
         tp_claim_id = i,
         tp_semantic_alignment_status =
           (if approved_equivalent (do_alignment d) i then ''approved_equivalent''
            else ''not_approved_equivalent''),
         tp_logical_status = logical_status c kinds blockers,
         tp_warrant_kinds = sort (remdups (map warrant_kind_value kinds)),
         tp_novelty_status = linked_or ''not_assessed'' (cl_novelty_assessment_id c \<noteq> None),
         tp_significance_status = linked_or ''not_assessed'' (cl_significance_assessment_id c \<noteq> None),
         tp_contribution_status = linked_or ''unattributed'' (cl_contribution_ids c \<noteq> []),
         tp_blockers = sort blockers\<rparr>))"

section \<open>target_resolution\<close>

definition target_aligned :: "research_dossier \<Rightarrow> bool" where
  "target_aligned d \<longleftrightarrow>
     (let f = do_formalization d; a = do_alignment d in
      pb_active_formalization_id (do_problem d) = Some (en_id f)
      \<and> al_formalization_id a = en_id f
      \<and> approved_equivalent a (fz_target_claim_id f)
      \<and> al_assumption_delta a = [] \<and> al_edge_case_delta a = [])"

definition target_resolution :: "hexdigest \<Rightarrow> research_dossier \<Rightarrow> trust_projection res" where
  "target_resolution H d =
     bindE (project_claim H d (fz_target_claim_id (do_formalization d))) (\<lambda>p.
       Inr (if target_aligned d then p
            else p\<lparr>tp_semantic_alignment_status := ''not_approved_equivalent'',
              tp_logical_status := ''unknown'',
              tp_blockers := sort (tp_blockers p @ [''semantic_target_not_resolved''])\<rparr>))"

section \<open>can_discharge_obligation\<close>

definition restates_target :: "proof_obligation \<Rightarrow> claim \<Rightarrow> claim \<Rightarrow> bool" where
  "restates_target b supporting target \<longleftrightarrow>
     (case ob_normalized_statement b of
        None \<Rightarrow> False
      | Some s \<Rightarrow> s \<noteq> [] \<and> py_strip s = py_strip (cl_statement target)
          \<and> py_strip (cl_statement supporting) = py_strip (cl_statement target))"

definition applicability_refusal :: "source_applicability option \<Rightarrow> str option" where
  "applicability_refusal r =
     (case r of
        None \<Rightarrow> Some ''applicability_record_missing''
      | Some a \<Rightarrow>
          if sa_status a \<noteq> ApplicabilityChecked then Some ''applicability_not_checked''
          else if sa_hypothesis_compatibility a \<noteq> Compatible then Some ''source_hypotheses_incompatible''
          else if \<not> sa_implication_verified a then Some ''source_implication_unverified''
          else None)"

definition can_discharge_obligation ::
    "hexdigest \<Rightarrow> research_dossier \<Rightarrow> opaque_id \<Rightarrow> opaque_id \<Rightarrow> (bool \<times> str) res" where
  "can_discharge_obligation H d i supporting_id =
     bindE (lookup_or_raise (obligation_of d) i) (\<lambda>b.
     bindE (lookup_or_raise (claim_of d) supporting_id) (\<lambda>supporting.
     bindE (lookup_or_raise (claim_of d) (ob_claim_id b)) (\<lambda>target.
     if restates_target b supporting target then Inr (False, ''helper_restates_target'')
     else case (if ob_category b = ''literature_applicability''
                then applicability_refusal (applicability_of d i) else None) of
       Some reason \<Rightarrow> Inr (False, reason)
     | None \<Rightarrow>
         bindE (project_claim H d supporting_id) (\<lambda>p.
         if tp_logical_status p \<notin> {''proved'', ''disproved''}
         then Inr (False, ''supporting_claim_not_resolved'')
         else Inr (True, ''policy_allows_discharge'')))))"

end
