(* ===== verification/Trust_Store.thy ===== *)
theory Trust_Store
  imports Trust_Entities
begin

text \<open>
  \<open>domain/repositories.py\<close>: append-only repositories, the event store, the trust store, and the
  contract they share: whatever was found once is found unchanged after every append.
\<close>

section \<open>Repositories\<close>

record 'a repository =
  ao_items :: "opaque_id \<rightharpoonup> 'a"
  ao_order :: "opaque_id list"

definition empty_repository :: "'a repository" where
  "empty_repository = \<lparr>ao_items = Map.empty, ao_order = []\<rparr>"

definition repo_append :: "('a \<Rightarrow> opaque_id) \<Rightarrow> 'a \<Rightarrow> 'a repository \<Rightarrow> 'a res \<times> 'a repository" where
  "repo_append key e r =
     (case ao_items r (key e) of
        Some existing \<Rightarrow> (if existing = e then Inr existing else Inl value_error, r)
      | None \<Rightarrow> (Inr e, r\<lparr>ao_items := (ao_items r)(key e \<mapsto> e), ao_order := ao_order r @ [key e]\<rparr>))"

definition repo_get :: "'a repository \<Rightarrow> opaque_id \<Rightarrow> 'a res" where
  "repo_get r i = (case ao_items r i of None \<Rightarrow> Inl key_error | Some x \<Rightarrow> Inr x)"

definition repo_all :: "'a repository \<Rightarrow> 'a list" where
  "repo_all r = map (\<lambda>i. the (ao_items r i)) (ao_order r)"

text \<open>\<open>append_all\<close>: entities before the first conflict stay appended.\<close>

fun append_all :: "('a \<Rightarrow> opaque_id) \<Rightarrow> 'a list \<Rightarrow> 'a repository \<Rightarrow> 'a list res \<times> 'a repository" where
  "append_all key [] r = (Inr [], r)"
| "append_all key (e # es) r =
     (case repo_append key e r of
        (Inl err, r') \<Rightarrow> (Inl err, r')
      | (Inr x, r') \<Rightarrow>
          (case append_all key es r' of (result, r'') \<Rightarrow> (map_sum id (\<lambda>xs. x # xs) result, r'')))"

section \<open>The event store\<close>

record event_store =
  es_events :: "audit_event repository"
  es_by_key :: "str \<rightharpoonup> opaque_id"

definition same_event :: "audit_event \<Rightarrow> audit_event \<Rightarrow> bool" where
  "same_event a b \<longleftrightarrow>
     ae_aggregate_id a = ae_aggregate_id b \<and> ae_event_type a = ae_event_type b
     \<and> ae_payload a = ae_payload b"

definition append_once :: "audit_event \<Rightarrow> event_store \<Rightarrow> audit_event res \<times> event_store" where
  "append_once e s =
     (case es_by_key s (ae_idempotency_key e) of
        Some i \<Rightarrow>
          (bindE (repo_get (es_events s) i) (\<lambda>existing.
             if same_event existing e then Inr existing else Inl value_error), s)
      | None \<Rightarrow>
          (case repo_append en_id e (es_events s) of
             (Inl err, r) \<Rightarrow> (Inl err, s\<lparr>es_events := r\<rparr>)
           | (Inr _, r) \<Rightarrow>
               (Inr e, s\<lparr>es_events := r, es_by_key := (es_by_key s)(ae_idempotency_key e \<mapsto> en_id e)\<rparr>)))"

definition events_for_aggregate :: "opaque_id \<Rightarrow> event_store \<Rightarrow> audit_event list" where
  "events_for_aggregate i s = filter (\<lambda>e. ae_aggregate_id e = i) (repo_all (es_events s))"

fun append_events :: "audit_event list \<Rightarrow> event_store \<Rightarrow> unit res \<times> event_store" where
  "append_events [] s = (Inr (), s)"
| "append_events (e # es) s =
     (case append_once e s of
        (Inl err, s') \<Rightarrow> (Inl err, s')
      | (Inr _, s') \<Rightarrow> append_events es s')"

section \<open>The trust store\<close>

text \<open>The entities of the heterogeneous repository, by class.\<close>

datatype any_entity =
    ProblemEntity research_problem
  | FormalizationEntity formalization
  | AlignmentEntity semantic_alignment
  | ClaimEntity claim
  | WarrantEntity warrant
  | EvidenceEntity evidence
  | ApplicabilityEntity source_applicability
  | ObligationEntity proof_obligation
  | MapEntity representation_map
  | VerificationEntity verification_record
  | ProtocolEntity evaluation_protocol

fun any_id :: "any_entity \<Rightarrow> opaque_id" where
  "any_id (ProblemEntity e) = en_id e"
| "any_id (FormalizationEntity e) = en_id e"
| "any_id (AlignmentEntity e) = en_id e"
| "any_id (ClaimEntity e) = en_id e"
| "any_id (WarrantEntity e) = en_id e"
| "any_id (EvidenceEntity e) = en_id e"
| "any_id (ApplicabilityEntity e) = en_id e"
| "any_id (ObligationEntity e) = en_id e"
| "any_id (MapEntity e) = en_id e"
| "any_id (VerificationEntity e) = en_id e"
| "any_id (ProtocolEntity e) = en_id e"

definition nested_entities :: "research_dossier \<Rightarrow> any_entity list" where
  "nested_entities d =
     [ProblemEntity (do_problem d), FormalizationEntity (do_formalization d),
      AlignmentEntity (do_alignment d)]
     @ map ClaimEntity (do_claims d) @ map WarrantEntity (do_warrants d)
     @ map EvidenceEntity (do_evidence d) @ map ApplicabilityEntity (do_source_applicability d)
     @ map ObligationEntity (do_obligations d) @ map MapEntity (do_representation_maps d)
     @ map VerificationEntity (do_verification_records d)
     @ [ProtocolEntity (do_evaluation_protocol d)]"

record trust_store =
  ts_entities :: "any_entity repository"
  ts_dossiers :: "research_dossier repository"
  ts_events :: event_store

definition empty_store :: trust_store where
  "empty_store =
     \<lparr>ts_entities = empty_repository, ts_dossiers = empty_repository,
      ts_events = \<lparr>es_events = empty_repository, es_by_key = Map.empty\<rparr>\<rparr>"

definition append_dossier :: "research_dossier \<Rightarrow> trust_store \<Rightarrow> research_dossier res \<times> trust_store" where
  "append_dossier d s =
     (case append_all any_id (nested_entities d) (ts_entities s) of
        (Inl err, r) \<Rightarrow> (Inl err, s\<lparr>ts_entities := r\<rparr>)
      | (Inr _, r) \<Rightarrow>
          (case append_events (do_audit_events d) (ts_events s) of
             (Inl err, es) \<Rightarrow> (Inl err, s\<lparr>ts_entities := r, ts_events := es\<rparr>)
           | (Inr _, es) \<Rightarrow>
               (case repo_append en_id d (ts_dossiers s) of
                  (result, ds) \<Rightarrow> (result, s\<lparr>ts_entities := r, ts_events := es, ts_dossiers := ds\<rparr>))))"

definition append_dossiers :: "research_dossier list \<Rightarrow> trust_store \<Rightarrow> trust_store" where
  "append_dossiers ds s = foldl (\<lambda>s d. snd (append_dossier d s)) s ds"

section \<open>The contract\<close>

text \<open>A lookup in a list that grew at its end.\<close>

lemma find_append: "find P (xs @ ys) = (case find P xs of None \<Rightarrow> find P ys | Some x \<Rightarrow> Some x)"
  by (induction xs) simp_all

text \<open>An operation that appends, and the lookups it may not disturb.\<close>

locale append_only =
  fixes append :: "'e \<Rightarrow> 's \<Rightarrow> 'r \<times> 's"
    and finds :: "'s \<Rightarrow> 'k \<Rightarrow> 'v option"
  assumes keeps: "append e s = (r, s') \<Longrightarrow> finds s k = Some v \<Longrightarrow> finds s' k = Some v"
begin

lemma many_keep:
  "finds s k = Some v \<Longrightarrow> finds (foldl (\<lambda>s e. snd (append e s)) s es) k = Some v"
proof (induction es arbitrary: s)
  case (Cons e es)
  then show ?case using keeps [of e s "fst (append e s)" "snd (append e s)"] by simp
qed simp

end

interpretation ids: append_only "repo_append key" ao_items for key
  by unfold_locales (auto simp: repo_append_def split: option.splits if_splits)

lemma append_all_keeps:
  "append_all key es r = (result, r') \<Longrightarrow> ao_items r i = Some x \<Longrightarrow> ao_items r' i = Some x"
proof (induction es arbitrary: r result r')
  case (Cons e es)
  obtain res r1 where one: "repo_append key e r = (res, r1)" by (cases "repo_append key e r")
  then have "ao_items r1 i = Some x" using Cons.prems(2) by (rule ids.keeps)
  with Cons one show ?case by (cases res) (auto split: prod.splits)
qed simp

interpretation events: append_only append_once "\<lambda>s. ao_items (es_events s)"
proof
  fix e s r s' k v
  assume "append_once e s = (r, s')" and found: "ao_items (es_events s) k = Some v"
  then show "ao_items (es_events s') k = Some v"
    using ids.keeps [of en_id e "es_events s"]
    by (auto simp: append_once_def split: option.splits prod.splits sum.splits)
qed

lemma append_events_keeps:
  "append_events es s = (r, s') \<Longrightarrow> ao_items (es_events s) i = Some x \<Longrightarrow> ao_items (es_events s') i = Some x"
proof (induction es arbitrary: s)
  case (Cons e es)
  obtain res s1 where one: "append_once e s = (res, s1)" by (cases "append_once e s")
  then have "ao_items (es_events s1) i = Some x" using Cons.prems(2) by (rule events.keeps)
  with Cons one show ?case by (cases res) auto
qed simp

interpretation stored_entities: append_only append_dossier "\<lambda>s. ao_items (ts_entities s)"
  by unfold_locales
    (auto simp: append_dossier_def dest: append_all_keeps split: sum.splits prod.splits)

interpretation stored_events: append_only append_dossier "\<lambda>s. ao_items (es_events (ts_events s))"
  by unfold_locales
    (auto simp: append_dossier_def dest: append_events_keeps split: sum.splits prod.splits)

interpretation stored_dossiers: append_only append_dossier "\<lambda>s. ao_items (ts_dossiers s)"
  by unfold_locales
    (auto simp: append_dossier_def dest: ids.keeps split: sum.splits prod.splits)

end
