(* ===== verification/Trust_Interchange.thy ===== *)
theory Trust_Interchange
  imports Trust_Store
begin

text \<open>
  \<open>interchange.py\<close>: the checks \<open>validate_dossier_payload\<close> makes on a decoded dossier (unique
  identifiers, references that resolve, evidence that hashes to its content).  The checks before
  them, on the document, and the decoder itself are not modelled.
\<close>

record validation_issue =
  vi_path :: str
  vi_code :: str
  vi_message :: str

definition issue :: "bool \<Rightarrow> str \<Rightarrow> str \<Rightarrow> str \<Rightarrow> validation_issue list" where
  "issue found path code message =
     (if found then [\<lparr>vi_path = path, vi_code = code, vi_message = message\<rparr>] else [])"

definition all_entity_ids :: "research_dossier \<Rightarrow> opaque_id list" where
  "all_entity_ids d = map any_id (nested_entities d) @ map en_id (do_audit_events d)"

abbreviation ids_of :: "('a) entity_scheme list \<Rightarrow> opaque_id set" where
  "ids_of xs \<equiv> set (map en_id xs)"

definition header_issues :: "research_dossier \<Rightarrow> validation_issue list" where
  "header_issues d =
     issue (\<not> distinct (all_entity_ids d)) ''$'' ''unique_ids''
       ''entity IDs must be unique within a dossier''
     @ issue (fz_problem_id (do_formalization d) \<noteq> en_id (do_problem d))
       ''$.formalization.problem_id'' ''reference'' ''formalization must reference dossier problem''
     @ issue (fz_target_claim_id (do_formalization d) \<notin> ids_of (do_claims d))
       ''$.formalization.target_claim_id'' ''reference'' ''target claim does not resolve''
     @ issue (al_formalization_id (do_alignment d) \<noteq> en_id (do_formalization d))
       ''$.semantic_alignment.formalization_id'' ''reference'' ''alignment formalization does not resolve''"

definition claim_issues :: "research_dossier \<Rightarrow> claim \<Rightarrow> validation_issue list" where
  "claim_issues d c =
     issue (\<not> set (cl_assumption_claim_ids c) \<subseteq> ids_of (do_claims d))
       (''$.claims['' @ en_id c @ ''].assumption_claim_ids'') ''reference'' ''assumption claim does not resolve''
     @ issue (\<not> set (cl_representation_map_ids c) \<subseteq> ids_of (do_representation_maps d))
       (''$.claims['' @ en_id c @ ''].representation_map_ids'') ''reference''
       ''representation map does not resolve''"

definition warrant_issues :: "research_dossier \<Rightarrow> warrant \<Rightarrow> validation_issue list" where
  "warrant_issues d w =
     issue (wr_claim_id w \<notin> ids_of (do_claims d)
         \<or> \<not> set (wr_evidence_ids w) \<subseteq> ids_of (do_evidence d)
         \<or> \<not> set (wr_verification_record_ids w) \<subseteq> ids_of (do_verification_records d))
       (''$.warrants['' @ en_id w @ '']'') ''reference'' ''warrant reference does not resolve''"

text \<open>\<open>content_hash\<close> of the content raises for a lone surrogate.\<close>

definition evidence_issues :: "hexdigest \<Rightarrow> research_dossier \<Rightarrow> evidence \<Rightarrow> validation_issue list res" where
  "evidence_issues H d e =
     (if \<not> utf8_valid (ev_content e) then Inl UnicodeEncodeErr
      else Inr
        (issue (ev_claim_id e \<notin> ids_of (do_claims d))
           (''$.evidence['' @ en_id e @ ''].claim_id'') ''reference'' ''evidence claim does not resolve''
         @ issue (ev_artifact_hash e \<noteq> canonical_hash H (JStr (ev_content e)))
           (''$.evidence['' @ en_id e @ ''].artifact_hash'') ''hash_mismatch''
           ''evidence content hash does not match''))"

definition applicability_issues :: "research_dossier \<Rightarrow> source_applicability \<Rightarrow> validation_issue list" where
  "applicability_issues d a =
     issue (sa_evidence_id a \<notin> ids_of (do_evidence d)
         \<or> sa_implication_obligation_id a \<notin> ids_of (do_obligations d))
       (''$.source_applicability['' @ en_id a @ '']'') ''reference''
       ''applicability reference does not resolve''"

definition obligation_issues :: "research_dossier \<Rightarrow> proof_obligation \<Rightarrow> validation_issue list" where
  "obligation_issues d b =
     issue (ob_claim_id b \<notin> ids_of (do_claims d)
         \<or> (case ob_discharged_by_warrant_id b of None \<Rightarrow> False | Some w \<Rightarrow> w \<notin> ids_of (do_warrants d)))
       (''$.obligations['' @ en_id b @ '']'') ''reference'' ''obligation reference does not resolve''"

definition dossier_issues :: "hexdigest \<Rightarrow> research_dossier \<Rightarrow> validation_issue list res" where
  "dossier_issues H d =
     bindE (mapE (evidence_issues H d) (do_evidence d)) (\<lambda>found.
       Inr (header_issues d
         @ concat (map (claim_issues d) (do_claims d))
         @ concat (map (warrant_issues d) (do_warrants d))
         @ concat found
         @ concat (map (applicability_issues d) (do_source_applicability d))
         @ concat (map (obligation_issues d) (do_obligations d))))"

section \<open>What a dossier without issues guarantees\<close>

lemma issue_Nil [simp]: "issue found path code message = [] \<longleftrightarrow> \<not> found"
  by (simp add: issue_def)

lemma mapE_concat_Nil:
  "mapE f xs = Inr yss \<Longrightarrow> concat yss = [] \<Longrightarrow> x \<in> set xs \<Longrightarrow> f x = Inr []"
  by (induction xs arbitrary: yss) (auto simp: bindE_eq_Inr)

lemma no_issues:
  assumes "dossier_issues H d = Inr []"
  shows "header_issues d = []"
    and "c \<in> set (do_claims d) \<Longrightarrow> claim_issues d c = []"
    and "w \<in> set (do_warrants d) \<Longrightarrow> warrant_issues d w = []"
    and "e \<in> set (do_evidence d) \<Longrightarrow> evidence_issues H d e = Inr []"
    and "a \<in> set (do_source_applicability d) \<Longrightarrow> applicability_issues d a = []"
    and "b \<in> set (do_obligations d) \<Longrightarrow> obligation_issues d b = []"
  using assms by (auto simp: dossier_issues_def bindE_eq_Inr intro: mapE_concat_Nil)

lemma no_issues_distinct:
  assumes "dossier_issues H d = Inr []"
  shows "distinct (map en_id (do_claims d))" and "distinct (map en_id (do_warrants d))"
    and "distinct (map en_id (do_evidence d))" and "distinct (map en_id (do_verification_records d))"
    and "distinct (map en_id (do_obligations d))" and "distinct (map en_id (do_representation_maps d))"
proof -
  have "distinct (all_entity_ids d)"
    using no_issues(1) [OF assms] by (simp add: header_issues_def)
  then show "distinct (map en_id (do_claims d))" "distinct (map en_id (do_warrants d))"
    "distinct (map en_id (do_evidence d))" "distinct (map en_id (do_verification_records d))"
    "distinct (map en_id (do_obligations d))" "distinct (map en_id (do_representation_maps d))"
    by (simp_all add: all_entity_ids_def nested_entities_def comp_def)
qed

end
