(* ===== verification/Manual_Slice.thy ===== *)
theory Manual_Slice
  imports Trust_Policy Trust_Interchange
begin

text \<open>
  \<open>application/manual_slice.py\<close>: the dossier of a theorem that is known to hold, as the source
  builds it.  It has no issues, its target is projected as proved, and a store accepts it.
\<close>

definition slice_stamp :: timestamp where
  "slice_stamp = Aware 1787097600000000"

definition slice_actor :: opaque_id where
  "slice_actor = ''actor.manual_researcher''"

text \<open>\<open>content_hash\<close> of a text, where it can be encoded.\<close>

definition hash_text :: "hexdigest \<Rightarrow> str \<Rightarrow> str" where
  "hash_text H s = canonical_hash H (JStr s)"

definition slice_definition :: claim where
  "slice_definition =
     \<lparr>en_id = ''claim.even_definition.v1'',
      en_created_at = slice_stamp,
      en_created_by = slice_actor,
      en_schema_version = entity_schema_version,
      cl_kind = ''definition'',
      cl_statement = ''An integer n is even iff there exists k in Z with n = 2k.'',
      cl_assumption_claim_ids = [],
      cl_origin = SourceOrigin,
      cl_scope = Definitional,
      cl_representation_map_ids = [],
      cl_novelty_assessment_id = None,
      cl_significance_assessment_id = None,
      cl_contribution_ids = []\<rparr>"

definition slice_target :: claim where
  "slice_target =
     \<lparr>en_id = ''claim.even_sum.v1'',
      en_created_at = slice_stamp,
      en_created_by = slice_actor,
      en_schema_version = entity_schema_version,
      cl_kind = ''theorem'',
      cl_statement = ''For all integers a and b, if a and b are even, then a + b is even.'',
      cl_assumption_claim_ids = [en_id slice_definition],
      cl_origin = UserOrigin,
      cl_scope = UnrestrictedUniversal,
      cl_representation_map_ids = [''representation.integer_algebra.v1''],
      cl_novelty_assessment_id = None,
      cl_significance_assessment_id = None,
      cl_contribution_ids = []\<rparr>"

definition slice_encoding :: claim where
  "slice_encoding =
     \<lparr>en_id = ''claim.integer_algebra_encoding.v1'',
      en_created_at = slice_stamp,
      en_created_by = slice_actor,
      en_schema_version = entity_schema_version,
      cl_kind = ''equivalence'',
      cl_statement = ''Integer algebra preserves addition and the existential definition of even.'',
      cl_assumption_claim_ids = [en_id slice_definition],
      cl_origin = UserOrigin,
      cl_scope = UnrestrictedUniversal,
      cl_representation_map_ids = [],
      cl_novelty_assessment_id = None,
      cl_significance_assessment_id = None,
      cl_contribution_ids = []\<rparr>"

definition slice_proof_evidence :: "hexdigest \<Rightarrow> evidence" where
  "slice_proof_evidence H =
     \<lparr>en_id = ''evidence.even_sum_derivation.v1'',
      en_created_at = slice_stamp,
      en_created_by = slice_actor,
      en_schema_version = entity_schema_version,
      ev_claim_id = en_id slice_target,
      ev_kind = DerivationEvidence,
      ev_content = ''Let a=2k and b=2l. Then a+b=2(k+l), with k+l an integer.'',
      ev_artifact_hash = hash_text H ''Let a=2k and b=2l. Then a+b=2(k+l), with k+l an integer.'',
      ev_source_ref = None,
      ev_disposition = Accepted\<rparr>"

definition slice_source_evidence :: "hexdigest \<Rightarrow> evidence" where
  "slice_source_evidence H =
     \<lparr>en_id = ''evidence.even_definition_source.v1'',
      en_created_at = slice_stamp,
      en_created_by = slice_actor,
      en_schema_version = entity_schema_version,
      ev_claim_id = en_id slice_definition,
      ev_kind = SourceSpan,
      ev_content = ''Definition: n is even exactly when n=2k for an integer k.'',
      ev_artifact_hash = hash_text H ''Definition: n is even exactly when n=2k for an integer k.'',
      ev_source_ref = Some ''local:manual-source#line-1'',
      ev_disposition = Accepted\<rparr>"

definition slice_bridge_evidence :: "hexdigest \<Rightarrow> evidence" where
  "slice_bridge_evidence H =
     \<lparr>en_id = ''evidence.integer_algebra_bridge.v1'',
      en_created_at = slice_stamp,
      en_created_by = slice_actor,
      en_schema_version = entity_schema_version,
      ev_claim_id = en_id slice_encoding,
      ev_kind = DerivationEvidence,
      ev_content = ''The representation uses the same integer carrier, addition, multiplication by 2, and existential quantifier.'',
      ev_artifact_hash = hash_text H ''The representation uses the same integer carrier, addition, multiplication by 2, and existential quantifier.'',
      ev_source_ref = None,
      ev_disposition = Accepted\<rparr>"

definition slice_target_verification :: "hexdigest \<Rightarrow> verification_record" where
  "slice_target_verification H =
     \<lparr>en_id = ''verification.even_sum_manual.v1'',
      en_created_at = slice_stamp,
      en_created_by = slice_actor,
      en_schema_version = entity_schema_version,
      vr_claim_id = en_id slice_target,
      vr_verifier_kind = ''independent_manual_derivation_check'',
      vr_outcome = Passed,
      vr_evidence_ids = [(en_id (slice_proof_evidence H))],
      vr_target_statement_hash = hash_text H ((cl_statement slice_target)),
      vr_independent_from_proposer = True,
      vr_disposition = Accepted,
      vr_notes = []\<rparr>"

definition slice_source_verification :: "hexdigest \<Rightarrow> verification_record" where
  "slice_source_verification H =
     \<lparr>en_id = ''verification.even_definition_applicability.v1'',
      en_created_at = slice_stamp,
      en_created_by = slice_actor,
      en_schema_version = entity_schema_version,
      vr_claim_id = en_id slice_definition,
      vr_verifier_kind = ''manual_source_applicability_check'',
      vr_outcome = Passed,
      vr_evidence_ids = [(en_id (slice_source_evidence H))],
      vr_target_statement_hash = hash_text H ((cl_statement slice_definition)),
      vr_independent_from_proposer = True,
      vr_disposition = Accepted,
      vr_notes = []\<rparr>"

definition slice_bridge_verification :: "hexdigest \<Rightarrow> verification_record" where
  "slice_bridge_verification H =
     \<lparr>en_id = ''verification.integer_algebra_bridge.v1'',
      en_created_at = slice_stamp,
      en_created_by = slice_actor,
      en_schema_version = entity_schema_version,
      vr_claim_id = en_id slice_encoding,
      vr_verifier_kind = ''manual_representation_check'',
      vr_outcome = Passed,
      vr_evidence_ids = [(en_id (slice_bridge_evidence H))],
      vr_target_statement_hash = hash_text H ((cl_statement slice_encoding)),
      vr_independent_from_proposer = True,
      vr_disposition = Accepted,
      vr_notes = []\<rparr>"

definition slice_target_warrant :: "hexdigest \<Rightarrow> warrant" where
  "slice_target_warrant H =
     \<lparr>en_id = ''warrant.even_sum_derivation.v1'',
      en_created_at = slice_stamp,
      en_created_by = slice_actor,
      en_schema_version = entity_schema_version,
      wr_claim_id = en_id slice_target,
      wr_kind = RigorousDerivation,
      wr_scope = ''exact unrestricted target'',
      wr_evidence_ids = [(en_id (slice_proof_evidence H))],
      wr_verification_record_ids = [(en_id (slice_target_verification H))],
      wr_status = ActiveWarrant\<rparr>"

definition slice_source_warrant :: "hexdigest \<Rightarrow> warrant" where
  "slice_source_warrant H =
     \<lparr>en_id = ''warrant.even_definition_source.v1'',
      en_created_at = slice_stamp,
      en_created_by = slice_actor,
      en_schema_version = entity_schema_version,
      wr_claim_id = en_id slice_definition,
      wr_kind = SourceReport,
      wr_scope = ''integer definition only'',
      wr_evidence_ids = [(en_id (slice_source_evidence H))],
      wr_verification_record_ids = [(en_id (slice_source_verification H))],
      wr_status = ActiveWarrant\<rparr>"

definition slice_bridge_warrant :: "hexdigest \<Rightarrow> warrant" where
  "slice_bridge_warrant H =
     \<lparr>en_id = ''warrant.integer_algebra_bridge.v1'',
      en_created_at = slice_stamp,
      en_created_by = slice_actor,
      en_schema_version = entity_schema_version,
      wr_claim_id = en_id slice_encoding,
      wr_kind = RigorousDerivation,
      wr_scope = ''integer algebra representation bridge'',
      wr_evidence_ids = [(en_id (slice_bridge_evidence H))],
      wr_verification_record_ids = [(en_id (slice_bridge_verification H))],
      wr_status = ActiveWarrant\<rparr>"

definition slice_proof_obligation :: "hexdigest \<Rightarrow> proof_obligation" where
  "slice_proof_obligation H =
     \<lparr>en_id = ''obligation.even_sum_proof.v1'',
      en_created_at = slice_stamp,
      en_created_by = slice_actor,
      en_schema_version = entity_schema_version,
      ob_claim_id = en_id slice_target,
      ob_description = ''Provide a complete proof of the exact target.'',
      ob_category = ''logical_gap'',
      ob_status = Discharged,
      ob_normalized_statement = None,
      ob_discharged_by_warrant_id = Some (en_id (slice_target_warrant H)),
      ob_parent_obligation_id = None\<rparr>"

definition slice_source_obligation :: "hexdigest \<Rightarrow> proof_obligation" where
  "slice_source_obligation H =
     \<lparr>en_id = ''obligation.even_definition_applicability.v1'',
      en_created_at = slice_stamp,
      en_created_by = slice_actor,
      en_schema_version = entity_schema_version,
      ob_claim_id = en_id slice_definition,
      ob_description = ''Check domain, definition, and hypotheses of the cited definition.'',
      ob_category = ''literature_applicability'',
      ob_status = Discharged,
      ob_normalized_statement = None,
      ob_discharged_by_warrant_id = Some (en_id (slice_source_warrant H)),
      ob_parent_obligation_id = None\<rparr>"

definition slice_bridge_obligation :: "hexdigest \<Rightarrow> proof_obligation" where
  "slice_bridge_obligation H =
     \<lparr>en_id = ''obligation.integer_algebra_bridge.v1'',
      en_created_at = slice_stamp,
      en_created_by = slice_actor,
      en_schema_version = entity_schema_version,
      ob_claim_id = en_id slice_encoding,
      ob_description = ''Show that the representation preserves every operation used by the proof.'',
      ob_category = ''representation_bridge'',
      ob_status = Discharged,
      ob_normalized_statement = None,
      ob_discharged_by_warrant_id = Some (en_id (slice_bridge_warrant H)),
      ob_parent_obligation_id = None\<rparr>"

definition slice_problem :: research_problem where
  "slice_problem =
     \<lparr>en_id = ''problem.even_sum.v1'',
      en_created_at = slice_stamp,
      en_created_by = slice_actor,
      en_schema_version = entity_schema_version,
      pb_title = ''Sum of two even integers'',
      pb_informal_statement = cl_statement slice_target,
      pb_type = Prove,
      pb_tags = [''integer-arithmetic'', ''manual-slice''],
      pb_active_formalization_id = Some ''formalization.even_sum.v1''\<rparr>"

definition slice_formalization :: formalization where
  "slice_formalization =
     \<lparr>en_id = ''formalization.even_sum.v1'',
      en_created_at = slice_stamp,
      en_created_by = slice_actor,
      en_schema_version = entity_schema_version,
      fz_problem_id = en_id slice_problem,
      fz_version = 1,
      fz_statement = ''forall a b : Z, Even(a) and Even(b) implies Even(a+b)'',
      fz_formal_language = ''typed_informal_math'',
      fz_quantifiers = [''forall a in Z'', ''forall b in Z''],
      fz_assumption_claim_ids = [en_id slice_definition],
      fz_target_claim_id = en_id slice_target,
      fz_approval_status = ApprovalApproved\<rparr>"

definition slice_alignment :: semantic_alignment where
  "slice_alignment =
     \<lparr>en_id = ''alignment.even_sum.v1'',
      en_created_at = slice_stamp,
      en_created_by = slice_actor,
      en_schema_version = entity_schema_version,
      al_problem_id = en_id slice_problem,
      al_formalization_id = en_id slice_formalization,
      al_compared_claim_id = en_id slice_target,
      al_quantifier_mapping = [(''a'', ''integer a''), (''b'', ''integer b'')],
      al_definition_mapping = [(''Even(n)'', ''exists k in Z, n=2k'')],
      al_assumption_delta = [],
      al_edge_case_delta = [],
      al_strength_relation = Equivalent,
      al_status = ResearcherApproved,
      al_approved_by = Some slice_actor\<rparr>"

definition slice_source_applicability :: "hexdigest \<Rightarrow> source_applicability" where
  "slice_source_applicability H =
     \<lparr>en_id = ''applicability.even_definition.v1'',
      en_created_at = slice_stamp,
      en_created_by = slice_actor,
      en_schema_version = entity_schema_version,
      sa_local_claim_id = en_id slice_definition,
      sa_evidence_id = (en_id (slice_source_evidence H)),
      sa_imported_statement = ''n is even iff n=2k for some integer k'',
      sa_imported_hypotheses = [''n is an integer''],
      sa_definition_mapping = [(''even'', ''same integer definition'')],
      sa_scope_and_exceptions = [''integers only''],
      sa_implication_obligation_id = (en_id (slice_source_obligation H)),
      sa_bibliographic_status = ''confirmed'',
      sa_hypothesis_compatibility = Compatible,
      sa_implication_verified = True,
      sa_status = ApplicabilityChecked\<rparr>"

definition slice_representation :: "hexdigest \<Rightarrow> representation_map" where
  "slice_representation H =
     \<lparr>en_id = ''representation.integer_algebra.v1'',
      en_created_at = slice_stamp,
      en_created_by = slice_actor,
      en_schema_version = entity_schema_version,
      rm_source_representation = ''informal integer arithmetic'',
      rm_target_representation = ''typed integer algebra'',
      rm_encoding_claim_id = en_id slice_encoding,
      rm_preserved_property_claim_ids = [en_id slice_target],
      rm_exceptional_case_claim_ids = [],
      rm_bridge_obligation_ids = [(en_id (slice_bridge_obligation H))],
      rm_status = RepresentationVerified\<rparr>"

definition slice_protocol :: evaluation_protocol where
  "slice_protocol =
     \<lparr>en_id = ''protocol.manual_slice.v1'',
      en_created_at = slice_stamp,
      en_created_by = slice_actor,
      en_schema_version = entity_schema_version,
      ep_version = 1,
      ep_phase = Confirmatory,
      ep_metrics = [''target_fidelity'', ''trace_completeness''],
      ep_success_criteria = [''exact target is policy-projected as proved'', ''all report claims cite entity IDs''],
      ep_stopping_rules = [''one deterministic construction and replay''],
      ep_frozen_at = Some slice_stamp,
      ep_frozen_by = Some slice_actor\<rparr>"

definition slice_event :: audit_event where
  "slice_event =
     \<lparr>en_id = ''event.manual_dossier_created.v1'',
      en_created_at = slice_stamp,
      en_created_by = slice_actor,
      en_schema_version = entity_schema_version,
      ae_aggregate_id = en_id slice_problem,
      ae_event_type = ''manual_dossier_created'',
      ae_payload = [(''target_claim_id'', (en_id slice_target)), (''formalization_id'', (en_id slice_formalization))],
      ae_idempotency_key = ''manual-dossier-created-v1''\<rparr>"

definition known_valid_dossier :: "hexdigest \<Rightarrow> research_dossier" where
  "known_valid_dossier H =
     \<lparr>en_id = ''dossier.even_sum.phase1.v1'',
      en_created_at = slice_stamp,
      en_created_by = slice_actor,
      en_schema_version = entity_schema_version,
      do_problem = slice_problem,
      do_formalization = slice_formalization,
      do_alignment = slice_alignment,
      do_claims = [slice_definition, slice_target, slice_encoding],
      do_warrants = [slice_target_warrant H, slice_source_warrant H, slice_bridge_warrant H],
      do_evidence = [slice_proof_evidence H,
        slice_source_evidence H,
        slice_bridge_evidence H],
      do_source_applicability = [slice_source_applicability H],
      do_obligations = [slice_proof_obligation H,
        slice_source_obligation H,
        slice_bridge_obligation H],
      do_representation_maps = [slice_representation H],
      do_verification_records = [slice_target_verification H,
        slice_source_verification H,
        slice_bridge_verification H],
      do_evaluation_protocol = slice_protocol,
      do_audit_events = [slice_event],
      do_capabilities = [''canonical_json'', ''policy_projection'', ''append_only_events'', ''traceable_report'']\<rparr>"

lemmas slice_defs =
  slice_definition_def slice_target_def slice_encoding_def slice_proof_evidence_def
  slice_source_evidence_def slice_bridge_evidence_def slice_target_verification_def
  slice_source_verification_def slice_bridge_verification_def slice_target_warrant_def
  slice_source_warrant_def slice_bridge_warrant_def slice_proof_obligation_def
  slice_source_obligation_def slice_bridge_obligation_def slice_problem_def slice_formalization_def
  slice_alignment_def slice_source_applicability_def slice_representation_def slice_protocol_def
  slice_event_def known_valid_dossier_def slice_stamp_def slice_actor_def hash_text_def
  entity_schema_version_def

section \<open>The dossier is valid\<close>

lemma slice_encodable:
  "utf8_valid (cl_statement slice_definition)" "utf8_valid (cl_statement slice_target)"
  "utf8_valid (cl_statement slice_encoding)" "utf8_valid (ev_content (slice_proof_evidence H))"
  "utf8_valid (ev_content (slice_source_evidence H))" "utf8_valid (ev_content (slice_bridge_evidence H))"
  by code_simp+

lemma slice_hashes:
  "ev_artifact_hash (slice_proof_evidence H) = canonical_hash H (JStr (ev_content (slice_proof_evidence H)))"
  "ev_artifact_hash (slice_source_evidence H) = canonical_hash H (JStr (ev_content (slice_source_evidence H)))"
  "ev_artifact_hash (slice_bridge_evidence H) = canonical_hash H (JStr (ev_content (slice_bridge_evidence H)))"
  by (simp_all add: hash_text_def slice_proof_evidence_def slice_source_evidence_def slice_bridge_evidence_def)

lemma slice_header: "header_issues (known_valid_dossier H) = []"
  by code_simp

lemma slice_references:
  "concat (map (claim_issues (known_valid_dossier H)) (do_claims (known_valid_dossier H))) = []"
  "concat (map (warrant_issues (known_valid_dossier H)) (do_warrants (known_valid_dossier H))) = []"
  "concat (map (applicability_issues (known_valid_dossier H))
     (do_source_applicability (known_valid_dossier H))) = []"
  "concat (map (obligation_issues (known_valid_dossier H)) (do_obligations (known_valid_dossier H))) = []"
  by code_simp+

lemma slice_evidence_claims:
  "en_id slice_target \<in> ids_of (do_claims (known_valid_dossier H))"
  "en_id slice_definition \<in> ids_of (do_claims (known_valid_dossier H))"
  "en_id slice_encoding \<in> ids_of (do_claims (known_valid_dossier H))"
  by (simp_all add: known_valid_dossier_def)

lemma slice_evidence_issues:
  "mapE (evidence_issues H (known_valid_dossier H)) (do_evidence (known_valid_dossier H)) = Inr [[], [], []]"
proof -
  have "do_evidence (known_valid_dossier H)
      = [slice_proof_evidence H, slice_source_evidence H, slice_bridge_evidence H]"
    by (simp add: known_valid_dossier_def)
  moreover have "ev_claim_id (slice_proof_evidence H) = en_id slice_target"
      "ev_claim_id (slice_source_evidence H) = en_id slice_definition"
      "ev_claim_id (slice_bridge_evidence H) = en_id slice_encoding"
    by (simp_all add: slice_proof_evidence_def slice_source_evidence_def slice_bridge_evidence_def)
  ultimately show ?thesis
    using slice_evidence_claims
    by (simp add: evidence_issues_def issue_def slice_hashes slice_encodable del: set_map)
qed

lemma known_valid_no_issues: "dossier_issues H (known_valid_dossier H) = Inr []"
  by (simp only: dossier_issues_def slice_evidence_issues bindE_Inr slice_header slice_references
      append_Nil concat.simps)

text \<open>A digest to evaluate the dossier with.\<close>

definition slice_digest :: hexdigest where
  "slice_digest content = ''00''"

end
