(* ===== verification/Trust_Props.thy ===== *)
theory Trust_Props
  imports Manual_Slice
begin

text \<open>
  What the trust policy promises on dossiers without issues, and what the trust store keeps.
\<close>

section \<open>Specification\<close>

text \<open>
  A warrant counts when it is active, rests on accepted evidence about its claim, and was verified:
  every check passed, was accepted, was independent of the proposer and was made on the statement
  of the claim as it stands.
\<close>

definition checked_warrant :: "hexdigest \<Rightarrow> research_dossier \<Rightarrow> claim \<Rightarrow> warrant \<Rightarrow> bool" where
  "checked_warrant H d c w \<longleftrightarrow>
     w \<in> set (do_warrants d) \<and> wr_claim_id w = en_id c \<and> wr_status w = ActiveWarrant
     \<and> wr_evidence_ids w \<noteq> [] \<and> wr_verification_record_ids w \<noteq> []
     \<and> (\<forall>i \<in> set (wr_evidence_ids w). \<exists>e \<in> set (do_evidence d).
          en_id e = i \<and> ev_claim_id e = en_id c \<and> ev_disposition e = Accepted)
     \<and> (\<forall>i \<in> set (wr_verification_record_ids w). \<exists>v \<in> set (do_verification_records d).
          en_id v = i \<and> vr_claim_id v = en_id c \<and> vr_outcome v = Passed \<and> vr_disposition v = Accepted
          \<and> vr_independent_from_proposer v
          \<and> vr_target_statement_hash v = canonical_hash H (JStr (cl_statement c)))"

text \<open>A claim is settled when nothing of it is left open.\<close>

definition settled_claim :: "research_dossier \<Rightarrow> claim \<Rightarrow> bool" where
  "settled_claim d c \<longleftrightarrow>
     (\<forall>i \<in> set (cl_representation_map_ids c). \<exists>m \<in> set (do_representation_maps d).
        en_id m = i \<and> rm_status m = RepresentationVerified
        \<and> (\<forall>j \<in> set (rm_bridge_obligation_ids m).
             \<exists>b \<in> set (do_obligations d). en_id b = j \<and> ob_status b = Discharged))
     \<and> (\<forall>b \<in> set (do_obligations d). ob_claim_id b = en_id c \<longrightarrow>
          ob_status b = Discharged \<or> ob_status b = Waived)"

definition statements_encodable :: "research_dossier \<Rightarrow> bool" where
  "statements_encodable d \<longleftrightarrow> (\<forall>c \<in> set (do_claims d). utf8_valid (cl_statement c))"

section \<open>The policy meets it\<close>

lemma warrant_is_accepted_checked:
  assumes "dossier_issues H d = Inr []" and "statements_encodable d"
    and "c \<in> set (do_claims d)" and "w \<in> set (do_warrants d)" and "wr_claim_id w = en_id c"
  shows "warrant_is_accepted H d (en_id w) = Inr (checked_warrant H d c w)"
proof -
  note distinct = no_issues_distinct [OF assms(1)]
  have w: "warrant_of d (en_id w) = Some w" and c: "claim_of d (en_id c) = Some c"
    using assms(3-5) by (simp_all add: warrant_of_def claim_of_def by_key_unique distinct)
  have hash: "statement_hash H (cl_statement c) = Inr (canonical_hash H (JStr (cl_statement c)))"
    using assms(2,3) by (simp add: statement_hash_def statements_encodable_def)
  have e: "evidence_accepted w (evidence_of d i) \<longleftrightarrow>
      (\<exists>e \<in> set (do_evidence d). en_id e = i \<and> ev_claim_id e = en_id c \<and> ev_disposition e = Accepted)" for i
    unfolding evidence_accepted_def evidence_of_def by_key_case [OF distinct(3)] assms(5) by simp
  have v: "verification_accepted w h (verification_of d i) \<longleftrightarrow>
      (\<exists>v \<in> set (do_verification_records d). en_id v = i \<and> vr_claim_id v = en_id c \<and> vr_outcome v = Passed
        \<and> vr_disposition v = Accepted \<and> vr_independent_from_proposer v \<and> vr_target_statement_hash v = h)"
    for i h
    unfolding verification_accepted_def verification_of_def by_key_case [OF distinct(4)] assms(5)
    by (simp add: conj_ac)
  show ?thesis
    using assms(4,5)
    by (auto simp: warrant_is_accepted_def w c hash checked_warrant_def list_all_iff e v)
qed

lemma no_blockers_settled:
  assumes "dossier_issues H d = Inr []" and "c \<in> set (do_claims d)"
  shows "representation_blockers d c @ open_obligation_blockers d (en_id c) = [] \<longleftrightarrow> settled_claim d c"
proof -
  note distinct = no_issues_distinct [OF assms(1)]
  have bridge: "(case obligation_of d j of None \<Rightarrow> True | Some b \<Rightarrow> ob_status b \<noteq> Discharged)
      \<longleftrightarrow> \<not> (\<exists>b \<in> set (do_obligations d). en_id b = j \<and> ob_status b = Discharged)" for j
    unfolding obligation_of_def by (rule by_key_case_not [OF distinct(5)])
  have "(case map_of_id d i of None \<Rightarrow> False | Some m \<Rightarrow> P m)
      \<longleftrightarrow> (\<exists>m \<in> set (do_representation_maps d). en_id m = i \<and> P m)" for i P
    unfolding map_of_id_def by (rule by_key_case [OF distinct(6)])
  moreover have "representation_blockers d c = [] \<longleftrightarrow> (\<forall>i \<in> set (cl_representation_map_ids c).
      case map_of_id d i of None \<Rightarrow> False
      | Some m \<Rightarrow> rm_status m = RepresentationVerified \<and> (\<forall>j \<in> set (rm_bridge_obligation_ids m).
          \<exists>b \<in> set (do_obligations d). en_id b = j \<and> ob_status b = Discharged))"
    unfolding representation_blockers_def bridge
    by (fastforce simp: filter_empty_conv split: option.splits if_splits)
  moreover have "open_obligation_blockers d (en_id c) = [] \<longleftrightarrow>
      (\<forall>b \<in> set (do_obligations d). ob_claim_id b = en_id c \<longrightarrow> ob_status b = Discharged \<or> ob_status b = Waived)"
    by (auto simp: open_obligation_blockers_def filter_empty_conv) (metis obligation_status.exhaust)+
  ultimately show ?thesis by (simp add: settled_claim_def)
qed

lemma logical_status_cases:
  "logical_status c kinds blockers =
    (if ExactCounterexample \<in> set kinds then ''disproved''
     else if blockers = [] \<and> (FormalProof \<in> set kinds \<or> RigorousDerivation \<in> set kinds) then ''proved''
     else if ExperimentalObservation \<in> set kinds \<or> SourceReport \<in> set kinds \<or> ModelAgreement \<in> set kinds
       then ''supported''
     else ''unknown'')"
  by (auto simp: logical_status_def Let_def proof_kinds_def weak_kinds_def)

text \<open>The projection, with the kinds of the checked warrants and the blockers of the claim.\<close>

lemma project_claim_checked:
  assumes "dossier_issues H d = Inr []" and "statements_encodable d" and "c \<in> set (do_claims d)"
  shows "\<exists>p kinds. project_claim H d (en_id c) = Inr p
    \<and> set kinds = {wr_kind w | w. checked_warrant H d c w}
    \<and> (tp_blockers p = [] \<longleftrightarrow> settled_claim d c)
    \<and> tp_logical_status p = logical_status c kinds (tp_blockers p)
    \<and> set (tp_warrant_kinds p) = warrant_kind_value ` set kinds
    \<and> tp_semantic_alignment_status p =
        (if approved_equivalent (do_alignment d) (en_id c) then ''approved_equivalent''
         else ''not_approved_equivalent'')"
proof -
  define ws where "ws = filter (\<lambda>w. wr_claim_id w = en_id c) (do_warrants d)"
  define kinds where "kinds = map wr_kind (filter (checked_warrant H d c) ws)"
  define blockers where "blockers = representation_blockers d c @ open_obligation_blockers d (en_id c)"
  have claim: "lookup_or_raise (claim_of d) (en_id c) = Inr c"
    using assms(3) by (simp add: lookup_or_raise_Inr claim_of_def by_key_unique no_issues_distinct [OF assms(1)])
  have active: "filterE (\<lambda>w. warrant_is_accepted H d (en_id w)) ws = Inr (filter (checked_warrant H d c) ws)"
    using warrant_is_accepted_checked [OF assms] by (intro filterE_filter) (simp add: ws_def)
  have kinds: "set kinds = {wr_kind w | w. checked_warrant H d c w}"
    by (auto simp: kinds_def ws_def checked_warrant_def)
  have sorted: "sort blockers = [] \<longleftrightarrow> blockers = []"
    by (metis length_0_conv length_sort)
  have settled: "blockers = [] \<longleftrightarrow> settled_claim d c"
    using no_blockers_settled [OF assms(1,3)] by (simp add: blockers_def)
  have "\<exists>p. project_claim H d (en_id c) = Inr p
    \<and> (tp_blockers p = [] \<longleftrightarrow> settled_claim d c)
    \<and> tp_logical_status p = logical_status c kinds (tp_blockers p)
    \<and> set (tp_warrant_kinds p) = warrant_kind_value ` set kinds
    \<and> tp_semantic_alignment_status p =
        (if approved_equivalent (do_alignment d) (en_id c) then ''approved_equivalent''
         else ''not_approved_equivalent'')"
    unfolding project_claim_def ws_def [symmetric] claim active bindE_Inr Let_def
      blockers_def [symmetric] kinds_def [symmetric]
    by (simp add: sorted settled logical_status_cases)
  with kinds show ?thesis by blast
qed

section \<open>Properties of the policy\<close>

text \<open>C2: On a dossier without issues the policy is total and says exactly what the checked warrants
  carry: a claim is disproved when one of them is an exact counterexample, else proved when one of
  them is a proof and nothing of the claim is left open, else supported when one of them is an
  observation, a source or the agreement of models, else unknown.\<close>

theorem trust_projection_correct:
  assumes "dossier_issues H d = Inr []" and "statements_encodable d" and "c \<in> set (do_claims d)"
  shows "\<exists>p. project_claim H d (en_id c) = Inr p
    \<and> tp_logical_status p =
       (if \<exists>w. checked_warrant H d c w \<and> wr_kind w = ExactCounterexample then ''disproved''
        else if settled_claim d c
          \<and> (\<exists>w. checked_warrant H d c w \<and> wr_kind w \<in> {FormalProof, RigorousDerivation})
        then ''proved''
        else if \<exists>w. checked_warrant H d c w
          \<and> wr_kind w \<in> {ExperimentalObservation, SourceReport, ModelAgreement} then ''supported''
        else ''unknown'')"
proof -
  obtain p kinds where p: "project_claim H d (en_id c) = Inr p"
    and kinds: "set kinds = {wr_kind w | w. checked_warrant H d c w}"
    and blockers: "tp_blockers p = [] \<longleftrightarrow> settled_claim d c"
    and status: "tp_logical_status p = logical_status c kinds (tp_blockers p)"
    using project_claim_checked [OF assms] by blast
  have has: "k \<in> set kinds \<longleftrightarrow> (\<exists>w. checked_warrant H d c w \<and> wr_kind w = k)" for k
    using kinds by auto
  show ?thesis
  proof (intro exI conjI)
    show "project_claim H d (en_id c) = Inr p" by (rule p)
  qed (simp add: status logical_status_cases blockers has ex_disj_distrib conj_disj_distribL, blast)
qed

text \<open>C38: The target of a dossier without issues is resolved to anything but unknown only when a
  researcher approved the alignment of the active formalization with it as an equivalence, without
  a difference in assumptions or edge cases; then its status is that of the policy.\<close>

theorem target_resolved_only_if_aligned:
  assumes "dossier_issues H d = Inr []" and "statements_encodable d"
  shows "\<exists>p q. target_resolution H d = Inr p
    \<and> project_claim H d (fz_target_claim_id (do_formalization d)) = Inr q
    \<and> tp_logical_status p =
       (if pb_active_formalization_id (do_problem d) = Some (en_id (do_formalization d))
          \<and> al_compared_claim_id (do_alignment d) = fz_target_claim_id (do_formalization d)
          \<and> al_status (do_alignment d) = ResearcherApproved
          \<and> al_strength_relation (do_alignment d) = Equivalent
          \<and> al_assumption_delta (do_alignment d) = [] \<and> al_edge_case_delta (do_alignment d) = []
        then tp_logical_status q else ''unknown'')"
proof -
  have header: "header_issues d = []" by (rule no_issues(1) [OF assms(1)])
  then obtain c where c: "c \<in> set (do_claims d)" "en_id c = fz_target_claim_id (do_formalization d)"
    by (auto simp: header_issues_def)
  have formalized: "al_formalization_id (do_alignment d) = en_id (do_formalization d)"
    using header by (simp add: header_issues_def)
  obtain q where "project_claim H d (fz_target_claim_id (do_formalization d)) = Inr q"
    using project_claim_checked [OF assms c(1)] unfolding c(2) by blast
  then show ?thesis
    by (auto simp: target_resolution_def target_aligned_def approved_equivalent_def formalized Let_def)
qed

section \<open>Obligations\<close>

text \<open>Whether a claim may discharge an obligation is decided without an exception.\<close>

lemma discharge_decided:
  assumes "dossier_issues H d = Inr []" and "statements_encodable d"
    and "b \<in> set (do_obligations d)" and "supporting \<in> set (do_claims d)"
  shows "\<exists>ok reason p target. can_discharge_obligation H d (en_id b) (en_id supporting) = Inr (ok, reason)
    \<and> target \<in> set (do_claims d) \<and> en_id target = ob_claim_id b
    \<and> project_claim H d (en_id supporting) = Inr p
    \<and> (ok \<longleftrightarrow> \<not> restates_target b supporting target
        \<and> (ob_category b = ''literature_applicability''
            \<longrightarrow> applicability_refusal (applicability_of d (en_id b)) = None)
        \<and> tp_logical_status p \<in> {''proved'', ''disproved''})"
proof -
  note distinct = no_issues_distinct [OF assms(1)]
  obtain target where target: "target \<in> set (do_claims d)" "en_id target = ob_claim_id b"
    using no_issues(6) [OF assms(1,3)] by (auto simp: obligation_issues_def)
  have "lookup_or_raise (obligation_of d) (en_id b) = Inr b"
      "lookup_or_raise (claim_of d) (en_id supporting) = Inr supporting"
      "lookup_or_raise (claim_of d) (ob_claim_id b) = Inr target"
    using assms(3,4) target
    by (simp_all add: lookup_or_raise_Inr obligation_of_def claim_of_def by_key_unique distinct)
  moreover obtain p where "project_claim H d (en_id supporting) = Inr p"
    using project_claim_checked [OF assms(1,2,4)] by blast
  ultimately show ?thesis
    using target by (auto simp: can_discharge_obligation_def split: option.split)
qed

section \<open>The dossier of the manual slice\<close>

lemma slice_statements: "statements_encodable (known_valid_dossier H)"
  using slice_encodable(1-3) by (simp add: statements_encodable_def known_valid_dossier_def)

lemma slice_checked: "checked_warrant H (known_valid_dossier H) slice_target (slice_target_warrant H)"
proof -
  have "slice_target_warrant H \<in> set (do_warrants (known_valid_dossier H))"
      "slice_proof_evidence H \<in> set (do_evidence (known_valid_dossier H))"
      "slice_target_verification H \<in> set (do_verification_records (known_valid_dossier H))"
    by (simp_all add: known_valid_dossier_def)
  moreover have "wr_evidence_ids (slice_target_warrant H) = [en_id (slice_proof_evidence H)]"
      "wr_verification_record_ids (slice_target_warrant H) = [en_id (slice_target_verification H)]"
      "wr_claim_id (slice_target_warrant H) = en_id slice_target"
      "wr_status (slice_target_warrant H) = ActiveWarrant"
    by (simp_all add: slice_target_warrant_def)
  moreover have "ev_claim_id (slice_proof_evidence H) = en_id slice_target"
      "ev_disposition (slice_proof_evidence H) = Accepted"
    by (simp_all add: slice_proof_evidence_def)
  moreover have "vr_claim_id (slice_target_verification H) = en_id slice_target"
      "vr_outcome (slice_target_verification H) = Passed"
      "vr_disposition (slice_target_verification H) = Accepted"
      "vr_independent_from_proposer (slice_target_verification H)"
      "vr_target_statement_hash (slice_target_verification H)
         = canonical_hash H (JStr (cl_statement slice_target))"
    by (simp_all add: slice_target_verification_def hash_text_def)
  ultimately show ?thesis unfolding checked_warrant_def by (metis (no_types) empty_iff insert_iff list.distinct(1) list.set)
qed

lemma slice_settled: "settled_claim (known_valid_dossier H) slice_target"
proof -
  have "do_obligations (known_valid_dossier H)
      = [slice_proof_obligation H, slice_source_obligation H, slice_bridge_obligation H]"
      "do_representation_maps (known_valid_dossier H) = [slice_representation H]"
      "cl_representation_map_ids slice_target = [en_id (slice_representation H)]"
      "rm_bridge_obligation_ids (slice_representation H) = [en_id (slice_bridge_obligation H)]"
      "rm_status (slice_representation H) = RepresentationVerified"
      "ob_status (slice_proof_obligation H) = Discharged" "ob_status (slice_source_obligation H) = Discharged"
      "ob_status (slice_bridge_obligation H) = Discharged"
    by (simp_all add: known_valid_dossier_def slice_target_def slice_representation_def
        slice_proof_obligation_def slice_source_obligation_def slice_bridge_obligation_def)
  then show ?thesis by (simp add: settled_claim_def)
qed

lemma slice_no_counterexample:
  "checked_warrant H (known_valid_dossier H) slice_target w \<Longrightarrow> wr_kind w \<noteq> ExactCounterexample"
  by (auto simp: checked_warrant_def known_valid_dossier_def slice_target_warrant_def
      slice_source_warrant_def slice_bridge_warrant_def)

lemma slice_target_claim: "slice_target \<in> set (do_claims (known_valid_dossier H))"
  by (simp add: known_valid_dossier_def)

lemma trust_projection_correct_witness:
  "\<exists>p. project_claim slice_digest (known_valid_dossier slice_digest) (en_id slice_target) = Inr p \<and> tp_logical_status p = ''proved''"
proof -
  have "wr_kind (slice_target_warrant slice_digest) = RigorousDerivation" by (simp add: slice_target_warrant_def)
  then have "\<exists>w. checked_warrant slice_digest (known_valid_dossier slice_digest) slice_target w
      \<and> wr_kind w \<in> {FormalProof, RigorousDerivation}"
    using slice_checked by blast
  with trust_projection_correct [OF known_valid_no_issues slice_statements slice_target_claim]
  show ?thesis using slice_settled slice_no_counterexample by (metis (full_types))
qed

lemma target_resolved_only_if_aligned_witness:
  "\<exists>p q. target_resolution slice_digest (known_valid_dossier slice_digest) = Inr p
     \<and> project_claim slice_digest (known_valid_dossier slice_digest) (en_id slice_target) = Inr q
     \<and> tp_logical_status p = tp_logical_status q"
  using target_resolved_only_if_aligned [OF known_valid_no_issues slice_statements, of slice_digest]
  by (simp add: known_valid_dossier_def slice_problem_def slice_formalization_def slice_alignment_def)

end
