(* ===== verification/Store_Props.thy ===== *)
theory Store_Props
  imports Manual_Slice
begin

text \<open>
  What the trust store guarantees: a stored dossier has all its entities and events beside it, for
  good, and a dossier that changes an entity under its old identifier is refused.
\<close>

section \<open>What an append leaves\<close>

lemma repo_append_stored:
  "repo_append key e r = (Inr x, r') \<Longrightarrow> x = e \<and> ao_items r' (key e) = Some e"
  by (auto simp: repo_append_def split: option.splits if_splits)

lemma append_all_stored:
  "append_all key es r = (Inr xs, r') \<Longrightarrow> e \<in> set es \<Longrightarrow> ao_items r' (key e) = Some e"
proof (induction es arbitrary: r xs)
  case (Cons a es)
  obtain res r1 where one: "repo_append key a r = (res, r1)" by (cases "repo_append key a r")
  with Cons.prems(1) obtain x ys where res: "res = Inr x" and rest: "append_all key es r1 = (Inr ys, r')"
    by (auto split: sum.splits prod.splits) (metis map_sum.simps(1) obj_sumE sum.distinct(1))
  have "ao_items r1 (key a) = Some a" using repo_append_stored [of key a r x r1] one res by simp
  then have "ao_items r' (key a) = Some a" by (rule append_all_keeps [OF rest])
  then show ?case using Cons.IH [OF rest] Cons.prems(2) by auto
qed simp

section \<open>Events\<close>

text \<open>A key leads to an event with that key.\<close>

definition keys_resolve :: "event_store \<Rightarrow> bool" where
  "keys_resolve s \<longleftrightarrow>
     (\<forall>k i. es_by_key s k = Some i \<longrightarrow> (\<exists>e. ao_items (es_events s) i = Some e \<and> ae_idempotency_key e = k))"

definition event_stored :: "event_store \<Rightarrow> audit_event \<Rightarrow> bool" where
  "event_stored s e \<longleftrightarrow>
     (\<exists>i found. es_by_key s (ae_idempotency_key e) = Some i \<and> ao_items (es_events s) i = Some found
        \<and> ae_idempotency_key found = ae_idempotency_key e \<and> same_event found e)"

interpretation keys: append_only append_once es_by_key
  by unfold_locales (auto simp: append_once_def split: option.splits prod.splits sum.splits)

lemma event_stored_kept: "append_once e s = (r, s') \<Longrightarrow> event_stored s f \<Longrightarrow> event_stored s' f"
  unfolding event_stored_def using keys.keeps events.keeps by blast

lemma append_once_cases:
  assumes "append_once e s = (r, s')"
  shows "s' = s \<or> es_by_key s' = (es_by_key s)(ae_idempotency_key e \<mapsto> en_id e)
    \<and> ao_items (es_events s') (en_id e) = Some e"
  using assms
  by (cases s) (auto simp: append_once_def repo_append_def split: option.splits if_splits)

lemma append_once_event:
  assumes "append_once e s = (r, s')" and "keys_resolve s"
  shows "keys_resolve s'" and "r = Inr x \<Longrightarrow> event_stored s' e"
proof -
  have same: "s' = s" if "es_by_key s (ae_idempotency_key e) = Some i" for i
    using assms(1) that by (simp add: append_once_def)
  show "keys_resolve s'"
    using append_once_cases [OF assms(1)]
  proof (elim disjE conjE)
    assume keys: "es_by_key s' = (es_by_key s)(ae_idempotency_key e \<mapsto> en_id e)"
      and event: "ao_items (es_events s') (en_id e) = Some e"
    show "keys_resolve s'"
      unfolding keys_resolve_def keys
    proof (intro allI impI)
      fix k i assume found: "((es_by_key s)(ae_idempotency_key e \<mapsto> en_id e)) k = Some i"
      show "\<exists>f. ao_items (es_events s') i = Some f \<and> ae_idempotency_key f = k"
      proof (cases "k = ae_idempotency_key e")
        case True
        with event found show ?thesis by simp
      next
        case False
        then obtain f where "ao_items (es_events s) i = Some f" "ae_idempotency_key f = k"
          using assms(2) found unfolding keys_resolve_def by auto
        with events.keeps [OF assms(1)] show ?thesis by blast
      qed
    qed
  qed (use assms(2) in simp)
  assume "r = Inr x"
  show "event_stored s' e"
  proof (cases "es_by_key s (ae_idempotency_key e)")
    case None
    with assms(1) \<open>r = Inr x\<close> show ?thesis
      by (auto simp: append_once_def event_stored_def same_event_def repo_append_def
          split: option.splits if_splits)
  next
    case (Some i)
    then obtain found where "ao_items (es_events s) i = Some found" "ae_idempotency_key found = ae_idempotency_key e"
      using assms(2) by (auto simp: keys_resolve_def)
    with Some assms(1) \<open>r = Inr x\<close> same [OF Some] show ?thesis
      by (auto simp: append_once_def event_stored_def repo_get_def split: if_splits)
  qed
qed

lemma append_events_resolve:
  "append_events es s = (r, s') \<Longrightarrow> keys_resolve s \<Longrightarrow> keys_resolve s'"
proof (induction es arbitrary: s)
  case (Cons e es)
  obtain res s1 where one: "append_once e s = (res, s1)" by (cases "append_once e s")
  then have "keys_resolve s1" using Cons.prems(2) by (rule append_once_event)
  with Cons one show ?case by (cases res) auto
qed simp

lemma append_events_kept:
  "append_events es s = (r, s') \<Longrightarrow> event_stored s f \<Longrightarrow> event_stored s' f"
proof (induction es arbitrary: s)
  case (Cons e es)
  obtain res s1 where one: "append_once e s = (res, s1)" by (cases "append_once e s")
  then have "event_stored s1 f" using Cons.prems(2) by (rule event_stored_kept)
  with Cons one show ?case by (cases res) auto
qed simp

lemma append_events_stored:
  "append_events es s = (Inr u, s') \<Longrightarrow> keys_resolve s \<Longrightarrow> e \<in> set es \<Longrightarrow> event_stored s' e"
proof (induction es arbitrary: s)
  case (Cons a es)
  obtain res s1 where one: "append_once a s = (res, s1)" by (cases "append_once a s")
  with Cons.prems(1) obtain x where x: "res = Inr x" and rest: "append_events es s1 = (Inr u, s')"
    by (cases res) auto
  note here = append_once_event [OF one Cons.prems(2)]
  from here(2) [OF x] have "event_stored s' a" by (rule append_events_kept [OF rest])
  with Cons.IH [OF rest here(1)] Cons.prems(3) show ?case by auto
qed simp

section \<open>Dossiers\<close>

definition dossier_stored :: "trust_store \<Rightarrow> research_dossier \<Rightarrow> bool" where
  "dossier_stored s d \<longleftrightarrow>
     (\<forall>e \<in> set (nested_entities d). ao_items (ts_entities s) (any_id e) = Some e)
     \<and> (\<forall>e \<in> set (do_audit_events d). event_stored (ts_events s) e)"

definition store_complete :: "trust_store \<Rightarrow> bool" where
  "store_complete s \<longleftrightarrow>
     keys_resolve (ts_events s)
     \<and> (\<forall>i d. ao_items (ts_dossiers s) i = Some d \<longrightarrow> en_id d = i \<and> dossier_stored s d)"

lemma append_dossier_parts:
  assumes "append_dossier d s = (r, s')"
  shows "\<exists>re rv. append_all any_id (nested_entities d) (ts_entities s) = (re, ts_entities s')
    \<and> (ts_events s' = ts_events s \<or> append_events (do_audit_events d) (ts_events s) = (rv, ts_events s'))
    \<and> (r = Inr x \<longrightarrow> (\<exists>xs. re = Inr xs) \<and> append_events (do_audit_events d) (ts_events s) = (Inr (), ts_events s')
         \<and> repo_append en_id d (ts_dossiers s) = (Inr x, ts_dossiers s'))
    \<and> (\<forall>e. r = Inl e \<longrightarrow> ts_dossiers s' = ts_dossiers s)"
  using assms
  by (auto simp: append_dossier_def repo_append_def split: sum.splits prod.splits option.splits if_splits)

lemma repo_append_new:
  "repo_append key e r = (res, r') \<Longrightarrow> ao_items r' i = Some f \<Longrightarrow> ao_items r i \<noteq> Some f \<Longrightarrow> f = e \<and> i = key e"
  by (auto simp: repo_append_def split: option.splits if_splits)

lemma dossier_stored_kept:
  assumes "append_dossier d s = (r, s')" and "dossier_stored s f"
  shows "dossier_stored s' f"
  unfolding dossier_stored_def
proof (intro conjI ballI)
  fix e assume "e \<in> set (nested_entities f)"
  then show "ao_items (ts_entities s') (any_id e) = Some e"
    using stored_entities.keeps [OF assms(1)] assms(2) unfolding dossier_stored_def by blast
next
  fix e assume "e \<in> set (do_audit_events f)"
  then have "event_stored (ts_events s) e" using assms(2) by (simp add: dossier_stored_def)
  then show "event_stored (ts_events s') e"
    using append_dossier_parts [OF assms(1)] append_events_kept by metis
qed

lemma store_complete_step:
  assumes "append_dossier d s = (r, s')" and "store_complete s"
  shows "store_complete s'"
proof -
  have keys: "keys_resolve (ts_events s)" using assms(2) by (simp add: store_complete_def)
  have "keys_resolve (ts_events s')"
    using append_dossier_parts [OF assms(1)] append_events_resolve keys by metis
  moreover have "en_id f = i \<and> dossier_stored s' f" if found: "ao_items (ts_dossiers s') i = Some f" for i f
  proof (cases "ao_items (ts_dossiers s) i = Some f")
    case True
    then show ?thesis using assms dossier_stored_kept by (auto simp: store_complete_def)
  next
    case False
    then obtain x where x: "r = Inr x"
      using append_dossier_parts [OF assms(1)] found by (cases r) auto
    from append_dossier_parts [OF assms(1), of x] x obtain xs where
      entities: "append_all any_id (nested_entities d) (ts_entities s) = (Inr xs, ts_entities s')"
      and events: "append_events (do_audit_events d) (ts_events s) = (Inr (), ts_events s')"
      and dossier: "repo_append en_id d (ts_dossiers s) = (Inr x, ts_dossiers s')"
      by auto
    have "f = d \<and> i = en_id d" by (rule repo_append_new [OF dossier found False])
    moreover have "dossier_stored s' d"
      using append_all_stored [OF entities] append_events_stored [OF events keys]
      by (auto simp: dossier_stored_def)
    ultimately show ?thesis by blast
  qed
  ultimately show ?thesis by (simp add: store_complete_def)
qed

lemma store_complete_empty: "store_complete empty_store"
  by (simp add: store_complete_def keys_resolve_def empty_store_def empty_repository_def)

lemma append_dossiers_complete: "store_complete s \<Longrightarrow> store_complete (append_dossiers ds s)"
proof (induction ds arbitrary: s)
  case (Cons d ds)
  then show ?case
    using store_complete_step [of d s "fst (append_dossier d s)" "snd (append_dossier d s)"]
    by (simp add: append_dossiers_def)
qed (simp add: append_dossiers_def)

section \<open>Properties\<close>

text \<open>C3: Whatever sequence of dossiers is appended to an empty trust store, accepted or refused,
  every dossier it holds stays what it is under every later sequence, with each of its entities
  found unchanged under its identifier and an event with the key and the content of each of its
  audit events.\<close>

theorem stored_dossier_for_good:
  assumes "ao_items (ts_dossiers (append_dossiers ds empty_store)) i = Some d"
  shows "ao_items (ts_dossiers (append_dossiers (ds @ later) empty_store)) i = Some d \<and> en_id d = i
    \<and> (\<forall>e \<in> set (nested_entities d).
         ao_items (ts_entities (append_dossiers (ds @ later) empty_store)) (any_id e) = Some e)
    \<and> (\<forall>e \<in> set (do_audit_events d). event_stored (ts_events (append_dossiers (ds @ later) empty_store)) e)"
proof -
  have "append_dossiers (ds @ later) empty_store = append_dossiers later (append_dossiers ds empty_store)"
    by (simp add: append_dossiers_def)
  then have "ao_items (ts_dossiers (append_dossiers (ds @ later) empty_store)) i = Some d"
    using stored_dossiers.many_keep [OF assms, of later] by (simp add: append_dossiers_def)
  moreover have "store_complete (append_dossiers (ds @ later) empty_store)"
    by (rule append_dossiers_complete [OF store_complete_empty])
  ultimately show ?thesis by (auto simp: store_complete_def dossier_stored_def)
qed

text \<open>A conflict stops the append where it is: what came before it in the list stays appended.\<close>

lemma append_all_conflict:
  assumes "e \<in> set es" and "ao_items r (key e) = Some x" and "x \<noteq> e"
  shows "\<exists>r'. append_all key es r = (Inl value_error, r')"
  using assms(1,2)
proof (induction es arbitrary: r)
  case (Cons a es)
  obtain res r1 where one: "repo_append key a r = (res, r1)" by (cases "repo_append key a r")
  have kept: "ao_items r1 (key e) = Some x" using one Cons.prems(2) by (rule ids.keeps)
  show ?case
  proof (cases res)
    case (Inl err)
    with one have "err = value_error" by (auto simp: repo_append_def split: option.splits if_splits)
    with Inl one show ?thesis by simp
  next
    case (Inr y)
    then have "a \<noteq> e" using one Cons.prems(2) assms(3) by (auto simp: repo_append_def split: if_splits)
    with Cons.prems(1) Cons.IH [OF _ kept] obtain r' where "append_all key es r1 = (Inl value_error, r')"
      by auto
    with one Inr show ?thesis by simp
  qed
qed simp

text \<open>A dossier with an entity that the store holds with other content under the same identifier
  (an obligation that was discharged since, an alignment that was approved) is refused with
  \<open>ValueError\<close>: no dossier and no event is stored.\<close>

theorem changed_entity_refused:
  assumes "e \<in> set (nested_entities d)" and "ao_items (ts_entities s) (any_id e) = Some old" and "old \<noteq> e"
  shows "\<exists>s'. append_dossier d s = (Inl value_error, s') \<and> ts_dossiers s' = ts_dossiers s
    \<and> ts_events s' = ts_events s"
  using append_all_conflict [where r = "ts_entities s" and key = any_id, OF assms]
  by (auto simp: append_dossier_def)

section \<open>The dossier of the manual slice\<close>

lemma append_all_fresh:
  "distinct (map key es) \<Longrightarrow> (\<And>e. e \<in> set es \<Longrightarrow> ao_items r (key e) = None) \<Longrightarrow>
     \<exists>r'. append_all key es r = (Inr es, r')"
proof (induction es arbitrary: r)
  case (Cons a es)
  define r1 where "r1 = r\<lparr>ao_items := (ao_items r)(key a \<mapsto> a), ao_order := ao_order r @ [key a]\<rparr>"
  have "key e \<noteq> key a" if "e \<in> set es" for e
    using Cons.prems(1) that by (metis distinct.simps(2) image_eqI list.simps(9) set_map)
  then have "ao_items r1 (key e) = None" if "e \<in> set es" for e
    using Cons.prems(2) that by (simp add: r1_def)
  then obtain r' where "append_all key es r1 = (Inr es, r')"
    using Cons.IH [of r1] Cons.prems(1) by auto
  moreover have "repo_append key a r = (Inr a, r1)"
    using Cons.prems(2) [of a] by (simp add: repo_append_def r1_def)
  ultimately show ?case by simp
qed simp

lemma slice_appended:
  "ao_items (ts_dossiers (append_dossiers [known_valid_dossier H] empty_store)) ''dossier.even_sum.phase1.v1''
     = Some (known_valid_dossier H)"
proof -
  have "distinct (map any_id (nested_entities (known_valid_dossier H)))"
    using no_issues(1) [OF known_valid_no_issues] by (simp add: header_issues_def all_entity_ids_def)
  then obtain r' where "append_all any_id (nested_entities (known_valid_dossier H)) empty_repository
      = (Inr (nested_entities (known_valid_dossier H)), r')"
    using append_all_fresh [of any_id "nested_entities (known_valid_dossier H)" empty_repository]
    by (auto simp: empty_repository_def)
  moreover have "do_audit_events (known_valid_dossier H) = [slice_event]"
      "en_id (known_valid_dossier H) = ''dossier.even_sum.phase1.v1''"
    by (simp_all add: known_valid_dossier_def)
  ultimately show ?thesis
    by (simp add: append_dossiers_def append_dossier_def empty_store_def append_once_def repo_append_def
        empty_repository_def)
qed

lemma stored_dossier_for_good_witness:
  "ao_items (ts_entities (append_dossiers ([known_valid_dossier slice_digest] @ [known_valid_dossier slice_digest]) empty_store))
     (any_id (ClaimEntity slice_target)) = Some (ClaimEntity slice_target)"
proof -
  have "ClaimEntity slice_target \<in> set (nested_entities (known_valid_dossier slice_digest))"
    by (simp add: nested_entities_def known_valid_dossier_def)
  then show ?thesis using stored_dossier_for_good [OF slice_appended] by blast
qed

text \<open>The dossier of a successor: the proof obligation is open again under its identifier.\<close>

definition reopened_dossier :: "hexdigest \<Rightarrow> research_dossier" where
  "reopened_dossier H = (known_valid_dossier H)
     \<lparr>do_obligations := [(slice_proof_obligation H)\<lparr>ob_status := ObligationOpen\<rparr>]\<rparr>"

lemma changed_entity_refused_witness:
  "\<exists>s'. append_dossier (reopened_dossier slice_digest) (append_dossiers [known_valid_dossier slice_digest] empty_store)
     = (Inl value_error, s')"
proof -
  have "ObligationEntity (slice_proof_obligation slice_digest) \<in> set (nested_entities (known_valid_dossier slice_digest))"
    by (simp add: nested_entities_def known_valid_dossier_def)
  then have "ao_items (ts_entities (append_dossiers [known_valid_dossier slice_digest] empty_store))
      (en_id (slice_proof_obligation slice_digest)) = Some (ObligationEntity (slice_proof_obligation slice_digest))"
    using append_dossiers_complete [OF store_complete_empty, of "[known_valid_dossier slice_digest]"] slice_appended [of slice_digest]
    unfolding store_complete_def dossier_stored_def by (metis any_id.simps(8))
  moreover have "ObligationEntity ((slice_proof_obligation slice_digest)\<lparr>ob_status := ObligationOpen\<rparr>)
      \<in> set (nested_entities (reopened_dossier slice_digest))"
    by (simp add: nested_entities_def reopened_dossier_def)
  moreover have "ObligationEntity (slice_proof_obligation slice_digest)
      \<noteq> ObligationEntity ((slice_proof_obligation slice_digest)\<lparr>ob_status := ObligationOpen\<rparr>)"
    by (simp add: slice_proof_obligation_def)
  ultimately show ?thesis
    using changed_entity_refused [of "ObligationEntity ((slice_proof_obligation slice_digest)\<lparr>ob_status := ObligationOpen\<rparr>)"]
    by fastforce
qed

end
