(* ===== verification/Review_Records.thy ===== *)
theory Review_Records
  imports Trust_Policy Py_Json
begin

text \<open>
  \<open>review/records.py\<close> and the values the review surface reads through \<open>review/ports.py\<close>: reviewers,
  decisions with their payloads, refusals, and the read-only views of the durable workspace and the
  artifact store.  The payload of a decision is a dict with fixed keys in the source; here it is a
  record per kind of decision, and \<open>payload_value\<close> is the dict it is hashed as.
\<close>

section \<open>Vocabularies and limits\<close>

datatype decision_kind = ReviewVerdictKind | AlignmentDecisionKind | WarrantGrantKind | ObligationDischargeKind

fun decision_kind_value :: "decision_kind \<Rightarrow> str" where
  "decision_kind_value ReviewVerdictKind = ''review_verdict''"
| "decision_kind_value AlignmentDecisionKind = ''semantic_alignment_decision''"
| "decision_kind_value WarrantGrantKind = ''warrant_grant''"
| "decision_kind_value ObligationDischargeKind = ''obligation_discharge''"

datatype reviewer_kind = HumanReviewer | ModelReviewer | AutomatedTool

fun reviewer_kind_value :: "reviewer_kind \<Rightarrow> str" where
  "reviewer_kind_value HumanReviewer = ''human''"
| "reviewer_kind_value ModelReviewer = ''model''"
| "reviewer_kind_value AutomatedTool = ''automated_tool''"

datatype review_verdict = AcceptCandidate | RejectCandidate | InconclusiveReview

fun verdict_value :: "review_verdict \<Rightarrow> str" where
  "verdict_value AcceptCandidate = ''accept_candidate''"
| "verdict_value RejectCandidate = ''reject_candidate''"
| "verdict_value InconclusiveReview = ''inconclusive''"

datatype alignment_decision = ApproveAlignment | DisputeAlignment

fun alignment_decision_value :: "alignment_decision \<Rightarrow> str" where
  "alignment_decision_value ApproveAlignment = ''approve''"
| "alignment_decision_value DisputeAlignment = ''dispute''"

datatype warrant_basis = HumanReviewBasis | FormalKernelBasis

fun warrant_basis_value :: "warrant_basis \<Rightarrow> str" where
  "warrant_basis_value HumanReviewBasis = ''human_review''"
| "warrant_basis_value FormalKernelBasis = ''formal_kernel''"

definition review_schema_version :: str where
  "review_schema_version = ''adaivy.review-decision.v1''"

definition review_hash_profile :: str where
  "review_hash_profile = ''review-semantic-v1''"

definition successor_schema_version :: str where
  "successor_schema_version = ''adaivy.review-successor.v1''"

definition max_decisions :: nat where
  "max_decisions = 4096"

definition max_text_length :: nat where
  "max_text_length = 4096"

definition max_formal_finding_bytes :: nat where
  "max_formal_finding_bytes = 262144"

definition human_review_warrant_kinds :: "warrant_kind set" where
  "human_review_warrant_kinds = {ExactCounterexample, ExperimentalObservation, RigorousDerivation}"

definition formal_kernel_warrant_kinds :: "warrant_kind set" where
  "formal_kernel_warrant_kinds = {FormalProof}"

definition kernel_checked_outcomes :: "str list" where
  "kernel_checked_outcomes = [''kernel_checked'', ''kernel_checked_approved_standard_axioms'']"

fun alignment_status_value :: "alignment_status \<Rightarrow> str" where
  "alignment_status_value AlignmentProposed = ''proposed''"
| "alignment_status_value ResearcherApproved = ''researcher_approved''"
| "alignment_status_value AlignmentDisputed = ''disputed''"
| "alignment_status_value AlignmentSuperseded = ''superseded''"

fun strength_relation_value :: "strength_relation \<Rightarrow> str" where
  "strength_relation_value Equivalent = ''equivalent''"
| "strength_relation_value Weaker = ''weaker''"
| "strength_relation_value Stronger = ''stronger''"
| "strength_relation_value Overlapping = ''overlapping''"
| "strength_relation_value Unrelated = ''unrelated''"
| "strength_relation_value StrengthUnresolved = ''unresolved''"

fun obligation_status_value :: "obligation_status \<Rightarrow> str" where
  "obligation_status_value ObligationOpen = ''open''"
| "obligation_status_value ObligationBlocked = ''blocked''"
| "obligation_status_value Discharged = ''discharged''"
| "obligation_status_value Waived = ''waived''"

section \<open>Refusals\<close>

text \<open>\<open>ReviewRefused\<close> with its code and subject, or an exception of another class.\<close>

datatype review_error = Refused str str | Escaped error

type_synonym 'a review = "review_error + 'a"

text \<open>\<open>if not ok: raise refuse(code, subject_id=...)\<close>.\<close>

definition unless_refused :: "bool \<Rightarrow> str \<Rightarrow> str \<Rightarrow> unit review" where
  "unless_refused ok code subject = ensure ok (Refused code subject)"

lemma unless_refused_Inr [simp]: "unless_refused ok code subject = Inr u \<longleftrightarrow> ok"
  by (simp add: unless_refused_def)

definition escaping :: "'a res \<Rightarrow> 'a review" where
  "escaping r = map_sum Escaped id r"

lemma escaping_Inr [simp]: "escaping r = Inr x \<longleftrightarrow> r = Inr x"
  by (cases r) (simp_all add: escaping_def)

section \<open>Reviewers\<close>

record reviewer =
  rv_id :: opaque_id
  rv_kind :: reviewer_kind
  rv_attestation :: str

definition reviewer_value :: "reviewer \<Rightarrow> json" where
  "reviewer_value r =
     JObj [(''attestation'', JStr (rv_attestation r)), (''id'', JStr (rv_id r)),
       (''kind'', JStr (reviewer_kind_value (rv_kind r)))]"

definition require_human :: "reviewer \<Rightarrow> str \<Rightarrow> unit review" where
  "require_human r subject =
     bindE (unless_refused (rv_kind r = HumanReviewer) ''reviewer_identity_not_human'' subject) (\<lambda>_.
     unless_refused (py_strip (rv_attestation r) \<noteq> []) ''reviewer_attestation_missing'' subject)"

definition require_identifier :: "str \<Rightarrow> opaque_id review" where
  "require_identifier s = bindE (unless_refused (id_pattern s) ''identifier_malformed'' s) (\<lambda>_. Inr s)"

section \<open>Payloads\<close>

record verdict_payload =
  vp_candidate_artifact_hash :: json
  vp_dossier_hash :: str
  vp_dossier_id :: opaque_id
  vp_independently_checked :: bool
  vp_rationale :: str
  vp_run_id :: opaque_id
  vp_run_status_at_review :: str
  vp_target_claim_id :: opaque_id
  vp_verdict :: review_verdict
  vp_verifier_finding_artifact_hash :: str
  vp_verifier_finding_proposal_id :: opaque_id
  vp_verifier_recommendation :: json
  vp_verifier_source_id :: str
  vp_verifier_source_kind :: str

record alignment_payload =
  ap_alignment_id :: opaque_id
  ap_assumption_delta_count :: int
  ap_compared_claim_id :: opaque_id
  ap_decision :: alignment_decision
  ap_dossier_hash :: str
  ap_dossier_id :: opaque_id
  ap_edge_case_delta_count :: int
  ap_formalization_id :: opaque_id
  ap_prior_status :: str
  ap_rationale :: str
  ap_resolves_target :: bool
  ap_run_id :: opaque_id
  ap_strength_relation :: str

text \<open>What only one of the two bases of a warrant carries.\<close>

record kernel_payload =
  kp_content_hash :: json
  kp_finding_id :: json
  kp_outcome :: str
  kp_semantic_alignment_id :: opaque_id
  kp_semantic_json :: str
  kp_target_hash :: json

datatype warrant_backing = ByReview str | ByKernel kernel_payload

record grant_payload =
  wg_backing :: warrant_backing
  wg_claim_id :: opaque_id
  wg_dossier_hash :: str
  wg_dossier_id :: opaque_id
  wg_kind :: warrant_kind
  wg_run_id :: opaque_id
  wg_scope :: str
  wg_supporting_decision_ids :: "str list"
  wg_warrant_id :: opaque_id

record discharge_payload =
  dc_claim_id :: opaque_id
  dc_warrant_id :: str
  dc_dossier_hash :: str
  dc_dossier_id :: opaque_id
  dc_category :: str
  dc_obligation_id :: opaque_id
  dc_prior_status :: str
  dc_rationale :: str
  dc_run_id :: opaque_id
  dc_grant_decision_id :: str

datatype decision_payload =
    VerdictOf verdict_payload
  | AlignmentOf alignment_payload
  | GrantOf grant_payload
  | DischargeOf discharge_payload

fun payload_kind :: "decision_payload \<Rightarrow> decision_kind" where
  "payload_kind (VerdictOf _) = ReviewVerdictKind"
| "payload_kind (AlignmentOf _) = AlignmentDecisionKind"
| "payload_kind (GrantOf _) = WarrantGrantKind"
| "payload_kind (DischargeOf _) = ObligationDischargeKind"

fun payload_run_id :: "decision_payload \<Rightarrow> opaque_id" where
  "payload_run_id (VerdictOf p) = vp_run_id p"
| "payload_run_id (AlignmentOf p) = ap_run_id p"
| "payload_run_id (GrantOf p) = wg_run_id p"
| "payload_run_id (DischargeOf p) = dc_run_id p"

fun payload_dossier_hash :: "decision_payload \<Rightarrow> str" where
  "payload_dossier_hash (VerdictOf p) = vp_dossier_hash p"
| "payload_dossier_hash (AlignmentOf p) = ap_dossier_hash p"
| "payload_dossier_hash (GrantOf p) = wg_dossier_hash p"
| "payload_dossier_hash (DischargeOf p) = dc_dossier_hash p"

definition basis_of :: "warrant_backing \<Rightarrow> warrant_basis" where
  "basis_of b = (case b of ByReview _ \<Rightarrow> HumanReviewBasis | ByKernel _ \<Rightarrow> FormalKernelBasis)"

section \<open>The dict of a payload\<close>

definition verdict_fields :: "verdict_payload \<Rightarrow> jobject" where
  "verdict_fields p =
     [(''candidate_artifact_hash'', vp_candidate_artifact_hash p),
      (''dossier_hash'', JStr (vp_dossier_hash p)), (''dossier_id'', JStr (vp_dossier_id p)),
      (''independently_checked'', JBool (vp_independently_checked p)),
      (''rationale'', JStr (vp_rationale p)), (''run_id'', JStr (vp_run_id p)),
      (''run_status_at_review'', JStr (vp_run_status_at_review p)),
      (''target_claim_id'', JStr (vp_target_claim_id p)),
      (''verdict'', JStr (verdict_value (vp_verdict p))),
      (''verifier_finding_artifact_hash'', JStr (vp_verifier_finding_artifact_hash p)),
      (''verifier_finding_proposal_id'', JStr (vp_verifier_finding_proposal_id p)),
      (''verifier_recommendation'', vp_verifier_recommendation p),
      (''verifier_source_id'', JStr (vp_verifier_source_id p)),
      (''verifier_source_kind'', JStr (vp_verifier_source_kind p))]"

definition alignment_fields :: "alignment_payload \<Rightarrow> jobject" where
  "alignment_fields p =
     [(''alignment_id'', JStr (ap_alignment_id p)),
      (''assumption_delta_count'', JInt (ap_assumption_delta_count p)),
      (''compared_claim_id'', JStr (ap_compared_claim_id p)),
      (''decision'', JStr (alignment_decision_value (ap_decision p))),
      (''dossier_hash'', JStr (ap_dossier_hash p)), (''dossier_id'', JStr (ap_dossier_id p)),
      (''edge_case_delta_count'', JInt (ap_edge_case_delta_count p)),
      (''formalization_id'', JStr (ap_formalization_id p)),
      (''prior_status'', JStr (ap_prior_status p)), (''rationale'', JStr (ap_rationale p)),
      (''resolves_target_under_trust_policy'', JBool (ap_resolves_target p)),
      (''run_id'', JStr (ap_run_id p)), (''strength_relation'', JStr (ap_strength_relation p))]"

text \<open>The payload of a warrant before its own identifier is derived from it.\<close>

definition grant_preimage :: "grant_payload \<Rightarrow> jobject" where
  "grant_preimage p =
     [(''basis'', JStr (warrant_basis_value (basis_of (wg_backing p)))),
      (''claim_id'', JStr (wg_claim_id p)), (''dossier_hash'', JStr (wg_dossier_hash p)),
      (''dossier_id'', JStr (wg_dossier_id p))]
     @ (case wg_backing p of
          ByReview artifact \<Rightarrow>
            [(''evidence_kind'', JStr ''model_output''),
             (''verifier_finding_artifact_hash'', JStr artifact),
             (''verifier_kind'', JStr ''human_review'')]
        | ByKernel k \<Rightarrow>
            [(''evidence_kind'', JStr ''formal_artifact''),
             (''formal_finding_content_hash'', kp_content_hash k),
             (''formal_finding_id'', kp_finding_id k),
             (''formal_finding_outcome'', JStr (kp_outcome k)),
             (''formal_finding_semantic_alignment_id'', JStr (kp_semantic_alignment_id k)),
             (''formal_finding_semantic_json'', JStr (kp_semantic_json k)),
             (''formal_target_hash'', kp_target_hash k),
             (''verifier_kind'', JStr ''lean_kernel_phase3b'')])
     @ [(''kind'', JStr (warrant_kind_value (wg_kind p))), (''run_id'', JStr (wg_run_id p)),
        (''scope'', JStr (wg_scope p)),
        (''supporting_decision_ids'', jstrs (wg_supporting_decision_ids p))]"

definition discharge_fields :: "discharge_payload \<Rightarrow> jobject" where
  "discharge_fields p =
     [(''claim_id'', JStr (dc_claim_id p)), (''discharged_by_warrant_id'', JStr (dc_warrant_id p)),
      (''dossier_hash'', JStr (dc_dossier_hash p)), (''dossier_id'', JStr (dc_dossier_id p)),
      (''obligation_category'', JStr (dc_category p)), (''obligation_id'', JStr (dc_obligation_id p)),
      (''prior_status'', JStr (dc_prior_status p)), (''rationale'', JStr (dc_rationale p)),
      (''run_id'', JStr (dc_run_id p)), (''warrant_grant_decision_id'', JStr (dc_grant_decision_id p))]"

fun payload_value :: "decision_payload \<Rightarrow> jobject" where
  "payload_value (VerdictOf p) = verdict_fields p"
| "payload_value (AlignmentOf p) = alignment_fields p"
| "payload_value (GrantOf p) = grant_preimage p @ [(''warrant_id'', JStr (wg_warrant_id p))]"
| "payload_value (DischargeOf p) = discharge_fields p"

section \<open>Proposals and decisions\<close>

record proposal =
  dp_subject_id :: str
  dp_reviewer :: reviewer
  dp_idempotency_key :: str
  dp_payload :: decision_payload

text \<open>\<open>DecisionProposal.identity\<close>.\<close>

definition proposal_identity :: "proposal \<Rightarrow> json" where
  "proposal_identity p =
     JObj [(''decision_kind'', JStr (decision_kind_value (payload_kind (dp_payload p)))),
       (''idempotency_key'', JStr (dp_idempotency_key p)),
       (''payload'', JObj (payload_value (dp_payload p))),
       (''reviewer'', reviewer_value (dp_reviewer p)),
       (''schema_version'', JStr review_schema_version),
       (''subject_id'', JStr (dp_subject_id p))]"

record decision =
  dn_decision_id :: str
  dn_subject_id :: str
  dn_reviewer :: reviewer
  dn_idempotency_key :: str
  dn_payload :: decision_payload
  dn_sequence :: nat
  dn_recorded_at :: str
  dn_content_hash :: str

text \<open>\<open>stable_id\<close> of \<open>phase5/serialization.py\<close>.\<close>

definition stable_id :: "hexdigest \<Rightarrow> str \<Rightarrow> json \<Rightarrow> str" where
  "stable_id H name value = name @ ''.'' @ take 24 (drop 7 (canonical_hash H value))"

section \<open>The workspace and the artifact store\<close>

datatype run_status =
  RunQueued | RunRunning | RunPaused | AwaitingReview | RunUnresolved | RunCancelled | RunCompleted
  | RefinementExhausted

fun run_status_value :: "run_status \<Rightarrow> str" where
  "run_status_value RunQueued = ''queued''"
| "run_status_value RunRunning = ''running''"
| "run_status_value RunPaused = ''paused''"
| "run_status_value AwaitingReview = ''awaiting_review''"
| "run_status_value RunUnresolved = ''unresolved''"
| "run_status_value RunCancelled = ''cancelled''"
| "run_status_value RunCompleted = ''completed''"
| "run_status_value RefinementExhausted = ''refinement_exhausted''"

record run_record =
  ru_status :: run_status
  ru_dossier_id :: opaque_id
  ru_dossier_hash :: str

record proposal_record =
  pp_proposal_id :: opaque_id
  pp_proposal_kind :: str
  pp_artifact_hash :: str
  pp_source_kind :: str
  pp_source_id :: str

text \<open>\<open>RunReader\<close> and \<open>ArtifactReader\<close>; \<open>None\<close> where the source raises \<open>KeyError\<close>.\<close>

record run_reader =
  rr_get_run :: "opaque_id \<Rightarrow> run_record option"
  rr_load_dossier :: "opaque_id \<Rightarrow> research_dossier option"
  rr_list_proposals :: "opaque_id \<Rightarrow> proposal_record list"

record artifact_reader =
  ar_exists :: "str \<Rightarrow> bool"
  ar_get :: "str \<Rightarrow> bytes option"

text \<open>
  The content hash of an exported dossier is a parameter \<open>DH\<close>: the export walks the dossier by
  reflection, and nothing here depends on how it writes one.
\<close>

type_synonym dossier_digest = "research_dossier \<Rightarrow> str"

end
