(* ===== verification/Review_Decisions.thy ===== *)
theory Review_Decisions
  imports Review_Records
begin

text \<open>
  \<open>review/decisions.py\<close>: what has to hold before a decision may be recorded.  Every function returns
  a proposal whose preconditions were checked, or refuses with the code of the first that failed.
  \<open>validate\<close> is the replay contract of \<open>phase3b\<close> (\<open>validate_finding_dict\<close>), which may refuse.  Documents
  with a float literal are outside the model; the \<open>operational\<close> block of a kernel warrant, which no
  identity or semantic hash covers, is left out.
\<close>

section \<open>The context of a run\<close>

record run_context =
  cx_run_id :: opaque_id
  cx_status :: run_status
  cx_dossier :: research_dossier
  cx_dossier_hash :: str
  cx_proposal_source_ids :: "str list"

definition cx_target_claim_id :: "run_context \<Rightarrow> opaque_id" where
  "cx_target_claim_id c = fz_target_claim_id (do_formalization (cx_dossier c))"

definition cx_alignment :: "run_context \<Rightarrow> semantic_alignment" where
  "cx_alignment c = do_alignment (cx_dossier c)"

definition load_run_context :: "dossier_digest \<Rightarrow> run_reader \<Rightarrow> opaque_id \<Rightarrow> run_context review" where
  "load_run_context DH runs run_id =
     (case rr_get_run runs run_id of
        None \<Rightarrow> Inl (Refused ''run_not_found'' run_id)
      | Some run \<Rightarrow>
          (case rr_load_dossier runs (ru_dossier_id run) of
             None \<Rightarrow> Inl (Escaped key_error)
           | Some d \<Rightarrow>
               bindE (unless_refused (DH d = ru_dossier_hash run) ''dossier_hash_mismatch'' run_id) (\<lambda>_.
               Inr \<lparr>cx_run_id = run_id, cx_status = ru_status run, cx_dossier = d,
                 cx_dossier_hash = DH d,
                 cx_proposal_source_ids =
                   sort (remdups (map pp_source_id (rr_list_proposals runs run_id)))\<rparr>)))"

definition reject_proposal_source :: "run_context \<Rightarrow> reviewer \<Rightarrow> unit review" where
  "reject_proposal_source c r =
     unless_refused (rv_id r \<notin> set (cx_proposal_source_ids c)) ''reviewer_is_proposal_source'' (cx_run_id c)"

text \<open>The length counts bytes; a lone surrogate has none.\<close>

definition bounded_review_text :: "str \<Rightarrow> str \<Rightarrow> unit review" where
  "bounded_review_text s subject =
     bindE (ensure (utf8_valid s) (Escaped UnicodeEncodeErr)) (\<lambda>_.
     unless_refused (length s \<le> max_text_length) ''text_too_long'' subject)"

section \<open>The verifier's finding\<close>

record loaded_finding =
  lf_artifact_hash :: str
  lf_proposal_id :: opaque_id
  lf_source_id :: str
  lf_source_kind :: str
  lf_finding :: jobject

text \<open>\<open>json.loads(data.decode("utf-8"))\<close>, with the two exceptions that are handled as one refusal.\<close>

definition load_object :: "bytes \<Rightarrow> str \<Rightarrow> str \<Rightarrow> json review" where
  "load_object data code subject =
     (if \<not> utf8_valid data then Inl (Refused code subject)
      else case json_loads data of
        Inl IntDigitsError \<Rightarrow> Inl (Escaped IntDigitsErr)
      | Inl _ \<Rightarrow> Inl (Refused code subject)
      | Inr v \<Rightarrow> Inr (decoded_value v))"

definition is_canonical_encoding :: "json \<Rightarrow> bytes \<Rightarrow> bool review" where
  "is_canonical_encoding v data =
     (case v of
        JObj kvs \<Rightarrow>
          bindE (ensure (\<not> has_constant v) (Escaped value_error)) (\<lambda>_.
          bindE (ensure (utf8_strings v) (Escaped UnicodeEncodeErr)) (\<lambda>_.
          Inr (canonical_bytes v = data)))
      | _ \<Rightarrow> Inr False)"

definition read_verifier_finding ::
    "hexdigest \<Rightarrow> run_reader \<Rightarrow> artifact_reader \<Rightarrow> run_context \<Rightarrow> loaded_finding review" where
  "read_verifier_finding H runs artifacts c =
     (let run = cx_run_id c;
          candidates = filter (\<lambda>p. pp_proposal_kind p = ''verifier_finding'') (rr_list_proposals runs run) in
      bindE (unless_refused (candidates \<noteq> []) ''verifier_finding_missing'' run) (\<lambda>_.
      bindE (unless_refused (length candidates \<le> 1) ''verifier_finding_ambiguous'' run) (\<lambda>_.
      let p = hd candidates; artifact = pp_artifact_hash p in
      bindE (unless_refused (ar_exists artifacts artifact) ''verifier_finding_artifact_missing'' run) (\<lambda>_.
      case ar_get artifacts artifact of
        None \<Rightarrow> Inl (Escaped key_error)
      | Some data \<Rightarrow>
          bindE (unless_refused (sha256_bytes H data = artifact) ''verifier_finding_artifact_corrupt'' run) (\<lambda>_.
          bindE (load_object data ''verifier_finding_unreadable'' run) (\<lambda>v.
          bindE (is_canonical_encoding v data) (\<lambda>canonical.
          bindE (unless_refused canonical ''verifier_finding_not_canonical'' run) (\<lambda>_.
          bindE (unless_refused (jget (obj_of v) ''target_claim_id'' = Some (JStr (cx_target_claim_id c)))
            ''verifier_finding_target_mismatch'' run) (\<lambda>_.
          Inr \<lparr>lf_artifact_hash = artifact, lf_proposal_id = pp_proposal_id p, lf_source_id = pp_source_id p,
            lf_source_kind = pp_source_kind p, lf_finding = obj_of v\<rparr>)))))))))"

section \<open>1. Verdicts\<close>

definition build_review_verdict ::
    "hexdigest \<Rightarrow> dossier_digest \<Rightarrow> run_reader \<Rightarrow> artifact_reader \<Rightarrow> opaque_id \<Rightarrow> reviewer
       \<Rightarrow> review_verdict \<Rightarrow> bool \<Rightarrow> str \<Rightarrow> (proposal \<times> loaded_finding) review" where
  "build_review_verdict H DH runs artifacts run_id r verdict independently_checked rationale =
     bindE (load_run_context DH runs run_id) (\<lambda>c.
     bindE (require_human r run_id) (\<lambda>_.
     bindE (reject_proposal_source c r) (\<lambda>_.
     bindE (bounded_review_text rationale run_id) (\<lambda>_.
     bindE (unless_refused (py_strip rationale \<noteq> []) ''rationale_missing'' run_id) (\<lambda>_.
     bindE (unless_refused (cx_status c = AwaitingReview) ''run_not_awaiting_review'' run_id) (\<lambda>_.
     bindE (read_verifier_finding H runs artifacts c) (\<lambda>loaded.
     bindE (unless_refused (verdict = AcceptCandidate \<longrightarrow> independently_checked)
       ''independent_check_not_attested'' run_id) (\<lambda>_.
     Inr
       (\<lparr>dp_subject_id = run_id, dp_reviewer = r,
          dp_idempotency_key = ''review-verdict:'' @ run_id @ '':'' @ rv_id r,
          dp_payload = VerdictOf
            \<lparr>vp_candidate_artifact_hash = get_field (lf_finding loaded) ''candidate_artifact_hash'',
             vp_dossier_hash = cx_dossier_hash c, vp_dossier_id = en_id (cx_dossier c),
             vp_independently_checked = independently_checked, vp_rationale = rationale,
             vp_run_id = run_id, vp_run_status_at_review = run_status_value (cx_status c),
             vp_target_claim_id = cx_target_claim_id c, vp_verdict = verdict,
             vp_verifier_finding_artifact_hash = lf_artifact_hash loaded,
             vp_verifier_finding_proposal_id = lf_proposal_id loaded,
             vp_verifier_recommendation = get_field (lf_finding loaded) ''recommendation'',
             vp_verifier_source_id = lf_source_id loaded,
             vp_verifier_source_kind = lf_source_kind loaded\<rparr>\<rparr>,
        loaded)))))))))"

section \<open>2. The alignment\<close>

definition build_alignment_decision ::
    "dossier_digest \<Rightarrow> run_reader \<Rightarrow> opaque_id \<Rightarrow> opaque_id \<Rightarrow> reviewer \<Rightarrow> alignment_decision \<Rightarrow> str
       \<Rightarrow> proposal review" where
  "build_alignment_decision DH runs run_id alignment_id approver answer rationale =
     bindE (load_run_context DH runs run_id) (\<lambda>c.
     bindE (require_human approver alignment_id) (\<lambda>_.
     bindE (bounded_review_text rationale alignment_id) (\<lambda>_.
     bindE (unless_refused (py_strip rationale \<noteq> []) ''rationale_missing'' alignment_id) (\<lambda>_.
     let a = cx_alignment c; f = do_formalization (cx_dossier c) in
     bindE (unless_refused (en_id a = alignment_id) ''alignment_not_found'' alignment_id) (\<lambda>_.
     bindE (unless_refused (al_status a = AlignmentProposed) ''alignment_already_decided'' alignment_id) (\<lambda>_.
     Inr \<lparr>dp_subject_id = alignment_id, dp_reviewer = approver,
       dp_idempotency_key =
         ''alignment-decision:'' @ alignment_id @ '':'' @ cx_dossier_hash c @ '':'' @ rv_id approver,
       dp_payload = AlignmentOf
         \<lparr>ap_alignment_id = alignment_id, ap_assumption_delta_count = int (length (al_assumption_delta a)),
          ap_compared_claim_id = al_compared_claim_id a, ap_decision = answer,
          ap_dossier_hash = cx_dossier_hash c, ap_dossier_id = en_id (cx_dossier c),
          ap_edge_case_delta_count = int (length (al_edge_case_delta a)),
          ap_formalization_id = al_formalization_id a,
          ap_prior_status = alignment_status_value (al_status a), ap_rationale = rationale,
          ap_resolves_target =
            (al_compared_claim_id a = fz_target_claim_id f \<and> al_formalization_id a = en_id f
             \<and> pb_active_formalization_id (do_problem (cx_dossier c)) = Some (en_id f)
             \<and> strength_relation_value (al_strength_relation a) = ''equivalent''
             \<and> al_assumption_delta a = [] \<and> al_edge_case_delta a = []),
          ap_run_id = run_id,
          ap_strength_relation = strength_relation_value (al_strength_relation a)\<rparr>\<rparr>))))))"

definition approves :: "run_context \<Rightarrow> decision \<Rightarrow> bool" where
  "approves c x =
     (case dn_payload x of
        AlignmentOf p \<Rightarrow>
          ap_alignment_id p = en_id (cx_alignment c) \<and> ap_decision p = ApproveAlignment
          \<and> ap_dossier_hash p = cx_dossier_hash c
      | _ \<Rightarrow> False)"

definition approved_alignment :: "decision list \<Rightarrow> run_context \<Rightarrow> decision option" where
  "approved_alignment decisions c = find (approves c) decisions"

definition require_approved_alignment :: "decision list \<Rightarrow> run_context \<Rightarrow> str \<Rightarrow> unit review" where
  "require_approved_alignment decisions c subject =
     unless_refused (approved_alignment decisions c \<noteq> None) ''semantic_alignment_not_approved'' subject"

section \<open>3. Warrants\<close>

definition require_claim :: "run_context \<Rightarrow> opaque_id \<Rightarrow> unit review" where
  "require_claim c i =
     unless_refused (i \<in> set (map en_id (do_claims (cx_dossier c)))) ''claim_not_in_dossier'' i"

definition check_basis_supports_kind :: "warrant_basis \<Rightarrow> warrant_kind \<Rightarrow> str \<Rightarrow> unit review" where
  "check_basis_supports_kind basis kind subject =
     (case basis of
        HumanReviewBasis \<Rightarrow>
          (if kind \<in> human_review_warrant_kinds then Inr ()
           else if kind = FormalProof
             then Inl (Refused ''formal_proof_requires_kernel_attestation'' subject)
           else if kind = SourceReport
             then Inl (Refused ''source_report_requires_source_applicability_record'' subject)
           else Inl (Refused ''warrant_kind_not_reviewable'' subject))
      | FormalKernelBasis \<Rightarrow>
          unless_refused (kind \<in> formal_kernel_warrant_kinds)
            ''warrant_kind_not_supported_by_kernel_basis'' subject)"

text \<open>The verdicts of a run and dossier, in the order of the journal.\<close>

definition run_verdicts :: "decision list \<Rightarrow> run_context \<Rightarrow> (decision \<times> verdict_payload) list" where
  "run_verdicts decisions c = concat (map (\<lambda>x.
     (case dn_payload x of
        VerdictOf p \<Rightarrow>
          if vp_run_id p = cx_run_id c \<and> vp_dossier_hash p = cx_dossier_hash c then [(x, p)] else []
      | _ \<Rightarrow> [])) decisions)"

definition supporting_verdict ::
    "decision list \<Rightarrow> run_context \<Rightarrow> opaque_id \<Rightarrow> (decision \<times> verdict_payload) review" where
  "supporting_verdict decisions c claim_id =
     (let verdicts = run_verdicts decisions c;
          accepting = filter (\<lambda>(x, p). vp_verdict p = AcceptCandidate) verdicts;
          attested = filter (\<lambda>(x, p). vp_independently_checked p) accepting in
      bindE (unless_refused (verdicts \<noteq> []) ''supporting_review_verdict_missing'' claim_id) (\<lambda>_.
      bindE (unless_refused (accepting \<noteq> []) ''supporting_review_verdict_not_accepting'' claim_id) (\<lambda>_.
      bindE (unless_refused (attested \<noteq> []) ''independent_check_not_attested'' claim_id) (\<lambda>_.
      case find (\<lambda>(x, p). vp_target_claim_id p = claim_id) attested of
        None \<Rightarrow> Inl (Refused ''supporting_verdict_claim_mismatch'' claim_id)
      | Some v \<Rightarrow> Inr v))))"

text \<open>\<open>"warrant." + stable_id(...).split(".", 1)[1]\<close>; hashing raises for what cannot be encoded.\<close>

definition with_warrant_id :: "hexdigest \<Rightarrow> str \<Rightarrow> grant_payload \<Rightarrow> grant_payload review" where
  "with_warrant_id H name p =
     bindE (ensure (utf8_strings (JObj (grant_preimage p))) (Escaped UnicodeEncodeErr)) (\<lambda>_.
     Inr (p\<lparr>wg_warrant_id := ''warrant.'' @ drop (length name + 1) (stable_id H name (JObj (grant_preimage p)))\<rparr>))"

definition grant_proposal :: "reviewer \<Rightarrow> grant_payload \<Rightarrow> proposal" where
  "grant_proposal grantor p =
     \<lparr>dp_subject_id = wg_claim_id p, dp_reviewer = grantor,
      dp_idempotency_key = ''warrant-grant:'' @ wg_claim_id p @ '':'' @ wg_warrant_id p,
      dp_payload = GrantOf p\<rparr>"

definition build_human_review_warrant ::
    "hexdigest \<Rightarrow> dossier_digest \<Rightarrow> run_reader \<Rightarrow> decision list \<Rightarrow> opaque_id \<Rightarrow> opaque_id \<Rightarrow> warrant_kind
       \<Rightarrow> str \<Rightarrow> reviewer \<Rightarrow> proposal review" where
  "build_human_review_warrant H DH runs decisions run_id claim_id kind scope grantor =
     bindE (load_run_context DH runs run_id) (\<lambda>c.
     bindE (require_human grantor claim_id) (\<lambda>_.
     bindE (reject_proposal_source c grantor) (\<lambda>_.
     bindE (bounded_review_text scope claim_id) (\<lambda>_.
     bindE (unless_refused (py_strip scope \<noteq> []) ''warrant_scope_missing'' claim_id) (\<lambda>_.
     bindE (require_claim c claim_id) (\<lambda>_.
     bindE (check_basis_supports_kind HumanReviewBasis kind claim_id) (\<lambda>_.
     bindE (supporting_verdict decisions c claim_id) (\<lambda>(x, v).
     bindE (require_approved_alignment decisions c claim_id) (\<lambda>_.
     bindE (with_warrant_id H ''review''
         \<lparr>wg_backing = ByReview (vp_verifier_finding_artifact_hash v), wg_claim_id = claim_id,
          wg_dossier_hash = cx_dossier_hash c, wg_dossier_id = en_id (cx_dossier c), wg_kind = kind,
          wg_run_id = run_id, wg_scope = scope, wg_supporting_decision_ids = [dn_decision_id x],
          wg_warrant_id = []\<rparr>) (\<lambda>p.
     Inr (grant_proposal grantor p)))))))))))"

section \<open>The kernel's attestation\<close>

definition finding_self_promotion_flags :: "str list" where
  "finding_self_promotion_flags =
     [''novelty_approved'', ''semantic_alignment_approved'', ''significance_approved'',
      ''source_applicability_approved'', ''contribution_approved'']"

definition parse_formal_finding :: "bytes \<Rightarrow> str \<Rightarrow> jobject review" where
  "parse_formal_finding data subject =
     bindE (unless_refused (length data \<le> max_formal_finding_bytes) ''formal_finding_too_large'' subject) (\<lambda>_.
     bindE (load_object data ''formal_finding_unreadable'' subject) (\<lambda>v.
     case v of JObj kvs \<Rightarrow> Inr kvs | _ \<Rightarrow> Inl (Refused ''formal_finding_unreadable'' subject)))"

definition without_key :: "str \<Rightarrow> jobject \<Rightarrow> jobject" where
  "without_key k kvs = filter (\<lambda>(k', v). k' \<noteq> k) kvs"

text \<open>\<open>semantic_execution_value\<close> of \<open>phase3b/serialization.py\<close>, of a dict.\<close>

definition semantic_execution_value :: "jobject \<Rightarrow> json" where
  "semantic_execution_value kvs =
     (if get_field kvs ''termination_reason'' \<in> {JStr ''timeout'', JStr ''output_limit''}
      then JObj [(''container_removed'', get_field kvs ''container_removed''),
                 (''termination_reason'', get_field kvs ''termination_reason'')]
      else JObj (without_key ''elapsed_milliseconds'' kvs))"

text \<open>The semantic half of \<open>split_formal_finding\<close>.\<close>

definition semantic_finding :: "jobject \<Rightarrow> json" where
  "semantic_finding kvs =
     JObj (map (\<lambda>(k, v).
         (k, if k = ''execution'' then (case v of JObj e \<Rightarrow> semantic_execution_value e | _ \<Rightarrow> v) else v))
       (without_key ''created_at'' kvs))"

text \<open>The reason is looked up in a set, which a list or a dict cannot be.\<close>

definition termination_hashable :: "jobject \<Rightarrow> bool" where
  "termination_hashable kvs =
     (case get_field kvs ''execution'' of
        JObj e \<Rightarrow> (case get_field e ''termination_reason'' of JArr _ \<Rightarrow> False | JObj _ \<Rightarrow> False | _ \<Rightarrow> True)
      | _ \<Rightarrow> True)"

text \<open>The gates on a finding, in the order of the source.\<close>

definition finding_gates ::
    "(jobject \<Rightarrow> bool) \<Rightarrow> run_context \<Rightarrow> jobject \<Rightarrow> (str \<times> opaque_id) review" where
  "finding_gates validate c f =
     (let run = cx_run_id c; outcome = get_field f ''outcome''; alignment = get_field f ''semantic_alignment_id'' in
      bindE (unless_refused (get_field f ''epistemic_warrant_created'' = JBool False)
        ''finding_claims_self_granted_warrant'' run) (\<lambda>_.
      bindE (unless_refused (\<forall>flag \<in> set finding_self_promotion_flags. get_field f flag = JBool False)
        ''finding_claims_unapproved_promotion'' run) (\<lambda>_.
      bindE (unless_refused (get_field f ''disposition'' = JStr ''proposal''
          \<and> get_field f ''trust_effect'' = JStr ''none'')
        ''finding_violates_proposal_contract'' run) (\<lambda>_.
      bindE (unless_refused (validate f) ''formal_finding_invalid'' run) (\<lambda>_.
      bindE (unless_refused (outcome \<in> set (map JStr kernel_checked_outcomes))
        ''formal_check_outcome_not_kernel_checked'' run) (\<lambda>_.
      bindE (unless_refused (\<not> py_truthy (get_field f ''unapproved_assumptions''))
        ''formal_check_unapproved_assumptions'' run) (\<lambda>_.
      bindE (unless_refused (get_field f ''exact_statement_only'' = JBool True)
        ''formal_check_not_exact_statement_only'' run) (\<lambda>_.
      bindE (unless_refused (get_field f ''claim_id'' = JStr (cx_target_claim_id c))
        ''formal_finding_claim_mismatch'' run) (\<lambda>_.
      bindE (unless_refused (alignment \<noteq> JNull) ''formal_finding_has_no_semantic_alignment'' run) (\<lambda>_.
      bindE (unless_refused (alignment = JStr (en_id (cx_alignment c)))
        ''formal_finding_alignment_mismatch'' run) (\<lambda>_.
      Inr (case outcome of JStr s \<Rightarrow> s | _ \<Rightarrow> [], en_id (cx_alignment c)))))))))))))"

definition source_premises :: "run_context \<Rightarrow> claim \<Rightarrow> opaque_id list" where
  "source_premises c target =
     filter (\<lambda>i. case claim_of (cx_dossier c) i of None \<Rightarrow> False | Some p \<Rightarrow> cl_origin p = SourceOrigin)
       (cl_assumption_claim_ids target)"

text \<open>\<open>(finding.get("wrapper_manifest") or {}).get("target_hash")\<close>.\<close>

definition manifest_target_hash :: "jobject \<Rightarrow> json review" where
  "manifest_target_hash f =
     (case get_field f ''wrapper_manifest'' of
        JObj kvs \<Rightarrow> Inr (get_field kvs ''target_hash'')
      | v \<Rightarrow> if py_truthy v then Inl (Escaped (EffectRaised ''AttributeError'')) else Inr JNull)"

definition build_kernel_warrant ::
    "hexdigest \<Rightarrow> dossier_digest \<Rightarrow> (jobject \<Rightarrow> bool) \<Rightarrow> run_reader \<Rightarrow> decision list \<Rightarrow> opaque_id \<Rightarrow> bytes
       \<Rightarrow> warrant_kind \<Rightarrow> str \<Rightarrow> reviewer \<Rightarrow> proposal review" where
  "build_kernel_warrant H DH validate runs decisions run_id finding_bytes kind scope grantor =
     bindE (load_run_context DH runs run_id) (\<lambda>c.
     bindE (require_human grantor run_id) (\<lambda>_.
     bindE (bounded_review_text scope run_id) (\<lambda>_.
     bindE (unless_refused (py_strip scope \<noteq> []) ''warrant_scope_missing'' run_id) (\<lambda>_.
     bindE (check_basis_supports_kind FormalKernelBasis kind run_id) (\<lambda>_.
     bindE (parse_formal_finding finding_bytes run_id) (\<lambda>f.
     bindE (finding_gates validate c f) (\<lambda>(outcome, alignment_id).
     bindE (escaping (lookup_or_raise (claim_of (cx_dossier c)) (cx_target_claim_id c))) (\<lambda>target.
     bindE (unless_refused (source_premises c target = []) ''source_applicability_not_approved'' run_id) (\<lambda>_.
     bindE (require_approved_alignment decisions c run_id) (\<lambda>_.
     bindE (ensure (termination_hashable f) (Escaped TypeErr)) (\<lambda>_.
     bindE (ensure (\<not> has_constant (semantic_finding f)) (Escaped value_error)) (\<lambda>_.
     bindE (ensure (utf8_strings (semantic_finding f)) (Escaped UnicodeEncodeErr)) (\<lambda>_.
     bindE (manifest_target_hash f) (\<lambda>target_hash.
     bindE (with_warrant_id H ''kernel''
         \<lparr>wg_backing = ByKernel
            \<lparr>kp_content_hash = get_field f ''content_hash'', kp_finding_id = get_field f ''id'',
             kp_outcome = outcome, kp_semantic_alignment_id = alignment_id,
             kp_semantic_json = canonical_bytes (semantic_finding f), kp_target_hash = target_hash\<rparr>,
          wg_claim_id = cx_target_claim_id c, wg_dossier_hash = cx_dossier_hash c,
          wg_dossier_id = en_id (cx_dossier c), wg_kind = kind, wg_run_id = run_id, wg_scope = scope,
          wg_supporting_decision_ids = [], wg_warrant_id = []\<rparr>) (\<lambda>p.
     Inr (grant_proposal grantor p))))))))))))))))"

section \<open>4. Obligations\<close>

text \<open>\<open>granted_warrants\<close>: the last grant of an identifier for this dossier.\<close>

definition granted_warrants :: "decision list \<Rightarrow> run_context \<Rightarrow> (decision \<times> grant_payload) list" where
  "granted_warrants decisions c = concat (map (\<lambda>x.
     (case dn_payload x of
        GrantOf p \<Rightarrow> if wg_dossier_hash p = cx_dossier_hash c then [(x, p)] else []
      | _ \<Rightarrow> [])) decisions)"

definition build_obligation_discharge ::
    "dossier_digest \<Rightarrow> run_reader \<Rightarrow> decision list \<Rightarrow> opaque_id \<Rightarrow> opaque_id \<Rightarrow> str \<Rightarrow> reviewer \<Rightarrow> str
       \<Rightarrow> proposal review" where
  "build_obligation_discharge DH runs decisions run_id obligation_id warrant_id r rationale =
     bindE (load_run_context DH runs run_id) (\<lambda>c.
     bindE (require_human r obligation_id) (\<lambda>_.
     bindE (bounded_review_text rationale obligation_id) (\<lambda>_.
     case obligation_of (cx_dossier c) obligation_id of
       None \<Rightarrow> Inl (Refused ''obligation_not_found'' obligation_id)
     | Some b \<Rightarrow>
         bindE (unless_refused (ob_status b = ObligationOpen) ''obligation_not_open'' obligation_id) (\<lambda>_.
         (case by_key (\<lambda>(x, p). wg_warrant_id p) (granted_warrants decisions c) warrant_id of
            None \<Rightarrow> Inl (Refused ''warrant_not_found'' obligation_id)
          | Some (x, p) \<Rightarrow>
              bindE (unless_refused (wg_claim_id p = ob_claim_id b)
                ''warrant_does_not_cover_obligation_claim'' obligation_id) (\<lambda>_.
              bindE (unless_refused (ob_category b \<noteq> ''literature_applicability'')
                ''obligation_category_requires_applicability_record'' obligation_id) (\<lambda>_.
              bindE (if ob_category b = ''semantic_alignment''
                  then require_approved_alignment decisions c obligation_id else Inr ()) (\<lambda>_.
              Inr \<lparr>dp_subject_id = obligation_id, dp_reviewer = r,
                dp_idempotency_key = ''obligation-discharge:'' @ obligation_id @ '':'' @ warrant_id,
                dp_payload = DischargeOf
                  \<lparr>dc_claim_id = ob_claim_id b, dc_warrant_id = warrant_id,
                   dc_dossier_hash = cx_dossier_hash c, dc_dossier_id = en_id (cx_dossier c),
                   dc_category = ob_category b, dc_obligation_id = obligation_id,
                   dc_prior_status = obligation_status_value (ob_status b), dc_rationale = rationale,
                   dc_run_id = run_id, dc_grant_decision_id = dn_decision_id x\<rparr>\<rparr>))))))))"

end
