(* ===== verification/Review_Journal.thy ===== *)
theory Review_Journal
  imports Review_Decisions
begin

text \<open>
  \<open>review/journal.py\<close>: the append-only journal.  The table is the list of its rows in the order of
  their sequence numbers; the constraints of the schema under \<open>migrations/review\<close> that an insert can
  violate raise \<open>IntegrityError\<close>.  The operational hash and the table of refusals are left out.
\<close>

section \<open>Hashes of a record\<close>

text \<open>\<open>semantic_record_preimage\<close>: without the hashes, the sequence number and the instant.\<close>

definition decision_preimage :: "decision \<Rightarrow> json" where
  "decision_preimage x =
     JObj [(''schema_version'', JStr review_schema_version),
       (''hash_profile'', JStr review_hash_profile),
       (''decision_id'', JStr (dn_decision_id x)),
       (''decision_kind'', JStr (decision_kind_value (payload_kind (dn_payload x)))),
       (''subject_id'', JStr (dn_subject_id x)),
       (''reviewer'', reviewer_value (dn_reviewer x)),
       (''idempotency_key'', JStr (dn_idempotency_key x)),
       (''payload'', JObj (payload_value (dn_payload x)))]"

definition decision_finalized :: "hexdigest \<Rightarrow> decision \<Rightarrow> decision" where
  "decision_finalized H x = x\<lparr>dn_content_hash := canonical_hash H (decision_preimage x)\<rparr>"

section \<open>append_once\<close>

definition next_sequence :: "decision list \<Rightarrow> nat" where
  "next_sequence rows = foldr max (map (\<lambda>x. Suc (dn_sequence x)) rows) 0"

definition candidate_decision :: "hexdigest \<Rightarrow> decision list \<Rightarrow> proposal \<Rightarrow> str \<Rightarrow> decision" where
  "candidate_decision H rows p recorded_at = decision_finalized H
     \<lparr>dn_decision_id = stable_id H ''review-decision'' (proposal_identity p),
      dn_subject_id = dp_subject_id p, dn_reviewer = dp_reviewer p,
      dn_idempotency_key = dp_idempotency_key p, dn_payload = dp_payload p,
      dn_sequence = next_sequence rows, dn_recorded_at = recorded_at, dn_content_hash = []\<rparr>"

text \<open>The constraints of the table that a new row may violate.\<close>

definition row_admissible :: "decision list \<Rightarrow> decision \<Rightarrow> bool" where
  "row_admissible rows x \<longleftrightarrow>
     rv_kind (dn_reviewer x) = HumanReviewer
     \<and> dn_decision_id x \<notin> set (map dn_decision_id rows)
     \<and> dn_idempotency_key x \<notin> set (map dn_idempotency_key rows)
     \<and> dn_content_hash x \<notin> set (map dn_content_hash rows)
     \<and> dn_sequence x \<notin> set (map dn_sequence rows)"

text \<open>The result is the record, whether it was appended, and the journal after it.\<close>

definition journal_append ::
    "hexdigest \<Rightarrow> proposal \<Rightarrow> str \<Rightarrow> decision list \<Rightarrow> (decision \<times> bool) review \<times> decision list" where
  "journal_append H p recorded_at rows =
     (if \<not> json_native (proposal_identity p) then (Inl (Escaped TypeErr), rows)
      else if \<not> utf8_strings (proposal_identity p) then (Inl (Escaped UnicodeEncodeErr), rows)
      else
        (let x = candidate_decision H rows p recorded_at in
         case find (\<lambda>y. dn_idempotency_key y = dp_idempotency_key p) rows of
           Some stored \<Rightarrow>
             (if dn_content_hash stored \<noteq> dn_content_hash x
              then Inl (Refused ''idempotency_key_conflict'' (dp_subject_id p))
              else Inr (stored, False), rows)
         | None \<Rightarrow>
             (case find (\<lambda>y. dn_decision_id y = dn_decision_id x) rows of
                Some stored \<Rightarrow> (Inr (stored, False), rows)
              | None \<Rightarrow>
                  if max_decisions \<le> dn_sequence x
                  then (Inl (Refused ''decision_limit_exceeded'' (dp_subject_id p)), rows)
                  else if \<not> row_admissible rows x
                  then (Inl (Escaped (EffectRaised ''IntegrityError'')), rows)
                  else (Inr (x, True), rows @ [x]))))"

section \<open>export\<close>

record journal_export =
  je_decisions :: "decision list"
  je_content_hash :: str

text \<open>\<open>semantic_export_hash\<close>, without the refusals.\<close>

definition journal_content_hash :: "hexdigest \<Rightarrow> json \<Rightarrow> decision list \<Rightarrow> str" where
  "journal_content_hash H refusals ordered =
     canonical_hash H (JObj
       [(''schema_version'', JStr ''adaivy.review-journal.v1''),
        (''record_type'', JStr ''review_decision_journal''),
        (''hash_profile'', JStr review_hash_profile),
        (''decisions'', JArr (map decision_preimage ordered)),
        (''refusals'', refusals)])"

definition export_journal :: "hexdigest \<Rightarrow> json \<Rightarrow> decision list \<Rightarrow> journal_export" where
  "export_journal H refusals rows =
     (let ordered = sort_key dn_decision_id rows in
      \<lparr>je_decisions = ordered, je_content_hash = journal_content_hash H refusals ordered\<rparr>)"

section \<open>Appending\<close>

lemma journal_append_cases:
  "journal_append H p recorded_at rows = (r, rows') \<Longrightarrow>
     rows' = rows \<or>
     (\<exists>x. r = Inr (x, True) \<and> rows' = rows @ [x] \<and> x = candidate_decision H rows p recorded_at
        \<and> row_admissible rows x)"
  by (auto simp: journal_append_def Let_def split: option.splits if_splits)

lemma candidate_decision_fields [simp]:
  "dn_payload (candidate_decision H rows p t) = dp_payload p"
  "dn_reviewer (candidate_decision H rows p t) = dp_reviewer p"
  "dn_decision_id (candidate_decision H rows p t) = stable_id H ''review-decision'' (proposal_identity p)"
  "dn_idempotency_key (candidate_decision H rows p t) = dp_idempotency_key p"
  by (simp_all add: candidate_decision_def decision_finalized_def)

end
