(* ===== verification/Review_Projection.thy ===== *)
theory Review_Projection
  imports Review_Journal "HOL-Library.AList"
begin

text \<open>
  \<open>review/projection.py\<close>: the successor dossier of a journal.  The decisions of the run are applied in
  the order of their identifiers, each by one step on \<open>projected\<close>; the dossier itself never changes.
\<close>

section \<open>The environment\<close>

text \<open>
  \<open>pe_parse\<close> is \<open>datetime.fromisoformat\<close>, \<open>pe_text\<close> the text of an instant in microseconds, \<open>pe_repr\<close>
  the text of a value that is no string, number or constant.
\<close>

record projection_env =
  pe_digest :: hexdigest
  pe_dossier_hash :: dossier_digest
  pe_parse :: "str \<Rightarrow> timestamp option"
  pe_text :: "timestamp \<Rightarrow> str"
  pe_repr :: "json \<Rightarrow> str"

definition review_capability :: str where
  "review_capability = ''human_review_decision_journal''"

fun evidence_disposition :: "review_verdict \<Rightarrow> disposition" where
  "evidence_disposition AcceptCandidate = Accepted"
| "evidence_disposition RejectCandidate = Rejected"
| "evidence_disposition InconclusiveReview = Proposal"

fun verdict_outcome :: "review_verdict \<Rightarrow> verification_outcome" where
  "verdict_outcome AcceptCandidate = Passed"
| "verdict_outcome RejectCandidate = FailedCheck"
| "verdict_outcome InconclusiveReview = Inconclusive"

definition lower_bool :: "bool \<Rightarrow> str" where
  "lower_bool b = (if b then ''true'' else ''false'')"

text \<open>\<open>decision_id.split(".", 1)[1]\<close>.\<close>

definition id_suffix :: "str \<Rightarrow> str review" where
  "id_suffix s =
     (case dropWhile (\<lambda>c. c \<noteq> CHR ''.'') s of
        [] \<Rightarrow> Inl (Escaped (EffectRaised ''IndexError''))
      | _ # rest \<Rightarrow> Inr rest)"

definition offset_for_z :: "str \<Rightarrow> str" where
  "offset_for_z s = concat (map (\<lambda>c. if c = CHR ''Z'' then ''+00:00'' else [c]) s)"

definition instant :: "projection_env \<Rightarrow> str \<Rightarrow> str \<Rightarrow> timestamp review" where
  "instant env s subject =
     (case pe_parse env (offset_for_z s) of
        None \<Rightarrow> Inl (Refused ''recorded_instant_malformed'' subject)
      | Some (Naive _) \<Rightarrow> Inl (Refused ''recorded_instant_naive'' subject)
      | Some t \<Rightarrow> Inr t)"

definition parse_instant :: "projection_env \<Rightarrow> str \<Rightarrow> timestamp review" where
  "parse_instant env s =
     bindE (unless_refused (s \<noteq> [] \<and> last s = CHR ''Z'') ''instant_not_utc'' s) (\<lambda>_. instant env s s)"

definition audit_event_of ::
    "str \<Rightarrow> timestamp \<Rightarrow> opaque_id \<Rightarrow> opaque_id \<Rightarrow> str \<Rightarrow> (str \<times> str) list \<Rightarrow> str \<Rightarrow> audit_event review" where
  "audit_event_of event_id stamp actor aggregate event_type payload key =
     bindE (escaping (oid event_id)) (\<lambda>i.
     let e = \<lparr>en_id = i, en_created_at = stamp, en_created_by = actor,
         en_schema_version = entity_schema_version, ae_aggregate_id = aggregate, ae_event_type = event_type,
         ae_payload = sort_key fst payload, ae_idempotency_key = key\<rparr> in
     bindE (escaping (entity_post_init e)) (\<lambda>_. Inr e))"

section \<open>One decision\<close>

record projected =
  pj_evidence :: "evidence list"
  pj_verifications :: "verification_record list"
  pj_warrants :: "warrant list"
  pj_events :: "audit_event list"
  pj_verdicts :: "str \<rightharpoonup> opaque_id \<times> opaque_id"
  pj_discharges :: "(opaque_id \<times> decision) list"
  pj_alignment :: "decision option"

definition nothing_projected :: projected where
  "nothing_projected =
     \<lparr>pj_evidence = [], pj_verifications = [], pj_warrants = [], pj_events = [],
      pj_verdicts = Map.empty, pj_discharges = [], pj_alignment = None\<rparr>"

text \<open>Who took a decision, when, and the suffix its entities are named with.\<close>

record signature =
  sg_actor :: opaque_id
  sg_stamp :: timestamp
  sg_suffix :: str

definition signature_of :: "projection_env \<Rightarrow> decision \<Rightarrow> signature review" where
  "signature_of env x =
     bindE (escaping (oid (rv_id (dn_reviewer x)))) (\<lambda>actor.
     bindE (instant env (dn_recorded_at x) (dn_decision_id x)) (\<lambda>stamp.
     bindE (id_suffix (dn_decision_id x)) (\<lambda>suffix.
     Inr \<lparr>sg_actor = actor, sg_stamp = stamp, sg_suffix = suffix\<rparr>)))"

definition review_event ::
    "decision \<Rightarrow> signature \<Rightarrow> str \<Rightarrow> str \<Rightarrow> (str \<times> str) list \<Rightarrow> audit_event review" where
  "review_event x g aggregate event_type payload =
     bindE (escaping (oid aggregate)) (\<lambda>i.
     audit_event_of (''event.review.'' @ sg_suffix g) (sg_stamp g) (sg_actor g) i event_type payload
       (''review-decision:'' @ dn_decision_id x))"

text \<open>A piece of evidence about a claim and the check made on it, which both bases build alike.\<close>

definition evidence_and_check ::
    "projection_env \<Rightarrow> signature \<Rightarrow> str \<Rightarrow> claim \<Rightarrow> opaque_id \<Rightarrow> evidence_kind \<Rightarrow> str \<Rightarrow> str \<Rightarrow> disposition
       \<Rightarrow> str \<Rightarrow> verification_outcome \<Rightarrow> str list \<Rightarrow> (evidence \<times> verification_record) review" where
  "evidence_and_check env g tag c claim_id kind body ref disp verifier outcome notes =
     bindE (escaping (oid (''evidence.'' @ tag @ ''.'' @ sg_suffix g))) (\<lambda>ei.
     bindE (escaping (statement_hash (pe_digest env) body)) (\<lambda>body_hash.
     bindE (escaping (oid (''verification.'' @ tag @ ''.'' @ sg_suffix g))) (\<lambda>vi.
     bindE (escaping (statement_hash (pe_digest env) (cl_statement c))) (\<lambda>claim_hash.
     Inr
       (\<lparr>en_id = ei, en_created_at = sg_stamp g, en_created_by = sg_actor g,
          en_schema_version = entity_schema_version, ev_claim_id = claim_id, ev_kind = kind,
          ev_content = body, ev_artifact_hash = body_hash, ev_source_ref = Some ref,
          ev_disposition = disp\<rparr>,
        \<lparr>en_id = vi, en_created_at = sg_stamp g, en_created_by = sg_actor g,
          en_schema_version = entity_schema_version, vr_claim_id = claim_id,
          vr_verifier_kind = verifier, vr_outcome = outcome, vr_evidence_ids = [ei],
          vr_target_statement_hash = claim_hash, vr_independent_from_proposer = True,
          vr_disposition = Accepted, vr_notes = notes\<rparr>)))))"

subsection \<open>A verdict\<close>

definition verdict_evidence_text :: "projection_env \<Rightarrow> decision \<Rightarrow> verdict_payload \<Rightarrow> str" where
  "verdict_evidence_text env x p = join [CHR 0x0A]
     [''human review of a Phase 2 verifier finding'',
      ''review_decision_id: '' @ dn_decision_id x,
      ''reviewer: '' @ rv_id (dn_reviewer x),
      ''reviewer_attestation: '' @ rv_attestation (dn_reviewer x),
      ''verdict: '' @ verdict_value (vp_verdict p),
      ''independently_checked: '' @ lower_bool (vp_independently_checked p),
      ''rationale: '' @ vp_rationale p,
      ''run_id: '' @ vp_run_id p,
      ''verifier_finding_artifact_hash: '' @ vp_verifier_finding_artifact_hash p,
      ''candidate_artifact_hash: '' @ py_str (pe_repr env) (vp_candidate_artifact_hash p),
      ''verifier_recommendation (input, not a verdict): ''
        @ py_str (pe_repr env) (vp_verifier_recommendation p)]"

definition project_verdict ::
    "projection_env \<Rightarrow> research_dossier \<Rightarrow> decision \<Rightarrow> verdict_payload \<Rightarrow> signature \<Rightarrow> projected
       \<Rightarrow> projected review" where
  "project_verdict env d x p g acc =
     bindE (escaping (oid (vp_target_claim_id p))) (\<lambda>claim_id.
     bindE (escaping (lookup_or_raise (claim_of d) claim_id)) (\<lambda>c.
     bindE (evidence_and_check env g ''review'' c claim_id ModelOutput (verdict_evidence_text env x p)
         (''phase2:run/'' @ vp_run_id p @ ''/proposal/'' @ vp_verifier_finding_proposal_id p)
         (evidence_disposition (vp_verdict p)) ''human_review'' (verdict_outcome (vp_verdict p))
         [''reviewer='' @ rv_id (dn_reviewer x),
          ''attestation='' @ rv_attestation (dn_reviewer x),
          ''independently_checked='' @ lower_bool (vp_independently_checked p),
          ''verifier_recommendation='' @ py_str (pe_repr env) (vp_verifier_recommendation p),
          ''review_decision_id='' @ dn_decision_id x]) (\<lambda>(e, v).
     bindE (review_event x g (vp_run_id p) ''review_verdict_recorded''
         [(''decision_id'', dn_decision_id x),
          (''independently_checked'', lower_bool (vp_independently_checked p)),
          (''reviewer'', rv_id (dn_reviewer x)),
          (''verdict'', verdict_value (vp_verdict p)),
          (''verifier_recommendation'', py_str (pe_repr env) (vp_verifier_recommendation p))]) (\<lambda>event.
     Inr (acc\<lparr>pj_evidence := pj_evidence acc @ [e], pj_verifications := pj_verifications acc @ [v],
       pj_verdicts := (pj_verdicts acc)(dn_decision_id x \<mapsto> (en_id e, en_id v)),
       pj_events := pj_events acc @ [event]\<rparr>)))))"

subsection \<open>An alignment\<close>

definition project_alignment ::
    "decision \<Rightarrow> alignment_payload \<Rightarrow> signature \<Rightarrow> projected \<Rightarrow> projected review" where
  "project_alignment x p g acc =
     bindE (review_event x g (ap_alignment_id p) ''semantic_alignment_decided''
         [(''approver'', rv_id (dn_reviewer x)),
          (''decision'', alignment_decision_value (ap_decision p)),
          (''decision_id'', dn_decision_id x), (''prior_status'', ap_prior_status p),
          (''resolves_target_under_trust_policy'', lower_bool (ap_resolves_target p))]) (\<lambda>event.
     Inr (acc\<lparr>pj_alignment := Some x, pj_events := pj_events acc @ [event]\<rparr>))"

subsection \<open>A warrant\<close>

definition kernel_entities ::
    "projection_env \<Rightarrow> decision \<Rightarrow> grant_payload \<Rightarrow> kernel_payload \<Rightarrow> signature \<Rightarrow> claim \<Rightarrow> opaque_id
       \<Rightarrow> (evidence \<times> verification_record) review" where
  "kernel_entities env x p k g c claim_id =
     evidence_and_check env g ''kernel'' c claim_id FormalArtifact (kp_semantic_json k)
       (''phase3b:finding/'' @ py_str (pe_repr env) (kp_finding_id k)) Accepted ''lean_kernel_phase3b'' Passed
       [''formal_finding_id='' @ py_str (pe_repr env) (kp_finding_id k),
        ''formal_finding_outcome='' @ kp_outcome k,
        ''formal_target_hash='' @ py_str (pe_repr env) (kp_target_hash k),
        ''semantic_alignment_id='' @ kp_semantic_alignment_id k,
        ''the kernel checked the formal target; the identification of that target ''
          @ ''with this claim rests on the approved semantic alignment, not on the kernel'',
        ''granted_by='' @ rv_id (dn_reviewer x)]"

text \<open>What backs the warrant: the new entities, and the identifiers it names.\<close>

definition warrant_support ::
    "projection_env \<Rightarrow> decision \<Rightarrow> grant_payload \<Rightarrow> signature \<Rightarrow> claim \<Rightarrow> opaque_id \<Rightarrow> projected
       \<Rightarrow> ((evidence \<times> verification_record) list \<times> (opaque_id \<times> opaque_id) list) review" where
  "warrant_support env x p g c claim_id acc =
     (case wg_backing p of
        ByKernel k \<Rightarrow>
          bindE (kernel_entities env x p k g c claim_id) (\<lambda>(e, v).
          Inr ([(e, v)], [(en_id e, en_id v)]))
      | ByReview _ \<Rightarrow>
          bindE (unless_refused (\<forall>i \<in> set (wg_supporting_decision_ids p). pj_verdicts acc i \<noteq> None)
            ''supporting_decision_not_projected'' (wg_claim_id p)) (\<lambda>_.
          Inr ([], map (\<lambda>i. the (pj_verdicts acc i)) (wg_supporting_decision_ids p))))"

definition project_grant ::
    "projection_env \<Rightarrow> research_dossier \<Rightarrow> decision \<Rightarrow> grant_payload \<Rightarrow> signature \<Rightarrow> projected
       \<Rightarrow> projected review" where
  "project_grant env d x p g acc =
     bindE (escaping (oid (wg_claim_id p))) (\<lambda>claim_id.
     bindE (escaping (lookup_or_raise (claim_of d) claim_id)) (\<lambda>c.
     bindE (warrant_support env x p g c claim_id acc) (\<lambda>(entities, support).
     bindE (escaping (oid (wg_warrant_id p))) (\<lambda>warrant_id.
     bindE (review_event x g claim_id ''epistemic_warrant_granted''
         [(''basis'', warrant_basis_value (basis_of (wg_backing p))), (''decision_id'', dn_decision_id x),
          (''granted_by'', rv_id (dn_reviewer x)), (''kind'', warrant_kind_value (wg_kind p)),
          (''warrant_id'', wg_warrant_id p)]) (\<lambda>event.
     Inr (acc\<lparr>pj_evidence := pj_evidence acc @ map fst entities,
       pj_verifications := pj_verifications acc @ map snd entities,
       pj_warrants := pj_warrants acc @
         [\<lparr>en_id = warrant_id, en_created_at = sg_stamp g, en_created_by = sg_actor g,
           en_schema_version = entity_schema_version, wr_claim_id = claim_id, wr_kind = wg_kind p,
           wr_scope = wg_scope p, wr_evidence_ids = map fst support,
           wr_verification_record_ids = map snd support, wr_status = ActiveWarrant\<rparr>],
       pj_events := pj_events acc @ [event]\<rparr>))))))"

subsection \<open>An obligation\<close>

definition project_discharge ::
    "decision \<Rightarrow> discharge_payload \<Rightarrow> signature \<Rightarrow> projected \<Rightarrow> projected review" where
  "project_discharge x p g acc =
     bindE (review_event x g (dc_obligation_id p) ''proof_obligation_discharged''
         [(''decision_id'', dn_decision_id x), (''discharged_by'', rv_id (dn_reviewer x)),
          (''discharged_by_warrant_id'', dc_warrant_id p), (''prior_status'', dc_prior_status p)]) (\<lambda>event.
     Inr (acc\<lparr>pj_discharges := AList.update (dc_obligation_id p) x (pj_discharges acc),
       pj_events := pj_events acc @ [event]\<rparr>))"

definition project_decision ::
    "projection_env \<Rightarrow> research_dossier \<Rightarrow> decision \<Rightarrow> projected \<Rightarrow> projected review" where
  "project_decision env d x acc =
     bindE (signature_of env x) (\<lambda>g.
     case dn_payload x of
       VerdictOf p \<Rightarrow> project_verdict env d x p g acc
     | AlignmentOf p \<Rightarrow> project_alignment x p g acc
     | GrantOf p \<Rightarrow> project_grant env d x p g acc
     | DischargeOf p \<Rightarrow> project_discharge x p g acc)"

fun project_all ::
    "projection_env \<Rightarrow> research_dossier \<Rightarrow> decision list \<Rightarrow> projected \<Rightarrow> projected review" where
  "project_all env d [] acc = Inr acc"
| "project_all env d (x # xs) acc = bindE (project_decision env d x acc) (project_all env d xs)"

section \<open>The successor\<close>

definition discharging_warrant :: "decision \<Rightarrow> str" where
  "discharging_warrant x = (case dn_payload x of DischargeOf p \<Rightarrow> dc_warrant_id p | _ \<Rightarrow> [])"

definition update_obligation :: "projected \<Rightarrow> proof_obligation \<Rightarrow> proof_obligation review" where
  "update_obligation acc b =
     (case map_of (pj_discharges acc) (en_id b) of
        None \<Rightarrow> Inr b
      | Some x \<Rightarrow>
          bindE (unless_refused (discharging_warrant x \<in> set (map en_id (pj_warrants acc)))
            ''discharging_warrant_not_projected'' (en_id b)) (\<lambda>_.
          bindE (escaping (oid (discharging_warrant x))) (\<lambda>w.
          Inr (b\<lparr>ob_status := Discharged, ob_discharged_by_warrant_id := Some w\<rparr>))))"

definition approving :: "decision \<Rightarrow> bool" where
  "approving x = (case dn_payload x of AlignmentOf p \<Rightarrow> ap_decision p = ApproveAlignment | _ \<Rightarrow> False)"

definition update_alignment :: "decision option \<Rightarrow> semantic_alignment \<Rightarrow> semantic_alignment review" where
  "update_alignment update a =
     (case update of
        None \<Rightarrow> Inr a
      | Some x \<Rightarrow>
          bindE (escaping (oid (rv_id (dn_reviewer x)))) (\<lambda>actor.
          Inr (a\<lparr>al_status := (if approving x then ResearcherApproved else AlignmentDisputed),
            al_approved_by := Some actor\<rparr>)))"

record successor_projection =
  sp_prior_dossier_id :: opaque_id
  sp_prior_dossier_hash :: str
  sp_successor :: research_dossier
  sp_successor_hash :: str
  sp_journal_hash :: str
  sp_applied_decision_ids :: "str list"
  sp_reviewers :: "str list"
  sp_derived_counts :: "(str \<times> nat) list"

text \<open>The decisions of the run, all of them on the dossier it holds, with the projector among the reviewers.\<close>

definition scoped_decisions ::
    "run_context \<Rightarrow> decision list \<Rightarrow> opaque_id \<Rightarrow> decision list review" where
  "scoped_decisions c decisions projected_by =
     (let run = cx_run_id c;
          scoped = filter (\<lambda>x. payload_run_id (dn_payload x) = run) decisions in
      bindE (unless_refused (decisions \<noteq> []) ''journal_empty'' run) (\<lambda>_.
      bindE (unless_refused (scoped \<noteq> []) ''no_decision_for_run'' run) (\<lambda>_.
      bindE (unless_refused
          (\<forall>x \<in> set scoped. payload_dossier_hash (dn_payload x) = cx_dossier_hash c)
        ''decision_dossier_hash_mismatch'' run) (\<lambda>_.
      bindE (unless_refused (projected_by \<in> set (map (\<lambda>x. rv_id (dn_reviewer x)) scoped))
        ''projector_not_a_journal_reviewer'' run) (\<lambda>_.
      Inr scoped)))))"

definition reviewers_of :: "decision list \<Rightarrow> str list" where
  "reviewers_of scoped = sort (remdups (map (\<lambda>x. rv_id (dn_reviewer x)) scoped))"

definition projection_identity ::
    "projection_env \<Rightarrow> run_context \<Rightarrow> str list \<Rightarrow> str \<Rightarrow> timestamp \<Rightarrow> opaque_id \<Rightarrow> str review" where
  "projection_identity env c applied journal_hash projected_at projected_by =
     (let v = JObj
        [(''applied_decision_ids'', jstrs applied), (''journal_hash'', JStr journal_hash),
         (''prior_dossier_hash'', JStr (cx_dossier_hash c)),
         (''projected_at'', JStr (pe_text env projected_at)), (''projected_by'', JStr projected_by),
         (''schema_version'', JStr successor_schema_version)] in
      bindE (ensure (utf8_strings v) (Escaped UnicodeEncodeErr)) (\<lambda>_.
      Inr (canonical_hash (pe_digest env) v)))"

definition projection_event ::
    "run_context \<Rightarrow> decision list \<Rightarrow> projected \<Rightarrow> str \<Rightarrow> str \<Rightarrow> timestamp \<Rightarrow> opaque_id \<Rightarrow> audit_event review" where
  "projection_event c scoped acc journal_hash ident projected_at projected_by =
     audit_event_of (''event.review-projection.'' @ take 16 (drop 7 ident)) projected_at projected_by
       (en_id (cx_dossier c)) ''review_journal_projected''
       [(''applied_decision_count'', nat_str (length scoped)),
        (''journal_semantic_hash'', journal_hash),
        (''prior_dossier_hash'', cx_dossier_hash c), (''prior_dossier_id'', en_id (cx_dossier c)),
        (''projected_by'', projected_by), (''reviewers'', join '','' (reviewers_of scoped)),
        (''successor_schema_version'', successor_schema_version),
        (''warrants_granted'', nat_str (length (pj_warrants acc)))]
       (''review-projection:'' @ cx_dossier_hash c @ '':'' @ ident)"

definition successor_dossier ::
    "research_dossier \<Rightarrow> projected \<Rightarrow> proof_obligation list \<Rightarrow> semantic_alignment \<Rightarrow> audit_event
       \<Rightarrow> opaque_id \<Rightarrow> research_dossier" where
  "successor_dossier d acc obligations alignment event i =
     \<lparr>en_id = i, en_created_at = en_created_at event, en_created_by = en_created_by event,
      en_schema_version = entity_schema_version,
      do_problem = do_problem d, do_formalization = do_formalization d, do_alignment = alignment,
      do_claims = do_claims d, do_warrants = sort_key en_id (pj_warrants acc),
      do_evidence = sort_key en_id (pj_evidence acc),
      do_source_applicability = do_source_applicability d,
      do_obligations = sort_key en_id obligations,
      do_representation_maps = do_representation_maps d,
      do_verification_records = sort_key en_id (pj_verifications acc),
      do_evaluation_protocol = do_evaluation_protocol d,
      do_audit_events = do_audit_events d @ sort_key en_id (pj_events acc) @ [event],
      do_capabilities = sort (remdups (do_capabilities d @ [review_capability]))\<rparr>"

definition build_successor ::
    "projection_env \<Rightarrow> run_reader \<Rightarrow> opaque_id \<Rightarrow> journal_export \<Rightarrow> timestamp \<Rightarrow> opaque_id
       \<Rightarrow> successor_projection review" where
  "build_successor env runs run_id export projected_at projected_by =
     bindE (load_run_context (pe_dossier_hash env) runs run_id) (\<lambda>c.
     bindE (scoped_decisions c (je_decisions export) projected_by) (\<lambda>scoped.
     let ordered = sort_key dn_decision_id scoped; applied = map dn_decision_id ordered; d = cx_dossier c in
     bindE (project_all env d ordered nothing_projected) (\<lambda>acc.
     bindE (mapE (update_obligation acc) (do_obligations d)) (\<lambda>obligations.
     bindE (update_alignment (pj_alignment acc) (do_alignment d)) (\<lambda>alignment.
     bindE (projection_identity env c applied (je_content_hash export) projected_at projected_by) (\<lambda>ident.
     bindE (projection_event c scoped acc (je_content_hash export) ident projected_at projected_by) (\<lambda>event.
     bindE (escaping (oid (en_id d @ ''.review.sha256-'' @ take 16 (drop 7 ident)))) (\<lambda>i.
     let successor = successor_dossier d acc obligations alignment event i in
     bindE (unless_refused (pe_dossier_hash env successor \<noteq> cx_dossier_hash c)
       ''successor_hash_unchanged'' run_id) (\<lambda>_.
     Inr
       \<lparr>sp_prior_dossier_id = en_id d, sp_prior_dossier_hash = cx_dossier_hash c,
        sp_successor = successor, sp_successor_hash = pe_dossier_hash env successor,
        sp_journal_hash = je_content_hash export, sp_applied_decision_ids = applied,
        sp_reviewers = reviewers_of scoped,
        sp_derived_counts =
          [(''audit_events'', length (pj_events acc) + 1), (''evidence'', length (pj_evidence acc)),
           (''obligations_discharged'', length (pj_discharges acc)),
           (''verification_records'', length (pj_verifications acc)),
           (''warrants'', length (pj_warrants acc))]\<rparr>)))))))))"

end
