(* ===== verification/Review_Trail.thy ===== *)
theory Review_Trail
  imports Review_Projection Trust_Store
begin

text \<open>
  The journals the review surface can produce: every row is a proposal that one of the builders of
  \<open>review/decisions.py\<close> let through on the journal before it, appended by \<open>append_once\<close>.  The
  invariant of such a journal is the contract of ADR 0042: who may decide, and what a warrant rests on.
\<close>

section \<open>Reachable journals\<close>

inductive proposed ::
    "hexdigest \<Rightarrow> dossier_digest \<Rightarrow> (jobject \<Rightarrow> bool) \<Rightarrow> decision list \<Rightarrow> proposal \<Rightarrow> bool"
  for H DH validate rows where
  verdict: "build_review_verdict H DH runs artifacts run_id r verdict checked rationale = Inr (p, loaded)
    \<Longrightarrow> proposed H DH validate rows p"
| alignment: "build_alignment_decision DH runs run_id i approver answer rationale = Inr p
    \<Longrightarrow> proposed H DH validate rows p"
| review_warrant: "build_human_review_warrant H DH runs rows run_id claim_id kind scope grantor = Inr p
    \<Longrightarrow> proposed H DH validate rows p"
| kernel_warrant: "build_kernel_warrant H DH validate runs rows run_id finding kind scope grantor = Inr p
    \<Longrightarrow> proposed H DH validate rows p"
| discharge: "build_obligation_discharge DH runs rows run_id i warrant_id r rationale = Inr p
    \<Longrightarrow> proposed H DH validate rows p"

inductive reviewed :: "hexdigest \<Rightarrow> dossier_digest \<Rightarrow> (jobject \<Rightarrow> bool) \<Rightarrow> decision list \<Rightarrow> bool"
  for H DH validate where
  empty: "reviewed H DH validate []"
| step: "reviewed H DH validate rows \<Longrightarrow> proposed H DH validate rows p
    \<Longrightarrow> journal_append H p recorded_at rows = (r, rows') \<Longrightarrow> reviewed H DH validate rows'"

inductive_cases proposedE: "proposed H DH validate rows p"

section \<open>The contract\<close>

text \<open>A decision a named human stands for.\<close>

definition human_signed :: "reviewer \<Rightarrow> bool" where
  "human_signed r \<longleftrightarrow> rv_kind r = HumanReviewer \<and> py_strip (rv_attestation r) \<noteq> []"

definition meaning_approved :: "decision list \<Rightarrow> str \<Rightarrow> bool" where
  "meaning_approved rows hash \<longleftrightarrow>
     (\<exists>z \<in> set rows. \<exists>q. dn_payload z = AlignmentOf q \<and> ap_decision q = ApproveAlignment
        \<and> ap_dossier_hash q = hash)"

definition accepting_verdict :: "decision list \<Rightarrow> str \<Rightarrow> opaque_id \<Rightarrow> decision \<Rightarrow> bool" where
  "accepting_verdict rows hash claim_id y \<longleftrightarrow>
     y \<in> set rows \<and> (\<exists>v. dn_payload y = VerdictOf v \<and> vp_verdict v = AcceptCandidate
       \<and> vp_independently_checked v \<and> vp_dossier_hash v = hash \<and> vp_target_claim_id v = claim_id)"

definition well_backed :: "decision list \<Rightarrow> grant_payload \<Rightarrow> bool" where
  "well_backed rows p \<longleftrightarrow> meaning_approved rows (wg_dossier_hash p) \<and>
     (case wg_backing p of
        ByReview _ \<Rightarrow> wg_kind p \<in> human_review_warrant_kinds \<and>
          (\<exists>y. accepting_verdict rows (wg_dossier_hash p) (wg_claim_id p) y
             \<and> wg_supporting_decision_ids p = [dn_decision_id y])
      | ByKernel k \<Rightarrow> wg_kind p = FormalProof \<and> kp_outcome k \<in> set kernel_checked_outcomes
          \<and> wg_supporting_decision_ids p = [])"

definition covered_by_grant :: "decision list \<Rightarrow> discharge_payload \<Rightarrow> bool" where
  "covered_by_grant rows p \<longleftrightarrow>
     (\<exists>g \<in> set rows. \<exists>q. dn_payload g = GrantOf q \<and> dn_decision_id g = dc_grant_decision_id p
        \<and> wg_warrant_id q = dc_warrant_id p \<and> wg_claim_id q = dc_claim_id p
        \<and> wg_dossier_hash q = dc_dossier_hash p)"

definition authorised :: "decision list \<Rightarrow> reviewer \<Rightarrow> decision_payload \<Rightarrow> bool" where
  "authorised rows r payload \<longleftrightarrow> human_signed r \<and>
     (case payload of
        VerdictOf p \<Rightarrow> vp_verdict p = AcceptCandidate \<longrightarrow> vp_independently_checked p
      | AlignmentOf _ \<Rightarrow> True
      | GrantOf p \<Rightarrow> well_backed rows p
      | DischargeOf p \<Rightarrow> covered_by_grant rows p)"

lemma authorised_mono:
  "authorised rows r payload \<Longrightarrow> set rows \<subseteq> set rows' \<Longrightarrow> authorised rows' r payload"
  by (auto simp: authorised_def well_backed_def meaning_approved_def accepting_verdict_def
      covered_by_grant_def split: decision_payload.splits warrant_backing.splits)

section \<open>Every builder keeps it\<close>

lemma require_human_iff [simp]: "require_human r s = Inr u \<longleftrightarrow> human_signed r"
  by (auto simp: require_human_def human_signed_def bindE_eq_Inr)

lemma approved_alignment_meaning:
  assumes "require_approved_alignment rows c s = Inr u"
  shows "meaning_approved rows (cx_dossier_hash c)"
proof -
  obtain x where "find (approves c) rows = Some x"
    using assms by (auto simp: require_approved_alignment_def approved_alignment_def)
  then have "x \<in> set rows" "approves c x"
    by (auto simp: find_Some_iff)
  then show ?thesis
    by (fastforce simp: approves_def meaning_approved_def split: decision_payload.splits)
qed

lemma supporting_verdict_accepts:
  assumes "supporting_verdict rows c claim_id = Inr (y, v)"
  shows "accepting_verdict rows (cx_dossier_hash c) claim_id y"
proof -
  have "(y, v) \<in> set (run_verdicts rows c)" and v: "vp_verdict v = AcceptCandidate"
      "vp_independently_checked v" "vp_target_claim_id v = claim_id"
    using assms by (auto simp: supporting_verdict_def Let_def bindE_eq_Inr find_Some_iff
        dest!: nth_mem split: option.splits)
  then show ?thesis
    by (auto simp: run_verdicts_def accepting_verdict_def split: decision_payload.splits if_splits) metis
qed

lemma with_warrant_id_payload:
  "with_warrant_id H name p = Inr q \<Longrightarrow>
     wg_backing q = wg_backing p \<and> wg_kind q = wg_kind p \<and> wg_dossier_hash q = wg_dossier_hash p
     \<and> wg_claim_id q = wg_claim_id p \<and> wg_supporting_decision_ids q = wg_supporting_decision_ids p"
  by (auto simp: with_warrant_id_def bindE_eq_Inr)

lemma verdict_authorised:
  "build_review_verdict H DH runs artifacts run_id r verdict checked rationale = Inr (p, loaded)
     \<Longrightarrow> authorised rows (dp_reviewer p) (dp_payload p)"
  by (auto simp: build_review_verdict_def authorised_def bindE_eq_Inr)

lemma alignment_authorised:
  "build_alignment_decision DH runs run_id i approver answer rationale = Inr p
     \<Longrightarrow> authorised rows (dp_reviewer p) (dp_payload p)"
  by (auto simp: build_alignment_decision_def authorised_def bindE_eq_Inr Let_def)

lemma review_warrant_authorised:
  assumes "build_human_review_warrant H DH runs rows run_id claim_id kind scope grantor = Inr p"
  shows "authorised rows (dp_reviewer p) (dp_payload p)"
proof -
  from assms obtain c x v q where kind: "check_basis_supports_kind HumanReviewBasis kind claim_id = Inr ()"
    and human_signed: "human_signed grantor" and verdict: "supporting_verdict rows c claim_id = Inr (x, v)"
    and meaning: "require_approved_alignment rows c claim_id = Inr ()"
    and p: "p = grant_proposal grantor q"
    and q: "wg_backing q = ByReview (vp_verifier_finding_artifact_hash v)" "wg_kind q = kind"
      "wg_dossier_hash q = cx_dossier_hash c" "wg_claim_id q = claim_id"
      "wg_supporting_decision_ids q = [dn_decision_id x]"
    by (auto simp: build_human_review_warrant_def bindE_eq_Inr dest!: with_warrant_id_payload)
  have "kind \<in> human_review_warrant_kinds"
    using kind by (auto simp: check_basis_supports_kind_def split: if_splits)
  then show ?thesis
    using q human_signed supporting_verdict_accepts [OF verdict] approved_alignment_meaning [OF meaning]
    by (auto simp: p grant_proposal_def authorised_def well_backed_def)
qed

lemma finding_gates_outcome:
  "finding_gates validate c f = Inr (outcome, i) \<Longrightarrow> outcome \<in> set kernel_checked_outcomes"
  by (auto simp: finding_gates_def Let_def bindE_eq_Inr)

lemma kernel_warrant_authorised:
  assumes "build_kernel_warrant H DH validate runs rows run_id finding kind scope grantor = Inr p"
  shows "authorised rows (dp_reviewer p) (dp_payload p)"
proof -
  from assms obtain c f outcome i q
    where kind: "check_basis_supports_kind FormalKernelBasis kind run_id = Inr ()"
    and human_signed: "human_signed grantor" and gates: "finding_gates validate c f = Inr (outcome, i)"
    and meaning: "require_approved_alignment rows c run_id = Inr ()"
    and p: "p = grant_proposal grantor q"
    and q: "case wg_backing q of ByKernel k \<Rightarrow> kp_outcome k = outcome | ByReview _ \<Rightarrow> False"
      "wg_kind q = kind" "wg_dossier_hash q = cx_dossier_hash c" "wg_supporting_decision_ids q = []"
    by (clarsimp simp: build_kernel_warrant_def bindE_eq_Inr dest!: with_warrant_id_payload)
  moreover have "kind = FormalProof"
    using kind by (simp add: check_basis_supports_kind_def formal_kernel_warrant_kinds_def)
  ultimately show ?thesis
    using finding_gates_outcome [OF gates] approved_alignment_meaning [OF meaning]
    by (auto simp: grant_proposal_def authorised_def well_backed_def split: warrant_backing.splits)
qed

lemma granted_warrants_rows:
  "(x, q) \<in> set (granted_warrants rows c) \<Longrightarrow>
     x \<in> set rows \<and> dn_payload x = GrantOf q \<and> wg_dossier_hash q = cx_dossier_hash c"
  by (auto simp: granted_warrants_def split: decision_payload.splits if_splits)

lemma discharge_authorised:
  assumes "build_obligation_discharge DH runs rows run_id i warrant_id r rationale = Inr p"
  shows "authorised rows (dp_reviewer p) (dp_payload p)"
  using assms unfolding build_obligation_discharge_def bindE_eq_Inr
  by (elim exE conjE) (auto simp: bindE_eq_Inr authorised_def covered_by_grant_def
      split: option.splits prod.splits dest!: by_key_Some granted_warrants_rows, blast)

lemma proposed_authorised:
  "proposed H DH validate rows p \<Longrightarrow> authorised rows (dp_reviewer p) (dp_payload p)"
  by (erule proposedE)
    (simp_all add: verdict_authorised alignment_authorised review_warrant_authorised
      kernel_warrant_authorised discharge_authorised)

section \<open>The invariant\<close>

definition journal_ok :: "decision list \<Rightarrow> bool" where
  "journal_ok rows \<longleftrightarrow>
     distinct (map dn_decision_id rows) \<and> distinct (map dn_idempotency_key rows)
     \<and> (\<forall>x \<in> set rows. authorised rows (dn_reviewer x) (dn_payload x))"

lemma reviewed_journal_ok: "reviewed H DH validate rows \<Longrightarrow> journal_ok rows"
proof (induction rule: reviewed.induct)
  case empty
  then show ?case by (simp add: journal_ok_def)
next
  case (step rows p recorded_at r rows')
  from journal_append_cases [OF step.hyps(3)] show ?case
  proof (elim disjE exE conjE)
    fix x
    assume rows': "rows' = rows @ [x]" and x: "x = candidate_decision H rows p recorded_at"
      and fresh: "row_admissible rows x"
    have "authorised rows (dn_reviewer x) (dn_payload x)"
      using proposed_authorised [OF step.hyps(2)] by (simp add: x)
    then show ?thesis
      using step.IH fresh
      by (auto simp: journal_ok_def rows' row_admissible_def intro: authorised_mono)
  qed (simp add: step.IH)
qed

lemma journal_ok_authorised:
  "reviewed H DH validate rows \<Longrightarrow> x \<in> set rows \<Longrightarrow> authorised rows (dn_reviewer x) (dn_payload x)"
  using reviewed_journal_ok by (simp add: journal_ok_def)

section \<open>Append only\<close>

definition journal_lookup :: "decision list \<Rightarrow> str \<Rightarrow> decision option" where
  "journal_lookup rows i = find (\<lambda>x. dn_decision_id x = i) rows"

lemma journal_lookup_distinct:
  "distinct (map dn_decision_id rows) \<Longrightarrow> x \<in> set rows \<Longrightarrow> journal_lookup rows (dn_decision_id x) = Some x"
  by (induction rows) (auto simp: journal_lookup_def rev_image_eqI)

interpretation journal: append_only "\<lambda>(p, recorded_at). journal_append H p recorded_at" journal_lookup for H
  by unfold_locales
    (auto simp: journal_lookup_def find_append dest!: journal_append_cases)

definition append_proposals :: "hexdigest \<Rightarrow> (proposal \<times> str) list \<Rightarrow> decision list \<Rightarrow> decision list" where
  "append_proposals H ps rows =
     foldl (\<lambda>rows pt. snd ((case pt of (p, t) \<Rightarrow> journal_append H p t) rows)) rows ps"

end
