(* ===== verification/Review_Demo.thy ===== *)
theory Review_Demo
  imports Review_Trail Manual_Slice
begin

text \<open>
  A review of the target of the manual slice, from its first verdict to the successor dossier, which
  the witnesses of \<open>Review_Props\<close> evaluate: one reviewer accepts the candidate, approves the meaning
  and grants a warrant.
\<close>

section \<open>The run\<close>

text \<open>A digest that keeps the letters of its input; \<open>late\<close> moves the identifiers of verdicts to the end.\<close>

definition demo_digest :: "bool \<Rightarrow> hexdigest" where
  "demo_digest late content =
     (if late \<and> starts_with (''{'' @ [CHR 0x22] @ ''decision_kind'' @ [CHR 0x22, CHR '':'', CHR 0x22] @ ''review'') content
      then ''z'' else []) @ filter is_alnum (take 40 (drop 18 content))"

definition demo_dossier :: "source_applicability list \<Rightarrow> research_dossier" where
  "demo_dossier applicability =
     \<lparr>en_id = ''dossier.demo'', en_created_at = slice_stamp, en_created_by = slice_actor,
      en_schema_version = entity_schema_version,
      do_problem = slice_problem, do_formalization = slice_formalization,
      do_alignment = slice_alignment\<lparr>al_status := AlignmentProposed, al_approved_by := None\<rparr>,
      do_claims = [slice_definition, slice_target\<lparr>cl_representation_map_ids := []\<rparr>],
      do_warrants = [], do_evidence = [], do_source_applicability = applicability,
      do_obligations = [], do_representation_maps = [], do_verification_records = [],
      do_evaluation_protocol = slice_protocol, do_audit_events = [slice_event], do_capabilities = []\<rparr>"

definition demo_artifact :: bytes where
  "demo_artifact = canonical_bytes (JObj
     [(''candidate_artifact_hash'', JNull), (''recommendation'', JStr ''manual_review''),
      (''target_claim_id'', JStr (en_id slice_target))])"

definition demo_runs :: "bool \<Rightarrow> source_applicability list \<Rightarrow> run_reader" where
  "demo_runs late applicability =
     \<lparr>rr_get_run = (\<lambda>_. Some \<lparr>ru_status = AwaitingReview, ru_dossier_id = ''dossier.demo'',
        ru_dossier_hash = ''dossier.demo''\<rparr>),
      rr_load_dossier = (\<lambda>_. Some (demo_dossier applicability)),
      rr_list_proposals = (\<lambda>_. [\<lparr>pp_proposal_id = ''p.1'', pp_proposal_kind = ''verifier_finding'',
        pp_artifact_hash = sha256_bytes (demo_digest late) demo_artifact, pp_source_kind = ''model'',
        pp_source_id = ''model.verifier''\<rparr>])\<rparr>"

definition demo_artifacts :: artifact_reader where
  "demo_artifacts = \<lparr>ar_exists = (\<lambda>_. True), ar_get = (\<lambda>_. Some demo_artifact)\<rparr>"

definition demo_reviewer :: reviewer where
  "demo_reviewer = \<lparr>rv_id = ''reviewer.ada'', rv_kind = HumanReviewer, rv_attestation = ''I checked it.''\<rparr>"

section \<open>The decisions\<close>

definition demo_verdict :: "bool \<Rightarrow> source_applicability list \<Rightarrow> review_error + proposal \<times> loaded_finding" where
  "demo_verdict late applicability =
     build_review_verdict (demo_digest late) en_id (demo_runs late applicability) demo_artifacts ''run.1''
       demo_reviewer AcceptCandidate True ''Derivation redone.''"

definition demo_alignment :: "bool \<Rightarrow> source_applicability list \<Rightarrow> proposal review" where
  "demo_alignment late applicability =
     build_alignment_decision en_id (demo_runs late applicability) ''run.1'' (en_id slice_alignment)
       demo_reviewer ApproveAlignment ''Same statement.''"

definition demo_append :: "bool \<Rightarrow> proposal \<Rightarrow> decision list \<Rightarrow> decision list" where
  "demo_append late p rows = snd (journal_append (demo_digest late) p ''2026-08-21T00:00:00Z'' rows)"

definition demo_rows2 :: "bool \<Rightarrow> source_applicability list \<Rightarrow> decision list" where
  "demo_rows2 late applicability =
     demo_append late (projr (demo_alignment late applicability))
       (demo_append late (fst (projr (demo_verdict late applicability))) [])"

definition demo_grant :: "bool \<Rightarrow> source_applicability list \<Rightarrow> proposal review" where
  "demo_grant late applicability =
     build_human_review_warrant (demo_digest late) en_id (demo_runs late applicability)
       (demo_rows2 late applicability) ''run.1'' (en_id slice_target) RigorousDerivation ''exact target''
       demo_reviewer"

definition demo_rows :: "bool \<Rightarrow> source_applicability list \<Rightarrow> decision list" where
  "demo_rows late applicability =
     demo_append late (projr (demo_grant late applicability)) (demo_rows2 late applicability)"

definition demo_env :: "bool \<Rightarrow> projection_env" where
  "demo_env late =
     \<lparr>pe_digest = demo_digest late, pe_dossier_hash = en_id, pe_parse = (\<lambda>_. Some slice_stamp),
      pe_text = (\<lambda>_. ''2026-08-22T00:00:00.000000Z''), pe_repr = (\<lambda>_. ''...'')\<rparr>"

definition demo_successor :: "bool \<Rightarrow> source_applicability list \<Rightarrow> successor_projection review" where
  "demo_successor late applicability =
     build_successor (demo_env late) (demo_runs late applicability) ''run.1''
       (export_journal (demo_digest late) (JArr []) (demo_rows late applicability)) slice_stamp
       ''reviewer.ada''"

text \<open>A shorter review, of a dossier that cites a source: only the meaning is approved.\<close>

definition demo_cited :: "source_applicability list" where
  "demo_cited = [slice_source_applicability (demo_digest False)]"

definition demo_short_rows :: "decision list" where
  "demo_short_rows = demo_append False (projr (demo_alignment False demo_cited)) []"

definition demo_short_successor :: "successor_projection review" where
  "demo_short_successor =
     build_successor (demo_env False) (demo_runs False demo_cited) ''run.1''
       (export_journal (demo_digest False) (JArr []) demo_short_rows) slice_stamp ''reviewer.ada''"

section \<open>Its outcome\<close>

lemma demo_short_projected: "isl demo_short_successor = False"
  by code_simp

lemma demo_decided_late:
  "(isl (demo_verdict True []), isl (demo_alignment True []), isl (demo_grant True [])) = (False, False, False)"
  by code_simp

lemma demo_decided_early:
  "(isl (demo_verdict False []), isl (demo_alignment False []), isl (demo_grant False [])) = (False, False, False)"
  by code_simp

text \<open>The identifiers of the decisions, and what a claim of the successor is worth.\<close>

definition demo_report :: "review_error + bool \<times> (error + validation_issue list) \<times> (error + str)" where
  "demo_report = map_sum id (\<lambda>p.
     (list_all (\<lambda>c. utf8_valid (cl_statement c)) (do_claims (sp_successor p)),
      dossier_issues (demo_digest False) (sp_successor p),
      map_sum id tp_logical_status
        (project_claim (demo_digest False) (sp_successor p) (en_id slice_target)))) (demo_successor False [])"

lemma demo_report_proved: "demo_report = Inr (True, Inr [], Inr ''proved'')"
  by code_simp

lemma demo_late_ids:
  "map (\<lambda>x. (dn_decision_id x, payload_run_id (dn_payload x),
      case dn_payload x of GrantOf p \<Rightarrow> wg_supporting_decision_ids p | _ \<Rightarrow> [])) (demo_rows True [])
   = [(''review-decision.zreviewverdictidempotenc'', ''run.1'', []),
      (''review-decision.semanticalignmentdecisio'', ''run.1'', []),
      (''review-decision.warrantgrantidempotencyk'', ''run.1'', [''review-decision.zreviewverdictidempotenc''])]"
  by code_simp

section \<open>It is a reachable journal\<close>

lemma demo_append_step:
  "reviewed (demo_digest late) en_id validate rows \<Longrightarrow> proposed (demo_digest late) en_id validate rows p
     \<Longrightarrow> reviewed (demo_digest late) en_id validate (demo_append late p rows)"
  unfolding demo_append_def
  by (rule reviewed.step [where r = "fst (journal_append (demo_digest late) p ''2026-08-21T00:00:00Z'' rows)"
      and p = p and recorded_at = "''2026-08-21T00:00:00Z''"]) simp_all

lemma demo_alignment_step:
  assumes "isl (demo_alignment late applicability) = False" and "reviewed (demo_digest late) en_id validate rows"
  shows "reviewed (demo_digest late) en_id validate (demo_append late (projr (demo_alignment late applicability)) rows)"
proof (rule demo_append_step [OF assms(2)])
  show "proposed (demo_digest late) en_id validate rows (projr (demo_alignment late applicability))"
    using not_isl [OF assms(1)] unfolding demo_alignment_def by (rule proposed.alignment)
qed

lemma demo_reviewed: "reviewed (demo_digest late) en_id validate (demo_rows late [])"
proof -
  have "isl (demo_verdict late []) = False" "isl (demo_alignment late []) = False"
      "isl (demo_grant late []) = False"
    using demo_decided_late demo_decided_early by (cases late; simp)+
  note ok = this
  have "demo_verdict late [] = Inr (fst (projr (demo_verdict late [])), snd (projr (demo_verdict late [])))"
    using not_isl [OF ok(1)] by simp
  then have "proposed (demo_digest late) en_id validate [] (fst (projr (demo_verdict late [])))"
    unfolding demo_verdict_def by (rule proposed.verdict)
  then have "reviewed (demo_digest late) en_id validate (demo_rows2 late [])"
    unfolding demo_rows2_def by (intro demo_alignment_step ok demo_append_step reviewed.empty)
  moreover have "proposed (demo_digest late) en_id validate (demo_rows2 late []) (projr (demo_grant late []))"
    using not_isl [OF ok(3)] unfolding demo_grant_def by (rule proposed.review_warrant)
  ultimately show ?thesis
    unfolding demo_rows_def by (rule demo_append_step)
qed

end
