(* ===== verification/Review_Props.thy ===== *)
theory Review_Props
  imports Review_Demo Trust_Props
begin

text \<open>
  What the review surface promises: who answers for a warrant that the trust policy counts, what a
  journal keeps, and what a projection leaves of the dossier it starts from.
\<close>

section \<open>The steps of a projection\<close>

lemma oid_Inr [simp]: "oid s = Inr i \<longleftrightarrow> id_pattern s \<and> i = s"
  by (auto simp: oid_def bindE_eq_Inr)

definition granted_by :: "decision \<Rightarrow> warrant \<Rightarrow> bool" where
  "granted_by x w \<longleftrightarrow>
     (\<exists>p. dn_payload x = GrantOf p \<and> wr_claim_id w = wg_claim_id p \<and> wr_kind w = wg_kind p
        \<and> en_id w = wg_warrant_id p \<and> en_created_by w = rv_id (dn_reviewer x))"

definition review_evidence_id :: "opaque_id \<Rightarrow> bool" where
  "review_evidence_id i \<longleftrightarrow> starts_with ''evidence.review.'' i \<or> starts_with ''evidence.kernel.'' i"

text \<open>What a step adds; it takes nothing away.\<close>

definition adds :: "decision \<Rightarrow> projected \<Rightarrow> projected \<Rightarrow> bool" where
  "adds x acc acc' \<longleftrightarrow>
     (\<exists>es ws. pj_evidence acc' = pj_evidence acc @ es \<and> (\<forall>e \<in> set es. review_evidence_id (en_id e))
        \<and> pj_warrants acc' = pj_warrants acc @ ws \<and> (\<forall>w \<in> set ws. granted_by x w))
     \<and> dom (pj_verdicts acc') \<subseteq> insert (dn_decision_id x) (dom (pj_verdicts acc))"

lemma evidence_and_check_id:
  "evidence_and_check env g tag c i kind body ref disp verifier outcome notes = Inr (e, v) \<Longrightarrow>
     en_id e = ''evidence.'' @ tag @ ''.'' @ sg_suffix g"
  by (auto simp: evidence_and_check_def bindE_eq_Inr)

lemma review_evidence [simp]:
  "review_evidence_id (''evidence.'' @ ''review'' @ ''.'' @ s)"
  "review_evidence_id (''evidence.'' @ ''kernel'' @ ''.'' @ s)"
  using starts_with_append [of "''evidence.review.''" s] starts_with_append [of "''evidence.kernel.''" s]
  by (simp_all add: review_evidence_id_def)

lemma verdict_adds: "project_verdict env d x p g acc = Inr acc' \<Longrightarrow> adds x acc acc'"
  unfolding project_verdict_def bindE_eq_Inr
  by (elim exE conjE)
    (auto simp: adds_def bindE_eq_Inr split: prod.splits dest!: evidence_and_check_id
      simp del: append_Cons append_Nil)

lemma alignment_adds: "project_alignment x p g acc = Inr acc' \<Longrightarrow> adds x acc acc'"
  by (auto simp: project_alignment_def bindE_eq_Inr adds_def)

lemma discharge_adds: "project_discharge x p g acc = Inr acc' \<Longrightarrow> adds x acc acc'"
  by (auto simp: project_discharge_def bindE_eq_Inr adds_def)

lemma warrant_support_effect:
  assumes "warrant_support env x p g c i acc = Inr (entities, support)"
  shows "\<forall>e \<in> set (map fst entities). review_evidence_id (en_id e)"
    and "wg_backing p = ByReview a \<Longrightarrow> \<forall>j \<in> set (wg_supporting_decision_ids p). pj_verdicts acc j \<noteq> None"
  using assms
  by (auto simp: warrant_support_def kernel_entities_def bindE_eq_Inr split: warrant_backing.splits
      dest!: evidence_and_check_id simp del: append_Cons append_Nil)

lemma grant_adds:
  assumes "dn_payload x = GrantOf p" and "sg_actor g = rv_id (dn_reviewer x)"
    and "project_grant env d x p g acc = Inr acc'"
  shows "adds x acc acc'"
    and "wg_backing p = ByReview a \<Longrightarrow> \<forall>j \<in> set (wg_supporting_decision_ids p). pj_verdicts acc j \<noteq> None"
proof -
  from assms(3) obtain c entities support event
    where support: "warrant_support env x p g c (wg_claim_id p) acc = Inr (entities, support)"
    and acc': "acc' = acc\<lparr>pj_evidence := pj_evidence acc @ map fst entities,
       pj_verifications := pj_verifications acc @ map snd entities,
       pj_warrants := pj_warrants acc @
         [\<lparr>en_id = wg_warrant_id p, en_created_at = sg_stamp g, en_created_by = sg_actor g,
           en_schema_version = entity_schema_version, wr_claim_id = wg_claim_id p, wr_kind = wg_kind p,
           wr_scope = wg_scope p, wr_evidence_ids = map fst support,
           wr_verification_record_ids = map snd support, wr_status = ActiveWarrant\<rparr>],
       pj_events := pj_events acc @ [event]\<rparr>"
    unfolding project_grant_def bindE_eq_Inr by (elim exE conjE) (auto simp: bindE_eq_Inr)
  show "adds x acc acc'"
    using warrant_support_effect(1) [OF support] assms(1,2)
    by (auto simp: adds_def acc' granted_by_def intro!: exI [of _ "map fst entities"])
  show "wg_backing p = ByReview a \<Longrightarrow> \<forall>j \<in> set (wg_supporting_decision_ids p). pj_verdicts acc j \<noteq> None"
    by (rule warrant_support_effect(2) [OF support])
qed

lemma signature_actor: "signature_of env x = Inr g \<Longrightarrow> sg_actor g = rv_id (dn_reviewer x)"
  by (auto simp: signature_of_def bindE_eq_Inr)

lemma project_decision_adds:
  assumes "project_decision env d x acc = Inr acc'"
  shows "adds x acc acc'"
proof -
  obtain g where g: "signature_of env x = Inr g"
    using assms by (auto simp: project_decision_def bindE_eq_Inr)
  show ?thesis
    using assms g signature_actor [OF g]
    by (cases "dn_payload x")
      (auto simp: project_decision_def intro: verdict_adds alignment_adds discharge_adds grant_adds(1))
qed

lemma project_decision_support:
  "project_decision env d x acc = Inr acc' \<Longrightarrow> dn_payload x = GrantOf p \<Longrightarrow> wg_backing p = ByReview a
     \<Longrightarrow> j \<in> set (wg_supporting_decision_ids p) \<Longrightarrow> pj_verdicts acc j \<noteq> None"
  by (auto simp: project_decision_def bindE_eq_Inr dest: grant_adds(2) signature_actor)

lemma project_all_append:
  "project_all env d (xs @ ys) acc = bindE (project_all env d xs acc) (project_all env d ys)"
  by (induction xs arbitrary: acc) (auto simp: bindE_def split: sum.splits)

lemma project_all_effect:
  "project_all env d xs acc = Inr acc' \<Longrightarrow>
     \<exists>es ws. pj_evidence acc' = pj_evidence acc @ es \<and> (\<forall>e \<in> set es. review_evidence_id (en_id e))
       \<and> pj_warrants acc' = pj_warrants acc @ ws \<and> (\<forall>w \<in> set ws. \<exists>x \<in> set xs. granted_by x w)
       \<and> dom (pj_verdicts acc') \<subseteq> dom (pj_verdicts acc) \<union> set (map dn_decision_id xs)"
proof (induction xs arbitrary: acc)
  case (Cons x xs)
  then obtain acc1 where one: "adds x acc acc1" and all: "project_all env d xs acc1 = Inr acc'"
    by (auto simp: bindE_eq_Inr dest: project_decision_adds)
  from one obtain es ws where new: "pj_evidence acc1 = pj_evidence acc @ es"
      "\<forall>e \<in> set es. review_evidence_id (en_id e)" "pj_warrants acc1 = pj_warrants acc @ ws"
      "\<forall>w \<in> set ws. granted_by x w" "dom (pj_verdicts acc1) \<subseteq> insert (dn_decision_id x) (dom (pj_verdicts acc))"
    by (auto simp: adds_def)
  from Cons.IH [OF all] obtain es' ws' where rest: "pj_evidence acc' = pj_evidence acc1 @ es'"
      "\<forall>e \<in> set es'. review_evidence_id (en_id e)" "pj_warrants acc' = pj_warrants acc1 @ ws'"
      "\<forall>w \<in> set ws'. \<exists>x \<in> set xs. granted_by x w"
      and later: "dom (pj_verdicts acc') \<subseteq> dom (pj_verdicts acc1) \<union> set (map dn_decision_id xs)"
    by blast
  have verdicts: "dom (pj_verdicts acc') \<subseteq> dom (pj_verdicts acc) \<union> set (map dn_decision_id (x # xs))"
    using order_trans [OF later Un_mono [OF new(5) subset_refl]] by simp
  show ?case
    by (intro exI [of _ "es @ es'"] exI [of _ "ws @ ws'"] conjI verdicts) (use new rest in auto)
qed simp

lemma nothing_projected_fields [simp]:
  "pj_evidence nothing_projected = []" "pj_warrants nothing_projected = []"
  "pj_verdicts nothing_projected = Map.empty"
  by (simp_all add: nothing_projected_def)

section \<open>The successor\<close>

lemma build_successor_parts:
  assumes "build_successor env runs run_id export at by = Inr sp"
  obtains c scoped acc obligations alignment event i
  where "load_run_context (pe_dossier_hash env) runs run_id = Inr c"
    and "scoped_decisions c (je_decisions export) by = Inr scoped"
    and "project_all env (cx_dossier c) (sort_key dn_decision_id scoped) nothing_projected = Inr acc"
    and "mapE (update_obligation acc) (do_obligations (cx_dossier c)) = Inr obligations"
    and "update_alignment (pj_alignment acc) (do_alignment (cx_dossier c)) = Inr alignment"
    and "sp_successor sp = successor_dossier (cx_dossier c) acc obligations alignment event i"
    and "sp_prior_dossier_hash sp = cx_dossier_hash c"
  using assms unfolding build_successor_def bindE_eq_Inr
  by (elim exE conjE) (auto simp: bindE_eq_Inr Let_def)

lemma export_journal_decisions [simp]:
  "je_decisions (export_journal H refusals rows) = sort_key dn_decision_id rows"
  by (simp add: export_journal_def Let_def)

lemma scoped_decisions_Inr:
  "scoped_decisions c rows by = Inr scoped \<Longrightarrow>
     scoped = filter (\<lambda>x. payload_run_id (dn_payload x) = cx_run_id c) rows
     \<and> (\<forall>x \<in> set scoped. payload_dossier_hash (dn_payload x) = cx_dossier_hash c)"
  by (auto simp: scoped_decisions_def Let_def bindE_eq_Inr)

lemma load_run_context_id: "load_run_context DH runs run_id = Inr c \<Longrightarrow> cx_run_id c = run_id"
  by (auto simp: load_run_context_def bindE_eq_Inr split: option.splits)


lemma update_alignment_shape:
  "update_alignment update a = Inr b \<Longrightarrow> \<exists>s u. b = a\<lparr>al_status := s, al_approved_by := u\<rparr>"
proof (cases update)
  case None
  assume "update_alignment update a = Inr b"
  with None have "b = a\<lparr>al_status := al_status a, al_approved_by := al_approved_by a\<rparr>"
    by (simp add: update_alignment_def)
  then show ?thesis by blast
qed (auto simp: update_alignment_def bindE_eq_Inr)

lemma update_obligation_shape:
  "update_obligation acc b = Inr b' \<Longrightarrow> b' = b \<or> (\<exists>w \<in> set (pj_warrants acc).
     b' = b\<lparr>ob_status := Discharged, ob_discharged_by_warrant_id := Some (en_id w)\<rparr>)"
  by (auto simp: update_obligation_def bindE_eq_Inr split: option.splits)

lemma updated_obligations:
  "mapE (update_obligation acc) bs = Inr bs' \<Longrightarrow> length bs' = length bs \<and>
     (\<forall>b \<in> set bs'. b \<in> set bs \<or> (\<exists>b0 \<in> set bs. \<exists>w \<in> set (pj_warrants acc).
        b = b0\<lparr>ob_status := Discharged, ob_discharged_by_warrant_id := Some (en_id w)\<rparr>))"
proof (induction bs arbitrary: bs')
  case (Cons b0 bs)
  then obtain b bs1 where bs': "bs' = b # bs1" and b: "update_obligation acc b0 = Inr b"
    and all: "mapE (update_obligation acc) bs = Inr bs1"
    by (auto simp: bindE_eq_Inr)
  with Cons.IH [OF all] update_obligation_shape [OF b] show ?case by auto
qed simp

section \<open>Warrants\<close>



section \<open>The journal\<close>

text \<open>C4: A journal that the review surface can produce names every decision once, every row of it is a
  decision its author was allowed to take on the rows, and whatever is proposed to it later, each of
  its rows is found unchanged.\<close>

theorem journal_for_good:
  assumes "reviewed H DH validate rows"
  shows "distinct (map dn_decision_id rows) \<and> distinct (map dn_idempotency_key rows)
    \<and> (\<forall>x \<in> set rows. authorised rows (dn_reviewer x) (dn_payload x)
         \<and> journal_lookup (append_proposals H ps rows) (dn_decision_id x) = Some x)"
proof -
  have ok: "distinct (map dn_decision_id rows)" "distinct (map dn_idempotency_key rows)"
      "\<forall>x \<in> set rows. authorised rows (dn_reviewer x) (dn_payload x)"
    using reviewed_journal_ok [OF assms] by (simp_all add: journal_ok_def)
  have "journal_lookup (append_proposals H ps rows) (dn_decision_id x) = Some x" if "x \<in> set rows" for x
    unfolding append_proposals_def
    by (rule journal.many_keep) (simp add: journal_lookup_distinct [OF ok(1) that])
  with ok show ?thesis by blast
qed

section \<open>The order of application\<close>

text \<open>C8: The decisions are applied in the order of their identifiers, which are hashes: when the
  identifier of a grant by review is smaller than that of the verdict it names, the projection of the
  run fails, although both are in the journal.\<close>

theorem grant_before_verdict_fails:
  assumes "x \<in> set rows" and "payload_run_id (dn_payload x) = run_id" and "dn_payload x = GrantOf p"
    and "wg_backing p = ByReview artifact" and "i \<in> set (wg_supporting_decision_ids p)"
    and "dn_decision_id x < i"
  shows "\<exists>e. build_successor env runs run_id (export_journal H refusals rows) at by = Inl e"
proof (cases "build_successor env runs run_id (export_journal H refusals rows) at by")
  case (Inr sp)
  then obtain c scoped acc obligations alignment event j
    where c: "load_run_context (pe_dossier_hash env) runs run_id = Inr c"
    and scoped: "scoped_decisions c (je_decisions (export_journal H refusals rows)) by = Inr scoped"
    and all: "project_all env (cx_dossier c) (sort_key dn_decision_id scoped) nothing_projected = Inr acc"
    by (rule build_successor_parts)
  have member: "x \<in> set (sort_key dn_decision_id scoped)"
    using scoped_decisions_Inr [OF scoped] load_run_context_id [OF c] assms(1,2) by simp
  then obtain xs ys where split: "sort_key dn_decision_id scoped = xs @ x # ys"
    using split_list [OF member] by blast
  from all obtain acc1 acc2 where "project_all env (cx_dossier c) xs nothing_projected = Inr acc1"
    and "project_decision env (cx_dossier c) x acc1 = Inr acc2"
    by (auto simp: split project_all_append bindE_eq_Inr)
  then have "i \<in> set (map dn_decision_id xs)"
    using project_all_effect [of env "cx_dossier c" xs nothing_projected acc1]
      project_decision_support [OF _ assms(3,4,5)] by fastforce
  moreover have "sorted (map dn_decision_id (xs @ x # ys))"
    unfolding split [symmetric] by simp
  ultimately have "i \<le> dn_decision_id x"
    by (auto simp: sorted_append)
  with assms(6) show ?thesis by simp
qed simp

section \<open>What a successor keeps\<close>

text \<open>The successor keeps the problem, the formalization, the claims, the representation maps, the
  protocol and the history of the dossier; an obligation changes only by being discharged by one of
  the warrants of the successor, and the alignment only in its status and its approver.\<close>

theorem successor_keeps_dossier:
  assumes "build_successor env runs run_id export at by = Inr sp"
    and "load_run_context (pe_dossier_hash env) runs run_id = Inr c"
  shows "do_problem (sp_successor sp) = do_problem (cx_dossier c)
    \<and> do_formalization (sp_successor sp) = do_formalization (cx_dossier c)
    \<and> do_claims (sp_successor sp) = do_claims (cx_dossier c)
    \<and> do_source_applicability (sp_successor sp) = do_source_applicability (cx_dossier c)
    \<and> do_representation_maps (sp_successor sp) = do_representation_maps (cx_dossier c)
    \<and> do_evaluation_protocol (sp_successor sp) = do_evaluation_protocol (cx_dossier c)
    \<and> prefix (do_audit_events (cx_dossier c)) (do_audit_events (sp_successor sp))
    \<and> (\<exists>s a. do_alignment (sp_successor sp)
         = (do_alignment (cx_dossier c))\<lparr>al_status := s, al_approved_by := a\<rparr>)
    \<and> (\<forall>b \<in> set (do_obligations (sp_successor sp)). b \<in> set (do_obligations (cx_dossier c))
         \<or> (\<exists>b0 \<in> set (do_obligations (cx_dossier c)). \<exists>w \<in> set (do_warrants (sp_successor sp)).
              b = b0\<lparr>ob_status := Discharged, ob_discharged_by_warrant_id := Some (en_id w)\<rparr>))
    \<and> length (do_obligations (sp_successor sp)) = length (do_obligations (cx_dossier c))"
proof -
  from assms(1) obtain c' scoped acc obligations alignment event i
    where c': "load_run_context (pe_dossier_hash env) runs run_id = Inr c'"
    and obligations: "mapE (update_obligation acc) (do_obligations (cx_dossier c')) = Inr obligations"
    and alignment: "update_alignment (pj_alignment acc) (do_alignment (cx_dossier c')) = Inr alignment"
    and sp: "sp_successor sp = successor_dossier (cx_dossier c') acc obligations alignment event i"
    by (rule build_successor_parts)
  have "c' = c" using c' assms(2) by simp
  have "\<exists>s a. alignment = (do_alignment (cx_dossier c))\<lparr>al_status := s, al_approved_by := a\<rparr>"
    using alignment unfolding \<open>c' = c\<close> by (rule update_alignment_shape)
  moreover note updated_obligations [OF obligations [unfolded \<open>c' = c\<close>]]
  ultimately show ?thesis
    by (simp add: sp successor_dossier_def \<open>c' = c\<close>)
qed

text \<open>C39: The successor holds no evidence but that of the review, while it keeps every record on the
  applicability of a source: a dossier with such a record, on evidence of its own, has a successor
  with unresolved references, which the interchange refuses.\<close>

theorem successor_loses_source_evidence:
  assumes "build_successor env runs run_id export at by = Inr sp"
    and "load_run_context (pe_dossier_hash env) runs run_id = Inr c"
    and "a \<in> set (do_source_applicability (cx_dossier c))" and "\<not> review_evidence_id (sa_evidence_id a)"
  shows "dossier_issues H (sp_successor sp) \<noteq> Inr []"
proof
  assume none: "dossier_issues H (sp_successor sp) = Inr []"
  from assms(1) obtain c' scoped acc obligations alignment event i
    where c': "load_run_context (pe_dossier_hash env) runs run_id = Inr c'"
    and all: "project_all env (cx_dossier c') (sort_key dn_decision_id scoped) nothing_projected = Inr acc"
    and sp: "sp_successor sp = successor_dossier (cx_dossier c') acc obligations alignment event i"
    by (rule build_successor_parts)
  have "c' = c" using c' assms(2) by simp
  then have "applicability_issues (sp_successor sp) a = []"
    using no_issues(5) [OF none, of a] assms(3) by (simp add: sp successor_dossier_def)
  then obtain e where "e \<in> set (pj_evidence acc)" "en_id e = sa_evidence_id a"
    by (auto simp: applicability_issues_def sp successor_dossier_def)
  with project_all_effect [OF all] assms(4) show False by auto
qed

section \<open>At a concrete review\<close>

lemma demo_env_digest [simp]: "pe_dossier_hash (demo_env late) = en_id"
  by (simp add: demo_env_def)


lemma demo_context:
  "load_run_context (pe_dossier_hash (demo_env late)) (demo_runs late applicability) ''run.1'' =
     Inr \<lparr>cx_run_id = ''run.1'', cx_status = AwaitingReview, cx_dossier = demo_dossier applicability,
       cx_dossier_hash = ''dossier.demo'', cx_proposal_source_ids = [''model.verifier'']\<rparr>"
  by (simp add: load_run_context_def demo_runs_def unless_refused_def demo_dossier_def)



theorem journal_for_good_witness:
  "distinct (map dn_decision_id (demo_rows False [])) \<and> distinct (map dn_idempotency_key (demo_rows False []))"
  using journal_for_good [OF demo_reviewed [of False "\<lambda>_. True"], of "[]"] by blast

theorem grant_before_verdict_fails_witness:
  "reviewed (demo_digest True) en_id (\<lambda>_. True) (demo_rows True [])
   \<and> (\<exists>e. demo_successor True [] = Inl e)"
proof -
  let ?late = "''review-decision.zreviewverdictidempotenc''"
  have "(''review-decision.warrantgrantidempotencyk'', ''run.1'', [?late])
      \<in> set (map (\<lambda>x. (dn_decision_id x, payload_run_id (dn_payload x),
          case dn_payload x of GrantOf p \<Rightarrow> wg_supporting_decision_ids p | _ \<Rightarrow> [])) (demo_rows True []))"
    unfolding demo_late_ids by (rule list.set_intros(2), rule list.set_intros(2), rule list.set_intros(1))
  then obtain x where x: "x \<in> set (demo_rows True [])"
      "dn_decision_id x = ''review-decision.warrantgrantidempotencyk''"
      "payload_run_id (dn_payload x) = ''run.1''"
      "(case dn_payload x of GrantOf p \<Rightarrow> wg_supporting_decision_ids p | _ \<Rightarrow> []) = [?late]"
    by (auto simp del: list.map)
  then obtain p where p: "dn_payload x = GrantOf p" "?late \<in> set (wg_supporting_decision_ids p)"
    by (auto split: decision_payload.splits)
  have "well_backed (demo_rows True []) p"
    using journal_ok_authorised [OF demo_reviewed x(1)] by (simp add: authorised_def p(1))
  then obtain a where a: "wg_backing p = ByReview a"
    using p(2) by (auto simp: well_backed_def split: warrant_backing.splits)
  have "dn_decision_id x < ?late"
    unfolding x(2) by code_simp
  from grant_before_verdict_fails [OF x(1,3) p(1) a p(2) this, of "demo_env True" "demo_runs True []"]
  show ?thesis
    unfolding demo_successor_def using demo_reviewed by blast
qed

theorem successor_keeps_dossier_witness:
  "\<exists>sp. demo_short_successor = Inr sp \<and> do_claims (sp_successor sp) = do_claims (demo_dossier demo_cited)"
proof -
  obtain sp where sp: "demo_short_successor = Inr sp"
    using not_isl [OF demo_short_projected] by blast
  from successor_keeps_dossier [OF sp [unfolded demo_short_successor_def] demo_context] sp
  show ?thesis by (intro exI [of _ sp]) simp
qed

theorem successor_loses_source_evidence_witness:
  "\<exists>sp. demo_short_successor = Inr sp \<and> dossier_issues slice_digest (sp_successor sp) \<noteq> Inr []"
proof -
  obtain sp where sp: "demo_short_successor = Inr sp"
    using not_isl [OF demo_short_projected] by blast
  have "slice_source_applicability (demo_digest False) \<in> set (do_source_applicability (demo_dossier demo_cited))"
    by (simp add: demo_dossier_def demo_cited_def)
  moreover have "\<not> review_evidence_id (sa_evidence_id (slice_source_applicability (demo_digest False)))"
    by code_simp
  ultimately show ?thesis
    using successor_loses_source_evidence [OF sp [unfolded demo_short_successor_def] demo_context] sp
    by (intro exI [of _ sp]) simp
qed

end
