(* ===== verification/Synthesis_Budget.thy ===== *)
theory Synthesis_Budget
  imports Py_Json
begin

text \<open>
  \<open>synthesis/state.py\<close> (errors, strategy families, terminal reasons) and \<open>synthesis/budget.py\<close>: the
  finite bounds of a synthesis run, the ledger that consumes them, and the validated allocation of
  branch-generation attempts with its exploration reserve.  The fields of a policy are integers; where
  the source checks the type of a value that comes from JSON, the model does.
\<close>

section \<open>Errors\<close>

datatype synthesis_error =
    SynthesisInvalid str
  | CounterExhausted str
  | DuplicateAttempt str str
  | NotPermitted str
  | SynthesisEscaped error

type_synonym 'a synthesis = "synthesis_error + 'a"

definition valid_or :: "bool \<Rightarrow> str \<Rightarrow> unit synthesis" where
  "valid_or ok message = ensure ok (SynthesisInvalid message)"

lemma valid_or_Inr [simp]: "valid_or ok message = Inr u \<longleftrightarrow> ok"
  by (simp add: valid_or_def)

lemma valid_or_True [simp]: "valid_or True message = Inr ()"
  by (simp add: valid_or_def)

section \<open>Strategy families\<close>

datatype strategy_family =
  DirectProof | CounterexampleSearch | RestrictedCases | ComputationalExperimentation
  | AlternativeFormulation | CrossDomainTransfer | MultiPaperComposition | FormalizationVerification

fun family_value :: "strategy_family \<Rightarrow> str" where
  "family_value DirectProof = ''direct_proof''"
| "family_value CounterexampleSearch = ''counterexample_search''"
| "family_value RestrictedCases = ''restricted_cases''"
| "family_value ComputationalExperimentation = ''computational_experimentation''"
| "family_value AlternativeFormulation = ''alternative_formulation''"
| "family_value CrossDomainTransfer = ''cross_domain_transfer''"
| "family_value MultiPaperComposition = ''multi_paper_composition''"
| "family_value FormalizationVerification = ''formalization_verification''"

definition all_families :: "strategy_family list" where
  "all_families =
     [DirectProof, CounterexampleSearch, RestrictedCases, ComputationalExperimentation,
      AlternativeFormulation, CrossDomainTransfer, MultiPaperComposition, FormalizationVerification]"

text \<open>\<open>parse_enum\<close>, for an enumeration given by its members and their values.\<close>

definition closed_enum :: "('a \<Rightarrow> str) \<Rightarrow> 'a list \<Rightarrow> json \<Rightarrow> str \<Rightarrow> 'a synthesis" where
  "closed_enum value members v field =
     (case v of
        JStr s \<Rightarrow>
          (case find (\<lambda>x. value x = s) members of
             None \<Rightarrow> Inl (SynthesisInvalid
               (field @ '' must be one of: '' @ join '', '' (sort (map value members))))
           | Some x \<Rightarrow> Inr x)
      | _ \<Rightarrow> Inl (SynthesisInvalid (field @ '' must be a string from a closed vocabulary'')))"

definition parse_family :: "json \<Rightarrow> str \<Rightarrow> strategy_family synthesis" where
  "parse_family = closed_enum family_value all_families"

lemma parse_family_Inr: "parse_family v field = Inr f \<longleftrightarrow> v = JStr (family_value f)"
proof
  assume "parse_family v field = Inr f"
  then show "v = JStr (family_value f)"
    by (auto simp: parse_family_def closed_enum_def find_Some_iff split: json.splits option.splits)
qed (cases f; simp add: parse_family_def closed_enum_def all_families_def)

section \<open>Terminal reasons\<close>

definition terminal_bare :: "str list" where
  "terminal_bare = [''completed'', ''converged_under_rule'', ''user_intervention'']"

definition colon_free :: "str \<Rightarrow> bool" where
  "colon_free s \<longleftrightarrow> s \<noteq> [] \<and> CHR '':'' \<notin> set s"

definition budget_exhausted :: "str \<Rightarrow> str synthesis" where
  "budget_exhausted counter =
     bindE (valid_or (colon_free counter) ''budget counter name must be non-empty and colon-free'') (\<lambda>_.
     Inr (''budget_exhausted:'' @ counter))"

definition blocked_reason :: "str \<Rightarrow> str synthesis" where
  "blocked_reason reason =
     bindE (valid_or (colon_free reason) ''blocked reason must be non-empty and colon-free'') (\<lambda>_.
     Inr (''blocked:'' @ reason))"

definition validate_terminal_reason :: "str \<Rightarrow> str synthesis" where
  "validate_terminal_reason s =
     (if s \<in> set terminal_bare then Inr s
      else case find (\<lambda>p. starts_with p s) [''budget_exhausted:'', ''blocked:''] of
        None \<Rightarrow> Inl (SynthesisInvalid (''unknown terminal reason: '' @ s))
      | Some p \<Rightarrow>
          if colon_free (drop (length p) s) then Inr s
          else Inl (SynthesisInvalid (''malformed terminal reason: '' @ s)))"

text \<open>What is accepted is exactly what the constructors of a reason build.\<close>

lemma terminal_reason_built:
  "validate_terminal_reason s = Inr t \<longleftrightarrow> t = s \<and>
     (s \<in> set terminal_bare \<or> (\<exists>x. budget_exhausted x = Inr s) \<or> (\<exists>x. blocked_reason x = Inr s))"
proof -
  have prefixed: "starts_with p s \<longleftrightarrow> s = p @ drop (length p) s" for p s :: str
    by (metis append_take_drop_id append_eq_conv_conj starts_with_def)
  have bare: "\<not> starts_with ''budget_exhausted:'' b \<and> \<not> starts_with ''blocked:'' b"
    if "b \<in> set terminal_bare" for b
    using that by (auto simp: terminal_bare_def starts_with_def)
  have "(\<exists>x. budget_exhausted x = Inr s)
      \<longleftrightarrow> starts_with ''budget_exhausted:'' s \<and> colon_free (drop (length ''budget_exhausted:'') s)"
    using prefixed [of "''budget_exhausted:''" s] by (auto simp: budget_exhausted_def bindE_eq_Inr)
  moreover have "(\<exists>x. blocked_reason x = Inr s)
      \<longleftrightarrow> starts_with ''blocked:'' s \<and> colon_free (drop (length ''blocked:'') s)"
    using prefixed [of "''blocked:''" s] by (auto simp: blocked_reason_def bindE_eq_Inr)
  moreover have "\<not> (starts_with ''budget_exhausted:'' s \<and> starts_with ''blocked:'' s)"
    by (cases s rule: remdups_adj.cases) (auto simp: starts_with_def)
  ultimately show ?thesis
    using bare by (auto simp: validate_terminal_reason_def)
qed

section \<open>The policy\<close>

datatype counter =
    RetrievalIterations | CitationDependencyHops | QueryFanOut | ResultsPerQuery
  | UniqueDiscoveredSources | GraphNodes | GraphEdges | BranchCount | BranchGenerationAttempts
  | WallClockSeconds | AcquiredSources | AcquiredBytes | BranchDepth | ModelCalls | ToolCalls
  | ReserveNumerator | ReserveDenominator

fun counter_name :: "counter \<Rightarrow> str" where
  "counter_name RetrievalIterations = ''retrieval_iterations''"
| "counter_name CitationDependencyHops = ''citation_dependency_hops''"
| "counter_name QueryFanOut = ''query_fan_out''"
| "counter_name ResultsPerQuery = ''results_per_query''"
| "counter_name UniqueDiscoveredSources = ''unique_discovered_sources''"
| "counter_name GraphNodes = ''graph_nodes''"
| "counter_name GraphEdges = ''graph_edges''"
| "counter_name BranchCount = ''branch_count''"
| "counter_name BranchGenerationAttempts = ''branch_generation_attempts''"
| "counter_name WallClockSeconds = ''wall_clock_seconds''"
| "counter_name AcquiredSources = ''acquired_sources''"
| "counter_name AcquiredBytes = ''acquired_bytes''"
| "counter_name BranchDepth = ''branch_depth''"
| "counter_name ModelCalls = ''model_calls''"
| "counter_name ToolCalls = ''tool_calls''"
| "counter_name ReserveNumerator = ''exploration_reserve_numerator''"
| "counter_name ReserveDenominator = ''exploration_reserve_denominator''"

definition positive_bounds :: "counter list" where
  "positive_bounds =
     [RetrievalIterations, CitationDependencyHops, QueryFanOut, ResultsPerQuery, UniqueDiscoveredSources,
      GraphNodes, GraphEdges, BranchCount, BranchGenerationAttempts, WallClockSeconds]"

definition zero_or_positive_bounds :: "counter list" where
  "zero_or_positive_bounds = [AcquiredSources, AcquiredBytes, BranchDepth, ModelCalls, ToolCalls]"

definition reserve_fields :: "counter list" where
  "reserve_fields = [ReserveNumerator, ReserveDenominator]"

definition policy_fields :: "counter list" where
  "policy_fields = sort_key counter_name (positive_bounds @ zero_or_positive_bounds @ reserve_fields)"

lemma policy_fields_sorted [code]:
  "policy_fields =
    [AcquiredBytes, AcquiredSources, BranchCount, BranchDepth, BranchGenerationAttempts,
     CitationDependencyHops, ReserveDenominator, ReserveNumerator, GraphEdges, GraphNodes,
     ModelCalls, QueryFanOut, ResultsPerQuery, RetrievalIterations, ToolCalls,
     UniqueDiscoveredSources, WallClockSeconds]"
  by code_simp

definition counter_of :: "str \<Rightarrow> counter option" where
  "counter_of name = find (\<lambda>c. counter_name c = name) policy_fields"

text \<open>The integer fields of a policy are held by name, as \<open>getattr\<close> reads them.\<close>

record synthesis_policy =
  sp_version :: str
  sp_bound :: "counter \<Rightarrow> int"

text \<open>\<open>_strict_int\<close>.\<close>

definition strict_int :: "json \<Rightarrow> str \<Rightarrow> int synthesis" where
  "strict_int v field =
     (case v of
        JBool _ \<Rightarrow> Inl (SynthesisInvalid (field @ '' must be an integer, not a Boolean''))
      | JFloat _ \<Rightarrow>
          if has_constant v then Inl (SynthesisInvalid (field @ '' must be finite''))
          else Inl (SynthesisInvalid (field @ '' must be an integer, not a float''))
      | JInt i \<Rightarrow> Inr i
      | _ \<Rightarrow> Inl (SynthesisInvalid (field @ '' must be an integer'')))"

definition policy_checks :: "synthesis_policy \<Rightarrow> unit synthesis list" where
  "policy_checks p =
     valid_or (sp_version p \<noteq> []) ''budget policy requires an explicit version''
     # map (\<lambda>c. valid_or (0 < sp_bound p c) (counter_name c @ '' must be a positive integer'')) positive_bounds
     @ map (\<lambda>c. valid_or (0 \<le> sp_bound p c) (counter_name c @ '' must be zero or a positive integer''))
         zero_or_positive_bounds
     @ [valid_or ((sp_bound p AcquiredSources = 0) = (sp_bound p AcquiredBytes = 0))
          ''acquired_sources and acquired_bytes are zero if and only if both are zero'',
        valid_or (0 < sp_bound p ReserveDenominator) ''exploration_reserve_denominator must be positive'',
        valid_or (0 < sp_bound p ReserveNumerator \<and> sp_bound p ReserveNumerator < sp_bound p ReserveDenominator)
          ''exploration reserve requires 0 < numerator < denominator'']"

definition policy_post_init :: "synthesis_policy \<Rightarrow> unit synthesis" where
  "policy_post_init p = checks (policy_checks p)"

definition policy_from_value :: "json \<Rightarrow> synthesis_policy synthesis" where
  "policy_from_value v =
     (case v of
        JObj kvs \<Rightarrow>
          (let expected = ''policy_version'' # map counter_name policy_fields;
               missing = sort (filter (\<lambda>k. k \<notin> set (map fst kvs)) expected);
               unknown = sort (filter (\<lambda>k. k \<notin> set expected) (dedup (map fst kvs)))
           in
           bindE (valid_or (missing = []) (''budget policy missing bounds: '' @ join '', '' missing)) (\<lambda>_.
           bindE (valid_or (unknown = []) (''budget policy has unknown fields: '' @ join '', '' unknown)) (\<lambda>_.
           case get_field kvs ''policy_version'' of
             JStr version \<Rightarrow>
               bindE (valid_or (version \<noteq> []) ''policy_version must be a non-empty string'') (\<lambda>_.
               bindE (mapE (\<lambda>c. strict_int (get_field kvs (counter_name c)) (counter_name c)) policy_fields)
                 (\<lambda>values.
               let p = \<lparr>sp_version = version, sp_bound = (\<lambda>c. the (map_of (zip policy_fields values) c))\<rparr> in
               bindE (policy_post_init p) (\<lambda>_. Inr p)))
           | _ \<Rightarrow> Inl (SynthesisInvalid ''policy_version must be a non-empty string''))))
      | _ \<Rightarrow> Inl (SynthesisInvalid ''budget policy must be an object''))"

definition policy_value :: "synthesis_policy \<Rightarrow> json" where
  "policy_value p =
     JObj ((''policy_version'', JStr (sp_version p))
       # map (\<lambda>c. (counter_name c, JInt (sp_bound p c))) policy_fields)"

text \<open>\<open>-(-b * n // d)\<close>; Isabelle's \<open>div\<close> rounds down as \<open>//\<close> does.\<close>

definition reserved_attempts :: "synthesis_policy \<Rightarrow> int" where
  "reserved_attempts p =
     - ((- sp_bound p BranchGenerationAttempts * sp_bound p ReserveNumerator) div sp_bound p ReserveDenominator)"

definition lowering_check :: "synthesis_policy \<Rightarrow> str \<times> json \<Rightarrow> (counter \<times> int) synthesis" where
  "lowering_check p kv =
     (case counter_of (fst kv) of
        None \<Rightarrow> Inl (SynthesisInvalid (''unknown bound: '' @ fst kv))
      | Some c \<Rightarrow>
          bindE (valid_or (c \<notin> set reserve_fields) ''the exploration reserve ratio cannot be restricted'') (\<lambda>_.
          bindE (strict_int (snd kv) (fst kv)) (\<lambda>i.
          bindE (valid_or (i \<le> sp_bound p c) (''no component may increase the bound '' @ fst kv)) (\<lambda>_.
          Inr (c, i)))))"

definition restrict_policy :: "(str \<times> json) list \<Rightarrow> synthesis_policy \<Rightarrow> synthesis_policy synthesis" where
  "restrict_policy lowered p =
     bindE (mapE (lowering_check p) lowered) (\<lambda>changes.
     let q = p\<lparr>sp_bound := (\<lambda>c. case map_of changes c of None \<Rightarrow> sp_bound p c | Some i \<Rightarrow> i)\<rparr> in
     bindE (policy_post_init q) (\<lambda>_. Inr q))"

section \<open>The ledger\<close>

record synthesis_ledger =
  sl_policy :: synthesis_policy
  sl_consumed :: "counter \<Rightarrow> int"

definition new_synthesis_ledger :: "synthesis_policy \<Rightarrow> synthesis_ledger" where
  "new_synthesis_ledger p = \<lparr>sl_policy = p, sl_consumed = (\<lambda>_. 0)\<rparr>"

definition consumable :: "str \<Rightarrow> counter synthesis" where
  "consumable name =
     (case counter_of name of
        None \<Rightarrow> Inl (SynthesisInvalid (''unknown budget counter: '' @ name))
      | Some c \<Rightarrow>
          if c \<in> set reserve_fields then Inl (SynthesisInvalid (''unknown budget counter: '' @ name))
          else Inr c)"

definition remaining :: "str \<Rightarrow> synthesis_ledger \<Rightarrow> int synthesis" where
  "remaining name l = bindE (consumable name) (\<lambda>c. Inr (sp_bound (sl_policy l) c - sl_consumed l c))"

definition consume :: "str \<Rightarrow> int \<Rightarrow> synthesis_ledger \<Rightarrow> synthesis_ledger synthesis" where
  "consume name amount l =
     bindE (consumable name) (\<lambda>c.
     bindE (valid_or (0 < amount) ''budget consumption must be a positive integer'') (\<lambda>_.
     bindE (ensure (sl_consumed l c + amount \<le> sp_bound (sl_policy l) c) (CounterExhausted name)) (\<lambda>_.
     Inr (l\<lparr>sl_consumed := (sl_consumed l)(c := sl_consumed l c + amount)\<rparr>))))"

definition ledger_counters :: "counter list" where
  "ledger_counters = filter (\<lambda>c. c \<notin> set reserve_fields) policy_fields"

definition synthesis_ledger_value :: "synthesis_ledger \<Rightarrow> json" where
  "synthesis_ledger_value l =
     JObj [(''policy_version'', JStr (sp_version (sl_policy l))),
       (''bounds'', JObj (map (\<lambda>c. (counter_name c, JInt (sp_bound (sl_policy l) c))) policy_fields)),
       (''consumed'', JObj (map (\<lambda>c. (counter_name c, JInt (sl_consumed l c))) ledger_counters))]"

section \<open>The exploration reserve\<close>

record reserve_allocation =
  ra_reserved :: int
  ra_incumbent :: strategy_family
  ra_allocations :: "(str \<times> int) list"
  ra_eligible :: "str list"
  ra_waivers :: "str list list"

definition reserve_allocation_value :: "reserve_allocation \<Rightarrow> json" where
  "reserve_allocation_value a =
     JObj [(''reserved'', JInt (ra_reserved a)),
       (''incumbent_family'', JStr (family_value (ra_incumbent a))),
       (''allocations'', JArr (map (\<lambda>(name, count).
          JObj [(''family'', JStr name), (''attempts'', JInt count)]) (ra_allocations a))),
       (''eligible_families'', jstrs (ra_eligible a)),
       (''reserve_unavailable'', JArr (map (\<lambda>entry.
          JObj [(''evaluated_families'', jstrs (butlast entry)), (''exclusion_reason'', JStr (last entry))])
          (ra_waivers a)))]"

text \<open>One entry of the allocation mapping.\<close>

definition allocation_entry ::
    "strategy_family list \<Rightarrow> str \<times> json \<Rightarrow> (strategy_family \<times> int) synthesis" where
  "allocation_entry families kv =
     bindE (parse_family (JStr (fst kv)) ''strategy_family'') (\<lambda>f.
     bindE (valid_or (f \<in> set families)
       (''allocation to ineligible strategy family: '' @ family_value f)) (\<lambda>_.
     bindE (strict_int (snd kv) (''allocation['' @ family_value f @ '']'')) (\<lambda>n.
     bindE (valid_or (0 \<le> n) ''allocation attempts must be zero or positive'') (\<lambda>_.
     Inr (f, n)))))"

definition waiver_entry :: "json \<Rightarrow> str list synthesis" where
  "waiver_entry entry =
     (case entry of
        JObj kvs \<Rightarrow>
          (case get_field kvs ''evaluated_families'' of
             JArr (e # es) \<Rightarrow>
               (case get_field kvs ''exclusion_reason'' of
                  JStr (c # cs) \<Rightarrow>
                    bindE (mapE (\<lambda>v. parse_family v ''evaluated_family'') (e # es)) (\<lambda>names.
                    bindE (valid_or (set names = set all_families)
                      ''reserve_unavailable must name every evaluated strategy family'') (\<lambda>_.
                    Inr (map family_value names @ [c # cs])))
                | _ \<Rightarrow> Inl (SynthesisInvalid ''reserve_unavailable requires an exclusion reason''))
           | _ \<Rightarrow> Inl (SynthesisInvalid ''reserve_unavailable must name every evaluated family''))
      | _ \<Rightarrow> Inl (SynthesisInvalid ''reserve_unavailable record must be an object''))"

definition share_of :: "strategy_family \<Rightarrow> (strategy_family \<times> int) list \<Rightarrow> int" where
  "share_of f charged = (case map_of charged f of None \<Rightarrow> 0 | Some n \<Rightarrow> n)"

definition reserve_checks ::
    "int \<Rightarrow> int \<Rightarrow> nat \<Rightarrow> int \<Rightarrow> int \<Rightarrow> nat \<Rightarrow> unit synthesis" where
  "reserve_checks budget reserved families incumbent_share spent waivers =
     (let non_incumbent = spent - incumbent_share in
      if 2 \<le> families then
        checks
          [valid_or (waivers = 0)
             ''no unavailability waiver applies while two strategy families are eligible'',
           valid_or (reserved \<le> non_incumbent)
             (''exploration reserve requires at least '' @ int_str reserved @ '' non-incumbent attempts''),
           valid_or (incumbent_share \<le> budget - reserved)
             (''incumbent family may receive at most '' @ int_str (budget - reserved) @ '' attempts'')]
      else
        valid_or (int waivers = max 0 (reserved - non_incumbent))
          (''each of the '' @ int_str (max 0 (reserved - non_incumbent))
            @ '' unfilled reserved slots requires a reserve_unavailable record''))"

definition allocate_with_reserve ::
    "synthesis_policy \<Rightarrow> str \<Rightarrow> str list \<Rightarrow> (str \<times> json) list \<Rightarrow> json list \<Rightarrow> reserve_allocation synthesis" where
  "allocate_with_reserve p incumbent_family eligible allocations waivers =
     (let budget = sp_bound p BranchGenerationAttempts; reserved = reserved_attempts p in
      bindE (valid_or (0 < reserved) ''exploration reserve must reserve at least one attempt'') (\<lambda>_.
      bindE (valid_or (reserved \<le> budget) ''exploration reserve exceeds the branch-generation budget'') (\<lambda>_.
      bindE (mapE (\<lambda>s. parse_family (JStr s) ''strategy_family'') eligible) (\<lambda>families.
      bindE (valid_or (distinct families) ''eligible strategy families must be distinct'') (\<lambda>_.
      bindE (parse_family (JStr incumbent_family) ''incumbent_family'') (\<lambda>incumbent.
      bindE (mapE (allocation_entry families) allocations) (\<lambda>charged.
      let spent = sum_list (map snd charged) in
      bindE (valid_or (spent \<le> budget) ''allocation exceeds the branch-generation budget'') (\<lambda>_.
      bindE (mapE waiver_entry waivers) (\<lambda>parsed.
      bindE (reserve_checks budget reserved (length families) (share_of incumbent charged) spent
          (length parsed)) (\<lambda>_.
      Inr \<lparr>ra_reserved = reserved, ra_incumbent = incumbent,
        ra_allocations = sort_key fst (map (\<lambda>(f, n). (family_value f, n)) charged),
        ra_eligible = sort (map family_value families), ra_waivers = parsed\<rparr>))))))))))"

end
