(* ===== verification/Synthesis_Branches.thy ===== *)
theory Synthesis_Branches
  imports Synthesis_Budget Py_Strings "HOL-Library.AList"
begin

text \<open>
  \<open>synthesis/branches.py\<close>, with the text guards of \<open>synthesis/records.py\<close> it uses: the finite portfolio
  of attempts.  An operation returns the branch and the portfolio after it; where the source raises,
  the portfolio is unchanged, because the budget is checked before anything is written.
\<close>

section \<open>Guards on texts\<close>

definition id_body :: "str \<Rightarrow> bool" where
  "id_body s \<longleftrightarrow>
     3 \<le> length s \<and> length s \<le> 128 \<and> CHR ''a'' \<le> hd s \<and> hd s \<le> CHR ''z''
     \<and> (\<forall>c \<in> set (tl s). (CHR ''a'' \<le> c \<and> c \<le> CHR ''z'') \<or> is_digit c \<or> c \<in> set ''_.-'')"

text \<open>\<open>IDENTIFIER.match\<close>: the \<open>$\<close> of the pattern also matches before a newline at the end.\<close>

definition identifier_matches :: "str \<Rightarrow> bool" where
  "identifier_matches s \<longleftrightarrow> id_body s \<or> (s \<noteq> [] \<and> last s = CHR 0x0A \<and> id_body (butlast s))"

definition synthesis_identifier :: "str \<Rightarrow> str \<Rightarrow> unit synthesis" where
  "synthesis_identifier s field =
     valid_or (identifier_matches s) (field @ '' must match ^[a-z][a-z0-9_.-]{2,127}$'')"

definition max_text_bytes :: nat where
  "max_text_bytes = 8192"

definition synthesis_text :: "str \<Rightarrow> str \<Rightarrow> unit synthesis" where
  "synthesis_text s field =
     bindE (valid_or (s \<noteq> []) (field @ '' must be non-empty'')) (\<lambda>_.
     bindE (ensure (utf8_valid s) (SynthesisEscaped UnicodeEncodeErr)) (\<lambda>_.
     valid_or (length s \<le> max_text_bytes) (field @ '' exceeds 8192 UTF-8 bytes'')))"

definition text_tuple :: "str list \<Rightarrow> str \<Rightarrow> unit synthesis" where
  "text_tuple xs field =
     bindE (valid_or (length xs \<le> 32) (field @ '' exceeds 32 items'')) (\<lambda>_.
     checks (map (\<lambda>s. synthesis_text s (field @ ''[]'')) xs))"

section \<open>States\<close>

datatype branch_state = BranchProposed | BranchActive | BranchAbandoned | BranchCompleted | BranchBlocked

fun branch_state_value :: "branch_state \<Rightarrow> str" where
  "branch_state_value BranchProposed = ''proposed''"
| "branch_state_value BranchActive = ''active''"
| "branch_state_value BranchAbandoned = ''abandoned''"
| "branch_state_value BranchCompleted = ''completed''"
| "branch_state_value BranchBlocked = ''blocked''"

definition all_branch_states :: "branch_state list" where
  "all_branch_states = [BranchProposed, BranchActive, BranchAbandoned, BranchCompleted, BranchBlocked]"

fun allowed_transitions :: "branch_state \<Rightarrow> branch_state list" where
  "allowed_transitions BranchProposed = [BranchActive, BranchBlocked, BranchAbandoned]"
| "allowed_transitions BranchActive = [BranchCompleted, BranchAbandoned, BranchBlocked]"
| "allowed_transitions BranchBlocked = [BranchActive, BranchAbandoned]"
| "allowed_transitions BranchAbandoned = []"
| "allowed_transitions BranchCompleted = []"

section \<open>The duplicate key\<close>

text \<open>\<open>" ".join(folded.split())\<close>; the fuel is the length of the string.\<close>

fun words_from :: "nat \<Rightarrow> str \<Rightarrow> str \<Rightarrow> str list" where
  "words_from 0 word s = (if word = [] then [] else [word])"
| "words_from (Suc n) word s =
     (case s of
        [] \<Rightarrow> if word = [] then [] else [word]
      | c # cs \<Rightarrow>
          (case leading py_whitespace s of
             None \<Rightarrow> words_from n (word @ [c]) cs
           | Some w \<Rightarrow> (if word = [] then [] else [word]) @ words_from n [] (drop (length w) s)))"

definition py_split :: "str \<Rightarrow> str list" where
  "py_split s = words_from (length s) [] s"

text \<open>\<open>nfc\<close> is \<open>unicodedata.normalize("NFC", value).casefold()\<close>.\<close>

definition normalize_hypothesis :: "(str \<Rightarrow> str) \<Rightarrow> str \<Rightarrow> str synthesis" where
  "normalize_hypothesis nfc s =
     bindE (synthesis_text s ''hypothesis'') (\<lambda>_. Inr (join '' '' (py_split (nfc s))))"

definition canonicalization_version_synthesis :: str where
  "canonicalization_version_synthesis = ''synthesis-canonical-json-v1''"

definition duplicate_key_version :: str where
  "duplicate_key_version = ''synthesis-duplicate-attempt-key-v1''"

text \<open>\<open>canonical_hash\<close> of a JSON value that may hold what JSON or UTF-8 cannot.\<close>

definition synthesis_hash :: "hexdigest \<Rightarrow> json \<Rightarrow> str synthesis" where
  "synthesis_hash H v =
     bindE (ensure (\<not> has_constant v) (SynthesisEscaped (EffectRaised ''ValueError''))) (\<lambda>_.
     bindE (ensure (utf8_strings v) (SynthesisEscaped UnicodeEncodeErr)) (\<lambda>_.
     Inr (canonical_hash H v)))"

definition normalized_hypothesis_digest :: "hexdigest \<Rightarrow> (str \<Rightarrow> str) \<Rightarrow> str \<Rightarrow> str synthesis" where
  "normalized_hypothesis_digest H nfc s =
     bindE (normalize_hypothesis nfc s) (\<lambda>normalized.
     synthesis_hash H (JObj [(''canonicalization_version'', JStr canonicalization_version_synthesis),
       (''normalized_hypothesis'', JStr normalized)]))"

definition constraint_configuration_digest :: "hexdigest \<Rightarrow> json \<Rightarrow> str synthesis" where
  "constraint_configuration_digest H v =
     (case v of
        JObj kvs \<Rightarrow>
          synthesis_hash H (JObj [(''canonicalization_version'', JStr canonicalization_version_synthesis),
            (''configuration'', JObj kvs)])
      | _ \<Rightarrow> Inl (SynthesisInvalid ''constraint configuration must be an object''))"

definition duplicate_attempt_key ::
    "hexdigest \<Rightarrow> str \<Rightarrow> str option \<Rightarrow> strategy_family \<Rightarrow> str \<Rightarrow> str \<Rightarrow> str synthesis" where
  "duplicate_attempt_key H hypothesis_digest parent family snapshot constraint_digest =
     synthesis_hash H (JObj
       [(''canonicalization_version'', JStr canonicalization_version_synthesis),
        (''constraint_configuration_digest'', JStr constraint_digest),
        (''duplicate_key_version'', JStr duplicate_key_version),
        (''input_graph_snapshot_identity'', JStr snapshot),
        (''normalized_hypothesis_digest'', JStr hypothesis_digest),
        (''parent_branch_identity'', jstr_opt parent),
        (''strategy_family_identity'', JStr (family_value family))])"

section \<open>Branches\<close>

record research_branch =
  br_branch_id :: str
  br_parent_branch_id :: "str option"
  br_strategy_family :: strategy_family
  br_hypothesis :: str
  br_objective_delta :: str
  br_required_evidence :: "str list"
  br_falsification_conditions :: "str list"
  br_depth :: int
  br_budget_policy_version :: str
  br_duplicate_key :: str
  br_state :: branch_state
  br_confidence_proposal :: str
  br_failure_detail :: str
  br_discoveries :: "str list"
  br_stop_reason :: "str option"

definition branch_post_init :: "research_branch \<Rightarrow> unit synthesis" where
  "branch_post_init b = checks
     [synthesis_identifier (br_branch_id b) ''branch_id'',
      (case br_parent_branch_id b of
         None \<Rightarrow> Inr ()
       | Some p \<Rightarrow>
           bindE (synthesis_identifier p ''parent_branch_id'') (\<lambda>_.
           valid_or (p \<noteq> br_branch_id b) ''a branch cannot be its own parent'')),
      synthesis_text (br_hypothesis b) ''hypothesis'',
      synthesis_text (br_objective_delta b) ''objective_delta'',
      synthesis_text (br_confidence_proposal b) ''confidence_proposal'',
      valid_or (0 \<le> br_depth b) ''branch depth must be zero or positive'',
      valid_or ((br_parent_branch_id b = None) = (br_depth b = 0)) ''a root branch has depth zero and no parent'',
      valid_or (br_falsification_conditions b \<noteq> []) ''a branch must declare its falsification conditions'',
      (case br_stop_reason b of
         None \<Rightarrow> Inr ()
       | Some r \<Rightarrow> bindE (validate_terminal_reason r) (\<lambda>_. Inr ()))]"

definition branch_value :: "research_branch \<Rightarrow> json" where
  "branch_value b = JObj
     [(''branch_id'', JStr (br_branch_id b)), (''parent_branch_id'', jstr_opt (br_parent_branch_id b)),
      (''strategy_family'', JStr (family_value (br_strategy_family b))),
      (''hypothesis'', JStr (br_hypothesis b)), (''objective_delta'', JStr (br_objective_delta b)),
      (''required_evidence'', jstrs (br_required_evidence b)),
      (''falsification_conditions'', jstrs (br_falsification_conditions b)),
      (''depth'', JInt (br_depth b)), (''budget_policy_version'', JStr (br_budget_policy_version b)),
      (''duplicate_key'', JStr (br_duplicate_key b)),
      (''state'', JStr (branch_state_value (br_state b))),
      (''confidence_proposal'', JStr (br_confidence_proposal b)),
      (''failure_detail'', JStr (br_failure_detail b)), (''discoveries'', jstrs (br_discoveries b)),
      (''stop_reason'', jstr_opt (br_stop_reason b))]"

record branch_transition =
  bt_transition_id :: str
  bt_branch_id :: str
  bt_from_state :: branch_state
  bt_to_state :: branch_state
  bt_reason :: str
  bt_actor_id :: str
  bt_sequence :: int

definition branch_transition_value :: "branch_transition \<Rightarrow> json" where
  "branch_transition_value t = JObj
     [(''transition_id'', JStr (bt_transition_id t)), (''branch_id'', JStr (bt_branch_id t)),
      (''from_state'', JStr (branch_state_value (bt_from_state t))),
      (''to_state'', JStr (branch_state_value (bt_to_state t))), (''reason'', JStr (bt_reason t)),
      (''actor_id'', JStr (bt_actor_id t)), (''sequence'', JInt (bt_sequence t))]"

record retry_authorization =
  ry_retry_id :: str
  ry_original_branch_id :: str
  ry_changed_field :: str
  ry_previous_value :: str
  ry_new_value :: str
  ry_authorized_by :: str

definition retry_changeable :: "str list" where
  "retry_changeable =
     [''budget_policy'', ''constraint_configuration'', ''hypothesis'', ''input_graph_snapshot_identity'',
      ''strategy_family'']"

definition retry_post_init :: "retry_authorization \<Rightarrow> unit synthesis" where
  "retry_post_init r = checks
     [synthesis_identifier (ry_original_branch_id r) ''original_branch_id'',
      synthesis_identifier (ry_authorized_by r) ''authorized_by'',
      valid_or (ry_changed_field r \<in> set retry_changeable)
        (''a retry must identify a changed input or policy from: '' @ join '', '' retry_changeable),
      valid_or (ry_previous_value r \<noteq> ry_new_value r) ''a retry must identify an actual change'']"

definition retry_value :: "retry_authorization \<Rightarrow> json" where
  "retry_value r = JObj
     [(''retry_id'', JStr (ry_retry_id r)), (''original_branch_id'', JStr (ry_original_branch_id r)),
      (''changed_field'', JStr (ry_changed_field r)), (''previous_value'', JStr (ry_previous_value r)),
      (''new_value'', JStr (ry_new_value r)), (''authorized_by'', JStr (ry_authorized_by r))]"

section \<open>The portfolio\<close>

record portfolio =
  pf_policy :: synthesis_policy
  pf_ledger :: synthesis_ledger
  pf_branches :: "(str \<times> research_branch) list"
  pf_by_key :: "str \<rightharpoonup> str"
  pf_transitions :: "branch_transition list"
  pf_retries :: "(str \<times> retry_authorization) list"
  pf_history :: "research_branch list"

definition new_portfolio :: "synthesis_policy \<Rightarrow> portfolio" where
  "new_portfolio p =
     \<lparr>pf_policy = p, pf_ledger = new_synthesis_ledger p, pf_branches = [], pf_by_key = Map.empty,
      pf_transitions = [], pf_retries = [], pf_history = []\<rparr>"

definition get_branch :: "str \<Rightarrow> portfolio \<Rightarrow> research_branch synthesis" where
  "get_branch i s =
     (case map_of (pf_branches s) i of
        None \<Rightarrow> Inl (SynthesisEscaped (EffectRaised ''KeyError''))
      | Some b \<Rightarrow> Inr b)"

definition find_by_key :: "str \<Rightarrow> portfolio \<Rightarrow> research_branch option" where
  "find_by_key key s =
     (case pf_by_key s key of None \<Rightarrow> None | Some i \<Rightarrow> map_of (pf_branches s) i)"

definition creation_counters :: "str list" where
  "creation_counters = [''branch_generation_attempts'', ''branch_count'']"

fun consume_each :: "str list \<Rightarrow> synthesis_ledger \<Rightarrow> synthesis_ledger synthesis" where
  "consume_each [] l = Inr l"
| "consume_each (name # names) l = bindE (consume name 1 l) (consume_each names)"

definition consume_creation_budget :: "synthesis_ledger \<Rightarrow> synthesis_ledger synthesis" where
  "consume_creation_budget l =
     bindE (checks (map (\<lambda>name.
         bindE (remaining name l) (\<lambda>left. ensure (1 \<le> left) (CounterExhausted name))) creation_counters)) (\<lambda>_.
     consume_each creation_counters l)"

record attempt =
  at_hypothesis :: str
  at_strategy_family :: json
  at_objective_delta :: str
  at_falsification_conditions :: "str list"
  at_snapshot :: str
  at_constraint_configuration :: json
  at_required_evidence :: "str list"
  at_parent_branch_id :: "str option"
  at_confidence_proposal :: str
  at_retry :: "retry_authorization option"

definition stable_hash_id :: "hexdigest \<Rightarrow> str \<Rightarrow> json \<Rightarrow> str" where
  "stable_hash_id H name v = name @ ''.'' @ take 24 (drop 7 (canonical_hash H v))"

definition attempt_key :: "hexdigest \<Rightarrow> (str \<Rightarrow> str) \<Rightarrow> attempt \<Rightarrow> strategy_family \<Rightarrow> str synthesis" where
  "attempt_key H nfc a family =
     bindE (normalized_hypothesis_digest H nfc (at_hypothesis a)) (\<lambda>hypothesis_digest.
     bindE (constraint_configuration_digest H (at_constraint_configuration a)) (\<lambda>constraint_digest.
     duplicate_attempt_key H hypothesis_digest (at_parent_branch_id a) family (at_snapshot a)
       constraint_digest))"

definition attempt_depth :: "attempt \<Rightarrow> portfolio \<Rightarrow> int synthesis" where
  "attempt_depth a s =
     (case at_parent_branch_id a of
        None \<Rightarrow> Inr 0
      | Some parent \<Rightarrow> bindE (get_branch parent s) (\<lambda>b. Inr (br_depth b + 1)))"

definition attempt_branch ::
    "hexdigest \<Rightarrow> attempt \<Rightarrow> strategy_family \<Rightarrow> int \<Rightarrow> str \<Rightarrow> portfolio \<Rightarrow> research_branch" where
  "attempt_branch H a family depth key s =
     \<lparr>br_branch_id = stable_hash_id H ''branch'' (JObj [(''duplicate_key'', JStr key)]),
      br_parent_branch_id = at_parent_branch_id a, br_strategy_family = family,
      br_hypothesis = at_hypothesis a, br_objective_delta = at_objective_delta a,
      br_required_evidence = at_required_evidence a,
      br_falsification_conditions = at_falsification_conditions a, br_depth = depth,
      br_budget_policy_version = sp_version (pf_policy s), br_duplicate_key = key,
      br_state = BranchProposed, br_confidence_proposal = at_confidence_proposal a,
      br_failure_detail = [], br_discoveries = [], br_stop_reason = None\<rparr>"

definition enqueue ::
    "hexdigest \<Rightarrow> (str \<Rightarrow> str) \<Rightarrow> attempt \<Rightarrow> portfolio \<Rightarrow> (research_branch \<times> portfolio) synthesis" where
  "enqueue H nfc a s =
     bindE (parse_family (at_strategy_family a) ''strategy_family'') (\<lambda>family.
     bindE (attempt_depth a s) (\<lambda>depth.
     bindE (valid_or (depth \<le> sp_bound (pf_policy s) BranchDepth)
       (''branch depth '' @ int_str depth @ '' exceeds the bound ''
         @ int_str (sp_bound (pf_policy s) BranchDepth))) (\<lambda>_.
     bindE (attempt_key H nfc a family) (\<lambda>key.
     case pf_by_key s key of
       Some existing \<Rightarrow> Inl (DuplicateAttempt key existing)
     | None \<Rightarrow>
         let b = attempt_branch H a family depth key s in
         bindE (text_tuple (at_required_evidence a) ''required_evidence'') (\<lambda>_.
         bindE (text_tuple (at_falsification_conditions a) ''falsification_conditions'') (\<lambda>_.
         bindE (branch_post_init b) (\<lambda>_.
         bindE (valid_or
             (case at_retry a of
                None \<Rightarrow> True
              | Some r \<Rightarrow> map_of (pf_branches s) (ry_original_branch_id r) \<noteq> None)
             ''a retry must reference an existing branch'') (\<lambda>_.
         bindE (consume_creation_budget (pf_ledger s)) (\<lambda>l.
         Inr (b, s\<lparr>pf_ledger := l,
           pf_retries := (case at_retry a of
               None \<Rightarrow> pf_retries s
             | Some r \<Rightarrow> AList.update (ry_retry_id r) r (pf_retries s)),
           pf_branches := AList.update (br_branch_id b) b (pf_branches s),
           pf_by_key := (pf_by_key s)(key \<mapsto> br_branch_id b),
           pf_history := pf_history s @ [b]\<rparr>))))))))))"

record move =
  mv_branch_id :: str
  mv_to_state :: json
  mv_reason :: str
  mv_actor_id :: str
  mv_failure_detail :: str
  mv_discoveries :: "str list"
  mv_stop_reason :: "str option"

definition moved_branch :: "move \<Rightarrow> branch_state \<Rightarrow> research_branch \<Rightarrow> research_branch" where
  "moved_branch m target b =
     b\<lparr>br_state := target,
       br_failure_detail := (if mv_failure_detail m = [] then br_failure_detail b else mv_failure_detail m),
       br_discoveries := br_discoveries b @ mv_discoveries m,
       br_stop_reason := (case mv_stop_reason m of None \<Rightarrow> br_stop_reason b | Some r \<Rightarrow> Some r)\<rparr>"

definition move_transition :: "hexdigest \<Rightarrow> move \<Rightarrow> research_branch \<Rightarrow> branch_state \<Rightarrow> portfolio \<Rightarrow> branch_transition" where
  "move_transition H m current target s =
     (let number = int (length (pf_transitions s)) + 1 in
      \<lparr>bt_transition_id = stable_hash_id H ''branch-transition'' (JObj
         [(''branch_id'', JStr (mv_branch_id m)), (''to_state'', JStr (branch_state_value target)),
          (''sequence'', JInt number)]),
       bt_branch_id = mv_branch_id m, bt_from_state = br_state current, bt_to_state = target,
       bt_reason = mv_reason m, bt_actor_id = mv_actor_id m, bt_sequence = number\<rparr>)"

definition transition_branch :: "hexdigest \<Rightarrow> move \<Rightarrow> portfolio \<Rightarrow> (research_branch \<times> portfolio) synthesis" where
  "transition_branch H m s =
     bindE (get_branch (mv_branch_id m) s) (\<lambda>current.
     bindE (closed_enum branch_state_value all_branch_states (mv_to_state m) ''to_state'') (\<lambda>target.
     bindE (valid_or (target \<in> set (allowed_transitions (br_state current)))
       (''branch '' @ mv_branch_id m @ '' cannot move from '' @ branch_state_value (br_state current)
         @ '' to '' @ branch_state_value target)) (\<lambda>_.
     bindE (synthesis_identifier (mv_actor_id m) ''actor_id'') (\<lambda>_.
     bindE (synthesis_text (mv_reason m) ''reason'') (\<lambda>_.
     bindE (text_tuple (mv_discoveries m) ''discoveries'') (\<lambda>_.
     let updated = moved_branch m target current in
     bindE (branch_post_init updated) (\<lambda>_.
     bindE (consume ''branch_generation_attempts'' 1 (pf_ledger s)) (\<lambda>l.
     Inr (updated, s\<lparr>pf_ledger := l,
       pf_transitions := pf_transitions s @ [move_transition H m current target s],
       pf_branches := AList.update (mv_branch_id m) updated (pf_branches s),
       pf_history := pf_history s @ [updated]\<rparr>)))))))))"

definition portfolio_value :: "portfolio \<Rightarrow> json" where
  "portfolio_value s = JObj
     [(''duplicate_key_version'', JStr duplicate_key_version),
      (''branches'', JArr (map (\<lambda>(i, b). branch_value b) (sort_key fst (pf_branches s)))),
      (''transitions'', JArr (map branch_transition_value (pf_transitions s))),
      (''retry_authorizations'', JArr (map (\<lambda>(i, r). retry_value r) (sort_key fst (pf_retries s)))),
      (''budget_ledger'', synthesis_ledger_value (pf_ledger s))]"

end
