(* ===== verification/Synthesis_Steering.thy ===== *)
theory Synthesis_Steering
  imports Synthesis_Branches
begin

text \<open>
  \<open>synthesis/steering.py\<close>: the append-only log of human steering decisions, and the policy they leave
  in force.  An operation returns the record and the log after it; where it raises, the log is
  unchanged.
\<close>

datatype steering_action = SelectBranch | Rebudget | RedirectObjective | StopRun

fun steering_action_value :: "steering_action \<Rightarrow> str" where
  "steering_action_value SelectBranch = ''select_branch''"
| "steering_action_value Rebudget = ''rebudget''"
| "steering_action_value RedirectObjective = ''redirect_objective''"
| "steering_action_value StopRun = ''stop''"

definition all_steering_actions :: "steering_action list" where
  "all_steering_actions = [SelectBranch, Rebudget, RedirectObjective, StopRun]"

definition requires_target :: "steering_action \<Rightarrow> bool" where
  "requires_target a \<longleftrightarrow> a \<in> {SelectBranch, RedirectObjective}"

record steering_principal =
  st_principal_id :: str
  st_actor_kind :: str
  st_authority :: str
  st_capability_id :: str
  st_capability_operation :: str

definition principal_post_init :: "steering_principal \<Rightarrow> unit synthesis" where
  "principal_post_init p =
     bindE (synthesis_identifier (st_principal_id p) ''principal_id'') (\<lambda>_.
     synthesis_identifier (st_capability_id p) ''capability_id'')"

definition authorize :: "steering_principal \<Rightarrow> unit synthesis" where
  "authorize p =
     bindE (ensure (st_capability_operation p = ''steer_research'')
       (NotPermitted ''capability does not authorize the steering operation'')) (\<lambda>_.
     ensure (st_actor_kind p = ''human'' \<and> st_authority p = ''human_final'')
       (NotPermitted ''steering requires a trusted human-final principal''))"

definition principal_value :: "steering_principal \<Rightarrow> json" where
  "principal_value p = JObj
     [(''principal_id'', JStr (st_principal_id p)), (''actor_kind'', JStr (st_actor_kind p)),
      (''authority'', JStr (st_authority p)), (''capability_id'', JStr (st_capability_id p)),
      (''capability_operation'', JStr (st_capability_operation p))]"

record steering_record =
  sr_steering_id :: str
  sr_sequence :: int
  sr_action :: steering_action
  sr_principal_id :: str
  sr_capability_id :: str
  sr_idempotency_key :: str
  sr_causal_predecessor_id :: str
  sr_previous_view_identity :: str
  sr_target_branch_id :: "str option"
  sr_target_objective_id :: "str option"
  sr_instruction :: str
  sr_budget_policy_version :: str
  sr_semantic_digest :: str

definition steering_record_value :: "steering_record \<Rightarrow> json" where
  "steering_record_value r = JObj
     [(''steering_id'', JStr (sr_steering_id r)), (''sequence'', JInt (sr_sequence r)),
      (''action'', JStr (steering_action_value (sr_action r))),
      (''principal_id'', JStr (sr_principal_id r)), (''capability_id'', JStr (sr_capability_id r)),
      (''idempotency_key'', JStr (sr_idempotency_key r)),
      (''causal_predecessor_id'', JStr (sr_causal_predecessor_id r)),
      (''previous_view_identity'', JStr (sr_previous_view_identity r)),
      (''target_branch_id'', jstr_opt (sr_target_branch_id r)),
      (''target_objective_id'', jstr_opt (sr_target_objective_id r)),
      (''instruction'', JStr (sr_instruction r)),
      (''budget_policy_version'', JStr (sr_budget_policy_version r)),
      (''semantic_digest'', JStr (sr_semantic_digest r)),
      (''effective_actor_kind'', JStr ''human''), (''authority'', JStr ''human_final''),
      (''required_capability'', JStr ''steer_research'')]"

text \<open>\<open>_by_key\<close> is searched in the records, whose keys are distinct.\<close>

record steering_log =
  sg_root_id :: str
  sg_policy :: synthesis_policy
  sg_records :: "steering_record list"

definition new_steering_log :: "str \<Rightarrow> synthesis_policy \<Rightarrow> steering_log synthesis" where
  "new_steering_log root p =
     bindE (synthesis_identifier root ''root_id'') (\<lambda>_.
     Inr \<lparr>sg_root_id = root, sg_policy = p, sg_records = []\<rparr>)"

definition steering_view :: "steering_log \<Rightarrow> json" where
  "steering_view l = JObj
     [(''root_id'', JStr (sg_root_id l)),
      (''records'', JArr (map steering_record_value (sg_records l))),
      (''policy'', policy_value (sg_policy l))]"

definition current_view_identity :: "hexdigest \<Rightarrow> steering_log \<Rightarrow> str synthesis" where
  "current_view_identity H l = synthesis_hash H (steering_view l)"

record steering_request =
  sq_principal :: steering_principal
  sq_action :: json
  sq_instruction :: str
  sq_idempotency_key :: str
  sq_target_branch_id :: "str option"
  sq_target_objective_id :: "str option"
  sq_lowered_bounds :: "(str \<times> json) list"

definition supplied_targets :: "steering_request \<Rightarrow> nat" where
  "supplied_targets q =
     (if sq_target_branch_id q = None then 0 else 1) + (if sq_target_objective_id q = None then 0 else 1)"

definition steering_semantic :: "steering_request \<Rightarrow> steering_action \<Rightarrow> json" where
  "steering_semantic q a = JObj
     [(''action'', JStr (steering_action_value a)),
      (''capability_id'', JStr (st_capability_id (sq_principal q))),
      (''instruction'', JStr (sq_instruction q)),
      (''lowered_bounds'', JObj (sort_key fst (sq_lowered_bounds q))),
      (''principal_id'', JStr (st_principal_id (sq_principal q))),
      (''target_branch_id'', jstr_opt (sq_target_branch_id q)),
      (''target_objective_id'', jstr_opt (sq_target_objective_id q))]"

text \<open>The checks of \<open>append\<close> up to the effective policy.\<close>

definition steering_shape :: "steering_request \<Rightarrow> steering_action synthesis" where
  "steering_shape q =
     bindE (authorize (sq_principal q)) (\<lambda>_.
     bindE (closed_enum steering_action_value all_steering_actions (sq_action q) ''action'') (\<lambda>a.
     bindE (synthesis_text (sq_instruction q) ''instruction'') (\<lambda>_.
     bindE (synthesis_text (sq_idempotency_key q) ''idempotency_key'') (\<lambda>_.
     bindE (valid_or (requires_target a \<longrightarrow> supplied_targets q = 1)
       (steering_action_value a @ '' requires exactly one target'')) (\<lambda>_.
     bindE (valid_or (requires_target a \<or> supplied_targets q = 0)
       (steering_action_value a @ '' takes no target'')) (\<lambda>_.
     bindE (valid_or (a = Rebudget \<longrightarrow> sq_lowered_bounds q \<noteq> [])
       ''a rebudget must lower at least one bound'') (\<lambda>_.
     bindE (valid_or (a = Rebudget \<or> sq_lowered_bounds q = [])
       ''only a rebudget may change bounds'') (\<lambda>_.
     Inr a))))))))"

definition effective_policy :: "steering_request \<Rightarrow> steering_log \<Rightarrow> synthesis_policy synthesis" where
  "effective_policy q l =
     (if sq_lowered_bounds q = [] then Inr (sg_policy l)
      else restrict_policy (sq_lowered_bounds q) (sg_policy l))"

definition steering_append ::
    "hexdigest \<Rightarrow> steering_request \<Rightarrow> steering_log \<Rightarrow> (steering_record \<times> steering_log) synthesis" where
  "steering_append H q l =
     bindE (steering_shape q) (\<lambda>a.
     bindE (effective_policy q l) (\<lambda>p.
     bindE (synthesis_hash H (steering_semantic q a)) (\<lambda>digest.
     case find (\<lambda>r. sr_idempotency_key r = sq_idempotency_key q) (sg_records l) of
       Some existing \<Rightarrow>
         bindE (valid_or (sr_semantic_digest existing = digest)
           ''steering idempotency key reused with different semantics'') (\<lambda>_.
         Inr (existing, l))
     | None \<Rightarrow>
         bindE (current_view_identity H l) (\<lambda>view.
         bindE (synthesis_hash H (JObj [(''root_id'', JStr (sg_root_id l)),
             (''idempotency_key'', JStr (sq_idempotency_key q))])) (\<lambda>_.
         let r = \<lparr>sr_steering_id = stable_hash_id H ''steering'' (JObj
               [(''root_id'', JStr (sg_root_id l)), (''idempotency_key'', JStr (sq_idempotency_key q))]),
             sr_sequence = int (length (sg_records l)) + 1, sr_action = a,
             sr_principal_id = st_principal_id (sq_principal q),
             sr_capability_id = st_capability_id (sq_principal q),
             sr_idempotency_key = sq_idempotency_key q,
             sr_causal_predecessor_id =
               (if sg_records l = [] then sg_root_id l else sr_steering_id (last (sg_records l))),
             sr_previous_view_identity = view,
             sr_target_branch_id = sq_target_branch_id q,
             sr_target_objective_id = sq_target_objective_id q,
             sr_instruction = sq_instruction q, sr_budget_policy_version = sp_version p,
             sr_semantic_digest = digest\<rparr> in
         Inr (r, l\<lparr>sg_policy := p, sg_records := sg_records l @ [r]\<rparr>))))))"

definition steering_log_value :: "hexdigest \<Rightarrow> steering_log \<Rightarrow> json synthesis" where
  "steering_log_value H l =
     bindE (current_view_identity H l) (\<lambda>view.
     Inr (JObj
       [(''root_id'', JStr (sg_root_id l)),
        (''records'', JArr (map steering_record_value (sg_records l))),
        (''effective_policy'', policy_value (sg_policy l)), (''current_view_identity'', JStr view)]))"

end
