(* ===== verification/Synthesis_Runs.thy ===== *)
theory Synthesis_Runs
  imports Synthesis_Steering Trust_Store
begin

text \<open>
  The runs of the synthesis budget: what an accepted allocation charges, the portfolios and the
  steering logs that operations can reach, with the invariant that every operation keeps.
\<close>

section \<open>The policy\<close>

lemma policy_post_init_Inr:
  "policy_post_init p = Inr () \<Longrightarrow>
     (\<forall>c \<in> set positive_bounds. 0 < sp_bound p c) \<and> 0 < sp_bound p ReserveNumerator
     \<and> sp_bound p ReserveNumerator < sp_bound p ReserveDenominator"
  by (auto simp: policy_post_init_def policy_checks_def checks_Inr ball_Un)

text \<open>The reserve is the share of the attempts, rounded up; it is at least one and at most all of them.\<close>

lemma reserved_attempts_ceiling:
  assumes "policy_post_init p = Inr ()"
  shows "sp_bound p BranchGenerationAttempts * sp_bound p ReserveNumerator
           \<le> sp_bound p ReserveDenominator * reserved_attempts p"
    and "sp_bound p ReserveDenominator * (reserved_attempts p - 1)
           < sp_bound p BranchGenerationAttempts * sp_bound p ReserveNumerator"
    and "1 \<le> reserved_attempts p" and "reserved_attempts p \<le> sp_bound p BranchGenerationAttempts"
proof -
  define B n d where "B = sp_bound p BranchGenerationAttempts" and "n = sp_bound p ReserveNumerator"
    and "d = sp_bound p ReserveDenominator"
  define q where "q = (- B * n) div d"
  have bounds: "0 < B" "0 < n" "n < d"
    using policy_post_init_Inr [OF assms] by (simp_all add: B_def n_def d_def positive_bounds_def)
  have r: "reserved_attempts p = - q"
    by (simp add: reserved_attempts_def q_def B_def n_def d_def)
  have eq: "- B * n = d * q + (- B * n) mod d"
    by (simp add: q_def)
  have rem: "0 \<le> (- B * n) mod d" "(- B * n) mod d < d"
    using bounds by simp_all
  have low: "d * q \<le> - B * n" and high: "- B * n < d * (q + 1)"
    using eq rem by (simp_all add: distrib_left)
  show "B * n \<le> d * reserved_attempts p" using low by (simp add: r)
  show "d * (reserved_attempts p - 1) < B * n" using high by (simp add: r algebra_simps)
  have "0 < B * n" using bounds by simp
  then have "d * q < 0" using low by simp
  then have "q < 0" using bounds by (simp add: mult_less_0_iff)
  then show "1 \<le> reserved_attempts p" by (simp add: r)
  have "B * n < B * d" using bounds by simp
  then have "d * - B < d * (q + 1)" using high by (simp add: algebra_simps)
  then have "- B < q + 1" using bounds mult_less_cancel_left_pos [of d "- B" "q + 1"] by simp
  then show "reserved_attempts p \<le> B" by (simp add: r)
qed

section \<open>The exploration reserve\<close>

lemma allocation_entries:
  assumes "mapE (allocation_entry families) allocations = Inr charged"
  shows "map (\<lambda>(f, n). family_value f) charged = map fst allocations"
    and "(f, n) \<in> set charged \<Longrightarrow> f \<in> set families \<and> 0 \<le> n"
  using assms
  by (induction allocations arbitrary: charged)
    (auto simp: bindE_eq_Inr allocation_entry_def parse_family_Inr)

lemma family_value_inject [simp]: "family_value f = family_value g \<longleftrightarrow> f = g"
  by (cases f; cases g; simp)

lemma share_split:
  assumes "distinct (map fst charged)"
  shows "sum_list (map snd charged)
    = share_of f charged + sum_list (map snd (filter (\<lambda>(g, n). g \<noteq> f) charged))"
  using assms
proof (induction charged)
  case (Cons gn charged)
  have none: "share_of f charged = 0" if "fst gn = f"
    using Cons.prems that by (auto simp: share_of_def map_of_eq_None_iff split: option.splits
        dest!: map_of_SomeD intro: rev_image_eqI)
  show ?case using Cons none by (cases gn) (auto simp: share_of_def)
qed (simp add: share_of_def)

lemma waiver_entry_names:
  "waiver_entry v = Inr w \<Longrightarrow> set (butlast w) = family_value ` set all_families"
  by (auto simp: waiver_entry_def bindE_eq_Inr butlast_append split: json.splits list.splits
      dest!: arg_cong [where f = "image family_value"])

section \<open>The portfolio\<close>

lemma consumable_names [simp]:
  "consumable ''branch_generation_attempts'' = Inr BranchGenerationAttempts"
  "consumable ''branch_count'' = Inr BranchCount"
  by code_simp+

lemma consume_attempt:
  "consume ''branch_generation_attempts'' 1 l = Inr l' \<longleftrightarrow>
     sl_consumed l BranchGenerationAttempts < sp_bound (sl_policy l) BranchGenerationAttempts
     \<and> l' = l\<lparr>sl_consumed := (sl_consumed l)(BranchGenerationAttempts := sl_consumed l BranchGenerationAttempts + 1)\<rparr>"
  by (auto simp: consume_def bindE_eq_Inr)

lemma consume_creation:
  "consume_creation_budget l = Inr l' \<longleftrightarrow>
     sl_consumed l BranchGenerationAttempts < sp_bound (sl_policy l) BranchGenerationAttempts
     \<and> sl_consumed l BranchCount < sp_bound (sl_policy l) BranchCount
     \<and> l' = l\<lparr>sl_consumed := (sl_consumed l)
          (BranchGenerationAttempts := sl_consumed l BranchGenerationAttempts + 1,
           BranchCount := sl_consumed l BranchCount + 1)\<rparr>"
  by (auto simp: consume_creation_budget_def creation_counters_def remaining_def consume_def bindE_eq_Inr
      checks_Inr)

inductive portfolio_run :: "hexdigest \<Rightarrow> (str \<Rightarrow> str) \<Rightarrow> synthesis_policy \<Rightarrow> portfolio \<Rightarrow> bool"
  for H nfc p where
  start: "portfolio_run H nfc p (new_portfolio p)"
| enqueued: "portfolio_run H nfc p s \<Longrightarrow> enqueue H nfc a s = Inr (b, s') \<Longrightarrow> portfolio_run H nfc p s'"
| moved: "portfolio_run H nfc p s \<Longrightarrow> transition_branch H m s = Inr (b, s') \<Longrightarrow> portfolio_run H nfc p s'"

definition created :: "portfolio \<Rightarrow> research_branch list" where
  "created s = filter (\<lambda>b. br_state b = BranchProposed) (pf_history s)"

lemma enqueueE:
  assumes "enqueue H nfc a s = Inr (b, s')"
  obtains l where "br_state b = BranchProposed" and "br_depth b \<le> sp_bound (pf_policy s) BranchDepth"
    and "attempt_depth a s = Inr (br_depth b)" and "br_parent_branch_id b = at_parent_branch_id a"
    and "branch_post_init b = Inr ()"
    and "pf_by_key s (br_duplicate_key b) = None" and "consume_creation_budget (pf_ledger s) = Inr l"
    and "pf_policy s' = pf_policy s" and "pf_ledger s' = l" and "pf_history s' = pf_history s @ [b]"
    and "pf_branches s' = AList.update (br_branch_id b) b (pf_branches s)"
    and "pf_by_key s' = (pf_by_key s)(br_duplicate_key b \<mapsto> br_branch_id b)"
    and "pf_transitions s' = pf_transitions s"
  using assms unfolding enqueue_def bindE_eq_Inr
  by (elim exE conjE) (auto simp: bindE_eq_Inr Let_def attempt_branch_def split: option.splits)

lemma transitionE:
  assumes "transition_branch H m s = Inr (b, s')"
  obtains current l where "map_of (pf_branches s) (mv_branch_id m) = Some current"
    and "b = moved_branch m (br_state b) current" and "br_state b \<in> set (allowed_transitions (br_state current))"
    and "consume ''branch_generation_attempts'' 1 (pf_ledger s) = Inr l"
    and "pf_policy s' = pf_policy s" and "pf_ledger s' = l" and "pf_history s' = pf_history s @ [b]"
    and "pf_branches s' = AList.update (mv_branch_id m) b (pf_branches s)"
    and "pf_by_key s' = pf_by_key s"
    and "pf_transitions s' = pf_transitions s @ [move_transition H m current (br_state b) s]"
  using assms unfolding transition_branch_def bindE_eq_Inr
  by (elim exE conjE) (auto simp: bindE_eq_Inr Let_def moved_branch_def get_branch_def split: option.splits)

definition portfolio_ok :: "synthesis_policy \<Rightarrow> portfolio \<Rightarrow> bool" where
  "portfolio_ok p s \<longleftrightarrow>
     pf_policy s = p \<and> sl_policy (pf_ledger s) = p
     \<and> sl_consumed (pf_ledger s) BranchGenerationAttempts = int (length (pf_history s))
     \<and> sl_consumed (pf_ledger s) BranchCount = int (length (created s))
     \<and> length (pf_history s) = length (created s) + length (pf_transitions s)
     \<and> (pf_history s = [] \<or> int (length (pf_history s)) \<le> sp_bound p BranchGenerationAttempts
          \<and> int (length (created s)) \<le> sp_bound p BranchCount)
     \<and> distinct (map br_duplicate_key (created s))
     \<and> (\<forall>b \<in> set (pf_history s). pf_by_key s (br_duplicate_key b) = Some (br_branch_id b)
          \<and> br_depth b \<le> sp_bound p BranchDepth \<and> map_of (pf_branches s) (br_branch_id b) \<noteq> None
          \<and> (\<forall>i. br_parent_branch_id b = Some i \<longrightarrow> map_of (pf_branches s) i \<noteq> None))
     \<and> (\<forall>i b. map_of (pf_branches s) i = Some b \<longrightarrow> b \<in> set (pf_history s) \<and> br_branch_id b = i)
     \<and> (\<forall>t \<in> set (pf_transitions s). bt_to_state t \<in> set (allowed_transitions (bt_from_state t)))"

lemma allowed_not_proposed [simp]: "BranchProposed \<notin> set (allowed_transitions st)"
  by (cases st) simp_all

lemma moved_branch_fields [simp]:
  "br_duplicate_key (moved_branch m t b) = br_duplicate_key b"
  "br_branch_id (moved_branch m t b) = br_branch_id b" "br_depth (moved_branch m t b) = br_depth b"
  "br_parent_branch_id (moved_branch m t b) = br_parent_branch_id b" "br_state (moved_branch m t b) = t"
  by (simp_all add: moved_branch_def)

lemma portfolio_run_ok: "portfolio_run H nfc p s \<Longrightarrow> portfolio_ok p s"
proof (induction rule: portfolio_run.induct)
  case start
  then show ?case
    by (simp add: portfolio_ok_def new_portfolio_def new_synthesis_ledger_def created_def)
next
  case (enqueued s a b s')
  from enqueued.hyps(2) obtain l where e: "br_state b = BranchProposed"
      "br_depth b \<le> sp_bound (pf_policy s) BranchDepth" "attempt_depth a s = Inr (br_depth b)"
      "br_parent_branch_id b = at_parent_branch_id a" "pf_by_key s (br_duplicate_key b) = None"
      "consume_creation_budget (pf_ledger s) = Inr l" "pf_policy s' = pf_policy s" "pf_ledger s' = l"
      "pf_history s' = pf_history s @ [b]"
      "pf_branches s' = AList.update (br_branch_id b) b (pf_branches s)"
      "pf_by_key s' = (pf_by_key s)(br_duplicate_key b \<mapsto> br_branch_id b)"
      "pf_transitions s' = pf_transitions s"
    by (rule enqueueE)
  have parent: "map_of (pf_branches s) i \<noteq> None" if "br_parent_branch_id b = Some i" for i
    using e(3,4) that by (auto simp: attempt_depth_def bindE_eq_Inr get_branch_def split: option.splits)
  have fresh: "br_duplicate_key b \<notin> br_duplicate_key ` set (pf_history s)"
    using e(5) enqueued.IH by (auto simp: portfolio_ok_def)
  show ?case
    using enqueued.IH e fresh parent
    by (auto simp: portfolio_ok_def consume_creation created_def update_conv')
next
  case (moved s m b s')
  from moved.hyps(2) obtain current l t
    where e: "map_of (pf_branches s) (mv_branch_id m) = Some current"
      "b = moved_branch m t current" "t \<in> set (allowed_transitions (br_state current))"
      "consume ''branch_generation_attempts'' 1 (pf_ledger s) = Inr l"
      "pf_policy s' = pf_policy s" "pf_ledger s' = l" "pf_history s' = pf_history s @ [b]"
      "pf_branches s' = AList.update (mv_branch_id m) b (pf_branches s)" "pf_by_key s' = pf_by_key s"
      "pf_transitions s' = pf_transitions s @ [move_transition H m current t s]"
    by (elim transitionE) (metis moved_branch_fields(5))
  have current: "current \<in> set (pf_history s)" "br_branch_id current = mv_branch_id m"
    using moved.IH e(1) by (auto simp: portfolio_ok_def)
  have new: "created s' = created s"
    using e(3) by (auto simp: created_def e(2,7))
  show ?case
    using moved.IH current e(1,3-6,8-10) unfolding portfolio_ok_def new e(7)
    by (auto simp: e(2) consume_attempt update_conv' move_transition_def Let_def)
qed

lemma created_append:
  "pf_history s' = pf_history s @ [b] \<Longrightarrow>
     created s' = created s @ (if br_state b = BranchProposed then [b] else [])"
  by (simp add: created_def)

lemma history_created:
  "portfolio_run H nfc p s \<Longrightarrow> b \<in> set (pf_history s) \<Longrightarrow> br_branch_id b \<in> br_branch_id ` set (created s)"
proof (induction arbitrary: b rule: portfolio_run.induct)
  case start
  then show ?case by (simp add: new_portfolio_def)
next
  case (enqueued s a b0 s')
  from enqueued.hyps(2) have "br_state b0 = BranchProposed" "pf_history s' = pf_history s @ [b0]"
    by (auto elim: enqueueE)
  then show ?case using enqueued.IH enqueued.prems created_append [of s' s b0] by auto
next
  case (moved s m b0 s')
  from moved.hyps(2) obtain current t where "map_of (pf_branches s) (mv_branch_id m) = Some current"
    and b0: "b0 = moved_branch m t current" and "pf_history s' = pf_history s @ [b0]"
    by (elim transitionE) (metis moved_branch_fields(5))
  moreover have "current \<in> set (pf_history s)"
    using portfolio_run_ok [OF moved.hyps(1)] calculation(1) by (auto simp: portfolio_ok_def)
  ultimately show ?case
    using moved.IH moved.prems created_append [of s' s b0] by (auto simp: b0 image_Un)
qed

section \<open>Steering\<close>

inductive steering_run :: "hexdigest \<Rightarrow> str \<Rightarrow> synthesis_policy \<Rightarrow> steering_log \<Rightarrow> bool" for H root p where
  start: "new_steering_log root p = Inr l \<Longrightarrow> steering_run H root p l"
| appended: "steering_run H root p l \<Longrightarrow> steering_append H q l = Inr (r, l') \<Longrightarrow> steering_run H root p l'"

lemma lowering_checks:
  "mapE (lowering_check p) lowered = Inr changes \<Longrightarrow> (c, i) \<in> set changes \<Longrightarrow>
     i \<le> sp_bound p c \<and> c \<notin> set reserve_fields"
  by (induction lowered arbitrary: changes)
    (auto simp: bindE_eq_Inr lowering_check_def split: option.splits)

lemma restrict_lowers:
  assumes "restrict_policy lowered p = Inr q"
  shows "sp_bound q c \<le> sp_bound p c" and "c \<in> set reserve_fields \<Longrightarrow> sp_bound q c = sp_bound p c"
    and "sp_version q = sp_version p" and "policy_post_init q = Inr ()"
  using assms
  by (auto simp: restrict_policy_def bindE_eq_Inr Let_def split: option.splits
      dest!: map_of_SomeD dest: lowering_checks)

lemma effective_lowers:
  assumes "effective_policy q l = Inr p"
  shows "sp_bound p c \<le> sp_bound (sg_policy l) c"
    and "c \<in> set reserve_fields \<Longrightarrow> sp_bound p c = sp_bound (sg_policy l) c"
    and "sp_version p = sp_version (sg_policy l)"
  using assms by (auto simp: effective_policy_def restrict_lowers split: if_splits)

definition reserved_ratio :: "synthesis_policy \<Rightarrow> int \<times> int" where
  "reserved_ratio p = (sp_bound p ReserveNumerator, sp_bound p ReserveDenominator)"

lemma steering_appendE:
  assumes "steering_append H q l = Inr (r, l')"
  obtains (same) "l' = l" and "r \<in> set (sg_records l)" and "sr_idempotency_key r = sq_idempotency_key q"
  | (fresh) p where "effective_policy q l = Inr p" and "authorize (sq_principal q) = Inr ()"
      and "find (\<lambda>r. sr_idempotency_key r = sq_idempotency_key q) (sg_records l) = None"
      and "l' = l\<lparr>sg_policy := p, sg_records := sg_records l @ [r]\<rparr>"
      and "sr_idempotency_key r = sq_idempotency_key q" and "sr_sequence r = int (length (sg_records l)) + 1"
      and "sr_causal_predecessor_id r
        = (if sg_records l = [] then sg_root_id l else sr_steering_id (last (sg_records l)))"
proof -
  from assms obtain a p where a: "steering_shape q = Inr a" and p: "effective_policy q l = Inr p"
    by (auto simp: steering_append_def bindE_eq_Inr)
  have auth: "authorize (sq_principal q) = Inr ()"
    using a by (auto simp: steering_shape_def bindE_eq_Inr)
  show thesis
  proof (cases "find (\<lambda>r. sr_idempotency_key r = sq_idempotency_key q) (sg_records l)")
    case None
    then show thesis
      using assms p auth fresh by (auto simp: steering_append_def bindE_eq_Inr Let_def)
  next
    case (Some x)
    then have "x \<in> set (sg_records l)" "sr_idempotency_key x = sq_idempotency_key q"
      by (auto simp: find_Some_iff)
    then show thesis
      using assms Some same by (auto simp: steering_append_def bindE_eq_Inr)
  qed
qed

definition chained :: "str \<Rightarrow> steering_record list \<Rightarrow> bool" where
  "chained root rs \<longleftrightarrow>
     (\<forall>k < length rs. sr_sequence (rs ! k) = int k + 1
        \<and> sr_causal_predecessor_id (rs ! k) = (if k = 0 then root else sr_steering_id (rs ! (k - 1))))"

lemma chained_snoc:
  "chained root rs \<Longrightarrow> sr_sequence r = int (length rs) + 1 \<Longrightarrow>
     sr_causal_predecessor_id r = (if rs = [] then root else sr_steering_id (last rs)) \<Longrightarrow>
     chained root (rs @ [r])"
  by (auto simp: chained_def nth_append last_conv_nth less_Suc_eq)

definition steering_step ::
    "hexdigest \<Rightarrow> steering_request \<Rightarrow> steering_log \<Rightarrow> steering_record synthesis \<times> steering_log" where
  "steering_step H q l =
     (case steering_append H q l of Inl e \<Rightarrow> (Inl e, l) | Inr (r, l') \<Rightarrow> (Inr r, l'))"

definition steering_lookup :: "steering_log \<Rightarrow> str \<Rightarrow> steering_record option" where
  "steering_lookup l key = find (\<lambda>r. sr_idempotency_key r = key) (sg_records l)"

interpretation steering: append_only "steering_step H" steering_lookup for H
  by unfold_locales
    (auto simp: steering_step_def steering_lookup_def find_append split: sum.splits elim!: steering_appendE)

end
