(* ===== verification/Synthesis_Demo.thy ===== *)
theory Synthesis_Demo
  imports Synthesis_Runs
begin

text \<open>
  A concrete synthesis run: a policy with an allocation, a portfolio with one branch that is proposed
  and abandoned, and a steering log with two rebudgets, evaluated by the definitions.
\<close>

definition demo_policy :: synthesis_policy where
  "demo_policy =
     \<lparr>sp_version = ''v1'', sp_bound = (\<lambda>c. case c of ReserveNumerator \<Rightarrow> 1 | ReserveDenominator \<Rightarrow> 4 | _ \<Rightarrow> 10)\<rparr>"

lemma demo_policy_valid: "policy_post_init demo_policy = Inr ()"
  by code_simp

definition demo_hash :: hexdigest where
  "demo_hash content = replicate 24 CHR ''0''"

definition demo_attempt :: attempt where
  "demo_attempt =
     \<lparr>at_hypothesis = ''h'', at_strategy_family = JStr ''direct_proof'', at_objective_delta = ''d'',
      at_falsification_conditions = [''f''], at_snapshot = ''g'', at_constraint_configuration = JObj [],
      at_required_evidence = [], at_parent_branch_id = None, at_confidence_proposal = ''c'',
      at_retry = None\<rparr>"

definition demo_move :: "str \<Rightarrow> move" where
  "demo_move i =
     \<lparr>mv_branch_id = i, mv_to_state = JStr ''abandoned'', mv_reason = ''r'', mv_actor_id = ''actor'',
      mv_failure_detail = ''refuted'', mv_discoveries = [], mv_stop_reason = None\<rparr>"

definition demo_portfolio1 :: "(research_branch \<times> portfolio) synthesis" where
  "demo_portfolio1 = enqueue demo_hash (\<lambda>s. s) demo_attempt (new_portfolio demo_policy)"

definition demo_portfolio2 :: "(research_branch \<times> portfolio) synthesis" where
  "demo_portfolio2 =
     transition_branch demo_hash (demo_move (br_branch_id (fst (projr demo_portfolio1)))) (snd (projr demo_portfolio1))"

definition demo_request :: "str \<Rightarrow> int \<Rightarrow> steering_request" where
  "demo_request key i =
     \<lparr>sq_principal = \<lparr>st_principal_id = ''ada'', st_actor_kind = ''human'', st_authority = ''human_final'',
        st_capability_id = ''cap'', st_capability_operation = ''steer_research''\<rparr>,
      sq_action = JStr ''rebudget'', sq_instruction = ''less'', sq_idempotency_key = key,
      sq_target_branch_id = None, sq_target_objective_id = None,
      sq_lowered_bounds = [(''model_calls'', JInt i)]\<rparr>"

definition demo_log0 :: steering_log where
  "demo_log0 = \<lparr>sg_root_id = ''root'', sg_policy = demo_policy, sg_records = []\<rparr>"

definition demo_log1 :: "(steering_record \<times> steering_log) synthesis" where
  "demo_log1 = steering_append demo_hash (demo_request ''k1'' 5) demo_log0"

definition demo_log2 :: "(steering_record \<times> steering_log) synthesis" where
  "demo_log2 = steering_append demo_hash (demo_request ''k2'' 3) (snd (projr demo_log1))"

lemma demo_portfolio_built:
  "(isl demo_portfolio1, isl demo_portfolio2,
     map_sum id (\<lambda>(b, s). (br_state b, map br_state (pf_history s), map br_branch_id (created s))) demo_portfolio2)
   = (False, False, Inr (BranchAbandoned, [BranchProposed, BranchAbandoned], [''branch.00000000000000000'' @ ''0000000'']))"
  by code_simp

lemma demo_logs_built:
  "(isl demo_log1, isl demo_log2,
     map_sum id (\<lambda>(r, l). (sp_bound (sg_policy l) ModelCalls, map sr_idempotency_key (sg_records l))) demo_log2)
   = (False, False, Inr (3, [''k1'', ''k2'']))"
  by code_simp

definition demo_allocation :: "reserve_allocation synthesis" where
  "demo_allocation =
     allocate_with_reserve demo_policy ''direct_proof'' [''direct_proof'', ''counterexample_search'']
       [(''direct_proof'', JInt 7), (''counterexample_search'', JInt 3)] []"

lemma demo_allocation_built: "isl demo_allocation = False"
  by code_simp

lemma demo_run:
  "portfolio_run demo_hash (\<lambda>s. s) demo_policy (snd (projr demo_portfolio1))"
  "portfolio_run demo_hash (\<lambda>s. s) demo_policy (snd (projr demo_portfolio2))"
proof -
  have ok: "isl demo_portfolio1 = False" "isl demo_portfolio2 = False"
    using demo_portfolio_built by (simp_all only: prod.inject)
  have "enqueue demo_hash (\<lambda>s. s) demo_attempt (new_portfolio demo_policy)
      = Inr (fst (projr demo_portfolio1), snd (projr demo_portfolio1))"
    using not_isl [OF ok(1)] by (simp add: demo_portfolio1_def)
  then show run: "portfolio_run demo_hash (\<lambda>s. s) demo_policy (snd (projr demo_portfolio1))"
    by (rule portfolio_run.enqueued [OF portfolio_run.start])
  have "transition_branch demo_hash (demo_move (br_branch_id (fst (projr demo_portfolio1))))
      (snd (projr demo_portfolio1)) = Inr (fst (projr demo_portfolio2), snd (projr demo_portfolio2))"
    using not_isl [OF ok(2)] by (simp add: demo_portfolio2_def)
  then show "portfolio_run demo_hash (\<lambda>s. s) demo_policy (snd (projr demo_portfolio2))"
    by (rule portfolio_run.moved [OF run])
qed

lemma demo_final:
  "map br_state (pf_history (snd (projr demo_portfolio2))) = [BranchProposed, BranchAbandoned]"
  "map br_branch_id (created (snd (projr demo_portfolio2))) = [''branch.00000000000000000'' @ ''0000000'']"
proof -
  have "map_sum id (\<lambda>(b, s). (br_state b, map br_state (pf_history s), map br_branch_id (created s)))
      demo_portfolio2
    = Inr (BranchAbandoned, [BranchProposed, BranchAbandoned], [''branch.00000000000000000'' @ ''0000000''])"
    using demo_portfolio_built by (simp only: prod.inject)
  from map_sum_Inr [OF this]
  show "map br_state (pf_history (snd (projr demo_portfolio2))) = [BranchProposed, BranchAbandoned]"
    and "map br_branch_id (created (snd (projr demo_portfolio2))) = [''branch.00000000000000000'' @ ''0000000'']"
    by (simp_all only: case_prod_unfold prod.inject)
qed

lemma demo_logs:
  "sp_bound (sg_policy (snd (projr demo_log2))) ModelCalls = 3"
  "map sr_idempotency_key (sg_records (snd (projr demo_log2))) = [''k1'', ''k2'']"
proof -
  have "map_sum id (\<lambda>(r, l). (sp_bound (sg_policy l) ModelCalls, map sr_idempotency_key (sg_records l)))
      demo_log2 = Inr (3, [''k1'', ''k2''])"
    using demo_logs_built by (simp only: prod.inject)
  from map_sum_Inr [OF this]
  show "sp_bound (sg_policy (snd (projr demo_log2))) ModelCalls = 3"
    and "map sr_idempotency_key (sg_records (snd (projr demo_log2))) = [''k1'', ''k2'']"
    by (simp_all only: case_prod_unfold prod.inject)
qed

lemma demo_steering_run:
  "steering_run demo_hash ''root'' demo_policy (snd (projr demo_log2))"
proof -
  have ok: "isl demo_log1 = False" "isl demo_log2 = False"
    using demo_logs_built by (simp_all only: prod.inject)
  have "new_steering_log ''root'' demo_policy = Inr demo_log0"
    by (simp add: new_steering_log_def demo_log0_def synthesis_identifier_def identifier_matches_def
        id_body_def bindE_eq_Inr)
  then have zero: "steering_run demo_hash ''root'' demo_policy demo_log0"
    by (rule steering_run.start)
  have "steering_append demo_hash (demo_request ''k1'' 5) demo_log0
      = Inr (fst (projr demo_log1), snd (projr demo_log1))"
    using not_isl [OF ok(1)] by (simp add: demo_log1_def)
  then have one: "steering_run demo_hash ''root'' demo_policy (snd (projr demo_log1))"
    by (rule steering_run.appended [OF zero])
  have "steering_append demo_hash (demo_request ''k2'' 3) (snd (projr demo_log1))
      = Inr (fst (projr demo_log2), snd (projr demo_log2))"
    using not_isl [OF ok(2)] by (simp add: demo_log2_def)
  then show "steering_run demo_hash ''root'' demo_policy (snd (projr demo_log2))"
    by (rule steering_run.appended [OF one])
qed

lemma demo_lookup: "steering_lookup (snd (projr demo_log2)) ''k1'' \<noteq> None"
  using demo_logs(2) by (auto simp: steering_lookup_def find_None_iff map_eq_Cons_conv)

end
