(* ===== verification/Synthesis_Props.thy ===== *)
theory Synthesis_Props
  imports Synthesis_Demo
begin

text \<open>
  What the budget of a synthesis run promises: the exploration reserve, the finiteness and the
  append-only history of the branch portfolio, and a steering log that can only lower the bounds.
\<close>

section \<open>The exploration reserve\<close>

text \<open>C6: With two eligible families every accepted allocation leaves the families other than the
  incumbent at least the reserved share of the attempts, rounded up and never zero, spends no more than
  the attempts there are, and names eligible families only.  With one, every reserved attempt that is
  not spent has a record that names all families.\<close>

theorem exploration_reserve_kept:
  assumes "policy_post_init p = Inr ()" and "distinct (map fst allocations)"
    and "allocate_with_reserve p incumbent eligible allocations waivers = Inr a"
  shows "\<exists>charged f B r. incumbent = family_value f \<and> B = sp_bound p BranchGenerationAttempts
    \<and> r = ra_reserved a \<and> ra_allocations a = sort_key fst (map (\<lambda>(g, n). (family_value g, n)) charged)
    \<and> 1 \<le> r \<and> r \<le> B
    \<and> B * sp_bound p ReserveNumerator \<le> sp_bound p ReserveDenominator * r
    \<and> sp_bound p ReserveDenominator * (r - 1) < B * sp_bound p ReserveNumerator
    \<and> sum_list (map snd charged) \<le> B
    \<and> (\<forall>(g, n) \<in> set charged. family_value g \<in> set eligible \<and> 0 \<le> n)
    \<and> (if 2 \<le> length eligible
        then r \<le> sum_list (map snd (filter (\<lambda>(g, n). g \<noteq> f) charged)) \<and> share_of f charged \<le> B - r
        else int (length (ra_waivers a))
               = max 0 (r - sum_list (map snd (filter (\<lambda>(g, n). g \<noteq> f) charged)))
          \<and> (\<forall>w \<in> set (ra_waivers a). set (butlast w) = family_value ` set all_families))"
proof -
  define B where "B = sp_bound p BranchGenerationAttempts"
  from assms(3) obtain families f charged parsed
    where families: "mapE (\<lambda>s. parse_family (JStr s) ''strategy_family'') eligible = Inr families"
    and f: "incumbent = family_value f"
    and charged: "mapE (allocation_entry families) allocations = Inr charged"
    and within: "sum_list (map snd charged) \<le> B"
    and parsed: "mapE waiver_entry waivers = Inr parsed"
    and checked: "reserve_checks B (reserved_attempts p) (length families) (share_of f charged)
       (sum_list (map snd charged)) (length parsed) = Inr ()"
    and a: "ra_reserved a = reserved_attempts p" "ra_waivers a = parsed"
      "ra_allocations a = sort_key fst (map (\<lambda>(g, n). (family_value g, n)) charged)"
    unfolding allocate_with_reserve_def Let_def bindE_eq_Inr parse_family_Inr B_def
    by (elim exE conjE) (auto simp: bindE_eq_Inr)
  have names: "map family_value families = eligible"
    using families by (induction eligible arbitrary: families) (auto simp: bindE_eq_Inr parse_family_Inr)
  have "map family_value (map fst charged) = map fst allocations"
    using allocation_entries(1) [OF charged] by (simp add: comp_def case_prod_unfold)
  then have "distinct (map fst charged)"
    using assms(2) by (metis distinct_map)
  then have split: "sum_list (map snd charged)
      = share_of f charged + sum_list (map snd (filter (\<lambda>(g, n). g \<noteq> f) charged))"
    by (rule share_split)
  have "\<forall>w \<in> set parsed. set (butlast w) = family_value ` set all_families"
    using parsed by (induction waivers arbitrary: parsed) (auto simp: bindE_eq_Inr dest!: waiver_entry_names)
  moreover have "\<forall>(g, n) \<in> set charged. family_value g \<in> set eligible \<and> 0 \<le> n"
    using allocation_entries(2) [OF charged] names by auto
  moreover have "length families = length eligible" using names by auto
  ultimately show ?thesis
    using reserved_attempts_ceiling [OF assms(1)] f within checked a split
    by (intro exI [of _ charged] exI [of _ f] exI [of _ B] exI [of _ "ra_reserved a"])
      (auto simp: B_def reserve_checks_def Let_def checks_Inr split: if_splits)
qed

lemma exploration_reserve_kept_witness:
  "distinct (map fst [(''direct_proof'', JInt 7), (''counterexample_search'', JInt 3)])
   \<and> 10 \<le> 4 * ra_reserved (projr demo_allocation) \<and> 4 * (ra_reserved (projr demo_allocation) - 1) < 10"
proof -
  have d: "distinct (map fst [(''direct_proof'', JInt 7), (''counterexample_search'', JInt 3)])"
    by simp
  show ?thesis
    using exploration_reserve_kept [OF demo_policy_valid d
        not_isl [OF demo_allocation_built, unfolded demo_allocation_def]] d
    by (simp only: demo_allocation_def) (auto simp: demo_policy_def)
qed

section \<open>The portfolio\<close>

text \<open>C5: However operations are chosen, a portfolio accepts at most as many of them as its policy has
  branch-generation attempts, and creates at most its branch count; the ledger counts exactly what the
  history holds, no two attempts have the same duplicate key, and every branch stays addressable, with
  its parent, within the depth bound and moved only along the allowed transitions.\<close>

theorem portfolio_bounded:
  assumes "portfolio_run H nfc p s" and "policy_post_init p = Inr ()"
  shows "int (length (pf_history s)) \<le> sp_bound p BranchGenerationAttempts
    \<and> int (length (created s)) \<le> sp_bound p BranchCount
    \<and> sl_consumed (pf_ledger s) BranchGenerationAttempts = int (length (pf_history s))
    \<and> sl_consumed (pf_ledger s) BranchCount = int (length (created s))
    \<and> length (pf_history s) = length (created s) + length (pf_transitions s)
    \<and> distinct (map br_duplicate_key (created s))
    \<and> (\<forall>b \<in> set (pf_history s). (\<exists>b'. find_by_key (br_duplicate_key b) s = Some b')
         \<and> br_depth b \<le> sp_bound p BranchDepth
         \<and> (\<forall>i. br_parent_branch_id b = Some i \<longrightarrow> (\<exists>parent. get_branch i s = Inr parent)))
    \<and> (\<forall>t \<in> set (pf_transitions s). bt_to_state t \<in> set (allowed_transitions (bt_from_state t)))"
proof -
  have ok: "portfolio_ok p s" by (rule portfolio_run_ok [OF assms(1)])
  have positive: "0 < sp_bound p BranchGenerationAttempts" "0 < sp_bound p BranchCount"
    using policy_post_init_Inr [OF assms(2)] by (simp_all add: positive_bounds_def)
  have "int (length (pf_history s)) \<le> sp_bound p BranchGenerationAttempts
      \<and> int (length (created s)) \<le> sp_bound p BranchCount"
    using ok positive by (cases "pf_history s = []") (auto simp: portfolio_ok_def created_def)
  moreover have "(\<exists>b'. find_by_key (br_duplicate_key b) s = Some b')
      \<and> br_depth b \<le> sp_bound p BranchDepth
      \<and> (\<forall>i. br_parent_branch_id b = Some i \<longrightarrow> (\<exists>parent. get_branch i s = Inr parent))"
    if "b \<in> set (pf_history s)" for b
    using ok that by (fastforce simp: portfolio_ok_def find_by_key_def get_branch_def)
  ultimately show ?thesis
    using ok by (simp add: portfolio_ok_def)
qed

lemma portfolio_bounded_witness:
  "int (length (pf_history (snd (projr demo_portfolio2)))) \<le> 10"
  using portfolio_bounded [OF demo_run(2) demo_policy_valid] by (simp add: demo_policy_def)

text \<open>An abandoned or completed branch stays what it is: its last snapshot remains the one found
  under its identifier, unless the identifiers of two different attempts collide.\<close>

theorem final_branch_stays:
  assumes "portfolio_run H nfc p s" and "distinct (map br_branch_id (created s))"
    and "b \<in> set (pf_history s)" and "br_state b = BranchAbandoned \<or> br_state b = BranchCompleted"
  shows "get_branch (br_branch_id b) s = Inr b"
proof -
  have "b \<in> set (pf_history s) \<Longrightarrow> allowed_transitions (br_state b) = []
      \<Longrightarrow> map_of (pf_branches s) (br_branch_id b) = Some b" for b
    using assms(1,2)
  proof (induction arbitrary: b rule: portfolio_run.induct)
    case start
    then show ?case by (simp add: new_portfolio_def)
  next
    case (enqueued s a b0 s')
    from enqueued.hyps(2) have new: "br_state b0 = BranchProposed" "pf_history s' = pf_history s @ [b0]"
        "pf_branches s' = AList.update (br_branch_id b0) b0 (pf_branches s)"
      by (auto elim: enqueueE)
    have split: "created s' = created s @ [b0]" using created_append [OF new(2)] new(1) by simp
    have b: "b \<in> set (pf_history s)" using enqueued.prems(1,2) new(1,2) by auto
    then have "br_branch_id b \<noteq> br_branch_id b0"
      using history_created [OF enqueued.hyps(1) b] enqueued.prems(3) by (auto simp: split)
    then show ?case
      using enqueued.IH [OF b enqueued.prems(2)] enqueued.prems(3) by (simp add: new(3) update_conv' split)
  next
    case (moved s m b0 s')
    from moved.hyps(2) obtain current t
      where current: "map_of (pf_branches s) (mv_branch_id m) = Some current"
        and t: "t \<in> set (allowed_transitions (br_state current))"
        and new: "b0 = moved_branch m t current" "pf_history s' = pf_history s @ [b0]"
          "pf_branches s' = AList.update (mv_branch_id m) b0 (pf_branches s)"
      by (elim transitionE) (metis moved_branch_fields(5))
    have id: "br_branch_id current = mv_branch_id m"
      using portfolio_run_ok [OF moved.hyps(1)] current by (auto simp: portfolio_ok_def)
    have "created s' = created s" using created_append [OF new(2)] t by (auto simp: new(1))
    then have IH: "map_of (pf_branches s) (br_branch_id b) = Some b"
      if "b \<in> set (pf_history s)" using moved.IH [OF that moved.prems(2)] moved.prems(3) by simp
    show ?case
      using moved.prems(1,2) IH current t id by (auto simp: new update_conv')
  qed
  with assms(3,4) show ?thesis by (auto simp: get_branch_def)
qed

lemma final_branch_stays_witness:
  "get_branch (br_branch_id (pf_history (snd (projr demo_portfolio2)) ! 1)) (snd (projr demo_portfolio2))
     = Inr (pf_history (snd (projr demo_portfolio2)) ! 1)"
proof (rule final_branch_stays [OF demo_run(2)])
  show "distinct (map br_branch_id (created (snd (projr demo_portfolio2))))"
    by (simp only: demo_final) simp
  have size: "length (pf_history (snd (projr demo_portfolio2))) = 2"
    using arg_cong [OF demo_final(1), of length] by simp
  then show "pf_history (snd (projr demo_portfolio2)) ! 1 \<in> set (pf_history (snd (projr demo_portfolio2)))"
    by simp
  show "br_state (pf_history (snd (projr demo_portfolio2)) ! 1) = BranchAbandoned
      \<or> br_state (pf_history (snd (projr demo_portfolio2)) ! 1) = BranchCompleted"
    using arg_cong [OF demo_final(1), of "\<lambda>xs. xs ! 1"] size by simp
qed

section \<open>Steering\<close>

text \<open>C7: Whatever is asked of a steering log, the policy in force never exceeds the policy it started
  with in any bound and keeps its reserve ratio; every record has its own key, its place in the
  sequence and its predecessor, and is found unchanged after any further requests.\<close>

theorem steering_only_lowers:
  assumes "steering_run H root p l"
  shows "(\<forall>c. sp_bound (sg_policy l) c \<le> sp_bound p c)
    \<and> reserved_ratio (sg_policy l) = reserved_ratio p
    \<and> distinct (map sr_idempotency_key (sg_records l)) \<and> chained root (sg_records l)
    \<and> (steering_lookup l key = Some r \<longrightarrow>
         steering_lookup (foldl (\<lambda>l q. snd (steering_step H q l)) l qs) key = Some r)"
proof -
  have "(\<forall>c. sp_bound (sg_policy l) c \<le> sp_bound p c) \<and> reserved_ratio (sg_policy l) = reserved_ratio p
    \<and> distinct (map sr_idempotency_key (sg_records l)) \<and> chained root (sg_records l) \<and> sg_root_id l = root"
    using assms
  proof (induction rule: steering_run.induct)
    case (start l)
    then show ?case by (auto simp: new_steering_log_def bindE_eq_Inr chained_def)
  next
    case (appended l q r l')
    from appended.hyps(2) show ?case
    proof (cases rule: steering_appendE)
      case same
      then show ?thesis using appended.IH by simp
    next
      case (fresh p')
      have "sp_bound p' c \<le> sp_bound p c" for c
        using effective_lowers(1) [OF fresh(1), of c] appended.IH by (meson order_trans)
      moreover have "reserved_ratio p' = reserved_ratio p"
        using effective_lowers(2) [OF fresh(1)] appended.IH by (simp add: reserved_ratio_def reserve_fields_def)
      moreover have "sq_idempotency_key q \<notin> sr_idempotency_key ` set (sg_records l)"
        using fresh(3) by (auto simp: find_None_iff)
      ultimately show ?thesis
        using appended.IH fresh(4-7) chained_snoc [of root "sg_records l" r] by simp
    qed
  qed
  then show ?thesis using steering.many_keep by blast
qed

lemma steering_only_lowers_witness:
  "steering_lookup
     (snd (steering_step demo_hash (demo_request ''k3'' 1) (snd (projr demo_log2)))) ''k1''
   = steering_lookup (snd (projr demo_log2)) ''k1'' \<and> reserved_ratio (sg_policy (snd (projr demo_log2))) = (1, 4)"
proof -
  obtain r where r: "steering_lookup (snd (projr demo_log2)) ''k1'' = Some r"
    using demo_lookup by auto
  show ?thesis
    using steering_only_lowers [OF demo_steering_run, of "''k1''" r "[demo_request ''k3'' 1]"] r
    by (simp add: reserved_ratio_def demo_policy_def)
qed

text \<open>C40: A rebudget is checked against the policy in force before its key is looked up: once a bound
  was lowered further, repeating the request that lowered it first is refused instead of returning the
  record it left.\<close>

theorem rebudget_retry_refused:
  assumes "(name, JInt i) \<in> set (sq_lowered_bounds q)" and "counter_of name = Some c"
    and "sp_bound (sg_policy l) c < i"
  shows "\<exists>e. steering_append H q l = Inl e"
proof (cases "steering_append H q l")
  case (Inr rl)
  then obtain changes where "mapE (lowering_check (sg_policy l)) (sq_lowered_bounds q) = Inr changes"
    using assms(1)
    by (auto simp: steering_append_def effective_policy_def restrict_policy_def bindE_eq_Inr split: if_splits)
  then have all: "list_all2 (\<lambda>kv ci. lowering_check (sg_policy l) kv = Inr ci) (sq_lowered_bounds q) changes"
    by (simp add: mapE_Inr_all2)
  obtain k where "k < length (sq_lowered_bounds q)" "sq_lowered_bounds q ! k = (name, JInt i)"
    using assms(1) by (auto simp: in_set_conv_nth)
  with list_all2_nthD [OF all] have "lowering_check (sg_policy l) (name, JInt i) = Inr (changes ! k)"
    by metis
  then show ?thesis
    using assms(2,3) by (auto simp: lowering_check_def strict_int_def bindE_eq_Inr)
qed simp

lemma rebudget_retry_refused_witness:
  "isl demo_log1 = False \<and>
   isl (steering_append demo_hash (demo_request ''k1'' 5) (snd (projr demo_log2)))"
proof -
  have "counter_of ''model_calls'' = Some ModelCalls" by code_simp
  then have "\<exists>e. steering_append demo_hash (demo_request ''k1'' 5) (snd (projr demo_log2)) = Inl e"
    by (intro rebudget_retry_refused [of "''model_calls''" 5 "demo_request ''k1'' 5" ModelCalls])
      (simp_all add: demo_request_def demo_logs(1))
  then show ?thesis using demo_logs_built by auto
qed

end
